(* ===== verification/Prelude.thy ===== *)
theory Prelude
  imports Main "HOL-Library.Word"
begin

text \<open>
  Shared vocabulary of the development: the machine types of the C sources, the errno
  values they use, the result type of a function that returns \<open>-1\<close> with \<open>errno\<close> set, the
  wrap-around arithmetic of \<open>size_t\<close>, the array scans (first index that satisfies a test,
  number of entries that satisfy it) that the daemon's tables are built on, and the word
  lemmas every component uses.
\<close>

unbundle bit_operations_syntax

named_theorems wire_simps "lengths and layouts of the wire structures"
named_theorems const_defs "values of the protocol constants"

section \<open>Machine types\<close>

text \<open>
  Fixed-width C integers are words; \<open>int32_t\<close> is a 32-bit word read with \<open>sint\<close>. File
  descriptors and C \<open>int\<close> flags that only hold small values are \<open>int\<close> and \<open>bool\<close>.
  \<open>size_t\<close> and \<open>unsigned\<close> indices, lengths and limits are \<open>nat\<close>; where the source adds or
  subtracts on them without a guard the wrap-around is written out (\<open>size_add\<close>, \<open>size_sub\<close>).
\<close>

type_synonym u8 = "8 word"
type_synonym u16 = "16 word"
type_synonym u32 = "32 word"
type_synonym u64 = "64 word"
type_synonym i32 = "32 word"
type_synonym bytes = "8 word list"
type_synonym task_id = "64 word"
type_synonym resource_id = "32 word"
type_synonym errno = int

definition size_add :: "nat \<Rightarrow> nat \<Rightarrow> nat" where
  "size_add a b = (a + b) mod 2 ^ 64"

definition size_sub :: "nat \<Rightarrow> nat \<Rightarrow> nat" where
  "size_sub a b = (2 ^ 64 + a - b) mod 2 ^ 64"

text \<open>The conversion of a \<open>size_t\<close> to \<open>unsigned\<close>.\<close>

definition unsigned_cast :: "nat \<Rightarrow> nat" where
  "unsigned_cast n = n mod 2 ^ 32"

section \<open>errno values\<close>

abbreviation (input) EPERM :: errno where "EPERM \<equiv> 1"
abbreviation (input) ENOENT :: errno where "ENOENT \<equiv> 2"
abbreviation (input) EINTR :: errno where "EINTR \<equiv> 4"
abbreviation (input) EIO :: errno where "EIO \<equiv> 5"
abbreviation (input) EBADF :: errno where "EBADF \<equiv> 9"
abbreviation (input) EAGAIN :: errno where "EAGAIN \<equiv> 11"
abbreviation (input) ENOMEM :: errno where "ENOMEM \<equiv> 12"
abbreviation (input) EACCES :: errno where "EACCES \<equiv> 13"
abbreviation (input) EBUSY :: errno where "EBUSY \<equiv> 16"
abbreviation (input) EINVAL :: errno where "EINVAL \<equiv> 22"
abbreviation (input) EPIPE :: errno where "EPIPE \<equiv> 32"
abbreviation (input) ENAMETOOLONG :: errno where "ENAMETOOLONG \<equiv> 36"
abbreviation (input) ENOSYS :: errno where "ENOSYS \<equiv> 38"
abbreviation (input) EPROTO :: errno where "EPROTO \<equiv> 71"
abbreviation (input) EOVERFLOW :: errno where "EOVERFLOW \<equiv> 75"
abbreviation (input) EMSGSIZE :: errno where "EMSGSIZE \<equiv> 90"
abbreviation (input) ENOTSUP :: errno where "ENOTSUP \<equiv> 95"

text \<open>The \<open>int32_t\<close> result \<open>-e\<close> that the daemon sends for errno \<open>e\<close>.\<close>

definition neg_errno :: "errno \<Rightarrow> i32" where
  "neg_errno e = word_of_int (- e)"

section \<open>Results of functions that return -1 and set errno\<close>

text \<open>
  A stateful C function is a function from its state to a result and the state it leaves:
  \<open>Inl e\<close> for \<open>errno = e; return -1\<close>, \<open>Inr x\<close> for a normal return. The state is kept on
  both branches: a C function that fails keeps what it changed before the failure.
\<close>

type_synonym ('a, 's) res = "(errno + 'a) \<times> 's"

definition bind_rc :: "('a, 's) res \<Rightarrow> ('a \<Rightarrow> 's \<Rightarrow> ('b, 's) res) \<Rightarrow> ('b, 's) res" where
  "bind_rc r f = (case r of (Inl e, s) \<Rightarrow> (Inl e, s) | (Inr x, s) \<Rightarrow> f x s)"

section \<open>Array scans\<close>

text \<open>The loop that returns the first index below \<open>n\<close> whose entry satisfies \<open>P\<close>.\<close>

definition find_slot :: "('a \<Rightarrow> bool) \<Rightarrow> nat \<Rightarrow> 'a list \<Rightarrow> nat option" where
  "find_slot P n xs = find (\<lambda>i. P (xs ! i)) [0..<n]"

text \<open>The loop that counts the entries below \<open>n\<close> that satisfy \<open>P\<close>.\<close>

definition count_slots :: "('a \<Rightarrow> bool) \<Rightarrow> nat \<Rightarrow> 'a list \<Rightarrow> nat" where
  "count_slots P n xs = length (filter P (take n xs))"

abbreviation cnt :: "('a \<Rightarrow> bool) \<Rightarrow> 'a list \<Rightarrow> nat" where
  "cnt P xs \<equiv> length (filter P xs)"

section \<open>Lemmas\<close>

lemma bind_rc_Inl [simp]: "bind_rc (Inl e, s) f = (Inl e, s)"
  by (simp add: bind_rc_def)

lemma bind_rc_Inr [simp]: "bind_rc (Inr x, s) f = f x s"
  by (simp add: bind_rc_def)

lemma bind_rc_cases:
  assumes "bind_rc r f = out"
  obtains (err) e s where "r = (Inl e, s)" "out = (Inl e, s)"
  | (ok) x s where "r = (Inr x, s)" "f x s = out"
  using assms by (auto simp: bind_rc_def split: prod.splits sum.splits)

lemma size_sub_le [simp]: "b \<le> a \<Longrightarrow> a < 2 ^ 64 \<Longrightarrow> size_sub a b = a - b"
proof -
  assume "b \<le> a" "a < 2 ^ 64"
  then have "2 ^ 64 + a - b = 2 ^ 64 + (a - b)" by simp
  with \<open>a < 2 ^ 64\<close> show ?thesis
    by (simp only: size_sub_def mod_add_self1) simp
qed

lemma size_add_small [simp]: "a + b < 2 ^ 64 \<Longrightarrow> size_add a b = a + b"
  by (simp add: size_add_def)

lemma size_sub_underflow: "0 < b \<Longrightarrow> b < 2 ^ 64 \<Longrightarrow> size_sub 0 b = 2 ^ 64 - b"
  by (simp add: size_sub_def)

lemma find_slot_Some:
  "find_slot P n xs = Some i \<Longrightarrow> i < n \<and> P (xs ! i) \<and> (\<forall>j < i. \<not> P (xs ! j))"
proof (induction n arbitrary: i)
  case 0
  then show ?case by (simp add: find_slot_def)
next
  case (Suc n)
  have find_append: "find Q (ys @ zs) = (case find Q ys of None \<Rightarrow> find Q zs | Some y \<Rightarrow> Some y)"
    for Q and ys zs :: "nat list"
    by (induction ys) auto
  have none: "find_slot P n xs = None \<Longrightarrow> \<forall>j < n. \<not> P (xs ! j)"
    by (auto simp: find_slot_def find_None_iff)
  show ?case
  proof (cases "find_slot P n xs")
    case None
    with Suc.prems none show ?thesis
      by (auto simp: find_slot_def find_append split: if_splits)
  next
    case (Some k)
    with Suc.prems have "k = i" by (simp add: find_slot_def find_append)
    with Suc.IH [OF Some] show ?thesis by auto
  qed
qed

lemma find_slot_None: "find_slot P n xs = None \<longleftrightarrow> (\<forall>i < n. \<not> P (xs ! i))"
  by (auto simp: find_slot_def find_None_iff)

lemma find_slot_ex: "i < n \<Longrightarrow> P (xs ! i) \<Longrightarrow> \<exists>j. find_slot P n xs = Some j"
  using find_slot_None [of P n xs] by (cases "find_slot P n xs") auto

lemma nth_update: "(xs[i := x]) ! k = (if k = i \<and> i < length xs then x else xs ! k)"
  by (cases "i < length xs") (auto simp: nth_list_update list_update_beyond)

lemma cnt_update:
  "i < length xs \<Longrightarrow>
    cnt P (xs[i := x]) + (if P (xs ! i) then 1 else 0) = cnt P xs + (if P x then 1 else 0)"
proof (induction xs arbitrary: i)
  case Nil
  then show ?case by simp
next
  case (Cons y ys)
  show ?case
  proof (cases i)
    case 0
    then show ?thesis by simp
  next
    case (Suc j)
    with Cons.prems Cons.IH [of j] show ?thesis by (simp split: if_splits)
  qed
qed

lemma cnt_update_same:
  "i < length xs \<Longrightarrow> P x = P (xs ! i) \<Longrightarrow> cnt P (xs[i := x]) = cnt P xs"
  using cnt_update [of i xs P x] by simp

lemma cnt_update_add:
  "i < length xs \<Longrightarrow> \<not> P (xs ! i) \<Longrightarrow> P x \<Longrightarrow> cnt P (xs[i := x]) = Suc (cnt P xs)"
  using cnt_update [of i xs P x] by simp

lemma cnt_update_remove:
  "i < length xs \<Longrightarrow> P (xs ! i) \<Longrightarrow> \<not> P x \<Longrightarrow> cnt P (xs[i := x]) = cnt P xs - 1"
  using cnt_update [of i xs P x] by simp

lemma cnt_pos: "i < length xs \<Longrightarrow> P (xs ! i) \<Longrightarrow> 0 < cnt P xs"
  by (metis filter_empty_conv length_greater_0_conv nth_mem)

lemma count_slots_le: "count_slots P n xs \<le> n"
  unfolding count_slots_def by (metis length_filter_le length_take min.bounded_iff order_trans)

lemma count_slots_zero:
  "n \<le> length xs \<Longrightarrow> count_slots P n xs = 0 \<longleftrightarrow> (\<forall>i < n. \<not> P (xs ! i))"
  by (force simp: count_slots_def filter_empty_conv in_set_conv_nth)

lemma count_slots_pos_find:
  "n \<le> length xs \<Longrightarrow> 0 < count_slots P n xs \<longleftrightarrow> (\<exists>i. find_slot P n xs = Some i)"
  using count_slots_zero [of n xs P] find_slot_None [of P n xs]
  by (metis gr0I not_None_eq not_gr0)

lemma take_length_take: "take (length (take n xs)) xs = take n xs"
  by (cases "n \<le> length xs") auto

lemma unat_bound:
  fixes x :: "'a::len word"
  shows "unat x < 2 ^ LENGTH('a)"
  by (rule unsigned_less)

lemma unat_inc:
  fixes x :: "'a::len word"
  shows "unat x < 2 ^ LENGTH('a) - 1 \<Longrightarrow> unat (x + 1) = unat x + 1"
  by (simp add: unat_word_ariths)

lemma unat_dec:
  fixes x :: "'a::len word"
  shows "x \<noteq> 0 \<Longrightarrow> unat (x - 1) = unat x - 1"
  by (simp add: unat_minus_one)

end
