(* ===== verification/Wire.thy ===== *)
theory Wire
  imports Prelude
begin

text \<open>
  The wire protocol of include/iouringd/api.h and include/iouringd/protocol.h: the protocol
  constants, one record per C structure, and the byte layout of each structure as an encoder
  and a decoder. The layout is the one the header's \<open>_Static_assert\<close>s fix: little-endian
  fields at the asserted offsets and no padding, so a structure of size \<open>n\<close> and a byte string
  of length \<open>n\<close> determine each other. That contract is the locale \<open>packed_codec\<close>, interpreted
  for every structure; the daemon and the client library rest on it.

  \<open>iouringd_sock_read_request_v1\<close> is also the layout of the sock_write, file_read, file_write,
  connect, accept and close requests (the last field is \<open>length\<close>, \<open>sockaddr_length\<close> or
  \<open>reserved2\<close>), \<open>iouringd_sock_read_fixed_request_v1\<close> that of the sock_write_fixed request, and
  \<open>iouringd_control_request_v1\<close> that of the register_fd and get_stats requests. The one-field
  structures for task and resource identifiers are their field.
\<close>

unbundle bit_operations_syntax

section \<open>Protocol constants\<close>

abbreviation (input) IOURINGD_TASK_ID_INVALID :: task_id where "IOURINGD_TASK_ID_INVALID \<equiv> 0"
abbreviation (input) IOURINGD_RESOURCE_ID_INVALID :: resource_id where "IOURINGD_RESOURCE_ID_INVALID \<equiv> 0"
abbreviation (input) IOURINGD_TASK_KIND_NOP :: u16 where "IOURINGD_TASK_KIND_NOP \<equiv> 1"
abbreviation (input) IOURINGD_TASK_KIND_TIMEOUT :: u16 where "IOURINGD_TASK_KIND_TIMEOUT \<equiv> 2"
abbreviation (input) IOURINGD_TASK_KIND_CANCEL :: u16 where "IOURINGD_TASK_KIND_CANCEL \<equiv> 3"
abbreviation (input) IOURINGD_TASK_KIND_SOCK_READ :: u16 where "IOURINGD_TASK_KIND_SOCK_READ \<equiv> 4"
abbreviation (input) IOURINGD_TASK_KIND_SOCK_WRITE :: u16 where "IOURINGD_TASK_KIND_SOCK_WRITE \<equiv> 5"
abbreviation (input) IOURINGD_TASK_KIND_SOCK_READ_FIXED :: u16 where "IOURINGD_TASK_KIND_SOCK_READ_FIXED \<equiv> 6"
abbreviation (input) IOURINGD_TASK_KIND_SOCK_WRITE_FIXED :: u16 where "IOURINGD_TASK_KIND_SOCK_WRITE_FIXED \<equiv> 7"
abbreviation (input) IOURINGD_TASK_KIND_FILE_READ :: u16 where "IOURINGD_TASK_KIND_FILE_READ \<equiv> 8"
abbreviation (input) IOURINGD_TASK_KIND_FILE_WRITE :: u16 where "IOURINGD_TASK_KIND_FILE_WRITE \<equiv> 9"
abbreviation (input) IOURINGD_TASK_KIND_POLL :: u16 where "IOURINGD_TASK_KIND_POLL \<equiv> 10"
abbreviation (input) IOURINGD_TASK_KIND_CONNECT :: u16 where "IOURINGD_TASK_KIND_CONNECT \<equiv> 11"
abbreviation (input) IOURINGD_TASK_KIND_ACCEPT :: u16 where "IOURINGD_TASK_KIND_ACCEPT \<equiv> 12"
abbreviation (input) IOURINGD_TASK_KIND_OPENAT :: u16 where "IOURINGD_TASK_KIND_OPENAT \<equiv> 13"
abbreviation (input) IOURINGD_TASK_KIND_CLOSE :: u16 where "IOURINGD_TASK_KIND_CLOSE \<equiv> 14"
abbreviation (input) IOURINGD_TASK_KIND_MAX_V1 :: u16 where "IOURINGD_TASK_KIND_MAX_V1 \<equiv> 15"
abbreviation (input) IOURINGD_ABI_V1_MAJOR :: u16 where "IOURINGD_ABI_V1_MAJOR \<equiv> 1"
abbreviation (input) IOURINGD_ABI_V1_MINOR :: u16 where "IOURINGD_ABI_V1_MINOR \<equiv> 12"
abbreviation (input) IOURINGD_PROTOCOL_V1_MAJOR :: u16 where "IOURINGD_PROTOCOL_V1_MAJOR \<equiv> 1"
abbreviation (input) IOURINGD_PROTOCOL_V1_MINOR :: u16 where "IOURINGD_PROTOCOL_V1_MINOR \<equiv> 12"
abbreviation (input) IOURINGD_PROTOCOL_WIRE_MAGIC :: u32 where "IOURINGD_PROTOCOL_WIRE_MAGIC \<equiv> 0x31444f49"
abbreviation (input) IOURINGD_HANDSHAKE_STATUS_ACCEPT :: u16 where "IOURINGD_HANDSHAKE_STATUS_ACCEPT \<equiv> 0"
abbreviation (input) IOURINGD_HANDSHAKE_STATUS_REJECT :: u16 where "IOURINGD_HANDSHAKE_STATUS_REJECT \<equiv> 1"
abbreviation (input) IOURINGD_HANDSHAKE_STATUS_DEGRADE :: u16 where "IOURINGD_HANDSHAKE_STATUS_DEGRADE \<equiv> 2"
abbreviation (input) IOURINGD_CAPABILITY_OP_NOP :: u32 where "IOURINGD_CAPABILITY_OP_NOP \<equiv> 0x1"
abbreviation (input) IOURINGD_CAPABILITY_OP_TIMEOUT :: u32 where "IOURINGD_CAPABILITY_OP_TIMEOUT \<equiv> 0x2"
abbreviation (input) IOURINGD_CAPABILITY_OP_READV :: u32 where "IOURINGD_CAPABILITY_OP_READV \<equiv> 0x4"
abbreviation (input) IOURINGD_CAPABILITY_OP_WRITEV :: u32 where "IOURINGD_CAPABILITY_OP_WRITEV \<equiv> 0x8"
abbreviation (input) IOURINGD_CAPABILITY_OP_ASYNC_CANCEL :: u32 where "IOURINGD_CAPABILITY_OP_ASYNC_CANCEL \<equiv> 0x10"
abbreviation (input) IOURINGD_CAPABILITY_OP_READ_FIXED :: u32 where "IOURINGD_CAPABILITY_OP_READ_FIXED \<equiv> 0x20"
abbreviation (input) IOURINGD_CAPABILITY_OP_WRITE_FIXED :: u32 where "IOURINGD_CAPABILITY_OP_WRITE_FIXED \<equiv> 0x40"
abbreviation (input) IOURINGD_CAPABILITY_OP_POLL :: u32 where "IOURINGD_CAPABILITY_OP_POLL \<equiv> 0x80"
abbreviation (input) IOURINGD_CAPABILITY_OP_CONNECT :: u32 where "IOURINGD_CAPABILITY_OP_CONNECT \<equiv> 0x100"
abbreviation (input) IOURINGD_CAPABILITY_OP_ACCEPT :: u32 where "IOURINGD_CAPABILITY_OP_ACCEPT \<equiv> 0x200"
abbreviation (input) IOURINGD_CAPABILITY_OP_OPENAT :: u32 where "IOURINGD_CAPABILITY_OP_OPENAT \<equiv> 0x400"
abbreviation (input) IOURINGD_CAPABILITY_OP_CLOSE :: u32 where "IOURINGD_CAPABILITY_OP_CLOSE \<equiv> 0x800"
abbreviation (input) IOURINGD_CAPABILITY_OP_MASK_V1 :: u32 where "IOURINGD_CAPABILITY_OP_MASK_V1 \<equiv> 0xfff"
abbreviation (input) IOURINGD_REQUEST_KIND_REGISTER_FD :: u16 where "IOURINGD_REQUEST_KIND_REGISTER_FD \<equiv> 256"
abbreviation (input) IOURINGD_REQUEST_KIND_RELEASE_RESOURCE :: u16 where "IOURINGD_REQUEST_KIND_RELEASE_RESOURCE \<equiv> 257"
abbreviation (input) IOURINGD_REQUEST_KIND_REGISTER_BUFFER :: u16 where "IOURINGD_REQUEST_KIND_REGISTER_BUFFER \<equiv> 258"
abbreviation (input) IOURINGD_REQUEST_KIND_GET_STATS :: u16 where "IOURINGD_REQUEST_KIND_GET_STATS \<equiv> 259"
abbreviation (input) IOURINGD_REQUEST_KIND_GET_TRACE :: u16 where "IOURINGD_REQUEST_KIND_GET_TRACE \<equiv> 260"
abbreviation (input) IOURINGD_SUBMIT_PRIORITY_NORMAL :: u16 where "IOURINGD_SUBMIT_PRIORITY_NORMAL \<equiv> 0"
abbreviation (input) IOURINGD_SUBMIT_PRIORITY_LOW :: u16 where "IOURINGD_SUBMIT_PRIORITY_LOW \<equiv> 1"
abbreviation (input) IOURINGD_SUBMIT_PRIORITY_HIGH :: u16 where "IOURINGD_SUBMIT_PRIORITY_HIGH \<equiv> 2"
abbreviation (input) IOURINGD_TRACE_EVENT_SUBMIT_ACCEPT :: u16 where "IOURINGD_TRACE_EVENT_SUBMIT_ACCEPT \<equiv> 1"
abbreviation (input) IOURINGD_TRACE_EVENT_SUBMIT_REJECT :: u16 where "IOURINGD_TRACE_EVENT_SUBMIT_REJECT \<equiv> 2"
abbreviation (input) IOURINGD_TRACE_EVENT_COMPLETION :: u16 where "IOURINGD_TRACE_EVENT_COMPLETION \<equiv> 3"
abbreviation (input) IOURINGD_TRACE_EVENT_RESOURCE_REGISTER :: u16 where "IOURINGD_TRACE_EVENT_RESOURCE_REGISTER \<equiv> 4"
abbreviation (input) IOURINGD_TRACE_EVENT_RESOURCE_RELEASE :: u16 where "IOURINGD_TRACE_EVENT_RESOURCE_RELEASE \<equiv> 5"
abbreviation (input) IOURINGD_TASK_ID_RESERVED_MIN :: task_id where "IOURINGD_TASK_ID_RESERVED_MIN \<equiv> 0xfffffffffffffff0"
abbreviation (input) IOURINGD_COMPLETION_RES_OK :: i32 where "IOURINGD_COMPLETION_RES_OK \<equiv> 0"

section \<open>Wire structures\<close>

record iouringd_protocol_header_v1 =
  ph_magic :: u32
  ph_version_major :: u16
  ph_version_minor :: u16

record iouringd_handshake_request_v1 =
  hq_header :: iouringd_protocol_header_v1
  hq_abi_major :: u16
  hq_abi_minor :: u16
  hq_reserved :: u32

record iouringd_handshake_response_v1 =
  hp_header :: iouringd_protocol_header_v1
  hp_abi_major :: u16
  hp_abi_minor :: u16
  hp_status :: u16
  hp_reserved :: u16

record iouringd_capability_descriptor_v1 =
  cap_struct_size :: u32
  cap_features :: u32
  cap_ring_entries :: u32
  cap_cq_entries :: u32
  cap_op_mask :: u32
  cap_submit_credits :: u32
  cap_registered_fd_slots :: u32
  cap_registered_buffer_slots :: u32
  cap_io_bytes_max :: u32

record iouringd_handshake_result_v1 =
  hr_response :: iouringd_handshake_response_v1
  hr_capabilities :: iouringd_capability_descriptor_v1

record iouringd_submit_request_v1 =
  sr_header :: iouringd_protocol_header_v1
  sr_task_kind :: u16
  sr_priority :: u16
  sr_reserved1 :: u32

record iouringd_control_request_v1 =
  cr_header :: iouringd_protocol_header_v1
  cr_request_kind :: u16
  cr_reserved0 :: u16
  cr_reserved1 :: u32

record iouringd_timeout_request_v1 =
  tmo_submit :: iouringd_submit_request_v1
  tmo_timeout_nsec :: u64

record iouringd_cancel_request_v1 =
  can_header :: iouringd_protocol_header_v1
  can_task_kind :: u16
  can_reserved0 :: u16
  can_reserved1 :: u32
  can_target :: task_id

record iouringd_sock_read_request_v1 =
  io_submit :: iouringd_submit_request_v1
  io_resource :: resource_id
  io_length :: u32

record iouringd_poll_request_v1 =
  po_submit :: iouringd_submit_request_v1
  po_resource :: resource_id
  po_poll_mask :: u16
  po_reserved2 :: u16

record iouringd_openat_request_v1 =
  oa_submit :: iouringd_submit_request_v1
  oa_open_flags :: i32
  oa_open_mode :: u32
  oa_path_length :: u32

record iouringd_sock_read_fixed_request_v1 =
  fx_submit :: iouringd_submit_request_v1
  fx_file_resource :: resource_id
  fx_buffer_resource :: resource_id
  fx_length :: u32

record iouringd_register_buffer_request_v1 =
  rb_control :: iouringd_control_request_v1
  rb_length :: u32
  rb_reserved2 :: u32

record iouringd_release_resource_request_v1 =
  rr_control :: iouringd_control_request_v1
  rr_resource :: resource_id
  rr_reserved2 :: u32

record iouringd_get_trace_request_v1 =
  gt_control :: iouringd_control_request_v1
  gt_after_sequence :: u64
  gt_max_events :: u32
  gt_reserved2 :: u32

record iouringd_submit_result_v1 =
  sres_task :: task_id
  sres_res :: i32
  sres_credits :: u32

record iouringd_resource_result_v1 =
  rres_resource :: resource_id
  rres_res :: i32
  rres_resources_available :: u32
  rres_reserved :: u32

record iouringd_stats_result_v1 =
  st_active_clients :: u32
  st_outstanding_tasks :: u32
  st_outstanding_credit_tasks :: u32
  st_available_credits :: u32
  st_registered_files :: u32
  st_registered_buffers :: u32
  st_accepted_submits :: u64
  st_rejected_submits :: u64
  st_completions :: u64
  st_per_client_credit_limit :: u32
  st_clients_at_credit_limit :: u32

record iouringd_trace_result_v1 =
  tr_oldest_sequence :: u64
  tr_latest_sequence :: u64
  tr_count :: u32
  tr_reserved :: u32

record iouringd_trace_event_v1 =
  te_sequence :: u64
  te_timestamp_nsec :: u64
  te_task :: task_id
  te_resource :: resource_id
  te_res :: i32
  te_credits :: u32
  te_event_kind :: u16
  te_task_kind :: u16
  te_client_slot :: u16
  te_priority :: u16
  te_reserved1 :: u32

record iouringd_completion_record_v1 =
  cp_header :: iouringd_protocol_header_v1
  cp_task :: task_id
  cp_res :: i32
  cp_task_kind :: u16
  cp_payload_length :: u16

type_synonym iouringd_sock_write_request_v1 = iouringd_sock_read_request_v1
type_synonym iouringd_file_read_request_v1 = iouringd_sock_read_request_v1
type_synonym iouringd_file_write_request_v1 = iouringd_sock_read_request_v1
type_synonym iouringd_connect_request_v1 = iouringd_sock_read_request_v1
type_synonym iouringd_accept_request_v1 = iouringd_sock_read_request_v1
type_synonym iouringd_close_request_v1 = iouringd_sock_read_request_v1
type_synonym iouringd_sock_write_fixed_request_v1 = iouringd_sock_read_fixed_request_v1

section \<open>Little-endian fields\<close>

text \<open>\<open>le_enc n w\<close> is the low \<open>n\<close> bytes of \<open>w\<close>, least significant first.\<close>

fun le_enc :: "nat \<Rightarrow> 'a::len word \<Rightarrow> bytes" where
  "le_enc 0 w = []"
| "le_enc (Suc n) w = ucast w # le_enc n (drop_bit 8 w)"

fun le_dec :: "bytes \<Rightarrow> 'a::len word" where
  "le_dec [] = 0"
| "le_dec (b # bs) = ucast b OR push_bit 8 (le_dec bs)"

text \<open>The \<open>n\<close> bytes at offset \<open>off\<close>: what \<open>memcpy\<close> into a structure gives its field there.\<close>

definition slice_at :: "nat \<Rightarrow> nat \<Rightarrow> bytes \<Rightarrow> bytes" where
  "slice_at off n bs = take n (drop off bs)"

section \<open>Layout of the structures\<close>

abbreviation (input) sizeof_protocol_header :: nat where
  "sizeof_protocol_header \<equiv> 8"

definition enc_protocol_header :: "iouringd_protocol_header_v1 \<Rightarrow> bytes" where
  "enc_protocol_header r =
     le_enc 4 (ph_magic r) @
     le_enc 2 (ph_version_major r) @
     le_enc 2 (ph_version_minor r)"

definition dec_protocol_header :: "bytes \<Rightarrow> iouringd_protocol_header_v1" where
  "dec_protocol_header bs =
     \<lparr>ph_magic = le_dec (slice_at 0 4 bs),
      ph_version_major = le_dec (slice_at 4 2 bs),
      ph_version_minor = le_dec (slice_at 6 2 bs)\<rparr>"

abbreviation (input) sizeof_handshake_request :: nat where
  "sizeof_handshake_request \<equiv> 16"

definition enc_handshake_request :: "iouringd_handshake_request_v1 \<Rightarrow> bytes" where
  "enc_handshake_request r =
     enc_protocol_header (hq_header r) @
     le_enc 2 (hq_abi_major r) @
     le_enc 2 (hq_abi_minor r) @
     le_enc 4 (hq_reserved r)"

definition dec_handshake_request :: "bytes \<Rightarrow> iouringd_handshake_request_v1" where
  "dec_handshake_request bs =
     \<lparr>hq_header = dec_protocol_header (drop 0 bs),
      hq_abi_major = le_dec (slice_at 8 2 bs),
      hq_abi_minor = le_dec (slice_at 10 2 bs),
      hq_reserved = le_dec (slice_at 12 4 bs)\<rparr>"

abbreviation (input) sizeof_handshake_response :: nat where
  "sizeof_handshake_response \<equiv> 16"

definition enc_handshake_response :: "iouringd_handshake_response_v1 \<Rightarrow> bytes" where
  "enc_handshake_response r =
     enc_protocol_header (hp_header r) @
     le_enc 2 (hp_abi_major r) @
     le_enc 2 (hp_abi_minor r) @
     le_enc 2 (hp_status r) @
     le_enc 2 (hp_reserved r)"

definition dec_handshake_response :: "bytes \<Rightarrow> iouringd_handshake_response_v1" where
  "dec_handshake_response bs =
     \<lparr>hp_header = dec_protocol_header (drop 0 bs),
      hp_abi_major = le_dec (slice_at 8 2 bs),
      hp_abi_minor = le_dec (slice_at 10 2 bs),
      hp_status = le_dec (slice_at 12 2 bs),
      hp_reserved = le_dec (slice_at 14 2 bs)\<rparr>"

abbreviation (input) sizeof_capability_descriptor :: nat where
  "sizeof_capability_descriptor \<equiv> 36"

definition enc_capability_descriptor :: "iouringd_capability_descriptor_v1 \<Rightarrow> bytes" where
  "enc_capability_descriptor r =
     le_enc 4 (cap_struct_size r) @
     le_enc 4 (cap_features r) @
     le_enc 4 (cap_ring_entries r) @
     le_enc 4 (cap_cq_entries r) @
     le_enc 4 (cap_op_mask r) @
     le_enc 4 (cap_submit_credits r) @
     le_enc 4 (cap_registered_fd_slots r) @
     le_enc 4 (cap_registered_buffer_slots r) @
     le_enc 4 (cap_io_bytes_max r)"

definition dec_capability_descriptor :: "bytes \<Rightarrow> iouringd_capability_descriptor_v1" where
  "dec_capability_descriptor bs =
     \<lparr>cap_struct_size = le_dec (slice_at 0 4 bs),
      cap_features = le_dec (slice_at 4 4 bs),
      cap_ring_entries = le_dec (slice_at 8 4 bs),
      cap_cq_entries = le_dec (slice_at 12 4 bs),
      cap_op_mask = le_dec (slice_at 16 4 bs),
      cap_submit_credits = le_dec (slice_at 20 4 bs),
      cap_registered_fd_slots = le_dec (slice_at 24 4 bs),
      cap_registered_buffer_slots = le_dec (slice_at 28 4 bs),
      cap_io_bytes_max = le_dec (slice_at 32 4 bs)\<rparr>"

abbreviation (input) sizeof_handshake_result :: nat where
  "sizeof_handshake_result \<equiv> 52"

definition enc_handshake_result :: "iouringd_handshake_result_v1 \<Rightarrow> bytes" where
  "enc_handshake_result r =
     enc_handshake_response (hr_response r) @
     enc_capability_descriptor (hr_capabilities r)"

definition dec_handshake_result :: "bytes \<Rightarrow> iouringd_handshake_result_v1" where
  "dec_handshake_result bs =
     \<lparr>hr_response = dec_handshake_response (drop 0 bs),
      hr_capabilities = dec_capability_descriptor (drop 16 bs)\<rparr>"

abbreviation (input) sizeof_submit_request :: nat where
  "sizeof_submit_request \<equiv> 16"

definition enc_submit_request :: "iouringd_submit_request_v1 \<Rightarrow> bytes" where
  "enc_submit_request r =
     enc_protocol_header (sr_header r) @
     le_enc 2 (sr_task_kind r) @
     le_enc 2 (sr_priority r) @
     le_enc 4 (sr_reserved1 r)"

definition dec_submit_request :: "bytes \<Rightarrow> iouringd_submit_request_v1" where
  "dec_submit_request bs =
     \<lparr>sr_header = dec_protocol_header (drop 0 bs),
      sr_task_kind = le_dec (slice_at 8 2 bs),
      sr_priority = le_dec (slice_at 10 2 bs),
      sr_reserved1 = le_dec (slice_at 12 4 bs)\<rparr>"

abbreviation (input) sizeof_control_request :: nat where
  "sizeof_control_request \<equiv> 16"

definition enc_control_request :: "iouringd_control_request_v1 \<Rightarrow> bytes" where
  "enc_control_request r =
     enc_protocol_header (cr_header r) @
     le_enc 2 (cr_request_kind r) @
     le_enc 2 (cr_reserved0 r) @
     le_enc 4 (cr_reserved1 r)"

definition dec_control_request :: "bytes \<Rightarrow> iouringd_control_request_v1" where
  "dec_control_request bs =
     \<lparr>cr_header = dec_protocol_header (drop 0 bs),
      cr_request_kind = le_dec (slice_at 8 2 bs),
      cr_reserved0 = le_dec (slice_at 10 2 bs),
      cr_reserved1 = le_dec (slice_at 12 4 bs)\<rparr>"

abbreviation (input) sizeof_timeout_request :: nat where
  "sizeof_timeout_request \<equiv> 24"

definition enc_timeout_request :: "iouringd_timeout_request_v1 \<Rightarrow> bytes" where
  "enc_timeout_request r =
     enc_submit_request (tmo_submit r) @
     le_enc 8 (tmo_timeout_nsec r)"

definition dec_timeout_request :: "bytes \<Rightarrow> iouringd_timeout_request_v1" where
  "dec_timeout_request bs =
     \<lparr>tmo_submit = dec_submit_request (drop 0 bs),
      tmo_timeout_nsec = le_dec (slice_at 16 8 bs)\<rparr>"

abbreviation (input) sizeof_cancel_request :: nat where
  "sizeof_cancel_request \<equiv> 24"

definition enc_cancel_request :: "iouringd_cancel_request_v1 \<Rightarrow> bytes" where
  "enc_cancel_request r =
     enc_protocol_header (can_header r) @
     le_enc 2 (can_task_kind r) @
     le_enc 2 (can_reserved0 r) @
     le_enc 4 (can_reserved1 r) @
     le_enc 8 (can_target r)"

definition dec_cancel_request :: "bytes \<Rightarrow> iouringd_cancel_request_v1" where
  "dec_cancel_request bs =
     \<lparr>can_header = dec_protocol_header (drop 0 bs),
      can_task_kind = le_dec (slice_at 8 2 bs),
      can_reserved0 = le_dec (slice_at 10 2 bs),
      can_reserved1 = le_dec (slice_at 12 4 bs),
      can_target = le_dec (slice_at 16 8 bs)\<rparr>"

abbreviation (input) sizeof_sock_read_request :: nat where
  "sizeof_sock_read_request \<equiv> 24"

definition enc_sock_read_request :: "iouringd_sock_read_request_v1 \<Rightarrow> bytes" where
  "enc_sock_read_request r =
     enc_submit_request (io_submit r) @
     le_enc 4 (io_resource r) @
     le_enc 4 (io_length r)"

definition dec_sock_read_request :: "bytes \<Rightarrow> iouringd_sock_read_request_v1" where
  "dec_sock_read_request bs =
     \<lparr>io_submit = dec_submit_request (drop 0 bs),
      io_resource = le_dec (slice_at 16 4 bs),
      io_length = le_dec (slice_at 20 4 bs)\<rparr>"

abbreviation (input) sizeof_poll_request :: nat where
  "sizeof_poll_request \<equiv> 24"

definition enc_poll_request :: "iouringd_poll_request_v1 \<Rightarrow> bytes" where
  "enc_poll_request r =
     enc_submit_request (po_submit r) @
     le_enc 4 (po_resource r) @
     le_enc 2 (po_poll_mask r) @
     le_enc 2 (po_reserved2 r)"

definition dec_poll_request :: "bytes \<Rightarrow> iouringd_poll_request_v1" where
  "dec_poll_request bs =
     \<lparr>po_submit = dec_submit_request (drop 0 bs),
      po_resource = le_dec (slice_at 16 4 bs),
      po_poll_mask = le_dec (slice_at 20 2 bs),
      po_reserved2 = le_dec (slice_at 22 2 bs)\<rparr>"

abbreviation (input) sizeof_openat_request :: nat where
  "sizeof_openat_request \<equiv> 28"

definition enc_openat_request :: "iouringd_openat_request_v1 \<Rightarrow> bytes" where
  "enc_openat_request r =
     enc_submit_request (oa_submit r) @
     le_enc 4 (oa_open_flags r) @
     le_enc 4 (oa_open_mode r) @
     le_enc 4 (oa_path_length r)"

definition dec_openat_request :: "bytes \<Rightarrow> iouringd_openat_request_v1" where
  "dec_openat_request bs =
     \<lparr>oa_submit = dec_submit_request (drop 0 bs),
      oa_open_flags = le_dec (slice_at 16 4 bs),
      oa_open_mode = le_dec (slice_at 20 4 bs),
      oa_path_length = le_dec (slice_at 24 4 bs)\<rparr>"

abbreviation (input) sizeof_sock_read_fixed_request :: nat where
  "sizeof_sock_read_fixed_request \<equiv> 28"

definition enc_sock_read_fixed_request :: "iouringd_sock_read_fixed_request_v1 \<Rightarrow> bytes" where
  "enc_sock_read_fixed_request r =
     enc_submit_request (fx_submit r) @
     le_enc 4 (fx_file_resource r) @
     le_enc 4 (fx_buffer_resource r) @
     le_enc 4 (fx_length r)"

definition dec_sock_read_fixed_request :: "bytes \<Rightarrow> iouringd_sock_read_fixed_request_v1" where
  "dec_sock_read_fixed_request bs =
     \<lparr>fx_submit = dec_submit_request (drop 0 bs),
      fx_file_resource = le_dec (slice_at 16 4 bs),
      fx_buffer_resource = le_dec (slice_at 20 4 bs),
      fx_length = le_dec (slice_at 24 4 bs)\<rparr>"

abbreviation (input) sizeof_register_buffer_request :: nat where
  "sizeof_register_buffer_request \<equiv> 24"

definition enc_register_buffer_request :: "iouringd_register_buffer_request_v1 \<Rightarrow> bytes" where
  "enc_register_buffer_request r =
     enc_control_request (rb_control r) @
     le_enc 4 (rb_length r) @
     le_enc 4 (rb_reserved2 r)"

definition dec_register_buffer_request :: "bytes \<Rightarrow> iouringd_register_buffer_request_v1" where
  "dec_register_buffer_request bs =
     \<lparr>rb_control = dec_control_request (drop 0 bs),
      rb_length = le_dec (slice_at 16 4 bs),
      rb_reserved2 = le_dec (slice_at 20 4 bs)\<rparr>"

abbreviation (input) sizeof_release_resource_request :: nat where
  "sizeof_release_resource_request \<equiv> 24"

definition enc_release_resource_request :: "iouringd_release_resource_request_v1 \<Rightarrow> bytes" where
  "enc_release_resource_request r =
     enc_control_request (rr_control r) @
     le_enc 4 (rr_resource r) @
     le_enc 4 (rr_reserved2 r)"

definition dec_release_resource_request :: "bytes \<Rightarrow> iouringd_release_resource_request_v1" where
  "dec_release_resource_request bs =
     \<lparr>rr_control = dec_control_request (drop 0 bs),
      rr_resource = le_dec (slice_at 16 4 bs),
      rr_reserved2 = le_dec (slice_at 20 4 bs)\<rparr>"

abbreviation (input) sizeof_get_trace_request :: nat where
  "sizeof_get_trace_request \<equiv> 32"

definition enc_get_trace_request :: "iouringd_get_trace_request_v1 \<Rightarrow> bytes" where
  "enc_get_trace_request r =
     enc_control_request (gt_control r) @
     le_enc 8 (gt_after_sequence r) @
     le_enc 4 (gt_max_events r) @
     le_enc 4 (gt_reserved2 r)"

definition dec_get_trace_request :: "bytes \<Rightarrow> iouringd_get_trace_request_v1" where
  "dec_get_trace_request bs =
     \<lparr>gt_control = dec_control_request (drop 0 bs),
      gt_after_sequence = le_dec (slice_at 16 8 bs),
      gt_max_events = le_dec (slice_at 24 4 bs),
      gt_reserved2 = le_dec (slice_at 28 4 bs)\<rparr>"

abbreviation (input) sizeof_submit_result :: nat where
  "sizeof_submit_result \<equiv> 16"

definition enc_submit_result :: "iouringd_submit_result_v1 \<Rightarrow> bytes" where
  "enc_submit_result r =
     le_enc 8 (sres_task r) @
     le_enc 4 (sres_res r) @
     le_enc 4 (sres_credits r)"

definition dec_submit_result :: "bytes \<Rightarrow> iouringd_submit_result_v1" where
  "dec_submit_result bs =
     \<lparr>sres_task = le_dec (slice_at 0 8 bs),
      sres_res = le_dec (slice_at 8 4 bs),
      sres_credits = le_dec (slice_at 12 4 bs)\<rparr>"

abbreviation (input) sizeof_resource_result :: nat where
  "sizeof_resource_result \<equiv> 16"

definition enc_resource_result :: "iouringd_resource_result_v1 \<Rightarrow> bytes" where
  "enc_resource_result r =
     le_enc 4 (rres_resource r) @
     le_enc 4 (rres_res r) @
     le_enc 4 (rres_resources_available r) @
     le_enc 4 (rres_reserved r)"

definition dec_resource_result :: "bytes \<Rightarrow> iouringd_resource_result_v1" where
  "dec_resource_result bs =
     \<lparr>rres_resource = le_dec (slice_at 0 4 bs),
      rres_res = le_dec (slice_at 4 4 bs),
      rres_resources_available = le_dec (slice_at 8 4 bs),
      rres_reserved = le_dec (slice_at 12 4 bs)\<rparr>"

abbreviation (input) sizeof_stats_result :: nat where
  "sizeof_stats_result \<equiv> 56"

definition enc_stats_result :: "iouringd_stats_result_v1 \<Rightarrow> bytes" where
  "enc_stats_result r =
     le_enc 4 (st_active_clients r) @
     le_enc 4 (st_outstanding_tasks r) @
     le_enc 4 (st_outstanding_credit_tasks r) @
     le_enc 4 (st_available_credits r) @
     le_enc 4 (st_registered_files r) @
     le_enc 4 (st_registered_buffers r) @
     le_enc 8 (st_accepted_submits r) @
     le_enc 8 (st_rejected_submits r) @
     le_enc 8 (st_completions r) @
     le_enc 4 (st_per_client_credit_limit r) @
     le_enc 4 (st_clients_at_credit_limit r)"

definition dec_stats_result :: "bytes \<Rightarrow> iouringd_stats_result_v1" where
  "dec_stats_result bs =
     \<lparr>st_active_clients = le_dec (slice_at 0 4 bs),
      st_outstanding_tasks = le_dec (slice_at 4 4 bs),
      st_outstanding_credit_tasks = le_dec (slice_at 8 4 bs),
      st_available_credits = le_dec (slice_at 12 4 bs),
      st_registered_files = le_dec (slice_at 16 4 bs),
      st_registered_buffers = le_dec (slice_at 20 4 bs),
      st_accepted_submits = le_dec (slice_at 24 8 bs),
      st_rejected_submits = le_dec (slice_at 32 8 bs),
      st_completions = le_dec (slice_at 40 8 bs),
      st_per_client_credit_limit = le_dec (slice_at 48 4 bs),
      st_clients_at_credit_limit = le_dec (slice_at 52 4 bs)\<rparr>"

abbreviation (input) sizeof_trace_result :: nat where
  "sizeof_trace_result \<equiv> 24"

definition enc_trace_result :: "iouringd_trace_result_v1 \<Rightarrow> bytes" where
  "enc_trace_result r =
     le_enc 8 (tr_oldest_sequence r) @
     le_enc 8 (tr_latest_sequence r) @
     le_enc 4 (tr_count r) @
     le_enc 4 (tr_reserved r)"

definition dec_trace_result :: "bytes \<Rightarrow> iouringd_trace_result_v1" where
  "dec_trace_result bs =
     \<lparr>tr_oldest_sequence = le_dec (slice_at 0 8 bs),
      tr_latest_sequence = le_dec (slice_at 8 8 bs),
      tr_count = le_dec (slice_at 16 4 bs),
      tr_reserved = le_dec (slice_at 20 4 bs)\<rparr>"

abbreviation (input) sizeof_trace_event :: nat where
  "sizeof_trace_event \<equiv> 48"

definition enc_trace_event :: "iouringd_trace_event_v1 \<Rightarrow> bytes" where
  "enc_trace_event r =
     le_enc 8 (te_sequence r) @
     le_enc 8 (te_timestamp_nsec r) @
     le_enc 8 (te_task r) @
     le_enc 4 (te_resource r) @
     le_enc 4 (te_res r) @
     le_enc 4 (te_credits r) @
     le_enc 2 (te_event_kind r) @
     le_enc 2 (te_task_kind r) @
     le_enc 2 (te_client_slot r) @
     le_enc 2 (te_priority r) @
     le_enc 4 (te_reserved1 r)"

definition dec_trace_event :: "bytes \<Rightarrow> iouringd_trace_event_v1" where
  "dec_trace_event bs =
     \<lparr>te_sequence = le_dec (slice_at 0 8 bs),
      te_timestamp_nsec = le_dec (slice_at 8 8 bs),
      te_task = le_dec (slice_at 16 8 bs),
      te_resource = le_dec (slice_at 24 4 bs),
      te_res = le_dec (slice_at 28 4 bs),
      te_credits = le_dec (slice_at 32 4 bs),
      te_event_kind = le_dec (slice_at 36 2 bs),
      te_task_kind = le_dec (slice_at 38 2 bs),
      te_client_slot = le_dec (slice_at 40 2 bs),
      te_priority = le_dec (slice_at 42 2 bs),
      te_reserved1 = le_dec (slice_at 44 4 bs)\<rparr>"

abbreviation (input) sizeof_completion_record :: nat where
  "sizeof_completion_record \<equiv> 24"

definition enc_completion_record :: "iouringd_completion_record_v1 \<Rightarrow> bytes" where
  "enc_completion_record r =
     enc_protocol_header (cp_header r) @
     le_enc 8 (cp_task r) @
     le_enc 4 (cp_res r) @
     le_enc 2 (cp_task_kind r) @
     le_enc 2 (cp_payload_length r)"

definition dec_completion_record :: "bytes \<Rightarrow> iouringd_completion_record_v1" where
  "dec_completion_record bs =
     \<lparr>cp_header = dec_protocol_header (drop 0 bs),
      cp_task = le_dec (slice_at 8 8 bs),
      cp_res = le_dec (slice_at 16 4 bs),
      cp_task_kind = le_dec (slice_at 20 2 bs),
      cp_payload_length = le_dec (slice_at 22 2 bs)\<rparr>"

section \<open>The codec contract\<close>

text \<open>
  What the users of a wire structure rely on: every value has a fixed-size image, and decoding
  a byte string that starts with an image gives the value back. A packed structure has no other
  bytes, so re-encoding what was decoded gives the bytes that were read.
\<close>

locale codec =
  fixes enc :: "'a \<Rightarrow> bytes"
    and dec :: "bytes \<Rightarrow> 'a"
    and sz :: nat
  assumes enc_length: "length (enc x) = sz"
    and dec_enc: "dec (enc x @ rest) = x"
begin

lemma dec_enc_exact: "dec (enc x) = x"
  using dec_enc [of x "[]"] by simp

lemma enc_inject: "enc x = enc y \<longleftrightarrow> x = y"
  by (metis dec_enc_exact)

lemma enc_stream_inject: "enc x @ rest = enc y @ rest' \<longleftrightarrow> x = y \<and> rest = rest'"
proof
  assume eq: "enc x @ rest = enc y @ rest'"
  then have "x = y" using dec_enc [of x rest] dec_enc [of y rest'] by simp
  with eq show "x = y \<and> rest = rest'" by simp
qed simp

lemma enc_take: "take sz (enc x @ rest) = enc x"
  by (simp add: enc_length)

lemma enc_drop: "drop sz (enc x @ rest) = rest"
  by (simp add: enc_length)

lemma concat_length: "length (concat (map enc xs)) = sz * length xs"
  by (induction xs) (simp_all add: enc_length)

end

locale packed_codec = codec +
  assumes enc_dec: "sz \<le> length bs \<Longrightarrow> enc (dec bs) = take sz bs"
begin

lemma dec_inject_on:
  assumes "length bs = sz" and "length bs' = sz"
  shows "dec bs = dec bs' \<longleftrightarrow> bs = bs'"
proof
  assume "dec bs = dec bs'"
  then have "enc (dec bs) = enc (dec bs')" by simp
  with assms show "bs = bs'" by (simp add: enc_dec)
qed simp

end

section \<open>Lemmas on fields\<close>

lemma length_le_enc [simp]: "length (le_enc n w) = n"
  by (induction n arbitrary: w) auto

lemma bit_le_dec_enc:
  fixes w :: "'a::len word"
  shows "bit (le_dec (le_enc n w) :: 'a word) k \<longleftrightarrow> k < 8 * n \<and> bit w k"
proof (induction n arbitrary: w k)
  case 0
  then show ?case by simp
next
  case (Suc n)
  have len: "bit w k \<Longrightarrow> k < LENGTH('a)"
    by (rule bit_imp_le_length)
  show ?case
  proof (cases "k < 8")
    case True
    with len show ?thesis
      by (auto simp: bit_or_iff bit_push_bit_iff bit_ucast_iff)
  next
    case False
    then have "bit (le_dec (le_enc (Suc n) w) :: 'a word) k
        \<longleftrightarrow> k < LENGTH('a) \<and> bit (le_dec (le_enc n (drop_bit 8 w)) :: 'a word) (k - 8)"
      by (auto simp: bit_or_iff bit_push_bit_iff bit_ucast_iff)
    with False len show ?thesis
      by (auto simp: Suc.IH bit_drop_bit_eq)
  qed
qed

lemma le_dec_enc:
  fixes w :: "'a::len word"
  assumes "LENGTH('a) = 8 * n"
  shows "le_dec (le_enc n w) = w"
  by (rule bit_word_eqI) (use assms in \<open>auto simp: bit_le_dec_enc\<close>)

lemma bit_byte_bound: "bit (b :: 8 word) k \<Longrightarrow> k < 8"
  using bit_imp_le_length [of b k] by simp

lemma le_enc_cong:
  fixes x y :: "'a::len word"
  assumes "\<And>k. k < 8 * m \<Longrightarrow> bit x k = bit y k"
  shows "le_enc m x = le_enc m y"
  using assms
proof (induction m arbitrary: x y)
  case 0
  then show ?case by simp
next
  case (Suc m)
  have "(ucast x :: 8 word) = ucast y"
  proof (rule bit_word_eqI)
    fix k
    assume "k < LENGTH(8)"
    with Suc.prems [of k] show "bit (ucast x :: 8 word) k = bit (ucast y :: 8 word) k"
      by (simp add: bit_ucast_iff)
  qed
  moreover have "le_enc m (drop_bit 8 x) = le_enc m (drop_bit 8 y)"
  proof (rule Suc.IH)
    fix k
    assume "k < 8 * m"
    with Suc.prems [of "8 + k"] show "bit (drop_bit 8 x) k = bit (drop_bit 8 y) k"
      by (simp add: bit_drop_bit_eq)
  qed
  ultimately show ?case by simp
qed

lemma le_dec_low:
  "8 \<le> LENGTH('a::len) \<Longrightarrow> (ucast (le_dec (b # cs) :: 'a word) :: 8 word) = b"
  by (rule bit_word_eqI) (auto simp: bit_or_iff bit_push_bit_iff bit_ucast_iff)

lemma le_dec_high:
  assumes "k + 8 < LENGTH('a::len)"
  shows "bit (drop_bit 8 (le_dec (b # cs)) :: 'a word) k = bit (le_dec cs :: 'a word) k"
proof -
  have "\<not> bit b (8 + k)" using bit_byte_bound [of b "8 + k"] by auto
  with assms show ?thesis
    by (simp add: bit_drop_bit_eq bit_or_iff bit_push_bit_iff bit_ucast_iff add.commute)
qed

lemma le_enc_dec:
  assumes "length bs = n" and "8 * n \<le> LENGTH('a::len)"
  shows "le_enc n (le_dec bs :: 'a word) = bs"
  using assms
proof (induction n arbitrary: bs)
  case 0
  then show ?case by simp
next
  case (Suc n)
  then obtain b cs where bs: "bs = b # cs" and cs: "length cs = n"
    by (cases bs) auto
  from Suc.prems have len: "8 * n + 8 \<le> LENGTH('a)" by simp
  have "le_enc n (drop_bit 8 (le_dec bs) :: 'a word) = le_enc n (le_dec cs :: 'a word)"
    unfolding bs by (rule le_enc_cong, rule le_dec_high) (use len in simp)
  also have "\<dots> = cs" using Suc.IH [OF cs] len by simp
  finally show ?case
    using le_dec_low [where 'a = 'a, of b cs] len by (simp add: bs)
qed

lemma length_slice_at [simp]: "off + n \<le> length bs \<Longrightarrow> length (slice_at off n bs) = n"
  by (simp add: slice_at_def)

lemma slice_at_append_skip:
  "length xs \<le> off \<Longrightarrow> slice_at off n (xs @ ys) = slice_at (off - length xs) n ys"
  by (simp add: slice_at_def)

lemma slice_at_here: "length xs = n \<Longrightarrow> slice_at 0 n (xs @ ys) = xs"
  by (simp add: slice_at_def)

lemma slice_glue:
  "off' = off + n \<Longrightarrow> slice_at off n bs @ slice_at off' m bs = slice_at off (n + m) bs"
  by (simp add: slice_at_def take_add add.commute [of off])

lemma slice_glue_more:
  "off' = off + n \<Longrightarrow>
    slice_at off n bs @ slice_at off' m bs @ rest = slice_at off (n + m) bs @ rest"
  by (simp add: slice_at_def take_add add.commute [of off])

lemma slice_at_0: "slice_at 0 n bs = take n bs"
  by (simp add: slice_at_def)

lemma take_drop_slice: "take n (drop off bs) = slice_at off n bs"
  by (simp add: slice_at_def)

lemma slice_of_drop: "slice_at off n (drop m bs) = slice_at (m + off) n bs"
  by (simp add: slice_at_def add.commute)

lemmas dec_field_simps = slice_at_append_skip slice_at_here le_dec_enc
lemmas enc_field_simps = le_enc_dec slice_glue slice_glue_more take_drop_slice slice_of_drop

section \<open>Every structure is packed\<close>

interpretation protocol_header: packed_codec enc_protocol_header dec_protocol_header sizeof_protocol_header
proof
  show "length (enc_protocol_header x) = sizeof_protocol_header" for x
    by (simp add: enc_protocol_header_def)
  show "dec_protocol_header (enc_protocol_header x @ rest) = x" for x rest
    by (simp add: enc_protocol_header_def dec_protocol_header_def dec_field_simps)
  show "enc_protocol_header (dec_protocol_header bs) = take sizeof_protocol_header bs" if "sizeof_protocol_header \<le> length bs" for bs
    using that by (simp add: enc_protocol_header_def dec_protocol_header_def enc_field_simps flip: slice_at_0)
qed

interpretation handshake_request: packed_codec enc_handshake_request dec_handshake_request sizeof_handshake_request
proof
  show "length (enc_handshake_request x) = sizeof_handshake_request" for x
    by (simp add: enc_handshake_request_def protocol_header.enc_length)
  show "dec_handshake_request (enc_handshake_request x @ rest) = x" for x rest
    by (simp add: enc_handshake_request_def dec_handshake_request_def dec_field_simps protocol_header.enc_length protocol_header.dec_enc)
  show "enc_handshake_request (dec_handshake_request bs) = take sizeof_handshake_request bs" if "sizeof_handshake_request \<le> length bs" for bs
    using that by (simp add: enc_handshake_request_def dec_handshake_request_def enc_field_simps protocol_header.enc_dec flip: slice_at_0)
qed

interpretation handshake_response: packed_codec enc_handshake_response dec_handshake_response sizeof_handshake_response
proof
  show "length (enc_handshake_response x) = sizeof_handshake_response" for x
    by (simp add: enc_handshake_response_def protocol_header.enc_length)
  show "dec_handshake_response (enc_handshake_response x @ rest) = x" for x rest
    by (simp add: enc_handshake_response_def dec_handshake_response_def dec_field_simps protocol_header.enc_length protocol_header.dec_enc)
  show "enc_handshake_response (dec_handshake_response bs) = take sizeof_handshake_response bs" if "sizeof_handshake_response \<le> length bs" for bs
    using that by (simp add: enc_handshake_response_def dec_handshake_response_def enc_field_simps protocol_header.enc_dec flip: slice_at_0)
qed

interpretation capability_descriptor: packed_codec enc_capability_descriptor dec_capability_descriptor sizeof_capability_descriptor
proof
  show "length (enc_capability_descriptor x) = sizeof_capability_descriptor" for x
    by (simp add: enc_capability_descriptor_def)
  show "dec_capability_descriptor (enc_capability_descriptor x @ rest) = x" for x rest
    by (simp add: enc_capability_descriptor_def dec_capability_descriptor_def dec_field_simps)
  show "enc_capability_descriptor (dec_capability_descriptor bs) = take sizeof_capability_descriptor bs" if "sizeof_capability_descriptor \<le> length bs" for bs
    using that by (simp add: enc_capability_descriptor_def dec_capability_descriptor_def enc_field_simps flip: slice_at_0)
qed

interpretation handshake_result: packed_codec enc_handshake_result dec_handshake_result sizeof_handshake_result
proof
  show "length (enc_handshake_result x) = sizeof_handshake_result" for x
    by (simp add: enc_handshake_result_def capability_descriptor.enc_length handshake_response.enc_length)
  show "dec_handshake_result (enc_handshake_result x @ rest) = x" for x rest
    by (simp add: enc_handshake_result_def dec_handshake_result_def dec_field_simps capability_descriptor.enc_length capability_descriptor.dec_enc handshake_response.enc_length handshake_response.dec_enc)
  show "enc_handshake_result (dec_handshake_result bs) = take sizeof_handshake_result bs" if "sizeof_handshake_result \<le> length bs" for bs
    using that by (simp add: enc_handshake_result_def dec_handshake_result_def enc_field_simps capability_descriptor.enc_dec handshake_response.enc_dec flip: slice_at_0)
qed

interpretation submit_request: packed_codec enc_submit_request dec_submit_request sizeof_submit_request
proof
  show "length (enc_submit_request x) = sizeof_submit_request" for x
    by (simp add: enc_submit_request_def protocol_header.enc_length)
  show "dec_submit_request (enc_submit_request x @ rest) = x" for x rest
    by (simp add: enc_submit_request_def dec_submit_request_def dec_field_simps protocol_header.enc_length protocol_header.dec_enc)
  show "enc_submit_request (dec_submit_request bs) = take sizeof_submit_request bs" if "sizeof_submit_request \<le> length bs" for bs
    using that by (simp add: enc_submit_request_def dec_submit_request_def enc_field_simps protocol_header.enc_dec flip: slice_at_0)
qed

interpretation control_request: packed_codec enc_control_request dec_control_request sizeof_control_request
proof
  show "length (enc_control_request x) = sizeof_control_request" for x
    by (simp add: enc_control_request_def protocol_header.enc_length)
  show "dec_control_request (enc_control_request x @ rest) = x" for x rest
    by (simp add: enc_control_request_def dec_control_request_def dec_field_simps protocol_header.enc_length protocol_header.dec_enc)
  show "enc_control_request (dec_control_request bs) = take sizeof_control_request bs" if "sizeof_control_request \<le> length bs" for bs
    using that by (simp add: enc_control_request_def dec_control_request_def enc_field_simps protocol_header.enc_dec flip: slice_at_0)
qed

interpretation timeout_request: packed_codec enc_timeout_request dec_timeout_request sizeof_timeout_request
proof
  show "length (enc_timeout_request x) = sizeof_timeout_request" for x
    by (simp add: enc_timeout_request_def submit_request.enc_length)
  show "dec_timeout_request (enc_timeout_request x @ rest) = x" for x rest
    by (simp add: enc_timeout_request_def dec_timeout_request_def dec_field_simps submit_request.enc_length submit_request.dec_enc)
  show "enc_timeout_request (dec_timeout_request bs) = take sizeof_timeout_request bs" if "sizeof_timeout_request \<le> length bs" for bs
    using that by (simp add: enc_timeout_request_def dec_timeout_request_def enc_field_simps submit_request.enc_dec flip: slice_at_0)
qed

interpretation cancel_request: packed_codec enc_cancel_request dec_cancel_request sizeof_cancel_request
proof
  show "length (enc_cancel_request x) = sizeof_cancel_request" for x
    by (simp add: enc_cancel_request_def protocol_header.enc_length)
  show "dec_cancel_request (enc_cancel_request x @ rest) = x" for x rest
    by (simp add: enc_cancel_request_def dec_cancel_request_def dec_field_simps protocol_header.enc_length protocol_header.dec_enc)
  show "enc_cancel_request (dec_cancel_request bs) = take sizeof_cancel_request bs" if "sizeof_cancel_request \<le> length bs" for bs
    using that by (simp add: enc_cancel_request_def dec_cancel_request_def enc_field_simps protocol_header.enc_dec flip: slice_at_0)
qed

interpretation sock_read_request: packed_codec enc_sock_read_request dec_sock_read_request sizeof_sock_read_request
proof
  show "length (enc_sock_read_request x) = sizeof_sock_read_request" for x
    by (simp add: enc_sock_read_request_def submit_request.enc_length)
  show "dec_sock_read_request (enc_sock_read_request x @ rest) = x" for x rest
    by (simp add: enc_sock_read_request_def dec_sock_read_request_def dec_field_simps submit_request.enc_length submit_request.dec_enc)
  show "enc_sock_read_request (dec_sock_read_request bs) = take sizeof_sock_read_request bs" if "sizeof_sock_read_request \<le> length bs" for bs
    using that by (simp add: enc_sock_read_request_def dec_sock_read_request_def enc_field_simps submit_request.enc_dec flip: slice_at_0)
qed

interpretation poll_request: packed_codec enc_poll_request dec_poll_request sizeof_poll_request
proof
  show "length (enc_poll_request x) = sizeof_poll_request" for x
    by (simp add: enc_poll_request_def submit_request.enc_length)
  show "dec_poll_request (enc_poll_request x @ rest) = x" for x rest
    by (simp add: enc_poll_request_def dec_poll_request_def dec_field_simps submit_request.enc_length submit_request.dec_enc)
  show "enc_poll_request (dec_poll_request bs) = take sizeof_poll_request bs" if "sizeof_poll_request \<le> length bs" for bs
    using that by (simp add: enc_poll_request_def dec_poll_request_def enc_field_simps submit_request.enc_dec flip: slice_at_0)
qed

interpretation openat_request: packed_codec enc_openat_request dec_openat_request sizeof_openat_request
proof
  show "length (enc_openat_request x) = sizeof_openat_request" for x
    by (simp add: enc_openat_request_def submit_request.enc_length)
  show "dec_openat_request (enc_openat_request x @ rest) = x" for x rest
    by (simp add: enc_openat_request_def dec_openat_request_def dec_field_simps submit_request.enc_length submit_request.dec_enc)
  show "enc_openat_request (dec_openat_request bs) = take sizeof_openat_request bs" if "sizeof_openat_request \<le> length bs" for bs
    using that by (simp add: enc_openat_request_def dec_openat_request_def enc_field_simps submit_request.enc_dec flip: slice_at_0)
qed

interpretation sock_read_fixed_request: packed_codec enc_sock_read_fixed_request dec_sock_read_fixed_request sizeof_sock_read_fixed_request
proof
  show "length (enc_sock_read_fixed_request x) = sizeof_sock_read_fixed_request" for x
    by (simp add: enc_sock_read_fixed_request_def submit_request.enc_length)
  show "dec_sock_read_fixed_request (enc_sock_read_fixed_request x @ rest) = x" for x rest
    by (simp add: enc_sock_read_fixed_request_def dec_sock_read_fixed_request_def dec_field_simps submit_request.enc_length submit_request.dec_enc)
  show "enc_sock_read_fixed_request (dec_sock_read_fixed_request bs) = take sizeof_sock_read_fixed_request bs" if "sizeof_sock_read_fixed_request \<le> length bs" for bs
    using that by (simp add: enc_sock_read_fixed_request_def dec_sock_read_fixed_request_def enc_field_simps submit_request.enc_dec flip: slice_at_0)
qed

interpretation register_buffer_request: packed_codec enc_register_buffer_request dec_register_buffer_request sizeof_register_buffer_request
proof
  show "length (enc_register_buffer_request x) = sizeof_register_buffer_request" for x
    by (simp add: enc_register_buffer_request_def control_request.enc_length)
  show "dec_register_buffer_request (enc_register_buffer_request x @ rest) = x" for x rest
    by (simp add: enc_register_buffer_request_def dec_register_buffer_request_def dec_field_simps control_request.enc_length control_request.dec_enc)
  show "enc_register_buffer_request (dec_register_buffer_request bs) = take sizeof_register_buffer_request bs" if "sizeof_register_buffer_request \<le> length bs" for bs
    using that by (simp add: enc_register_buffer_request_def dec_register_buffer_request_def enc_field_simps control_request.enc_dec flip: slice_at_0)
qed

interpretation release_resource_request: packed_codec enc_release_resource_request dec_release_resource_request sizeof_release_resource_request
proof
  show "length (enc_release_resource_request x) = sizeof_release_resource_request" for x
    by (simp add: enc_release_resource_request_def control_request.enc_length)
  show "dec_release_resource_request (enc_release_resource_request x @ rest) = x" for x rest
    by (simp add: enc_release_resource_request_def dec_release_resource_request_def dec_field_simps control_request.enc_length control_request.dec_enc)
  show "enc_release_resource_request (dec_release_resource_request bs) = take sizeof_release_resource_request bs" if "sizeof_release_resource_request \<le> length bs" for bs
    using that by (simp add: enc_release_resource_request_def dec_release_resource_request_def enc_field_simps control_request.enc_dec flip: slice_at_0)
qed

interpretation get_trace_request: packed_codec enc_get_trace_request dec_get_trace_request sizeof_get_trace_request
proof
  show "length (enc_get_trace_request x) = sizeof_get_trace_request" for x
    by (simp add: enc_get_trace_request_def control_request.enc_length)
  show "dec_get_trace_request (enc_get_trace_request x @ rest) = x" for x rest
    by (simp add: enc_get_trace_request_def dec_get_trace_request_def dec_field_simps control_request.enc_length control_request.dec_enc)
  show "enc_get_trace_request (dec_get_trace_request bs) = take sizeof_get_trace_request bs" if "sizeof_get_trace_request \<le> length bs" for bs
    using that by (simp add: enc_get_trace_request_def dec_get_trace_request_def enc_field_simps control_request.enc_dec flip: slice_at_0)
qed

interpretation submit_result: packed_codec enc_submit_result dec_submit_result sizeof_submit_result
proof
  show "length (enc_submit_result x) = sizeof_submit_result" for x
    by (simp add: enc_submit_result_def)
  show "dec_submit_result (enc_submit_result x @ rest) = x" for x rest
    by (simp add: enc_submit_result_def dec_submit_result_def dec_field_simps)
  show "enc_submit_result (dec_submit_result bs) = take sizeof_submit_result bs" if "sizeof_submit_result \<le> length bs" for bs
    using that by (simp add: enc_submit_result_def dec_submit_result_def enc_field_simps flip: slice_at_0)
qed

interpretation resource_result: packed_codec enc_resource_result dec_resource_result sizeof_resource_result
proof
  show "length (enc_resource_result x) = sizeof_resource_result" for x
    by (simp add: enc_resource_result_def)
  show "dec_resource_result (enc_resource_result x @ rest) = x" for x rest
    by (simp add: enc_resource_result_def dec_resource_result_def dec_field_simps)
  show "enc_resource_result (dec_resource_result bs) = take sizeof_resource_result bs" if "sizeof_resource_result \<le> length bs" for bs
    using that by (simp add: enc_resource_result_def dec_resource_result_def enc_field_simps flip: slice_at_0)
qed

interpretation stats_result: packed_codec enc_stats_result dec_stats_result sizeof_stats_result
proof
  show "length (enc_stats_result x) = sizeof_stats_result" for x
    by (simp add: enc_stats_result_def)
  show "dec_stats_result (enc_stats_result x @ rest) = x" for x rest
    by (simp add: enc_stats_result_def dec_stats_result_def dec_field_simps)
  show "enc_stats_result (dec_stats_result bs) = take sizeof_stats_result bs" if "sizeof_stats_result \<le> length bs" for bs
    using that by (simp add: enc_stats_result_def dec_stats_result_def enc_field_simps flip: slice_at_0)
qed

interpretation trace_result: packed_codec enc_trace_result dec_trace_result sizeof_trace_result
proof
  show "length (enc_trace_result x) = sizeof_trace_result" for x
    by (simp add: enc_trace_result_def)
  show "dec_trace_result (enc_trace_result x @ rest) = x" for x rest
    by (simp add: enc_trace_result_def dec_trace_result_def dec_field_simps)
  show "enc_trace_result (dec_trace_result bs) = take sizeof_trace_result bs" if "sizeof_trace_result \<le> length bs" for bs
    using that by (simp add: enc_trace_result_def dec_trace_result_def enc_field_simps flip: slice_at_0)
qed

interpretation trace_event: packed_codec enc_trace_event dec_trace_event sizeof_trace_event
proof
  show "length (enc_trace_event x) = sizeof_trace_event" for x
    by (simp add: enc_trace_event_def)
  show "dec_trace_event (enc_trace_event x @ rest) = x" for x rest
    by (simp add: enc_trace_event_def dec_trace_event_def dec_field_simps)
  show "enc_trace_event (dec_trace_event bs) = take sizeof_trace_event bs" if "sizeof_trace_event \<le> length bs" for bs
    using that by (simp add: enc_trace_event_def dec_trace_event_def enc_field_simps flip: slice_at_0)
qed

interpretation completion_record: packed_codec enc_completion_record dec_completion_record sizeof_completion_record
proof
  show "length (enc_completion_record x) = sizeof_completion_record" for x
    by (simp add: enc_completion_record_def protocol_header.enc_length)
  show "dec_completion_record (enc_completion_record x @ rest) = x" for x rest
    by (simp add: enc_completion_record_def dec_completion_record_def dec_field_simps protocol_header.enc_length protocol_header.dec_enc)
  show "enc_completion_record (dec_completion_record bs) = take sizeof_completion_record bs" if "sizeof_completion_record \<le> length bs" for bs
    using that by (simp add: enc_completion_record_def dec_completion_record_def enc_field_simps protocol_header.enc_dec flip: slice_at_0)
qed

lemmas enc_lengths [simp, wire_simps] = protocol_header.enc_length
  handshake_request.enc_length handshake_response.enc_length
  capability_descriptor.enc_length handshake_result.enc_length submit_request.enc_length
  control_request.enc_length timeout_request.enc_length cancel_request.enc_length
  sock_read_request.enc_length poll_request.enc_length openat_request.enc_length
  sock_read_fixed_request.enc_length register_buffer_request.enc_length
  release_resource_request.enc_length get_trace_request.enc_length
  submit_result.enc_length resource_result.enc_length stats_result.enc_length
  trace_result.enc_length trace_event.enc_length completion_record.enc_length

lemmas dec_encs [simp, wire_simps] = protocol_header.dec_enc protocol_header.dec_enc_exact
  handshake_request.dec_enc handshake_request.dec_enc_exact handshake_response.dec_enc
  handshake_response.dec_enc_exact capability_descriptor.dec_enc
  capability_descriptor.dec_enc_exact handshake_result.dec_enc
  handshake_result.dec_enc_exact submit_request.dec_enc submit_request.dec_enc_exact
  control_request.dec_enc control_request.dec_enc_exact timeout_request.dec_enc
  timeout_request.dec_enc_exact cancel_request.dec_enc cancel_request.dec_enc_exact
  sock_read_request.dec_enc sock_read_request.dec_enc_exact poll_request.dec_enc
  poll_request.dec_enc_exact openat_request.dec_enc openat_request.dec_enc_exact
  sock_read_fixed_request.dec_enc sock_read_fixed_request.dec_enc_exact
  register_buffer_request.dec_enc register_buffer_request.dec_enc_exact
  release_resource_request.dec_enc release_resource_request.dec_enc_exact
  get_trace_request.dec_enc get_trace_request.dec_enc_exact submit_result.dec_enc
  submit_result.dec_enc_exact resource_result.dec_enc resource_result.dec_enc_exact
  stats_result.dec_enc stats_result.dec_enc_exact trace_result.dec_enc
  trace_result.dec_enc_exact trace_event.dec_enc trace_event.dec_enc_exact
  completion_record.dec_enc completion_record.dec_enc_exact

section \<open>All messages\<close>

text \<open>
  C22: Every structure of the protocol has a fixed wire image of the size \<open>api.h\<close> asserts for it, and
  encoding and decoding are inverse to each other: a value is recovered from any bytes that start
  with its image, and every byte string of that size is the image of the value decoded from it, so
  no two values share an image and no bytes of the image are ignored.
\<close>

theorem messages_roundtrip:
  "packed_codec enc_protocol_header dec_protocol_header 8
    \<and> packed_codec enc_handshake_request dec_handshake_request 16
    \<and> packed_codec enc_handshake_response dec_handshake_response 16
    \<and> packed_codec enc_capability_descriptor dec_capability_descriptor 36
    \<and> packed_codec enc_handshake_result dec_handshake_result 52
    \<and> packed_codec enc_submit_request dec_submit_request 16
    \<and> packed_codec enc_control_request dec_control_request 16
    \<and> packed_codec enc_timeout_request dec_timeout_request 24
    \<and> packed_codec enc_cancel_request dec_cancel_request 24
    \<and> packed_codec enc_sock_read_request dec_sock_read_request 24
    \<and> packed_codec enc_poll_request dec_poll_request 24
    \<and> packed_codec enc_openat_request dec_openat_request 28
    \<and> packed_codec enc_sock_read_fixed_request dec_sock_read_fixed_request 28
    \<and> packed_codec enc_register_buffer_request dec_register_buffer_request 24
    \<and> packed_codec enc_release_resource_request dec_release_resource_request 24
    \<and> packed_codec enc_get_trace_request dec_get_trace_request 32
    \<and> packed_codec enc_submit_result dec_submit_result 16
    \<and> packed_codec enc_resource_result dec_resource_result 16
    \<and> packed_codec enc_stats_result dec_stats_result 56
    \<and> packed_codec enc_trace_result dec_trace_result 24
    \<and> packed_codec enc_trace_event dec_trace_event 48
    \<and> packed_codec enc_completion_record dec_completion_record 24"
  by (intro conjI protocol_header.packed_codec_axioms handshake_request.packed_codec_axioms handshake_response.packed_codec_axioms
    capability_descriptor.packed_codec_axioms handshake_result.packed_codec_axioms submit_request.packed_codec_axioms
    control_request.packed_codec_axioms timeout_request.packed_codec_axioms cancel_request.packed_codec_axioms
    sock_read_request.packed_codec_axioms poll_request.packed_codec_axioms openat_request.packed_codec_axioms
    sock_read_fixed_request.packed_codec_axioms register_buffer_request.packed_codec_axioms release_resource_request.packed_codec_axioms
    get_trace_request.packed_codec_axioms submit_result.packed_codec_axioms resource_result.packed_codec_axioms
    stats_result.packed_codec_axioms trace_result.packed_codec_axioms trace_event.packed_codec_axioms
    completion_record.packed_codec_axioms)

end
