(* ===== verification/Ring.thy ===== *)
theory Ring
  imports Wire
begin

text \<open>
  The io_uring layer, src/daemon/submit.c: the submission queue (one function per operation
  builds an entry and publishes it), the completion queue, the registered file table and the
  probe of the supported operations. The kernel is a parameter: every call of it is answered
  by a \<open>kernel\<close> record, indexed by the number of kernel calls made so far on the ring, so any
  behaviour of the kernel over time is one such record.

  The head and tail indices are 32-bit words that wrap around, as in the shared memory; the
  lemmas show that both queues are first-in first-out queues under that arithmetic.
\<close>

unbundle bit_operations_syntax

section \<open>Shared memory\<close>

text \<open>\<open>struct io_uring_sqe\<close>; \<open>sqe_op_flags\<close> is the union of the per-operation flag words
  (poll_events, accept_flags, open_flags, cancel_flags).\<close>

record io_uring_sqe =
  sqe_opcode :: u8
  sqe_flags :: u8
  sqe_ioprio :: u16
  sqe_fd :: int
  sqe_off :: u64
  sqe_addr :: u64
  sqe_len :: u32
  sqe_op_flags :: u32
  sqe_user_data :: u64
  sqe_buf_index :: u16

record io_uring_cqe =
  cqe_user_data :: u64
  cqe_res :: i32

text \<open>
  \<open>struct iouringd_ring\<close>: the words behind the mapped pointers. \<open>rg_file_table\<close> is the kernel's
  fixed file table as the successful updates have left it, and \<open>rg_calls\<close> counts the kernel calls
  made on the ring; the C structure has neither.
\<close>

record iouringd_ring =
  rg_ring_fd :: int
  rg_setup_flags :: u32
  rg_registered_files_count :: nat
  rg_registered_buffers_count :: nat
  rg_sqes :: "io_uring_sqe list"
  rg_sq_array :: "u32 list"
  rg_sq_head :: u32
  rg_sq_tail :: u32
  rg_sq_ring_mask :: u32
  rg_sq_ring_entries :: u32
  rg_cqes :: "io_uring_cqe list"
  rg_cq_head :: u32
  rg_cq_tail :: u32
  rg_cq_ring_mask :: u32
  rg_file_table :: "int list"
  rg_calls :: nat

text \<open>
  The kernel: \<open>k_enter n r\<close> is what the \<open>n\<close>-th call, an io_uring_enter on ring \<open>r\<close>, returns
  (negative for minus an errno) and the submission head it leaves; \<open>k_files_update n index fd\<close>
  the result of an IORING_REGISTER_FILES_UPDATE; \<open>k_completions n r\<close> the completion tail and
  completion entries an acquire load sees then. \<open>k_test_fault\<close> is the environment variable
  IOURINGD_TEST_FAULT.
\<close>

record kernel =
  k_enter :: "nat \<Rightarrow> iouringd_ring \<Rightarrow> int \<times> u32"
  k_files_update :: "nat \<Rightarrow> nat \<Rightarrow> int \<Rightarrow> int"
  k_completions :: "nat \<Rightarrow> iouringd_ring \<Rightarrow> u32 \<times> io_uring_cqe list"
  k_test_fault :: "string option"

section \<open>Constants of the kernel interface\<close>

abbreviation (input) IORING_OP_NOP :: u8 where "IORING_OP_NOP \<equiv> 0"
abbreviation (input) IORING_OP_READV :: u8 where "IORING_OP_READV \<equiv> 1"
abbreviation (input) IORING_OP_WRITEV :: u8 where "IORING_OP_WRITEV \<equiv> 2"
abbreviation (input) IORING_OP_READ_FIXED :: u8 where "IORING_OP_READ_FIXED \<equiv> 4"
abbreviation (input) IORING_OP_WRITE_FIXED :: u8 where "IORING_OP_WRITE_FIXED \<equiv> 5"
abbreviation (input) IORING_OP_POLL_ADD :: u8 where "IORING_OP_POLL_ADD \<equiv> 6"
abbreviation (input) IORING_OP_TIMEOUT :: u8 where "IORING_OP_TIMEOUT \<equiv> 11"
abbreviation (input) IORING_OP_ACCEPT :: u8 where "IORING_OP_ACCEPT \<equiv> 13"
abbreviation (input) IORING_OP_ASYNC_CANCEL :: u8 where "IORING_OP_ASYNC_CANCEL \<equiv> 14"
abbreviation (input) IORING_OP_CONNECT :: u8 where "IORING_OP_CONNECT \<equiv> 16"
abbreviation (input) IORING_OP_OPENAT :: u8 where "IORING_OP_OPENAT \<equiv> 18"
abbreviation (input) IORING_OP_CLOSE :: u8 where "IORING_OP_CLOSE \<equiv> 19"
abbreviation (input) IOSQE_FIXED_FILE :: u8 where "IOSQE_FIXED_FILE \<equiv> 1"
abbreviation (input) IORING_ASYNC_CANCEL_USERDATA :: u32 where "IORING_ASYNC_CANCEL_USERDATA \<equiv> 16"
abbreviation (input) IO_URING_OP_SUPPORTED :: u16 where "IO_URING_OP_SUPPORTED \<equiv> 1"

section \<open>Probe of the supported operations\<close>

record io_uring_probe_op =
  po_op :: u8
  po_flags :: u16

fun opcode_supported :: "io_uring_probe_op list \<Rightarrow> u8 \<Rightarrow> bool" where
  "opcode_supported [] opcode = False"
| "opcode_supported (p # ps) opcode =
     (if po_op p \<noteq> opcode then opcode_supported ps opcode
      else po_flags p AND IO_URING_OP_SUPPORTED \<noteq> 0)"

definition supported_submit_mask :: "u32 \<Rightarrow> u32" where
  "supported_submit_mask op_mask = op_mask AND IOURINGD_CAPABILITY_OP_MASK_V1"

text \<open>The table of lines 624 to 670: one capability bit per probed operation.\<close>

definition probe_table :: "(u8 \<times> u32) list" where
  "probe_table =
     [(IORING_OP_NOP, IOURINGD_CAPABILITY_OP_NOP),
      (IORING_OP_TIMEOUT, IOURINGD_CAPABILITY_OP_TIMEOUT),
      (IORING_OP_READV, IOURINGD_CAPABILITY_OP_READV),
      (IORING_OP_WRITEV, IOURINGD_CAPABILITY_OP_WRITEV),
      (IORING_OP_ASYNC_CANCEL, IOURINGD_CAPABILITY_OP_ASYNC_CANCEL),
      (IORING_OP_READ_FIXED, IOURINGD_CAPABILITY_OP_READ_FIXED),
      (IORING_OP_WRITE_FIXED, IOURINGD_CAPABILITY_OP_WRITE_FIXED),
      (IORING_OP_POLL_ADD, IOURINGD_CAPABILITY_OP_POLL),
      (IORING_OP_CONNECT, IOURINGD_CAPABILITY_OP_CONNECT),
      (IORING_OP_ACCEPT, IOURINGD_CAPABILITY_OP_ACCEPT),
      (IORING_OP_OPENAT, IOURINGD_CAPABILITY_OP_OPENAT),
      (IORING_OP_CLOSE, IOURINGD_CAPABILITY_OP_CLOSE)]"

definition probe_op_mask :: "io_uring_probe_op list \<Rightarrow> u32" where
  "probe_op_mask probe =
     supported_submit_mask
       (foldl (\<lambda>m (opcode, cap). if opcode_supported probe opcode then m OR cap else m)
         0 probe_table)"

section \<open>Ring setup\<close>

text \<open>
  The part of \<open>struct io_uring_params\<close> the daemon reads, and the calls that make the ring: the
  result of io_uring_setup for a flag word, the three mappings, and the probe (\<open>Inl\<close> an errno).
\<close>

record io_uring_params =
  par_sq_entries :: u32
  par_cq_entries :: u32
  par_features :: u32

record setup_kernel =
  ks_setup :: "nat \<Rightarrow> u32 \<Rightarrow> errno + (int \<times> io_uring_params)"
  ks_mmap_errno :: "errno option"
  ks_probe :: "errno + io_uring_probe_op list"
  ks_fault :: "string option"

abbreviation (input) IORING_SETUP_SINGLE_ISSUER :: u32 where "IORING_SETUP_SINGLE_ISSUER \<equiv> 4096"

definition ring_setup_with_flags ::
  "setup_kernel \<Rightarrow> nat \<Rightarrow> u32 \<Rightarrow> errno + (int \<times> io_uring_params)" where
  "ring_setup_with_flags ks entries flags =
     (if ks_fault ks = Some ''setup_enosys'' then Inl ENOSYS
      else if ks_fault ks = Some ''setup_eperm'' then Inl EPERM
      else ks_setup ks entries flags)"

text \<open>The attempts in order, each with its flags; a failure other than EINVAL, or of the last
  attempt, is final.\<close>

fun ring_setup_attempts ::
  "setup_kernel \<Rightarrow> nat \<Rightarrow> u32 list \<Rightarrow> errno + (int \<times> io_uring_params \<times> u32)" where
  "ring_setup_attempts ks entries [] = Inl EINVAL"
| "ring_setup_attempts ks entries (flags # rest) =
     (case ring_setup_with_flags ks entries flags of
        Inr (fd, params) \<Rightarrow> Inr (fd, params, flags)
      | Inl e \<Rightarrow>
          if e \<noteq> EINVAL \<or> rest = [] then Inl e else ring_setup_attempts ks entries rest)"

definition ring_setup_best_effort ::
  "setup_kernel \<Rightarrow> nat \<Rightarrow> errno + (int \<times> io_uring_params \<times> u32)" where
  "ring_setup_best_effort ks entries =
     ring_setup_attempts ks entries [IORING_SETUP_SINGLE_ISSUER, 0]"

text \<open>
  \<open>iouringd_ring_init\<close> with a capabilities argument: what it reports, or the errno it fails with.
  The mapped queues start empty; the mappings and pointers are in \<open>Ring_Memory\<close>.
\<close>

definition iouringd_ring_init ::
  "setup_kernel \<Rightarrow> nat \<Rightarrow> errno + (int \<times> u32 \<times> iouringd_capability_descriptor_v1)" where
  "iouringd_ring_init ks entries =
     (if entries = 0 then Inl EINVAL
      else case ring_setup_best_effort ks entries of
        Inl e \<Rightarrow> Inl e
      | Inr (fd, params, flags) \<Rightarrow>
          case ks_mmap_errno ks of
            Some e \<Rightarrow> Inl e
          | None \<Rightarrow>
              if ks_fault ks = Some ''probe_eperm'' then Inl EPERM
              else case ks_probe ks of
                Inl e \<Rightarrow> Inl e
              | Inr probe \<Rightarrow>
                  let op_mask = probe_op_mask probe in
                  if op_mask = 0 then Inl ENOTSUP
                  else Inr (fd, flags,
                    \<lparr>cap_struct_size = 36,
                     cap_features = par_features params,
                     cap_ring_entries = par_sq_entries params,
                     cap_cq_entries = par_cq_entries params,
                     cap_op_mask = op_mask,
                     cap_submit_credits =
                       (if par_sq_entries params > 1 then par_sq_entries params - 1 else 0),
                     cap_registered_fd_slots = 0,
                     cap_registered_buffer_slots = 0,
                     cap_io_bytes_max = 0\<rparr>))"

section \<open>Submission\<close>

text \<open>\<open>IOPRIO_PRIO_VALUE(IOPRIO_CLASS_BE, n)\<close> is class 2 in the top three bits.\<close>

definition sqe_ioprio_from_submit_priority :: "u16 \<Rightarrow> u16" where
  "sqe_ioprio_from_submit_priority submit_priority =
     (if submit_priority = IOURINGD_SUBMIT_PRIORITY_HIGH then 16384
      else if submit_priority = IOURINGD_SUBMIT_PRIORITY_LOW then 16391
      else 0)"

text \<open>\<open>memset(sqe, 0, sizeof(*sqe))\<close>.\<close>

definition zero_sqe :: io_uring_sqe where
  "zero_sqe =
     \<lparr>sqe_opcode = 0, sqe_flags = 0, sqe_ioprio = 0, sqe_fd = 0, sqe_off = 0, sqe_addr = 0,
      sqe_len = 0, sqe_op_flags = 0, sqe_user_data = 0, sqe_buf_index = 0\<rparr>"

text \<open>
  The part that every submission function of the file repeats, from the load of the head to the
  return: refuse with EBUSY when the queue is full, else store the entry at the tail and publish
  the new tail (\<open>ring_store_sqe\<close>), and enter the kernel with one entry to submit.
\<close>

definition ring_sq_full :: "iouringd_ring \<Rightarrow> bool" where
  "ring_sq_full ring \<longleftrightarrow> rg_sq_tail ring - rg_sq_head ring \<ge> rg_sq_ring_entries ring"

definition ring_store_sqe :: "io_uring_sqe \<Rightarrow> iouringd_ring \<Rightarrow> iouringd_ring" where
  "ring_store_sqe sqe ring =
     (let sq_tail = rg_sq_tail ring;
          sq_index = sq_tail AND rg_sq_ring_mask ring
      in ring\<lparr>rg_sqes := (rg_sqes ring)[unat sq_index := sqe],
              rg_sq_array := (rg_sq_array ring)[unat sq_index := sq_index],
              rg_sq_tail := sq_tail + 1\<rparr>)"

definition ring_publish_sqe ::
  "kernel \<Rightarrow> io_uring_sqe \<Rightarrow> iouringd_ring \<Rightarrow> (unit, iouringd_ring) res" where
  "ring_publish_sqe k sqe ring =
     (if ring_sq_full ring then (Inl EBUSY, ring)
      else
        let ring1 = ring_store_sqe sqe ring;
            (rc, head') = k_enter k (rg_calls ring1) ring1;
            ring2 = ring1\<lparr>rg_sq_head := head', rg_calls := Suc (rg_calls ring1)\<rparr>
        in if rc < 0 then (Inl (- rc), ring2) else (Inr (), ring2))"

definition ring_queue_sqe ::
  "kernel \<Rightarrow> u8 \<Rightarrow> task_id \<Rightarrow> u64 \<Rightarrow> u32 \<Rightarrow> u16 \<Rightarrow> iouringd_ring \<Rightarrow> (unit, iouringd_ring) res"
where
  "ring_queue_sqe k opcode task addr len submit_priority ring =
     (if rg_ring_fd ring < 0 then (Inl EINVAL, ring)
      else ring_publish_sqe k
        (zero_sqe\<lparr>sqe_opcode := opcode, sqe_user_data := task, sqe_addr := addr, sqe_len := len\<rparr>)
        ring)"

definition ring_queue_rw_sqe ::
  "kernel \<Rightarrow> u8 \<Rightarrow> task_id \<Rightarrow> nat \<Rightarrow> u64 \<Rightarrow> u32 \<Rightarrow> u16 \<Rightarrow> iouringd_ring
    \<Rightarrow> (unit, iouringd_ring) res"
where
  "ring_queue_rw_sqe k opcode task file_index iov iovcnt submit_priority ring =
     (if rg_ring_fd ring < 0 \<or> iov = 0 \<or> iovcnt = 0
         \<or> file_index \<ge> rg_registered_files_count ring
      then (Inl EINVAL, ring)
      else ring_publish_sqe k
        (zero_sqe\<lparr>sqe_opcode := opcode, sqe_user_data := task, sqe_fd := int file_index,
                  sqe_flags := IOSQE_FIXED_FILE, sqe_addr := iov, sqe_len := iovcnt,
                  sqe_ioprio := sqe_ioprio_from_submit_priority submit_priority\<rparr>)
        ring)"

definition ring_queue_fixed_buffer_sqe ::
  "kernel \<Rightarrow> u8 \<Rightarrow> task_id \<Rightarrow> nat \<Rightarrow> nat \<Rightarrow> u64 \<Rightarrow> u32 \<Rightarrow> u16 \<Rightarrow> iouringd_ring
    \<Rightarrow> (unit, iouringd_ring) res"
where
  "ring_queue_fixed_buffer_sqe k opcode task file_index buffer_index buf len submit_priority ring =
     (if rg_ring_fd ring < 0 \<or> buf = 0
         \<or> file_index \<ge> rg_registered_files_count ring
         \<or> buffer_index \<ge> rg_registered_buffers_count ring
      then (Inl EINVAL, ring)
      else ring_publish_sqe k
        (zero_sqe\<lparr>sqe_opcode := opcode, sqe_user_data := task, sqe_fd := int file_index,
                  sqe_flags := IOSQE_FIXED_FILE, sqe_addr := buf, sqe_len := len,
                  sqe_buf_index := of_nat buffer_index,
                  sqe_ioprio := sqe_ioprio_from_submit_priority submit_priority\<rparr>)
        ring)"

definition ring_queue_poll_sqe ::
  "kernel \<Rightarrow> task_id \<Rightarrow> nat \<Rightarrow> u16 \<Rightarrow> u16 \<Rightarrow> iouringd_ring \<Rightarrow> (unit, iouringd_ring) res"
where
  "ring_queue_poll_sqe k task file_index poll_mask submit_priority ring =
     (if rg_ring_fd ring < 0 \<or> poll_mask = 0 \<or> file_index \<ge> rg_registered_files_count ring
      then (Inl EINVAL, ring)
      else ring_publish_sqe k
        (zero_sqe\<lparr>sqe_opcode := IORING_OP_POLL_ADD, sqe_user_data := task,
                  sqe_fd := int file_index, sqe_flags := IOSQE_FIXED_FILE,
                  sqe_op_flags := ucast poll_mask\<rparr>)
        ring)"

definition ring_queue_connect_sqe ::
  "kernel \<Rightarrow> task_id \<Rightarrow> int \<Rightarrow> u64 \<Rightarrow> u32 \<Rightarrow> u16 \<Rightarrow> iouringd_ring \<Rightarrow> (unit, iouringd_ring) res"
where
  "ring_queue_connect_sqe k task fd sockaddr_buf sockaddr_length submit_priority ring =
     (if rg_ring_fd ring < 0 \<or> sockaddr_buf = 0 \<or> sockaddr_length = 0
         \<or> sockaddr_length > 65535 \<or> fd < 0
      then (Inl EINVAL, ring)
      else ring_publish_sqe k
        (zero_sqe\<lparr>sqe_opcode := IORING_OP_CONNECT, sqe_user_data := task, sqe_fd := fd,
                  sqe_addr := sockaddr_buf, sqe_off := ucast sockaddr_length, sqe_len := 0\<rparr>)
        ring)"

definition ring_queue_accept_sqe ::
  "kernel \<Rightarrow> task_id \<Rightarrow> int \<Rightarrow> u64 \<Rightarrow> u64 \<Rightarrow> u32 \<Rightarrow> u16 \<Rightarrow> iouringd_ring
    \<Rightarrow> (unit, iouringd_ring) res"
where
  "ring_queue_accept_sqe k task fd sockaddr_buf sockaddr_length accept_flags submit_priority ring =
     (if rg_ring_fd ring < 0 \<or> fd < 0 then (Inl EINVAL, ring)
      else if (sockaddr_buf = 0) \<noteq> (sockaddr_length = 0) then (Inl EINVAL, ring)
      else ring_publish_sqe k
        (zero_sqe\<lparr>sqe_opcode := IORING_OP_ACCEPT, sqe_user_data := task, sqe_fd := fd,
                  sqe_addr := sockaddr_buf, sqe_off := sockaddr_length,
                  sqe_op_flags := accept_flags\<rparr>)
        ring)"

definition ring_queue_openat_sqe ::
  "kernel \<Rightarrow> task_id \<Rightarrow> int \<Rightarrow> u64 \<Rightarrow> i32 \<Rightarrow> u32 \<Rightarrow> u16 \<Rightarrow> iouringd_ring
    \<Rightarrow> (unit, iouringd_ring) res"
where
  "ring_queue_openat_sqe k task dirfd path open_flags open_mode submit_priority ring =
     (if rg_ring_fd ring < 0 \<or> path = 0 then (Inl EINVAL, ring)
      else ring_publish_sqe k
        (zero_sqe\<lparr>sqe_opcode := IORING_OP_OPENAT, sqe_user_data := task, sqe_fd := dirfd,
                  sqe_addr := path, sqe_op_flags := open_flags, sqe_len := open_mode,
                  sqe_ioprio := sqe_ioprio_from_submit_priority submit_priority\<rparr>)
        ring)"

definition ring_queue_close_sqe ::
  "kernel \<Rightarrow> task_id \<Rightarrow> int \<Rightarrow> u16 \<Rightarrow> iouringd_ring \<Rightarrow> (unit, iouringd_ring) res"
where
  "ring_queue_close_sqe k task fd submit_priority ring =
     (if rg_ring_fd ring < 0 \<or> fd < 0 then (Inl EINVAL, ring)
      else ring_publish_sqe k
        (zero_sqe\<lparr>sqe_opcode := IORING_OP_CLOSE, sqe_user_data := task, sqe_fd := fd,
                  sqe_ioprio := sqe_ioprio_from_submit_priority submit_priority\<rparr>)
        ring)"

section \<open>The interface of the ring\<close>

definition iouringd_ring_capacity :: "iouringd_ring \<Rightarrow> u32" where
  "iouringd_ring_capacity ring = rg_sq_ring_entries ring"

definition iouringd_ring_submit_nop ::
  "kernel \<Rightarrow> task_id \<Rightarrow> u16 \<Rightarrow> iouringd_ring \<Rightarrow> (unit, iouringd_ring) res"
where
  "iouringd_ring_submit_nop k task prio ring = ring_queue_sqe k IORING_OP_NOP task 0 0 prio ring"

definition iouringd_ring_submit_timeout ::
  "kernel \<Rightarrow> task_id \<Rightarrow> u64 \<Rightarrow> u16 \<Rightarrow> iouringd_ring \<Rightarrow> (unit, iouringd_ring) res"
where
  "iouringd_ring_submit_timeout k task timeout prio ring =
     (if timeout = 0 then (Inl EINVAL, ring)
      else ring_queue_sqe k IORING_OP_TIMEOUT task timeout 1 prio ring)"

definition iouringd_ring_submit_cancel ::
  "kernel \<Rightarrow> task_id \<Rightarrow> task_id \<Rightarrow> u16 \<Rightarrow> iouringd_ring \<Rightarrow> (unit, iouringd_ring) res"
where
  "iouringd_ring_submit_cancel k task target prio ring =
     (if rg_ring_fd ring < 0 \<or> target = IOURINGD_TASK_ID_INVALID
         \<or> target \<ge> IOURINGD_TASK_ID_RESERVED_MIN
      then (Inl EINVAL, ring)
      else ring_publish_sqe k
        (zero_sqe\<lparr>sqe_opcode := IORING_OP_ASYNC_CANCEL, sqe_user_data := task,
                  sqe_addr := target, sqe_op_flags := IORING_ASYNC_CANCEL_USERDATA\<rparr>)
        ring)"

definition iouringd_ring_submit_readv ::
  "kernel \<Rightarrow> task_id \<Rightarrow> nat \<Rightarrow> u64 \<Rightarrow> u32 \<Rightarrow> u16 \<Rightarrow> iouringd_ring \<Rightarrow> (unit, iouringd_ring) res"
where
  "iouringd_ring_submit_readv k task file_index iov iovcnt prio ring =
     ring_queue_rw_sqe k IORING_OP_READV task file_index iov iovcnt prio ring"

definition iouringd_ring_submit_writev ::
  "kernel \<Rightarrow> task_id \<Rightarrow> nat \<Rightarrow> u64 \<Rightarrow> u32 \<Rightarrow> u16 \<Rightarrow> iouringd_ring \<Rightarrow> (unit, iouringd_ring) res"
where
  "iouringd_ring_submit_writev k task file_index iov iovcnt prio ring =
     ring_queue_rw_sqe k IORING_OP_WRITEV task file_index iov iovcnt prio ring"

definition iouringd_ring_submit_poll ::
  "kernel \<Rightarrow> task_id \<Rightarrow> nat \<Rightarrow> u16 \<Rightarrow> u16 \<Rightarrow> iouringd_ring \<Rightarrow> (unit, iouringd_ring) res"
where
  "iouringd_ring_submit_poll k task file_index poll_mask prio ring =
     ring_queue_poll_sqe k task file_index poll_mask prio ring"

definition iouringd_ring_submit_connect ::
  "kernel \<Rightarrow> task_id \<Rightarrow> int \<Rightarrow> u64 \<Rightarrow> u32 \<Rightarrow> u16 \<Rightarrow> iouringd_ring \<Rightarrow> (unit, iouringd_ring) res"
where
  "iouringd_ring_submit_connect k task fd sockaddr_buf sockaddr_length prio ring =
     ring_queue_connect_sqe k task fd sockaddr_buf sockaddr_length prio ring"

definition iouringd_ring_submit_accept ::
  "kernel \<Rightarrow> task_id \<Rightarrow> int \<Rightarrow> u64 \<Rightarrow> u64 \<Rightarrow> u32 \<Rightarrow> u16 \<Rightarrow> iouringd_ring
    \<Rightarrow> (unit, iouringd_ring) res"
where
  "iouringd_ring_submit_accept k task fd sockaddr_buf sockaddr_length accept_flags prio ring =
     (if k_test_fault k = Some ''submit_accept_einval'' then (Inl EINVAL, ring)
      else ring_queue_accept_sqe k task fd sockaddr_buf sockaddr_length accept_flags prio ring)"

definition iouringd_ring_submit_openat ::
  "kernel \<Rightarrow> task_id \<Rightarrow> int \<Rightarrow> u64 \<Rightarrow> i32 \<Rightarrow> u32 \<Rightarrow> u16 \<Rightarrow> iouringd_ring
    \<Rightarrow> (unit, iouringd_ring) res"
where
  "iouringd_ring_submit_openat k task dirfd path open_flags open_mode prio ring =
     ring_queue_openat_sqe k task dirfd path open_flags open_mode prio ring"

definition iouringd_ring_submit_close ::
  "kernel \<Rightarrow> task_id \<Rightarrow> int \<Rightarrow> u16 \<Rightarrow> iouringd_ring \<Rightarrow> (unit, iouringd_ring) res"
where
  "iouringd_ring_submit_close k task fd prio ring = ring_queue_close_sqe k task fd prio ring"

definition iouringd_ring_submit_read_fixed ::
  "kernel \<Rightarrow> task_id \<Rightarrow> nat \<Rightarrow> nat \<Rightarrow> u64 \<Rightarrow> u32 \<Rightarrow> u16 \<Rightarrow> iouringd_ring
    \<Rightarrow> (unit, iouringd_ring) res"
where
  "iouringd_ring_submit_read_fixed k task file_index buffer_index buf len prio ring =
     ring_queue_fixed_buffer_sqe k IORING_OP_READ_FIXED task file_index buffer_index buf len prio ring"

definition iouringd_ring_submit_write_fixed ::
  "kernel \<Rightarrow> task_id \<Rightarrow> nat \<Rightarrow> nat \<Rightarrow> u64 \<Rightarrow> u32 \<Rightarrow> u16 \<Rightarrow> iouringd_ring
    \<Rightarrow> (unit, iouringd_ring) res"
where
  "iouringd_ring_submit_write_fixed k task file_index buffer_index buf len prio ring =
     ring_queue_fixed_buffer_sqe k IORING_OP_WRITE_FIXED task file_index buffer_index buf len prio ring"

section \<open>Registered files and buffers\<close>

text \<open>\<open>rc\<close> is the result of the io_uring_register call, negative for minus an errno.\<close>

definition iouringd_ring_init_registered_files ::
  "int \<Rightarrow> nat \<Rightarrow> iouringd_ring \<Rightarrow> (unit, iouringd_ring) res" where
  "iouringd_ring_init_registered_files rc count ring =
     (if rg_ring_fd ring < 0 \<or> count = 0 then (Inl EINVAL, ring)
      else if rc \<noteq> 0 then (Inl (- rc), ring)
      else (Inr (), ring\<lparr>rg_registered_files_count := count,
                         rg_file_table := replicate count (- 1)\<rparr>))"

definition iouringd_ring_init_registered_buffers ::
  "int \<Rightarrow> nat \<Rightarrow> iouringd_ring \<Rightarrow> (unit, iouringd_ring) res" where
  "iouringd_ring_init_registered_buffers rc count ring =
     (if rg_ring_fd ring < 0 \<or> count = 0 then (Inl EINVAL, ring)
      else if rc \<noteq> 0 then (Inl (- rc), ring)
      else (Inr (), ring\<lparr>rg_registered_buffers_count := count\<rparr>))"

text \<open>The update counts as done, and the table as changed, when the kernel reports one slot.\<close>

definition iouringd_ring_update_registered_file ::
  "kernel \<Rightarrow> nat \<Rightarrow> int \<Rightarrow> iouringd_ring \<Rightarrow> (unit, iouringd_ring) res" where
  "iouringd_ring_update_registered_file k index fd ring =
     (if rg_ring_fd ring < 0 \<or> index \<ge> rg_registered_files_count ring \<or> fd < - 1
      then (Inl EINVAL, ring)
      else
        let rc = k_files_update k (rg_calls ring) index fd;
            ring1 = ring\<lparr>rg_calls := Suc (rg_calls ring)\<rparr>
        in if rc < 0 then (Inl (- rc), ring1)
           else if rc \<noteq> 1 then (Inl EIO, ring1)
           else (Inr (), ring1\<lparr>rg_file_table := (rg_file_table ring1)[index := fd]\<rparr>))"

section \<open>Completion\<close>

text \<open>\<open>None\<close> when no completion is available, else its task and result. The entries up to the
  tail are the ones the kernel has published by the time of the acquire load.\<close>

definition iouringd_ring_peek_completion ::
  "kernel \<Rightarrow> iouringd_ring \<Rightarrow> (task_id \<times> i32) option \<times> iouringd_ring" where
  "iouringd_ring_peek_completion k ring =
     (let (tail, entries) = k_completions k (rg_calls ring) ring;
          ring1 = ring\<lparr>rg_cq_tail := tail, rg_cqes := entries, rg_calls := Suc (rg_calls ring)\<rparr>;
          cq_head = rg_cq_head ring1
      in if cq_head = rg_cq_tail ring1 then (None, ring1)
         else
           let cqe = rg_cqes ring1 ! unat (cq_head AND rg_cq_ring_mask ring1)
           in (Some (cqe_user_data cqe, cqe_res cqe), ring1\<lparr>rg_cq_head := cq_head + 1\<rparr>))"

section \<open>A concrete ring and a concrete kernel\<close>

text \<open>
  An empty ring with \<open>2 ^ n\<close> entries in each queue and \<open>files\<close> registered files, and a kernel that
  consumes one entry per call when there is one, accepts every file update and publishes
  nothing: the instance at which statements about a well-behaved kernel are exercised.
\<close>

definition fresh_ring :: "nat \<Rightarrow> nat \<Rightarrow> nat \<Rightarrow> iouringd_ring" where
  "fresh_ring n files buffers =
     \<lparr>rg_ring_fd = 3, rg_setup_flags = 0, rg_registered_files_count = files,
      rg_registered_buffers_count = buffers,
      rg_sqes = replicate (2 ^ n) zero_sqe, rg_sq_array = replicate (2 ^ n) 0,
      rg_sq_head = 0, rg_sq_tail = 0, rg_sq_ring_mask = mask n, rg_sq_ring_entries = 2 ^ n,
      rg_cqes = replicate (2 ^ n) \<lparr>cqe_user_data = 0, cqe_res = 0\<rparr>,
      rg_cq_head = 0, rg_cq_tail = 0, rg_cq_ring_mask = mask n,
      rg_file_table = replicate files (- 1), rg_calls = 0\<rparr>"

definition prompt_kernel :: kernel where
  "prompt_kernel =
     \<lparr>k_enter = (\<lambda>n r. if rg_sq_head r = rg_sq_tail r then (0, rg_sq_head r)
                      else (1, rg_sq_head r + 1)),
      k_files_update = (\<lambda>n index fd. 1),
      k_completions = (\<lambda>n r. (rg_cq_tail r, rg_cqes r)),
      k_test_fault = None\<rparr>"

section \<open>Both queues are first-in first-out\<close>

text \<open>
  The entries between head and tail, oldest first, of a ring whose size is a power of two. The
  indices wrap at \<open>2 ^ 32\<close>, the slots at the size.
\<close>

definition ring_view :: "'a list \<Rightarrow> u32 \<Rightarrow> u32 \<Rightarrow> u32 \<Rightarrow> 'a list" where
  "ring_view buf rmask head tail =
     map (\<lambda>i. buf ! unat ((head + of_nat i) AND rmask)) [0..<unat (tail - head)]"

definition sq_pending :: "iouringd_ring \<Rightarrow> io_uring_sqe list" where
  "sq_pending ring =
     ring_view (rg_sqes ring) (rg_sq_ring_mask ring) (rg_sq_head ring) (rg_sq_tail ring)"

definition cq_pending :: "iouringd_ring \<Rightarrow> io_uring_cqe list" where
  "cq_pending ring =
     ring_view (rg_cqes ring) (rg_cq_ring_mask ring) (rg_cq_head ring) (rg_cq_tail ring)"

text \<open>The shape of the queues the kernel maps: sizes are powers of two below \<open>2 ^ 32\<close>, and the
  tail is at most a queue's size ahead of the head.\<close>

definition sq_ok :: "iouringd_ring \<Rightarrow> bool" where
  "sq_ok ring \<longleftrightarrow>
     (\<exists>n < 32. rg_sq_ring_entries ring = 2 ^ n \<and> rg_sq_ring_mask ring = mask n
       \<and> length (rg_sqes ring) = 2 ^ n \<and> length (rg_sq_array ring) = 2 ^ n)
     \<and> rg_sq_tail ring - rg_sq_head ring \<le> rg_sq_ring_entries ring"

definition cq_ok :: "iouringd_ring \<Rightarrow> bool" where
  "cq_ok ring \<longleftrightarrow>
     (\<exists>n < 32. rg_cq_ring_mask ring = mask n \<and> length (rg_cqes ring) = 2 ^ n)"

lemma unat_and_mask: "unat ((w :: u32) AND mask n) = unat w mod 2 ^ n"
  by (metis take_bit_eq_mask take_bit_eq_mod unsigned_take_bit_eq)

lemma unat_add_mod:
  assumes "n < 32"
  shows "unat ((h :: u32) + of_nat i) mod 2 ^ n = (unat h + i) mod 2 ^ n"
proof -
  have "2 ^ n dvd (2 ^ 32 :: nat)"
    by (rule le_imp_power_dvd) (use assms in simp)
  then show ?thesis
    by (simp add: unat_word_ariths unat_of_nat mod_mod_cancel mod_simps)
qed

lemma mod_window_less:
  fixes h i j m :: nat
  assumes "i \<le> j" and "j < m" and "(h + i) mod m = (h + j) mod m"
  shows "i = j"
proof -
  from assms have "m dvd (h + j) - (h + i)"
    by (metis add_le_cancel_left mod_eq_dvd_iff_nat)
  then have "m dvd j - i" by simp
  moreover have "j - i < m" using assms by simp
  ultimately show ?thesis using assms(1) by (auto dest: dvd_imp_le)
qed

lemma ring_index_inj:
  assumes "n < 32" and "i < 2 ^ n" and "j < 2 ^ n"
    and "unat ((h + of_nat i) AND mask n) = unat (((h :: u32) + of_nat j) AND mask n)"
  shows "i = j"
proof -
  have "(unat h + i) mod 2 ^ n = (unat h + j) mod 2 ^ n"
    using assms(1,4) by (simp only: unat_and_mask unat_add_mod)
  then show ?thesis
    using mod_window_less [of i j "2 ^ n" "unat h"] mod_window_less [of j i "2 ^ n" "unat h"] assms
    by (metis nat_le_linear)
qed

lemma ring_index_bound: "unat ((w :: u32) AND mask n) < 2 ^ n"
  by (simp add: unat_and_mask)

lemma ring_view_length [simp]: "length (ring_view buf rmask head tail) = unat (tail - head)"
  by (simp add: ring_view_def)

text \<open>Storing at the tail of a ring that is not full appends to the view and keeps the rest.\<close>

lemma ring_view_push:
  assumes n: "n < 32" and len: "length buf = 2 ^ n" and room: "unat (tail - head) < 2 ^ n"
  shows "ring_view (buf[unat (tail AND mask n) := x]) (mask n) head (tail + 1)
       = ring_view buf (mask n) head tail @ [x]"
proof -
  let ?m = "unat (tail - head)"
  have tail: "tail = head + of_nat ?m" by simp
  have "unat (tail + 1 - head) = Suc ?m"
  proof -
    have "tail + 1 - head = (tail - head) + 1" by simp
    moreover have "unat (tail - head + 1) = unat (tail - head) + 1"
    proof (rule unat_inc)
      have "(2 :: nat) ^ n \<le> 2 ^ 31" using n by (intro power_increasing) auto
      with room show "unat (tail - head) < 2 ^ LENGTH(32) - 1" by simp
    qed
    ultimately show ?thesis by (metis Suc_eq_plus1)
  qed
  moreover have "buf[unat (tail AND mask n) := x] ! unat ((head + of_nat i) AND mask n)
      = buf ! unat ((head + of_nat i) AND mask n)" if "i < ?m" for i
  proof -
    have "unat (tail AND mask n) \<noteq> unat ((head + of_nat i) AND mask n)"
      using ring_index_inj [OF n, of ?m i head] room that tail by auto
    then show ?thesis by simp
  qed
  moreover have "buf[unat (tail AND mask n) := x] ! unat ((head + of_nat ?m) AND mask n) = x"
    using len ring_index_bound [of tail n] by simp
  ultimately show ?thesis by (simp add: ring_view_def)
qed

text \<open>Taking the entry at the head removes the oldest one.\<close>

lemma ring_view_pop:
  assumes "head \<noteq> tail"
  shows "ring_view buf rmask head tail
       = buf ! unat (head AND rmask) # ring_view buf rmask (head + 1) tail"
proof -
  have ne: "tail - head \<noteq> 0" using assms by simp
  have "unat (tail - (head + 1)) = unat (tail - head) - 1"
    using unat_dec [OF ne] by (simp add: algebra_simps)
  moreover have "0 < unat (tail - head)" using ne by (simp add: unat_gt_0)
  ultimately have "unat (tail - head) = Suc (unat (tail - (head + 1)))" by simp
  then show ?thesis
    by (simp add: ring_view_def upt_conv_Cons map_Suc_upt [symmetric] add.assoc del: upt_Suc)
qed

section \<open>The queue contract\<close>

text \<open>
  What the submission functions rely on from the shared ring: storing appends to the entries
  the kernel has still to consume, as long as there is room.
\<close>

locale bounded_fifo =
  fixes ok :: "'s \<Rightarrow> bool"
    and full :: "'s \<Rightarrow> bool"
    and view :: "'s \<Rightarrow> 'a list"
    and capacity :: "'s \<Rightarrow> nat"
    and store :: "'a \<Rightarrow> 's \<Rightarrow> 's"
  assumes full_iff: "ok s \<Longrightarrow> full s \<longleftrightarrow> length (view s) = capacity s"
    and view_bound: "ok s \<Longrightarrow> length (view s) \<le> capacity s"
    and view_store: "ok s \<Longrightarrow> \<not> full s \<Longrightarrow> view (store x s) = view s @ [x]"
    and ok_store: "ok s \<Longrightarrow> \<not> full s \<Longrightarrow> ok (store x s)"
    and capacity_store: "capacity (store x s) = capacity s"
begin

lemma store_many:
  assumes "ok s" and "length (view s) + length xs \<le> capacity s"
  shows "ok (fold store xs s) \<and> view (fold store xs s) = view s @ xs"
  using assms
proof (induction xs arbitrary: s)
  case Nil
  then show ?case by simp
next
  case (Cons x xs)
  then have room: "\<not> full s" by (simp add: full_iff)
  with Cons.prems have "ok (store x s)" and "view (store x s) = view s @ [x]"
    by (simp_all add: ok_store view_store)
  with Cons.IH [of "store x s"] Cons.prems show ?case
    by (simp add: capacity_store)
qed

end

lemma sq_okE:
  assumes "sq_ok ring"
  obtains n where "n < 32" "rg_sq_ring_entries ring = 2 ^ n" "rg_sq_ring_mask ring = mask n"
    "length (rg_sqes ring) = 2 ^ n" "length (rg_sq_array ring) = 2 ^ n"
    "rg_sq_tail ring - rg_sq_head ring \<le> rg_sq_ring_entries ring"
  using assms by (auto simp: sq_ok_def)

lemma unat_pow2_u32:
  assumes "n < 32"
  shows "unat ((2 :: u32) ^ n) = 2 ^ n"
proof -
  have "(2 :: nat) ^ n < 2 ^ LENGTH(32)"
    by (rule power_strict_increasing) (use assms in simp_all)
  then have "unat (of_nat (2 ^ n) :: u32) = 2 ^ n" by (simp only: unat_of_nat mod_less)
  then show ?thesis by simp
qed

lemma sq_room:
  assumes "sq_ok ring" and "\<not> ring_sq_full ring"
  shows "unat (rg_sq_tail ring - rg_sq_head ring) < unat (rg_sq_ring_entries ring)"
  using assms by (simp add: ring_sq_full_def word_less_nat_alt [symmetric] not_le)

lemma sq_store_ok:
  assumes ok: "sq_ok ring" and room: "\<not> ring_sq_full ring"
  shows "sq_ok (ring_store_sqe sqe ring)"
proof -
  obtain n where n: "n < 32" "rg_sq_ring_entries ring = 2 ^ n" "rg_sq_ring_mask ring = mask n"
    "length (rg_sqes ring) = 2 ^ n" "length (rg_sq_array ring) = 2 ^ n"
    using ok by (rule sq_okE)
  have less: "unat (rg_sq_tail ring - rg_sq_head ring) < 2 ^ n"
    using sq_room [OF ok room] n by (simp add: unat_pow2_u32)
  then have "unat (rg_sq_tail ring - rg_sq_head ring + 1)
      \<le> unat (rg_sq_tail ring - rg_sq_head ring) + 1"
    by (simp add: unat_word_ariths)
  with less n have "rg_sq_tail ring + 1 - rg_sq_head ring \<le> rg_sq_ring_entries ring"
    by (simp add: word_le_nat_alt unat_pow2_u32 diff_add_eq [symmetric])
  with n show ?thesis by (auto simp: sq_ok_def ring_store_sqe_def Let_def)
qed

lemma sq_store_pending:
  assumes ok: "sq_ok ring" and room: "\<not> ring_sq_full ring"
  shows "sq_pending (ring_store_sqe sqe ring) = sq_pending ring @ [sqe]"
proof -
  obtain n where n: "n < 32" "rg_sq_ring_entries ring = 2 ^ n" "rg_sq_ring_mask ring = mask n"
    "length (rg_sqes ring) = 2 ^ n" "length (rg_sq_array ring) = 2 ^ n"
    using ok by (rule sq_okE)
  have "unat (rg_sq_tail ring - rg_sq_head ring) < 2 ^ n"
    using sq_room [OF ok room] n by (simp add: unat_pow2_u32)
  with n show ?thesis
    by (simp add: sq_pending_def ring_store_sqe_def Let_def ring_view_push)
qed

interpretation sq: bounded_fifo sq_ok ring_sq_full sq_pending
  "\<lambda>ring. unat (rg_sq_ring_entries ring)" ring_store_sqe
proof
  fix ring :: iouringd_ring and sqe
  assume ok: "sq_ok ring"
  then have le: "unat (rg_sq_tail ring - rg_sq_head ring) \<le> unat (rg_sq_ring_entries ring)"
    by (simp add: sq_ok_def word_le_nat_alt)
  then show "length (sq_pending ring) \<le> unat (rg_sq_ring_entries ring)"
    by (simp add: sq_pending_def)
  from le show "ring_sq_full ring \<longleftrightarrow> length (sq_pending ring) = unat (rg_sq_ring_entries ring)"
    by (auto simp: sq_pending_def ring_sq_full_def word_le_nat_alt)
  assume room: "\<not> ring_sq_full ring"
  show "sq_pending (ring_store_sqe sqe ring) = sq_pending ring @ [sqe]"
    using ok room by (rule sq_store_pending)
  show "sq_ok (ring_store_sqe sqe ring)"
    using ok room by (rule sq_store_ok)
qed (simp add: ring_store_sqe_def Let_def)

section \<open>Submission against a kernel that consumes what it reports\<close>

text \<open>
  io_uring_enter documents its result as the number of entries it consumed, oldest first; a
  failed call consumes none.
\<close>

definition enter_consumes :: "kernel \<Rightarrow> bool" where
  "enter_consumes k \<longleftrightarrow>
     (\<forall>n r. case k_enter k n r of (rc, head') \<Rightarrow>
        (if rc < 0 then head' = rg_sq_head r
         else nat rc \<le> unat (rg_sq_tail r - rg_sq_head r)
            \<and> head' = rg_sq_head r + of_nat (nat rc)))"

lemma enter_consumesD:
  assumes "enter_consumes k" and "k_enter k n r = (rc, head')"
  shows "nat rc \<le> unat (rg_sq_tail r - rg_sq_head r) \<and> head' = rg_sq_head r + of_nat (nat rc)"
proof -
  from assms(1) have "case k_enter k n r of (rc, head') \<Rightarrow>
        (if rc < 0 then head' = rg_sq_head r
         else nat rc \<le> unat (rg_sq_tail r - rg_sq_head r)
            \<and> head' = rg_sq_head r + of_nat (nat rc))"
    by (simp only: enter_consumes_def)
  with assms(2) show ?thesis by (simp split: if_splits)
qed

lemma ring_view_drop:
  assumes "m \<le> unat (tail - head)"
  shows "ring_view buf rmask (head + of_nat m) tail = drop m (ring_view buf rmask head tail)"
  using assms
proof (induction m arbitrary: head)
  case 0
  then show ?case by simp
next
  case (Suc m)
  then have ne: "head \<noteq> tail" by auto
  have "unat (tail - (head + 1)) = unat (tail - head) - 1"
    using unat_dec [of "tail - head"] ne by (simp add: algebra_simps)
  with Suc.prems Suc.IH [of "head + 1"] show ?case
    by (simp add: ring_view_pop [OF ne] algebra_simps)
qed

lemma sq_consume:
  assumes "sq_ok ring" and "m \<le> unat (rg_sq_tail ring - rg_sq_head ring)"
  shows "sq_ok (ring\<lparr>rg_sq_head := rg_sq_head ring + of_nat m, rg_calls := c\<rparr>)"
    and "sq_pending (ring\<lparr>rg_sq_head := rg_sq_head ring + of_nat m, rg_calls := c\<rparr>)
       = drop m (sq_pending ring)"
proof -
  let ?d = "rg_sq_tail ring - rg_sq_head ring"
  have "of_nat m \<le> ?d"
    using assms(2) by (simp add: word_le_nat_alt unat_of_nat)
  then have "?d - of_nat m \<le> ?d" by (simp add: word_sub_le)
  moreover have "?d \<le> rg_sq_ring_entries ring" using assms(1) by (simp add: sq_ok_def)
  ultimately have "rg_sq_tail ring - (rg_sq_head ring + of_nat m) \<le> rg_sq_ring_entries ring"
    by (simp add: diff_diff_eq [symmetric])
  with assms(1) show "sq_ok (ring\<lparr>rg_sq_head := rg_sq_head ring + of_nat m, rg_calls := c\<rparr>)"
    by (auto simp: sq_ok_def)
  show "sq_pending (ring\<lparr>rg_sq_head := rg_sq_head ring + of_nat m, rg_calls := c\<rparr>)
       = drop m (sq_pending ring)"
    using assms(2) by (simp add: sq_pending_def ring_view_drop)
qed

text \<open>The shared part of the submission functions, branch by branch.\<close>

lemma ring_publish_full:
  "ring_sq_full ring \<Longrightarrow> ring_publish_sqe k sqe ring = (Inl EBUSY, ring)"
  by (simp add: ring_publish_sqe_def)

lemma ring_publish_room:
  assumes ok: "sq_ok ring" and contract: "enter_consumes k" and room: "\<not> ring_sq_full ring"
    and rc: "fst (k_enter k (rg_calls ring) (ring_store_sqe sqe ring)) = rc"
    and out: "ring_publish_sqe k sqe ring = (r, ring')"
  shows "sq_ok ring'"
    and "sq_pending ring' = drop (nat rc) (sq_pending ring @ [sqe])"
    and "r = (if rc < 0 then Inl (- rc) else Inr ())"
proof -
  let ?s = "ring_store_sqe sqe ring"
  obtain head' where enter: "k_enter k (rg_calls ring) ?s = (rc, head')"
    using rc by (cases "k_enter k (rg_calls ring) ?s") simp
  have calls: "rg_calls ?s = rg_calls ring" by (simp add: ring_store_sqe_def Let_def)
  have ring': "ring' = ?s\<lparr>rg_sq_head := head', rg_calls := Suc (rg_calls ring)\<rparr>"
    and r: "r = (if rc < 0 then Inl (- rc) else Inr ())"
    using out room enter calls by (auto simp: ring_publish_sqe_def Let_def split: if_splits)
  have spec: "nat rc \<le> unat (rg_sq_tail ?s - rg_sq_head ?s)
      \<and> head' = rg_sq_head ?s + of_nat (nat rc)"
    using contract enter by (rule enter_consumesD)
  note consume = sq_consume [OF sq_store_ok [OF ok room], of "nat rc" sqe]
  show "r = (if rc < 0 then Inl (- rc) else Inr ())" by (rule r)
  show "sq_ok ring'" using consume(1) spec ring' by simp
  show "sq_pending ring' = drop (nat rc) (sq_pending ring @ [sqe])"
    using consume(2) spec ring' sq_store_pending [OF ok room] by simp
qed

lemma prompt_kernel_consumes: "enter_consumes prompt_kernel"
proof -
  have "1 \<le> unat (t - h)" if "h \<noteq> t" for h t :: u32
    using that by (metis One_nat_def Suc_leI eq_iff_diff_eq_0 unat_gt_0)
  then show ?thesis by (simp add: enter_consumes_def prompt_kernel_def)
qed

lemma fresh_ring_sq_ok: "n < 32 \<Longrightarrow> sq_ok (fresh_ring n files buffers)"
  by (auto simp: sq_ok_def fresh_ring_def)

lemma fresh_ring_pending: "sq_pending (fresh_ring n files buffers) = []"
  by (simp add: sq_pending_def fresh_ring_def ring_view_def)

section \<open>Properties\<close>

text \<open>
  C14: the submission functions implement a bounded first-in first-out queue. On a well-formed
  ring and a kernel that consumes what it reports, publishing an entry is refused with EBUSY
  exactly when every slot holds an entry the kernel has not consumed, and then changes nothing;
  otherwise the entry is appended behind the unconsumed ones, the kernel removes as many of the
  oldest as it reports, no unconsumed entry is overwritten although the 32-bit indices wrap, and
  the ring stays well-formed.
\<close>

theorem ring_submission_fifo:
  assumes "sq_ok ring" and "enter_consumes k" and "ring_publish_sqe k sqe ring = (r, ring')"
  shows "sq_ok ring' \<and>
    (if length (sq_pending ring) = unat (rg_sq_ring_entries ring)
     then r = Inl EBUSY \<and> ring' = ring
     else \<exists>rc. sq_pending ring' = drop (nat rc) (sq_pending ring @ [sqe])
            \<and> r = (if rc < 0 then Inl (- rc) else Inr ()))"
proof (cases "ring_sq_full ring")
  case True
  with assms sq.full_iff [OF assms(1)] show ?thesis by (simp add: ring_publish_full)
next
  case False
  with sq.full_iff [OF assms(1)]
  have "length (sq_pending ring) \<noteq> unat (rg_sq_ring_entries ring)" by simp
  with ring_publish_room [OF assms(1,2) False refl assms(3)] show ?thesis by auto
qed

theorem ring_submission_fifo_witness:
  "\<exists>ring'. ring_publish_sqe prompt_kernel (zero_sqe\<lparr>sqe_user_data := 7\<rparr>) (fresh_ring 2 0 0)
      = (Inr (), ring') \<and> sq_ok ring'"
proof -
  let ?out = "ring_publish_sqe prompt_kernel (zero_sqe\<lparr>sqe_user_data := 7\<rparr>) (fresh_ring 2 0 0)"
  have ok: "sq_ok (fresh_ring 2 0 0)" by (simp add: fresh_ring_sq_ok)
  have "fst ?out = Inr ()"
    by (simp add: ring_publish_sqe_def ring_sq_full_def fresh_ring_def ring_store_sqe_def
        prompt_kernel_def Let_def)
  then have out: "?out = (Inr (), snd ?out)" by (simp add: prod_eq_iff)
  from ring_submission_fifo [OF ok prompt_kernel_consumes out] out show ?thesis by blast
qed

text \<open>
  C19: a failed io_uring_enter leaves the refused entry in the queue. The function reports the
  error to its caller, but the tail is already published, so the entry is still pending: from
  an empty ring, the next submission that the kernel accepts with one entry consumes the
  refused entry and leaves the accepted one pending.
\<close>

theorem ring_failed_enter_leaves_entry:
  assumes ok: "sq_ok ring" and contract: "enter_consumes k" and empty: "sq_pending ring = []"
    and size: "2 \<le> unat (rg_sq_ring_entries ring)"
    and first: "ring_publish_sqe k old ring = (Inl e, ring1)"
    and second: "ring_publish_sqe k new ring1 = (Inr (), ring2)"
    and one: "fst (k_enter k (rg_calls ring1) (ring_store_sqe new ring1)) = 1"
  shows "sq_pending ring1 = [old] \<and> sq_pending ring2 = [new]"
proof -
  from sq.full_iff [OF ok] empty size have room: "\<not> ring_sq_full ring" by simp
  note p1 = ring_publish_room [OF ok contract room refl first]
  from p1(3) have "fst (k_enter k (rg_calls ring) (ring_store_sqe old ring)) < 0"
    by (simp split: if_splits)
  with p1(2) empty have pending1: "sq_pending ring1 = [old]" by simp
  have "rg_sq_ring_entries ring1 = rg_sq_ring_entries ring"
    using first room
    by (auto simp: ring_publish_sqe_def ring_store_sqe_def Let_def split: prod.splits if_splits)
  with sq.full_iff [OF p1(1)] pending1 size have room1: "\<not> ring_sq_full ring1" by simp
  from ring_publish_room(2) [OF p1(1) contract room1 one second] pending1 show ?thesis by simp
qed

text \<open>A kernel whose first call fails with EAGAIN and whose later calls consume one entry.\<close>

theorem ring_failed_enter_leaves_entry_witness:
  "\<exists>k ring1 ring2.
     ring_publish_sqe k (zero_sqe\<lparr>sqe_user_data := 7\<rparr>) (fresh_ring 1 0 0) = (Inl EAGAIN, ring1)
     \<and> ring_publish_sqe k (zero_sqe\<lparr>sqe_user_data := 8\<rparr>) ring1 = (Inr (), ring2)
     \<and> sq_pending ring2 = [zero_sqe\<lparr>sqe_user_data := 8\<rparr>]"
proof -
  let ?k = "prompt_kernel\<lparr>k_enter := (\<lambda>n r. if n = 0 then (- EAGAIN, rg_sq_head r)
      else k_enter prompt_kernel n r)\<rparr>"
  let ?r = "fresh_ring 1 0 0"
  let ?o1 = "ring_publish_sqe ?k (zero_sqe\<lparr>sqe_user_data := 7\<rparr>) ?r"
  let ?o2 = "ring_publish_sqe ?k (zero_sqe\<lparr>sqe_user_data := 8\<rparr>) (snd ?o1)"
  have ok: "sq_ok ?r" by (simp add: fresh_ring_sq_ok)
  have contract: "enter_consumes ?k"
    using prompt_kernel_consumes by (simp add: enter_consumes_def)
  note unf = ring_publish_sqe_def ring_sq_full_def fresh_ring_def ring_store_sqe_def
    prompt_kernel_def Let_def word_le_nat_alt
  have o1: "?o1 = (Inl EAGAIN, snd ?o1)" by (simp add: unf)
  have o2: "?o2 = (Inr (), snd ?o2)" by (simp add: unf)
  have one: "fst (k_enter ?k (rg_calls (snd ?o1))
      (ring_store_sqe (zero_sqe\<lparr>sqe_user_data := 8\<rparr>) (snd ?o1))) = 1"
    by (simp add: unf)
  have size: "2 \<le> unat (rg_sq_ring_entries ?r)" by (simp add: fresh_ring_def)
  from ring_failed_enter_leaves_entry [OF ok contract fresh_ring_pending size o1 o2 one] o1 o2
  show ?thesis by blast
qed

text \<open>
  C18: reading the completion queue takes the completions in the order in which the kernel
  published them. With the tail and the entries that the acquire load sees, the function reports
  nothing exactly when no entry is pending; otherwise it reports the oldest pending entry and
  leaves exactly the later ones, whatever the wrap-around of the indices.
\<close>

theorem ring_peek_fifo:
  assumes "iouringd_ring_peek_completion k ring = (out, ring')"
    and "k_completions k (rg_calls ring) ring = (tail, entries)"
  shows "case out of
      None \<Rightarrow> ring_view entries (rg_cq_ring_mask ring) (rg_cq_head ring) tail = []
            \<and> cq_pending ring' = []
    | Some (task, res) \<Rightarrow>
        (\<exists>cqe. ring_view entries (rg_cq_ring_mask ring) (rg_cq_head ring) tail
                 = cqe # cq_pending ring'
             \<and> cqe_user_data cqe = task \<and> cqe_res cqe = res)"
proof (cases "rg_cq_head ring = tail")
  case True
  with assms have "out = None" and "cq_pending ring' = []"
    by (auto simp: iouringd_ring_peek_completion_def cq_pending_def ring_view_def Let_def)
  with True show ?thesis by (simp add: ring_view_def)
next
  case False
  with assms show ?thesis
    by (auto simp: iouringd_ring_peek_completion_def cq_pending_def Let_def
        ring_view_pop [OF False])
qed

theorem ring_peek_fifo_witness:
  "\<exists>k ring'. iouringd_ring_peek_completion k (fresh_ring 1 0 0) = (Some (9, 5), ring')
      \<and> cq_pending ring' = []"
proof -
  let ?es = "[\<lparr>cqe_user_data = 9, cqe_res = 5\<rparr>, \<lparr>cqe_user_data = 0, cqe_res = 0\<rparr>]"
  let ?k = "prompt_kernel\<lparr>k_completions := (\<lambda>n r. (1, ?es))\<rparr>"
  let ?o = "iouringd_ring_peek_completion ?k (fresh_ring 1 0 0)"
  have fst: "fst ?o = Some (9, 5)"
    by (simp add: iouringd_ring_peek_completion_def fresh_ring_def Let_def)
  then have out: "?o = (Some (9, 5), snd ?o)" by (simp add: prod_eq_iff)
  have seen: "k_completions ?k (rg_calls (fresh_ring 1 0 0)) (fresh_ring 1 0 0) = (1, ?es)"
    by simp
  have "ring_view ?es (rg_cq_ring_mask (fresh_ring 1 0 0)) (rg_cq_head (fresh_ring 1 0 0)) 1
      = [\<lparr>cqe_user_data = 9, cqe_res = 5\<rparr>]"
    by (simp add: ring_view_def fresh_ring_def)
  with ring_peek_fifo [OF out seen] have "cq_pending (snd ?o) = []" by auto
  with out show ?thesis by blast
qed

text \<open>
  What the kernel reports about an operation, read off the probe alone: the first entry with the
  number of the operation has bit 0 of its flags set.
\<close>

definition probe_reports :: "io_uring_probe_op list \<Rightarrow> u8 \<Rightarrow> bool" where
  "probe_reports probe opcode \<longleftrightarrow>
     (\<exists>i < length probe. po_op (probe ! i) = opcode \<and> bit (po_flags (probe ! i)) 0
        \<and> (\<forall>j < i. po_op (probe ! j) \<noteq> opcode))"

lemma probe_reports_Nil [simp]: "\<not> probe_reports [] opcode"
  by (simp add: probe_reports_def)

lemma probe_reports_Cons:
  "probe_reports (p # ps) opcode \<longleftrightarrow>
     (if po_op p = opcode then bit (po_flags p) 0 else probe_reports ps opcode)"
  unfolding probe_reports_def
  by (simp only: length_Cons Ex_less_Suc2 All_less_Suc2 nth_Cons_0 nth_Cons_Suc) auto

lemma opcode_supported_iff: "opcode_supported probe opcode \<longleftrightarrow> probe_reports probe opcode"
  by (induction probe)
    (auto simp: probe_reports_Cons bit_iff_and_push_bit_not_eq_0 [of _ 0])

lemma bit_probe_fold:
  "bit (foldl (\<lambda>m (opcode, cap). if S opcode then m OR cap else m) m0 tab) i \<longleftrightarrow>
     bit m0 i \<or> (\<exists>(opcode, cap) \<in> set tab. S opcode \<and> bit (cap :: u32) i)"
  by (induction tab arbitrary: m0) (auto simp: bit_or_iff split: if_splits)

lemma probe_table_bits:
  "probe_table = [(0, 2 ^ 0), (11, 2 ^ 1), (1, 2 ^ 2), (2, 2 ^ 3), (14, 2 ^ 4), (4, 2 ^ 5),
     (5, 2 ^ 6), (6, 2 ^ 7), (16, 2 ^ 8), (13, 2 ^ 9), (18, 2 ^ 10), (19, 2 ^ 11)]"
  by (simp add: probe_table_def)

lemma bit_cap: "bit (2 ^ n :: u32) j \<longleftrightarrow> j = n \<and> n < 32"
  by (auto simp: bit_exp_iff)

lemma bit_op_mask_v1: "bit IOURINGD_CAPABILITY_OP_MASK_V1 j \<longleftrightarrow> j < 12"
proof -
  have "bit (mask 12 :: u32) j \<longleftrightarrow> j < 12"
    by (simp only: bit_mask_iff) (auto dest: less_le_trans)
  then show ?thesis by (simp add: mask_eq_exp_minus_1)
qed

text \<open>
  C20: the capability mask the daemon computes from the probe of the kernel is exactly the set of
  operations the kernel reports as supported. The protocol gives the bits 0 to 11 to the
  operations with the kernel's numbers 0 (no-op), 11 (timeout), 1 (readv), 2 (writev), 14
  (cancel), 4 and 5 (fixed read and write), 6 (poll), 16 (connect), 13 (accept), 18 (openat) and
  19 (close); a bit of the mask is set if and only if it is one of these and the first entry of
  the probe for its operation carries the supported flag. No other bit is ever set.
\<close>

theorem probe_op_mask_exact:
  "bit (probe_op_mask probe) j \<longleftrightarrow>
     (\<exists>opcode. (j, opcode) \<in> {(0, 0), (1, 11), (2, 1), (3, 2), (4, 14), (5, 4), (6, 5), (7, 6),
          (8, 16), (9, 13), (10, 18), (11, 19)}
        \<and> probe_reports probe opcode)"
proof -
  define M where "M opcode \<longleftrightarrow> (j, opcode) \<in> {(0, 0), (1, 11), (2, 1), (3, 2), (4, 14), (5, 4), (6, 5),
    (7, 6), (8, 16), (9, 13), (10, 18), (11, 19)}" for opcode :: u8
  have "bit (probe_op_mask probe) j \<longleftrightarrow> j < 12
      \<and> (\<exists>(opcode, cap) \<in> set probe_table. probe_reports probe opcode \<and> bit cap j)"
    by (simp only: probe_op_mask_def supported_submit_mask_def bit_and_iff bit_probe_fold
        bit_op_mask_v1 opcode_supported_iff) auto
  also have "\<dots> \<longleftrightarrow> j < 12 \<and> (\<exists>opcode. M opcode \<and> probe_reports probe opcode)"
    by (simp only: M_def probe_table_bits list.set bex_simps prod.case bit_cap insert_iff empty_iff
        prod.inject conj_disj_distribR ex_disj_distrib) (simp add: conj_commute)
  also have "\<dots> \<longleftrightarrow> (\<exists>opcode. M opcode \<and> probe_reports probe opcode)"
  proof -
    have "j < 12" if "M opcode" for opcode
      using that unfolding M_def by (elim insertE emptyE) simp_all
    then show ?thesis by blast
  qed
  finally show ?thesis unfolding M_def .
qed

text \<open>
  The statement at a probe that lists the no-op as supported, the timeout without the flag and
  the close operation as supported.
\<close>

theorem probe_op_mask_exact_witness:
  "let probe = [\<lparr>po_op = 0, po_flags = 1\<rparr>, \<lparr>po_op = 11, po_flags = 2\<rparr>, \<lparr>po_op = 19, po_flags = 3\<rparr>]
   in bit (probe_op_mask probe) 0 \<and> \<not> bit (probe_op_mask probe) 1 \<and> bit (probe_op_mask probe) 11
     \<and> \<not> bit (probe_op_mask probe) 12"
  unfolding Let_def probe_op_mask_exact by (simp add: probe_reports_Cons)

end
