(* ===== verification/Daemon_State.thy ===== *)
theory Daemon_State
  imports Ring
begin

text \<open>
  The state of the daemon, src/daemon/main.c lines 21 to 161: the resource slots, the clients,
  the task slots and the runtime, with the initialisation functions. C arrays are lists of the
  array's length. A byte buffer with a length field (\<open>input\<close> and \<open>input_len\<close>, \<open>output\<close> and
  \<open>output_len\<close>) is the list of its valid bytes, so that the length field is the length of the
  list; \<open>io_payload\<close> and \<open>io_buffer\<close> are the bytes last copied into them.

  Effects outside the process: \<open>os_closed\<close> records the descriptors passed to close(), most
  recent first. The \<open>sys\<close> record holds what the operating system answers: the ring's kernel,
  the clock read for each trace event, the addresses of the objects handed to the kernel, and
  the bytes and the address length that the kernel has stored for a task when it completes.
\<close>

section \<open>Limits\<close>

abbreviation (input) IOURINGD_MAX_CLIENTS :: nat where "IOURINGD_MAX_CLIENTS \<equiv> 64"
abbreviation (input) IOURINGD_MAX_TASKS :: nat where "IOURINGD_MAX_TASKS \<equiv> 64"
abbreviation (input) IOURINGD_MAX_REGISTERED_FDS :: nat where "IOURINGD_MAX_REGISTERED_FDS \<equiv> 32"
abbreviation (input) IOURINGD_MAX_REGISTERED_BUFFERS :: nat where
  "IOURINGD_MAX_REGISTERED_BUFFERS \<equiv> 4"
abbreviation (input) IOURINGD_DEFAULT_REGISTERED_BUFFERS :: nat where
  "IOURINGD_DEFAULT_REGISTERED_BUFFERS \<equiv> 1"
abbreviation (input) IOURINGD_MAX_IO_BYTES :: nat where "IOURINGD_MAX_IO_BYTES \<equiv> 4096"
abbreviation (input) IOURINGD_TRACE_CAPACITY :: nat where "IOURINGD_TRACE_CAPACITY \<equiv> 256"
abbreviation (input) IOURINGD_DEFAULT_RING_ENTRIES :: nat where "IOURINGD_DEFAULT_RING_ENTRIES \<equiv> 4"
abbreviation (input) IOURINGD_MAX_REQUEST_BYTES :: nat where
  "IOURINGD_MAX_REQUEST_BYTES \<equiv> 4120"

section \<open>Structures\<close>

datatype iouringd_client_phase =
  IOURINGD_CLIENT_PHASE_HANDSHAKE | IOURINGD_CLIENT_PHASE_SUBMIT

record iouringd_resource_slot =
  fs_resource_id :: resource_id
  fs_daemon_fd :: int
  fs_in_flight :: u32
  fs_registered :: bool
  fs_closing :: bool

record iouringd_buffer_slot =
  bs_resource_id :: resource_id
  bs_in_flight :: u32
  bs_registered :: bool
  bs_closing :: bool
  bs_valid_length :: u32

record iouringd_limits =
  lim_max_clients :: nat
  lim_registered_fds_per_client :: nat
  lim_registered_buffers_per_client :: nat
  lim_per_client_credits :: nat
  lim_io_bytes_max :: nat
  lim_ring_entries :: nat

record iouringd_client =
  cl_fd :: int
  cl_generation :: u32
  cl_phase :: iouringd_client_phase
  cl_close_after_flush :: bool
  cl_request_ready :: bool
  cl_received_fd :: int
  cl_expected_input :: nat
  cl_input :: bytes
  cl_output :: bytes
  cl_output_capacity :: nat
  cl_output_sent :: nat
  cl_request :: iouringd_submit_request_v1
  cl_control_op :: u16
  cl_timeout_nsec :: u64
  cl_cancel_target_id :: task_id
  cl_resource_id :: resource_id
  cl_buffer_resource_id :: resource_id
  cl_open_flags :: i32
  cl_close_fd :: int
  cl_open_mode :: u32
  cl_io_length :: u32
  cl_trace_after_sequence :: u64
  cl_trace_max_events :: u32
  cl_poll_mask :: u16
  cl_outstanding_tasks :: nat
  cl_outstanding_credit_tasks :: nat
  cl_file_slot_limit :: nat
  cl_buffer_slot_limit :: nat
  cl_io_bytes_max :: nat
  cl_io_payload :: bytes
  cl_next_resource_id :: u32
  cl_file_resources :: "iouringd_resource_slot list"
  cl_buffer_resources :: "iouringd_buffer_slot list"

text \<open>The objects whose addresses are given to the kernel.\<close>

datatype memory_object =
  Task_timeout nat | Task_io_vector nat | Task_io_buffer nat | Task_sockaddr_length nat
| Buffer_storage nat

record iouringd_task_slot =
  tk_active :: bool
  tk_consumes_credit :: bool
  tk_task_id :: task_id
  tk_task_kind :: u16
  tk_submit_priority :: u16
  tk_client_index :: nat
  tk_client_generation :: u32
  tk_file_slot_index :: int
  tk_buffer_slot_index :: int
  tk_result_file_slot_index :: int
  tk_timeout_sec :: u64
  tk_timeout_nsec :: u64
  tk_cancel_target_id :: task_id
  tk_resource_id :: resource_id
  tk_buffer_resource_id :: resource_id
  tk_result_resource_id :: resource_id
  tk_open_flags :: i32
  tk_close_fd :: int
  tk_open_mode :: u32
  tk_io_length :: u32
  tk_poll_mask :: u16
  tk_sockaddr_length :: u32
  tk_iov_len :: u32
  tk_io_buffer :: bytes

record os =
  os_closed :: "int list"

record iouringd_runtime =
  rt_server_fd :: int
  rt_next_task_id :: u64
  rt_next_client_generation :: u32
  rt_outstanding_tasks :: nat
  rt_outstanding_credit_tasks :: nat
  rt_ring_capacity :: nat
  rt_task_capacity :: nat
  rt_dispatch_cursor :: nat
  rt_client_output_capacity :: nat
  rt_registered_file_capacity :: nat
  rt_registered_buffer_capacity :: nat
  rt_per_client_credit_limit :: nat
  rt_accepted_submits :: u64
  rt_rejected_submits :: u64
  rt_completions :: u64
  rt_next_trace_sequence :: u64
  rt_trace_count :: nat
  rt_limits :: iouringd_limits
  rt_buffer_storage :: "bytes list"
  rt_capabilities :: iouringd_capability_descriptor_v1
  rt_ring :: iouringd_ring
  rt_trace_events :: "iouringd_trace_event_v1 list"
  rt_clients :: "iouringd_client list"
  rt_tasks :: "iouringd_task_slot list"
  rt_os :: os

record sys =
  s_kernel :: kernel
  s_clock :: "u64 \<Rightarrow> u64"
  s_addr :: "memory_object \<Rightarrow> u64"
  s_task_bytes :: "task_id \<Rightarrow> nat \<Rightarrow> u8"
  s_task_sockaddr_length :: "task_id \<Rightarrow> u32"

section \<open>Access to the tables\<close>

abbreviation client_at :: "iouringd_runtime \<Rightarrow> nat \<Rightarrow> iouringd_client" where
  "client_at rt i \<equiv> rt_clients rt ! i"

abbreviation task_at :: "iouringd_runtime \<Rightarrow> nat \<Rightarrow> iouringd_task_slot" where
  "task_at rt i \<equiv> rt_tasks rt ! i"

definition set_client :: "nat \<Rightarrow> iouringd_client \<Rightarrow> iouringd_runtime \<Rightarrow> iouringd_runtime" where
  "set_client i c rt = rt\<lparr>rt_clients := (rt_clients rt)[i := c]\<rparr>"

definition set_task :: "nat \<Rightarrow> iouringd_task_slot \<Rightarrow> iouringd_runtime \<Rightarrow> iouringd_runtime" where
  "set_task i t rt = rt\<lparr>rt_tasks := (rt_tasks rt)[i := t]\<rparr>"

definition set_file_slot ::
  "nat \<Rightarrow> iouringd_resource_slot \<Rightarrow> iouringd_client \<Rightarrow> iouringd_client" where
  "set_file_slot j s c = c\<lparr>cl_file_resources := (cl_file_resources c)[j := s]\<rparr>"

definition set_buffer_slot ::
  "nat \<Rightarrow> iouringd_buffer_slot \<Rightarrow> iouringd_client \<Rightarrow> iouringd_client" where
  "set_buffer_slot j s c = c\<lparr>cl_buffer_resources := (cl_buffer_resources c)[j := s]\<rparr>"

text \<open>\<open>close(fd)\<close>.\<close>

definition os_close :: "int \<Rightarrow> os \<Rightarrow> os" where
  "os_close fd os = os\<lparr>os_closed := fd # os_closed os\<rparr>"

definition rt_close :: "int \<Rightarrow> iouringd_runtime \<Rightarrow> iouringd_runtime" where
  "rt_close fd rt = rt\<lparr>rt_os := os_close fd (rt_os rt)\<rparr>"

section \<open>Initial values\<close>

definition zero_request :: iouringd_submit_request_v1 where
  "zero_request =
     \<lparr>sr_header = \<lparr>ph_magic = 0, ph_version_major = 0, ph_version_minor = 0\<rparr>,
      sr_task_kind = 0, sr_priority = 0, sr_reserved1 = 0\<rparr>"

definition empty_file_slot :: iouringd_resource_slot where
  "empty_file_slot =
     \<lparr>fs_resource_id = IOURINGD_RESOURCE_ID_INVALID, fs_daemon_fd = - 1, fs_in_flight = 0,
      fs_registered = False, fs_closing = False\<rparr>"

definition empty_buffer_slot :: iouringd_buffer_slot where
  "empty_buffer_slot =
     \<lparr>bs_resource_id = IOURINGD_RESOURCE_ID_INVALID, bs_in_flight = 0, bs_registered = False,
      bs_closing = False, bs_valid_length = 0\<rparr>"

definition iouringd_init_limits :: iouringd_limits where
  "iouringd_init_limits =
     \<lparr>lim_max_clients = IOURINGD_MAX_CLIENTS,
      lim_registered_fds_per_client = IOURINGD_MAX_REGISTERED_FDS,
      lim_registered_buffers_per_client = IOURINGD_DEFAULT_REGISTERED_BUFFERS,
      lim_per_client_credits = IOURINGD_MAX_TASKS,
      lim_io_bytes_max = IOURINGD_MAX_IO_BYTES,
      lim_ring_entries = IOURINGD_DEFAULT_RING_ENTRIES\<rparr>"

definition iouringd_reset_client_input :: "iouringd_client \<Rightarrow> iouringd_client" where
  "iouringd_reset_client_input c = c\<lparr>cl_input := [], cl_expected_input := sizeof_submit_request\<rparr>"

definition iouringd_init_client_resources :: "iouringd_client \<Rightarrow> iouringd_client" where
  "iouringd_init_client_resources c =
     c\<lparr>cl_received_fd := - 1, cl_next_resource_id := 1, cl_poll_mask := 0,
       cl_outstanding_tasks := 0, cl_outstanding_credit_tasks := 0,
       cl_file_resources := replicate IOURINGD_MAX_REGISTERED_FDS empty_file_slot,
       cl_buffer_resources := replicate IOURINGD_MAX_REGISTERED_BUFFERS empty_buffer_slot\<rparr>"

text \<open>A client slot after \<open>memset(runtime, 0, ...)\<close>; its resource arrays are set right after.\<close>

definition zero_client :: iouringd_client where
  "zero_client =
     \<lparr>cl_fd = 0, cl_generation = 0, cl_phase = IOURINGD_CLIENT_PHASE_HANDSHAKE,
      cl_close_after_flush = False, cl_request_ready = False, cl_received_fd = 0,
      cl_expected_input = 0, cl_input = [], cl_output = [], cl_output_capacity = 0,
      cl_output_sent = 0, cl_request = zero_request, cl_control_op = 0, cl_timeout_nsec = 0,
      cl_cancel_target_id = 0, cl_resource_id = 0, cl_buffer_resource_id = 0,
      cl_open_flags = 0, cl_close_fd = 0, cl_open_mode = 0, cl_io_length = 0,
      cl_trace_after_sequence = 0, cl_trace_max_events = 0, cl_poll_mask = 0,
      cl_outstanding_tasks = 0, cl_outstanding_credit_tasks = 0, cl_file_slot_limit = 0,
      cl_buffer_slot_limit = 0, cl_io_bytes_max = 0, cl_io_payload = [],
      cl_next_resource_id = 0, cl_file_resources = [], cl_buffer_resources = []\<rparr>"

definition init_client :: iouringd_client where
  "init_client =
     (iouringd_reset_client_input
       (iouringd_init_client_resources
         (zero_client\<lparr>cl_fd := - 1, cl_phase := IOURINGD_CLIENT_PHASE_HANDSHAKE\<rparr>)))
     \<lparr>cl_file_slot_limit := IOURINGD_MAX_REGISTERED_FDS,
      cl_buffer_slot_limit := IOURINGD_MAX_REGISTERED_BUFFERS,
      cl_io_bytes_max := IOURINGD_MAX_IO_BYTES\<rparr>"

text \<open>\<open>iouringd_clear_task_slot\<close>: zero, with no slot and no descriptor.\<close>

definition iouringd_clear_task_slot :: iouringd_task_slot where
  "iouringd_clear_task_slot =
     \<lparr>tk_active = False, tk_consumes_credit = False, tk_task_id = 0, tk_task_kind = 0,
      tk_submit_priority = 0, tk_client_index = 0, tk_client_generation = 0,
      tk_file_slot_index = - 1, tk_buffer_slot_index = - 1, tk_result_file_slot_index = - 1,
      tk_timeout_sec = 0, tk_timeout_nsec = 0, tk_cancel_target_id = 0, tk_resource_id = 0,
      tk_buffer_resource_id = 0, tk_result_resource_id = 0, tk_open_flags = 0,
      tk_close_fd = - 1, tk_open_mode = 0, tk_io_length = 0, tk_poll_mask = 0,
      tk_sockaddr_length = 0, tk_iov_len = 0, tk_io_buffer = []\<rparr>"

definition zero_event :: iouringd_trace_event_v1 where
  "zero_event =
     \<lparr>te_sequence = 0, te_timestamp_nsec = 0, te_task = 0, te_resource = 0, te_res = 0,
      te_credits = 0, te_event_kind = 0, te_task_kind = 0, te_client_slot = 0, te_priority = 0,
      te_reserved1 = 0\<rparr>"

definition zero_capabilities :: iouringd_capability_descriptor_v1 where
  "zero_capabilities =
     \<lparr>cap_struct_size = 0, cap_features = 0, cap_ring_entries = 0, cap_cq_entries = 0,
      cap_op_mask = 0, cap_submit_credits = 0, cap_registered_fd_slots = 0,
      cap_registered_buffer_slots = 0, cap_io_bytes_max = 0\<rparr>"

definition closed_ring :: iouringd_ring where
  "closed_ring =
     \<lparr>rg_ring_fd = - 1, rg_setup_flags = 0, rg_registered_files_count = 0,
      rg_registered_buffers_count = 0, rg_sqes = [], rg_sq_array = [], rg_sq_head = 0,
      rg_sq_tail = 0, rg_sq_ring_mask = 0, rg_sq_ring_entries = 0, rg_cqes = [], rg_cq_head = 0,
      rg_cq_tail = 0, rg_cq_ring_mask = 0, rg_file_table = [], rg_calls = 0\<rparr>"

definition iouringd_init_runtime :: iouringd_runtime where
  "iouringd_init_runtime =
     \<lparr>rt_server_fd = - 1, rt_next_task_id = 1, rt_next_client_generation = 0,
      rt_outstanding_tasks = 0, rt_outstanding_credit_tasks = 0, rt_ring_capacity = 0,
      rt_task_capacity = 0, rt_dispatch_cursor = 0, rt_client_output_capacity = 0,
      rt_registered_file_capacity = 0, rt_registered_buffer_capacity = 0,
      rt_per_client_credit_limit = 0, rt_accepted_submits = 0, rt_rejected_submits = 0,
      rt_completions = 0, rt_next_trace_sequence = 1, rt_trace_count = 0,
      rt_limits = iouringd_init_limits, rt_buffer_storage = [],
      rt_capabilities = zero_capabilities, rt_ring = closed_ring,
      rt_trace_events = replicate IOURINGD_TRACE_CAPACITY zero_event,
      rt_clients = replicate IOURINGD_MAX_CLIENTS init_client,
      rt_tasks = replicate IOURINGD_MAX_TASKS iouringd_clear_task_slot,
      rt_os = \<lparr>os_closed = []\<rparr>\<rparr>"

text \<open>\<open>iouringd_close_client\<close>: the client's sockets are closed, its output is dropped, its
  registered resources are marked for release, and the request state is reset.\<close>

definition close_if_open :: "int \<Rightarrow> os \<Rightarrow> os" where
  "close_if_open fd os = (if fd \<ge> 0 then os_close fd os else os)"

definition mark_file_closing :: "iouringd_resource_slot \<Rightarrow> iouringd_resource_slot" where
  "mark_file_closing s = (if fs_registered s then s\<lparr>fs_closing := True\<rparr> else s)"

definition mark_buffer_closing :: "iouringd_buffer_slot \<Rightarrow> iouringd_buffer_slot" where
  "mark_buffer_closing s = (if bs_registered s then s\<lparr>bs_closing := True\<rparr> else s)"

definition iouringd_close_client :: "os \<times> iouringd_client \<Rightarrow> os \<times> iouringd_client" where
  "iouringd_close_client = (\<lambda>(os, c).
     (close_if_open (cl_received_fd c) (close_if_open (cl_fd c) os),
      iouringd_reset_client_input
        (c\<lparr>cl_fd := (if cl_fd c \<ge> 0 then - 1 else cl_fd c),
           cl_output := [], cl_output_capacity := 0, cl_output_sent := 0,
           cl_close_after_flush := False, cl_request_ready := False,
           cl_received_fd := (if cl_received_fd c \<ge> 0 then - 1 else cl_received_fd c),
           cl_file_resources := map mark_file_closing (cl_file_resources c),
           cl_buffer_resources := map mark_buffer_closing (cl_buffer_resources c),
           cl_phase := IOURINGD_CLIENT_PHASE_HANDSHAKE,
           cl_request := zero_request, cl_control_op := 0, cl_timeout_nsec := 0,
           cl_cancel_target_id := IOURINGD_TASK_ID_INVALID,
           cl_resource_id := IOURINGD_RESOURCE_ID_INVALID,
           cl_buffer_resource_id := IOURINGD_RESOURCE_ID_INVALID,
           cl_open_flags := 0, cl_close_fd := - 1, cl_open_mode := 0, cl_io_length := 0,
           cl_trace_after_sequence := 0, cl_trace_max_events := 0, cl_poll_mask := 0,
           cl_io_payload := []\<rparr>)))"

definition rt_close_client :: "nat \<Rightarrow> iouringd_runtime \<Rightarrow> iouringd_runtime" where
  "rt_close_client i rt =
     (case iouringd_close_client (rt_os rt, client_at rt i) of
        (os, c) \<Rightarrow> set_client i c (rt\<lparr>rt_os := os\<rparr>))"

section \<open>Access lemmas\<close>

lemma set_client_simps [simp]:
  "rt_clients (set_client i c rt) = (rt_clients rt)[i := c]"
  "rt_tasks (set_client i c rt) = rt_tasks rt"
  "rt_limits (set_client i c rt) = rt_limits rt"
  "rt_ring (set_client i c rt) = rt_ring rt"
  "rt_os (set_client i c rt) = rt_os rt"
  by (simp_all add: set_client_def)

lemma set_task_simps [simp]:
  "rt_clients (set_task i t rt) = rt_clients rt"
  "rt_tasks (set_task i t rt) = (rt_tasks rt)[i := t]"
  "rt_limits (set_task i t rt) = rt_limits rt"
  "rt_ring (set_task i t rt) = rt_ring rt"
  "rt_os (set_task i t rt) = rt_os rt"
  by (simp_all add: set_task_def)

end
