(* ===== verification/Output.thy ===== *)
theory Output
  imports Daemon_State
begin

text \<open>
  The output buffer of a client, main.c lines 418 to 470 and 842 to 850: bytes are queued behind
  the unsent ones, and a flush hands the unsent bytes to the socket in order. The socket's
  answers to write() are a script: \<open>Wrote n\<close> accepts up to \<open>n\<close> bytes (never more than offered),
  \<open>Write_error e\<close> fails, and a socket with nothing left to answer would block.
\<close>

datatype write_result = Wrote nat | Write_error errno

definition iouringd_queue_client_output ::
  "bytes \<Rightarrow> iouringd_client \<Rightarrow> (unit, iouringd_client) res" where
  "iouringd_queue_client_output buf c =
     (let c1 =
        (if cl_output_sent c = length (cl_output c)
         then c\<lparr>cl_output_sent := 0, cl_output := []\<rparr>
         else if cl_output_sent c \<noteq> 0
         then c\<lparr>cl_output := drop (cl_output_sent c) (cl_output c), cl_output_sent := 0\<rparr>
         else c)
      in if length buf > size_sub (cl_output_capacity c1) (length (cl_output c1))
         then (Inl EOVERFLOW, c1)
         else (Inr (), c1\<lparr>cl_output := cl_output c1 @ buf\<rparr>))"

text \<open>The flush: the bytes given to the socket, the result, and the client.\<close>

fun iouringd_flush_client_output ::
  "write_result list \<Rightarrow> iouringd_client \<Rightarrow> bytes \<times> (unit, iouringd_client) res" where
  "iouringd_flush_client_output ws c =
     (if cl_output_sent c < length (cl_output c) then
        (case ws of
           [] \<Rightarrow> ([], Inr (), c)
         | Wrote n # ws' \<Rightarrow>
             (let rest = drop (cl_output_sent c) (cl_output c);
                  m = min n (length rest)
              in if m > 0 then
                   (case iouringd_flush_client_output ws'
                           (c\<lparr>cl_output_sent := cl_output_sent c + m\<rparr>) of
                      (out, r) \<Rightarrow> (take m rest @ out, r))
                 else ([], Inl EPIPE, c))
         | Write_error e # ws' \<Rightarrow>
             (if e = EAGAIN then ([], Inr (), c)
              else if e = EINTR then iouringd_flush_client_output ws' c
              else ([], Inl e, c)))
      else ([], Inr (), c\<lparr>cl_output := [], cl_output_sent := 0\<rparr>))"

definition iouringd_client_is_active :: "iouringd_client \<Rightarrow> bool" where
  "iouringd_client_is_active c \<longleftrightarrow> cl_fd c \<ge> 0"

definition iouringd_client_has_output :: "iouringd_client \<Rightarrow> bool" where
  "iouringd_client_has_output c \<longleftrightarrow> length (cl_output c) > cl_output_sent c"

section \<open>The buffer as a byte queue\<close>

definition output_pending :: "iouringd_client \<Rightarrow> bytes" where
  "output_pending c = drop (cl_output_sent c) (cl_output c)"

definition output_ok :: "iouringd_client \<Rightarrow> bool" where
  "output_ok c \<longleftrightarrow> cl_output_sent c \<le> length (cl_output c)
     \<and> length (cl_output c) \<le> cl_output_capacity c \<and> cl_output_capacity c < 2 ^ 64"

text \<open>The two states differ in the output buffer at most.\<close>

definition same_but_output :: "iouringd_client \<Rightarrow> iouringd_client \<Rightarrow> bool" where
  "same_but_output c c' \<longleftrightarrow>
     c'\<lparr>cl_output := [], cl_output_sent := 0\<rparr> = c\<lparr>cl_output := [], cl_output_sent := 0\<rparr>"

declare iouringd_flush_client_output.simps [simp del]

text \<open>
  What the handlers rely on: a bounded byte sink that either takes a whole message behind what
  is pending, or refuses it and keeps what is pending.
\<close>

locale byte_sink =
  fixes ok :: "'s \<Rightarrow> bool"
    and pending :: "'s \<Rightarrow> bytes"
    and capacity :: "'s \<Rightarrow> nat"
    and put :: "bytes \<Rightarrow> 's \<Rightarrow> (unit, 's) res"
  assumes put_fits:
      "ok s \<Longrightarrow> length (pending s) + length m \<le> capacity s \<Longrightarrow>
         \<exists>s'. put m s = (Inr (), s') \<and> ok s' \<and> pending s' = pending s @ m
            \<and> capacity s' = capacity s"
    and put_full:
      "ok s \<Longrightarrow> capacity s < length (pending s) + length m \<Longrightarrow>
         \<exists>s'. put m s = (Inl EOVERFLOW, s') \<and> ok s' \<and> pending s' = pending s
            \<and> capacity s' = capacity s"
begin

fun put_all :: "bytes list \<Rightarrow> 's \<Rightarrow> (unit, 's) res" where
  "put_all [] s = (Inr (), s)"
| "put_all (m # ms) s = bind_rc (put m s) (\<lambda>_. put_all ms)"

lemma put_cases:
  assumes "ok s"
  obtains (fits) s' where "put m s = (Inr (), s')" "ok s'" "pending s' = pending s @ m"
    "capacity s' = capacity s" "length (pending s) + length m \<le> capacity s"
  | (full) s' where "put m s = (Inl EOVERFLOW, s')" "ok s'" "pending s' = pending s"
    "capacity s' = capacity s" "capacity s < length (pending s) + length m"
  using put_fits [OF assms, of m] put_full [OF assms, of m] by (meson not_le)

lemma put_all_fits:
  assumes "ok s" and "length (pending s) + length (concat ms) \<le> capacity s"
  shows "\<exists>s'. put_all ms s = (Inr (), s') \<and> ok s' \<and> pending s' = pending s @ concat ms
            \<and> capacity s' = capacity s"
  using assms
proof (induction ms arbitrary: s)
  case Nil
  then show ?case by simp
next
  case (Cons m ms)
  then obtain s1 where "put m s = (Inr (), s1)" "ok s1" "pending s1 = pending s @ m"
    "capacity s1 = capacity s"
    using put_fits [of s m] by fastforce
  with Cons.IH [of s1] Cons.prems show ?case by simp
qed

lemma put_all_ok:
  assumes "ok s" and "put_all ms s = (r, s')"
  shows "ok s' \<and> capacity s' = capacity s"
  using assms
proof (induction ms arbitrary: s)
  case Nil
  then show ?case by simp
next
  case (Cons m ms)
  from Cons.prems(1) show ?case
  proof (cases rule: put_cases [of s m])
    case (fits s1)
    with Cons.IH [of s1] Cons.prems(2) show ?thesis by simp
  next
    case (full s1)
    with Cons.prems(2) show ?thesis by simp
  qed
qed

end

lemma queue_output_eq:
  assumes "output_ok c"
  shows "iouringd_queue_client_output buf c =
    (let c1 = c\<lparr>cl_output := output_pending c, cl_output_sent := 0\<rparr>
     in if length (output_pending c) + length buf \<le> cl_output_capacity c
        then (Inr (), c1\<lparr>cl_output := output_pending c @ buf\<rparr>)
        else (Inl EOVERFLOW, c1))"
proof -
  let ?c1 = "c\<lparr>cl_output := output_pending c, cl_output_sent := 0\<rparr>"
  have compact: "(if cl_output_sent c = length (cl_output c)
         then c\<lparr>cl_output_sent := 0, cl_output := []\<rparr>
         else if cl_output_sent c \<noteq> 0
         then c\<lparr>cl_output := drop (cl_output_sent c) (cl_output c), cl_output_sent := 0\<rparr>
         else c) = ?c1"
    by (simp add: output_pending_def)
  have "length (output_pending c) \<le> cl_output_capacity c"
    using assms by (auto simp: output_ok_def output_pending_def)
  moreover from this have "size_sub (cl_output_capacity c) (length (output_pending c))
      = cl_output_capacity c - length (output_pending c)"
    using assms by (simp add: output_ok_def)
  ultimately show ?thesis
    unfolding iouringd_queue_client_output_def compact by (auto simp: Let_def)
qed

interpretation outq: byte_sink output_ok output_pending cl_output_capacity
  iouringd_queue_client_output
proof
  fix c :: iouringd_client and m
  assume ok: "output_ok c"
  show "\<exists>c'. iouringd_queue_client_output m c = (Inr (), c') \<and> output_ok c'
      \<and> output_pending c' = output_pending c @ m \<and> cl_output_capacity c' = cl_output_capacity c"
    if "length (output_pending c) + length m \<le> cl_output_capacity c"
    using that ok by (simp add: queue_output_eq output_ok_def output_pending_def)
  show "\<exists>c'. iouringd_queue_client_output m c = (Inl EOVERFLOW, c') \<and> output_ok c'
      \<and> output_pending c' = output_pending c \<and> cl_output_capacity c' = cl_output_capacity c"
    if "cl_output_capacity c < length (output_pending c) + length m"
    using that ok by (auto simp: queue_output_eq output_ok_def output_pending_def)
qed

text \<open>Queueing touches the output buffer of the client and nothing else.\<close>

lemma same_but_outputI [intro]:
  "same_but_output c c"
  "same_but_output c (c\<lparr>cl_output := out, cl_output_sent := sent\<rparr>)"
  "same_but_output c (c\<lparr>cl_output_sent := sent, cl_output := out\<rparr>)"
  "same_but_output c (c\<lparr>cl_output := out\<rparr>)"
  "same_but_output c (c\<lparr>cl_output_sent := sent\<rparr>)"
  by (simp_all add: same_but_output_def)

lemma same_but_outputD:
  assumes "same_but_output c c'"
  shows
    "cl_fd c' = cl_fd c"
    and "cl_generation c' = cl_generation c"
    and "cl_phase c' = cl_phase c"
    and "cl_close_after_flush c' = cl_close_after_flush c"
    and "cl_request_ready c' = cl_request_ready c"
    and "cl_received_fd c' = cl_received_fd c"
    and "cl_expected_input c' = cl_expected_input c"
    and "cl_input c' = cl_input c"
    and "cl_output_capacity c' = cl_output_capacity c"
    and "cl_request c' = cl_request c"
    and "cl_control_op c' = cl_control_op c"
    and "cl_timeout_nsec c' = cl_timeout_nsec c"
    and "cl_cancel_target_id c' = cl_cancel_target_id c"
    and "cl_resource_id c' = cl_resource_id c"
    and "cl_buffer_resource_id c' = cl_buffer_resource_id c"
    and "cl_open_flags c' = cl_open_flags c"
    and "cl_close_fd c' = cl_close_fd c"
    and "cl_open_mode c' = cl_open_mode c"
    and "cl_io_length c' = cl_io_length c"
    and "cl_trace_after_sequence c' = cl_trace_after_sequence c"
    and "cl_trace_max_events c' = cl_trace_max_events c"
    and "cl_poll_mask c' = cl_poll_mask c"
    and "cl_outstanding_tasks c' = cl_outstanding_tasks c"
    and "cl_outstanding_credit_tasks c' = cl_outstanding_credit_tasks c"
    and "cl_file_slot_limit c' = cl_file_slot_limit c"
    and "cl_buffer_slot_limit c' = cl_buffer_slot_limit c"
    and "cl_io_bytes_max c' = cl_io_bytes_max c"
    and "cl_io_payload c' = cl_io_payload c"
    and "cl_next_resource_id c' = cl_next_resource_id c"
    and "cl_file_resources c' = cl_file_resources c"
    and "cl_buffer_resources c' = cl_buffer_resources c"
  using assms by (cases c; cases c'; simp add: same_but_output_def)+

lemma queue_output_frame:
  assumes "iouringd_queue_client_output buf c = (r, c')"
  shows "same_but_output c c'"
  using assms unfolding iouringd_queue_client_output_def Let_def
  by (auto split: if_splits intro: same_but_outputI)

section \<open>Properties\<close>

text \<open>
  C16: the output buffer is a bounded first-in first-out byte queue. Queueing a message succeeds
  exactly when the unsent bytes and the message fit the capacity, and then appends the message
  behind the unsent bytes; otherwise it fails with EOVERFLOW and the unsent bytes stay as they
  are. In both cases the buffer stays well-formed and nothing else of the client changes.
\<close>

theorem queue_client_output_fifo:
  assumes "output_ok c" and "iouringd_queue_client_output buf c = (r, c')"
  shows "output_ok c'
    \<and> same_but_output c c'
    \<and> (if length (output_pending c) + length buf \<le> cl_output_capacity c
       then r = Inr () \<and> output_pending c' = output_pending c @ buf
       else r = Inl EOVERFLOW \<and> output_pending c' = output_pending c)"
  using outq.put_cases [OF assms(1), of buf] queue_output_frame [OF assms(2)] assms(2)
  by (metis Pair_inject not_le)

theorem queue_client_output_fifo_witness:
  "\<exists>c'. iouringd_queue_client_output [7, 8]
      (init_client\<lparr>cl_output := [1, 2, 3], cl_output_sent := 2, cl_output_capacity := 4\<rparr>)
      = (Inr (), c') \<and> output_pending c' = [3, 7, 8]"
proof -
  let ?c = "init_client\<lparr>cl_output := [1, 2, 3], cl_output_sent := 2, cl_output_capacity := 4\<rparr>"
  have ok: "output_ok ?c" by (simp add: output_ok_def)
  obtain r c' where out: "iouringd_queue_client_output [7, 8] ?c = (r, c')" by fastforce
  from queue_client_output_fifo [OF ok out] have "r = Inr ()" "output_pending c' = [3, 7, 8]"
    by (simp_all add: output_pending_def)
  with out show ?thesis by simp
qed

text \<open>One turn of the flush loop.\<close>

lemma flush_done:
  "\<not> cl_output_sent c < length (cl_output c) \<Longrightarrow> iouringd_flush_client_output ws c
    = ([], Inr (), c\<lparr>cl_output := [], cl_output_sent := 0\<rparr>)"
  by (simp add: iouringd_flush_client_output.simps [of ws])

lemma flush_blocked:
  "cl_output_sent c < length (cl_output c) \<Longrightarrow> iouringd_flush_client_output [] c = ([], Inr (), c)"
  by (simp add: iouringd_flush_client_output.simps [of "[]"])

lemma flush_error:
  "cl_output_sent c < length (cl_output c) \<Longrightarrow> iouringd_flush_client_output (Write_error e # ws) c
    = (if e = EAGAIN then ([], Inr (), c)
       else if e = EINTR then iouringd_flush_client_output ws c
       else ([], Inl e, c))"
  by (simp add: iouringd_flush_client_output.simps [of "Write_error e # ws"])

lemma flush_wrote:
  "cl_output_sent c < length (cl_output c) \<Longrightarrow> iouringd_flush_client_output (Wrote n # ws) c
    = (let m = min n (length (output_pending c)) in
       if m > 0 then
         (case iouringd_flush_client_output ws (c\<lparr>cl_output_sent := cl_output_sent c + m\<rparr>) of
            (out, r) \<Rightarrow> (take m (output_pending c) @ out, r))
       else ([], Inl EPIPE, c))"
  by (simp add: iouringd_flush_client_output.simps [of "Wrote n # ws"] output_pending_def Let_def)

lemmas flush_turn = flush_done flush_blocked flush_error flush_wrote

lemma same_but_output_trans:
  "same_but_output a b \<Longrightarrow> same_but_output b c \<Longrightarrow> same_but_output a c"
  by (simp add: same_but_output_def)

lemma flush_loop_spec:
  assumes "cl_output_sent c \<le> length (cl_output c)"
    and "iouringd_flush_client_output ws c = (out, r, c')"
  shows "out @ output_pending c' = output_pending c \<and> same_but_output c c'
    \<and> cl_output_sent c' \<le> length (cl_output c') \<and> length (cl_output c') \<le> length (cl_output c)"
  using assms
proof (induction ws arbitrary: c out)
  case Nil
  then show ?case
    by (cases "cl_output_sent c < length (cl_output c)")
      (auto simp: flush_done flush_blocked output_pending_def)
next
  case (Cons w ws)
  show ?case
  proof (cases "cl_output_sent c < length (cl_output c)")
    case False
    with Cons.prems show ?thesis by (auto simp: flush_done output_pending_def)
  next
    case unsent: True
    show ?thesis
    proof (cases w)
      case (Write_error e)
      with unsent Cons.prems Cons.IH [of c out] show ?thesis
        by (auto simp: flush_error split: if_splits)
    next
      case (Wrote n)
      let ?m = "min n (length (output_pending c))"
      let ?c1 = "c\<lparr>cl_output_sent := cl_output_sent c + ?m\<rparr>"
      show ?thesis
      proof (cases "0 < ?m")
        case False
        with unsent Wrote Cons.prems show ?thesis by (auto simp: flush_wrote Let_def)
      next
        case True
        with unsent Wrote Cons.prems(2) obtain out1 where
          rec: "iouringd_flush_client_output ws ?c1 = (out1, r, c')"
          and out: "out = take ?m (output_pending c) @ out1"
          by (auto simp: flush_wrote Let_def split: prod.splits)
        have "cl_output_sent ?c1 \<le> length (cl_output ?c1)"
          using unsent by (simp add: output_pending_def)
        from Cons.IH [OF this rec] have IH: "out1 @ output_pending c' = output_pending ?c1"
          "same_but_output ?c1 c'" "cl_output_sent c' \<le> length (cl_output c')"
          "length (cl_output c') \<le> length (cl_output c)"
          by simp_all
        have "output_pending ?c1 = drop ?m (output_pending c)"
          by (simp add: output_pending_def add.commute)
        with IH(1) out have "out @ output_pending c' = output_pending c"
          by (metis append.assoc append_take_drop_id)
        moreover have "same_but_output c c'"
          by (rule same_but_output_trans [OF _ IH(2)]) (rule same_but_outputI)
        ultimately show ?thesis using IH by blast
      qed
    qed
  qed
qed

text \<open>
  C17: a flush neither loses, repeats nor reorders bytes. Whatever the socket answers (partial
  writes, interrupts, a full socket buffer, an error), the bytes handed to the socket followed by
  the bytes still pending are the bytes that were pending before, and the buffer stays
  well-formed.
\<close>

theorem flush_client_output_stream:
  assumes "output_ok c" and "iouringd_flush_client_output ws c = (out, r, c')"
  shows "out @ output_pending c' = output_pending c \<and> output_ok c' \<and> same_but_output c c'"
proof -
  from assms(1) have "cl_output_sent c \<le> length (cl_output c)" by (simp add: output_ok_def)
  note spec = flush_loop_spec [OF this assms(2)]
  then have "cl_output_capacity c' = cl_output_capacity c" by (auto dest: same_but_outputD)
  with spec assms(1) show ?thesis by (auto simp: output_ok_def)
qed

theorem flush_client_output_stream_witness:
  "\<exists>c'. iouringd_flush_client_output [Wrote 2, Write_error EINTR, Wrote 1, Write_error EAGAIN]
      (init_client\<lparr>cl_output := [1, 2, 3, 4], cl_output_capacity := 9\<rparr>) = ([1, 2, 3], Inr (), c')
    \<and> output_pending c' = [4]"
proof -
  let ?c = "init_client\<lparr>cl_output := [1, 2, 3, 4], cl_output_capacity := 9\<rparr>"
  let ?ws = "[Wrote 2, Write_error EINTR, Wrote 1, Write_error EAGAIN]"
  have ok: "output_ok ?c"
    by (simp add: output_ok_def init_client_def zero_client_def iouringd_init_client_resources_def
        iouringd_reset_client_input_def)
  have "\<exists>c'. iouringd_flush_client_output ?ws ?c = ([1, 2, 3], Inr (), c')"
    by (simp add: flush_turn output_pending_def init_client_def zero_client_def
        iouringd_init_client_resources_def iouringd_reset_client_input_def)
  then obtain c' where out: "iouringd_flush_client_output ?ws ?c = ([1, 2, 3], Inr (), c')" ..
  from flush_client_output_stream [OF ok out] have "[1, 2, 3] @ output_pending c' = output_pending ?c"
    by simp
  then have "output_pending c' = [4]"
    by (simp add: output_pending_def init_client_def zero_client_def
        iouringd_init_client_resources_def iouringd_reset_client_input_def)
  with out show ?thesis by blast
qed

end
