(* ===== verification/Trace.thy ===== *)
theory Trace
  imports Output
begin

text \<open>
  The trace buffer, main.c lines 1148 to 1227 and 2169 to 2226: the last 256 events in a circular
  array, and the request that returns the events after a sequence number. The copy of an
  event on stderr is in \<open>Logging\<close>. The lemmas refine the array to the history of all events
  ever emitted: the array holds the last 256 of them, and a query returns a segment of it.
\<close>

definition iouringd_trace_oldest_sequence :: "iouringd_runtime \<Rightarrow> u64" where
  "iouringd_trace_oldest_sequence rt =
     (if rt_trace_count rt = 0 then 0
      else rt_next_trace_sequence rt - of_nat (rt_trace_count rt))"

definition trace_slot :: "u64 \<Rightarrow> nat" where
  "trace_slot sequence = unat ((sequence - 1) mod 256)"

definition trace_event ::
  "sys \<Rightarrow> u64 \<Rightarrow> nat \<Rightarrow> u16 \<Rightarrow> u16 \<Rightarrow> u16 \<Rightarrow> task_id \<Rightarrow> resource_id \<Rightarrow> i32 \<Rightarrow> u32
    \<Rightarrow> iouringd_trace_event_v1"
where
  "trace_event sys sequence client_index event_kind task_kind submit_priority task resource res
     credits =
     zero_event\<lparr>te_sequence := sequence, te_timestamp_nsec := s_clock sys sequence,
       te_task := task, te_resource := resource, te_res := res, te_credits := credits,
       te_event_kind := event_kind, te_task_kind := task_kind,
       te_client_slot := of_nat client_index, te_priority := submit_priority\<rparr>"

definition iouringd_emit_trace_event ::
  "sys \<Rightarrow> nat \<Rightarrow> u16 \<Rightarrow> u16 \<Rightarrow> u16 \<Rightarrow> task_id \<Rightarrow> resource_id \<Rightarrow> i32 \<Rightarrow> u32
    \<Rightarrow> iouringd_runtime \<Rightarrow> iouringd_runtime"
where
  "iouringd_emit_trace_event sys client_index event_kind task_kind submit_priority task resource
     res credits rt =
     (let sequence = rt_next_trace_sequence rt
      in rt\<lparr>rt_next_trace_sequence := sequence + 1,
            rt_trace_events := (rt_trace_events rt)[trace_slot sequence :=
              trace_event sys sequence client_index event_kind task_kind submit_priority task
                resource res credits],
            rt_trace_count :=
              (if rt_trace_count rt < IOURINGD_TRACE_CAPACITY then rt_trace_count rt + 1
               else rt_trace_count rt)\<rparr>)"

text \<open>The loop that counts the events to send.\<close>

function trace_count_loop :: "u64 \<Rightarrow> u32 \<Rightarrow> u64 \<Rightarrow> u32 \<Rightarrow> u32" where
  "trace_count_loop latest max_events sequence emitted =
     (if sequence \<le> latest \<and> emitted < max_events
      then trace_count_loop latest max_events (sequence + 1) (emitted + 1)
      else emitted)"
  by auto
termination
proof (relation "measure (\<lambda>(latest, max_events, sequence, emitted). unat max_events - unat emitted)")
  fix latest sequence :: u64 and max_events emitted :: u32
  assume "sequence \<le> latest \<and> emitted < max_events"
  then have "unat emitted < unat max_events" by (simp add: word_less_nat_alt)
  moreover from this have "unat (emitted + 1) = unat emitted + 1"
    using unat_bound [of max_events] by (intro unat_inc) simp
  ultimately show "((latest, max_events, sequence + 1, emitted + 1), latest, max_events, sequence,
      emitted) \<in> measure (\<lambda>(latest, max_events, sequence, emitted). unat max_events - unat emitted)"
    by simp
qed simp

text \<open>The loop that queues them.\<close>

function trace_send_loop ::
  "iouringd_trace_event_v1 list \<Rightarrow> u64 \<Rightarrow> u64 \<Rightarrow> u32 \<Rightarrow> iouringd_client \<Rightarrow> (unit, iouringd_client) res"
where
  "trace_send_loop events latest sequence count c =
     (if sequence \<le> latest \<and> count \<noteq> 0
      then bind_rc (iouringd_queue_client_output (enc_trace_event (events ! trace_slot sequence)) c)
             (\<lambda>_. trace_send_loop events latest (sequence + 1) (count - 1))
      else (Inr (), c))"
  by auto
termination
proof (relation "measure (\<lambda>(events, latest, sequence, count, c). unat count)")
  fix events :: "iouringd_trace_event_v1 list" and latest sequence :: u64 and count :: u32
    and c c' :: iouringd_client
  assume "sequence \<le> latest \<and> count \<noteq> 0"
  then have "0 < unat count" "unat (count - 1) = unat count - 1"
    by (simp_all add: unat_dec unat_gt_0)
  then show "((events, latest, sequence + 1, count - 1, c'), events, latest, sequence, count, c)
      \<in> measure (\<lambda>(events, latest, sequence, count, c). unat count)"
    by simp
qed simp

text \<open>The first sequence number to send, and the number of events.\<close>

definition trace_start_sequence :: "u64 \<Rightarrow> u64 \<Rightarrow> u64" where
  "trace_start_sequence oldest after = (if after + 1 < oldest then oldest else after + 1)"

definition trace_emitted :: "iouringd_runtime \<Rightarrow> u64 \<Rightarrow> u64 \<Rightarrow> iouringd_client \<Rightarrow> u32" where
  "trace_emitted rt oldest latest c =
     (if cl_trace_max_events c \<noteq> 0 \<and> rt_trace_count rt \<noteq> 0 \<and> cl_trace_after_sequence c < latest
      then trace_count_loop latest (cl_trace_max_events c)
             (trace_start_sequence oldest (cl_trace_after_sequence c)) 0
      else 0)"

definition iouringd_queue_trace_result ::
  "iouringd_runtime \<Rightarrow> iouringd_client \<Rightarrow> (unit, iouringd_client) res" where
  "iouringd_queue_trace_result rt c =
     (let oldest = iouringd_trace_oldest_sequence rt;
          latest = (if rt_next_trace_sequence rt = 0 then 0 else rt_next_trace_sequence rt - 1);
          emitted = trace_emitted rt oldest latest c
      in bind_rc
           (iouringd_queue_client_output
             (enc_trace_result
               \<lparr>tr_oldest_sequence = oldest, tr_latest_sequence = latest, tr_count = emitted,
                tr_reserved = 0\<rparr>) c)
           (\<lambda>_ c1. if emitted = 0 then (Inr (), c1)
                   else trace_send_loop (rt_trace_events rt) latest
                          (trace_start_sequence oldest (cl_trace_after_sequence c1)) emitted c1))"

declare trace_count_loop.simps [simp del] trace_send_loop.simps [simp del]

section \<open>The history\<close>

text \<open>
  \<open>trace_ok rt h\<close>: the buffer of \<open>rt\<close> holds the end of the history \<open>h\<close>, whose \<open>i\<close>-th event has
  sequence number \<open>i + 1\<close>. The sequence numbers have not wrapped around.
\<close>

definition trace_ok :: "iouringd_runtime \<Rightarrow> iouringd_trace_event_v1 list \<Rightarrow> bool" where
  "trace_ok rt h \<longleftrightarrow>
     length h < 2 ^ 64 - 1
     \<and> rt_next_trace_sequence rt = of_nat (Suc (length h))
     \<and> rt_trace_count rt = min IOURINGD_TRACE_CAPACITY (length h)
     \<and> length (rt_trace_events rt) = IOURINGD_TRACE_CAPACITY
     \<and> (\<forall>i < length h. length h \<le> i + IOURINGD_TRACE_CAPACITY \<longrightarrow>
          rt_trace_events rt ! (i mod IOURINGD_TRACE_CAPACITY) = h ! i)
     \<and> map te_sequence h = map of_nat [1..<Suc (length h)]"

text \<open>The events a query for at most \<open>n\<close> events after sequence number \<open>after\<close> must return.\<close>

definition trace_window ::
  "nat \<Rightarrow> nat \<Rightarrow> iouringd_trace_event_v1 list \<Rightarrow> iouringd_trace_event_v1 list" where
  "trace_window after n h = take n (drop (max after (length h - IOURINGD_TRACE_CAPACITY)) h)"

definition trace_oldest_of :: "iouringd_trace_event_v1 list \<Rightarrow> nat" where
  "trace_oldest_of h = (if h = [] then 0 else Suc (length h - IOURINGD_TRACE_CAPACITY))"

text \<open>An environment for the examples: a clock that counts, no completions.\<close>

definition demo_sys :: sys where
  "demo_sys =
     \<lparr>s_kernel = prompt_kernel, s_clock = (\<lambda>n. n), s_addr = (\<lambda>_. 4096),
      s_task_bytes = (\<lambda>_ _. 0), s_task_sockaddr_length = (\<lambda>_. 0)\<rparr>"

section \<open>Lemmas\<close>

lemma trace_slot_of_nat: "i < 2 ^ 64 - 1 \<Longrightarrow> trace_slot (of_nat (Suc i)) = i mod 256"
  by (simp add: trace_slot_def unat_mod unat_of_nat)

lemma emit_trace_fields [simp]:
  "rt_clients (iouringd_emit_trace_event sys i ek tk p t r res cr rt) = rt_clients rt"
  "rt_tasks (iouringd_emit_trace_event sys i ek tk p t r res cr rt) = rt_tasks rt"
  "rt_limits (iouringd_emit_trace_event sys i ek tk p t r res cr rt) = rt_limits rt"
  "rt_ring (iouringd_emit_trace_event sys i ek tk p t r res cr rt) = rt_ring rt"
  "rt_os (iouringd_emit_trace_event sys i ek tk p t r res cr rt) = rt_os rt"
  "rt_server_fd (iouringd_emit_trace_event sys i ek tk p t r res cr rt) = rt_server_fd rt"
  "rt_next_task_id (iouringd_emit_trace_event sys i ek tk p t r res cr rt) = rt_next_task_id rt"
  "rt_next_client_generation (iouringd_emit_trace_event sys i ek tk p t r res cr rt)
     = rt_next_client_generation rt"
  "rt_outstanding_tasks (iouringd_emit_trace_event sys i ek tk p t r res cr rt)
     = rt_outstanding_tasks rt"
  "rt_outstanding_credit_tasks (iouringd_emit_trace_event sys i ek tk p t r res cr rt)
     = rt_outstanding_credit_tasks rt"
  "rt_ring_capacity (iouringd_emit_trace_event sys i ek tk p t r res cr rt) = rt_ring_capacity rt"
  "rt_task_capacity (iouringd_emit_trace_event sys i ek tk p t r res cr rt) = rt_task_capacity rt"
  "rt_dispatch_cursor (iouringd_emit_trace_event sys i ek tk p t r res cr rt)
     = rt_dispatch_cursor rt"
  "rt_client_output_capacity (iouringd_emit_trace_event sys i ek tk p t r res cr rt)
     = rt_client_output_capacity rt"
  "rt_per_client_credit_limit (iouringd_emit_trace_event sys i ek tk p t r res cr rt)
     = rt_per_client_credit_limit rt"
  "rt_registered_file_capacity (iouringd_emit_trace_event sys i ek tk p t r res cr rt)
     = rt_registered_file_capacity rt"
  "rt_registered_buffer_capacity (iouringd_emit_trace_event sys i ek tk p t r res cr rt)
     = rt_registered_buffer_capacity rt"
  "rt_capabilities (iouringd_emit_trace_event sys i ek tk p t r res cr rt) = rt_capabilities rt"
  "rt_buffer_storage (iouringd_emit_trace_event sys i ek tk p t r res cr rt)
     = rt_buffer_storage rt"
  "rt_accepted_submits (iouringd_emit_trace_event sys i ek tk p t r res cr rt)
     = rt_accepted_submits rt"
  "rt_rejected_submits (iouringd_emit_trace_event sys i ek tk p t r res cr rt)
     = rt_rejected_submits rt"
  "rt_completions (iouringd_emit_trace_event sys i ek tk p t r res cr rt) = rt_completions rt"
  by (simp_all add: iouringd_emit_trace_event_def Let_def)

lemma trace_array_append:
  assumes len: "length es = 256"
    and es: "\<And>i. i < length h \<Longrightarrow> length h \<le> i + 256 \<Longrightarrow> es ! (i mod 256) = h ! i"
    and i: "i < Suc (length h)" "Suc (length h) \<le> i + 256"
  shows "es[length h mod 256 := e] ! (i mod 256) = (h @ [e]) ! i"
proof (cases "i = length h")
  case True
  then show ?thesis by (simp add: len)
next
  case False
  with i have lt: "i < length h" "length h - i < 256" "length h \<le> i + 256" by auto
  have "length h mod 256 \<noteq> i mod 256"
  proof
    assume "length h mod 256 = i mod 256"
    then have "(length h - i) mod 256 = 0" by (metis mod_eq_iff_dvd_symdiff_nat lt(1)
          mod_eq_dvd_iff_nat less_imp_le dvd_imp_mod_0)
    with lt show False by simp
  qed
  with lt show ?thesis by (simp add: es nth_append)
qed

lemma emit_trace_ok:
  assumes "trace_ok rt h" and "length h < 2 ^ 64 - 2"
  shows "trace_ok (iouringd_emit_trace_event sys i ek tk p t r res cr rt)
    (h @ [trace_event sys (rt_next_trace_sequence rt) i ek tk p t r res cr])"
proof -
  let ?n = "length h" and ?es = "rt_trace_events rt"
  let ?e = "trace_event sys (rt_next_trace_sequence rt) i ek tk p t r res cr"
  let ?rt = "iouringd_emit_trace_event sys i ek tk p t r res cr rt"
  have nxt: "rt_next_trace_sequence rt = of_nat (Suc ?n)"
    and count: "rt_trace_count rt = min 256 ?n" and len: "length ?es = 256"
    and seqs: "map te_sequence h = map of_nat [1..<Suc ?n]"
    using assms(1) by (simp_all add: trace_ok_def)
  have es: "\<And>j. j < ?n \<Longrightarrow> ?n \<le> j + 256 \<Longrightarrow> ?es ! (j mod 256) = h ! j"
    using assms(1) by (simp add: trace_ok_def)
  have slot: "trace_slot (rt_next_trace_sequence rt) = ?n mod 256"
    unfolding nxt using assms(2) by (intro trace_slot_of_nat) simp
  have events: "rt_trace_events ?rt = ?es[?n mod 256 := ?e]"
    by (simp add: iouringd_emit_trace_event_def Let_def slot)
  have e: "te_sequence ?e = of_nat (Suc ?n)"
    by (simp add: trace_event_def nxt)
  have "rt_next_trace_sequence ?rt = of_nat (Suc (length (h @ [?e])))"
    by (simp add: iouringd_emit_trace_event_def Let_def nxt)
  moreover have "rt_trace_count ?rt = min 256 (length (h @ [?e]))"
    by (simp add: iouringd_emit_trace_event_def Let_def count)
  moreover have "\<forall>j < length (h @ [?e]). length (h @ [?e]) \<le> j + 256 \<longrightarrow>
      rt_trace_events ?rt ! (j mod 256) = (h @ [?e]) ! j"
    unfolding events using trace_array_append [OF len es] by simp
  moreover have "map te_sequence (h @ [?e]) = map of_nat [1..<Suc (length (h @ [?e]))]"
    by (simp add: seqs e)
  ultimately show ?thesis
    using assms(2) len events by (simp add: trace_ok_def)
qed

lemma trace_count_loop_eq:
  assumes "unat latest < 2 ^ 64 - 1" and "unat sequence \<le> unat latest + 1"
    and "emitted \<le> max_events"
  shows "unat (trace_count_loop latest max_events sequence emitted)
    = unat emitted + min (unat max_events - unat emitted) (unat latest + 1 - unat sequence)"
  using assms
proof (induction latest max_events sequence emitted rule: trace_count_loop.induct)
  case (1 latest max_events sequence emitted)
  show ?case
  proof (cases "sequence \<le> latest \<and> emitted < max_events")
    case True
    then have lt: "unat sequence \<le> unat latest" "unat emitted < unat max_events"
      by (simp_all add: word_le_nat_alt word_less_nat_alt)
    then have seq: "unat (sequence + 1) = unat sequence + 1"
      using 1(2) by (intro unat_inc) simp
    have em: "unat (emitted + 1) = unat emitted + 1"
      using lt(2) unat_bound [of max_events] by (intro unat_inc) simp
    have "unat (trace_count_loop latest max_events (sequence + 1) (emitted + 1))
      = unat (emitted + 1) + min (unat max_events - unat (emitted + 1))
          (unat latest + 1 - unat (sequence + 1))"
      using True 1(2) lt seq em by (intro 1(1)) (simp_all add: word_le_nat_alt)
    with True lt seq em show ?thesis
      by (simp add: trace_count_loop.simps [of latest max_events sequence emitted])
  next
    case False
    with 1(3,4) show ?thesis
      by (auto simp: trace_count_loop.simps [of latest max_events sequence emitted]
          word_le_nat_alt word_less_nat_alt)
  qed
qed

lemma trace_send_loop_put_all:
  assumes "unat latest < 2 ^ 64 - 1" and "unat sequence + unat count \<le> unat latest + 1"
  shows "trace_send_loop es latest sequence count c
    = outq.put_all (map (\<lambda>s. enc_trace_event (es ! trace_slot (of_nat s)))
        [unat sequence..<unat sequence + unat count]) c"
  using assms
proof (induction es latest sequence count c rule: trace_send_loop.induct)
  case (1 es latest sequence count c)
  show ?case
  proof (cases "count = 0")
    case True
    then show ?thesis by (simp add: trace_send_loop.simps [of es latest sequence 0])
  next
    case False
    then have dec: "unat (count - 1) = unat count - 1" "0 < unat count"
      by (simp_all add: unat_dec unat_gt_0)
    with 1(3) have le: "sequence \<le> latest" by (simp add: word_le_nat_alt)
    have seq: "unat (sequence + 1) = unat sequence + 1"
      using 1(2,3) dec by (intro unat_inc) simp
    have upt: "[unat sequence..<unat sequence + unat count]
      = unat sequence # [unat (sequence + 1)..<unat (sequence + 1) + unat (count - 1)]"
      using dec by (simp add: seq upt_rec)
    have IH: "trace_send_loop es latest (sequence + 1) (count - 1) c1
      = outq.put_all (map (\<lambda>s. enc_trace_event (es ! trace_slot (of_nat s)))
        [unat (sequence + 1)..<unat (sequence + 1) + unat (count - 1)]) c1" for c1
      using False le 1(2,3) dec seq by (intro 1(1)) simp_all
    show ?thesis
      unfolding upt trace_send_loop.simps [of es latest sequence count] IH
      using False le by simp
  qed
qed

lemma trace_window_events:
  assumes "trace_ok rt h" and "n \<le> length h - start" and "length h \<le> start + 256"
  shows "map (\<lambda>s. enc_trace_event (rt_trace_events rt ! trace_slot (of_nat s)))
      [Suc start..<Suc start + n]
    = map enc_trace_event (take n (drop start h))"
proof (rule nth_equalityI)
  show "length (map (\<lambda>s. enc_trace_event (rt_trace_events rt ! trace_slot (of_nat s)))
      [Suc start..<Suc start + n]) = length (map enc_trace_event (take n (drop start h)))"
    using assms(2) by simp
next
  fix k
  assume "k < length (map (\<lambda>s. enc_trace_event (rt_trace_events rt ! trace_slot (of_nat s)))
      [Suc start..<Suc start + n])"
  then have k: "k < n" by (simp del: upt_Suc)
  with assms(2,3) have i: "start + k < length h" "length h \<le> start + k + 256" by simp_all
  moreover have "length h < 2 ^ 64 - 1" using assms(1) by (simp add: trace_ok_def)
  ultimately have "trace_slot (of_nat (Suc (start + k))) = (start + k) mod 256"
    by (intro trace_slot_of_nat) simp
  moreover have "rt_trace_events rt ! ((start + k) mod 256) = h ! (start + k)"
    using assms(1) i by (simp add: trace_ok_def)
  ultimately show "map (\<lambda>s. enc_trace_event (rt_trace_events rt ! trace_slot (of_nat s)))
      [Suc start..<Suc start + n] ! k = map enc_trace_event (take n (drop start h)) ! k"
    using k i by (simp del: upt_Suc)
qed

text \<open>The header fields that a query computes, in terms of the history.\<close>

lemma trace_query_bounds:
  assumes "trace_ok rt h"
  shows "iouringd_trace_oldest_sequence rt = of_nat (trace_oldest_of h)"
    and "rt_next_trace_sequence rt \<noteq> 0"
    and "rt_next_trace_sequence rt - 1 = of_nat (length h)"
    and "unat (of_nat (length h) :: u64) = length h"
    and "unat (of_nat (trace_oldest_of h) :: u64) = trace_oldest_of h"
proof -
  let ?n = "length h"
  have bound: "?n < 2 ^ 64 - 1" and nxt: "rt_next_trace_sequence rt = of_nat (Suc ?n)"
    and count: "rt_trace_count rt = min 256 ?n"
    using assms by (simp_all add: trace_ok_def)
  show "unat (of_nat ?n :: u64) = ?n" using bound by (simp add: unat_of_nat)
  have "unat (of_nat (Suc ?n) :: u64) = Suc ?n" using bound by (simp only: unat_of_nat) simp
  with nxt show "rt_next_trace_sequence rt \<noteq> 0" by auto
  show "rt_next_trace_sequence rt - 1 = of_nat ?n" using nxt by simp
  have "(of_nat ?n :: u64) - of_nat (min 256 ?n) = of_nat (?n - min 256 ?n)"
    by (rule of_nat_diff [symmetric]) simp
  moreover have "?n - min 256 ?n = ?n - 256" by simp
  ultimately have "(of_nat ?n :: u64) - of_nat (min 256 ?n) = of_nat (?n - 256)" by simp
  then show "iouringd_trace_oldest_sequence rt = of_nat (trace_oldest_of h)"
    by (simp add: iouringd_trace_oldest_sequence_def nxt count trace_oldest_of_def)
  show "unat (of_nat (trace_oldest_of h) :: u64) = trace_oldest_of h"
    using bound by (simp add: unat_of_nat trace_oldest_of_def)
qed

lemma trace_query_start:
  assumes ok: "trace_ok rt h" and after: "unat after < length h"
  shows "unat (trace_start_sequence (of_nat (trace_oldest_of h)) after)
    = Suc (max (unat after) (length h - 256))"
proof -
  have len: "length h < 2 ^ 64 - 1" using ok by (simp add: trace_ok_def)
  have "unat (after + 1) = unat after + 1" using after len by (intro unat_inc) simp
  moreover have "h \<noteq> []" using after by auto
  ultimately show ?thesis
    using trace_query_bounds(5) [OF ok]
    by (auto simp: trace_start_sequence_def trace_oldest_of_def word_less_nat_alt)
qed

lemma trace_query_count:
  assumes ok: "trace_ok rt h"
    and w: "w = trace_window (unat (cl_trace_after_sequence c)) (unat (cl_trace_max_events c)) h"
  shows "trace_emitted rt (of_nat (trace_oldest_of h)) (of_nat (length h)) c = of_nat (length w)"
    and "unat (of_nat (length w) :: u32) = length w"
proof -
  let ?a = "cl_trace_after_sequence c" and ?n = "cl_trace_max_events c"
  let ?k = "trace_emitted rt (of_nat (trace_oldest_of h)) (of_nat (length h)) c"
  note bounds = trace_query_bounds [OF ok]
  have less: "?a < of_nat (length h) \<longleftrightarrow> unat ?a < length h"
    using bounds(4) by (simp add: word_less_nat_alt)
  have len: "length h < 2 ^ 64 - 1" using ok by (simp add: trace_ok_def)
  have count: "rt_trace_count rt = 0 \<longleftrightarrow> h = []"
    using ok by (auto simp: trace_ok_def min_def split: if_splits)
  have k: "unat ?k = length w"
  proof (cases "?n \<noteq> 0 \<and> unat ?a < length h")
    case True
    then have "?k = trace_count_loop (of_nat (length h)) ?n
        (trace_start_sequence (of_nat (trace_oldest_of h)) ?a) 0"
      using less count by (auto simp: trace_emitted_def)
    with True trace_query_start [OF ok] len bounds(4) show ?thesis
      by (simp add: trace_count_loop_eq w trace_window_def min.commute)
  next
    case False
    then show ?thesis using less by (auto simp: trace_emitted_def w trace_window_def)
  qed
  from arg_cong [OF k, of "of_nat :: nat \<Rightarrow> u32"] show "?k = of_nat (length w)" by simp
  with k show "unat (of_nat (length w) :: u32) = length w" by simp
qed

section \<open>Properties\<close>

text \<open>
  C24: emitting an event appends it to the history. Whatever the previous events, after the
  emission the circular array holds the last 256 events including the new one, the new event has
  the next sequence number, and the clients, the tasks and the ring are untouched.
\<close>

theorem emit_trace_event_appends:
  assumes "trace_ok rt h" and "length h < 2 ^ 64 - 2"
    and "rt' = iouringd_emit_trace_event sys i ek tk p t r res cr rt"
  shows "\<exists>e. trace_ok rt' (h @ [e])
    \<and> te_event_kind e = ek \<and> te_task_kind e = tk \<and> te_task e = t \<and> te_resource e = r
    \<and> te_res e = res \<and> te_credits e = cr \<and> te_sequence e = of_nat (Suc (length h))
    \<and> rt_clients rt' = rt_clients rt \<and> rt_tasks rt' = rt_tasks rt \<and> rt_ring rt' = rt_ring rt"
proof -
  let ?e = "trace_event sys (rt_next_trace_sequence rt) i ek tk p t r res cr"
  have "rt_next_trace_sequence rt = of_nat (Suc (length h))"
    using assms(1) by (simp add: trace_ok_def)
  with emit_trace_ok [OF assms(1,2)] assms(3) show ?thesis
    by (intro exI [of _ ?e]) (simp add: trace_event_def)
qed

lemma trace_ok_init: "trace_ok iouringd_init_runtime []"
  by (simp add: trace_ok_def iouringd_init_runtime_def)

theorem emit_trace_event_appends_witness:
  "\<exists>e. trace_ok (iouringd_emit_trace_event demo_sys 3 1 2 0 7 0 0 5 iouringd_init_runtime) [e]
     \<and> te_task e = 7 \<and> te_sequence e = 1"
  using emit_trace_event_appends [OF trace_ok_init _ refl, of demo_sys 3 1 2 0 7 0 0 5] by auto

text \<open>
  C25: a trace query returns exactly the requested part of the history. The reply is one header
  followed by the events after the client's sequence number that are among the last 256, at most
  as many as it asked for, oldest first; the header's count is the number of events that follow,
  and its oldest and latest fields are the first and last sequence numbers held. Nothing else of
  the client changes.
\<close>

theorem queue_trace_result_window:
  assumes ok: "trace_ok rt h" and out: "output_ok c"
    and w: "w = trace_window (unat (cl_trace_after_sequence c)) (unat (cl_trace_max_events c)) h"
    and fits: "length (output_pending c) + 24 + 48 * length w \<le> cl_output_capacity c"
  shows "\<exists>c'. iouringd_queue_trace_result rt c = (Inr (), c') \<and> output_ok c'
    \<and> output_pending c' = output_pending c
        @ enc_trace_result \<lparr>tr_oldest_sequence = of_nat (trace_oldest_of h),
            tr_latest_sequence = of_nat (length h), tr_count = of_nat (length w),
            tr_reserved = 0\<rparr>
        @ concat (map enc_trace_event w)"
proof -
  let ?hd = "enc_trace_result \<lparr>tr_oldest_sequence = of_nat (trace_oldest_of h),
            tr_latest_sequence = of_nat (length h), tr_count = of_nat (length w),
            tr_reserved = 0\<rparr>"
  let ?a = "cl_trace_after_sequence c"
  let ?send = "trace_send_loop (rt_trace_events rt) (of_nat (length h))
    (trace_start_sequence (of_nat (trace_oldest_of h)) ?a) (of_nat (length w))"
  note bounds = trace_query_bounds [OF ok] and k = trace_query_count [OF ok w]
  obtain c1 where hd: "iouringd_queue_client_output ?hd c = (Inr (), c1)" "output_ok c1"
    "output_pending c1 = output_pending c @ ?hd" "cl_output_capacity c1 = cl_output_capacity c"
    using outq.put_fits [OF out, of ?hd] fits by (auto simp: enc_lengths)
  have "cl_trace_after_sequence c1 = ?a"
    using same_but_outputD [OF queue_output_frame [OF hd(1)]] by simp
  moreover have "(of_nat (length w) :: u32) = 0 \<longleftrightarrow> length w = 0"
    using k(2) by (metis unsigned_eq_0_iff)
  ultimately have unf: "iouringd_queue_trace_result rt c
      = (if length w = 0 then (Inr (), c1) else ?send c1)"
    using hd(1) bounds(1,2,3) k by (simp add: iouringd_queue_trace_result_def Let_def)
  have "?send c1 = outq.put_all (map enc_trace_event w) c1" if "length w \<noteq> 0"
  proof -
    have lt: "unat ?a < length h" using that by (auto simp: w trace_window_def)
    note s = trace_query_start [OF ok lt]
    have wl: "length w \<le> length h - max (unat ?a) (length h - 256)"
      by (simp add: w trace_window_def)
    have w_eq: "take (length w) (drop (max (unat ?a) (length h - 256)) h) = w"
      unfolding w trace_window_def by (rule take_length_take)
    have len: "length h < 2 ^ 64 - 1" using ok by (simp add: trace_ok_def)
    have "map (\<lambda>q. enc_trace_event (rt_trace_events rt ! trace_slot (of_nat q)))
        [Suc (max (unat ?a) (length h - 256))..<Suc (max (unat ?a) (length h - 256)) + length w]
      = map enc_trace_event w"
      using trace_window_events [OF ok wl] w_eq by simp
    with len wl lt k(2) s bounds(4) show ?thesis
      by (subst trace_send_loop_put_all) (simp_all del: upt_Suc)
  qed
  then have "iouringd_queue_trace_result rt c = outq.put_all (map enc_trace_event w) c1"
    using unf by simp
  moreover have "length (concat (map enc_trace_event w)) = 48 * length w"
    by (simp add: trace_event.concat_length)
  moreover from this obtain c2 where "outq.put_all (map enc_trace_event w) c1 = (Inr (), c2)"
    "output_ok c2" "output_pending c2 = output_pending c1 @ concat (map enc_trace_event w)"
    using outq.put_all_fits [OF hd(2), of "map enc_trace_event w"] hd fits
    by (auto simp: enc_lengths)
  ultimately show ?thesis using hd(3) by simp
qed

theorem queue_trace_result_window_witness:
  "\<exists>c'. iouringd_queue_trace_result iouringd_init_runtime
      (init_client\<lparr>cl_output_capacity := 100, cl_trace_max_events := 8\<rparr>) = (Inr (), c')
    \<and> dec_trace_result (output_pending c') = \<lparr>tr_oldest_sequence = 0, tr_latest_sequence = 0,
        tr_count = 0, tr_reserved = 0\<rparr>"
proof -
  let ?c = "init_client\<lparr>cl_output_capacity := 100, cl_trace_max_events := 8\<rparr>"
  have out: "output_ok ?c" "output_pending ?c = []"
    by (simp_all add: output_ok_def output_pending_def init_client_def zero_client_def
        iouringd_init_client_resources_def iouringd_reset_client_input_def)
  from queue_trace_result_window [OF trace_ok_init out(1) refl] out(2)
  show ?thesis by (force simp: trace_window_def trace_oldest_of_def)
qed

end
