(* ===== verification/Resources.thy ===== *)
theory Resources
  imports Trace
begin

text \<open>
  The resource tables of a client, main.c lines 472 to 742 and 2245 to 2273: scans for a free
  slot and for the slot of an identifier, allocation of identifiers, the global index of a slot in
  the ring's file table and buffer table, and the release of a slot. A pointer to a slot is its
  index. The contract of a table (what a lookup returns after a slot is filled or emptied) is the
  locale \<open>slot_table\<close>, interpreted for the file table and for the buffer table.
\<close>

section \<open>Slots\<close>

definition fs_free :: "iouringd_resource_slot \<Rightarrow> bool" where
  "fs_free s \<longleftrightarrow> \<not> fs_registered s \<and> \<not> fs_closing s \<and> fs_in_flight s = 0"

definition bs_free :: "iouringd_buffer_slot \<Rightarrow> bool" where
  "bs_free s \<longleftrightarrow> \<not> bs_registered s \<and> \<not> bs_closing s \<and> bs_in_flight s = 0"

definition iouringd_available_file_slots :: "iouringd_client \<Rightarrow> nat" where
  "iouringd_available_file_slots c = count_slots fs_free (cl_file_slot_limit c) (cl_file_resources c)"

definition iouringd_available_buffer_slots :: "iouringd_client \<Rightarrow> nat" where
  "iouringd_available_buffer_slots c =
     count_slots bs_free (cl_buffer_slot_limit c) (cl_buffer_resources c)"

definition iouringd_find_free_file_slot :: "iouringd_client \<Rightarrow> nat option" where
  "iouringd_find_free_file_slot c = find_slot fs_free (cl_file_slot_limit c) (cl_file_resources c)"

definition iouringd_find_free_buffer_slot :: "iouringd_client \<Rightarrow> nat option" where
  "iouringd_find_free_buffer_slot c =
     find_slot bs_free (cl_buffer_slot_limit c) (cl_buffer_resources c)"

definition iouringd_find_file_slot :: "iouringd_client \<Rightarrow> resource_id \<Rightarrow> nat option" where
  "iouringd_find_file_slot c r =
     find_slot (\<lambda>s. fs_registered s \<and> fs_resource_id s = r) (cl_file_slot_limit c)
       (cl_file_resources c)"

definition iouringd_find_buffer_slot :: "iouringd_client \<Rightarrow> resource_id \<Rightarrow> nat option" where
  "iouringd_find_buffer_slot c r =
     find_slot (\<lambda>s. bs_registered s \<and> bs_resource_id s = r) (cl_buffer_slot_limit c)
       (cl_buffer_resources c)"

definition iouringd_resource_id_in_use :: "iouringd_client \<Rightarrow> resource_id \<Rightarrow> bool" where
  "iouringd_resource_id_in_use c r \<longleftrightarrow>
     find_slot (\<lambda>s. fs_registered s \<and> fs_resource_id s = r
         \<or> fs_resource_id s = r \<and> (fs_in_flight s \<noteq> 0 \<or> fs_closing s))
       (cl_file_slot_limit c) (cl_file_resources c) \<noteq> None
     \<or> find_slot (\<lambda>s. bs_registered s \<and> bs_resource_id s = r
         \<or> bs_resource_id s = r \<and> (bs_in_flight s \<noteq> 0 \<or> bs_closing s))
       (cl_buffer_slot_limit c) (cl_buffer_resources c) \<noteq> None"

definition iouringd_client_has_retained_resources :: "iouringd_client \<Rightarrow> bool" where
  "iouringd_client_has_retained_resources c \<longleftrightarrow>
     find_slot (\<lambda>s. fs_registered s \<or> fs_closing s \<or> fs_in_flight s \<noteq> 0)
       (cl_file_slot_limit c) (cl_file_resources c) \<noteq> None
     \<or> find_slot (\<lambda>s. bs_registered s \<or> bs_closing s \<or> bs_in_flight s \<noteq> 0)
       (cl_buffer_slot_limit c) (cl_buffer_resources c) \<noteq> None"

definition iouringd_available_file_resources :: "iouringd_client \<Rightarrow> u32" where
  "iouringd_available_file_resources c = of_nat (iouringd_available_file_slots c)"

definition iouringd_available_buffer_resources :: "iouringd_client \<Rightarrow> u32" where
  "iouringd_available_buffer_resources c = of_nat (iouringd_available_buffer_slots c)"

section \<open>Global indices\<close>

definition iouringd_global_file_index :: "iouringd_runtime \<Rightarrow> nat \<Rightarrow> nat \<Rightarrow> nat" where
  "iouringd_global_file_index rt i j =
     unsigned_cast (i * lim_registered_fds_per_client (rt_limits rt) + j)"

definition iouringd_global_buffer_index :: "iouringd_runtime \<Rightarrow> nat \<Rightarrow> nat \<Rightarrow> nat" where
  "iouringd_global_buffer_index rt i j =
     unsigned_cast (i * lim_registered_buffers_per_client (rt_limits rt) + j)"

section \<open>Release\<close>

definition iouringd_clear_file_slot ::
  "iouringd_resource_slot \<Rightarrow> os \<Rightarrow> iouringd_resource_slot \<times> os" where
  "iouringd_clear_file_slot s os = (empty_file_slot, close_if_open (fs_daemon_fd s) os)"

definition iouringd_clear_buffer_slot :: "iouringd_buffer_slot \<Rightarrow> iouringd_buffer_slot" where
  "iouringd_clear_buffer_slot s = empty_buffer_slot"

text \<open>Clear file slot \<open>j\<close> of client \<open>i\<close>.\<close>

definition rt_clear_file_slot :: "nat \<Rightarrow> nat \<Rightarrow> iouringd_runtime \<Rightarrow> iouringd_runtime" where
  "rt_clear_file_slot i j rt =
     (case iouringd_clear_file_slot (cl_file_resources (client_at rt i) ! j) (rt_os rt) of
        (s, os) \<Rightarrow> set_client i (set_file_slot j s (client_at rt i)) (rt\<lparr>rt_os := os\<rparr>))"

text \<open>\<open>iouringd_ring_update_registered_file(&runtime->ring, ...)\<close>.\<close>

definition rt_update_file ::
  "sys \<Rightarrow> nat \<Rightarrow> int \<Rightarrow> iouringd_runtime \<Rightarrow> (unit, iouringd_runtime) res" where
  "rt_update_file sys index fd rt =
     (case iouringd_ring_update_registered_file (s_kernel sys) index fd (rt_ring rt) of
        (r, ring) \<Rightarrow> (r, rt\<lparr>rt_ring := ring\<rparr>))"

definition iouringd_try_release_file_slot ::
  "sys \<Rightarrow> nat \<Rightarrow> nat \<Rightarrow> iouringd_runtime \<Rightarrow> (unit, iouringd_runtime) res" where
  "iouringd_try_release_file_slot sys i j rt =
     (if j \<ge> cl_file_slot_limit (client_at rt i) then (Inl EINVAL, rt)
      else
        let s = cl_file_resources (client_at rt i) ! j
        in if \<not> fs_registered s then
             (Inr (), if fs_in_flight s = 0 then rt_clear_file_slot i j rt else rt)
           else if fs_in_flight s \<noteq> 0 \<or> \<not> fs_closing s then (Inr (), rt)
           else bind_rc (rt_update_file sys (iouringd_global_file_index rt i j) (- 1) rt)
                  (\<lambda>_ rt. (Inr (), rt_clear_file_slot i j rt)))"

definition iouringd_try_release_buffer_slot ::
  "nat \<Rightarrow> iouringd_client \<Rightarrow> (unit, iouringd_client) res" where
  "iouringd_try_release_buffer_slot j c =
     (if j \<ge> cl_buffer_slot_limit c then (Inl EINVAL, c)
      else
        let s = cl_buffer_resources c ! j
        in if \<not> bs_registered s then
             (Inr (), if bs_in_flight s = 0 then set_buffer_slot j (iouringd_clear_buffer_slot s) c
                      else c)
           else if bs_in_flight s \<noteq> 0 \<or> \<not> bs_closing s then (Inr (), c)
           else (Inr (), set_buffer_slot j (iouringd_clear_buffer_slot s) c))"

section \<open>Identifiers\<close>

fun allocate_attempts :: "nat \<Rightarrow> iouringd_client \<Rightarrow> resource_id \<times> iouringd_client" where
  "allocate_attempts 0 c = (IOURINGD_RESOURCE_ID_INVALID, c)"
| "allocate_attempts (Suc n) c =
     (let candidate = cl_next_resource_id c;
          c1 = c\<lparr>cl_next_resource_id := candidate + 1\<rparr>
      in if candidate = IOURINGD_RESOURCE_ID_INVALID then allocate_attempts n c1
         else if \<not> iouringd_resource_id_in_use c1 candidate then (candidate, c1)
         else allocate_attempts n c1)"

definition iouringd_allocate_resource_id :: "iouringd_client \<Rightarrow> resource_id \<times> iouringd_client"
where
  "iouringd_allocate_resource_id c =
     allocate_attempts (cl_file_slot_limit c + cl_buffer_slot_limit c) c"

definition iouringd_unallocate_resource_id :: "resource_id \<Rightarrow> iouringd_client \<Rightarrow> iouringd_client"
where
  "iouringd_unallocate_resource_id r c =
     (if r \<noteq> IOURINGD_RESOURCE_ID_INVALID then c\<lparr>cl_next_resource_id := r\<rparr> else c)"

section \<open>The table contract\<close>

text \<open>
  A table of slots under a key, bounded by a limit. A slot is free, or live (its key can be looked
  up), or neither (reserved for an operation under way).
\<close>

locale slot_table =
  fixes slots :: "'c \<Rightarrow> 's list"
    and limit :: "'c \<Rightarrow> nat"
    and free :: "'s \<Rightarrow> bool"
    and live :: "'s \<Rightarrow> bool"
    and key :: "'s \<Rightarrow> resource_id"
    and find_free :: "'c \<Rightarrow> nat option"
    and find_key :: "'c \<Rightarrow> resource_id \<Rightarrow> nat option"
    and put :: "nat \<Rightarrow> 's \<Rightarrow> 'c \<Rightarrow> 'c"
  assumes find_free_Some: "find_free c = Some j \<Longrightarrow> j < limit c \<and> free (slots c ! j)"
    and find_free_None: "find_free c = None \<Longrightarrow> j < limit c \<Longrightarrow> \<not> free (slots c ! j)"
    and find_key_Some:
      "find_key c r = Some j \<Longrightarrow> j < limit c \<and> live (slots c ! j) \<and> key (slots c ! j) = r"
    and find_key_None:
      "find_key c r = None \<Longrightarrow> j < limit c \<Longrightarrow> live (slots c ! j) \<Longrightarrow> key (slots c ! j) \<noteq> r"
    and slots_put: "slots (put j s c) = (slots c)[j := s]"
    and limit_put: "limit (put j s c) = limit c"
    and free_not_live: "free s \<Longrightarrow> \<not> live s"
begin

definition table_ok :: "'c \<Rightarrow> bool" where
  "table_ok c \<longleftrightarrow> limit c \<le> length (slots c)
     \<and> (\<forall>j < limit c. \<forall>k < limit c. live (slots c ! j) \<longrightarrow> live (slots c ! k)
          \<longrightarrow> key (slots c ! j) = key (slots c ! k) \<longrightarrow> j = k)"

lemma find_key_live:
  assumes "table_ok c" and "j < limit c" and "live (slots c ! j)"
  shows "find_key c (key (slots c ! j)) = Some j"
proof (cases "find_key c (key (slots c ! j))")
  case None
  with find_key_None assms show ?thesis by blast
next
  case (Some k)
  with find_key_Some [OF Some] assms show ?thesis by (auto simp: table_ok_def)
qed

lemma find_key_eqI:
  assumes "table_ok c" and "table_ok c'" and "limit c' = limit c"
    and "\<And>j. j < limit c \<Longrightarrow> (live (slots c' ! j) \<and> key (slots c' ! j) = r)
       = (live (slots c ! j) \<and> key (slots c ! j) = r)"
  shows "find_key c' r = find_key c r"
proof (cases "find_key c r")
  case None
  show ?thesis
  proof (cases "find_key c' r")
    case (Some k)
    with find_key_Some [OF Some] find_key_None [OF None] assms(3,4) show ?thesis by auto
  qed (simp add: None)
next
  case (Some j)
  then have j: "j < limit c" "live (slots c ! j) \<and> key (slots c ! j) = r"
    using find_key_Some [OF Some] by auto
  with assms(4) [of j] have "live (slots c' ! j)" "key (slots c' ! j) = r" by auto
  with find_key_live [OF assms(2), of j] j assms(3) Some show ?thesis by simp
qed

lemma insert:
  assumes ok: "table_ok c" and free: "find_free c = Some j" and s: "live s"
    and fresh: "find_key c (key s) = None"
  shows "table_ok (put j s c)" and "find_key (put j s c) (key s) = Some j"
    and "r \<noteq> key s \<Longrightarrow> find_key (put j s c) r = find_key c r"
proof -
  have j: "j < limit c" "\<not> live (slots c ! j)"
    using find_free_Some [OF free] free_not_live by auto
  have len: "limit c \<le> length (slots c)" using ok by (simp add: table_ok_def)
  have other: "key (slots c ! k) \<noteq> key s" if "k < limit c" "live (slots c ! k)" for k
    using find_key_None [OF fresh] that by blast
  show ok': "table_ok (put j s c)"
    using ok j len other unfolding table_ok_def slots_put limit_put
    by (auto simp: nth_list_update split: if_splits) metis+
  have nth: "slots (put j s c) ! j = s" using j len by (simp add: slots_put)
  show "find_key (put j s c) (key s) = Some j"
    using find_key_live [OF ok', of j] j s unfolding nth limit_put by simp
  show "find_key (put j s c) r = find_key c r" if "r \<noteq> key s"
    using ok ok' that j len
    by (intro find_key_eqI) (auto simp: slots_put limit_put nth_list_update)
qed

lemma remove:
  assumes ok: "table_ok c" and found: "find_key c r = Some j" and s: "\<not> live s"
  shows "table_ok (put j s c)" and "find_key (put j s c) r = None"
    and "r' \<noteq> r \<Longrightarrow> find_key (put j s c) r' = find_key c r'"
proof -
  have j: "j < limit c" "live (slots c ! j)" "key (slots c ! j) = r"
    using find_key_Some [OF found] by auto
  have len: "limit c \<le> length (slots c)" using ok by (simp add: table_ok_def)
  show ok': "table_ok (put j s c)"
    using ok s len j unfolding table_ok_def slots_put limit_put
    by (auto simp: nth_list_update split: if_splits)
  show "find_key (put j s c) r = None"
  proof (cases "find_key (put j s c) r")
    case (Some k)
    from find_key_Some [OF this] s j len have "k \<noteq> j" "k < limit c" "live (slots c ! k)"
      "key (slots c ! k) = r"
      by (auto simp: slots_put limit_put nth_list_update split: if_splits)
    with ok j show ?thesis by (auto simp: table_ok_def)
  qed
  show "find_key (put j s c) r' = find_key c r'" if "r' \<noteq> r"
    using ok ok' that j s len
    by (intro find_key_eqI) (auto simp: slots_put limit_put nth_list_update)
qed

end

interpretation files: slot_table cl_file_resources cl_file_slot_limit fs_free fs_registered
  fs_resource_id iouringd_find_free_file_slot iouringd_find_file_slot set_file_slot
  by unfold_locales
    (auto simp: iouringd_find_free_file_slot_def iouringd_find_file_slot_def find_slot_None
      set_file_slot_def fs_free_def dest: find_slot_Some)

interpretation buffers: slot_table cl_buffer_resources cl_buffer_slot_limit bs_free bs_registered
  bs_resource_id iouringd_find_free_buffer_slot iouringd_find_buffer_slot set_buffer_slot
  by unfold_locales
    (auto simp: iouringd_find_free_buffer_slot_def iouringd_find_buffer_slot_def find_slot_None
      set_buffer_slot_def bs_free_def dest: find_slot_Some)

section \<open>Lemmas\<close>

lemma find_slot_neq_None: "find_slot P n xs \<noteq> None \<longleftrightarrow> (\<exists>i < n. P (xs ! i))"
  by (simp add: find_slot_None)

text \<open>The identifiers in use are those of the slots that are not free.\<close>

definition ids_in_use :: "iouringd_client \<Rightarrow> resource_id set" where
  "ids_in_use c =
     (\<lambda>j. fs_resource_id (cl_file_resources c ! j)) `
       {j. j < cl_file_slot_limit c \<and> \<not> fs_free (cl_file_resources c ! j)}
     \<union> (\<lambda>j. bs_resource_id (cl_buffer_resources c ! j)) `
       {j. j < cl_buffer_slot_limit c \<and> \<not> bs_free (cl_buffer_resources c ! j)}"

lemma in_use_iff: "iouringd_resource_id_in_use c r \<longleftrightarrow> r \<in> ids_in_use c"
  unfolding iouringd_resource_id_in_use_def find_slot_neq_None ids_in_use_def
  by (auto simp: fs_free_def bs_free_def)

lemma ids_in_use_next [simp]: "ids_in_use (c\<lparr>cl_next_resource_id := n\<rparr>) = ids_in_use c"
  by (simp add: ids_in_use_def)

lemma not_in_use_not_found:
  assumes "\<not> iouringd_resource_id_in_use c r"
  shows "iouringd_find_file_slot c r = None" and "iouringd_find_buffer_slot c r = None"
  using assms unfolding in_use_iff
  by (auto simp: ids_in_use_def iouringd_find_file_slot_def iouringd_find_buffer_slot_def
      find_slot_None fs_free_def bs_free_def)

lemma card_index_count:
  assumes "n \<le> length xs"
  shows "card {j. j < n \<and> \<not> P (xs ! j)} + count_slots P n xs = n"
proof -
  have "count_slots P n xs = card {j. j < n \<and> P (take n xs ! j)}"
    using assms unfolding count_slots_def length_filter_conv_card by (simp add: min_absorb2)
  also have "{j. j < n \<and> P (take n xs ! j)} = {j. j < n \<and> P (xs ! j)}" by auto
  finally have "card {j. j < n \<and> \<not> P (xs ! j)} + count_slots P n xs
    = card ({j. j < n \<and> \<not> P (xs ! j)} \<union> {j. j < n \<and> P (xs ! j)})"
    by (subst card_Un_disjoint) auto
  also have "{j. j < n \<and> \<not> P (xs ! j)} \<union> {j. j < n \<and> P (xs ! j)} = {..<n}" by auto
  finally show ?thesis by simp
qed

text \<open>Both tables reach their limits.\<close>

definition tables_sized :: "iouringd_client \<Rightarrow> bool" where
  "tables_sized c \<longleftrightarrow> cl_file_slot_limit c \<le> length (cl_file_resources c)
     \<and> cl_buffer_slot_limit c \<le> length (cl_buffer_resources c)"

lemma card_ids_in_use:
  assumes "tables_sized c"
  shows "card (ids_in_use c) + iouringd_available_file_slots c + iouringd_available_buffer_slots c
    \<le> cl_file_slot_limit c + cl_buffer_slot_limit c"
proof -
  let ?F = "{j. j < cl_file_slot_limit c \<and> \<not> fs_free (cl_file_resources c ! j)}"
  let ?B = "{j. j < cl_buffer_slot_limit c \<and> \<not> bs_free (cl_buffer_resources c ! j)}"
  have "card (ids_in_use c)
      \<le> card ((\<lambda>j. fs_resource_id (cl_file_resources c ! j)) ` ?F)
        + card ((\<lambda>j. bs_resource_id (cl_buffer_resources c ! j)) ` ?B)"
    unfolding ids_in_use_def by (rule card_Un_le)
  also have "\<dots> \<le> card ?F + card ?B"
    by (intro add_mono card_image_le) auto
  finally show ?thesis
    using card_index_count [of "cl_file_slot_limit c" "cl_file_resources c" fs_free]
      card_index_count [of "cl_buffer_slot_limit c" "cl_buffer_resources c" bs_free] assms
    by (simp add: tables_sized_def iouringd_available_file_slots_def
        iouringd_available_buffer_slots_def)
qed

text \<open>What the attempts do: the first identifier that is neither zero nor in use is taken and the
  counter stands behind it; a failure means that every identifier tried was zero or in use.\<close>

lemma allocate_attempts_exact:
  assumes "allocate_attempts n c = (r, c')"
  shows "(r = 0 \<and> c' = c\<lparr>cl_next_resource_id := cl_next_resource_id c + of_nat n\<rparr>
        \<and> (\<forall>k < n. cl_next_resource_id c + of_nat k \<in> insert 0 (ids_in_use c)))
    \<or> (\<exists>m < n. r = cl_next_resource_id c + of_nat m \<and> r \<notin> insert 0 (ids_in_use c)
        \<and> c' = c\<lparr>cl_next_resource_id := r + 1\<rparr>
        \<and> (\<forall>k < m. cl_next_resource_id c + of_nat k \<in> insert 0 (ids_in_use c)))"
  using assms
proof (induction n arbitrary: c)
  case 0
  then show ?case by simp
next
  case (Suc n)
  let ?x = "cl_next_resource_id c"
  let ?c1 = "c\<lparr>cl_next_resource_id := ?x + 1\<rparr>"
  show ?case
  proof (cases "?x = 0 \<or> ?x \<in> ids_in_use c")
    case True
    with Suc.prems have rest: "allocate_attempts n ?c1 = (r, c')"
      by (auto simp: Let_def in_use_iff split: if_splits)
    have tried: "?x + of_nat k \<in> insert 0 (ids_in_use c)"
      if "\<forall>k < m. ?x + 1 + of_nat k \<in> insert 0 (ids_in_use c)" "k < Suc m" for k m
      using that True by (cases k) (auto simp: algebra_simps)
    from Suc.IH [OF rest] show ?thesis
    proof (elim disjE conjE exE)
      fix m
      assume "m < n" "r = cl_next_resource_id ?c1 + of_nat m" "r \<notin> insert 0 (ids_in_use ?c1)"
        "c' = ?c1\<lparr>cl_next_resource_id := r + 1\<rparr>"
        "\<forall>k < m. cl_next_resource_id ?c1 + of_nat k \<in> insert 0 (ids_in_use ?c1)"
      with tried [of m] show ?thesis
        by (intro disjI2 exI [of _ "Suc m"]) (simp add: algebra_simps)
    next
      assume "r = 0" "c' = ?c1\<lparr>cl_next_resource_id := cl_next_resource_id ?c1 + of_nat n\<rparr>"
        "\<forall>k < n. cl_next_resource_id ?c1 + of_nat k \<in> insert 0 (ids_in_use ?c1)"
      with tried [of n] show ?thesis by (intro disjI1) (simp add: algebra_simps)
    qed
  next
    case False
    with Suc.prems have "r = ?x" "c' = ?c1" by (auto simp: Let_def in_use_iff)
    with False show ?thesis by (intro disjI2 exI [of _ 0]) simp
  qed
qed

lemma allocate_attempts_spec:
  assumes "allocate_attempts n c = (r, c')"
  shows "(\<exists>m \<le> n. c' = c\<lparr>cl_next_resource_id := cl_next_resource_id c + of_nat m\<rparr>)
    \<and> (r \<noteq> 0 \<longrightarrow> \<not> iouringd_resource_id_in_use c r)
    \<and> (r = 0 \<longrightarrow> (\<forall>k < n. cl_next_resource_id c + of_nat k \<in> insert 0 (ids_in_use c)))"
  using allocate_attempts_exact [OF assms]
proof (elim disjE conjE exE)
  fix m
  assume "m < n" "r = cl_next_resource_id c + of_nat m" "r \<notin> insert 0 (ids_in_use c)"
    "c' = c\<lparr>cl_next_resource_id := r + 1\<rparr>"
  then show ?thesis by (auto simp: in_use_iff intro!: exI [of _ "Suc m"])
qed auto

lemma distinct_window:
  fixes x :: u32
  assumes "n \<le> 2 ^ 32"
  shows "inj_on (\<lambda>k. x + of_nat k) {..<n}"
proof (rule inj_onI)
  fix j k
  assume jk: "j \<in> {..<n}" "k \<in> {..<n}" and "x + of_nat j = x + of_nat k"
  then have "unat (of_nat j :: u32) = unat (of_nat k :: u32)" by simp
  with jk assms show "j = k" by (simp add: unat_of_nat)
qed

section \<open>Properties\<close>

text \<open>
  The identifiers a run of the allocator tries: as many as the client has slots, from the counter
  on and around zero.
\<close>

definition id_window :: "iouringd_client \<Rightarrow> resource_id set" where
  "id_window c = (\<lambda>k. cl_next_resource_id c + of_nat k)
     ` {..<cl_file_slot_limit c + cl_buffer_slot_limit c}"

lemma window_has_unused:
  assumes sized: "tables_sized c" and "cl_file_slot_limit c + cl_buffer_slot_limit c \<le> 2 ^ 32"
    and free: "card (id_window c \<inter> {0})
      < iouringd_available_file_slots c + iouringd_available_buffer_slots c"
  shows "\<exists>x \<in> id_window c. x \<notin> insert 0 (ids_in_use c)"
proof (rule ccontr)
  assume "\<not> ?thesis"
  then have "id_window c \<subseteq> (id_window c \<inter> {0}) \<union> ids_in_use c" by auto
  moreover have "finite (ids_in_use c)" by (simp add: ids_in_use_def)
  ultimately have "card (id_window c) \<le> card ((id_window c \<inter> {0}) \<union> ids_in_use c)"
    by (intro card_mono) simp_all
  also have "\<dots> \<le> card (id_window c \<inter> {0}) + card (ids_in_use c)" by (rule card_Un_le)
  finally have "card (id_window c) \<le> card (id_window c \<inter> {0}) + card (ids_in_use c)" .
  moreover have "card (id_window c) = cl_file_slot_limit c + cl_buffer_slot_limit c"
    unfolding id_window_def using assms(2) by (simp add: card_image distinct_window)
  ultimately show False using card_ids_in_use [OF sized] free by simp
qed

text \<open>
  C26: identifier allocation, for every value of the 32-bit counter, wrap-around included. The
  allocator fails (with the invalid identifier zero) exactly when every identifier it tries is
  zero or used by a slot of the client (registered, in flight or closing). Otherwise the
  identifier is used by no slot, neither table finds it, and the counter stands right behind it;
  nothing else of the client changes. Two free slots are enough for success whatever the counter
  is, and one is enough when the counter does not run over zero.
\<close>

theorem allocate_resource_id_fresh:
  assumes sized: "tables_sized c" and window: "cl_file_slot_limit c + cl_buffer_slot_limit c \<le> 2 ^ 32"
    and alloc: "iouringd_allocate_resource_id c = (r, c')"
  shows "(r = IOURINGD_RESOURCE_ID_INVALID \<longleftrightarrow>
        (\<forall>x \<in> id_window c. x = 0 \<or> iouringd_resource_id_in_use c x))
    \<and> (r \<noteq> IOURINGD_RESOURCE_ID_INVALID \<longrightarrow>
        r \<in> id_window c \<and> \<not> iouringd_resource_id_in_use c r
        \<and> iouringd_find_file_slot c r = None \<and> iouringd_find_buffer_slot c r = None
        \<and> c' = c\<lparr>cl_next_resource_id := r + 1\<rparr>)
    \<and> (2 \<le> iouringd_available_file_slots c + iouringd_available_buffer_slots c \<longrightarrow>
        r \<noteq> IOURINGD_RESOURCE_ID_INVALID)
    \<and> (1 \<le> iouringd_available_file_slots c + iouringd_available_buffer_slots c
          \<and> 0 \<notin> id_window c \<longrightarrow> r \<noteq> IOURINGD_RESOURCE_ID_INVALID)"
proof -
  let ?n = "cl_file_slot_limit c + cl_buffer_slot_limit c" and ?x = "cl_next_resource_id c"
  from allocate_attempts_exact [OF alloc [unfolded iouringd_allocate_resource_id_def]]
  have failed: "r = 0 \<longleftrightarrow> (\<forall>x \<in> id_window c. x \<in> insert 0 (ids_in_use c))"
    and took: "r \<noteq> 0 \<Longrightarrow> r \<in> id_window c \<and> r \<notin> ids_in_use c \<and> c' = c\<lparr>cl_next_resource_id := r + 1\<rparr>"
    unfolding id_window_def by auto
  have "card (id_window c \<inter> {0}) \<le> 1"
    using card_mono [of "{0 :: u32}" "id_window c \<inter> {0}"] by simp
  moreover have "card (id_window c \<inter> {0}) = 0" if "0 \<notin> id_window c" using that by simp
  moreover note window_has_unused [OF sized window]
  ultimately have room: "r \<noteq> 0"
    if "2 \<le> iouringd_available_file_slots c + iouringd_available_buffer_slots c
      \<or> 1 \<le> iouringd_available_file_slots c + iouringd_available_buffer_slots c \<and> 0 \<notin> id_window c"
    using that failed by force
  show ?thesis
    using failed took room not_in_use_not_found [of c r] by (auto simp: in_use_iff)
qed

text \<open>The counter of a fresh client, wrapped around to zero: the allocator passes over zero.\<close>

theorem allocate_resource_id_fresh_witness:
  "fst (iouringd_allocate_resource_id (init_client\<lparr>cl_next_resource_id := 0\<rparr>))
     \<noteq> IOURINGD_RESOURCE_ID_INVALID"
proof -
  let ?c = "init_client\<lparr>cl_next_resource_id := 0\<rparr>"
  obtain r c' where alloc: "iouringd_allocate_resource_id ?c = (r, c')" by fastforce
  note unf = init_client_def zero_client_def iouringd_init_client_resources_def
    iouringd_reset_client_input_def
  have sized: "tables_sized ?c" "cl_file_slot_limit ?c + cl_buffer_slot_limit ?c \<le> 2 ^ 32"
    by (simp_all add: tables_sized_def unf)
  have "iouringd_available_file_slots ?c = 32"
    by (simp add: iouringd_available_file_slots_def count_slots_def unf fs_free_def
        empty_file_slot_def)
  then have free: "2 \<le> iouringd_available_file_slots ?c + iouringd_available_buffer_slots ?c"
    by simp
  from allocate_resource_id_fresh [OF sized alloc] free have "r \<noteq> 0" by blast
  with alloc show ?thesis by simp
qed

text \<open>
  no two slots share an entry of the ring's tables. Within the configured limits the global
  index of a file slot is a different entry below the registered capacity for every client and
  slot.
\<close>

lemma global_file_index_injective:
  assumes "i < IOURINGD_MAX_CLIENTS" and "i' < IOURINGD_MAX_CLIENTS"
    and "j < lim_registered_fds_per_client (rt_limits rt)"
    and "j' < lim_registered_fds_per_client (rt_limits rt)"
    and "lim_registered_fds_per_client (rt_limits rt) \<le> IOURINGD_MAX_REGISTERED_FDS"
  shows "iouringd_global_file_index rt i j < IOURINGD_MAX_CLIENTS * lim_registered_fds_per_client (rt_limits rt)
    \<and> (iouringd_global_file_index rt i j = iouringd_global_file_index rt i' j' \<longrightarrow> i = i' \<and> j = j')"
proof -
  let ?n = "lim_registered_fds_per_client (rt_limits rt)"
  have bound: "k * ?n + l < 64 * ?n" if "k < 64" "l < ?n" for k l
  proof -
    have "k * ?n + l < (k + 1) * ?n" using that by simp
    also have "\<dots> \<le> 64 * ?n" using that by (intro mult_le_mono1) simp
    finally show ?thesis .
  qed
  have cast: "iouringd_global_file_index rt k l = k * ?n + l" if "k < 64" "l < ?n" for k l
    using bound [OF that] assms(5)
    by (simp add: iouringd_global_file_index_def unsigned_cast_def)
  have "i = i' \<and> j = j'" if "i * ?n + j = i' * ?n + j'"
  proof -
    from that assms(3,4) have "(i * ?n + j) div ?n = (i' * ?n + j') div ?n"
      "(i * ?n + j) mod ?n = (i' * ?n + j') mod ?n" by simp_all
    with assms(3,4) show ?thesis by simp
  qed
  with bound [of i j] cast [of i j] cast [of i' j'] assms show ?thesis by simp
qed

end
