(* ===== verification/Parser.thy ===== *)
theory Parser
  imports Resources
begin

text \<open>
  Reading and parsing requests, main.c lines 852 to 887, 1271 to 1306 and 1317 to 2064: the
  receive loop, the handshake, the incremental framing of a request (\<open>expected_input\<close> grows as
  the header and the length field arrive) and the decoding of a complete request.

  The socket's answers to recvmsg() are a script. \<open>Recv_data d cmsgs trunc\<close> delivers the bytes \<open>d\<close>
  with control messages; when the caller asks for fewer bytes the rest stays in the stream.
  \<open>Recv_eof\<close> is a return of 0, \<open>Recv_error e\<close> a failure, and an exhausted script means that the
  call would block. A control message is one descriptor sent with SCM_RIGHTS, or anything else.
\<close>

datatype cmsg = Cmsg_rights int | Cmsg_other

datatype recv_result = Recv_data bytes "cmsg list" bool | Recv_eof | Recv_error errno

datatype read_outcome = Read_again | Read_full | Read_closed

type_synonym input_state = "recv_result list \<times> os \<times> iouringd_client"

section \<open>Validity of a request header\<close>

definition iouringd_request_header_is_valid :: "iouringd_submit_request_v1 \<Rightarrow> bool" where
  "iouringd_request_header_is_valid r \<longleftrightarrow>
     ph_magic (sr_header r) = IOURINGD_PROTOCOL_WIRE_MAGIC
     \<and> ph_version_major (sr_header r) = IOURINGD_PROTOCOL_V1_MAJOR
     \<and> ph_version_minor (sr_header r) = IOURINGD_PROTOCOL_V1_MINOR
     \<and> sr_reserved1 r = 0"

definition iouringd_request_kind_is_control :: "u16 \<Rightarrow> bool" where
  "iouringd_request_kind_is_control kind \<longleftrightarrow>
     kind \<ge> IOURINGD_REQUEST_KIND_REGISTER_FD \<and> kind \<le> IOURINGD_REQUEST_KIND_GET_TRACE"

definition iouringd_submit_priority_is_valid :: "u16 \<Rightarrow> bool" where
  "iouringd_submit_priority_is_valid p \<longleftrightarrow>
     p = IOURINGD_SUBMIT_PRIORITY_NORMAL \<or> p = IOURINGD_SUBMIT_PRIORITY_LOW
     \<or> p = IOURINGD_SUBMIT_PRIORITY_HIGH"

definition iouringd_request_priority_is_valid :: "iouringd_submit_request_v1 \<Rightarrow> bool" where
  "iouringd_request_priority_is_valid r \<longleftrightarrow>
     (if sr_task_kind r \<ge> IOURINGD_TASK_KIND_NOP \<and> sr_task_kind r < IOURINGD_TASK_KIND_MAX_V1
      then iouringd_submit_priority_is_valid (sr_priority r)
      else if iouringd_request_kind_is_control (sr_task_kind r)
      then sr_priority r = IOURINGD_SUBMIT_PRIORITY_NORMAL
      else False)"

section \<open>Receiving\<close>

fun take_cmsgs :: "cmsg list \<Rightarrow> os \<times> iouringd_client \<Rightarrow> (unit, os \<times> iouringd_client) res" where
  "take_cmsgs [] s = (Inr (), s)"
| "take_cmsgs (Cmsg_other # ms) s = (Inl EPROTO, s)"
| "take_cmsgs (Cmsg_rights fd # ms) (os, c) =
     (if cl_received_fd c \<ge> 0 then (Inl EPROTO, os_close fd os, c)
      else take_cmsgs ms (os, c\<lparr>cl_received_fd := fd\<rparr>))"

text \<open>What is left of the stream after a recvmsg() that took \<open>n\<close> bytes of a segment \<open>d\<close>.\<close>

definition unread :: "nat \<Rightarrow> bytes \<Rightarrow> recv_result list \<Rightarrow> recv_result list" where
  "unread n d ws = (if n < length d then Recv_data (drop n d) [] False # ws else ws)"

lemma take_cmsgs_keeps:
  "take_cmsgs ms (os, c) = (r, os', c') \<Longrightarrow>
    cl_input c' = cl_input c \<and> cl_expected_input c' = cl_expected_input c"
  by (induction ms "(os, c)" arbitrary: os c rule: take_cmsgs.induct) (auto split: if_splits)

function iouringd_read_client_input :: "input_state \<Rightarrow> (read_outcome, input_state) res" where
  "iouringd_read_client_input (ws, os, c) =
     (if length (cl_input c) < cl_expected_input c then
        (case ws of
           [] \<Rightarrow> (Inr Read_again, ws, os, c)
         | Recv_data d cmsgs trunc # ws' \<Rightarrow>
             (let n = min (cl_expected_input c - length (cl_input c)) (length d) in
              if n > 0 then
                (if trunc then (Inl EPROTO, unread n d ws', os, c)
                 else case take_cmsgs cmsgs (os, c) of
                   (Inl e, os', c') \<Rightarrow> (Inl e, unread n d ws', os', c')
                 | (Inr _, os', c') \<Rightarrow>
                     iouringd_read_client_input
                       (unread n d ws', os', c'\<lparr>cl_input := cl_input c' @ take n d\<rparr>))
              else if cl_input c = [] then (Inr Read_closed, ws', os, c)
              else (Inl EPROTO, ws', os, c))
         | Recv_eof # ws' \<Rightarrow>
             (if cl_input c = [] then (Inr Read_closed, ws', os, c)
              else (Inl EPROTO, ws', os, c))
         | Recv_error e # ws' \<Rightarrow>
             (if e = EAGAIN then (Inr Read_again, ws', os, c)
              else if e = EINTR then iouringd_read_client_input (ws', os, c)
              else (Inl e, ws', os, c)))
      else (Inr Read_full, ws, os, c))"
  by pat_completeness auto
termination
  by (relation "measure (\<lambda>(ws, os, c). (cl_expected_input c - length (cl_input c)) + length ws)")
    (auto simp: unread_def dest!: take_cmsgs_keeps take_cmsgs_keeps [OF sym])

declare iouringd_read_client_input.simps [simp del]

section \<open>Decoding a complete request\<close>

text \<open>The assignments every branch makes, and the end of a successful branch.\<close>

definition set_request_args ::
  "u64 \<Rightarrow> task_id \<Rightarrow> resource_id \<Rightarrow> resource_id \<Rightarrow> u32 \<Rightarrow> iouringd_client \<Rightarrow> iouringd_client" where
  "set_request_args timeout cancel resource buffer len c =
     c\<lparr>cl_timeout_nsec := timeout, cl_cancel_target_id := cancel, cl_resource_id := resource,
       cl_buffer_resource_id := buffer, cl_io_length := len\<rparr>"

definition request_done :: "u16 \<Rightarrow> iouringd_client \<Rightarrow> (bool, iouringd_client) res" where
  "request_done control_op c =
     (Inr True, iouringd_reset_client_input
       (c\<lparr>cl_control_op := control_op, cl_request_ready := True\<rparr>))"

text \<open>\<open>memcpy(client->io_payload, client->input + offset, client->io_length)\<close> behind its check.\<close>

definition copy_payload ::
  "nat \<Rightarrow> (iouringd_client \<Rightarrow> (bool, iouringd_client) res) \<Rightarrow> iouringd_client
    \<Rightarrow> (bool, iouringd_client) res" where
  "copy_payload offset rest c =
     (if unat (cl_io_length c) > cl_io_bytes_max c then (Inl EMSGSIZE, c)
      else rest (c\<lparr>cl_io_payload := slice_at offset (unat (cl_io_length c)) (cl_input c)\<rparr>))"

definition finish_plain_request :: "iouringd_client \<Rightarrow> (bool, iouringd_client) res" where
  "finish_plain_request c =
     (let kind = sr_task_kind (cl_request c) in
      if kind = IOURINGD_TASK_KIND_NOP then request_done 0 (set_request_args 0 0 0 0 0 c)
      else if kind = IOURINGD_TASK_KIND_TIMEOUT then
        (let q = dec_timeout_request (cl_input c)
         in request_done 0
              (set_request_args (tmo_timeout_nsec q) 0 0 0 0 (c\<lparr>cl_request := tmo_submit q\<rparr>)))
      else
        (let q = dec_cancel_request (cl_input c)
         in request_done 0
              (set_request_args 0 (can_target q) 0 0 0
                (c\<lparr>cl_request := \<lparr>sr_header = can_header q, sr_task_kind = can_task_kind q,
                   sr_priority = can_reserved0 q, sr_reserved1 = can_reserved1 q\<rparr>\<rparr>))))"

definition finish_read_request :: "iouringd_client \<Rightarrow> (bool, iouringd_client) res" where
  "finish_read_request c =
     (let q = dec_sock_read_request (cl_input c)
      in request_done 0
           (set_request_args 0 0 (io_resource q) 0 (io_length q) (c\<lparr>cl_request := io_submit q\<rparr>)))"

definition finish_write_request :: "iouringd_client \<Rightarrow> (bool, iouringd_client) res" where
  "finish_write_request c =
     (let q = dec_sock_read_request (cl_input c)
      in copy_payload 24 (request_done 0)
           (set_request_args 0 0 (io_resource q) 0 (io_length q) (c\<lparr>cl_request := io_submit q\<rparr>)))"

definition finish_socket_request :: "iouringd_client \<Rightarrow> (bool, iouringd_client) res" where
  "finish_socket_request c =
     (let kind = sr_task_kind (cl_request c) in
      if kind = IOURINGD_TASK_KIND_POLL then
        (let q = dec_poll_request (cl_input c)
         in request_done 0
              ((set_request_args 0 0 (po_resource q) 0 0 (c\<lparr>cl_request := po_submit q\<rparr>))
                \<lparr>cl_poll_mask := po_poll_mask q\<rparr>))
      else if kind = IOURINGD_TASK_KIND_CONNECT then
        (let q = dec_sock_read_request (cl_input c)
         in copy_payload 24 (\<lambda>c. request_done 0 (c\<lparr>cl_poll_mask := 0\<rparr>))
              (set_request_args 0 0 (io_resource q) 0 (io_length q)
                (c\<lparr>cl_request := io_submit q\<rparr>)))
      else
        (let q = dec_sock_read_request (cl_input c)
         in request_done 0
              ((set_request_args 0 0 (io_resource q) 0 (io_length q)
                (c\<lparr>cl_request := io_submit q\<rparr>))\<lparr>cl_poll_mask := 0\<rparr>)))"

definition finish_openat_request :: "iouringd_client \<Rightarrow> (bool, iouringd_client) res" where
  "finish_openat_request c =
     (let q = dec_openat_request (cl_input c)
      in copy_payload 28
           (\<lambda>c. if cl_io_length c < 2 \<or> last (cl_io_payload c) \<noteq> 0 then (Inl EPROTO, c)
                else request_done 0 (c\<lparr>cl_poll_mask := 0\<rparr>))
           ((set_request_args 0 0 0 0 (oa_path_length q) (c\<lparr>cl_request := oa_submit q\<rparr>))
             \<lparr>cl_open_flags := oa_open_flags q, cl_open_mode := oa_open_mode q\<rparr>))"

definition finish_close_request :: "iouringd_client \<Rightarrow> (bool, iouringd_client) res" where
  "finish_close_request c =
     (let q = dec_sock_read_request (cl_input c)
      in request_done 0
           ((set_request_args 0 0 (io_resource q) 0 0 (c\<lparr>cl_request := io_submit q\<rparr>))
             \<lparr>cl_open_flags := 0, cl_close_fd := - 1, cl_open_mode := 0, cl_poll_mask := 0\<rparr>))"

definition finish_fixed_request :: "iouringd_client \<Rightarrow> (bool, iouringd_client) res" where
  "finish_fixed_request c =
     (let q = dec_sock_read_fixed_request (cl_input c)
      in request_done 0
           (set_request_args 0 0 (fx_file_resource q) (fx_buffer_resource q) (fx_length q)
             (c\<lparr>cl_request := fx_submit q\<rparr>)))"

definition finish_control_request :: "iouringd_client \<Rightarrow> (bool, iouringd_client) res" where
  "finish_control_request c =
     (let kind = sr_task_kind (cl_request c) in
      if kind = IOURINGD_REQUEST_KIND_REGISTER_FD then
        request_done IOURINGD_REQUEST_KIND_REGISTER_FD (set_request_args 0 0 0 0 0 c)
      else if kind = IOURINGD_REQUEST_KIND_REGISTER_BUFFER then
        (let q = dec_register_buffer_request (cl_input c);
             c1 = set_request_args 0 0 0 0 (rb_length q) c
         in if unat (cl_io_length c1) > cl_io_bytes_max c1 then (Inl EMSGSIZE, c1)
            else request_done IOURINGD_REQUEST_KIND_REGISTER_BUFFER
              (if cl_io_length c1 \<noteq> 0
               then c1\<lparr>cl_io_payload := slice_at 24 (unat (cl_io_length c1)) (cl_input c1)\<rparr>
               else c1))
      else if kind = IOURINGD_REQUEST_KIND_RELEASE_RESOURCE then
        (let q = dec_release_resource_request (cl_input c)
         in request_done IOURINGD_REQUEST_KIND_RELEASE_RESOURCE
              (set_request_args 0 0 (rr_resource q) 0 0 c))
      else if kind = IOURINGD_REQUEST_KIND_GET_STATS then
        request_done IOURINGD_REQUEST_KIND_GET_STATS
          ((set_request_args 0 0 0 0 0 c)
            \<lparr>cl_trace_after_sequence := 0, cl_trace_max_events := 0, cl_poll_mask := 0\<rparr>)
      else if kind = IOURINGD_REQUEST_KIND_GET_TRACE then
        (let q = dec_get_trace_request (cl_input c)
         in request_done IOURINGD_REQUEST_KIND_GET_TRACE
              ((set_request_args 0 0 0 0 0 c)
                \<lparr>cl_trace_after_sequence := gt_after_sequence q,
                 cl_trace_max_events := gt_max_events q, cl_poll_mask := 0\<rparr>))
      else (Inl EPROTO, c))"

text \<open>
  The kinds are tested one after the other; the tests are disjoint, so their grouping by the
  definitions above does not matter.
\<close>

definition iouringd_finish_submit_request :: "iouringd_client \<Rightarrow> (bool, iouringd_client) res" where
  "iouringd_finish_submit_request c =
     (let kind = sr_task_kind (cl_request c) in
      if \<not> iouringd_request_header_is_valid (cl_request c) then (Inl EPROTO, c)
      else if \<not> iouringd_request_priority_is_valid (cl_request c) then (Inl EPROTO, c)
      else if kind \<noteq> IOURINGD_REQUEST_KIND_REGISTER_FD \<and> cl_received_fd c \<ge> 0
      then (Inl EPROTO, c)
      else if kind \<in> {IOURINGD_TASK_KIND_NOP, IOURINGD_TASK_KIND_TIMEOUT, IOURINGD_TASK_KIND_CANCEL}
      then finish_plain_request c
      else if kind \<in> {IOURINGD_TASK_KIND_SOCK_READ, IOURINGD_TASK_KIND_FILE_READ}
      then finish_read_request c
      else if kind \<in> {IOURINGD_TASK_KIND_SOCK_WRITE, IOURINGD_TASK_KIND_FILE_WRITE}
      then finish_write_request c
      else if kind \<in> {IOURINGD_TASK_KIND_POLL, IOURINGD_TASK_KIND_CONNECT, IOURINGD_TASK_KIND_ACCEPT}
      then finish_socket_request c
      else if kind = IOURINGD_TASK_KIND_OPENAT then finish_openat_request c
      else if kind = IOURINGD_TASK_KIND_CLOSE then finish_close_request c
      else if kind \<in> {IOURINGD_TASK_KIND_SOCK_READ_FIXED, IOURINGD_TASK_KIND_SOCK_WRITE_FIXED}
      then finish_fixed_request c
      else finish_control_request c)"

section \<open>Framing\<close>

text \<open>\<open>expected_input = n; if (input_len < expected_input) return 0;\<close>\<close>

definition await_input ::
  "nat \<Rightarrow> (iouringd_client \<Rightarrow> (bool, iouringd_client) res) \<Rightarrow> iouringd_client
    \<Rightarrow> (bool, iouringd_client) res" where
  "await_input n rest c =
     (let c1 = c\<lparr>cl_expected_input := n\<rparr>
      in if length (cl_input c1) < cl_expected_input c1 then (Inr False, c1) else rest c1)"

text \<open>The same for a header of \<open>n\<close> bytes followed by a payload of \<open>len\<close> bytes, with the check
  against the size of the input array.\<close>

definition await_payload :: "nat \<Rightarrow> u32 \<Rightarrow> iouringd_client \<Rightarrow> (bool, iouringd_client) res" where
  "await_payload n len c =
     (let c1 = c\<lparr>cl_expected_input := n + unat len\<rparr>
      in if cl_expected_input c1 > IOURINGD_MAX_REQUEST_BYTES then (Inl EPROTO, c1)
         else if length (cl_input c1) < cl_expected_input c1 then (Inr False, c1)
         else iouringd_finish_submit_request c1)"

definition process_socket_input :: "iouringd_client \<Rightarrow> (bool, iouringd_client) res" where
  "process_socket_input c =
     (let kind = sr_task_kind (cl_request c) in
      if kind = IOURINGD_TASK_KIND_POLL then
        await_input sizeof_poll_request
          (\<lambda>c. if po_reserved2 (dec_poll_request (cl_input c)) \<noteq> 0 then (Inl EPROTO, c)
               else iouringd_finish_submit_request c) c
      else if kind = IOURINGD_TASK_KIND_CONNECT then
        await_input 24
          (\<lambda>c. let len = io_length (dec_sock_read_request (cl_input c))
               in if len = 0 \<or> unat len > cl_io_bytes_max c \<or> len > 65535 then (Inl EPROTO, c)
                  else await_payload 24 len c) c
      else
        await_input 24
          (\<lambda>c. let len = io_length (dec_sock_read_request (cl_input c))
               in if unat len > cl_io_bytes_max c \<or> len > 65535 then (Inl EPROTO, c)
                  else iouringd_finish_submit_request c) c)"

definition process_path_input :: "iouringd_client \<Rightarrow> (bool, iouringd_client) res" where
  "process_path_input c =
     (let kind = sr_task_kind (cl_request c) in
      if kind = IOURINGD_TASK_KIND_OPENAT then
        await_input sizeof_openat_request
          (\<lambda>c. let len = oa_path_length (dec_openat_request (cl_input c))
               in if len < 2 \<or> unat len > cl_io_bytes_max c then (Inl EPROTO, c)
                  else await_payload sizeof_openat_request len c) c
      else
        await_input 24
          (\<lambda>c. if io_length (dec_sock_read_request (cl_input c)) \<noteq> 0 then (Inl EPROTO, c)
               else iouringd_finish_submit_request c) c)"

definition process_control_input :: "iouringd_client \<Rightarrow> (bool, iouringd_client) res" where
  "process_control_input c =
     (let kind = sr_task_kind (cl_request c) in
      if kind = IOURINGD_REQUEST_KIND_RELEASE_RESOURCE then
        await_input sizeof_release_resource_request iouringd_finish_submit_request c
      else if kind = IOURINGD_REQUEST_KIND_GET_STATS then
        await_input sizeof_control_request iouringd_finish_submit_request c
      else if kind = IOURINGD_REQUEST_KIND_GET_TRACE then
        await_input sizeof_get_trace_request
          (\<lambda>c. let q = dec_get_trace_request (cl_input c)
               in if unat (gt_max_events q) > IOURINGD_TRACE_CAPACITY \<or> gt_reserved2 q \<noteq> 0
                  then (Inl EPROTO, c)
                  else iouringd_finish_submit_request c) c
      else
        await_input sizeof_register_buffer_request
          (\<lambda>c. let q = dec_register_buffer_request (cl_input c)
               in if unat (rb_length q) > cl_io_bytes_max c \<or> rb_reserved2 q \<noteq> 0
                  then (Inl EPROTO, c)
                  else await_payload sizeof_register_buffer_request (rb_length q) c) c)"

definition process_write_input :: "iouringd_client \<Rightarrow> (bool, iouringd_client) res" where
  "process_write_input =
     await_input 24
       (\<lambda>c. let len = io_length (dec_sock_read_request (cl_input c))
            in if len = 0 \<or> unat len > cl_io_bytes_max c then (Inl EPROTO, c)
               else await_payload 24 len c)"

definition iouringd_process_submit_input :: "iouringd_client \<Rightarrow> (bool, iouringd_client) res" where
  "iouringd_process_submit_input c =
     (if length (cl_input c) < sizeof_submit_request
      then (Inr False, c\<lparr>cl_expected_input := sizeof_submit_request\<rparr>)
      else
        let request = dec_submit_request (cl_input c);
            c1 = c\<lparr>cl_request := request\<rparr>;
            kind = sr_task_kind request
        in if \<not> iouringd_request_header_is_valid request then (Inl EPROTO, c1)
           else if kind \<in> {IOURINGD_TASK_KIND_TIMEOUT, IOURINGD_TASK_KIND_CANCEL,
             IOURINGD_TASK_KIND_SOCK_READ, IOURINGD_TASK_KIND_FILE_READ}
           then await_input 24 iouringd_finish_submit_request c1
           else if kind \<in> {IOURINGD_TASK_KIND_POLL, IOURINGD_TASK_KIND_CONNECT,
             IOURINGD_TASK_KIND_ACCEPT}
           then process_socket_input c1
           else if kind \<in> {IOURINGD_TASK_KIND_OPENAT, IOURINGD_TASK_KIND_CLOSE}
           then process_path_input c1
           else if kind \<in> {IOURINGD_TASK_KIND_SOCK_READ_FIXED, IOURINGD_TASK_KIND_SOCK_WRITE_FIXED}
           then await_input 28 iouringd_finish_submit_request c1
           else if kind \<in> {IOURINGD_REQUEST_KIND_RELEASE_RESOURCE, IOURINGD_REQUEST_KIND_GET_STATS,
             IOURINGD_REQUEST_KIND_GET_TRACE, IOURINGD_REQUEST_KIND_REGISTER_BUFFER}
           then process_control_input c1
           else if kind \<in> {IOURINGD_TASK_KIND_SOCK_WRITE, IOURINGD_TASK_KIND_FILE_WRITE}
           then process_write_input c1
           else iouringd_finish_submit_request c1)"

section \<open>Handshake\<close>

definition iouringd_available_credits :: "iouringd_runtime \<Rightarrow> u32" where
  "iouringd_available_credits rt =
     of_nat (size_sub (rt_task_capacity rt) (rt_outstanding_credit_tasks rt))"

definition iouringd_queue_handshake_result ::
  "iouringd_runtime \<Rightarrow> iouringd_handshake_request_v1 \<Rightarrow> iouringd_client
    \<Rightarrow> (unit, iouringd_client) res"
where
  "iouringd_queue_handshake_result rt request c =
     (let response =
        \<lparr>hp_header = \<lparr>ph_magic = IOURINGD_PROTOCOL_WIRE_MAGIC,
           ph_version_major = IOURINGD_PROTOCOL_V1_MAJOR,
           ph_version_minor = IOURINGD_PROTOCOL_V1_MINOR\<rparr>,
         hp_abi_major = IOURINGD_ABI_V1_MAJOR, hp_abi_minor = IOURINGD_ABI_V1_MINOR,
         hp_status = IOURINGD_HANDSHAKE_STATUS_ACCEPT, hp_reserved = 0\<rparr>;
          (result, c1) =
        (if ph_magic (hq_header request) \<noteq> IOURINGD_PROTOCOL_WIRE_MAGIC
            \<or> ph_version_major (hq_header request) \<noteq> IOURINGD_PROTOCOL_V1_MAJOR
            \<or> ph_version_minor (hq_header request) \<noteq> IOURINGD_PROTOCOL_V1_MINOR
            \<or> hq_abi_major request \<noteq> IOURINGD_ABI_V1_MAJOR
            \<or> hq_abi_minor request \<noteq> IOURINGD_ABI_V1_MINOR
            \<or> hq_reserved request \<noteq> 0
         then (\<lparr>hr_response = response\<lparr>hp_status := IOURINGD_HANDSHAKE_STATUS_REJECT\<rparr>,
                hr_capabilities = zero_capabilities\<rparr>,
               c\<lparr>cl_close_after_flush := True\<rparr>)
         else (\<lparr>hr_response = response,
                hr_capabilities =
                  (rt_capabilities rt)\<lparr>cap_submit_credits := iouringd_available_credits rt\<rparr>\<rparr>,
               c\<lparr>cl_phase := IOURINGD_CLIENT_PHASE_SUBMIT\<rparr>))
      in bind_rc (iouringd_queue_client_output (enc_handshake_result result) c1)
           (\<lambda>_ c2. (Inr (), iouringd_reset_client_input c2)))"

section \<open>Frame lemmas of the parser\<close>

text \<open>A successful decoding leaves a ready request and an empty input buffer.\<close>

lemmas finish_defs = finish_plain_request_def finish_read_request_def finish_write_request_def
  finish_socket_request_def finish_openat_request_def finish_close_request_def
  finish_fixed_request_def finish_control_request_def

lemma request_done_ready:
  "request_done op c = (Inr b, c') \<Longrightarrow>
    b \<and> cl_request_ready c' \<and> cl_input c' = [] \<and> cl_expected_input c' = 16"
  by (auto simp: request_done_def iouringd_reset_client_input_def)

lemma copy_payload_Inr:
  "copy_payload off rest c = (Inr b, c') \<Longrightarrow> unat (cl_io_length c) \<le> cl_io_bytes_max c
    \<and> rest (c\<lparr>cl_io_payload := slice_at off (unat (cl_io_length c)) (cl_input c)\<rparr>) = (Inr b, c')"
  by (simp add: copy_payload_def split: if_splits)

lemma finish_request_ready:
  assumes "iouringd_finish_submit_request c = (Inr b, c')"
  shows "b \<and> cl_request_ready c' \<and> cl_input c' = [] \<and> cl_expected_input c' = 16"
  using assms unfolding iouringd_finish_submit_request_def finish_defs Let_def
  by (auto split: if_splits dest!: request_done_ready copy_payload_Inr)

lemma await_input_Inr:
  assumes "await_input n rest c = (Inr b, c')"
  obtains (wait) "c' = c\<lparr>cl_expected_input := n\<rparr>" "length (cl_input c) < n"
  | (go) "rest (c\<lparr>cl_expected_input := n\<rparr>) = (Inr b, c')" "n \<le> length (cl_input c)"
  using assms by (auto simp: await_input_def Let_def split: if_splits)

lemma await_payload_Inr:
  assumes "await_payload n len c = (Inr b, c')"
  obtains (wait) "c' = c\<lparr>cl_expected_input := n + unat len\<rparr>" "length (cl_input c) < n + unat len"
      "n + unat len \<le> 4120"
  | (go) "iouringd_finish_submit_request (c\<lparr>cl_expected_input := n + unat len\<rparr>) = (Inr b, c')"
      "n + unat len \<le> length (cl_input c)" "n + unat len \<le> 4120"
  using assms by (auto simp: await_payload_def Let_def split: if_splits)

text \<open>The outcome of one framing step that is not an error: the request is complete, or the
  parser waits for more bytes than it has, never for more than the input array holds.\<close>

definition step_waits :: "iouringd_client \<Rightarrow> iouringd_client \<Rightarrow> bool" where
  "step_waits c c' \<longleftrightarrow> cl_input c' = cl_input c \<and> length (cl_input c) < cl_expected_input c'
     \<and> cl_expected_input c' \<le> IOURINGD_MAX_REQUEST_BYTES"

definition step_done :: "iouringd_client \<Rightarrow> bool" where
  "step_done c' \<longleftrightarrow> cl_request_ready c' \<and> cl_input c' = [] \<and> cl_expected_input c' = 16"

definition step_ok :: "iouringd_client \<Rightarrow> iouringd_client \<Rightarrow> bool" where
  "step_ok c c' \<longleftrightarrow> step_done c' \<or> step_waits c c'"

lemma await_input_step:
  assumes "await_input n rest c = (Inr b, c')" and "n \<le> 4120"
    and "rest (c\<lparr>cl_expected_input := n\<rparr>) = (Inr b, c') \<Longrightarrow> step_ok (c\<lparr>cl_expected_input := n\<rparr>) c'"
  shows "step_ok c c'"
  using assms(1)
proof (cases rule: await_input_Inr)
  case wait
  with assms(2) show ?thesis by (simp add: step_ok_def step_waits_def)
next
  case go
  with assms(3) show ?thesis by (simp add: step_ok_def step_waits_def)
qed

lemma await_payload_step: "await_payload n len c = (Inr b, c') \<Longrightarrow> step_ok c c'"
  by (erule await_payload_Inr)
    (auto simp: step_ok_def step_waits_def step_done_def dest: finish_request_ready)

lemma finish_step: "iouringd_finish_submit_request c = (Inr b, c') \<Longrightarrow> step_ok c0 c'"
  by (auto simp: step_ok_def step_done_def dest: finish_request_ready)

lemmas process_defs = process_socket_input_def process_path_input_def process_control_input_def
  process_write_input_def

lemma process_group_step:
  "process_socket_input c = (Inr b, c') \<Longrightarrow> step_ok c c'"
  "process_path_input c = (Inr b, c') \<Longrightarrow> step_ok c c'"
  "process_control_input c = (Inr b, c') \<Longrightarrow> step_ok c c'"
  "process_write_input c = (Inr b, c') \<Longrightarrow> step_ok c c'"
  unfolding process_defs Let_def
  by (auto split: if_splits elim!: await_input_step intro: await_payload_step finish_step)

lemma await_finish_step:
  "await_input n iouringd_finish_submit_request c = (Inr b, c') \<Longrightarrow> n \<le> 4120 \<Longrightarrow> step_ok c c'"
  by (erule await_input_step) (auto intro: finish_step)

lemma process_step:
  assumes "iouringd_process_submit_input c = (Inr b, c')"
  shows "step_ok c c'"
proof (cases "length (cl_input c) < 16")
  case True
  with assms show ?thesis
    by (auto simp: iouringd_process_submit_input_def step_ok_def step_waits_def)
next
  case False
  have "step_ok (c\<lparr>cl_request := dec_submit_request (cl_input c)\<rparr>) c'"
    using assms False unfolding iouringd_process_submit_input_def Let_def
    by (auto split: if_splits intro: process_group_step finish_step await_finish_step)
  then show ?thesis by (simp add: step_ok_def step_waits_def)
qed

text \<open>A receive changes the input buffer and the received descriptor at most; it appends to the
  buffer and never beyond the expected length.\<close>

definition same_but_input :: "iouringd_client \<Rightarrow> iouringd_client \<Rightarrow> bool" where
  "same_but_input c c' \<longleftrightarrow>
     c'\<lparr>cl_input := [], cl_received_fd := 0\<rparr> = c\<lparr>cl_input := [], cl_received_fd := 0\<rparr>"

lemma take_cmsgs_same:
  "take_cmsgs ms (os, c) = (r, os', c') \<Longrightarrow> same_but_input c c' \<and> cl_input c' = cl_input c"
  by (induction ms "(os, c)" arbitrary: os c rule: take_cmsgs.induct)
    (auto simp: same_but_input_def split: if_splits)

lemma same_but_input_append:
  "same_but_input c c' \<Longrightarrow> same_but_input c (c'\<lparr>cl_input := d\<rparr>)"
  by (simp add: same_but_input_def)

lemma same_but_input_trans:
  "same_but_input a b \<Longrightarrow> same_but_input b c \<Longrightarrow> same_but_input a c"
  by (simp add: same_but_input_def)

lemma same_but_inputD:
  assumes "same_but_input c c'"
  shows "cl_expected_input c' = cl_expected_input c" and "cl_fd c' = cl_fd c"
    and "cl_phase c' = cl_phase c" and "cl_request_ready c' = cl_request_ready c"
    and "cl_io_bytes_max c' = cl_io_bytes_max c" and "cl_output c' = cl_output c"
    and "cl_output_sent c' = cl_output_sent c" and "cl_output_capacity c' = cl_output_capacity c"
    and "cl_io_payload c' = cl_io_payload c" and "cl_file_resources c' = cl_file_resources c"
    and "cl_buffer_resources c' = cl_buffer_resources c"
    and "cl_outstanding_tasks c' = cl_outstanding_tasks c"
    and "cl_outstanding_credit_tasks c' = cl_outstanding_credit_tasks c"
    and "cl_generation c' = cl_generation c"
    and "cl_file_slot_limit c' = cl_file_slot_limit c"
    and "cl_buffer_slot_limit c' = cl_buffer_slot_limit c"
    and "cl_next_resource_id c' = cl_next_resource_id c"
    and "cl_request c' = cl_request c" and "cl_io_length c' = cl_io_length c"
  using assms by (cases c; cases c'; simp add: same_but_input_def)+

text \<open>One turn of the receive loop.\<close>

lemma read_done:
  "cl_expected_input c \<le> length (cl_input c) \<Longrightarrow>
    iouringd_read_client_input (ws, os, c) = (Inr Read_full, ws, os, c)"
  by (simp add: iouringd_read_client_input.simps [of ws])

lemma read_blocked:
  "length (cl_input c) < cl_expected_input c \<Longrightarrow>
    iouringd_read_client_input ([], os, c) = (Inr Read_again, [], os, c)"
  by (simp add: iouringd_read_client_input.simps [of "[]"])

lemma read_eof:
  "length (cl_input c) < cl_expected_input c \<Longrightarrow>
    iouringd_read_client_input (Recv_eof # ws, os, c)
      = (if cl_input c = [] then Inr Read_closed else Inl EPROTO, ws, os, c)"
  by (simp add: iouringd_read_client_input.simps [of "Recv_eof # ws"])

lemma read_error:
  "length (cl_input c) < cl_expected_input c \<Longrightarrow>
    iouringd_read_client_input (Recv_error e # ws, os, c)
      = (if e = EAGAIN then (Inr Read_again, ws, os, c)
         else if e = EINTR then iouringd_read_client_input (ws, os, c)
         else (Inl e, ws, os, c))"
  by (simp add: iouringd_read_client_input.simps [of "Recv_error e # ws"])

lemma read_data:
  "length (cl_input c) < cl_expected_input c \<Longrightarrow>
    iouringd_read_client_input (Recv_data d cmsgs trunc # ws, os, c)
      = (let n = min (cl_expected_input c - length (cl_input c)) (length d) in
         if n > 0 then
           (if trunc then (Inl EPROTO, unread n d ws, os, c)
            else case take_cmsgs cmsgs (os, c) of
              (Inl e, os', c') \<Rightarrow> (Inl e, unread n d ws, os', c')
            | (Inr _, os', c') \<Rightarrow>
                iouringd_read_client_input
                  (unread n d ws, os', c'\<lparr>cl_input := cl_input c' @ take n d\<rparr>))
         else (if cl_input c = [] then Inr Read_closed else Inl EPROTO, ws, os, c))"
  by (simp add: iouringd_read_client_input.simps [of "Recv_data d cmsgs trunc # ws"] Let_def)

lemmas read_turn = read_done read_blocked read_eof read_error read_data

lemma read_input_spec:
  assumes "iouringd_read_client_input (ws, os, c) = (r, ws', os', c')"
  shows "same_but_input c c' \<and> (\<exists>more. cl_input c' = cl_input c @ more)
    \<and> length (cl_input c') \<le> max (length (cl_input c)) (cl_expected_input c)
    \<and> (r = Inr Read_full \<longrightarrow> cl_expected_input c \<le> length (cl_input c'))"
  using assms
proof (induction "(ws, os, c)" arbitrary: ws os c rule: iouringd_read_client_input.induct)
  case (1 ws os c)
  show ?case
  proof (cases "length (cl_input c) < cl_expected_input c")
    case False
    with 1(3) show ?thesis by (auto simp: read_done same_but_input_def)
  next
    case more: True
    consider (nil) "ws = []" | (eof) ws1 where "ws = Recv_eof # ws1"
      | (error) e ws1 where "ws = Recv_error e # ws1"
      | (data) d cmsgs trunc ws1 where "ws = Recv_data d cmsgs trunc # ws1"
      by (metis list.exhaust recv_result.exhaust)
    then show ?thesis
    proof cases
      case nil
      with 1(3) more show ?thesis by (auto simp: read_blocked same_but_input_def)
    next
      case eof
      with 1(3) more show ?thesis by (auto simp: read_eof same_but_input_def split: if_splits)
    next
      case (error e ws1)
      with 1(3) more 1(2) [OF more] show ?thesis
        by (auto simp: read_error same_but_input_def split: if_splits)
    next
      case (data d cmsgs trunc ws1)
      let ?n = "min (cl_expected_input c - length (cl_input c)) (length d)"
      obtain r1 os1 c1 where taken: "take_cmsgs cmsgs (os, c) = (r1, os1, c1)"
        by (cases "take_cmsgs cmsgs (os, c)") auto
      note same = take_cmsgs_same [OF taken]
      show ?thesis
      proof (cases "0 < ?n \<and> \<not> trunc \<and> (\<exists>u. r1 = Inr u)")
        case True
        let ?c2 = "c1\<lparr>cl_input := cl_input c1 @ take ?n d\<rparr>"
        from True obtain u where u: "r1 = Inr u" by auto
        have rec: "iouringd_read_client_input (unread ?n d ws1, os1, ?c2) = (r, ws', os', c')"
          using 1(3) more data True taken u by (auto simp: read_data Let_def split: if_splits)
        have IH: "same_but_input ?c2 c' \<and> (\<exists>more. cl_input c' = cl_input ?c2 @ more)
          \<and> length (cl_input c') \<le> max (length (cl_input ?c2)) (cl_expected_input ?c2)
          \<and> (r = Inr Read_full \<longrightarrow> cl_expected_input ?c2 \<le> length (cl_input c'))"
          using True taken u
          by (intro 1(1) [OF more data refl refl _ _ _ _ _ rec]) auto
        have "same_but_input c ?c2" using same by (simp add: same_but_input_append)
        with IH same_but_input_trans [of c ?c2 c'] same same_but_inputD(1) [of c c1] more
        show ?thesis by auto
      next
        case False
        with 1(3) more data taken same show ?thesis
          by (auto simp: read_data Let_def same_but_input_def split: if_splits sum.splits)
      qed
    qed
  qed
qed

section \<open>The service loop of a readable client\<close>

function service_loop ::
  "iouringd_runtime \<Rightarrow> bool \<Rightarrow> input_state \<Rightarrow> (bool, input_state) res" where
  "service_loop rt progress (ws, os, c) =
     (if cl_fd c \<ge> 0 \<and> \<not> cl_request_ready c then
        (case iouringd_read_client_input (ws, os, c) of
           (Inl e, ws1, s1) \<Rightarrow> (Inr True, ws1, iouringd_close_client s1)
         | (Inr Read_closed, ws1, s1) \<Rightarrow> (Inr True, ws1, iouringd_close_client s1)
         | (Inr Read_again, st1) \<Rightarrow> (Inr progress, st1)
         | (Inr Read_full, ws1, os1, c1) \<Rightarrow>
             (if cl_phase c1 = IOURINGD_CLIENT_PHASE_HANDSHAKE then
                (case iouringd_queue_handshake_result rt (dec_handshake_request (cl_input c1)) c1 of
                   (Inl e, c2) \<Rightarrow> (Inl e, ws1, os1, c2)
                 | (Inr _, c2) \<Rightarrow> (Inr True, ws1, os1, c2))
              else
                (case iouringd_process_submit_input c1 of
                   (Inl e, c2) \<Rightarrow> (Inr True, ws1, iouringd_close_client (os1, c2))
                 | (Inr _, c2) \<Rightarrow>
                     (if cl_request_ready c2 then (Inr True, ws1, os1, c2)
                      else service_loop rt True (ws1, os1, c2)))))
      else (Inr progress, ws, os, c))"
  by pat_completeness auto
termination
proof (relation "measure (\<lambda>(rt, progress, ws, os, c). 4121 - cl_expected_input c)")
  fix rt progress ws os c x y xa z ws1 os1 c1 u c2 b
  assume read: "(x, y) = iouringd_read_client_input (ws, os, c)" "x = Inr xa" "xa = Read_full"
      "(ws1, z) = y" "(os1, c1) = z"
    and proc: "(u, c2) = iouringd_process_submit_input c1" "u = Inr b"
    and again: "\<not> cl_request_ready c2"
  from read have "iouringd_read_client_input (ws, os, c) = (Inr Read_full, ws1, os1, c1)" by simp
  from read_input_spec [OF this] have "cl_expected_input c \<le> length (cl_input c1)" by simp
  moreover from proc have "iouringd_process_submit_input c1 = (Inr b, c2)" by simp
  from process_step [OF this] again have "step_waits c1 c2" by (simp add: step_ok_def step_done_def)
  ultimately have "cl_expected_input c < cl_expected_input c2" "cl_expected_input c2 \<le> 4120"
    by (simp_all add: step_waits_def)
  then show "((rt, True, ws1, os1, c2), rt, progress, ws, os, c)
      \<in> measure (\<lambda>(rt, progress, ws, os, c). 4121 - cl_expected_input c)"
    by simp
qed simp

definition iouringd_service_client_readable ::
  "nat \<Rightarrow> recv_result list \<Rightarrow> iouringd_runtime \<Rightarrow> (bool, recv_result list \<times> iouringd_runtime) res"
where
  "iouringd_service_client_readable i ws rt =
     (case service_loop rt False (ws, rt_os rt, client_at rt i) of
        (r, ws', os', c') \<Rightarrow> (r, ws', set_client i c' (rt\<lparr>rt_os := os'\<rparr>)))"

declare service_loop.simps [simp del]

section \<open>What parsing leaves alone\<close>

text \<open>The parser writes the request fields of the client and nothing else.\<close>

definition parse_frame :: "iouringd_client \<Rightarrow> iouringd_client \<Rightarrow> bool" where
  "parse_frame c c' \<longleftrightarrow>
     cl_fd c' = cl_fd c \<and> cl_generation c' = cl_generation c \<and> cl_phase c' = cl_phase c
     \<and> cl_close_after_flush c' = cl_close_after_flush c
     \<and> cl_received_fd c' = cl_received_fd c
     \<and> cl_output c' = cl_output c \<and> cl_output_sent c' = cl_output_sent c
     \<and> cl_output_capacity c' = cl_output_capacity c
     \<and> cl_outstanding_tasks c' = cl_outstanding_tasks c
     \<and> cl_outstanding_credit_tasks c' = cl_outstanding_credit_tasks c
     \<and> cl_file_slot_limit c' = cl_file_slot_limit c
     \<and> cl_buffer_slot_limit c' = cl_buffer_slot_limit c
     \<and> cl_io_bytes_max c' = cl_io_bytes_max c
     \<and> cl_next_resource_id c' = cl_next_resource_id c
     \<and> cl_file_resources c' = cl_file_resources c
     \<and> cl_buffer_resources c' = cl_buffer_resources c"

lemma parse_frame_simps [simp]:
  "parse_frame c c"
  "parse_frame c (c'\<lparr>cl_request := q\<rparr>) = parse_frame c c'"
  "parse_frame c (c'\<lparr>cl_expected_input := n\<rparr>) = parse_frame c c'"
  "parse_frame c (c'\<lparr>cl_input := bs\<rparr>) = parse_frame c c'"
  "parse_frame c (c'\<lparr>cl_io_payload := bs\<rparr>) = parse_frame c c'"
  "parse_frame c (c'\<lparr>cl_poll_mask := m\<rparr>) = parse_frame c c'"
  "parse_frame c (c'\<lparr>cl_open_flags := f\<rparr>) = parse_frame c c'"
  "parse_frame c (c'\<lparr>cl_open_mode := md\<rparr>) = parse_frame c c'"
  "parse_frame c (c'\<lparr>cl_close_fd := fd\<rparr>) = parse_frame c c'"
  "parse_frame c (c'\<lparr>cl_trace_after_sequence := a\<rparr>) = parse_frame c c'"
  "parse_frame c (c'\<lparr>cl_trace_max_events := mx\<rparr>) = parse_frame c c'"
  "parse_frame c (set_request_args t k r b l c') = parse_frame c c'"
  by (simp_all add: parse_frame_def set_request_args_def)

lemma request_done_frame: "request_done op c1 = (r, c') \<Longrightarrow> parse_frame c c' = parse_frame c c1"
  by (auto simp: request_done_def iouringd_reset_client_input_def parse_frame_def)

lemma copy_payload_frame:
  assumes "copy_payload off rest c1 = (r, c')" and "parse_frame c c1"
    and "\<And>c2 r c'. parse_frame c c2 \<Longrightarrow> rest c2 = (r, c') \<Longrightarrow> parse_frame c c'"
  shows "parse_frame c c'"
  using assms(1,2) assms(3) [of "c1\<lparr>cl_io_payload := slice_at off (unat (cl_io_length c1)) (cl_input c1)\<rparr>"]
  by (auto simp: copy_payload_def split: if_splits)

lemma finish_group_frame:
  "finish_plain_request c = (r, c') \<Longrightarrow> parse_frame c c'"
  "finish_read_request c = (r, c') \<Longrightarrow> parse_frame c c'"
  "finish_write_request c = (r, c') \<Longrightarrow> parse_frame c c'"
  "finish_socket_request c = (r, c') \<Longrightarrow> parse_frame c c'"
  "finish_openat_request c = (r, c') \<Longrightarrow> parse_frame c c'"
  "finish_close_request c = (r, c') \<Longrightarrow> parse_frame c c'"
  "finish_fixed_request c = (r, c') \<Longrightarrow> parse_frame c c'"
  "finish_control_request c = (r, c') \<Longrightarrow> parse_frame c c'"
  unfolding finish_defs Let_def
  by (auto split: if_splits dest!: request_done_frame [of _ _ _ _ c] elim!: copy_payload_frame)

lemma finish_frame: "iouringd_finish_submit_request c = (r, c') \<Longrightarrow> parse_frame c c'"
  unfolding iouringd_finish_submit_request_def Let_def
  by (auto split: if_splits dest: finish_group_frame)

lemma parse_frame_trans: "parse_frame a b \<Longrightarrow> parse_frame b c \<Longrightarrow> parse_frame a c"
  by (simp add: parse_frame_def)

lemma await_input_frame:
  assumes "await_input n rest c1 = (r, c')" and "parse_frame c c1"
    and "\<And>c2 r c'. parse_frame c c2 \<Longrightarrow> rest c2 = (r, c') \<Longrightarrow> parse_frame c c'"
  shows "parse_frame c c'"
  using assms(1,2) assms(3) [of "c1\<lparr>cl_expected_input := n\<rparr>"]
  by (auto simp: await_input_def Let_def split: if_splits)

lemma finish_frame':
  "iouringd_finish_submit_request c1 = (r, c') \<Longrightarrow> parse_frame c c1 \<Longrightarrow> parse_frame c c'"
  by (blast intro: finish_frame parse_frame_trans)

lemma await_payload_frame:
  "await_payload n len c1 = (r, c') \<Longrightarrow> parse_frame c c1 \<Longrightarrow> parse_frame c c'"
  by (auto simp: await_payload_def Let_def split: if_splits
      elim!: finish_frame')

lemma process_frame: "iouringd_process_submit_input c = (r, c') \<Longrightarrow> parse_frame c c'"
  unfolding iouringd_process_submit_input_def process_defs Let_def
  by (auto split: if_splits elim!: await_input_frame await_payload_frame finish_frame')

section \<open>Invariants of the service loop\<close>

text \<open>The turns of the loop: what holds of the client before and is kept by a receive, by the
  handshake and by a framing step, and is re-established by a close, holds after the loop.\<close>

lemma service_loop_invariant:
  assumes start: "P c" and out: "service_loop rt progress (ws, os, c) = (r, ws', os', c')"
    and read: "\<And>ws os c r ws' os' c'. P c \<Longrightarrow>
      iouringd_read_client_input (ws, os, c) = (r, ws', os', c') \<Longrightarrow> P c'"
    and close: "\<And>os c os' c'. P c \<Longrightarrow> iouringd_close_client (os, c) = (os', c') \<Longrightarrow> P c'"
    and handshake: "\<And>q c r c'. P c \<Longrightarrow> iouringd_queue_handshake_result rt q c = (r, c') \<Longrightarrow> P c'"
    and step: "\<And>c b c'. P c \<Longrightarrow> cl_expected_input c \<le> length (cl_input c) \<Longrightarrow>
      iouringd_process_submit_input c = (Inr b, c') \<Longrightarrow> \<not> cl_request_ready c \<Longrightarrow> P c'"
    and refuse: "\<And>c e c1 os os' c'. P c \<Longrightarrow> cl_expected_input c \<le> length (cl_input c) \<Longrightarrow>
      iouringd_process_submit_input c = (Inl e, c1) \<Longrightarrow>
      iouringd_close_client (os, c1) = (os', c') \<Longrightarrow> P c'"
  shows "P c'"
  using start out handshake
proof (induction rt progress "(ws, os, c)" arbitrary: ws os c rule: service_loop.induct)
  case (1 rt progress ws os c)
  note out = 1(3) [unfolded service_loop.simps [of rt progress ws os c]]
  obtain r1 ws1 os1 c1 where rd: "iouringd_read_client_input (ws, os, c) = (r1, ws1, os1, c1)"
    by (cases "iouringd_read_client_input (ws, os, c)") auto
  note P1 = read [OF 1(2) rd]
  show ?case
  proof (cases "cl_fd c \<ge> 0 \<and> \<not> cl_request_ready c \<and> r1 = Inr Read_full")
    case False
    with out rd P1 1(2) close show ?thesis
      by (auto split: if_splits sum.splits read_outcome.splits)
  next
    case full: True
    with read_input_spec [OF rd] same_but_inputD(1) [of c c1]
    have enough: "cl_expected_input c1 \<le> length (cl_input c1)" by simp
    have idle: "\<not> cl_request_ready c1"
      using full read_input_spec [OF rd] same_but_inputD(4) [of c c1] by simp
    show ?thesis
    proof (cases "cl_phase c1 = IOURINGD_CLIENT_PHASE_HANDSHAKE")
      case True
      with out rd full P1 1(4) show ?thesis by (auto split: prod.splits sum.splits)
    next
      case submit: False
      obtain r2 c2 where proc: "iouringd_process_submit_input c1 = (r2, c2)" by fastforce
      show ?thesis
      proof (cases r2)
        case (Inl e)
        with out rd full submit proc P1 enough refuse show ?thesis by auto
      next
        case (Inr b)
        note P2 = step [OF P1 enough proc [unfolded Inr] idle]
        show ?thesis
        proof (cases "cl_request_ready c2")
          case True
          with out rd full submit proc Inr P2 show ?thesis by auto
        next
          case False
          with out rd full submit proc Inr
          have rec: "service_loop rt True (ws1, os1, c2) = (r, ws', os', c')" by auto
          show ?thesis
            using full submit proc Inr False rd
            by (intro 1(1) [OF _ _ _ _ _ _ _ _ _ _ P2 rec 1(4)]) auto
        qed
      qed
    qed
  qed
qed

text \<open>The payload buffer: at most \<open>m\<close> bytes are in it, and no request may bring more.\<close>

definition payload_ok :: "nat \<Rightarrow> iouringd_client \<Rightarrow> bool" where
  "payload_ok m c \<longleftrightarrow> length (cl_io_payload c) \<le> m \<and> cl_io_bytes_max c \<le> m"

lemma payload_slice_length: "length (slice_at off n bs) \<le> n"
  by (simp add: slice_at_def)

lemma payload_ok_simps [simp]:
  "payload_ok m (c\<lparr>cl_request := q\<rparr>) = payload_ok m c"
  "payload_ok m (c\<lparr>cl_expected_input := n\<rparr>) = payload_ok m c"
  "payload_ok m (c\<lparr>cl_poll_mask := p\<rparr>) = payload_ok m c"
  "payload_ok m (c\<lparr>cl_open_flags := f\<rparr>) = payload_ok m c"
  "payload_ok m (c\<lparr>cl_open_mode := md\<rparr>) = payload_ok m c"
  "payload_ok m (c\<lparr>cl_close_fd := fd\<rparr>) = payload_ok m c"
  "payload_ok m (c\<lparr>cl_trace_after_sequence := a\<rparr>) = payload_ok m c"
  "payload_ok m (c\<lparr>cl_trace_max_events := mx\<rparr>) = payload_ok m c"
  "payload_ok m (set_request_args t k r b l c) = payload_ok m c"
  by (simp_all add: payload_ok_def set_request_args_def)

lemma request_done_payload: "request_done op c = (r, c') \<Longrightarrow> payload_ok m c' = payload_ok m c"
  by (auto simp: request_done_def iouringd_reset_client_input_def payload_ok_def)

lemma payload_ok_slice:
  "payload_ok m c \<Longrightarrow> unat (cl_io_length c) \<le> cl_io_bytes_max c \<Longrightarrow>
    payload_ok m (c\<lparr>cl_io_payload := slice_at off (unat (cl_io_length c)) bs\<rparr>)"
  using payload_slice_length [of off "unat (cl_io_length c)" bs] by (simp add: payload_ok_def)

lemma copy_payload_ok:
  assumes "copy_payload off rest c = (r, c')" and "payload_ok m c"
    and "\<And>c r c'. payload_ok m c \<Longrightarrow> rest c = (r, c') \<Longrightarrow> payload_ok m c'"
  shows "payload_ok m c'"
  using assms(1,2) assms(3) [OF payload_ok_slice [OF assms(2)]]
  by (auto simp: copy_payload_def split: if_splits)

lemma finish_group_payload:
  "payload_ok m c \<Longrightarrow> finish_plain_request c = (r, c') \<Longrightarrow> payload_ok m c'"
  "payload_ok m c \<Longrightarrow> finish_read_request c = (r, c') \<Longrightarrow> payload_ok m c'"
  "payload_ok m c \<Longrightarrow> finish_write_request c = (r, c') \<Longrightarrow> payload_ok m c'"
  "payload_ok m c \<Longrightarrow> finish_socket_request c = (r, c') \<Longrightarrow> payload_ok m c'"
  "payload_ok m c \<Longrightarrow> finish_openat_request c = (r, c') \<Longrightarrow> payload_ok m c'"
  "payload_ok m c \<Longrightarrow> finish_close_request c = (r, c') \<Longrightarrow> payload_ok m c'"
  "payload_ok m c \<Longrightarrow> finish_fixed_request c = (r, c') \<Longrightarrow> payload_ok m c'"
  "payload_ok m c \<Longrightarrow> finish_control_request c = (r, c') \<Longrightarrow> payload_ok m c'"
  unfolding finish_defs Let_def
  by (auto split: if_splits dest!: request_done_payload [of _ _ _ _ m] elim!: copy_payload_ok
      intro!: payload_ok_slice simp: not_less)

lemma finish_payload:
  "iouringd_finish_submit_request c = (r, c') \<Longrightarrow> payload_ok m c \<Longrightarrow> payload_ok m c'"
  unfolding iouringd_finish_submit_request_def Let_def
  by (auto split: if_splits dest: finish_group_payload)

lemma await_input_payload:
  assumes "await_input n rest c = (r, c')" and "payload_ok m c"
    and "\<And>c r c'. payload_ok m c \<Longrightarrow> rest c = (r, c') \<Longrightarrow> payload_ok m c'"
  shows "payload_ok m c'"
  using assms(1,2) assms(3) [of "c\<lparr>cl_expected_input := n\<rparr>"]
  by (auto simp: await_input_def Let_def split: if_splits)

lemma await_payload_payload:
  "await_payload n len c = (r, c') \<Longrightarrow> payload_ok m c \<Longrightarrow> payload_ok m c'"
  by (auto simp: await_payload_def Let_def split: if_splits elim!: finish_payload)

lemma process_payload:
  "iouringd_process_submit_input c = (r, c') \<Longrightarrow> payload_ok m c \<Longrightarrow> payload_ok m c'"
  unfolding iouringd_process_submit_input_def process_defs Let_def
  by (auto split: if_splits elim!: await_input_payload await_payload_payload finish_payload)

text \<open>
  The memory bounds of the parser: the bytes received are within what the parser asked for, which
  is within the input array, and the payload is within the payload array.
\<close>

definition parser_ok :: "iouringd_client \<Rightarrow> bool" where
  "parser_ok c \<longleftrightarrow> length (cl_input c) \<le> cl_expected_input c
     \<and> cl_expected_input c \<le> IOURINGD_MAX_REQUEST_BYTES
     \<and> payload_ok IOURINGD_MAX_IO_BYTES c"

lemma close_client_parser_ok:
  "iouringd_close_client (os, c) = (os', c') \<Longrightarrow> cl_io_bytes_max c \<le> 4096 \<Longrightarrow> parser_ok c'"
  by (auto simp: iouringd_close_client_def iouringd_reset_client_input_def parser_ok_def
      payload_ok_def)

lemma handshake_frame:
  assumes "iouringd_queue_handshake_result rt q c = (r, c')"
  shows "cl_io_payload c' = cl_io_payload c" "cl_io_bytes_max c' = cl_io_bytes_max c"
    "(cl_input c' = [] \<and> cl_expected_input c' = 16)
      \<or> (cl_input c' = cl_input c \<and> cl_expected_input c' = cl_expected_input c)"
    "cl_request_ready c' = cl_request_ready c" "cl_request c' = cl_request c"
    "cl_io_length c' = cl_io_length c"
proof -
  obtain c1 m where c1: "c1 = c\<lparr>cl_close_after_flush := True\<rparr>
      \<or> c1 = c\<lparr>cl_phase := IOURINGD_CLIENT_PHASE_SUBMIT\<rparr>"
    and "bind_rc (iouringd_queue_client_output m c1)
      (\<lambda>_ c2. (Inr (), iouringd_reset_client_input c2)) = (r, c')"
    using assms unfolding iouringd_queue_handshake_result_def Let_def
    by (auto split: if_splits)
  then obtain r2 c2 where q: "iouringd_queue_client_output m c1 = (r2, c2)"
    and c': "c' = c2 \<or> c' = iouringd_reset_client_input c2"
    by (auto elim: bind_rc_cases)
  note same = same_but_outputD [OF queue_output_frame [OF q]]
  show "cl_io_payload c' = cl_io_payload c" "cl_io_bytes_max c' = cl_io_bytes_max c"
    "(cl_input c' = [] \<and> cl_expected_input c' = 16)
      \<or> (cl_input c' = cl_input c \<and> cl_expected_input c' = cl_expected_input c)"
    "cl_request_ready c' = cl_request_ready c" "cl_request c' = cl_request c"
    "cl_io_length c' = cl_io_length c"
    using c' c1 same by (auto simp: iouringd_reset_client_input_def)
qed

lemma service_loop_parser_ok:
  assumes "parser_ok c" and "service_loop rt progress (ws, os, c) = (r, ws', os', c')"
  shows "parser_ok c'"
  using assms
proof (rule service_loop_invariant)
  fix ws os c r ws' os' c'
  assume "parser_ok c" and rd: "iouringd_read_client_input (ws, os, c) = (r, ws', os', c')"
  with read_input_spec [OF rd] same_but_inputD [of c c'] show "parser_ok c'"
    by (auto simp: parser_ok_def payload_ok_def)
next
  fix os c os' c'
  assume ok: "parser_ok c" and closed: "iouringd_close_client (os, c) = (os', c')"
  from ok have "cl_io_bytes_max c \<le> 4096" by (simp add: parser_ok_def payload_ok_def)
  with closed show "parser_ok c'" by (rule close_client_parser_ok)
next
  fix q c r c'
  assume "parser_ok c" and hs: "iouringd_queue_handshake_result rt q c = (r, c')"
  with handshake_frame [OF hs] show "parser_ok c'" by (auto simp: parser_ok_def payload_ok_def)
next
  fix c b c'
  assume ok: "parser_ok c" and proc: "iouringd_process_submit_input c = (Inr b, c')"
  from process_step [OF proc] process_payload [OF proc] ok show "parser_ok c'"
    by (auto simp: parser_ok_def step_ok_def step_done_def step_waits_def)
next
  fix c e c1 os os' c'
  assume ok: "parser_ok c" and proc: "iouringd_process_submit_input c = (Inl e, c1)"
    and closed: "iouringd_close_client (os, c1) = (os', c')"
  from process_payload [OF proc, of 4096] ok have "cl_io_bytes_max c1 \<le> 4096"
    by (simp add: parser_ok_def payload_ok_def)
  with closed show "parser_ok c'" by (rule close_client_parser_ok)
qed

text \<open>
  A request is whole: when it is ready and its kind brings a payload (a write, a connect address,
  a path or the contents of a buffer), the payload array holds as many bytes as the length field of
  the request announces.
\<close>

definition payload_kinds :: "u16 set" where
  "payload_kinds = {IOURINGD_TASK_KIND_SOCK_WRITE, IOURINGD_TASK_KIND_FILE_WRITE,
     IOURINGD_TASK_KIND_CONNECT, IOURINGD_TASK_KIND_OPENAT, IOURINGD_REQUEST_KIND_REGISTER_BUFFER}"

definition request_whole :: "iouringd_client \<Rightarrow> bool" where
  "request_whole c \<longleftrightarrow> (cl_request_ready c \<and> sr_task_kind (cl_request c) \<in> payload_kinds
     \<and> cl_io_length c \<noteq> 0 \<longrightarrow> length (cl_io_payload c) = unat (cl_io_length c))"

text \<open>The input holds the header of the request and the payload that the header announces.\<close>

definition input_whole :: "iouringd_client \<Rightarrow> bool" where
  "input_whole c \<longleftrightarrow> (let kind = sr_task_kind (cl_request c) in
     (kind \<in> {IOURINGD_TASK_KIND_SOCK_WRITE, IOURINGD_TASK_KIND_FILE_WRITE, IOURINGD_TASK_KIND_CONNECT}
        \<longrightarrow> 24 + unat (io_length (dec_sock_read_request (cl_input c))) \<le> length (cl_input c))
     \<and> (kind = IOURINGD_TASK_KIND_OPENAT
        \<longrightarrow> 28 + unat (oa_path_length (dec_openat_request (cl_input c))) \<le> length (cl_input c))
     \<and> (kind = IOURINGD_REQUEST_KIND_REGISTER_BUFFER
        \<longrightarrow> 24 + unat (rb_length (dec_register_buffer_request (cl_input c))) \<le> length (cl_input c)))"

lemma dec_same_submit:
  "tmo_submit (dec_timeout_request bs) = dec_submit_request bs"
  "io_submit (dec_sock_read_request bs) = dec_submit_request bs"
  "po_submit (dec_poll_request bs) = dec_submit_request bs"
  "oa_submit (dec_openat_request bs) = dec_submit_request bs"
  "fx_submit (dec_sock_read_fixed_request bs) = dec_submit_request bs"
  by (simp_all add: dec_timeout_request_def dec_sock_read_request_def dec_poll_request_def
      dec_openat_request_def dec_sock_read_fixed_request_def)

lemma slice_at_whole: "off + n \<le> length bs \<Longrightarrow> length (slice_at off n bs) = n"
  by (simp add: slice_at_def)

lemma request_whole_done:
  "request_done op c = (Inr b, c') \<Longrightarrow>
    (sr_task_kind (cl_request c) \<in> payload_kinds \<Longrightarrow> cl_io_length c \<noteq> 0 \<Longrightarrow>
      length (cl_io_payload c) = unat (cl_io_length c)) \<Longrightarrow> request_whole c'"
  by (auto simp: request_done_def iouringd_reset_client_input_def request_whole_def)

lemma finish_whole:
  assumes "iouringd_finish_submit_request c = (Inr b, c')" and "input_whole c"
    and "cl_request c = dec_submit_request (cl_input c)"
  shows "request_whole c'"
  using assms unfolding iouringd_finish_submit_request_def finish_defs Let_def
  by (auto split: if_splits simp: set_request_args_def dec_same_submit payload_kinds_def input_whole_def
      slice_at_whole Let_def dest!: copy_payload_Inr elim!: request_whole_done)

text \<open>A framing step on a client whose request is not ready yet makes it ready only when it is
  whole.\<close>

definition idle_input :: "iouringd_client \<Rightarrow> bool" where
  "idle_input c \<longleftrightarrow> \<not> cl_request_ready c \<and> cl_request c = dec_submit_request (cl_input c)"

lemma idle_input_expected [simp]: "idle_input (c\<lparr>cl_expected_input := n\<rparr>) = idle_input c"
  by (simp add: idle_input_def)

lemma input_whole_expected [simp]: "input_whole (c\<lparr>cl_expected_input := n\<rparr>) = input_whole c"
  by (simp add: input_whole_def)

lemma idle_whole: "idle_input c \<Longrightarrow> request_whole c"
  by (simp add: idle_input_def request_whole_def)

lemma finish_idle_whole:
  "iouringd_finish_submit_request c = (Inr b, c') \<Longrightarrow> idle_input c \<Longrightarrow> input_whole c \<Longrightarrow> request_whole c'"
  by (auto simp: idle_input_def intro: finish_whole)

lemma await_input_whole:
  assumes "await_input n rest c = (Inr b, c')" and "idle_input c"
    and "rest (c\<lparr>cl_expected_input := n\<rparr>) = (Inr b, c') \<Longrightarrow> request_whole c'"
  shows "request_whole c'"
  using assms(1) by (cases rule: await_input_Inr) (use assms(2,3) in \<open>auto intro: idle_whole\<close>)

lemma await_payload_whole:
  assumes "await_payload n len c = (Inr b, c')" and "idle_input c"
    and "n + unat len \<le> length (cl_input c) \<Longrightarrow> input_whole c"
  shows "request_whole c'"
  using assms(1) by (cases rule: await_payload_Inr)
    (use assms(2,3) in \<open>auto intro: idle_whole finish_idle_whole\<close>)

lemma process_group_whole:
  assumes "idle_input c"
  shows "process_socket_input c = (Inr b, c') \<Longrightarrow> sr_task_kind (cl_request c) \<in> {IOURINGD_TASK_KIND_POLL,
      IOURINGD_TASK_KIND_CONNECT, IOURINGD_TASK_KIND_ACCEPT} \<Longrightarrow> request_whole c'"
    and "process_path_input c = (Inr b, c') \<Longrightarrow> sr_task_kind (cl_request c) \<in> {IOURINGD_TASK_KIND_OPENAT,
      IOURINGD_TASK_KIND_CLOSE} \<Longrightarrow> request_whole c'"
    and "process_control_input c = (Inr b, c') \<Longrightarrow> sr_task_kind (cl_request c) \<in>
      {IOURINGD_REQUEST_KIND_RELEASE_RESOURCE, IOURINGD_REQUEST_KIND_GET_STATS,
       IOURINGD_REQUEST_KIND_GET_TRACE, IOURINGD_REQUEST_KIND_REGISTER_BUFFER} \<Longrightarrow> request_whole c'"
    and "process_write_input c = (Inr b, c') \<Longrightarrow> sr_task_kind (cl_request c) \<in>
      {IOURINGD_TASK_KIND_SOCK_WRITE, IOURINGD_TASK_KIND_FILE_WRITE} \<Longrightarrow> request_whole c'"
  using assms unfolding process_defs Let_def
  by (auto split: if_splits elim!: await_input_whole await_payload_whole finish_idle_whole
      simp: input_whole_def Let_def)

lemma await_finish_whole:
  "await_input n iouringd_finish_submit_request c = (Inr b, c') \<Longrightarrow> idle_input c \<Longrightarrow> input_whole c
    \<Longrightarrow> request_whole c'"
  by (erule await_input_whole) (auto intro: finish_idle_whole)

lemma process_whole:
  assumes "iouringd_process_submit_input c = (Inr b, c')" and "\<not> cl_request_ready c"
  shows "request_whole c'"
proof (cases "length (cl_input c) < 16")
  case True
  with assms show ?thesis by (auto simp: iouringd_process_submit_input_def request_whole_def)
next
  case False
  let ?c = "c\<lparr>cl_request := dec_submit_request (cl_input c)\<rparr>"
  have idle: "idle_input ?c" using assms(2) by (simp add: idle_input_def)
  show ?thesis
    using assms(1) False process_group_whole [OF idle] await_finish_whole [OF _ idle]
      finish_idle_whole [OF _ idle]
    unfolding iouringd_process_submit_input_def Let_def
    by (auto split: if_splits simp: input_whole_def Let_def)
qed

lemma service_loop_whole:
  assumes "request_whole c" and "service_loop rt progress (ws, os, c) = (r, ws', os', c')"
  shows "request_whole c'"
  using assms
proof (rule service_loop_invariant)
  fix ws os c r ws' os' c'
  assume "request_whole c" and rd: "iouringd_read_client_input (ws, os, c) = (r, ws', os', c')"
  with read_input_spec [OF rd] same_but_inputD [of c c'] show "request_whole c'"
    by (simp add: request_whole_def)
next
  fix q c r c'
  assume "request_whole c" and hs: "iouringd_queue_handshake_result rt q c = (r, c')"
  with handshake_frame [OF hs] show "request_whole c'" by (simp add: request_whole_def)
next
  fix c b c'
  assume "iouringd_process_submit_input c = (Inr b, c')" and "\<not> cl_request_ready c"
  then show "request_whole c'" by (rule process_whole)
qed (auto simp: iouringd_close_client_def iouringd_reset_client_input_def request_whole_def)

section \<open>Properties\<close>

text \<open>
  C23: parsing is safe. Whatever the socket delivers, in whatever pieces, with or without
  control messages and errors, the parser never holds more input bytes than it has asked for,
  never asks for more than the 4120 bytes of the input array, and never copies more than the 4096
  bytes of the payload array, although the lengths come from the peer. And it never hands a request
  on without its payload: when a write, a connect, an openat or a buffer registration is ready, all
  the bytes its length field announces have arrived and are in the payload array.
\<close>

theorem service_client_parser_safe:
  assumes "parser_ok c" and "request_whole c"
    and "service_loop rt progress (ws, os, c) = (r, ws', os', c')"
  shows "parser_ok c' \<and> request_whole c'"
  using service_loop_parser_ok [OF assms(1,3)] service_loop_whole [OF assms(2,3)] ..

end
