(* ===== verification/Framing.thy ===== *)
theory Framing
  imports Parser
begin

text \<open>
  The request messages of the protocol as a client writes them, and the theorem that joins them to
  the daemon's incremental parser: however the bytes of a valid message are split by the socket,
  the parser consumes exactly that message and leaves a ready request with the message's fields.
\<close>

section \<open>Messages\<close>

text \<open>
  One constructor per group of requests with the same layout; the first argument of \<open>Msg_io\<close>,
  \<open>Msg_write\<close> and \<open>Msg_fixed\<close> is the task kind, and the priority follows where the request has one.
\<close>

datatype request_message =
  Msg_nop u16
| Msg_timeout u16 u64
| Msg_cancel u16 task_id
| Msg_io u16 u16 resource_id u32
| Msg_write u16 u16 resource_id bytes
| Msg_poll u16 resource_id u16
| Msg_openat u16 i32 u32 bytes
| Msg_close u16 resource_id
| Msg_fixed u16 u16 resource_id resource_id u32
| Msg_register_buffer bytes
| Msg_release resource_id
| Msg_get_stats
| Msg_get_trace u64 u32

definition v1_header :: iouringd_protocol_header_v1 where
  "v1_header = \<lparr>ph_magic = IOURINGD_PROTOCOL_WIRE_MAGIC,
     ph_version_major = IOURINGD_PROTOCOL_V1_MAJOR, ph_version_minor = IOURINGD_PROTOCOL_V1_MINOR\<rparr>"

definition v1_submit :: "u16 \<Rightarrow> u16 \<Rightarrow> iouringd_submit_request_v1" where
  "v1_submit kind priority =
     \<lparr>sr_header = v1_header, sr_task_kind = kind, sr_priority = priority, sr_reserved1 = 0\<rparr>"

definition v1_control :: "u16 \<Rightarrow> iouringd_control_request_v1" where
  "v1_control kind =
     \<lparr>cr_header = v1_header, cr_request_kind = kind, cr_reserved0 = 0, cr_reserved1 = 0\<rparr>"

fun message_header :: "request_message \<Rightarrow> iouringd_submit_request_v1" where
  "message_header (Msg_nop p) = v1_submit IOURINGD_TASK_KIND_NOP p"
| "message_header (Msg_timeout p n) = v1_submit IOURINGD_TASK_KIND_TIMEOUT p"
| "message_header (Msg_cancel p t) = v1_submit IOURINGD_TASK_KIND_CANCEL p"
| "message_header (Msg_io k p r n) = v1_submit k p"
| "message_header (Msg_write k p r d) = v1_submit k p"
| "message_header (Msg_poll p r m) = v1_submit IOURINGD_TASK_KIND_POLL p"
| "message_header (Msg_openat p f m d) = v1_submit IOURINGD_TASK_KIND_OPENAT p"
| "message_header (Msg_close p r) = v1_submit IOURINGD_TASK_KIND_CLOSE p"
| "message_header (Msg_fixed k p r b n) = v1_submit k p"
| "message_header (Msg_register_buffer d) = v1_submit IOURINGD_REQUEST_KIND_REGISTER_BUFFER 0"
| "message_header (Msg_release r) = v1_submit IOURINGD_REQUEST_KIND_RELEASE_RESOURCE 0"
| "message_header Msg_get_stats = v1_submit IOURINGD_REQUEST_KIND_GET_STATS 0"
| "message_header (Msg_get_trace a n) = v1_submit IOURINGD_REQUEST_KIND_GET_TRACE 0"

text \<open>The fixed part of a message and the payload behind it.\<close>

fun message_fixed :: "request_message \<Rightarrow> bytes" where
  "message_fixed (Msg_nop p) = enc_submit_request (v1_submit IOURINGD_TASK_KIND_NOP p)"
| "message_fixed (Msg_timeout p n) = enc_timeout_request
     \<lparr>tmo_submit = v1_submit IOURINGD_TASK_KIND_TIMEOUT p, tmo_timeout_nsec = n\<rparr>"
| "message_fixed (Msg_cancel p t) = enc_cancel_request
     \<lparr>can_header = v1_header, can_task_kind = IOURINGD_TASK_KIND_CANCEL, can_reserved0 = p,
      can_reserved1 = 0, can_target = t\<rparr>"
| "message_fixed (Msg_io k p r n) = enc_sock_read_request
     \<lparr>io_submit = v1_submit k p, io_resource = r, io_length = n\<rparr>"
| "message_fixed (Msg_write k p r d) = enc_sock_read_request
     \<lparr>io_submit = v1_submit k p, io_resource = r, io_length = of_nat (length d)\<rparr>"
| "message_fixed (Msg_poll p r m) = enc_poll_request
     \<lparr>po_submit = v1_submit IOURINGD_TASK_KIND_POLL p, po_resource = r, po_poll_mask = m,
      po_reserved2 = 0\<rparr>"
| "message_fixed (Msg_openat p f m d) = enc_openat_request
     \<lparr>oa_submit = v1_submit IOURINGD_TASK_KIND_OPENAT p, oa_open_flags = f, oa_open_mode = m,
      oa_path_length = of_nat (length d)\<rparr>"
| "message_fixed (Msg_close p r) = enc_sock_read_request
     \<lparr>io_submit = v1_submit IOURINGD_TASK_KIND_CLOSE p, io_resource = r, io_length = 0\<rparr>"
| "message_fixed (Msg_fixed k p r b n) = enc_sock_read_fixed_request
     \<lparr>fx_submit = v1_submit k p, fx_file_resource = r, fx_buffer_resource = b, fx_length = n\<rparr>"
| "message_fixed (Msg_register_buffer d) = enc_register_buffer_request
     \<lparr>rb_control = v1_control IOURINGD_REQUEST_KIND_REGISTER_BUFFER,
      rb_length = of_nat (length d), rb_reserved2 = 0\<rparr>"
| "message_fixed (Msg_release r) = enc_release_resource_request
     \<lparr>rr_control = v1_control IOURINGD_REQUEST_KIND_RELEASE_RESOURCE, rr_resource = r,
      rr_reserved2 = 0\<rparr>"
| "message_fixed Msg_get_stats = enc_control_request (v1_control IOURINGD_REQUEST_KIND_GET_STATS)"
| "message_fixed (Msg_get_trace a n) = enc_get_trace_request
     \<lparr>gt_control = v1_control IOURINGD_REQUEST_KIND_GET_TRACE, gt_after_sequence = a,
      gt_max_events = n, gt_reserved2 = 0\<rparr>"

fun message_payload :: "request_message \<Rightarrow> bytes" where
  "message_payload (Msg_write k p r d) = d"
| "message_payload (Msg_openat p f m d) = d"
| "message_payload (Msg_register_buffer d) = d"
| "message_payload _ = []"

definition message_bytes :: "request_message \<Rightarrow> bytes" where
  "message_bytes m = message_fixed m @ message_payload m"

text \<open>The messages a client may send to a daemon whose payload limit is \<open>io_max\<close>.\<close>

fun message_ok :: "nat \<Rightarrow> request_message \<Rightarrow> bool" where
  "message_ok io_max (Msg_nop p) = iouringd_submit_priority_is_valid p"
| "message_ok io_max (Msg_timeout p n) = iouringd_submit_priority_is_valid p"
| "message_ok io_max (Msg_cancel p t) = iouringd_submit_priority_is_valid p"
| "message_ok io_max (Msg_io k p r n) =
     (iouringd_submit_priority_is_valid p
      \<and> (k = IOURINGD_TASK_KIND_SOCK_READ \<or> k = IOURINGD_TASK_KIND_FILE_READ
         \<or> k = IOURINGD_TASK_KIND_ACCEPT \<and> unat n \<le> io_max \<and> n \<le> 65535))"
| "message_ok io_max (Msg_write k p r d) =
     (iouringd_submit_priority_is_valid p
      \<and> (k = IOURINGD_TASK_KIND_SOCK_WRITE \<or> k = IOURINGD_TASK_KIND_FILE_WRITE
         \<or> k = IOURINGD_TASK_KIND_CONNECT)
      \<and> d \<noteq> [] \<and> length d \<le> io_max \<and> length d \<le> 4096)"
| "message_ok io_max (Msg_poll p r m) = iouringd_submit_priority_is_valid p"
| "message_ok io_max (Msg_openat p f m d) =
     (iouringd_submit_priority_is_valid p \<and> 2 \<le> length d \<and> last d = 0
      \<and> length d \<le> io_max \<and> length d + 28 \<le> IOURINGD_MAX_REQUEST_BYTES)"
| "message_ok io_max (Msg_close p r) = iouringd_submit_priority_is_valid p"
| "message_ok io_max (Msg_fixed k p r b n) =
     (iouringd_submit_priority_is_valid p
      \<and> (k = IOURINGD_TASK_KIND_SOCK_READ_FIXED \<or> k = IOURINGD_TASK_KIND_SOCK_WRITE_FIXED))"
| "message_ok io_max (Msg_register_buffer d) = (length d \<le> io_max \<and> length d \<le> 4096)"
| "message_ok io_max (Msg_release r) = True"
| "message_ok io_max Msg_get_stats = True"
| "message_ok io_max (Msg_get_trace a n) = (unat n \<le> IOURINGD_TRACE_CAPACITY)"

text \<open>The fields a message leaves in the client.\<close>

fun message_fields :: "request_message \<Rightarrow> iouringd_client \<Rightarrow> iouringd_client" where
  "message_fields (Msg_nop p) c = set_request_args 0 0 0 0 0 c"
| "message_fields (Msg_timeout p n) c = set_request_args n 0 0 0 0 c"
| "message_fields (Msg_cancel p t) c = set_request_args 0 t 0 0 0 c"
| "message_fields (Msg_io k p r n) c =
     (set_request_args 0 0 r 0 n c)
       \<lparr>cl_poll_mask := (if k = IOURINGD_TASK_KIND_ACCEPT then 0 else cl_poll_mask c)\<rparr>"
| "message_fields (Msg_write k p r d) c =
     (set_request_args 0 0 r 0 (of_nat (length d)) c)\<lparr>cl_io_payload := d,
       cl_poll_mask := (if k = IOURINGD_TASK_KIND_CONNECT then 0 else cl_poll_mask c)\<rparr>"
| "message_fields (Msg_poll p r m) c = (set_request_args 0 0 r 0 0 c)\<lparr>cl_poll_mask := m\<rparr>"
| "message_fields (Msg_openat p f m d) c =
     (set_request_args 0 0 0 0 (of_nat (length d)) c)\<lparr>cl_open_flags := f, cl_open_mode := m,
       cl_io_payload := d, cl_poll_mask := 0\<rparr>"
| "message_fields (Msg_close p r) c =
     (set_request_args 0 0 r 0 0 c)\<lparr>cl_open_flags := 0, cl_close_fd := - 1, cl_open_mode := 0,
       cl_poll_mask := 0\<rparr>"
| "message_fields (Msg_fixed k p r b n) c = set_request_args 0 0 r b n c"
| "message_fields (Msg_register_buffer d) c =
     (set_request_args 0 0 0 0 (of_nat (length d)) c)
       \<lparr>cl_io_payload := (if d = [] then cl_io_payload c else d)\<rparr>"
| "message_fields (Msg_release r) c = set_request_args 0 0 r 0 0 c"
| "message_fields Msg_get_stats c =
     (set_request_args 0 0 0 0 0 c)\<lparr>cl_trace_after_sequence := 0, cl_trace_max_events := 0,
       cl_poll_mask := 0\<rparr>"
| "message_fields (Msg_get_trace a n) c =
     (set_request_args 0 0 0 0 0 c)\<lparr>cl_trace_after_sequence := a, cl_trace_max_events := n,
       cl_poll_mask := 0\<rparr>"

fun message_control :: "request_message \<Rightarrow> u16" where
  "message_control (Msg_register_buffer d) = IOURINGD_REQUEST_KIND_REGISTER_BUFFER"
| "message_control (Msg_release r) = IOURINGD_REQUEST_KIND_RELEASE_RESOURCE"
| "message_control Msg_get_stats = IOURINGD_REQUEST_KIND_GET_STATS"
| "message_control (Msg_get_trace a n) = IOURINGD_REQUEST_KIND_GET_TRACE"
| "message_control _ = 0"

definition message_client :: "request_message \<Rightarrow> iouringd_client \<Rightarrow> iouringd_client" where
  "message_client m c =
     (message_fields m c)\<lparr>cl_request := message_header m, cl_control_op := message_control m,
       cl_request_ready := True, cl_input := [], cl_expected_input := sizeof_submit_request\<rparr>"

section \<open>Prefixes\<close>

lemma enc_control_is_submit: "enc_control_request (v1_control k) = enc_submit_request (v1_submit k 0)"
  by (simp add: enc_control_request_def enc_submit_request_def v1_control_def v1_submit_def)

lemma enc_cancel_prefix:
  "enc_cancel_request \<lparr>can_header = v1_header, can_task_kind = k, can_reserved0 = p,
      can_reserved1 = 0, can_target = t\<rparr> = enc_submit_request (v1_submit k p) @ le_enc 8 t"
  by (simp add: enc_cancel_request_def enc_submit_request_def v1_submit_def)

text \<open>Every message starts with the submit header.\<close>

lemma message_prefix: "\<exists>rest. message_bytes m = enc_submit_request (message_header m) @ rest"
  by (cases m) (simp_all add: message_bytes_def enc_control_is_submit enc_cancel_prefix
      enc_timeout_request_def enc_sock_read_request_def enc_poll_request_def
      enc_openat_request_def enc_sock_read_fixed_request_def enc_register_buffer_request_def
      enc_release_resource_request_def enc_get_trace_request_def)

lemma message_length:
  "16 \<le> length (message_fixed m) \<and> length (message_fixed m) \<le> length (message_bytes m)"
  by (cases m) (simp_all add: message_bytes_def)

lemma dec_message_header:
  assumes "16 \<le> n"
  shows "dec_submit_request (take n (message_bytes m)) = message_header m"
proof -
  obtain rest where "message_bytes m = enc_submit_request (message_header m) @ rest"
    using message_prefix [of m] by blast
  with assms have "take n (message_bytes m)
      = enc_submit_request (message_header m) @ take (n - 16) rest"
    by (simp add: submit_request.enc_length)
  then show ?thesis by simp
qed

lemma header_valid [simp]:
  "iouringd_request_header_is_valid (v1_submit k p)"
  "sr_task_kind (v1_submit k p) = k" "sr_priority (v1_submit k p) = p"
  by (simp_all add: iouringd_request_header_is_valid_def v1_submit_def v1_header_def)

lemma message_header_valid: "iouringd_request_header_is_valid (message_header m)"
  by (cases m) simp_all

lemma unat_length_small: "n \<le> 4120 \<Longrightarrow> unat (of_nat n :: u32) = n"
  by (simp add: unat_of_nat)

section \<open>The stages of a message\<close>

lemmas finish_eval = iouringd_finish_submit_request_def finish_defs request_done_def
  iouringd_reset_client_input_def copy_payload_def slice_at_def set_request_args_def Let_def
  iouringd_request_priority_is_valid_def iouringd_request_kind_is_control_def

lemma prio_valid_range [simp]:
  "iouringd_submit_priority_is_valid p \<Longrightarrow> iouringd_request_priority_is_valid (v1_submit k p)
    \<longleftrightarrow> (k \<ge> 1 \<and> k < 15) \<or> (iouringd_request_kind_is_control k \<and> p = 0)"
  by (auto simp: iouringd_request_priority_is_valid_def iouringd_request_kind_is_control_def
      iouringd_submit_priority_is_valid_def)

lemma finish_guards:
  assumes "cl_request c = v1_submit k p" and "iouringd_request_priority_is_valid (v1_submit k p)"
    and "cl_received_fd c < 0"
  shows "iouringd_finish_submit_request c =
     (if k \<in> {1, 2, 3} then finish_plain_request c
      else if k \<in> {4, 8} then finish_read_request c
      else if k \<in> {5, 9} then finish_write_request c
      else if k \<in> {10, 11, 12} then finish_socket_request c
      else if k = 13 then finish_openat_request c
      else if k = 14 then finish_close_request c
      else if k \<in> {6, 7} then finish_fixed_request c
      else finish_control_request c)"
  using assms by (simp add: iouringd_finish_submit_request_def Let_def)

lemmas request_eval = request_done_def iouringd_reset_client_input_def copy_payload_def
  slice_at_def set_request_args_def Let_def message_client_def message_bytes_def

lemma finish_plain_message:
  assumes "cl_input c = message_bytes m" and "cl_request c = message_header m"
  shows "m = Msg_nop p \<Longrightarrow> finish_plain_request c = (Inr True, message_client m c)"
    and "m = Msg_timeout p n \<Longrightarrow> finish_plain_request c = (Inr True, message_client m c)"
    and "m = Msg_cancel p t \<Longrightarrow> finish_plain_request c = (Inr True, message_client m c)"
  using assms by (simp_all add: finish_plain_request_def request_eval v1_submit_def)

lemma finish_io_message:
  assumes "cl_input c = message_bytes m" and "cl_request c = message_header m"
    and "m = Msg_io k p r n"
  shows "k \<noteq> 12 \<Longrightarrow> finish_read_request c = (Inr True, message_client m c)"
    and "k = 12 \<Longrightarrow> finish_socket_request c = (Inr True, message_client m c)"
  using assms by (simp_all add: finish_read_request_def finish_socket_request_def request_eval)

lemma finish_write_message:
  assumes "cl_input c = message_bytes m" and "cl_request c = message_header m"
    and "m = Msg_write k p r d" and "length d \<le> cl_io_bytes_max c" and "length d \<le> 4096"
  shows "k \<noteq> 11 \<Longrightarrow> finish_write_request c = (Inr True, message_client m c)"
    and "k = 11 \<Longrightarrow> finish_socket_request c = (Inr True, message_client m c)"
  using assms
  by (simp_all add: finish_write_request_def finish_socket_request_def request_eval
      unat_length_small)

lemma finish_other_message:
  assumes "cl_input c = message_bytes m" and "cl_request c = message_header m"
  shows "m = Msg_poll p r k \<Longrightarrow> finish_socket_request c = (Inr True, message_client m c)"
    and "m = Msg_close p r \<Longrightarrow> finish_close_request c = (Inr True, message_client m c)"
    and "m = Msg_fixed k p r b n \<Longrightarrow> finish_fixed_request c = (Inr True, message_client m c)"
    and "m = Msg_release r \<Longrightarrow> finish_control_request c = (Inr True, message_client m c)"
    and "m = Msg_get_stats \<Longrightarrow> finish_control_request c = (Inr True, message_client m c)"
    and "m = Msg_get_trace a n' \<Longrightarrow> finish_control_request c = (Inr True, message_client m c)"
  using assms
  by (simp_all add: finish_socket_request_def finish_close_request_def finish_fixed_request_def
      finish_control_request_def request_eval)

lemma finish_payload_message:
  assumes "cl_input c = message_bytes m" and "cl_request c = message_header m"
    and "length d \<le> cl_io_bytes_max c" and "length d \<le> 4096"
  shows "m = Msg_register_buffer d \<Longrightarrow> finish_control_request c = (Inr True, message_client m c)"
    and "m = Msg_openat p f md d \<Longrightarrow> 2 \<le> length d \<Longrightarrow> last d = 0 \<Longrightarrow>
      finish_openat_request c = (Inr True, message_client m c)"
proof -
  have len: "unat (of_nat (length d) :: u32) = length d"
    using assms(4) by (simp add: unat_length_small)
  have zero: "(of_nat (length d) :: u32) = 0 \<longleftrightarrow> d = []"
    using len by (metis length_0_conv unat_0 unat_0_iff)
  show "finish_control_request c = (Inr True, message_client m c)" if "m = Msg_register_buffer d"
    using assms that len zero by (simp add: finish_control_request_def request_eval)
  show "finish_openat_request c = (Inr True, message_client m c)"
    if "m = Msg_openat p f md d" "2 \<le> length d" "last d = 0"
  proof -
    have "\<not> (of_nat (length d) :: u32) < 2" using that(2) len by (simp add: word_less_nat_alt)
    with assms that len show ?thesis by (simp add: finish_openat_request_def request_eval)
  qed
qed

lemma finish_message:
  assumes ok: "message_ok (cl_io_bytes_max c) m" and fd: "cl_received_fd c < 0"
    and c: "cl_input c = message_bytes m" "cl_request c = message_header m"
  shows "iouringd_finish_submit_request c = (Inr True, message_client m c)"
proof -
  have control: "iouringd_request_kind_is_control k" if "k \<in> {257, 258, 259, 260}" for k
    using that by (auto simp: iouringd_request_kind_is_control_def)
  have zero: "iouringd_submit_priority_is_valid 0"
    by (simp add: iouringd_submit_priority_is_valid_def)
  note guard = finish_guards [OF _ _ fd]
  show ?thesis
  proof (cases m)
    case (Msg_nop p)
    with ok c finish_plain_message(1) [OF c] show ?thesis by (simp add: guard)
  next
    case (Msg_timeout p n)
    with ok c finish_plain_message(2) [OF c] show ?thesis by (simp add: guard)
  next
    case (Msg_cancel p t)
    with ok c finish_plain_message(3) [OF c] show ?thesis by (simp add: guard)
  next
    case (Msg_io k p r n)
    with ok c finish_io_message [OF c] show ?thesis by (auto simp: guard)
  next
    case (Msg_write k p r d)
    with ok c finish_write_message [OF c] show ?thesis by (auto simp: guard)
  next
    case (Msg_poll p r k)
    with ok c finish_other_message(1) [OF c] show ?thesis by (simp add: guard)
  next
    case (Msg_openat p f md d)
    with ok c finish_payload_message(2) [OF c] show ?thesis by (simp add: guard)
  next
    case (Msg_close p r)
    with ok c finish_other_message(2) [OF c] show ?thesis by (simp add: guard)
  next
    case (Msg_fixed k p r b n)
    with ok c finish_other_message(3) [OF c] show ?thesis by (auto simp: guard)
  next
    case (Msg_register_buffer d)
    with ok c finish_payload_message(1) [OF c] control zero show ?thesis by (simp add: guard)
  next
    case (Msg_release r)
    with ok c finish_other_message(4) [OF c] control zero show ?thesis by (simp add: guard)
  next
    case Msg_get_stats
    with ok c finish_other_message(5) [OF c] control zero show ?thesis by (simp add: guard)
  next
    case (Msg_get_trace a n)
    with ok c finish_other_message(6) [OF c] control zero show ?thesis by (simp add: guard)
  qed
qed

lemma message_client_absorb [simp]:
  "message_client m (c\<lparr>cl_request := q\<rparr>) = message_client m c"
  "message_client m (c\<lparr>cl_expected_input := n\<rparr>) = message_client m c"
  "message_client m (c\<lparr>cl_input := bs\<rparr>) = message_client m c"
  by (cases m; simp add: message_client_def set_request_args_def)+

lemma await_input_short:
  "length (cl_input c) < n \<Longrightarrow> await_input n rest c = (Inr False, c\<lparr>cl_expected_input := n\<rparr>)"
  by (simp add: await_input_def)

lemma await_input_go:
  "n \<le> length (cl_input c) \<Longrightarrow> await_input n rest c = rest (c\<lparr>cl_expected_input := n\<rparr>)"
  by (simp add: await_input_def)

text \<open>The framing function once the header is known: which group, and the group's own test.\<close>

lemma process_guards:
  assumes "dec_submit_request (cl_input c) = v1_submit k p" and "16 \<le> length (cl_input c)"
    and "c1 = c\<lparr>cl_request := v1_submit k p\<rparr>"
  shows "iouringd_process_submit_input c =
     (if k \<in> {2, 3, 4, 8} then await_input 24 iouringd_finish_submit_request c1
      else if k \<in> {10, 11, 12} then process_socket_input c1
      else if k \<in> {13, 14} then process_path_input c1
      else if k \<in> {6, 7} then await_input 28 iouringd_finish_submit_request c1
      else if k \<in> {257, 259, 260, 258} then process_control_input c1
      else if k \<in> {5, 9} then process_write_input c1
      else iouringd_finish_submit_request c1)"
  using assms by (simp add: iouringd_process_submit_input_def Let_def)

lemma process_group_short:
  assumes "cl_request c = v1_submit k p"
  shows "length (cl_input c) < 24 \<Longrightarrow>
      process_socket_input c = (Inr False, c\<lparr>cl_expected_input := 24\<rparr>)"
    and "length (cl_input c) < (if k = 13 then 28 else 24) \<Longrightarrow>
      process_path_input c = (Inr False, c\<lparr>cl_expected_input := if k = 13 then 28 else 24\<rparr>)"
    and "length (cl_input c) < 24 \<Longrightarrow>
      process_write_input c = (Inr False, c\<lparr>cl_expected_input := 24\<rparr>)"
    and "k = 257 \<or> k = 258 \<Longrightarrow> length (cl_input c) < 24 \<Longrightarrow>
      process_control_input c = (Inr False, c\<lparr>cl_expected_input := 24\<rparr>)"
    and "k = 260 \<Longrightarrow> length (cl_input c) < 32 \<Longrightarrow>
      process_control_input c = (Inr False, c\<lparr>cl_expected_input := 32\<rparr>)"
  using assms by (auto simp: process_defs Let_def await_input_short)

text \<open>With the submit header but not yet the fixed part: the parser asks for the fixed part.\<close>

lemma process_header_stage:
  assumes ok: "message_ok (cl_io_bytes_max c) m" and c: "cl_input c = take n (message_bytes m)"
    and n: "16 \<le> n" "n < length (message_fixed m)"
  shows "iouringd_process_submit_input c
    = (Inr False, c\<lparr>cl_request := message_header m, cl_expected_input := length (message_fixed m)\<rparr>)"
proof -
  let ?c1 = "c\<lparr>cl_request := message_header m\<rparr>"
  have len: "length (cl_input c) = n" using c n message_length [of m] by simp
  have dec: "dec_submit_request (cl_input c) = message_header m"
    using c n(1) by (simp add: dec_message_header)
  have len16: "16 \<le> length (cl_input c)" using len n(1) by simp
  note guards = process_guards [OF _ len16 refl]
  show ?thesis
  proof (cases m)
    case (Msg_io k p r l)
    then have "k = 4 \<or> k = 8 \<or> k = 12" using ok by auto
    with Msg_io n len dec show ?thesis
      by (elim disjE) (simp_all add: guards await_input_short process_group_short(1) [of _ 12 p])
  next
    case (Msg_write k p r d)
    then have "k = 5 \<or> k = 9 \<or> k = 11" using ok by auto
    with Msg_write n len dec show ?thesis
      by (elim disjE) (simp_all add: guards process_group_short(1,3) [of _ k p])
  next
    case (Msg_poll p r mask)
    with n len dec show ?thesis by (simp add: guards process_group_short(1) [of _ 10 p])
  next
    case (Msg_openat p f md d)
    with n len dec show ?thesis by (simp add: guards process_group_short(2) [of _ 13 p])
  next
    case (Msg_close p r)
    with n len dec show ?thesis by (simp add: guards process_group_short(2) [of _ 14 p])
  next
    case (Msg_fixed k p r b l)
    then have "k = 6 \<or> k = 7" using ok by auto
    with Msg_fixed n len dec show ?thesis
      by (elim disjE) (simp_all add: guards await_input_short)
  next
    case (Msg_register_buffer d)
    with n len dec show ?thesis by (simp add: guards process_group_short(4) [of _ 258 0])
  next
    case (Msg_release r)
    with n len dec show ?thesis by (simp add: guards process_group_short(4) [of _ 257 0])
  next
    case (Msg_get_trace a l)
    with n len dec show ?thesis by (simp add: guards process_group_short(5) [of _ 260 0])
  qed (use n len dec in \<open>simp_all add: guards await_input_short\<close>)
qed

text \<open>With the fixed part: the parser asks for the payload, or the message is complete.\<close>

lemma process_group_go:
  assumes "cl_request c = v1_submit k p"
    and "iouringd_finish_submit_request (c\<lparr>cl_expected_input := length (cl_input c)\<rparr>) = out"
  shows "k = 10 \<Longrightarrow> length (cl_input c) = 24 \<Longrightarrow> po_reserved2 (dec_poll_request (cl_input c)) = 0 \<Longrightarrow>
      process_socket_input c = out"
    and "k = 12 \<Longrightarrow> length (cl_input c) = 24 \<Longrightarrow>
      unat (io_length (dec_sock_read_request (cl_input c))) \<le> cl_io_bytes_max c \<Longrightarrow>
      io_length (dec_sock_read_request (cl_input c)) \<le> 65535 \<Longrightarrow> process_socket_input c = out"
    and "k = 14 \<Longrightarrow> length (cl_input c) = 24 \<Longrightarrow>
      io_length (dec_sock_read_request (cl_input c)) = 0 \<Longrightarrow> process_path_input c = out"
    and "k = 257 \<Longrightarrow> length (cl_input c) = 24 \<Longrightarrow> process_control_input c = out"
    and "k = 259 \<Longrightarrow> length (cl_input c) = 16 \<Longrightarrow> process_control_input c = out"
    and "k = 260 \<Longrightarrow> length (cl_input c) = 32 \<Longrightarrow>
      unat (gt_max_events (dec_get_trace_request (cl_input c))) \<le> 256 \<Longrightarrow>
      gt_reserved2 (dec_get_trace_request (cl_input c)) = 0 \<Longrightarrow> process_control_input c = out"
  using assms by (simp_all add: process_defs Let_def await_input_go not_less [symmetric])

lemma process_plain_stage:
  assumes ok: "message_ok (cl_io_bytes_max c) m" and fd: "cl_received_fd c < 0"
    and input: "cl_input c = message_bytes m" and plain: "length (message_bytes m) = length (message_fixed m)"
    and kind: "\<And>k p r d. m \<noteq> Msg_write k p r d" "\<And>p f md d. m \<noteq> Msg_openat p f md d"
      "\<And>d. m \<noteq> Msg_register_buffer d"
  shows "iouringd_process_submit_input c = (Inr True, message_client m c)"
proof -
  let ?c1 = "c\<lparr>cl_request := message_header m\<rparr>"
  have dec: "dec_submit_request (cl_input c) = message_header m"
    using dec_message_header [of "length (message_bytes m)" m] input message_length [of m] by simp
  have len16: "16 \<le> length (cl_input c)" using input message_length [of m] by simp
  note guards = process_guards [OF _ len16 refl]
  have bytes: "cl_input c = message_fixed m" using input plain by (simp add: message_bytes_def)
  have fin: "iouringd_finish_submit_request (?c1\<lparr>cl_expected_input := n\<rparr>)
      = (Inr True, message_client m c)"
    "iouringd_finish_submit_request ?c1 = (Inr True, message_client m c)" for n
    using ok fd input by (simp_all add: finish_message)
  show ?thesis
  proof (cases m)
    case (Msg_io k p r l)
    then have k: "k = 4 \<or> k = 8 \<or> k = 12 \<and> unat l \<le> cl_io_bytes_max c \<and> l \<le> 65535"
      using ok by auto
    from Msg_io fin have go: "process_socket_input ?c1 = (Inr True, message_client m c)"
      if "k = 12 \<and> unat l \<le> cl_io_bytes_max c \<and> l \<le> 65535"
      using that bytes by (intro process_group_go(2) [of _ k p]) simp_all
    from k Msg_io bytes dec fin go show ?thesis
      by (elim disjE) (simp_all add: guards await_input_go)
  next
    case (Msg_poll p r mask)
    with fin bytes have "process_socket_input ?c1 = (Inr True, message_client m c)"
      by (intro process_group_go(1) [of _ 10 p]) simp_all
    with Msg_poll dec show ?thesis by (simp add: guards)
  next
    case (Msg_close p r)
    with fin bytes have "process_path_input ?c1 = (Inr True, message_client m c)"
      by (intro process_group_go(3) [of _ 14 p]) simp_all
    with Msg_close dec show ?thesis by (simp add: guards)
  next
    case (Msg_fixed k p r b l)
    then have "k = 6 \<or> k = 7" using ok by auto
    with Msg_fixed bytes dec fin show ?thesis
      by (elim disjE) (simp_all add: guards await_input_go)
  next
    case (Msg_release r)
    with fin bytes have "process_control_input ?c1 = (Inr True, message_client m c)"
      by (intro process_group_go(4) [of _ 257 0]) simp_all
    with Msg_release dec show ?thesis by (simp add: guards)
  next
    case Msg_get_stats
    with fin bytes have "process_control_input ?c1 = (Inr True, message_client m c)"
      by (intro process_group_go(5) [of _ 259 0]) simp_all
    with Msg_get_stats dec show ?thesis by (simp add: guards)
  next
    case (Msg_get_trace a l)
    with fin bytes ok have "process_control_input ?c1 = (Inr True, message_client m c)"
      by (intro process_group_go(6) [of _ 260 0]) simp_all
    with Msg_get_trace dec show ?thesis by (simp add: guards)
  qed (use kind bytes dec fin in \<open>simp_all add: guards await_input_go\<close>)
qed

lemma process_payload_stage:
  assumes ok: "message_ok (cl_io_bytes_max c) m" and fd: "cl_received_fd c < 0"
    and input: "cl_input c = message_fixed m @ take n d" and n: "n \<le> length d"
    and kind: "m = Msg_write k p r d \<or> m = Msg_openat p f md d \<or> m = Msg_register_buffer d"
  shows "iouringd_process_submit_input c
    = (if n < length d
       then (Inr False, c\<lparr>cl_request := message_header m,
         cl_expected_input := length (message_bytes m)\<rparr>)
       else (Inr True, message_client m c))" (is "_ = ?out")
proof -
  let ?c1 = "c\<lparr>cl_request := message_header m\<rparr>"
  have payload: "message_payload m = d" and len: "length d + length (message_fixed m) \<le> 4120"
    using ok kind by auto
  have unat: "unat (of_nat (length d) :: u32) = length d"
    using len by (simp add: unat_length_small)
  have "cl_input c = take (length (message_fixed m) + n) (message_bytes m)"
    using input payload by (simp add: message_bytes_def)
  then have dec: "dec_submit_request (cl_input c) = message_header m"
    using message_length [of m] by (simp add: dec_message_header)
  have len16: "16 \<le> length (cl_input c)" using input message_length [of m] by simp
  note guards = process_guards [OF _ len16 refl]
  have await: "await_payload (length (message_fixed m)) (of_nat (length d))
      (?c1\<lparr>cl_expected_input := n'\<rparr>) = ?out" for n'
    using ok fd input payload n len unat
    by (simp add: await_payload_def message_bytes_def finish_message)
  have small: "\<not> 65535 < (of_nat (length d) :: u32)"
    using unat len by (simp add: word_less_nat_alt)
  have zero: "(of_nat (length d) :: u32) = 0 \<longleftrightarrow> d = []"
    using unat by (metis length_0_conv unat_0 unat_0_iff)
  from kind show ?thesis
  proof (elim disjE)
    assume m: "m = Msg_write k p r d"
    then have k: "k = 5 \<or> k = 9 \<or> k = 11" and lim: "d \<noteq> []" "length d \<le> cl_io_bytes_max c"
      using ok by auto
    from m await input unat small zero lim
    have go: "process_write_input ?c1 = ?out" "k = 11 \<Longrightarrow> process_socket_input ?c1 = ?out"
      by (simp_all add: process_write_input_def process_socket_input_def Let_def await_input_go)
    from k m dec go show ?thesis by (elim disjE) (simp_all add: guards)
  next
    assume m: "m = Msg_openat p f md d"
    then have lim: "2 \<le> length d" "length d \<le> cl_io_bytes_max c" using ok by auto
    then have "\<not> (of_nat (length d) :: u32) < 2" using unat by (simp add: word_less_nat_alt)
    with m await input unat lim have "process_path_input ?c1 = ?out"
      by (simp add: process_path_input_def Let_def await_input_go)
    with m dec show ?thesis by (simp add: guards)
  next
    assume m: "m = Msg_register_buffer d"
    then have lim: "length d \<le> cl_io_bytes_max c" using ok by auto
    with m await input unat have "process_control_input ?c1 = ?out"
      by (simp add: process_control_input_def Let_def await_input_go)
    with m dec show ?thesis by (simp add: guards)
  qed
qed

section \<open>Messages over a stream\<close>

text \<open>A stream of nonempty segments without control messages.\<close>

definition segments :: "bytes list \<Rightarrow> recv_result list" where
  "segments ds = map (\<lambda>d. Recv_data d [] False) ds"

lemma segments_simps [simp]:
  "segments [] = []" "segments (d # ds) = Recv_data d [] False # segments ds"
  by (simp_all add: segments_def)

lemma read_segments:
  assumes "[] \<notin> set ds" and "length (cl_input c) + need = cl_expected_input c"
    and "need \<le> length (concat ds)"
  shows "\<exists>ds'. [] \<notin> set ds' \<and> concat ds' = drop need (concat ds)
    \<and> iouringd_read_client_input (segments ds, os, c)
      = (Inr Read_full, segments ds', os, c\<lparr>cl_input := cl_input c @ take need (concat ds)\<rparr>)"
  using assms
proof (induction ds arbitrary: c need)
  case Nil
  then show ?case by (intro exI [of _ "[]"]) (simp add: read_done)
next
  case (Cons d ds)
  show ?case
  proof (cases "need = 0")
    case True
    with Cons.prems show ?thesis by (intro exI [of _ "d # ds"]) (simp add: read_done)
  next
    case False
    with Cons.prems(2) have less: "length (cl_input c) < cl_expected_input c" by simp
    have n: "cl_expected_input c - length (cl_input c) = need" using Cons.prems(2) by simp
    have pos: "0 < length d" using Cons.prems(1) by auto
    show ?thesis
    proof (cases "need < length d")
      case True
      with False less n pos Cons.prems show ?thesis
        by (intro exI [of _ "drop need d # ds"])
          (auto simp: read_data read_done unread_def Let_def min_def)
    next
      case False
      let ?c1 = "c\<lparr>cl_input := cl_input c @ d\<rparr>"
      have "\<exists>ds'. [] \<notin> set ds' \<and> concat ds' = drop (need - length d) (concat ds)
        \<and> iouringd_read_client_input (segments ds, os, ?c1)
          = (Inr Read_full, segments ds', os,
             ?c1\<lparr>cl_input := cl_input ?c1 @ take (need - length d) (concat ds)\<rparr>)"
        using False Cons.prems by (intro Cons.IH) simp_all
      with False less n pos show ?thesis
        by (auto simp: read_data unread_def Let_def min_def)
    qed
  qed
qed

definition reading :: "iouringd_client \<Rightarrow> bool" where
  "reading c \<longleftrightarrow> cl_fd c \<ge> 0 \<and> \<not> cl_request_ready c \<and> cl_phase c = IOURINGD_CLIENT_PHASE_SUBMIT
     \<and> cl_received_fd c < 0"

lemma service_turn:
  assumes "reading c" and "[] \<notin> set ds" and "length (cl_input c) + need = cl_expected_input c"
    and "need \<le> length (concat ds)"
    and "iouringd_process_submit_input (c\<lparr>cl_input := cl_input c @ take need (concat ds)\<rparr>) = (Inr b, c2)"
  shows "\<exists>ds'. [] \<notin> set ds' \<and> concat ds' = drop need (concat ds)
    \<and> service_loop rt progress (segments ds, os, c)
      = (if cl_request_ready c2 then (Inr True, segments ds', os, c2)
         else service_loop rt True (segments ds', os, c2))"
proof -
  obtain ds' where ds': "[] \<notin> set ds'" "concat ds' = drop need (concat ds)"
    and rd: "iouringd_read_client_input (segments ds, os, c)
      = (Inr Read_full, segments ds', os, c\<lparr>cl_input := cl_input c @ take need (concat ds)\<rparr>)"
    using read_segments [OF assms(2-4)] by blast
  have "service_loop rt progress (segments ds, os, c)
      = (if cl_request_ready c2 then (Inr True, segments ds', os, c2)
         else service_loop rt True (segments ds', os, c2))"
    using assms(1,5) rd by (simp add: service_loop.simps [of rt progress "segments ds"] reading_def)
  with ds' show ?thesis by blast
qed

lemma service_fixed_part:
  assumes ok: "message_ok (cl_io_bytes_max c) m" and c: "reading c"
    and input: "cl_input c = take k (message_bytes m)" "k \<le> length (message_fixed m)"
    and expected: "cl_expected_input c = length (message_fixed m)"
    and ds: "[] \<notin> set ds" "concat ds = drop k (message_bytes m) @ rest"
  shows "\<exists>ds'. [] \<notin> set ds' \<and> concat ds' = rest
    \<and> service_loop rt progress (segments ds, os, c) = (Inr True, segments ds', os, message_client m c)"
proof -
  let ?F = "length (message_fixed m)" and ?T = "length (message_bytes m)"
  let ?c1 = "c\<lparr>cl_input := message_fixed m\<rparr>"
  have fd: "cl_received_fd c < 0" using c by (simp add: reading_def)
  have k: "length (cl_input c) = k" using input message_length [of m] by simp
  have got: "cl_input c @ take (?F - k) (concat ds) = message_fixed m"
    using input ds(2) message_length [of m]
    by (simp add: message_bytes_def take_drop flip: take_add)
  have rest: "drop (?F - k) (concat ds) = message_payload m @ rest"
    using input ds(2) message_length [of m] by (simp add: message_bytes_def)
  have need: "length (cl_input c) + (?F - k) = cl_expected_input c" "?F - k \<le> length (concat ds)"
    using k input expected ds(2) message_length [of m]
    by (simp_all add: diff_le_mono trans_le_add1)
  note turn = service_turn [OF c ds(1) need, unfolded got]
  have ready: "cl_request_ready (message_client m c')" for c' by (simp add: message_client_def)
  show ?thesis
  proof (cases "(\<exists>k p r d. m = Msg_write k p r d) \<or> (\<exists>p f md d. m = Msg_openat p f md d)
      \<or> (\<exists>d. m = Msg_register_buffer d)")
    case False
    then have plain: "message_payload m = []" by (cases m) auto
    with False have "iouringd_process_submit_input ?c1 = (Inr True, message_client m ?c1)"
      using ok fd by (intro process_plain_stage) (auto simp: message_bytes_def)
    from turn [OF this] ready plain rest show ?thesis by auto
  next
    case True
    then obtain k' p r f md d where kind:
      "m = Msg_write k' p r d \<or> m = Msg_openat p f md d \<or> m = Msg_register_buffer d" by auto
    then have payload: "message_payload m = d" by auto
    let ?c2 = "?c1\<lparr>cl_request := message_header m, cl_expected_input := ?T\<rparr>"
    have "iouringd_process_submit_input ?c1 = (if 0 < length d then (Inr False, ?c2)
        else (Inr True, message_client m ?c1))"
      using ok fd kind process_payload_stage [of ?c1 m 0 d k' p r f md] by simp
    then have proc: "iouringd_process_submit_input ?c1 = (if d \<noteq> [] then (Inr False, ?c2)
        else (Inr True, message_client m c))" by simp
    show ?thesis
    proof (cases "d = []")
      case True
      with turn [of True "message_client m c"] proc ready payload rest show ?thesis by auto
    next
      case False
      with proc have "iouringd_process_submit_input ?c1 = (Inr False, ?c2)" by simp
      from turn [OF this, of rt progress os] c obtain ds1 where
        ds1: "[] \<notin> set ds1" "concat ds1 = drop (?F - k) (concat ds)"
        and step: "service_loop rt progress (segments ds, os, c)
          = service_loop rt True (segments ds1, os, ?c2)"
        unfolding reading_def by force
      have stream: "concat ds1 = d @ rest" using ds1(2) rest payload by simp
      have c2: "reading ?c2" using c by (simp add: reading_def)
      have "iouringd_process_submit_input (?c2\<lparr>cl_input := cl_input ?c2 @ take (length d) (concat ds1)\<rparr>)
          = (Inr True, message_client m ?c2)"
        using ok fd kind process_payload_stage
          [of "?c2\<lparr>cl_input := message_fixed m @ d\<rparr>" m "length d" d k' p r f md] stream by simp
      from service_turn [OF c2 ds1(1) _ _ this, of rt True os] stream payload ready step
      show ?thesis by (auto simp: message_bytes_def)
    qed
  qed
qed

section \<open>Properties\<close>

lemma service_loop_decodes:
  assumes ok: "message_ok (cl_io_bytes_max c) m" and c: "reading c"
    and fresh: "cl_input c = []" "cl_expected_input c = sizeof_submit_request"
    and ds: "[] \<notin> set ds" "concat ds = message_bytes m @ rest"
  shows "\<exists>ds'. [] \<notin> set ds' \<and> concat ds' = rest
    \<and> service_loop rt False (segments ds, os, c) = (Inr True, segments ds', os, message_client m c)"
proof (cases "length (message_fixed m) = 16")
  case True
  with assms service_fixed_part [of c m 0 ds rest rt False os] show ?thesis by simp
next
  case False
  with message_length [of m] have long: "16 < length (message_fixed m)" by simp
  let ?c1 = "c\<lparr>cl_input := take 16 (message_bytes m)\<rparr>"
  let ?c2 = "?c1\<lparr>cl_request := message_header m, cl_expected_input := length (message_fixed m)\<rparr>"
  have "take 16 (concat ds) = take 16 (message_bytes m)"
    using ds(2) message_length [of m] by simp
  then have got: "cl_input c @ take 16 (concat ds) = take 16 (message_bytes m)"
    using fresh(1) by simp
  have proc: "iouringd_process_submit_input ?c1 = (Inr False, ?c2)"
    using ok long process_header_stage [of ?c1 m 16] by simp
  have "length (cl_input c) + 16 = cl_expected_input c" "16 \<le> length (concat ds)"
    using fresh ds(2) message_length [of m] by simp_all
  from service_turn [OF c ds(1) this, unfolded got, OF proc, of rt False os] c
  obtain ds1 where ds1: "[] \<notin> set ds1" "concat ds1 = drop 16 (concat ds)"
    and step: "service_loop rt False (segments ds, os, c)
      = service_loop rt True (segments ds1, os, ?c2)"
    by (auto simp: reading_def)
  have "concat ds1 = drop 16 (message_bytes m) @ rest"
    using ds1(2) ds(2) message_length [of m] by simp
  with service_fixed_part [of ?c2 m 16 ds1 rest rt True os] ok c long ds1(1) step show ?thesis
    by (simp add: reading_def)
qed

text \<open>
  C21: framing and decoding invert the client's encoding under any segmentation. When the stream of
  a client in the submit phase consists of the bytes of a valid request message followed by other
  bytes, then however the socket splits the stream into segments, servicing the client consumes
  exactly the bytes of the message, leaves the following bytes unread and in order, and makes the
  request ready with exactly the fields the message was built from.
\<close>

theorem service_client_decodes_message:
  assumes ok: "message_ok (cl_io_bytes_max c) m" and c: "reading c"
    and fresh: "cl_input c = []" "cl_expected_input c = sizeof_submit_request"
    and ds: "[] \<notin> set ds" "concat ds = message_bytes m @ rest"
  shows "\<exists>ds'. [] \<notin> set ds' \<and> concat ds' = rest
    \<and> service_loop rt False (segments ds, os, c) = (Inr True, segments ds', os, message_client m c)"
  using assms by (rule service_loop_decodes)

theorem service_client_decodes_message_witness:
  "\<exists>ds'. concat ds' = [9]
    \<and> service_loop iouringd_init_runtime False
        (segments [take 3 (message_bytes (Msg_write 5 2 7 [104, 105])),
                   drop 3 (message_bytes (Msg_write 5 2 7 [104, 105])) @ [9]],
         \<lparr>os_closed = []\<rparr>,
         init_client\<lparr>cl_fd := 4, cl_phase := IOURINGD_CLIENT_PHASE_SUBMIT\<rparr>)
      = (Inr True, segments ds', \<lparr>os_closed = []\<rparr>,
         message_client (Msg_write 5 2 7 [104, 105])
           (init_client\<lparr>cl_fd := 4, cl_phase := IOURINGD_CLIENT_PHASE_SUBMIT\<rparr>))"
proof -
  let ?m = "Msg_write 5 2 7 [104, 105]"
  let ?c = "init_client\<lparr>cl_fd := 4, cl_phase := IOURINGD_CLIENT_PHASE_SUBMIT\<rparr>"
  let ?ds = "[take 3 (message_bytes ?m), drop 3 (message_bytes ?m) @ [9]]"
  note init = init_client_def zero_client_def iouringd_init_client_resources_def
    iouringd_reset_client_input_def
  have "message_ok (cl_io_bytes_max ?c) ?m"
    by (simp add: init iouringd_submit_priority_is_valid_def)
  moreover have "reading ?c" "cl_input ?c = []" "cl_expected_input ?c = 16"
    by (simp_all add: reading_def init)
  moreover have "take 3 (message_bytes ?m) \<noteq> []" using message_length [of ?m] by auto
  then have "[] \<notin> set ?ds" "concat ?ds = message_bytes ?m @ [9]" by simp_all
  ultimately show ?thesis
    using service_client_decodes_message [of ?c ?m ?ds "[9]" iouringd_init_runtime
      "\<lparr>os_closed = []\<rparr>"] by blast
qed

text \<open>The invariant of the parser at a write of two bytes that arrives in two pieces: the request is
  ready, and its payload is there.\<close>

theorem service_client_parser_safe_witness:
  "\<exists>ws' c'. service_loop iouringd_init_runtime False
       (segments [take 3 (message_bytes (Msg_write 5 2 7 [104, 105])),
                  drop 3 (message_bytes (Msg_write 5 2 7 [104, 105]))],
        \<lparr>os_closed = []\<rparr>, init_client\<lparr>cl_fd := 4, cl_phase := IOURINGD_CLIENT_PHASE_SUBMIT\<rparr>)
       = (Inr True, ws', \<lparr>os_closed = []\<rparr>, c')
     \<and> cl_request_ready c' \<and> cl_io_length c' = 2 \<and> parser_ok c' \<and> length (cl_io_payload c') = 2"
proof -
  let ?m = "Msg_write 5 2 7 [104, 105]"
  let ?c = "init_client\<lparr>cl_fd := 4, cl_phase := IOURINGD_CLIENT_PHASE_SUBMIT\<rparr>"
  let ?ds = "[take 3 (message_bytes ?m), drop 3 (message_bytes ?m)]"
  note init = init_client_def zero_client_def iouringd_init_client_resources_def
    iouringd_reset_client_input_def
  have c: "message_ok (cl_io_bytes_max ?c) ?m" "reading ?c" "cl_input ?c = []" "cl_expected_input ?c = 16"
    by (simp_all add: reading_def init iouringd_submit_priority_is_valid_def)
  have "24 \<le> length (message_bytes ?m)" by (simp add: message_bytes_def)
  then have "take 3 (message_bytes ?m) \<noteq> []" "drop 3 (message_bytes ?m) \<noteq> []" by auto
  then have ds: "[] \<notin> set ?ds" "concat ?ds = message_bytes ?m @ []" by simp_all
  obtain ws' where run: "service_loop iouringd_init_runtime False (segments ?ds, \<lparr>os_closed = []\<rparr>, ?c)
      = (Inr True, ws', \<lparr>os_closed = []\<rparr>, message_client ?m ?c)"
    using service_loop_decodes [OF c ds, of iouringd_init_runtime "\<lparr>os_closed = []\<rparr>"] by blast
  have "parser_ok ?c" "request_whole ?c"
    by (simp_all add: parser_ok_def payload_ok_def init request_whole_def)
  from service_client_parser_safe [OF this run]
  have ok: "parser_ok (message_client ?m ?c)" "request_whole (message_client ?m ?c)" by simp_all
  have "cl_request_ready (message_client ?m ?c)" "cl_io_length (message_client ?m ?c) = 2"
    "sr_task_kind (cl_request (message_client ?m ?c)) \<in> payload_kinds"
    by (simp_all add: message_client_def set_request_args_def v1_submit_def payload_kinds_def)
  with ok run show ?thesis
    by (intro exI [of _ ws'] exI [of _ "message_client ?m ?c"]) (simp add: request_whole_def)
qed

end
