(* ===== verification/Dispatch.thy ===== *)
theory Dispatch
  imports Framing
begin

text \<open>
  Dispatching a ready request, main.c lines 904 to 979, 2066 to 2167, 2228 to 2243 and 2275 to
  3528: the replies, the control requests (register, release, statistics, trace), admission and
  argument checks, the submission of each kind of task with its rollback, and the order in which
  ready clients are served.

  \<open>Inl e\<close> is a return of -1, which ends the daemon; \<open>Inr True\<close> a return of 1 and \<open>Inr False\<close> a
  return of 0. A pointer to a task slot or to a resource slot is its index.
\<close>

section \<open>Access to a client of the runtime\<close>

definition upd_client ::
  "nat \<Rightarrow> (iouringd_client \<Rightarrow> iouringd_client) \<Rightarrow> iouringd_runtime \<Rightarrow> iouringd_runtime" where
  "upd_client i f rt = set_client i (f (client_at rt i)) rt"

definition on_client ::
  "nat \<Rightarrow> (iouringd_client \<Rightarrow> ('a, iouringd_client) res) \<Rightarrow> iouringd_runtime
    \<Rightarrow> ('a, iouringd_runtime) res" where
  "on_client i f rt = (case f (client_at rt i) of (r, c) \<Rightarrow> (r, set_client i c rt))"

definition on_ring ::
  "(iouringd_ring \<Rightarrow> ('a, iouringd_ring) res) \<Rightarrow> iouringd_runtime \<Rightarrow> ('a, iouringd_runtime) res" where
  "on_ring f rt = (case f (rt_ring rt) of (r, ring) \<Rightarrow> (r, rt\<lparr>rt_ring := ring\<rparr>))"

definition upd_file_slot ::
  "nat \<Rightarrow> (iouringd_resource_slot \<Rightarrow> iouringd_resource_slot) \<Rightarrow> iouringd_client \<Rightarrow> iouringd_client"
where
  "upd_file_slot j f c = set_file_slot j (f (cl_file_resources c ! j)) c"

definition upd_buffer_slot ::
  "nat \<Rightarrow> (iouringd_buffer_slot \<Rightarrow> iouringd_buffer_slot) \<Rightarrow> iouringd_client \<Rightarrow> iouringd_client"
where
  "upd_buffer_slot j f c = set_buffer_slot j (f (cl_buffer_resources c ! j)) c"

section \<open>Counters\<close>

definition iouringd_count_active_clients :: "iouringd_runtime \<Rightarrow> u32" where
  "iouringd_count_active_clients rt =
     of_nat (count_slots (\<lambda>c. cl_fd c \<ge> 0) (lim_max_clients (rt_limits rt)) (rt_clients rt))"

definition iouringd_count_registered_files :: "iouringd_runtime \<Rightarrow> u32" where
  "iouringd_count_registered_files rt =
     of_nat (sum_list (map (\<lambda>c. count_slots fs_registered (cl_file_slot_limit c) (cl_file_resources c))
       (take (lim_max_clients (rt_limits rt)) (rt_clients rt))))"

definition iouringd_count_registered_buffers :: "iouringd_runtime \<Rightarrow> u32" where
  "iouringd_count_registered_buffers rt =
     of_nat (sum_list (map (\<lambda>c. count_slots bs_registered (cl_buffer_slot_limit c)
         (cl_buffer_resources c))
       (take (lim_max_clients (rt_limits rt)) (rt_clients rt))))"

definition iouringd_count_clients_at_credit_limit :: "iouringd_runtime \<Rightarrow> u32" where
  "iouringd_count_clients_at_credit_limit rt =
     (if rt_per_client_credit_limit rt = 0 then 0
      else of_nat (count_slots
        (\<lambda>c. \<not> cl_fd c < 0 \<and> cl_outstanding_credit_tasks c \<ge> rt_per_client_credit_limit rt)
        (lim_max_clients (rt_limits rt)) (rt_clients rt)))"

section \<open>Task slots\<close>

definition iouringd_find_free_task_slot :: "iouringd_runtime \<Rightarrow> nat option" where
  "iouringd_find_free_task_slot rt =
     find_slot (\<lambda>t. \<not> tk_active t) (rt_task_capacity rt) (rt_tasks rt)"

definition iouringd_find_task_slot :: "iouringd_runtime \<Rightarrow> task_id \<Rightarrow> nat option" where
  "iouringd_find_task_slot rt task =
     find_slot (\<lambda>t. tk_active t \<and> tk_task_id t = task) (rt_task_capacity rt) (rt_tasks rt)"

section \<open>Replies\<close>

definition iouringd_queue_submit_result ::
  "nat \<Rightarrow> task_id \<Rightarrow> i32 \<Rightarrow> iouringd_runtime \<Rightarrow> (unit, iouringd_runtime) res" where
  "iouringd_queue_submit_result i task res rt =
     on_client i (iouringd_queue_client_output
       (enc_submit_result \<lparr>sres_task = task, sres_res = res,
          sres_credits = iouringd_available_credits rt\<rparr>)) rt"

definition iouringd_reject_submit ::
  "sys \<Rightarrow> nat \<Rightarrow> i32 \<Rightarrow> iouringd_runtime \<Rightarrow> (unit, iouringd_runtime) res" where
  "iouringd_reject_submit sys i res rt =
     (let rt1 = rt\<lparr>rt_rejected_submits := rt_rejected_submits rt + 1\<rparr>
      in bind_rc (iouringd_queue_submit_result i IOURINGD_TASK_ID_INVALID res rt1)
           (\<lambda>_ rt2. (Inr (), iouringd_emit_trace_event sys i IOURINGD_TRACE_EVENT_SUBMIT_REJECT
              (sr_task_kind (cl_request (client_at rt2 i)))
              (sr_priority (cl_request (client_at rt2 i)))
              IOURINGD_TASK_ID_INVALID (cl_resource_id (client_at rt2 i)) res
              (iouringd_available_credits rt2) rt2)))"

definition iouringd_queue_resource_result ::
  "resource_id \<Rightarrow> i32 \<Rightarrow> u32 \<Rightarrow> iouringd_client \<Rightarrow> (unit, iouringd_client) res" where
  "iouringd_queue_resource_result r res available c =
     iouringd_queue_client_output
       (enc_resource_result \<lparr>rres_resource = r, rres_res = res,
          rres_resources_available = available, rres_reserved = 0\<rparr>) c"

definition iouringd_queue_stats_result ::
  "iouringd_runtime \<Rightarrow> iouringd_client \<Rightarrow> (unit, iouringd_client) res" where
  "iouringd_queue_stats_result rt c =
     iouringd_queue_client_output
       (enc_stats_result
         \<lparr>st_active_clients = iouringd_count_active_clients rt,
          st_outstanding_tasks = of_nat (rt_outstanding_tasks rt),
          st_outstanding_credit_tasks = of_nat (rt_outstanding_credit_tasks rt),
          st_available_credits = iouringd_available_credits rt,
          st_registered_files = iouringd_count_registered_files rt,
          st_registered_buffers = iouringd_count_registered_buffers rt,
          st_accepted_submits = rt_accepted_submits rt,
          st_rejected_submits = rt_rejected_submits rt,
          st_completions = rt_completions rt,
          st_per_client_credit_limit = of_nat (rt_per_client_credit_limit rt),
          st_clients_at_credit_limit = iouringd_count_clients_at_credit_limit rt\<rparr>) c"

definition iouringd_finish_client_request :: "iouringd_client \<Rightarrow> iouringd_client" where
  "iouringd_finish_client_request c =
     c\<lparr>cl_request_ready := False, cl_control_op := 0, cl_timeout_nsec := 0,
       cl_cancel_target_id := IOURINGD_TASK_ID_INVALID,
       cl_resource_id := IOURINGD_RESOURCE_ID_INVALID,
       cl_buffer_resource_id := IOURINGD_RESOURCE_ID_INVALID, cl_open_flags := 0,
       cl_close_fd := - 1, cl_open_mode := 0, cl_io_length := 0, cl_trace_after_sequence := 0,
       cl_trace_max_events := 0, cl_poll_mask := 0\<rparr>"

text \<open>\<open>iouringd_finish_client_request(client); return 1;\<close>\<close>

definition finish_request :: "nat \<Rightarrow> iouringd_runtime \<Rightarrow> (bool, iouringd_runtime) res" where
  "finish_request i rt = (Inr True, upd_client i iouringd_finish_client_request rt)"

text \<open>The rejection of a submission: reply, trace, finish.\<close>

definition reject_request ::
  "sys \<Rightarrow> nat \<Rightarrow> errno \<Rightarrow> iouringd_runtime \<Rightarrow> (bool, iouringd_runtime) res" where
  "reject_request sys i e rt =
     bind_rc (iouringd_reject_submit sys i (neg_errno e) rt) (\<lambda>_. finish_request i)"

definition reply_resource ::
  "nat \<Rightarrow> resource_id \<Rightarrow> i32 \<Rightarrow> u32 \<Rightarrow> iouringd_runtime \<Rightarrow> (unit, iouringd_runtime) res" where
  "reply_resource i r res available rt =
     on_client i (iouringd_queue_resource_result r res available) rt"

section \<open>Control requests\<close>

text \<open>\<open>close(client->received_fd); client->received_fd = -1;\<close>\<close>

definition drop_received_fd :: "nat \<Rightarrow> iouringd_runtime \<Rightarrow> iouringd_runtime" where
  "drop_received_fd i rt =
     upd_client i (\<lambda>c. c\<lparr>cl_received_fd := - 1\<rparr>) (rt_close (cl_received_fd (client_at rt i)) rt)"

definition dispatch_register_fd ::
  "sys \<Rightarrow> nat \<Rightarrow> iouringd_runtime \<Rightarrow> (bool, iouringd_runtime) res" where
  "dispatch_register_fd sys i rt =
     (let c = client_at rt i in
      if cl_received_fd c < 0 then
        bind_rc (reply_resource i IOURINGD_RESOURCE_ID_INVALID (neg_errno EINVAL)
            (iouringd_available_file_resources c) rt)
          (\<lambda>_. finish_request i)
      else case iouringd_find_free_file_slot c of
        None \<Rightarrow>
          bind_rc (reply_resource i IOURINGD_RESOURCE_ID_INVALID (neg_errno EAGAIN)
              (iouringd_available_file_resources c) rt)
            (\<lambda>_ rt. finish_request i (drop_received_fd i rt))
      | Some j \<Rightarrow>
          (case iouringd_allocate_resource_id c of (r, c1) \<Rightarrow>
             let rt1 = set_client i c1 rt in
             if r = IOURINGD_RESOURCE_ID_INVALID then
               bind_rc (reply_resource i IOURINGD_RESOURCE_ID_INVALID (neg_errno EOVERFLOW)
                   (iouringd_available_file_resources c1) rt1)
                 (\<lambda>_ rt. finish_request i (drop_received_fd i rt))
             else
               (case rt_update_file sys (iouringd_global_file_index rt i j) (cl_received_fd c1) rt1 of
                  (Inl e, rt2) \<Rightarrow>
                    (let rt3 = drop_received_fd i rt2
                     in bind_rc (reply_resource i IOURINGD_RESOURCE_ID_INVALID (neg_errno e)
                            (iouringd_available_file_resources (client_at rt3 i)) rt3)
                          (\<lambda>_. finish_request i))
                | (Inr _, rt2) \<Rightarrow>
                    (let rt3 = upd_client i
                       (\<lambda>c. (set_file_slot j \<lparr>fs_resource_id = r, fs_daemon_fd = cl_received_fd c,
                          fs_in_flight = 0, fs_registered = True, fs_closing = False\<rparr> c)
                          \<lparr>cl_received_fd := - 1\<rparr>) rt2
                     in bind_rc (reply_resource i r 0
                            (iouringd_available_file_resources (client_at rt3 i)) rt3)
                          (\<lambda>_ rt4. finish_request i
                             (iouringd_emit_trace_event sys i
                                IOURINGD_TRACE_EVENT_RESOURCE_REGISTER 0
                                IOURINGD_SUBMIT_PRIORITY_NORMAL IOURINGD_TASK_ID_INVALID r 0
                                (iouringd_available_credits rt4) rt4))))))"

text \<open>\<open>memcpy\<close> of \<open>d\<close> to the start of a buffer.\<close>

definition store_bytes :: "bytes \<Rightarrow> bytes \<Rightarrow> bytes" where
  "store_bytes d old = d @ drop (length d) old"

definition dispatch_register_buffer ::
  "sys \<Rightarrow> nat \<Rightarrow> iouringd_runtime \<Rightarrow> (bool, iouringd_runtime) res" where
  "dispatch_register_buffer sys i rt =
     (let c = client_at rt i in
      case iouringd_find_free_buffer_slot c of
        None \<Rightarrow>
          bind_rc (reply_resource i IOURINGD_RESOURCE_ID_INVALID (neg_errno EAGAIN)
              (iouringd_available_buffer_resources c) rt)
            (\<lambda>_. finish_request i)
      | Some j \<Rightarrow>
          (case iouringd_allocate_resource_id c of (r, c1) \<Rightarrow>
             let rt1 = set_client i c1 rt in
             if r = IOURINGD_RESOURCE_ID_INVALID then
               bind_rc (reply_resource i IOURINGD_RESOURCE_ID_INVALID (neg_errno EOVERFLOW)
                   (iouringd_available_buffer_resources c1) rt1)
                 (\<lambda>_. finish_request i)
             else
               let g = iouringd_global_buffer_index rt1 i j;
                   len = unat (cl_io_length c1);
                   rt2 = (if cl_io_length c1 \<noteq> 0
                     then rt1\<lparr>rt_buffer_storage := (rt_buffer_storage rt1)
                       [g := store_bytes (take len (cl_io_payload c1)) (rt_buffer_storage rt1 ! g)]\<rparr>
                     else rt1);
                   rt3 = upd_client i
                     (\<lambda>c. set_buffer_slot j \<lparr>bs_resource_id = r, bs_in_flight = 0,
                        bs_registered = True, bs_closing = False,
                        bs_valid_length = cl_io_length c\<rparr> c) rt2
               in bind_rc (reply_resource i r 0
                      (iouringd_available_buffer_resources (client_at rt3 i)) rt3)
                    (\<lambda>_ rt4. finish_request i
                       (iouringd_emit_trace_event sys i IOURINGD_TRACE_EVENT_RESOURCE_REGISTER 0
                          IOURINGD_SUBMIT_PRIORITY_NORMAL IOURINGD_TASK_ID_INVALID r 0
                          (iouringd_available_credits rt4) rt4))))"

text \<open>The end of a release: reply with the identifier, trace, finish.\<close>

definition released ::
  "sys \<Rightarrow> nat \<Rightarrow> resource_id \<Rightarrow> (iouringd_client \<Rightarrow> u32) \<Rightarrow> iouringd_runtime
    \<Rightarrow> (bool, iouringd_runtime) res" where
  "released sys i r available rt =
     bind_rc (reply_resource i r 0 (available (client_at rt i)) rt)
       (\<lambda>_ rt. finish_request i
          (iouringd_emit_trace_event sys i IOURINGD_TRACE_EVENT_RESOURCE_RELEASE 0
             IOURINGD_SUBMIT_PRIORITY_NORMAL IOURINGD_TASK_ID_INVALID r 0
             (iouringd_available_credits rt) rt))"

definition dispatch_release_resource ::
  "sys \<Rightarrow> nat \<Rightarrow> iouringd_runtime \<Rightarrow> (bool, iouringd_runtime) res" where
  "dispatch_release_resource sys i rt =
     (let c = client_at rt i in
      if cl_resource_id c = IOURINGD_RESOURCE_ID_INVALID then
        bind_rc (reply_resource i IOURINGD_RESOURCE_ID_INVALID (neg_errno EINVAL) 0 rt)
          (\<lambda>_. finish_request i)
      else case iouringd_find_file_slot c (cl_resource_id c) of
        Some j \<Rightarrow>
          (if fs_in_flight (cl_file_resources c ! j) \<noteq> 0 then
             bind_rc (reply_resource i IOURINGD_RESOURCE_ID_INVALID (neg_errno EBUSY)
                 (iouringd_available_file_resources c) rt)
               (\<lambda>_. finish_request i)
           else
             let released_id = fs_resource_id (cl_file_resources c ! j);
                 rt1 = upd_client i (upd_file_slot j (\<lambda>s. s\<lparr>fs_closing := True\<rparr>)) rt
             in bind_rc (iouringd_try_release_file_slot sys i j rt1)
                  (\<lambda>_. released sys i released_id iouringd_available_file_resources))
      | None \<Rightarrow>
          (case iouringd_find_buffer_slot c (cl_resource_id c) of
             Some j \<Rightarrow>
               (if bs_in_flight (cl_buffer_resources c ! j) \<noteq> 0 then
                  bind_rc (reply_resource i IOURINGD_RESOURCE_ID_INVALID (neg_errno EBUSY)
                      (iouringd_available_buffer_resources c) rt)
                    (\<lambda>_. finish_request i)
                else
                  let released_id = bs_resource_id (cl_buffer_resources c ! j);
                      rt1 = upd_client i (upd_buffer_slot j (\<lambda>s. s\<lparr>bs_closing := True\<rparr>)) rt
                  in bind_rc (on_client i (iouringd_try_release_buffer_slot j) rt1)
                       (\<lambda>_. released sys i released_id iouringd_available_buffer_resources))
           | None \<Rightarrow>
               bind_rc (reply_resource i IOURINGD_RESOURCE_ID_INVALID (neg_errno ENOENT) 0 rt)
                 (\<lambda>_. finish_request i)))"

definition dispatch_get_stats :: "nat \<Rightarrow> iouringd_runtime \<Rightarrow> (bool, iouringd_runtime) res" where
  "dispatch_get_stats i rt =
     bind_rc (on_client i (iouringd_queue_stats_result rt) rt) (\<lambda>_. finish_request i)"

definition dispatch_get_trace :: "nat \<Rightarrow> iouringd_runtime \<Rightarrow> (bool, iouringd_runtime) res" where
  "dispatch_get_trace i rt =
     bind_rc (on_client i (iouringd_queue_trace_result rt) rt) (\<lambda>_. finish_request i)"

section \<open>Admission, capability and argument checks\<close>

definition uses_credit :: "u16 \<Rightarrow> bool" where
  "uses_credit kind \<longleftrightarrow> kind \<noteq> IOURINGD_TASK_KIND_CANCEL"

text \<open>The errno of the rejection, if admission control rejects the request.\<close>

definition admission_error :: "iouringd_runtime \<Rightarrow> iouringd_client \<Rightarrow> errno option" where
  "admission_error rt c =
     (let kind = sr_task_kind (cl_request c) in
      if uses_credit kind \<and> rt_outstanding_credit_tasks rt \<ge> rt_task_capacity rt then Some EAGAIN
      else if uses_credit kind \<and> cl_outstanding_credit_tasks c \<ge> rt_per_client_credit_limit rt
      then Some EAGAIN
      else if \<not> uses_credit kind \<and> rt_outstanding_tasks rt \<ge> rt_ring_capacity rt
      then Some EAGAIN
      else None)"

text \<open>The kinds whose capability bit is tested, in the order of the code.\<close>

definition capability_error :: "iouringd_runtime \<Rightarrow> iouringd_client \<Rightarrow> errno option" where
  "capability_error rt c =
     (let kind = sr_task_kind (cl_request c);
          lacks = (\<lambda>cap. cap_op_mask (rt_capabilities rt) AND cap = 0)
      in if (kind = IOURINGD_TASK_KIND_SOCK_READ \<or> kind = IOURINGD_TASK_KIND_FILE_READ)
            \<and> lacks IOURINGD_CAPABILITY_OP_READV then Some ENOTSUP
         else if (kind = IOURINGD_TASK_KIND_SOCK_WRITE \<or> kind = IOURINGD_TASK_KIND_FILE_WRITE)
            \<and> lacks IOURINGD_CAPABILITY_OP_WRITEV then Some ENOTSUP
         else if kind = IOURINGD_TASK_KIND_POLL \<and> lacks IOURINGD_CAPABILITY_OP_POLL
         then Some ENOTSUP
         else if kind = IOURINGD_TASK_KIND_CONNECT \<and> lacks IOURINGD_CAPABILITY_OP_CONNECT
         then Some ENOTSUP
         else if kind = IOURINGD_TASK_KIND_ACCEPT \<and> lacks IOURINGD_CAPABILITY_OP_ACCEPT
         then Some ENOTSUP
         else if kind = IOURINGD_TASK_KIND_OPENAT \<and> lacks IOURINGD_CAPABILITY_OP_OPENAT
         then Some ENOTSUP
         else if kind = IOURINGD_TASK_KIND_CLOSE \<and> lacks IOURINGD_CAPABILITY_OP_CLOSE
         then Some ENOTSUP
         else if kind = IOURINGD_TASK_KIND_SOCK_READ_FIXED
            \<and> lacks IOURINGD_CAPABILITY_OP_READ_FIXED then Some ENOTSUP
         else if kind = IOURINGD_TASK_KIND_SOCK_WRITE_FIXED
            \<and> lacks IOURINGD_CAPABILITY_OP_WRITE_FIXED then Some ENOTSUP
         else None)"

definition argument_error :: "iouringd_client \<Rightarrow> errno option" where
  "argument_error c =
     (let kind = sr_task_kind (cl_request c);
          no_file = (cl_resource_id c = IOURINGD_RESOURCE_ID_INVALID);
          len = cl_io_length c;
          too_long = (unat len > cl_io_bytes_max c)
      in if (kind = IOURINGD_TASK_KIND_SOCK_READ \<or> kind = IOURINGD_TASK_KIND_SOCK_WRITE
             \<or> kind = IOURINGD_TASK_KIND_FILE_READ \<or> kind = IOURINGD_TASK_KIND_FILE_WRITE)
            \<and> (no_file \<or> len = 0 \<or> too_long) then Some EINVAL
         else if kind = IOURINGD_TASK_KIND_POLL \<and> (no_file \<or> cl_poll_mask c = 0) then Some EINVAL
         else if kind = IOURINGD_TASK_KIND_CONNECT
            \<and> (no_file \<or> len = 0 \<or> too_long \<or> len > 65535) then Some EINVAL
         else if kind = IOURINGD_TASK_KIND_ACCEPT \<and> (no_file \<or> too_long \<or> len > 65535)
         then Some EINVAL
         else if kind = IOURINGD_TASK_KIND_OPENAT
            \<and> (len < 2 \<or> too_long \<or> cl_io_payload c ! unat (len - 1) \<noteq> 0) then Some EINVAL
         else if kind = IOURINGD_TASK_KIND_CLOSE \<and> no_file then Some EINVAL
         else if (kind = IOURINGD_TASK_KIND_SOCK_READ_FIXED
                  \<or> kind = IOURINGD_TASK_KIND_SOCK_WRITE_FIXED)
            \<and> (no_file \<or> cl_buffer_resource_id c = IOURINGD_RESOURCE_ID_INVALID
               \<or> len = 0 \<or> too_long) then Some EINVAL
         else None)"

definition cancel_error :: "iouringd_runtime \<Rightarrow> iouringd_client \<Rightarrow> errno option" where
  "cancel_error rt c =
     (if sr_task_kind (cl_request c) \<noteq> IOURINGD_TASK_KIND_CANCEL then None
      else if cap_op_mask (rt_capabilities rt) AND IOURINGD_CAPABILITY_OP_ASYNC_CANCEL = 0
      then Some ENOTSUP
      else if cl_cancel_target_id c = IOURINGD_TASK_ID_INVALID
         \<or> cl_cancel_target_id c \<ge> IOURINGD_TASK_ID_RESERVED_MIN
      then Some EINVAL
      else None)"

text \<open>All checks in the order of the code, lines 2560 to 2763.\<close>

definition submit_error :: "iouringd_runtime \<Rightarrow> iouringd_client \<Rightarrow> errno option" where
  "submit_error rt c =
     (case admission_error rt c of Some e \<Rightarrow> Some e
      | None \<Rightarrow> (case cancel_error rt c of Some e \<Rightarrow> Some e
      | None \<Rightarrow> (case capability_error rt c of Some e \<Rightarrow> Some e
      | None \<Rightarrow> argument_error c)))"

section \<open>Submission\<close>

text \<open>The fields every branch sets in the task slot after clearing it.\<close>

definition new_task :: "nat \<Rightarrow> iouringd_runtime \<Rightarrow> iouringd_task_slot" where
  "new_task i rt =
     (let c = client_at rt i
      in iouringd_clear_task_slot
           \<lparr>tk_active := True, tk_consumes_credit := uses_credit (sr_task_kind (cl_request c)),
            tk_task_id := rt_next_task_id rt, tk_task_kind := sr_task_kind (cl_request c),
            tk_submit_priority := sr_priority (cl_request c), tk_client_index := i,
            tk_client_generation := cl_generation c\<rparr>)"

definition count_task :: "nat \<Rightarrow> bool \<Rightarrow> iouringd_runtime \<Rightarrow> iouringd_runtime" where
  "count_task i credit rt =
     upd_client i
       (\<lambda>c. c\<lparr>cl_outstanding_tasks := cl_outstanding_tasks c + 1,
              cl_outstanding_credit_tasks :=
                (if credit then cl_outstanding_credit_tasks c + 1
                 else cl_outstanding_credit_tasks c)\<rparr>)
       (rt\<lparr>rt_next_task_id := rt_next_task_id rt + 1,
           rt_outstanding_tasks := rt_outstanding_tasks rt + 1,
           rt_outstanding_credit_tasks :=
             (if credit then rt_outstanding_credit_tasks rt + 1
              else rt_outstanding_credit_tasks rt),
           rt_accepted_submits := rt_accepted_submits rt + 1\<rparr>)"

definition uncount_task :: "nat \<Rightarrow> bool \<Rightarrow> iouringd_runtime \<Rightarrow> iouringd_runtime" where
  "uncount_task i credit rt =
     upd_client i
       (\<lambda>c. c\<lparr>cl_outstanding_tasks := size_sub (cl_outstanding_tasks c) 1,
              cl_outstanding_credit_tasks :=
                (if credit then size_sub (cl_outstanding_credit_tasks c) 1
                 else cl_outstanding_credit_tasks c)\<rparr>)
       (rt\<lparr>rt_outstanding_tasks := size_sub (rt_outstanding_tasks rt) 1,
           rt_outstanding_credit_tasks :=
             (if credit then size_sub (rt_outstanding_credit_tasks rt) 1
              else rt_outstanding_credit_tasks rt)\<rparr>)"

text \<open>
  The end of an accepted submission: count the task, reply with its identifier, trace, finish. When
  the reply does not fit, the counts are taken back, \<open>undo\<close> restores the slots and the daemon ends
  with an error.
\<close>

definition accept_request ::
  "sys \<Rightarrow> nat \<Rightarrow> iouringd_task_slot \<Rightarrow> (errno \<Rightarrow> iouringd_runtime \<Rightarrow> (bool, iouringd_runtime) res)
    \<Rightarrow> iouringd_runtime \<Rightarrow> (bool, iouringd_runtime) res"
where
  "accept_request sys i t undo rt =
     (case iouringd_queue_submit_result i (tk_task_id t) IOURINGD_COMPLETION_RES_OK
             (count_task i (tk_consumes_credit t) rt) of
        (Inl e, rt1) \<Rightarrow> undo e (uncount_task i (tk_consumes_credit t) rt1)
      | (Inr _, rt1) \<Rightarrow>
          finish_request i
            (iouringd_emit_trace_event sys i IOURINGD_TRACE_EVENT_SUBMIT_ACCEPT (tk_task_kind t)
               (tk_submit_priority t) (tk_task_id t) (tk_resource_id t) IOURINGD_COMPLETION_RES_OK
               (iouringd_available_credits rt1) rt1))"

text \<open>\<open>if (slot->in_flight != 0u) slot->in_flight -= 1u;\<close>\<close>

definition drop_in_flight :: "iouringd_resource_slot \<Rightarrow> iouringd_resource_slot" where
  "drop_in_flight s = (if fs_in_flight s \<noteq> 0 then s\<lparr>fs_in_flight := fs_in_flight s - 1\<rparr> else s)"

text \<open>Give back the slot \<open>j\<close> that was reserved for the descriptor a task will produce.\<close>

definition unreserve_slot :: "nat \<Rightarrow> nat \<Rightarrow> iouringd_runtime \<Rightarrow> iouringd_runtime" where
  "unreserve_slot i j rt = rt_clear_file_slot i j (upd_client i (upd_file_slot j drop_in_flight) rt)"

definition reserve_slot :: "resource_id \<Rightarrow> iouringd_resource_slot" where
  "reserve_slot r =
     \<lparr>fs_resource_id = r, fs_daemon_fd = - 1, fs_in_flight = 1, fs_registered = False,
      fs_closing = False\<rparr>"

definition open_task ::
  "nat \<Rightarrow> nat \<Rightarrow> resource_id \<Rightarrow> iouringd_runtime \<Rightarrow> iouringd_task_slot" where
  "open_task i j r rt =
     (let c = client_at rt i
      in (new_task i rt)
           \<lparr>tk_result_file_slot_index := int j, tk_result_resource_id := r,
            tk_open_flags := cl_open_flags c, tk_open_mode := cl_open_mode c,
            tk_io_length := cl_io_length c,
            tk_io_buffer := take (unat (cl_io_length c)) (cl_io_payload c)\<rparr>)"

definition dispatch_openat :: "sys \<Rightarrow> nat \<Rightarrow> iouringd_runtime \<Rightarrow> (bool, iouringd_runtime) res" where
  "dispatch_openat sys i rt =
     (let c = client_at rt i in
      if rt_next_task_id rt \<ge> IOURINGD_TASK_ID_RESERVED_MIN then reject_request sys i EOVERFLOW rt
      else case iouringd_find_free_file_slot c of
        None \<Rightarrow> reject_request sys i EAGAIN rt
      | Some j \<Rightarrow>
          (case iouringd_allocate_resource_id c of (r, c1) \<Rightarrow>
             let rt1 = set_client i c1 rt in
             if r = IOURINGD_RESOURCE_ID_INVALID then reject_request sys i EOVERFLOW rt1
             else case iouringd_find_free_task_slot rt1 of
               None \<Rightarrow> reject_request sys i EAGAIN rt1
             | Some n \<Rightarrow>
                 (let t = open_task i j r rt1;
                      rt2 = upd_client i (set_file_slot j (reserve_slot r)) (set_task n t rt1)
                  in case on_ring (iouringd_ring_submit_openat (s_kernel sys) (tk_task_id t) (- 100)
                            (s_addr sys (Task_io_buffer n)) (tk_open_flags t) (tk_open_mode t)
                            (tk_submit_priority t)) rt2 of
                       (Inl e, rt3) \<Rightarrow>
                         reject_request sys i e
                           (set_task n iouringd_clear_task_slot
                             (upd_client i (iouringd_unallocate_resource_id r)
                               (unreserve_slot i j rt3)))
                     | (Inr _, rt3) \<Rightarrow>
                         accept_request sys i t
                           (\<lambda>e rt. (Inl e, set_task n iouringd_clear_task_slot
                              (unreserve_slot i j rt)))
                           rt3)))"

definition close_task ::
  "nat \<Rightarrow> nat \<Rightarrow> int \<Rightarrow> iouringd_runtime \<Rightarrow> iouringd_task_slot" where
  "close_task i j fd rt =
     (new_task i rt)\<lparr>tk_file_slot_index := int j, tk_resource_id := cl_resource_id (client_at rt i),
       tk_close_fd := fd\<rparr>"

text \<open>The slot while its close is in flight, and the slot restored when the close was not submitted.\<close>

definition detach_slot :: "iouringd_resource_slot \<Rightarrow> iouringd_resource_slot" where
  "detach_slot s =
     s\<lparr>fs_daemon_fd := - 1, fs_registered := False, fs_closing := True, fs_in_flight := 1\<rparr>"

definition attach_slot :: "int \<Rightarrow> iouringd_resource_slot \<Rightarrow> iouringd_resource_slot" where
  "attach_slot fd s =
     s\<lparr>fs_daemon_fd := fd, fs_registered := True, fs_closing := False, fs_in_flight := 0\<rparr>"

definition dispatch_close :: "sys \<Rightarrow> nat \<Rightarrow> iouringd_runtime \<Rightarrow> (bool, iouringd_runtime) res" where
  "dispatch_close sys i rt =
     (let c = client_at rt i in
      case iouringd_find_file_slot c (cl_resource_id c) of
        None \<Rightarrow> reject_request sys i ENOENT rt
      | Some j \<Rightarrow>
          (let s = cl_file_resources c ! j in
           if fs_closing s then reject_request sys i ENOENT rt
           else if fs_in_flight s \<noteq> 0 \<or> fs_daemon_fd s < 0 then reject_request sys i EBUSY rt
           else if rt_next_task_id rt \<ge> IOURINGD_TASK_ID_RESERVED_MIN
           then reject_request sys i EOVERFLOW rt
           else case iouringd_find_free_task_slot rt of
             None \<Rightarrow> reject_request sys i EAGAIN rt
           | Some n \<Rightarrow>
               (let close_fd = fs_daemon_fd s;
                    g = iouringd_global_file_index rt i j;
                    restore = upd_client i (upd_file_slot j (attach_slot close_fd))
                in bind_rc (rt_update_file sys g (- 1) rt) (\<lambda>_ rt1.
                  let t = close_task i j close_fd rt1;
                      rt2 = upd_client i (upd_file_slot j detach_slot) (set_task n t rt1)
                  in case on_ring (iouringd_ring_submit_close (s_kernel sys) (tk_task_id t) close_fd
                            (tk_submit_priority t)) rt2 of
                       (Inl e, rt3) \<Rightarrow>
                         bind_rc (rt_update_file sys g close_fd (restore rt3))
                           (\<lambda>_ rt4. reject_request sys i e
                              (set_task n iouringd_clear_task_slot rt4))
                     | (Inr _, rt3) \<Rightarrow>
                         accept_request sys i t
                           (\<lambda>e rt. bind_rc (rt_update_file sys g close_fd (restore rt))
                              (\<lambda>_ rt. (Inl e, set_task n iouringd_clear_task_slot rt)))
                           rt3))))"

section \<open>Tasks on registered resources\<close>

text \<open>The slots a task works on: its file slot, and its buffer slot for the fixed-buffer kinds; or
  the errno of the rejection.\<close>

definition io_target :: "iouringd_client \<Rightarrow> errno + (nat \<times> nat option)" where
  "io_target c =
     (let kind = sr_task_kind (cl_request c) in
      case iouringd_find_file_slot c (cl_resource_id c) of
        None \<Rightarrow> Inl ENOENT
      | Some j \<Rightarrow>
          (let s = cl_file_resources c ! j in
           if fs_closing s then Inl ENOENT
           else if (kind = IOURINGD_TASK_KIND_CONNECT \<or> kind = IOURINGD_TASK_KIND_ACCEPT)
              \<and> fs_daemon_fd s < 0
           then Inl EBADF
           else if kind = IOURINGD_TASK_KIND_SOCK_READ_FIXED
              \<or> kind = IOURINGD_TASK_KIND_SOCK_WRITE_FIXED
           then (case iouringd_find_buffer_slot c (cl_buffer_resource_id c) of
                   None \<Rightarrow> Inl ENOENT
                 | Some b \<Rightarrow>
                     (let q = cl_buffer_resources c ! b in
                      if bs_closing q then Inl ENOENT
                      else if kind = IOURINGD_TASK_KIND_SOCK_WRITE_FIXED
                         \<and> cl_io_length c > bs_valid_length q
                      then Inl EINVAL
                      else Inr (j, Some b)))
           else Inr (j, None)))"

definition io_task :: "nat \<Rightarrow> nat \<Rightarrow> nat option \<Rightarrow> iouringd_runtime \<Rightarrow> iouringd_task_slot" where
  "io_task i j b rt =
     (let c = client_at rt i
      in (new_task i rt)
           \<lparr>tk_file_slot_index := int j, tk_resource_id := cl_resource_id c,
            tk_buffer_resource_id := cl_buffer_resource_id c, tk_io_length := cl_io_length c,
            tk_poll_mask := cl_poll_mask c, tk_sockaddr_length := cl_io_length c,
            tk_iov_len := cl_io_length c,
            tk_buffer_slot_index := (case b of None \<Rightarrow> - 1 | Some b \<Rightarrow> int b)\<rparr>)"

definition file_in_flight :: "u32 \<Rightarrow> iouringd_resource_slot \<Rightarrow> iouringd_resource_slot" where
  "file_in_flight d s = s\<lparr>fs_in_flight := fs_in_flight s + d\<rparr>"

definition buffer_in_flight :: "u32 \<Rightarrow> iouringd_buffer_slot \<Rightarrow> iouringd_buffer_slot" where
  "buffer_in_flight d s = s\<lparr>bs_in_flight := bs_in_flight s + d\<rparr>"

text \<open>\<open>in_flight += d\<close> on the slots of a task.\<close>

definition add_in_flight :: "u32 \<Rightarrow> nat \<Rightarrow> nat option \<Rightarrow> iouringd_client \<Rightarrow> iouringd_client" where
  "add_in_flight d j b c =
     (let c1 = upd_file_slot j (file_in_flight d) c
      in case b of None \<Rightarrow> c1 | Some b \<Rightarrow> upd_buffer_slot b (buffer_in_flight d) c1)"

text \<open>Reserve a file slot and an identifier for the socket an accept will return: the errno, or
  the slot and the identifier.\<close>

definition reserve_accept ::
  "nat \<Rightarrow> nat \<Rightarrow> iouringd_runtime \<Rightarrow> (nat \<times> resource_id, iouringd_runtime) res" where
  "reserve_accept i n rt =
     (let c = client_at rt i in
      case iouringd_find_free_file_slot c of
        None \<Rightarrow> (Inl EAGAIN, rt)
      | Some m \<Rightarrow>
          (case iouringd_allocate_resource_id c of (r, c1) \<Rightarrow>
             if r = IOURINGD_RESOURCE_ID_INVALID then (Inl EOVERFLOW, set_client i c1 rt)
             else (Inr (m, r),
               set_task n ((task_at rt n)\<lparr>tk_result_file_slot_index := int m,
                   tk_result_resource_id := r\<rparr>)
                 (set_client i (set_file_slot m (reserve_slot r) c1) rt))))"

text \<open>\<open>SOCK_CLOEXEC | SOCK_NONBLOCK\<close>.\<close>

definition accept_socket_flags :: u32 where
  "accept_socket_flags = 526336"

definition submit_io ::
  "sys \<Rightarrow> nat \<Rightarrow> nat \<Rightarrow> nat \<Rightarrow> iouringd_runtime \<Rightarrow> (unit, iouringd_runtime) res" where
  "submit_io sys i j n rt =
     (let t = task_at rt n;
          k = s_kernel sys;
          kind = tk_task_kind t;
          prio = tk_submit_priority t;
          task = tk_task_id t;
          daemon_fd = fs_daemon_fd (cl_file_resources (client_at rt i) ! j);
          g = iouringd_global_file_index rt i j;
          gb = iouringd_global_buffer_index rt i (nat (tk_buffer_slot_index t))
      in if kind = IOURINGD_TASK_KIND_SOCK_WRITE \<or> kind = IOURINGD_TASK_KIND_FILE_WRITE then
           on_ring (iouringd_ring_submit_writev k task g (s_addr sys (Task_io_vector n)) 1 prio) rt
         else if kind = IOURINGD_TASK_KIND_SOCK_READ \<or> kind = IOURINGD_TASK_KIND_FILE_READ then
           on_ring (iouringd_ring_submit_readv k task g (s_addr sys (Task_io_vector n)) 1 prio) rt
         else if kind = IOURINGD_TASK_KIND_CONNECT then
           on_ring (iouringd_ring_submit_connect k task daemon_fd (s_addr sys (Task_io_buffer n))
             (tk_io_length t) prio) rt
         else if kind = IOURINGD_TASK_KIND_ACCEPT then
           on_ring (iouringd_ring_submit_accept k task daemon_fd
             (if tk_io_length t \<noteq> 0 then s_addr sys (Task_io_buffer n) else 0)
             (if tk_io_length t \<noteq> 0 then s_addr sys (Task_sockaddr_length n) else 0)
             accept_socket_flags prio) rt
         else if kind = IOURINGD_TASK_KIND_POLL then
           on_ring (iouringd_ring_submit_poll k task g (tk_poll_mask t) prio) rt
         else if kind = IOURINGD_TASK_KIND_SOCK_WRITE_FIXED then
           on_ring (iouringd_ring_submit_write_fixed k task g gb (s_addr sys (Buffer_storage gb))
             (tk_io_length t) prio) rt
         else
           on_ring (iouringd_ring_submit_read_fixed k task g gb (s_addr sys (Buffer_storage gb))
             (tk_io_length t) prio) rt)"

text \<open>\<open>memcpy(task->io_buffer, client->io_payload, task->io_length)\<close> for the kinds that send bytes.\<close>

definition load_io_buffer :: "nat \<Rightarrow> nat \<Rightarrow> iouringd_runtime \<Rightarrow> iouringd_runtime" where
  "load_io_buffer i n rt =
     (let t = task_at rt n in
      if tk_task_kind t = IOURINGD_TASK_KIND_SOCK_WRITE
         \<or> tk_task_kind t = IOURINGD_TASK_KIND_FILE_WRITE
         \<or> tk_task_kind t = IOURINGD_TASK_KIND_CONNECT
      then set_task n (t\<lparr>tk_io_buffer :=
             take (unat (tk_io_length t)) (cl_io_payload (client_at rt i))\<rparr>) rt
      else rt)"

text \<open>An accept reserves a slot for its result; the other kinds return no descriptor.\<close>

definition reserve_result ::
  "nat \<Rightarrow> nat \<Rightarrow> iouringd_runtime \<Rightarrow> ((nat \<times> resource_id) option, iouringd_runtime) res" where
  "reserve_result i n rt =
     (if tk_task_kind (task_at rt n) = IOURINGD_TASK_KIND_ACCEPT
      then bind_rc (reserve_accept i n rt) (\<lambda>p rt. (Inr (Some p), rt))
      else (Inr None, rt))"

text \<open>The slots of a task that was not submitted are given back.\<close>

definition give_back ::
  "nat \<Rightarrow> nat \<Rightarrow> nat option \<Rightarrow> (nat \<times> resource_id) option \<Rightarrow> iouringd_runtime \<Rightarrow> iouringd_runtime"
where
  "give_back i j b result rt =
     (let rt1 = upd_client i (add_in_flight (- 1) j b) rt
      in case result of None \<Rightarrow> rt1 | Some (m, r) \<Rightarrow> unreserve_slot i m rt1)"

definition unallocate_result ::
  "nat \<Rightarrow> (nat \<times> resource_id) option \<Rightarrow> iouringd_runtime \<Rightarrow> iouringd_runtime" where
  "unallocate_result i result rt =
     (case result of None \<Rightarrow> rt
      | Some (m, r) \<Rightarrow> upd_client i (iouringd_unallocate_resource_id r) rt)"

definition dispatch_resource_io ::
  "sys \<Rightarrow> nat \<Rightarrow> iouringd_runtime \<Rightarrow> (bool, iouringd_runtime) res" where
  "dispatch_resource_io sys i rt =
     (case io_target (client_at rt i) of
        Inl e \<Rightarrow> reject_request sys i e rt
      | Inr (j, b) \<Rightarrow>
          if rt_next_task_id rt \<ge> IOURINGD_TASK_ID_RESERVED_MIN
          then reject_request sys i EOVERFLOW rt
          else case iouringd_find_free_task_slot rt of
            None \<Rightarrow> reject_request sys i EAGAIN rt
          | Some n \<Rightarrow>
              (let rt1 = upd_client i (add_in_flight 1 j b) (set_task n (io_task i j b rt) rt);
                   clear = set_task n iouringd_clear_task_slot
               in case reserve_result i n rt1 of
                    (Inl e, rt2) \<Rightarrow> reject_request sys i e (clear (give_back i j b None rt2))
                  | (Inr result, rt2) \<Rightarrow>
                      (case submit_io sys i j n (load_io_buffer i n rt2) of
                         (Inl e, rt3) \<Rightarrow>
                           reject_request sys i e
                             (clear (unallocate_result i result (give_back i j b result rt3)))
                       | (Inr _, rt3) \<Rightarrow>
                           accept_request sys i (task_at rt3 n)
                             (\<lambda>e rt. (Inl e, clear (give_back i j b result rt))) rt3)))"

section \<open>Tasks without resources\<close>

definition plain_task :: "nat \<Rightarrow> iouringd_runtime \<Rightarrow> iouringd_task_slot" where
  "plain_task i rt =
     (let c = client_at rt i;
          t = new_task i rt
      in if tk_task_kind t = IOURINGD_TASK_KIND_TIMEOUT
         then t\<lparr>tk_timeout_sec := cl_timeout_nsec c div 1000000000,
                tk_timeout_nsec := cl_timeout_nsec c mod 1000000000\<rparr>
         else if tk_task_kind t = IOURINGD_TASK_KIND_CANCEL
         then t\<lparr>tk_cancel_target_id := cl_cancel_target_id c\<rparr>
         else t)"

definition submit_plain ::
  "sys \<Rightarrow> nat \<Rightarrow> iouringd_task_slot \<Rightarrow> iouringd_ring \<Rightarrow> (unit, iouringd_ring) res" where
  "submit_plain sys n t =
     (if tk_task_kind t = IOURINGD_TASK_KIND_TIMEOUT then
        iouringd_ring_submit_timeout (s_kernel sys) (tk_task_id t)
          (s_addr sys (Task_timeout n)) (tk_submit_priority t)
      else if tk_task_kind t = IOURINGD_TASK_KIND_CANCEL then
        iouringd_ring_submit_cancel (s_kernel sys) (tk_task_id t) (tk_cancel_target_id t)
          (tk_submit_priority t)
      else iouringd_ring_submit_nop (s_kernel sys) (tk_task_id t) (tk_submit_priority t))"

definition dispatch_plain :: "sys \<Rightarrow> nat \<Rightarrow> iouringd_runtime \<Rightarrow> (bool, iouringd_runtime) res" where
  "dispatch_plain sys i rt =
     (if rt_next_task_id rt \<ge> IOURINGD_TASK_ID_RESERVED_MIN then reject_request sys i EOVERFLOW rt
      else case iouringd_find_free_task_slot rt of
        None \<Rightarrow> reject_request sys i EAGAIN rt
      | Some n \<Rightarrow>
          (let t = plain_task i rt;
               clear = set_task n iouringd_clear_task_slot
           in case on_ring (submit_plain sys n t) (set_task n t rt) of
                (Inl e, rt2) \<Rightarrow> reject_request sys i e (clear rt2)
              | (Inr _, rt2) \<Rightarrow> accept_request sys i t (\<lambda>e rt. (Inl e, clear rt)) rt2))"

section \<open>The dispatcher\<close>

definition dispatch_submit :: "sys \<Rightarrow> nat \<Rightarrow> iouringd_runtime \<Rightarrow> (bool, iouringd_runtime) res" where
  "dispatch_submit sys i rt =
     (let kind = sr_task_kind (cl_request (client_at rt i)) in
      case submit_error rt (client_at rt i) of
        Some e \<Rightarrow> reject_request sys i e rt
      | None \<Rightarrow>
          if kind = IOURINGD_TASK_KIND_OPENAT then dispatch_openat sys i rt
          else if kind = IOURINGD_TASK_KIND_CLOSE then dispatch_close sys i rt
          else if kind \<in> {IOURINGD_TASK_KIND_SOCK_READ, IOURINGD_TASK_KIND_SOCK_WRITE,
            IOURINGD_TASK_KIND_FILE_READ, IOURINGD_TASK_KIND_FILE_WRITE, IOURINGD_TASK_KIND_POLL,
            IOURINGD_TASK_KIND_CONNECT, IOURINGD_TASK_KIND_ACCEPT,
            IOURINGD_TASK_KIND_SOCK_READ_FIXED, IOURINGD_TASK_KIND_SOCK_WRITE_FIXED}
          then dispatch_resource_io sys i rt
          else dispatch_plain sys i rt)"

definition iouringd_dispatch_client_request ::
  "sys \<Rightarrow> nat \<Rightarrow> iouringd_runtime \<Rightarrow> (bool, iouringd_runtime) res" where
  "iouringd_dispatch_client_request sys i rt =
     (let c = client_at rt i in
      if \<not> cl_request_ready c then (Inr False, rt)
      else if cl_control_op c = IOURINGD_REQUEST_KIND_REGISTER_FD then dispatch_register_fd sys i rt
      else if cl_control_op c = IOURINGD_REQUEST_KIND_REGISTER_BUFFER
      then dispatch_register_buffer sys i rt
      else if cl_control_op c = IOURINGD_REQUEST_KIND_RELEASE_RESOURCE
      then dispatch_release_resource sys i rt
      else if cl_control_op c = IOURINGD_REQUEST_KIND_GET_STATS then dispatch_get_stats i rt
      else if cl_control_op c = IOURINGD_REQUEST_KIND_GET_TRACE then dispatch_get_trace i rt
      else dispatch_submit sys i rt)"

text \<open>The band of a ready client: control requests first, then high, normal and low priority.\<close>

definition client_band :: "iouringd_client \<Rightarrow> int" where
  "client_band c =
     (if cl_control_op c \<noteq> 0 then 3
      else if sr_priority (cl_request c) = IOURINGD_SUBMIT_PRIORITY_HIGH then 2
      else if sr_priority (cl_request c) = IOURINGD_SUBMIT_PRIORITY_NORMAL then 1
      else 0)"

text \<open>One pass over the clients for one band, from offset \<open>off\<close> on, \<open>n\<close> offsets left. The cursor is
  read again at every turn.\<close>

fun dispatch_band ::
  "sys \<Rightarrow> int \<Rightarrow> nat \<Rightarrow> nat \<Rightarrow> bool \<Rightarrow> iouringd_runtime \<Rightarrow> (bool, iouringd_runtime) res" where
  "dispatch_band sys band off 0 progress rt = (Inr progress, rt)"
| "dispatch_band sys band off (Suc n) progress rt =
     (let i = (rt_dispatch_cursor rt + off) mod lim_max_clients (rt_limits rt);
          c = client_at rt i
      in if \<not> iouringd_client_is_active c \<or> \<not> cl_request_ready c \<or> client_band c \<noteq> band
         then dispatch_band sys band (off + 1) n progress rt
         else bind_rc (iouringd_dispatch_client_request sys i rt)
           (\<lambda>done rt1.
              if done then
                dispatch_band sys band (off + 1) n True
                  (rt1\<lparr>rt_dispatch_cursor := (i + 1) mod lim_max_clients (rt_limits rt1)\<rparr>)
              else dispatch_band sys band (off + 1) n progress rt1))"

fun dispatch_bands ::
  "sys \<Rightarrow> int list \<Rightarrow> bool \<Rightarrow> iouringd_runtime \<Rightarrow> (bool, iouringd_runtime) res" where
  "dispatch_bands sys [] progress rt = (Inr progress, rt)"
| "dispatch_bands sys (b # bs) progress rt =
     bind_rc (dispatch_band sys b 0 (lim_max_clients (rt_limits rt)) progress rt)
       (\<lambda>progress. dispatch_bands sys bs progress)"

definition iouringd_dispatch_ready_requests ::
  "sys \<Rightarrow> iouringd_runtime \<Rightarrow> (bool, iouringd_runtime) res" where
  "iouringd_dispatch_ready_requests sys rt = dispatch_bands sys [3, 2, 1, 0] False rt"

end
