(* ===== verification/Completion.thy ===== *)
theory Completion
  imports Dispatch
begin

text \<open>
  Completions, main.c lines 3553 to 3899: turning a completion of the ring into a completion record
  for the client, registering the descriptor an accept or openat returned, releasing the slots the
  task held, the sweep that releases the slots of closed clients, and the loop that reaps all
  available completions.

  The kernel has written the data of a task before it publishes the completion: \<open>kernel_done\<close> is
  the task slot as the kernel has left it, with the bytes received in \<open>io_buffer\<close> and the address
  length of an accepted connection; the bytes of a fixed-buffer read are put in the registered
  buffer. What they are is given by the environment (\<open>s_task_bytes\<close>, \<open>s_task_sockaddr_length\<close>).
\<close>

definition received_bytes :: "sys \<Rightarrow> task_id \<Rightarrow> nat \<Rightarrow> bytes" where
  "received_bytes sys task n = map (s_task_bytes sys task) [0..<n]"

definition kernel_done :: "sys \<Rightarrow> iouringd_task_slot \<Rightarrow> iouringd_task_slot" where
  "kernel_done sys t =
     (let fills = tk_task_kind t = IOURINGD_TASK_KIND_SOCK_READ
        \<or> tk_task_kind t = IOURINGD_TASK_KIND_FILE_READ
        \<or> tk_task_kind t = IOURINGD_TASK_KIND_ACCEPT
      in t\<lparr>tk_io_buffer :=
             (if fills then received_bytes sys (tk_task_id t) (unat (tk_io_length t))
              else tk_io_buffer t),
           tk_sockaddr_length :=
             (if tk_task_kind t = IOURINGD_TASK_KIND_ACCEPT \<and> tk_io_length t \<noteq> 0
              then s_task_sockaddr_length sys (tk_task_id t) else tk_sockaddr_length t)\<rparr>)"

text \<open>The bytes a fixed-buffer read has put in the registered buffer.\<close>

definition kernel_fill_buffer ::
  "sys \<Rightarrow> iouringd_task_slot \<Rightarrow> i32 \<Rightarrow> iouringd_runtime \<Rightarrow> iouringd_runtime" where
  "kernel_fill_buffer sys t res rt =
     (if tk_task_kind t = IOURINGD_TASK_KIND_SOCK_READ_FIXED \<and> 0 <s res \<and> 0 \<le> tk_buffer_slot_index t
      then let g = iouringd_global_buffer_index rt (tk_client_index t) (nat (tk_buffer_slot_index t))
           in rt\<lparr>rt_buffer_storage := (rt_buffer_storage rt)[g :=
                store_bytes (received_bytes sys (tk_task_id t) (unat res)) (rt_buffer_storage rt ! g)]\<rparr>
      else rt)"

section \<open>Descriptors returned by a task\<close>

text \<open>The registration of a returned descriptor \<open>fd\<close> in the slot reserved for it; the result of the
  completion record, and the runtime.\<close>

definition register_result ::
  "sys \<Rightarrow> iouringd_task_slot \<Rightarrow> int \<Rightarrow> iouringd_runtime \<Rightarrow> (unit, iouringd_runtime) res" where
  "register_result sys t fd rt =
     (let i = tk_client_index t; m = nat (tk_result_file_slot_index t) in
      case rt_update_file sys (iouringd_global_file_index rt i m) fd rt of
        (Inl e, rt1) \<Rightarrow> (Inl e, rt_close fd rt1)
      | (Inr _, rt1) \<Rightarrow>
          (Inr (), upd_client i (upd_file_slot m
             (\<lambda>s. s\<lparr>fs_resource_id := tk_result_resource_id t, fs_daemon_fd := fd,
                    fs_registered := True, fs_closing := False\<rparr>)) rt1))"

text \<open>\<open>result_resource_id == INVALID || result_resource_id > INT32_MAX\<close>.\<close>

definition bad_result_id :: "iouringd_task_slot \<Rightarrow> bool" where
  "bad_result_id t \<longleftrightarrow>
     tk_result_resource_id t = IOURINGD_RESOURCE_ID_INVALID
     \<or> tk_result_resource_id t > 0x7fffffff"

definition iouringd_prepare_accept_completion ::
  "sys \<Rightarrow> iouringd_task_slot \<Rightarrow> iouringd_completion_record_v1 \<times> bytes option \<Rightarrow> iouringd_runtime
    \<Rightarrow> (iouringd_completion_record_v1 \<times> bytes option) \<times> iouringd_runtime"
where
  "iouringd_prepare_accept_completion sys t = (\<lambda>(cp, payload) rt.
     if tk_task_kind t \<noteq> IOURINGD_TASK_KIND_ACCEPT \<or> cp_res cp <s 0 then ((cp, payload), rt)
     else
       let fd = sint (cp_res cp) in
       if tk_client_index t \<ge> lim_max_clients (rt_limits rt) \<or> tk_result_file_slot_index t < 0
       then ((cp\<lparr>cp_res := neg_errno EIO\<rparr>, payload), rt_close fd rt)
       else
         let c = client_at rt (tk_client_index t) in
         if tk_result_file_slot_index t \<ge> int (cl_file_slot_limit c)
         then ((cp\<lparr>cp_res := neg_errno EIO\<rparr>, payload), rt_close fd rt)
         else if tk_sockaddr_length t > tk_io_length t \<or> bad_result_id t
         then ((cp\<lparr>cp_res := neg_errno EPROTO\<rparr>, payload), rt_close fd rt)
         else if cl_fd c < 0 \<or> cl_generation c \<noteq> tk_client_generation t
         then ((cp, payload), rt_close fd rt)
         else case register_result sys t fd rt of
             (Inl e, rt1) \<Rightarrow> ((cp\<lparr>cp_res := neg_errno e\<rparr>, payload), rt1)
           | (Inr _, rt1) \<Rightarrow>
               (if tk_sockaddr_length t \<noteq> 0
                then (cp\<lparr>cp_res := tk_result_resource_id t,
                         cp_payload_length := ucast (tk_sockaddr_length t)\<rparr>,
                      Some (tk_io_buffer t))
                else (cp\<lparr>cp_res := tk_result_resource_id t\<rparr>, payload),
                rt1))"

definition iouringd_prepare_openat_completion ::
  "sys \<Rightarrow> iouringd_task_slot \<Rightarrow> iouringd_completion_record_v1 \<Rightarrow> iouringd_runtime
    \<Rightarrow> iouringd_completion_record_v1 \<times> iouringd_runtime"
where
  "iouringd_prepare_openat_completion sys t cp rt =
     (if tk_task_kind t \<noteq> IOURINGD_TASK_KIND_OPENAT \<or> cp_res cp <s 0 then (cp, rt)
      else
        let fd = sint (cp_res cp) in
        if tk_client_index t \<ge> lim_max_clients (rt_limits rt) \<or> tk_result_file_slot_index t < 0
        then (cp\<lparr>cp_res := neg_errno EIO\<rparr>, rt_close fd rt)
        else
          let c = client_at rt (tk_client_index t) in
          if tk_result_file_slot_index t \<ge> int (cl_file_slot_limit c) \<or> bad_result_id t
          then (cp\<lparr>cp_res := neg_errno EPROTO\<rparr>, rt_close fd rt)
          else if cl_fd c < 0 \<or> cl_generation c \<noteq> tk_client_generation t
          then (cp, rt_close fd rt)
          else case register_result sys t fd rt of
              (Inl e, rt1) \<Rightarrow> (cp\<lparr>cp_res := neg_errno e\<rparr>, rt1)
            | (Inr _, rt1) \<Rightarrow> (cp\<lparr>cp_res := tk_result_resource_id t\<rparr>, rt1))"

section \<open>Completing a task\<close>

definition is_read_kind :: "u16 \<Rightarrow> bool" where
  "is_read_kind kind \<longleftrightarrow> kind = IOURINGD_TASK_KIND_SOCK_READ
     \<or> kind = IOURINGD_TASK_KIND_SOCK_READ_FIXED \<or> kind = IOURINGD_TASK_KIND_FILE_READ"

definition completion_record :: "iouringd_task_slot \<Rightarrow> i32 \<Rightarrow> iouringd_completion_record_v1" where
  "completion_record t res =
     \<lparr>cp_header = v1_header, cp_task = tk_task_id t, cp_res = res, cp_task_kind = tk_task_kind t,
      cp_payload_length =
        (if is_read_kind (tk_task_kind t) \<and> 0 <s res then ucast res else 0)\<rparr>"

text \<open>The payload of a read, and the new valid length of a fixed buffer.\<close>

definition take_read_payload ::
  "iouringd_task_slot \<Rightarrow> i32 \<Rightarrow> bytes option \<Rightarrow> iouringd_runtime \<Rightarrow> bytes option \<times> iouringd_runtime"
where
  "take_read_payload t res payload rt =
     (let i = tk_client_index t; c = client_at rt i in
      if (tk_task_kind t = IOURINGD_TASK_KIND_SOCK_READ
          \<or> tk_task_kind t = IOURINGD_TASK_KIND_FILE_READ) \<and> 0 <s res
      then (Some (tk_io_buffer t), rt)
      else if tk_task_kind t = IOURINGD_TASK_KIND_SOCK_READ_FIXED \<and> 0 \<le> tk_buffer_slot_index t
         \<and> tk_buffer_slot_index t < int (cl_buffer_slot_limit c)
      then let b = nat (tk_buffer_slot_index t)
           in (if 0 <s res
               then Some (rt_buffer_storage rt ! iouringd_global_buffer_index rt i b) else payload,
               if 0 \<le>s res
               then upd_client i (upd_buffer_slot b (\<lambda>s. s\<lparr>bs_valid_length := res\<rparr>)) rt else rt)
      else (payload, rt))"

definition queue_completion ::
  "iouringd_task_slot \<Rightarrow> iouringd_completion_record_v1 \<Rightarrow> bytes option \<Rightarrow> iouringd_runtime
    \<Rightarrow> (unit, iouringd_runtime) res"
where
  "queue_completion t cp payload rt =
     (let i = tk_client_index t; c = client_at rt i in
      if cl_fd c \<ge> 0 \<and> cl_generation c = tk_client_generation t
      then bind_rc (on_client i (iouringd_queue_client_output (enc_completion_record cp)) rt)
        (\<lambda>_ rt1. case payload of
            None \<Rightarrow> (Inr (), rt1)
          | Some d \<Rightarrow>
              if cp_payload_length cp \<noteq> 0
              then on_client i (iouringd_queue_client_output (take (unat (cp_payload_length cp)) d))
                     rt1
              else (Inr (), rt1))
      else (Inr (), rt))"

text \<open>Release of the slots a task held: the file slot, the slot reserved for a returned descriptor,
  and the buffer slot.\<close>

definition release_task_file ::
  "sys \<Rightarrow> iouringd_task_slot \<Rightarrow> iouringd_runtime \<Rightarrow> (unit, iouringd_runtime) res" where
  "release_task_file sys t rt =
     (let i = tk_client_index t; j = nat (tk_file_slot_index t) in
      if 0 \<le> tk_file_slot_index t
         \<and> tk_file_slot_index t < int (cl_file_slot_limit (client_at rt i))
      then let rt1 = upd_client i (upd_file_slot j drop_in_flight) rt
           in if fs_closing (cl_file_resources (client_at rt1 i) ! j)
              then iouringd_try_release_file_slot sys i j rt1 else (Inr (), rt1)
      else (Inr (), rt))"

definition release_task_result ::
  "sys \<Rightarrow> iouringd_task_slot \<Rightarrow> iouringd_runtime \<Rightarrow> (unit, iouringd_runtime) res" where
  "release_task_result sys t rt =
     (let i = tk_client_index t; j = nat (tk_result_file_slot_index t) in
      if 0 \<le> tk_result_file_slot_index t
         \<and> tk_result_file_slot_index t < int (cl_file_slot_limit (client_at rt i))
      then let rt1 = upd_client i (upd_file_slot j drop_in_flight) rt;
               s = cl_file_resources (client_at rt1 i) ! j
           in if \<not> fs_registered s \<or> fs_closing s
              then iouringd_try_release_file_slot sys i j rt1 else (Inr (), rt1)
      else (Inr (), rt))"

definition drop_buffer_in_flight :: "iouringd_buffer_slot \<Rightarrow> iouringd_buffer_slot" where
  "drop_buffer_in_flight s =
     (if bs_in_flight s \<noteq> 0 then s\<lparr>bs_in_flight := bs_in_flight s - 1\<rparr> else s)"

definition release_task_buffer ::
  "iouringd_task_slot \<Rightarrow> iouringd_runtime \<Rightarrow> (unit, iouringd_runtime) res" where
  "release_task_buffer t rt =
     (let i = tk_client_index t; b = nat (tk_buffer_slot_index t) in
      if 0 \<le> tk_buffer_slot_index t
         \<and> tk_buffer_slot_index t < int (cl_buffer_slot_limit (client_at rt i))
      then let rt1 = upd_client i (upd_buffer_slot b drop_buffer_in_flight) rt
           in if bs_closing (cl_buffer_resources (client_at rt1 i) ! b)
              then on_client i (iouringd_try_release_buffer_slot b) rt1 else (Inr (), rt1)
      else (Inr (), rt))"

text \<open>The counters.\<close>

definition finish_task_counts ::
  "iouringd_task_slot \<Rightarrow> iouringd_runtime \<Rightarrow> iouringd_runtime" where
  "finish_task_counts t rt =
     (let i = tk_client_index t;
          known = i < lim_max_clients (rt_limits rt);
          dec = (\<lambda>n. if n \<noteq> 0 then n - 1 else n);
          rt1 = (if tk_consumes_credit t
            then let rt' = rt\<lparr>rt_outstanding_credit_tasks :=
                       size_sub (rt_outstanding_credit_tasks rt) 1\<rparr>
                 in if known
                    then upd_client i (\<lambda>c. c\<lparr>cl_outstanding_credit_tasks :=
                           dec (cl_outstanding_credit_tasks c)\<rparr>) rt'
                    else rt'
            else rt);
          rt2 = rt1\<lparr>rt_completions := rt_completions rt1 + 1,
                    rt_outstanding_tasks := size_sub (rt_outstanding_tasks rt1) 1\<rparr>
      in if known
         then upd_client i (\<lambda>c. c\<lparr>cl_outstanding_tasks := dec (cl_outstanding_tasks c)\<rparr>) rt2
         else rt2)"

definition iouringd_complete_task ::
  "sys \<Rightarrow> nat \<Rightarrow> i32 \<Rightarrow> iouringd_runtime \<Rightarrow> (unit, iouringd_runtime) res" where
  "iouringd_complete_task sys n res rt0 =
     (let t = kernel_done sys (task_at rt0 n);
          i = tk_client_index t;
          ((cp1, payload1), rt1) = iouringd_prepare_accept_completion sys t
            (completion_record t res, None) (kernel_fill_buffer sys t res rt0);
          (cp, rt2) = iouringd_prepare_openat_completion sys t cp1 rt1;
          r3 = (if i < lim_max_clients (rt_limits rt2)
            then let (payload, rt3) = take_read_payload t res payload1 rt2
                 in bind_rc (queue_completion t cp payload rt3) (\<lambda>_ rt4.
                      bind_rc (release_task_file sys t rt4) (\<lambda>_ rt5.
                      bind_rc (release_task_result sys t rt5) (\<lambda>_ rt6.
                      release_task_buffer t rt6)))
            else (Inr (), rt2))
      in bind_rc r3 (\<lambda>_ rt4.
           let rt5 = finish_task_counts t rt4;
               resource = (if (tk_task_kind t = IOURINGD_TASK_KIND_ACCEPT
                   \<or> tk_task_kind t = IOURINGD_TASK_KIND_OPENAT) \<and> 0 \<le>s cp_res cp
                 then tk_result_resource_id t else tk_resource_id t);
               rt6 = iouringd_emit_trace_event sys i IOURINGD_TRACE_EVENT_COMPLETION
                 (tk_task_kind t) (tk_submit_priority t) (tk_task_id t) resource (cp_res cp)
                 (iouringd_available_credits rt5) rt5
           in (Inr (), set_task n iouringd_clear_task_slot rt6)))"

section \<open>Sweeping the slots of closed clients\<close>

fun sweep_files ::
  "sys \<Rightarrow> nat \<Rightarrow> nat list \<Rightarrow> bool \<Rightarrow> iouringd_runtime \<Rightarrow> (bool, iouringd_runtime) res" where
  "sweep_files sys i [] progress rt = (Inr progress, rt)"
| "sweep_files sys i (j # js) progress rt =
     (let s = cl_file_resources (client_at rt i) ! j in
      if \<not> fs_closing s \<or> fs_in_flight s \<noteq> 0 then sweep_files sys i js progress rt
      else bind_rc (iouringd_try_release_file_slot sys i j rt) (\<lambda>_. sweep_files sys i js True))"

fun sweep_buffers ::
  "nat \<Rightarrow> nat list \<Rightarrow> bool \<Rightarrow> iouringd_runtime \<Rightarrow> (bool, iouringd_runtime) res" where
  "sweep_buffers i [] progress rt = (Inr progress, rt)"
| "sweep_buffers i (j # js) progress rt =
     (let s = cl_buffer_resources (client_at rt i) ! j in
      if \<not> bs_closing s \<or> bs_in_flight s \<noteq> 0 then sweep_buffers i js progress rt
      else bind_rc (on_client i (iouringd_try_release_buffer_slot j) rt)
             (\<lambda>_. sweep_buffers i js True))"

fun sweep_clients ::
  "sys \<Rightarrow> nat list \<Rightarrow> bool \<Rightarrow> iouringd_runtime \<Rightarrow> (bool, iouringd_runtime) res" where
  "sweep_clients sys [] progress rt = (Inr progress, rt)"
| "sweep_clients sys (i # is) progress rt =
     bind_rc (sweep_files sys i [0..<cl_file_slot_limit (client_at rt i)] progress rt)
       (\<lambda>progress rt1. bind_rc
          (sweep_buffers i [0..<cl_buffer_slot_limit (client_at rt1 i)] progress rt1)
          (\<lambda>progress. sweep_clients sys is progress))"

definition iouringd_sweep_closing_resources ::
  "sys \<Rightarrow> iouringd_runtime \<Rightarrow> (bool, iouringd_runtime) res" where
  "iouringd_sweep_closing_resources sys rt =
     sweep_clients sys [0..<lim_max_clients (rt_limits rt)] False rt"

end
