(* ===== verification/Core.thy ===== *)
theory Core
  imports Completion
begin

text \<open>
  The accounting state of the daemon: the projection of the runtime to the task table, the resource
  tables and the counters, the invariant that ties them together, and the four ways in which the
  invariant is kept (a task is added, a task is removed, the slots of a client change state, a
  client slot is reused). The projection forgets the buffers, the parser state, the ring and the
  trace, so every reply, rejection and trace event leaves it as it is.
\<close>

section \<open>The projection\<close>

record client_core =
  cc_generation :: u32
  cc_outstanding :: nat
  cc_credit :: nat
  cc_file_limit :: nat
  cc_buffer_limit :: nat
  cc_files :: "iouringd_resource_slot list"
  cc_buffers :: "iouringd_buffer_slot list"

record core =
  co_tasks :: "iouringd_task_slot list"
  co_clients :: "client_core list"
  co_outstanding :: nat
  co_credit :: nat
  co_capacity :: nat
  co_next_id :: u64
  co_max_clients :: nat
  co_credit_limit :: nat

definition core_of_client :: "iouringd_client \<Rightarrow> client_core" where
  "core_of_client c =
     \<lparr>cc_generation = cl_generation c, cc_outstanding = cl_outstanding_tasks c,
      cc_credit = cl_outstanding_credit_tasks c, cc_file_limit = cl_file_slot_limit c,
      cc_buffer_limit = cl_buffer_slot_limit c, cc_files = cl_file_resources c,
      cc_buffers = cl_buffer_resources c\<rparr>"

definition core_of :: "iouringd_runtime \<Rightarrow> core" where
  "core_of rt =
     \<lparr>co_tasks = rt_tasks rt, co_clients = map core_of_client (rt_clients rt),
      co_outstanding = rt_outstanding_tasks rt, co_credit = rt_outstanding_credit_tasks rt,
      co_capacity = rt_task_capacity rt, co_next_id = rt_next_task_id rt,
      co_max_clients = lim_max_clients (rt_limits rt),
      co_credit_limit = rt_per_client_credit_limit rt\<rparr>"

lemma core_of_simps [simp]:
  "core_of (rt\<lparr>rt_ring := ring\<rparr>) = core_of rt"
  "core_of (rt\<lparr>rt_os := os\<rparr>) = core_of rt"
  "core_of (rt\<lparr>rt_rejected_submits := a\<rparr>) = core_of rt"
  "core_of (rt\<lparr>rt_completions := b\<rparr>) = core_of rt"
  "core_of (rt\<lparr>rt_buffer_storage := s\<rparr>) = core_of rt"
  "core_of (rt\<lparr>rt_dispatch_cursor := d\<rparr>) = core_of rt"
  "core_of (rt_close fd rt) = core_of rt"
  "core_of (iouringd_emit_trace_event sys i ek tk p t r res cr rt) = core_of rt"
  by (simp_all add: core_of_def rt_close_def)

lemma core_of_set [simp]:
  "core_of (set_client i c rt)
     = (core_of rt)\<lparr>co_clients := (co_clients (core_of rt))[i := core_of_client c]\<rparr>"
  "core_of (set_task n t rt) = (core_of rt)\<lparr>co_tasks := (co_tasks (core_of rt))[n := t]\<rparr>"
  by (simp_all add: core_of_def set_client_def set_task_def map_update)

lemma core_client_at: "i < length (rt_clients rt) \<Longrightarrow>
  co_clients (core_of rt) ! i = core_of_client (client_at rt i)"
  by (simp add: core_of_def)

lemma core_set_same: "core_of_client c = core_of_client (client_at rt i) \<Longrightarrow>
  core_of (set_client i c rt) = core_of rt"
  by (simp add: core_of_def set_client_def) (metis list_update_id map_update)

lemma core_upd_client_same:
  "core_of_client (f (client_at rt i)) = core_of_client (client_at rt i) \<Longrightarrow>
    core_of (upd_client i f rt) = core_of rt"
  unfolding upd_client_def by (rule core_set_same)

text \<open>What is not in the projection and never changes in a handler.\<close>

definition static_eq :: "iouringd_runtime \<Rightarrow> iouringd_runtime \<Rightarrow> bool" where
  "static_eq rt rt' \<longleftrightarrow> rt_limits rt' = rt_limits rt \<and> rt_ring_capacity rt' = rt_ring_capacity rt
     \<and> rt_capabilities rt' = rt_capabilities rt
     \<and> rt_client_output_capacity rt' = rt_client_output_capacity rt"

section \<open>Replies keep the projection\<close>

lemma queue_output_core:
  "iouringd_queue_client_output m c = (r, c') \<Longrightarrow> core_of_client c' = core_of_client c"
  by (drule queue_output_frame) (simp add: core_of_client_def same_but_outputD)

lemma on_client_core:
  assumes "on_client i f rt = (r, rt')"
    and "\<And>c r c'. f c = (r, c') \<Longrightarrow> core_of_client c' = core_of_client c"
  shows "core_of rt' = core_of rt"
  using assms by (auto simp: on_client_def split: prod.splits intro!: core_set_same)

lemma queue_submit_result_core:
  "iouringd_queue_submit_result i task res rt = (r, rt') \<Longrightarrow> core_of rt' = core_of rt"
  unfolding iouringd_queue_submit_result_def
  by (erule on_client_core) (rule queue_output_core)

lemma reply_resource_core:
  "reply_resource i r res av rt = (x, rt') \<Longrightarrow> core_of rt' = core_of rt"
  unfolding reply_resource_def
  by (erule on_client_core) (simp add: iouringd_queue_resource_result_def queue_output_core)

lemma finish_client_core [simp]:
  "core_of_client (iouringd_finish_client_request c) = core_of_client c"
  by (simp add: core_of_client_def iouringd_finish_client_request_def)

lemma finish_request_core: "finish_request i rt = (r, rt') \<Longrightarrow> core_of rt' = core_of rt"
  by (auto simp: finish_request_def intro!: core_upd_client_same)

lemma reject_submit_core:
  "iouringd_reject_submit sys i res rt = (r, rt') \<Longrightarrow> core_of rt' = core_of rt"
  unfolding iouringd_reject_submit_def Let_def
  by (erule bind_rc_cases) (auto dest: queue_submit_result_core)

lemma reject_request_core: "reject_request sys i e rt = (r, rt') \<Longrightarrow> core_of rt' = core_of rt"
  unfolding reject_request_def
  by (erule bind_rc_cases) (auto dest!: reject_submit_core finish_request_core)

lemma trace_send_core:
  "trace_send_loop es latest q n c = (r, c') \<Longrightarrow> core_of_client c' = core_of_client c"
proof (induction es latest q n c arbitrary: r c' rule: trace_send_loop.induct)
  case (1 es latest q n c)
  show ?case
  proof (cases "q \<le> latest \<and> n \<noteq> 0")
    case True
    obtain r1 c1 where q1: "iouringd_queue_client_output (enc_trace_event (es ! trace_slot q)) c = (r1, c1)"
      by fastforce
    with True 1 show ?thesis
      by (cases r1) (auto simp: trace_send_loop.simps [of es latest q n c] dest!: queue_output_core)
  next
    case False
    with 1(2) show ?thesis by (auto simp: trace_send_loop.simps [of es latest q n c])
  qed
qed

lemma queue_trace_core:
  "iouringd_queue_trace_result rt c = (r, c') \<Longrightarrow> core_of_client c' = core_of_client c"
  unfolding iouringd_queue_trace_result_def Let_def
  by (erule bind_rc_cases) (auto dest!: queue_output_core trace_send_core split: if_splits)

lemma get_stats_core: "dispatch_get_stats i rt = (r, rt') \<Longrightarrow> core_of rt' = core_of rt"
  unfolding dispatch_get_stats_def
  by (erule bind_rc_cases)
    (auto dest!: finish_request_core on_client_core
      simp: iouringd_queue_stats_result_def queue_output_core)

lemma get_trace_core: "dispatch_get_trace i rt = (r, rt') \<Longrightarrow> core_of rt' = core_of rt"
  unfolding dispatch_get_trace_def
  by (erule bind_rc_cases)
    (auto dest!: finish_request_core on_client_core simp: queue_trace_core)

lemma rt_update_file_core: "rt_update_file sys g fd rt = (r, rt') \<Longrightarrow>
  core_of rt' = core_of rt \<and> rt_clients rt' = rt_clients rt \<and> rt_limits rt' = rt_limits rt"
  by (auto simp: rt_update_file_def split: prod.splits)

lemma on_ring_core: "on_ring f rt = (r, rt') \<Longrightarrow>
  core_of rt' = core_of rt \<and> rt_clients rt' = rt_clients rt \<and> rt_limits rt' = rt_limits rt
    \<and> rt_tasks rt' = rt_tasks rt"
  by (auto simp: on_ring_def split: prod.splits)

section \<open>The invariant\<close>

definition credit_task :: "iouringd_task_slot \<Rightarrow> bool" where
  "credit_task t \<longleftrightarrow> tk_active t \<and> tk_consumes_credit t"

definition task_of :: "nat \<Rightarrow> iouringd_task_slot \<Rightarrow> bool" where
  "task_of i t \<longleftrightarrow> tk_active t \<and> tk_client_index t = i"

definition credit_of :: "nat \<Rightarrow> iouringd_task_slot \<Rightarrow> bool" where
  "credit_of i t \<longleftrightarrow> task_of i t \<and> tk_consumes_credit t"

text \<open>The task works on file slot \<open>j\<close> of client \<open>i\<close>, or will return a descriptor for it.\<close>

definition file_ref :: "nat \<Rightarrow> nat \<Rightarrow> iouringd_task_slot \<Rightarrow> bool" where
  "file_ref i j t \<longleftrightarrow> task_of i t
     \<and> (tk_file_slot_index t = int j \<or> tk_result_file_slot_index t = int j)"

definition buffer_ref :: "nat \<Rightarrow> nat \<Rightarrow> iouringd_task_slot \<Rightarrow> bool" where
  "buffer_ref i j t \<longleftrightarrow> task_of i t \<and> tk_buffer_slot_index t = int j"

definition index_ok :: "int \<Rightarrow> nat \<Rightarrow> bool" where
  "index_ok k limit \<longleftrightarrow> k = - 1 \<or> 0 \<le> k \<and> k < int limit"

text \<open>A task slot in use: its client exists and has not been replaced since, its identifier has been
  handed out, and its slot indices are within the client's tables.\<close>

definition task_ok :: "core \<Rightarrow> iouringd_task_slot \<Rightarrow> bool" where
  "task_ok co t \<longleftrightarrow>
     tk_client_index t < co_max_clients co
     \<and> tk_task_id t \<noteq> IOURINGD_TASK_ID_INVALID \<and> tk_task_id t < co_next_id co
     \<and> (let c = co_clients co ! tk_client_index t
        in tk_client_generation t = cc_generation c
         \<and> index_ok (tk_file_slot_index t) (cc_file_limit c)
         \<and> index_ok (tk_result_file_slot_index t) (cc_file_limit c)
         \<and> index_ok (tk_buffer_slot_index t) (cc_buffer_limit c)
         \<and> (tk_file_slot_index t = - 1 \<or> tk_file_slot_index t \<noteq> tk_result_file_slot_index t))"

text \<open>A client: its counters are the numbers of its tasks, and the in-flight count of each slot is
  the number of tasks that refer to it.\<close>

definition client_ok :: "iouringd_task_slot list \<Rightarrow> nat \<Rightarrow> nat \<Rightarrow> client_core \<Rightarrow> bool" where
  "client_ok tasks credit_limit i c \<longleftrightarrow>
     length (cc_files c) = IOURINGD_MAX_REGISTERED_FDS
     \<and> length (cc_buffers c) = IOURINGD_MAX_REGISTERED_BUFFERS
     \<and> cc_file_limit c \<le> IOURINGD_MAX_REGISTERED_FDS
     \<and> cc_buffer_limit c \<le> IOURINGD_MAX_REGISTERED_BUFFERS
     \<and> cc_outstanding c = cnt (task_of i) tasks
     \<and> cc_credit c = cnt (credit_of i) tasks
     \<and> cc_credit c \<le> credit_limit
     \<and> (\<forall>j < IOURINGD_MAX_REGISTERED_FDS.
          unat (fs_in_flight (cc_files c ! j)) = cnt (file_ref i j) tasks)
     \<and> (\<forall>j < IOURINGD_MAX_REGISTERED_BUFFERS.
          unat (bs_in_flight (cc_buffers c ! j)) = cnt (buffer_ref i j) tasks)"

definition ids_distinct :: "iouringd_task_slot list \<Rightarrow> bool" where
  "ids_distinct tasks \<longleftrightarrow>
     (\<forall>m < length tasks. \<forall>n < length tasks. tk_active (tasks ! m) \<longrightarrow> tk_active (tasks ! n)
        \<longrightarrow> tk_task_id (tasks ! m) = tk_task_id (tasks ! n) \<longrightarrow> m = n)"

definition core_ok :: "core \<Rightarrow> bool" where
  "core_ok co \<longleftrightarrow>
     length (co_tasks co) = IOURINGD_MAX_TASKS \<and> length (co_clients co) = IOURINGD_MAX_CLIENTS
     \<and> co_max_clients co \<le> IOURINGD_MAX_CLIENTS \<and> co_capacity co \<le> IOURINGD_MAX_TASKS
     \<and> co_next_id co \<noteq> 0
     \<and> (\<forall>n < IOURINGD_MAX_TASKS. tk_active (co_tasks co ! n) \<longrightarrow>
          n < co_capacity co \<and> task_ok co (co_tasks co ! n))
     \<and> (\<forall>n < IOURINGD_MAX_TASKS. \<not> tk_active (co_tasks co ! n) \<longrightarrow>
          co_tasks co ! n = iouringd_clear_task_slot)
     \<and> ids_distinct (co_tasks co)
     \<and> co_outstanding co = cnt tk_active (co_tasks co)
     \<and> co_credit co = cnt credit_task (co_tasks co)
     \<and> co_credit co \<le> co_capacity co
     \<and> (\<forall>i < IOURINGD_MAX_CLIENTS.
          client_ok (co_tasks co) (co_credit_limit co) i (co_clients co ! i))"

lemma core_okD:
  assumes "core_ok co"
  shows "length (co_tasks co) = 64" "length (co_clients co) = 64" "co_max_clients co \<le> 64"
    "co_capacity co \<le> 64" "co_next_id co \<noteq> 0" "ids_distinct (co_tasks co)"
    "co_outstanding co = cnt tk_active (co_tasks co)"
    "co_credit co = cnt credit_task (co_tasks co)" "co_credit co \<le> co_capacity co"
  using assms by (simp_all add: core_ok_def)

lemma core_ok_task:
  "core_ok co \<Longrightarrow> n < 64 \<Longrightarrow> tk_active (co_tasks co ! n) \<Longrightarrow> n < co_capacity co \<and> task_ok co (co_tasks co ! n)"
  by (simp add: core_ok_def)

lemma core_ok_clear:
  "core_ok co \<Longrightarrow> n < 64 \<Longrightarrow> \<not> tk_active (co_tasks co ! n) \<Longrightarrow>
    co_tasks co ! n = iouringd_clear_task_slot"
  by (simp add: core_ok_def)

lemma core_ok_client:
  "core_ok co \<Longrightarrow> i < 64 \<Longrightarrow> client_ok (co_tasks co) (co_credit_limit co) i (co_clients co ! i)"
  by (simp add: core_ok_def)

lemmas ref_defs = credit_task_def task_of_def credit_of_def file_ref_def buffer_ref_def

text \<open>A slot that is not in use counts nowhere.\<close>

lemma inactive_refs [simp]:
  assumes "\<not> tk_active t"
  shows "\<not> credit_task t" "\<not> task_of i t" "\<not> credit_of i t" "\<not> file_ref i j t" "\<not> buffer_ref i j t"
  using assms by (simp_all add: ref_defs)

lemma clear_task_inactive [simp]: "\<not> tk_active iouringd_clear_task_slot"
  by (simp add: iouringd_clear_task_slot_def)

lemma cnt_le_length: "cnt P xs \<le> length xs"
  by simp

text \<open>Replacing one entry shifts each count by what the old and the new entry contribute.\<close>

lemma cnt_replace:
  "n < length xs \<Longrightarrow> cnt P (xs[n := x]) = cnt P xs + of_bool (P x) - of_bool (P (xs ! n))"
  using cnt_update [of n xs P x] by (simp split: if_splits)

section \<open>Keeping the invariant\<close>

text \<open>The new client state \<open>c'\<close> accounts for replacing the task slot \<open>old\<close> of client \<open>i\<close> by \<open>new\<close>.\<close>

definition accounts ::
  "nat \<Rightarrow> iouringd_task_slot \<Rightarrow> iouringd_task_slot \<Rightarrow> client_core \<Rightarrow> client_core \<Rightarrow> bool" where
  "accounts i old new c c' \<longleftrightarrow>
     cc_generation c' = cc_generation c
     \<and> cc_file_limit c' = cc_file_limit c \<and> cc_buffer_limit c' = cc_buffer_limit c
     \<and> length (cc_files c') = length (cc_files c) \<and> length (cc_buffers c') = length (cc_buffers c)
     \<and> cc_outstanding c' = cc_outstanding c + of_bool (task_of i new) - of_bool (task_of i old)
     \<and> cc_credit c' = cc_credit c + of_bool (credit_of i new) - of_bool (credit_of i old)
     \<and> (\<forall>j < IOURINGD_MAX_REGISTERED_FDS. unat (fs_in_flight (cc_files c' ! j))
          = unat (fs_in_flight (cc_files c ! j)) + of_bool (file_ref i j new)
            - of_bool (file_ref i j old))
     \<and> (\<forall>j < IOURINGD_MAX_REGISTERED_BUFFERS. unat (bs_in_flight (cc_buffers c' ! j))
          = unat (bs_in_flight (cc_buffers c ! j)) + of_bool (buffer_ref i j new)
            - of_bool (buffer_ref i j old))"

lemma client_ok_replace:
  assumes "client_ok tasks lim k c" and "n < length tasks" and "accounts k (tasks ! n) new c c'"
    and "cc_credit c' \<le> lim"
  shows "client_ok (tasks[n := new]) lim k c'"
  using assms by (simp add: client_ok_def accounts_def cnt_replace)

lemma client_ok_other:
  assumes "client_ok tasks lim k c" and "n < length tasks"
    and "\<not> task_of k (tasks ! n)" and "\<not> task_of k new"
  shows "client_ok (tasks[n := new]) lim k c"
  using assms by (simp add: client_ok_def cnt_replace credit_of_def file_ref_def buffer_ref_def)

text \<open>\<open>task_ok\<close> depends on the generation and the limits of the task's client only.\<close>

lemma task_ok_cong:
  assumes "task_ok co t" and "co_max_clients co' = co_max_clients co"
    and "co_next_id co \<le> co_next_id co'"
    and "cc_generation (co_clients co' ! tk_client_index t)
       = cc_generation (co_clients co ! tk_client_index t)"
    and "cc_file_limit (co_clients co' ! tk_client_index t)
       = cc_file_limit (co_clients co ! tk_client_index t)"
    and "cc_buffer_limit (co_clients co' ! tk_client_index t)
       = cc_buffer_limit (co_clients co ! tk_client_index t)"
  shows "task_ok co' t"
  using assms by (auto simp: task_ok_def Let_def intro: less_le_trans)

lemma ids_distinct_update:
  assumes "ids_distinct tasks" and "n < length tasks"
    and "tk_active new \<Longrightarrow> \<forall>m < length tasks. tk_active (tasks ! m) \<longrightarrow> tk_task_id (tasks ! m) \<noteq> tk_task_id new"
  shows "ids_distinct (tasks[n := new])"
  using assms unfolding ids_distinct_def by (auto simp: nth_list_update)

lemma core_ok_replace:
  assumes ok: "core_ok co" and n: "n < 64" and i: "i < 64"
    and mine: "\<And>k. k \<noteq> i \<Longrightarrow> \<not> task_of k (co_tasks co ! n) \<and> \<not> task_of k new"
    and acc: "accounts i (co_tasks co ! n) new (co_clients co ! i) c'"
    and lim: "cc_credit c' \<le> co_credit_limit co"
    and co': "co' = co\<lparr>co_tasks := (co_tasks co)[n := new], co_clients := (co_clients co)[i := c'],
        co_outstanding := co_outstanding co + of_bool (tk_active new) - of_bool (tk_active (co_tasks co ! n)),
        co_credit := co_credit co + of_bool (credit_task new) - of_bool (credit_task (co_tasks co ! n)),
        co_next_id := nid\<rparr>"
    and nid: "co_next_id co \<le> nid"
    and cap: "co_credit co' \<le> co_capacity co"
    and new: "tk_active new \<Longrightarrow> n < co_capacity co \<and> task_ok co' new"
    and clear: "\<not> tk_active new \<Longrightarrow> new = iouringd_clear_task_slot"
    and fresh: "tk_active new \<Longrightarrow> \<forall>m < 64. tk_active (co_tasks co ! m) \<longrightarrow>
        tk_task_id (co_tasks co ! m) \<noteq> tk_task_id new"
  shows "core_ok co'"
proof -
  note d = core_okD [OF ok]
  have clients: "co_clients co' ! k = (if k = i then c' else co_clients co ! k)" if "k < 64" for k
    using that d co' i by (simp add: nth_list_update)
  have static: "cc_generation (co_clients co' ! k) = cc_generation (co_clients co ! k)"
    "cc_file_limit (co_clients co' ! k) = cc_file_limit (co_clients co ! k)"
    "cc_buffer_limit (co_clients co' ! k) = cc_buffer_limit (co_clients co ! k)" if "k < 64" for k
    using clients [OF that] acc by (simp_all add: accounts_def)
  have tasks: "\<forall>m < 64. tk_active (co_tasks co' ! m) \<longrightarrow>
      m < co_capacity co' \<and> task_ok co' (co_tasks co' ! m)"
  proof (intro allI impI)
    fix m
    assume m: "m < (64::nat)" "tk_active (co_tasks co' ! m)"
    show "m < co_capacity co' \<and> task_ok co' (co_tasks co' ! m)"
    proof (cases "m = n")
      case True
      with m new co' n d show ?thesis by simp
    next
      case False
      with m co' d have act: "tk_active (co_tasks co ! m)" and eq: "co_tasks co' ! m = co_tasks co ! m"
        by simp_all
      note t = core_ok_task [OF ok m(1) act]
      have k: "tk_client_index (co_tasks co ! m) < 64" using t d(3) by (simp add: task_ok_def)
      have "co_max_clients co' = co_max_clients co" "co_next_id co \<le> co_next_id co'"
        using nid co' by simp_all
      with t have "task_ok co' (co_tasks co ! m)"
        by (intro task_ok_cong [OF _ _ _ static [OF k]]) simp_all
      with t eq co' show ?thesis by simp
    qed
  qed
  have client: "client_ok (co_tasks co') (co_credit_limit co') k (co_clients co' ! k)" if k: "k < 64" for k
  proof (cases "k = i")
    case True
    with client_ok_replace [OF core_ok_client [OF ok i] _ acc] lim n d co' clients [OF k] show ?thesis
      by simp
  next
    case False
    with client_ok_other [OF core_ok_client [OF ok k], of n new] mine n d co' clients [OF k]
    show ?thesis by simp
  qed
  have "\<forall>m < 64. \<not> tk_active (co_tasks co' ! m) \<longrightarrow> co_tasks co' ! m = iouringd_clear_task_slot"
    using core_ok_clear [OF ok] clear co' n d(1) by (simp add: nth_list_update)
  moreover have "nid \<noteq> 0" using nid d(5) by (auto simp: word_le_nat_alt unat_0_iff)
  moreover have "ids_distinct (co_tasks co')"
    using ids_distinct_update [OF d(6), of n new] n d fresh co' by simp
  ultimately show ?thesis
    using tasks client d n i cap co' by (simp add: core_ok_def cnt_replace)
qed

text \<open>A client slot changes state without a task being added or removed.\<close>

lemma core_ok_slots:
  assumes ok: "core_ok co" and i: "i < 64"
    and acc: "accounts i iouringd_clear_task_slot iouringd_clear_task_slot (co_clients co ! i) c'"
  shows "core_ok (co\<lparr>co_clients := (co_clients co)[i := c']\<rparr>)"
proof -
  let ?co' = "co\<lparr>co_clients := (co_clients co)[i := c']\<rparr>"
  note d = core_okD [OF ok]
  have clients: "co_clients ?co' ! k = (if k = i then c' else co_clients co ! k)" if "k < 64" for k
    using that d i by (simp add: nth_list_update)
  have static: "cc_generation (co_clients ?co' ! k) = cc_generation (co_clients co ! k)"
    "cc_file_limit (co_clients ?co' ! k) = cc_file_limit (co_clients co ! k)"
    "cc_buffer_limit (co_clients ?co' ! k) = cc_buffer_limit (co_clients co ! k)" if "k < 64" for k
    using clients [OF that] acc by (simp_all add: accounts_def)
  have "client_ok (co_tasks co) (co_credit_limit co) k (co_clients ?co' ! k)" if "k < 64" for k
    using core_ok_client [OF ok that] acc clients [OF that]
    by (cases "k = i") (simp_all add: client_ok_def accounts_def)
  moreover have "task_ok ?co' t" if "task_ok co t" for t
  proof -
    have k: "tk_client_index t < 64" using that d(3) by (simp add: task_ok_def)
    show ?thesis
      by (rule task_ok_cong [OF that _ _ static [OF k]]) simp_all
  qed
  ultimately show ?thesis
    using ok by (auto simp: core_ok_def)
qed

text \<open>A client slot without tasks is given to a new client.\<close>

lemma core_ok_reuse:
  assumes ok: "core_ok co" and i: "i < 64" and idle: "cc_outstanding (co_clients co ! i) = 0"
    and c': "length (cc_files c') = 32" "length (cc_buffers c') = 4" "cc_file_limit c' \<le> 32"
      "cc_buffer_limit c' \<le> 4" "cc_outstanding c' = 0" "cc_credit c' = 0"
      "\<forall>j < 32. fs_in_flight (cc_files c' ! j) = 0" "\<forall>j < 4. bs_in_flight (cc_buffers c' ! j) = 0"
  shows "core_ok (co\<lparr>co_clients := (co_clients co)[i := c']\<rparr>)"
proof -
  let ?co' = "co\<lparr>co_clients := (co_clients co)[i := c']\<rparr>"
  note d = core_okD [OF ok]
  have clients: "co_clients ?co' ! k = (if k = i then c' else co_clients co ! k)" if "k < 64" for k
    using that d i by (simp add: nth_list_update)
  have none: "\<not> task_of i t" if "t \<in> set (co_tasks co)" for t
  proof -
    have "cnt (task_of i) (co_tasks co) = 0"
      using core_ok_client [OF ok i] idle by (simp add: client_ok_def)
    with that show ?thesis by (simp add: filter_empty_conv)
  qed
  have zero: "cnt P (co_tasks co) = 0" if "\<And>t. P t \<Longrightarrow> task_of i t" for P
    using none that by (auto simp: filter_empty_conv)
  have mine: "cnt (task_of i) (co_tasks co) = 0" "cnt (credit_of i) (co_tasks co) = 0"
    "cnt (file_ref i j) (co_tasks co) = 0" "cnt (buffer_ref i j) (co_tasks co) = 0" for j
    by (rule zero; simp add: credit_of_def file_ref_def buffer_ref_def)+
  have "client_ok (co_tasks co) (co_credit_limit co) k (co_clients ?co' ! k)" if "k < 64" for k
    using core_ok_client [OF ok that] clients [OF that] mine c'
    by (cases "k = i") (simp_all add: client_ok_def)
  moreover have "task_ok ?co' (co_tasks co ! n)" if "n < 64" "tk_active (co_tasks co ! n)" for n
  proof -
    have t: "task_ok co (co_tasks co ! n)" using core_ok_task [OF ok that] by simp
    have "tk_client_index (co_tasks co ! n) \<noteq> i"
      using none [of "co_tasks co ! n"] that d(1) by (simp add: task_of_def)
    with t d(2) i show ?thesis by (intro task_ok_cong [OF t]) (auto simp: nth_list_update)
  qed
  ultimately show ?thesis
    using ok by (auto simp: core_ok_def)
qed

end
