(* ===== verification/Accounting.thy ===== *)
theory Accounting
  imports Core
begin

text \<open>
  Every handler keeps the accounting invariant. The effect of a handler's intermediate steps on the
  resource tables is summed up as a change of the in-flight counts (\<open>moves\<close>), so that a sequence of
  steps is the sum of its changes, a rolled-back submission is a change of zero, and an accepted one
  is exactly the references of the new task.
\<close>

section \<open>Changes of the in-flight counts\<close>

definition moves :: "nat \<Rightarrow> (nat \<Rightarrow> u32) \<Rightarrow> (nat \<Rightarrow> u32) \<Rightarrow> core \<Rightarrow> core \<Rightarrow> bool" where
  "moves i d e co co' \<longleftrightarrow>
     (\<exists>c'. co'\<lparr>co_tasks := []\<rparr> = co\<lparr>co_tasks := [], co_clients := (co_clients co)[i := c']\<rparr>
       \<and> cc_generation c' = cc_generation (co_clients co ! i)
       \<and> cc_file_limit c' = cc_file_limit (co_clients co ! i)
       \<and> cc_buffer_limit c' = cc_buffer_limit (co_clients co ! i)
       \<and> cc_outstanding c' = cc_outstanding (co_clients co ! i)
       \<and> cc_credit c' = cc_credit (co_clients co ! i)
       \<and> length (cc_files c') = length (cc_files (co_clients co ! i))
       \<and> length (cc_buffers c') = length (cc_buffers (co_clients co ! i))
       \<and> (\<forall>j < IOURINGD_MAX_REGISTERED_FDS.
            fs_in_flight (cc_files c' ! j) = fs_in_flight (cc_files (co_clients co ! i) ! j) + d j)
       \<and> (\<forall>j < IOURINGD_MAX_REGISTERED_BUFFERS.
            bs_in_flight (cc_buffers c' ! j)
              = bs_in_flight (cc_buffers (co_clients co ! i) ! j) + e j))"

definition dlt :: "nat \<Rightarrow> u32 \<Rightarrow> nat \<Rightarrow> u32" where
  "dlt j x k = (if k = j then x else 0)"

abbreviation stays :: "nat \<Rightarrow> core \<Rightarrow> core \<Rightarrow> bool" where
  "stays i co co' \<equiv> moves i (\<lambda>_. 0) (\<lambda>_. 0) co co'"

lemma moves_client:
  assumes "i < length (rt_clients rt)" and "c = client_at rt i"
    and "core_of rt = co"
    and "cl_generation c' = cl_generation c" and "cl_file_slot_limit c' = cl_file_slot_limit c"
    and "cl_buffer_slot_limit c' = cl_buffer_slot_limit c"
    and "cl_outstanding_tasks c' = cl_outstanding_tasks c"
    and "cl_outstanding_credit_tasks c' = cl_outstanding_credit_tasks c"
    and "length (cl_file_resources c') = length (cl_file_resources c)"
    and "length (cl_buffer_resources c') = length (cl_buffer_resources c)"
    and "\<And>j. j < 32 \<Longrightarrow>
      fs_in_flight (cl_file_resources c' ! j) = fs_in_flight (cl_file_resources c ! j) + d j"
    and "\<And>j. j < 4 \<Longrightarrow>
      bs_in_flight (cl_buffer_resources c' ! j) = bs_in_flight (cl_buffer_resources c ! j) + e j"
  shows "moves i d e co (core_of (set_client i c' rt))"
proof -
  have at: "co_clients co ! i = core_of_client c" using assms(1-3) core_client_at by blast
  have "(core_of (set_client i c' rt))\<lparr>co_tasks := []\<rparr>
    = co\<lparr>co_tasks := [], co_clients := (co_clients co)[i := core_of_client c']\<rparr>"
    using assms(3) by auto
  then show ?thesis
    unfolding moves_def at
    by (intro exI [of _ "core_of_client c'"]) (use assms(4-) in \<open>simp add: core_of_client_def\<close>)
qed

lemma moves_refl: "core_of rt' = core_of rt \<Longrightarrow> stays i (core_of rt) (core_of rt')"
  unfolding moves_def by (intro exI [of _ "co_clients (core_of rt) ! i"]) simp

lemma moves_tasks:
  "moves i d e co (co'\<lparr>co_tasks := ts\<rparr>) = moves i d e co co'"
  "moves i d e (co\<lparr>co_tasks := ts\<rparr>) co' = moves i d e co co'"
  by (simp_all add: moves_def)

lemma moves_trans:
  assumes "moves i d1 e1 a b" and "moves i d2 e2 b c" and "i < length (co_clients a)"
  shows "moves i (\<lambda>j. d1 j + d2 j) (\<lambda>j. e1 j + e2 j) a c"
proof -
  obtain c1 where b: "b\<lparr>co_tasks := []\<rparr> = a\<lparr>co_tasks := [], co_clients := (co_clients a)[i := c1]\<rparr>"
    and c1: "cc_generation c1 = cc_generation (co_clients a ! i)"
       "cc_file_limit c1 = cc_file_limit (co_clients a ! i)"
       "cc_buffer_limit c1 = cc_buffer_limit (co_clients a ! i)"
       "cc_outstanding c1 = cc_outstanding (co_clients a ! i)"
       "cc_credit c1 = cc_credit (co_clients a ! i)"
       "length (cc_files c1) = length (cc_files (co_clients a ! i))"
       "length (cc_buffers c1) = length (cc_buffers (co_clients a ! i))"
       "\<forall>j < 32. fs_in_flight (cc_files c1 ! j) = fs_in_flight (cc_files (co_clients a ! i) ! j) + d1 j"
       "\<forall>j < 4. bs_in_flight (cc_buffers c1 ! j) = bs_in_flight (cc_buffers (co_clients a ! i) ! j) + e1 j"
    using assms(1) unfolding moves_def by blast
  have clients: "co_clients b = (co_clients a)[i := c1]"
    using arg_cong [OF b, of co_clients] by simp
  then have at: "co_clients b ! i = c1" using assms(3) by simp
  obtain c2 where c: "c\<lparr>co_tasks := []\<rparr> = b\<lparr>co_tasks := [], co_clients := (co_clients b)[i := c2]\<rparr>"
    and c2: "cc_generation c2 = cc_generation c1" "cc_file_limit c2 = cc_file_limit c1"
       "cc_buffer_limit c2 = cc_buffer_limit c1" "cc_outstanding c2 = cc_outstanding c1"
       "cc_credit c2 = cc_credit c1" "length (cc_files c2) = length (cc_files c1)"
       "length (cc_buffers c2) = length (cc_buffers c1)"
       "\<forall>j < 32. fs_in_flight (cc_files c2 ! j) = fs_in_flight (cc_files c1 ! j) + d2 j"
       "\<forall>j < 4. bs_in_flight (cc_buffers c2 ! j) = bs_in_flight (cc_buffers c1 ! j) + e2 j"
    using assms(2) unfolding moves_def at by blast
  have "c\<lparr>co_tasks := []\<rparr> = (b\<lparr>co_tasks := []\<rparr>)\<lparr>co_clients := (co_clients b)[i := c2]\<rparr>"
    using c by simp
  also have "\<dots> = a\<lparr>co_tasks := [], co_clients := (co_clients a)[i := c2]\<rparr>"
    unfolding b clients by simp
  finally show ?thesis
    unfolding moves_def by (intro exI [of _ c2]) (use c1 c2 in \<open>simp add: add.assoc\<close>)
qed

lemma moves_stays:
  assumes "moves i d e a b" and "stays i b c" and "i < length (co_clients a)"
  shows "moves i d e a c"
  using moves_trans [OF assms] by simp

lemma stays_moves:
  assumes "stays i a b" and "moves i d e b c" and "i < length (co_clients a)"
  shows "moves i d e a c"
  using moves_trans [OF assms] by simp

lemma moves_same: "moves i d e a (core_of rt) \<Longrightarrow> core_of rt' = core_of rt \<Longrightarrow> moves i d e a (core_of rt')"
  by simp

lemma moves_length: "moves i d e a b \<Longrightarrow> length (co_clients b) = length (co_clients a)"
proof -
  assume "moves i d e a b"
  then obtain c' where "b\<lparr>co_tasks := []\<rparr> = a\<lparr>co_tasks := [], co_clients := (co_clients a)[i := c']\<rparr>"
    unfolding moves_def by blast
  from arg_cong [OF this, of co_clients] show ?thesis by simp
qed

text \<open>A change of zero keeps the invariant.\<close>

lemma stays_core_ok:
  assumes "stays i co co'" and "co_tasks co' = co_tasks co" and "core_ok co" and "i < 64"
  shows "core_ok co'"
proof -
  obtain c' where eq: "co'\<lparr>co_tasks := []\<rparr> = co\<lparr>co_tasks := [], co_clients := (co_clients co)[i := c']\<rparr>"
    and acc: "accounts i iouringd_clear_task_slot iouringd_clear_task_slot (co_clients co ! i) c'"
    using assms(1) unfolding moves_def accounts_def by auto
  have "co' = (co'\<lparr>co_tasks := []\<rparr>)\<lparr>co_tasks := co_tasks co\<rparr>" using assms(2) by simp
  also have "\<dots> = co\<lparr>co_clients := (co_clients co)[i := c']\<rparr>" unfolding eq by simp
  finally show ?thesis using core_ok_slots [OF assms(3,4) acc] by simp
qed

section \<open>Slot updates\<close>

lemma set_file_slot_moves:
  assumes "i < length (rt_clients rt)" and "j < length (cl_file_resources (client_at rt i)) \<or> x = 0"
    and "fs_in_flight s = fs_in_flight (cl_file_resources (client_at rt i) ! j) + x"
  shows "moves i (dlt j x) (\<lambda>_. 0) (core_of rt) (core_of (upd_client i (set_file_slot j s) rt))"
  unfolding upd_client_def
proof (rule moves_client [OF assms(1) refl refl])
  fix k :: nat
  show "fs_in_flight (cl_file_resources (set_file_slot j s (client_at rt i)) ! k)
      = fs_in_flight (cl_file_resources (client_at rt i) ! k) + dlt j x k"
    using assms(2,3)
    by (cases "j < length (cl_file_resources (client_at rt i))")
      (auto simp: set_file_slot_def dlt_def nth_list_update list_update_beyond)
qed (simp_all add: set_file_slot_def)

lemma upd_file_slot_moves:
  assumes "i < length (rt_clients rt)" and "j < length (cl_file_resources (client_at rt i)) \<or> x = 0"
    and "fs_in_flight (f (cl_file_resources (client_at rt i) ! j))
       = fs_in_flight (cl_file_resources (client_at rt i) ! j) + x"
  shows "moves i (dlt j x) (\<lambda>_. 0) (core_of rt) (core_of (upd_client i (upd_file_slot j f) rt))"
  using set_file_slot_moves [OF assms(1,2), of "f (cl_file_resources (client_at rt i) ! j)"] assms(3)
  by (simp add: upd_client_def upd_file_slot_def)

lemma set_buffer_slot_moves:
  assumes "i < length (rt_clients rt)" and "j < length (cl_buffer_resources (client_at rt i)) \<or> x = 0"
    and "bs_in_flight s = bs_in_flight (cl_buffer_resources (client_at rt i) ! j) + x"
  shows "moves i (\<lambda>_. 0) (dlt j x) (core_of rt) (core_of (upd_client i (set_buffer_slot j s) rt))"
  unfolding upd_client_def
proof (rule moves_client [OF assms(1) refl refl])
  fix k :: nat
  show "bs_in_flight (cl_buffer_resources (set_buffer_slot j s (client_at rt i)) ! k)
      = bs_in_flight (cl_buffer_resources (client_at rt i) ! k) + dlt j x k"
    using assms(2,3)
    by (cases "j < length (cl_buffer_resources (client_at rt i))")
      (auto simp: set_buffer_slot_def dlt_def nth_list_update list_update_beyond)
qed (simp_all add: set_buffer_slot_def)

lemma upd_buffer_slot_moves:
  assumes "i < length (rt_clients rt)" and "j < length (cl_buffer_resources (client_at rt i)) \<or> x = 0"
    and "bs_in_flight (f (cl_buffer_resources (client_at rt i) ! j))
       = bs_in_flight (cl_buffer_resources (client_at rt i) ! j) + x"
  shows "moves i (\<lambda>_. 0) (dlt j x) (core_of rt) (core_of (upd_client i (upd_buffer_slot j f) rt))"
  using set_buffer_slot_moves [OF assms(1,2), of "f (cl_buffer_resources (client_at rt i) ! j)"] assms(3)
  by (simp add: upd_client_def upd_buffer_slot_def)

lemma dlt_zero [simp]: "dlt j 0 = (\<lambda>_. 0)"
  by (auto simp: dlt_def)

lemma upd_client_at [simp]:
  "i < length (rt_clients rt) \<Longrightarrow> client_at (upd_client i f rt) i = f (client_at rt i)"
  "length (rt_clients (upd_client i f rt)) = length (rt_clients rt)"
  "rt_limits (upd_client i f rt) = rt_limits rt"
  "rt_tasks (upd_client i f rt) = rt_tasks rt"
  by (simp_all add: upd_client_def)

lemma allocate_core:
  assumes "iouringd_allocate_resource_id c = (r, c1)"
  shows "core_of_client c1 = core_of_client c" and "cl_received_fd c1 = cl_received_fd c"
    and "cl_request c1 = cl_request c" and "cl_io_length c1 = cl_io_length c"
    and "cl_resource_id c1 = cl_resource_id c"
proof -
  from allocate_attempts_spec [OF assms [unfolded iouringd_allocate_resource_id_def]]
  obtain n where "c1 = c\<lparr>cl_next_resource_id := n\<rparr>" by blast
  then show "core_of_client c1 = core_of_client c" "cl_received_fd c1 = cl_received_fd c"
    "cl_request c1 = cl_request c" "cl_io_length c1 = cl_io_length c"
    "cl_resource_id c1 = cl_resource_id c"
    by (simp_all add: core_of_client_def)
qed

lemma core_files_eq: "core_of_client c' = core_of_client c \<Longrightarrow>
    cl_file_resources c' = cl_file_resources c \<and> cl_buffer_resources c' = cl_buffer_resources c
    \<and> cl_file_slot_limit c' = cl_file_slot_limit c \<and> cl_buffer_slot_limit c' = cl_buffer_slot_limit c
    \<and> cl_generation c' = cl_generation c"
  by (simp add: core_of_client_def)

lemma drop_received_core [simp]: "core_of (drop_received_fd i rt) = core_of rt"
  unfolding drop_received_fd_def
  by (subst core_upd_client_same) (simp_all add: core_of_client_def rt_close_def)

lemma clear_file_slot_moves:
  assumes "i < length (rt_clients rt)"
    and "fs_in_flight (cl_file_resources (client_at rt i) ! j) = 0"
  shows "stays i (core_of rt) (core_of (rt_clear_file_slot i j rt))"
proof -
  have "core_of (rt_clear_file_slot i j rt)
    = core_of (upd_client i (set_file_slot j empty_file_slot) rt)"
    by (simp add: rt_clear_file_slot_def iouringd_clear_file_slot_def upd_client_def)
  moreover have "moves i (dlt j 0) (\<lambda>_. 0) (core_of rt)
      (core_of (upd_client i (set_file_slot j empty_file_slot) rt))"
    using assms by (intro set_file_slot_moves) (simp_all add: empty_file_slot_def)
  ultimately show ?thesis by simp
qed

lemma try_release_file_stays:
  assumes "iouringd_try_release_file_slot sys i j rt = (r, rt')" and i: "i < length (rt_clients rt)"
  shows "stays i (core_of rt) (core_of rt')" and "rt_tasks rt' = rt_tasks rt"
proof -
  let ?s = "cl_file_resources (client_at rt i) ! j"
  have tasks: "rt_tasks (rt_clear_file_slot i j x) = rt_tasks x" for x
    by (simp add: rt_clear_file_slot_def iouringd_clear_file_slot_def)
  have upd: "core_of rt1 = core_of rt" "client_at rt1 i = client_at rt i"
    "rt_clients rt1 = rt_clients rt" "rt_tasks rt1 = rt_tasks rt"
    if "rt_update_file sys g fd rt = (x, rt1)" for g fd x rt1
    using that by (auto simp: rt_update_file_def split: prod.splits)
  obtain x rt1 where u: "rt_update_file sys (iouringd_global_file_index rt i j) (- 1) rt = (x, rt1)"
    by fastforce
  note u' = upd [OF u]
  have clear: "stays i (core_of rt) (core_of (rt_clear_file_slot i j rt2))"
    if "fs_in_flight ?s = 0" "core_of rt2 = core_of rt" "rt_clients rt2 = rt_clients rt" for rt2
    using clear_file_slot_moves [of i rt2 j] that i by simp
  show "stays i (core_of rt) (core_of rt')"
    using assms(1) u u' clear [of rt] clear [of rt1]
    by (cases x) (auto simp: iouringd_try_release_file_slot_def Let_def moves_refl split: if_splits)
  show "rt_tasks rt' = rt_tasks rt"
    using assms(1) u u' tasks
    by (cases x) (auto simp: iouringd_try_release_file_slot_def Let_def split: if_splits)
qed

lemma try_release_buffer_stays:
  assumes "on_client i (iouringd_try_release_buffer_slot j) rt = (r, rt')"
    and i: "i < length (rt_clients rt)"
  shows "stays i (core_of rt) (core_of rt')" and "rt_tasks rt' = rt_tasks rt"
proof -
  let ?c = "client_at rt i"
  have clear: "stays i (core_of rt) (core_of (set_client i (set_buffer_slot j empty_buffer_slot ?c) rt))"
    if "bs_in_flight (cl_buffer_resources ?c ! j) = 0"
    using set_buffer_slot_moves [OF i, of j 0 empty_buffer_slot] that
    by (simp add: empty_buffer_slot_def upd_client_def)
  have same: "stays i (core_of rt) (core_of (set_client i ?c rt))"
    by (intro moves_refl core_set_same refl)
  show "stays i (core_of rt) (core_of rt')"
    using assms(1) clear same
    by (auto simp: on_client_def iouringd_try_release_buffer_slot_def Let_def
        iouringd_clear_buffer_slot_def simp del: core_of_set split: if_splits)
  show "rt_tasks rt' = rt_tasks rt"
    using assms(1) by (auto simp: on_client_def split: prod.splits)
qed

section \<open>Control requests\<close>

text \<open>A step that adds and removes no task and changes no in-flight count.\<close>

definition quiet :: "nat \<Rightarrow> iouringd_runtime \<Rightarrow> iouringd_runtime \<Rightarrow> bool" where
  "quiet i rt rt' \<longleftrightarrow> stays i (core_of rt) (core_of rt') \<and> rt_tasks rt' = rt_tasks rt
     \<and> length (rt_clients rt') = length (rt_clients rt)"

lemma core_length: "length (co_clients (core_of rt)) = length (rt_clients rt)"
  "co_tasks (core_of rt) = rt_tasks rt"
  by (simp_all add: core_of_def)

lemma quiet_core: "core_of rt' = core_of rt \<Longrightarrow> quiet i rt rt'"
  using core_length [of rt] core_length [of rt'] by (simp add: quiet_def moves_refl)

lemma quiet_trans:
  assumes "quiet i a b" and "quiet i b c" and "i < length (rt_clients a)"
  shows "quiet i a c"
  using assms moves_trans [of i "\<lambda>_. 0" "\<lambda>_. 0" "core_of a" "core_of b" "\<lambda>_. 0" "\<lambda>_. 0" "core_of c"]
  by (auto simp: quiet_def core_length)

lemma quiet_core_right: "quiet i a b \<Longrightarrow> core_of c = core_of b \<Longrightarrow> quiet i a c"
  using core_length [of b] core_length [of c] by (simp add: quiet_def)

lemma quiet_core_left: "core_of b = core_of a \<Longrightarrow> quiet i b c \<Longrightarrow> quiet i a c"
  using core_length [of a] core_length [of b] by (simp add: quiet_def)

lemma quiet_ok:
  assumes "quiet i rt rt'" and "core_ok (core_of rt)" and "i < 64"
  shows "core_ok (core_of rt')"
  using assms stays_core_ok by (auto simp: quiet_def core_length)

lemma try_release_quiet:
  "iouringd_try_release_file_slot sys i j rt = (r, rt') \<Longrightarrow> i < length (rt_clients rt) \<Longrightarrow> quiet i rt rt'"
  "on_client i (iouringd_try_release_buffer_slot j) rt = (r, rt') \<Longrightarrow> i < length (rt_clients rt)
    \<Longrightarrow> quiet i rt rt'"
  using try_release_file_stays [of sys i j rt r rt'] try_release_buffer_stays [of i j rt r rt']
    moves_length [of i _ _ "core_of rt" "core_of rt'"]
  by (auto simp: quiet_def core_length)

lemma set_client_allocated:
  assumes "iouringd_allocate_resource_id (client_at rt i) = (r, c1)"
  shows "core_of (set_client i c1 rt) = core_of rt"
  using allocate_core(1) [OF assms] by (rule core_set_same)

lemma set_slot_quiet:
  assumes "i < length (rt_clients rt)"
    and "fs_in_flight s = fs_in_flight (cl_file_resources (client_at rt i) ! j)"
  shows "quiet i rt (upd_client i (\<lambda>c. (set_file_slot j s c)\<lparr>cl_received_fd := fd\<rparr>) rt)"
proof -
  have "core_of (upd_client i (\<lambda>c. (set_file_slot j s c)\<lparr>cl_received_fd := fd\<rparr>) rt)
      = core_of (upd_client i (set_file_slot j s) rt)"
    by (simp add: upd_client_def core_of_client_def)
  moreover have "moves i (dlt j 0) (\<lambda>_. 0) (core_of rt) (core_of (upd_client i (set_file_slot j s) rt))"
    using assms by (intro set_file_slot_moves) simp_all
  ultimately show ?thesis by (simp add: quiet_def)
qed

lemma upd_client_cong:
  "f (client_at rt i) = g (client_at rt i) \<Longrightarrow> upd_client i f rt = upd_client i g rt"
  by (simp add: upd_client_def)

lemma reply_finish_core:
  assumes "bind_rc (reply_resource i r res av rt) (\<lambda>_ rt. finish_request i (g rt)) = (x, rt')"
    and "\<And>rt. core_of (g rt) = core_of rt"
  shows "core_of rt' = core_of rt"
  using assms
  by (auto elim!: bind_rc_cases dest!: reply_resource_core finish_request_core)

lemma reply_done_core:
  "bind_rc (reply_resource i r res av rt) (\<lambda>_. finish_request i) = (x, rt') \<Longrightarrow> core_of rt' = core_of rt"
  using reply_finish_core [where g = "\<lambda>rt. rt"] by simp

lemma free_file_slot:
  "iouringd_find_free_file_slot c = Some j \<Longrightarrow> j < cl_file_slot_limit c
    \<and> fs_in_flight (cl_file_resources c ! j) = 0 \<and> \<not> fs_registered (cl_file_resources c ! j)"
  using files.find_free_Some [of c j] by (simp add: fs_free_def)

lemma free_buffer_slot:
  "iouringd_find_free_buffer_slot c = Some j \<Longrightarrow> j < cl_buffer_slot_limit c
    \<and> bs_in_flight (cl_buffer_resources c ! j) = 0"
  using buffers.find_free_Some [of c j] by (simp add: bs_free_def)

lemma register_fd_quiet:
  assumes out: "dispatch_register_fd sys i rt = (x, rt')" and i: "i < length (rt_clients rt)"
  shows "quiet i rt rt'"
proof (cases "cl_received_fd (client_at rt i) < 0 \<or> iouringd_find_free_file_slot (client_at rt i) = None")
  case True
  have "core_of rt' = core_of rt"
  proof (cases "cl_received_fd (client_at rt i) < 0")
    case True
    with out show ?thesis
      unfolding dispatch_register_fd_def Let_def by simp (erule reply_done_core)
  next
    case False
    with True out show ?thesis
      unfolding dispatch_register_fd_def Let_def by simp (erule reply_finish_core, simp)
  qed
  then show ?thesis by (rule quiet_core)
next
  case False
  let ?c = "client_at rt i"
  from False obtain j where j: "iouringd_find_free_file_slot ?c = Some j"
    and fd: "\<not> cl_received_fd ?c < 0" by auto
  obtain r c1 where alloc: "iouringd_allocate_resource_id ?c = (r, c1)" by fastforce
  let ?rt1 = "set_client i c1 rt"
  have core1: "core_of ?rt1 = core_of rt" using alloc by (rule set_client_allocated)
  obtain u rt2 where upd: "rt_update_file sys (iouringd_global_file_index rt i j)
      (cl_received_fd c1) ?rt1 = (u, rt2)" by fastforce
  from rt_update_file_core [OF upd] i core1 have rt2: "core_of rt2 = core_of rt"
    "client_at rt2 i = c1" "length (rt_clients rt2) = length (rt_clients rt)" by auto
  let ?s = "\<lparr>fs_resource_id = r, fs_daemon_fd = cl_received_fd c1, fs_in_flight = 0,
    fs_registered = True, fs_closing = False\<rparr>"
  let ?rt3 = "upd_client i (\<lambda>c. (set_file_slot j \<lparr>fs_resource_id = r,
    fs_daemon_fd = cl_received_fd c, fs_in_flight = 0, fs_registered = True, fs_closing = False\<rparr> c)
      \<lparr>cl_received_fd := - 1\<rparr>) rt2"
  have "quiet i rt2 (upd_client i (\<lambda>c. (set_file_slot j ?s c)\<lparr>cl_received_fd := - 1\<rparr>) rt2)"
    using i rt2 free_file_slot [OF j] core_files_eq [OF allocate_core(1) [OF alloc]]
    by (intro set_slot_quiet) simp_all
  moreover have "?rt3 = upd_client i (\<lambda>c. (set_file_slot j ?s c)\<lparr>cl_received_fd := - 1\<rparr>) rt2"
    using rt2 by (intro upd_client_cong) simp
  ultimately have q3: "quiet i rt ?rt3" using quiet_core_left [OF rt2(1)] by simp
  have "core_of rt' = core_of rt" if "r = 0"
    using out fd j alloc that core1 unfolding dispatch_register_fd_def Let_def
    by (simp del: core_of_set) (drule reply_finish_core, simp_all del: core_of_set)
  moreover have "core_of rt' = core_of rt" if "r \<noteq> 0" "u = Inl e" for e
    using out fd j alloc that upd rt2(1) unfolding dispatch_register_fd_def Let_def
    by (simp del: core_of_set) (drule reply_done_core, simp del: core_of_set)
  moreover have "core_of rt' = core_of ?rt3" if "r \<noteq> 0" "u = Inr v" for v
    using out fd j alloc upd that unfolding dispatch_register_fd_def Let_def
    by (simp del: core_of_set) (erule reply_finish_core, simp)
  ultimately show ?thesis
    using q3 by (cases "r = 0"; cases u) (auto intro: quiet_core quiet_core_right)
qed

lemma register_buffer_quiet:
  assumes out: "dispatch_register_buffer sys i rt = (x, rt')" and i: "i < length (rt_clients rt)"
  shows "quiet i rt rt'"
proof (cases "iouringd_find_free_buffer_slot (client_at rt i)")
  case None
  with out have "core_of rt' = core_of rt"
    unfolding dispatch_register_buffer_def Let_def by simp (erule reply_done_core)
  then show ?thesis by (rule quiet_core)
next
  case (Some j)
  let ?c = "client_at rt i"
  obtain r c1 where alloc: "iouringd_allocate_resource_id ?c = (r, c1)" by fastforce
  let ?rt1 = "set_client i c1 rt"
  let ?g = "iouringd_global_buffer_index ?rt1 i j"
  have core1: "core_of ?rt1 = core_of rt" using alloc by (rule set_client_allocated)
  define rt2 where "rt2 = (if cl_io_length c1 \<noteq> 0
    then ?rt1\<lparr>rt_buffer_storage := (rt_buffer_storage ?rt1)
      [?g := store_bytes (take (unat (cl_io_length c1)) (cl_io_payload c1)) (rt_buffer_storage ?rt1 ! ?g)]\<rparr>
    else ?rt1)"
  have rt2: "core_of rt2 = core_of rt" "client_at rt2 i = c1"
    "length (rt_clients rt2) = length (rt_clients rt)"
    using core1 i by (simp_all add: rt2_def del: core_of_set)
  let ?s = "\<lparr>bs_resource_id = r, bs_in_flight = 0, bs_registered = True, bs_closing = False,
    bs_valid_length = cl_io_length c1\<rparr>"
  define rt3 where "rt3 = upd_client i (\<lambda>c. set_buffer_slot j \<lparr>bs_resource_id = r, bs_in_flight = 0,
    bs_registered = True, bs_closing = False, bs_valid_length = cl_io_length c\<rparr> c) rt2"
  have "rt3 = upd_client i (set_buffer_slot j ?s) rt2"
    unfolding rt3_def using rt2 by (intro upd_client_cong) simp
  moreover have "moves i (\<lambda>_. 0) (dlt j 0) (core_of rt2) (core_of (upd_client i (set_buffer_slot j ?s) rt2))"
    using i rt2 free_buffer_slot [OF Some] core_files_eq [OF allocate_core(1) [OF alloc]]
    by (intro set_buffer_slot_moves) simp_all
  moreover have "rt_tasks rt2 = rt_tasks rt" using rt2(1) core_length by metis
  ultimately have q3: "quiet i rt rt3" using rt2 by (simp add: quiet_def)
  have "core_of rt' = core_of rt" if "r = 0"
    using out Some alloc that core1 unfolding dispatch_register_buffer_def Let_def
    by (simp del: core_of_set) (drule reply_done_core, simp del: core_of_set)
  moreover have "core_of rt' = core_of rt3" if "r \<noteq> 0"
    using out Some alloc that unfolding dispatch_register_buffer_def Let_def rt2_def [symmetric]
    by (simp del: core_of_set add: rt2_def [symmetric] rt3_def [symmetric])
      (erule reply_finish_core, simp)
  ultimately show ?thesis
    using q3 by (cases "r = 0") (auto intro: quiet_core quiet_core_right)
qed

lemma released_core: "released sys i r av rt = (x, rt') \<Longrightarrow> core_of rt' = core_of rt"
  unfolding released_def by (erule reply_finish_core) simp

lemma upd_slot_quiet:
  "i < length (rt_clients rt) \<Longrightarrow> (\<And>s. fs_in_flight (f s) = fs_in_flight s) \<Longrightarrow>
    quiet i rt (upd_client i (upd_file_slot j f) rt)"
  "i < length (rt_clients rt) \<Longrightarrow> (\<And>s. bs_in_flight (g s) = bs_in_flight s) \<Longrightarrow>
    quiet i rt (upd_client i (upd_buffer_slot j g) rt)"
  using upd_file_slot_moves [of i rt j 0 f] upd_buffer_slot_moves [of i rt j 0 g]
  by (simp_all add: quiet_def)

lemma then_released_quiet:
  assumes "bind_rc y (\<lambda>_. released sys i r av) = (x, rt')" and "\<And>z s. y = (z, s) \<Longrightarrow> quiet i rt s"
  shows "quiet i rt rt'"
  using assms(1)
  by (rule bind_rc_cases) (auto dest: assms(2) released_core intro: quiet_core_right)

lemma release_resource_quiet:
  assumes out: "dispatch_release_resource sys i rt = (x, rt')" and i: "i < length (rt_clients rt)"
  shows "quiet i rt rt'"
proof -
  let ?c = "client_at rt i"
  let ?m = "\<lambda>j. upd_client i (upd_file_slot j (\<lambda>s. s\<lparr>fs_closing := True\<rparr>)) rt"
  let ?b = "\<lambda>j. upd_client i (upd_buffer_slot j (\<lambda>s. s\<lparr>bs_closing := True\<rparr>)) rt"
  have q: "quiet i rt (?m j)" "quiet i rt (?b j)" for j
    using i by (auto intro!: upd_slot_quiet)
  have fileq: "quiet i rt s" if "iouringd_try_release_file_slot sys i j (?m j) = (y, s)" for j y s
    using try_release_quiet(1) [OF that] q(1) [of j] i by (auto intro: quiet_trans)
  have bufq: "quiet i rt s" if "on_client i (iouringd_try_release_buffer_slot j) (?b j) = (y, s)" for j y s
    using try_release_quiet(2) [OF that] q(2) [of j] i by (auto intro: quiet_trans)
  have thens: "bind_rc (iouringd_try_release_file_slot sys i j (?m j)) (\<lambda>_. released sys i r av) = (x, rt') \<Longrightarrow>
      quiet i rt rt'"
    "bind_rc (on_client i (iouringd_try_release_buffer_slot j) (?b j)) (\<lambda>_. released sys i r av) = (x, rt') \<Longrightarrow>
      quiet i rt rt'"
    "bind_rc (reply_resource i r res u rt) (\<lambda>_. finish_request i) = (x, rt') \<Longrightarrow> quiet i rt rt'"
    for j r av res u
    by (erule then_released_quiet, erule fileq) (erule then_released_quiet, erule bufq,
      rule quiet_core, erule reply_done_core)
  consider "cl_resource_id ?c = 0" | j where "cl_resource_id ?c \<noteq> 0"
      "iouringd_find_file_slot ?c (cl_resource_id ?c) = Some j"
    | j where "cl_resource_id ?c \<noteq> 0" "iouringd_find_file_slot ?c (cl_resource_id ?c) = None"
      "iouringd_find_buffer_slot ?c (cl_resource_id ?c) = Some j"
    | "cl_resource_id ?c \<noteq> 0" "iouringd_find_file_slot ?c (cl_resource_id ?c) = None"
      "iouringd_find_buffer_slot ?c (cl_resource_id ?c) = None"
    by (cases "iouringd_find_file_slot ?c (cl_resource_id ?c)";
        cases "iouringd_find_buffer_slot ?c (cl_resource_id ?c)") auto
  then show ?thesis
    using out unfolding dispatch_release_resource_def Let_def
    by cases (simp_all split: if_splits add: thens)
qed

section \<open>An accepted submission\<close>

definition count_core :: "nat \<Rightarrow> bool \<Rightarrow> core \<Rightarrow> core" where
  "count_core i credit co =
     co\<lparr>co_next_id := co_next_id co + 1, co_outstanding := co_outstanding co + 1,
        co_credit := co_credit co + of_bool credit,
        co_clients := (co_clients co)[i := (co_clients co ! i)
          \<lparr>cc_outstanding := cc_outstanding (co_clients co ! i) + 1,
           cc_credit := cc_credit (co_clients co ! i) + of_bool credit\<rparr>]\<rparr>"

lemma count_task_core:
  assumes "i < length (rt_clients rt)"
  shows "core_of (count_task i credit rt) = count_core i credit (core_of rt)"
proof -
  have "client_at (rt\<lparr>rt_next_task_id := a, rt_outstanding_tasks := b,
    rt_outstanding_credit_tasks := c, rt_accepted_submits := d\<rparr>) i = client_at rt i" for a b c d
    by simp
  then show ?thesis
    using assms unfolding count_task_def upd_client_def core_of_set count_core_def
    by (simp add: core_client_at) (simp add: core_of_def core_of_client_def)
qed

lemma unat_add_bool:
  fixes x :: u32
  shows "unat x \<le> 64 \<Longrightarrow> unat (x + of_bool b) = unat x + of_bool b"
  using unat_inc [of x] by (cases b) simp_all

text \<open>A task whose admission was checked and whose slots were taken exactly once keeps the
  invariant.\<close>

lemma core_ok_submit:
  assumes ok: "core_ok co" and mv: "moves i d e co co3"
    and tasks: "co_tasks co3 = (co_tasks co)[n := t]"
    and n: "n < co_capacity co" "\<not> tk_active (co_tasks co ! n)" and i: "i < co_max_clients co"
    and t: "tk_active t" "tk_client_index t = i" "tk_task_id t = co_next_id co"
      "tk_client_generation t = cc_generation (co_clients co ! i)"
    and idx: "index_ok (tk_file_slot_index t) (cc_file_limit (co_clients co ! i))"
      "index_ok (tk_result_file_slot_index t) (cc_file_limit (co_clients co ! i))"
      "index_ok (tk_buffer_slot_index t) (cc_buffer_limit (co_clients co ! i))"
      "tk_file_slot_index t = - 1 \<or> tk_file_slot_index t \<noteq> tk_result_file_slot_index t"
    and d: "\<And>j. d j = of_bool (file_ref i j t)" and e: "\<And>j. e j = of_bool (buffer_ref i j t)"
    and id: "co_next_id co < IOURINGD_TASK_ID_RESERVED_MIN"
    and credit: "tk_consumes_credit t \<Longrightarrow>
      co_credit co < co_capacity co \<and> cc_credit (co_clients co ! i) < co_credit_limit co"
  shows "core_ok (count_core i (tk_consumes_credit t) co3)"
proof -
  note D = core_okD [OF ok]
  let ?c = "co_clients co ! i"
  have i64: "i < 64" and n64: "n < 64" using i n D by simp_all
  obtain c'' where eq: "co3\<lparr>co_tasks := []\<rparr> = co\<lparr>co_tasks := [], co_clients := (co_clients co)[i := c'']\<rparr>"
    and c'': "cc_generation c'' = cc_generation ?c" "cc_file_limit c'' = cc_file_limit ?c"
       "cc_buffer_limit c'' = cc_buffer_limit ?c" "cc_outstanding c'' = cc_outstanding ?c"
       "cc_credit c'' = cc_credit ?c" "length (cc_files c'') = length (cc_files ?c)"
       "length (cc_buffers c'') = length (cc_buffers ?c)"
       "\<forall>j < 32. fs_in_flight (cc_files c'' ! j) = fs_in_flight (cc_files ?c ! j) + d j"
       "\<forall>j < 4. bs_in_flight (cc_buffers c'' ! j) = bs_in_flight (cc_buffers ?c ! j) + e j"
    using mv unfolding moves_def by auto
  let ?c' = "c''\<lparr>cc_outstanding := cc_outstanding c'' + 1,
    cc_credit := cc_credit c'' + of_bool (tk_consumes_credit t)\<rparr>"
  have "co3 = (co3\<lparr>co_tasks := []\<rparr>)\<lparr>co_tasks := co_tasks co3\<rparr>" by simp
  also have "\<dots> = co\<lparr>co_tasks := (co_tasks co)[n := t], co_clients := (co_clients co)[i := c'']\<rparr>"
    unfolding eq tasks by simp
  finally have co3: "co3 = co\<lparr>co_tasks := (co_tasks co)[n := t], co_clients := (co_clients co)[i := c'']\<rparr>" .
  have co': "count_core i (tk_consumes_credit t) co3
    = co\<lparr>co_tasks := (co_tasks co)[n := t], co_clients := (co_clients co)[i := ?c'],
        co_outstanding := co_outstanding co + of_bool (tk_active t) - of_bool (tk_active (co_tasks co ! n)),
        co_credit := co_credit co + of_bool (credit_task t) - of_bool (credit_task (co_tasks co ! n)),
        co_next_id := co_next_id co + 1\<rparr>"
    using i64 D n(2) t(1) by (simp add: co3 count_core_def credit_task_def)
  have flight: "unat (fs_in_flight (cc_files ?c ! j)) \<le> 64" if "j < 32" for j
    using core_ok_client [OF ok i64] that D(1) by (simp add: client_ok_def) (metis cnt_le_length)
  have bflight: "unat (bs_in_flight (cc_buffers ?c ! j)) \<le> 64" if "j < 4" for j
    using core_ok_client [OF ok i64] that D(1) by (simp add: client_ok_def) (metis cnt_le_length)
  have acc: "accounts i (co_tasks co ! n) t ?c ?c'"
    using c'' n(2) t(1,2) d e flight bflight
    by (simp add: accounts_def unat_add_bool credit_of_def task_of_def)
  have nid: "co_next_id co < co_next_id co + 1"
    using id unat_inc [of "co_next_id co"] by (simp add: word_less_nat_alt)
  have tok: "task_ok (count_core i (tk_consumes_credit t) co3) t"
    unfolding co' task_ok_def using i i64 D t idx c'' nid by simp
  show ?thesis
  proof (rule core_ok_replace [OF ok n64 i64 _ acc _ co'])
    show "\<not> task_of k (co_tasks co ! n) \<and> \<not> task_of k t" if "k \<noteq> i" for k
      using that n(2) t(2) by (simp add: task_of_def)
    show "cc_credit ?c' \<le> co_credit_limit co"
      using c'' credit core_ok_client [OF ok i64]
      by (cases "tk_consumes_credit t") (simp_all add: client_ok_def)
    show "co_next_id co \<le> co_next_id co + 1" using nid by simp
    show "co_credit (count_core i (tk_consumes_credit t) co3) \<le> co_capacity co"
      unfolding co' using credit D(9) t(1) n(2) by (cases "tk_consumes_credit t") (simp_all add: credit_task_def)
    show "n < co_capacity co \<and> task_ok (count_core i (tk_consumes_credit t) co3) t"
      using tok n by simp
    show "\<not> tk_active t \<Longrightarrow> t = iouringd_clear_task_slot" using t(1) by simp
    show "\<forall>m < 64. tk_active (co_tasks co ! m) \<longrightarrow> tk_task_id (co_tasks co ! m) \<noteq> tk_task_id t"
      using core_ok_task [OF ok] t(3) by (force simp: task_ok_def)
  qed
qed

lemma accept_request_core:
  assumes "accept_request sys i t undo rt = (Inr x, rt')" and "i < length (rt_clients rt)"
    and "\<And>e rt y s. undo e rt \<noteq> (Inr y, s)"
  shows "core_of rt' = count_core i (tk_consumes_credit t) (core_of rt)" and "x = True"
proof -
  obtain r rt1 where q: "iouringd_queue_submit_result i (tk_task_id t) IOURINGD_COMPLETION_RES_OK
      (count_task i (tk_consumes_credit t) rt) = (r, rt1)" by fastforce
  note core1 = queue_submit_result_core [OF q]
  from assms(1,3) q obtain u where r: "r = Inr u"
    by (cases r) (auto simp: accept_request_def)
  with assms(1) q have fin: "finish_request i
      (iouringd_emit_trace_event sys i IOURINGD_TRACE_EVENT_SUBMIT_ACCEPT (tk_task_kind t)
        (tk_submit_priority t) (tk_task_id t) (tk_resource_id t) IOURINGD_COMPLETION_RES_OK
        (iouringd_available_credits rt1) rt1) = (Inr x, rt')"
    by (simp add: accept_request_def)
  from finish_request_core [OF fin] core1 count_task_core [OF assms(2)]
  show "core_of rt' = count_core i (tk_consumes_credit t) (core_of rt)" by simp
  from fin show "x = True" by (simp add: finish_request_def)
qed

end
