(* ===== verification/Submission.thy ===== *)
theory Submission
  imports Accounting
begin

text \<open>
  The outcome of dispatching a request: either nothing is counted and no in-flight count changes
  (\<open>quiet\<close>: rejections, replies, rolled-back submissions), or exactly one task is added, whose slots
  are taken exactly once (\<open>submitted\<close>). Both keep the accounting invariant.
\<close>

section \<open>The added task\<close>

text \<open>The task slot \<open>t\<close> describes the request of client \<open>i\<close>.\<close>

definition task_for :: "nat \<Rightarrow> iouringd_task_slot \<Rightarrow> iouringd_runtime \<Rightarrow> bool" where
  "task_for i t rt \<longleftrightarrow>
     tk_active t \<and> tk_client_index t = i \<and> tk_task_id t = rt_next_task_id rt
     \<and> tk_client_generation t = cl_generation (client_at rt i)
     \<and> tk_task_kind t = sr_task_kind (cl_request (client_at rt i))
     \<and> tk_submit_priority t = sr_priority (cl_request (client_at rt i))
     \<and> tk_consumes_credit t = uses_credit (tk_task_kind t)
     \<and> length (tk_io_buffer t) \<le> length (cl_io_payload (client_at rt i))
     \<and> index_ok (tk_file_slot_index t) (cl_file_slot_limit (client_at rt i))
     \<and> index_ok (tk_result_file_slot_index t) (cl_file_slot_limit (client_at rt i))
     \<and> index_ok (tk_buffer_slot_index t) (cl_buffer_slot_limit (client_at rt i))
     \<and> (tk_file_slot_index t = - 1 \<or> tk_file_slot_index t \<noteq> tk_result_file_slot_index t)"

definition takes :: "nat \<Rightarrow> iouringd_task_slot \<Rightarrow> core \<Rightarrow> core \<Rightarrow> bool" where
  "takes i t co co' \<longleftrightarrow>
     moves i (\<lambda>j. of_bool (file_ref i j t)) (\<lambda>j. of_bool (buffer_ref i j t)) co co'"

definition submitted ::
  "nat \<Rightarrow> nat \<Rightarrow> iouringd_task_slot \<Rightarrow> iouringd_runtime \<Rightarrow> iouringd_runtime \<Rightarrow> bool" where
  "submitted i n t rt rt' \<longleftrightarrow>
     iouringd_find_free_task_slot rt = Some n
     \<and> rt_next_task_id rt < IOURINGD_TASK_ID_RESERVED_MIN \<and> task_for i t rt
     \<and> (\<exists>co. takes i t (core_of rt) co \<and> co_tasks co = (rt_tasks rt)[n := t]
          \<and> core_of rt' = count_core i (tk_consumes_credit t) co)"

text \<open>The result of a handler.\<close>

definition handled :: "nat \<Rightarrow> iouringd_runtime \<Rightarrow> (bool, iouringd_runtime) res \<Rightarrow> bool" where
  "handled i rt out \<longleftrightarrow>
     (case out of (Inl e, rt') \<Rightarrow> True
      | (Inr x, rt') \<Rightarrow> x \<and> (quiet i rt rt' \<or> (\<exists>n t. submitted i n t rt rt')))"

lemma core_fields:
  "co_capacity (core_of rt) = rt_task_capacity rt" "co_next_id (core_of rt) = rt_next_task_id rt"
  "co_max_clients (core_of rt) = lim_max_clients (rt_limits rt)"
  "co_credit (core_of rt) = rt_outstanding_credit_tasks rt"
  "co_outstanding (core_of rt) = rt_outstanding_tasks rt"
  "co_credit_limit (core_of rt) = rt_per_client_credit_limit rt"
  by (simp_all add: core_of_def)

lemma client_fields:
  "cc_generation (core_of_client c) = cl_generation c"
  "cc_file_limit (core_of_client c) = cl_file_slot_limit c"
  "cc_buffer_limit (core_of_client c) = cl_buffer_slot_limit c"
  "cc_outstanding (core_of_client c) = cl_outstanding_tasks c"
  "cc_credit (core_of_client c) = cl_outstanding_credit_tasks c"
  "cc_files (core_of_client c) = cl_file_resources c"
  "cc_buffers (core_of_client c) = cl_buffer_resources c"
  by (simp_all add: core_of_client_def)

lemma free_task_slot:
  "iouringd_find_free_task_slot rt = Some n \<Longrightarrow> n < rt_task_capacity rt \<and> \<not> tk_active (task_at rt n)"
  unfolding iouringd_find_free_task_slot_def using find_slot_Some by blast

lemma admitted_credit:
  "admission_error rt c = None \<Longrightarrow> uses_credit (sr_task_kind (cl_request c)) \<Longrightarrow>
    rt_outstanding_credit_tasks rt < rt_task_capacity rt
    \<and> cl_outstanding_credit_tasks c < rt_per_client_credit_limit rt"
  by (simp add: admission_error_def Let_def split: if_splits)

lemma submitted_ok:
  assumes sub: "submitted i n t rt rt'" and ok: "core_ok (core_of rt)"
    and i: "i < lim_max_clients (rt_limits rt)" and adm: "admission_error rt (client_at rt i) = None"
  shows "core_ok (core_of rt')"
proof -
  note s = sub [unfolded submitted_def task_for_def takes_def]
  have il: "i < length (rt_clients rt)"
    using core_okD(2,3) [OF ok] i by (simp add: core_fields core_length)
  note at = core_client_at [OF il]
  obtain co where mv: "moves i (\<lambda>j. of_bool (file_ref i j t)) (\<lambda>j. of_bool (buffer_ref i j t)) (core_of rt) co"
    and tasks: "co_tasks co = (co_tasks (core_of rt))[n := t]"
    and rt': "core_of rt' = count_core i (tk_consumes_credit t) co"
    using s by (auto simp: core_length)
  show ?thesis
    unfolding rt'
    by (rule core_ok_submit [OF ok mv tasks])
      (use s i free_task_slot [of rt n] admitted_credit [OF adm] in
        \<open>simp_all add: core_fields core_length at client_fields\<close>)
qed

section \<open>Tasks without resources\<close>

lemma takes_none:
  assumes "core_of rt' = (core_of rt)\<lparr>co_tasks := ts\<rparr>"
    and "tk_file_slot_index t = - 1" "tk_result_file_slot_index t = - 1" "tk_buffer_slot_index t = - 1"
  shows "takes i t (core_of rt) (core_of rt')"
  using assms moves_refl [of rt rt i]
  by (simp add: takes_def file_ref_def buffer_ref_def moves_tasks)

lemma reject_quiet:
  assumes "reject_request sys i e rt1 = (r, rt')" and "quiet i rt rt1"
  shows "handled i rt (r, rt')"
proof -
  have "quiet i rt rt'"
    using assms(2) reject_request_core [OF assms(1)] by (rule quiet_core_right)
  moreover have "r = Inr True" if "r = Inr x" for x
    using assms(1) that unfolding reject_request_def
    by (auto elim!: bind_rc_cases simp: finish_request_def)
  ultimately show ?thesis by (cases r) (auto simp: handled_def)
qed

lemma clear_task_core:
  assumes "core_of rt2 = (core_of rt)\<lparr>co_tasks := (rt_tasks rt)[n := t]\<rparr>"
    and "task_at rt n = iouringd_clear_task_slot"
  shows "core_of (set_task n iouringd_clear_task_slot rt2) = core_of rt"
proof -
  have "(rt_tasks rt)[n := iouringd_clear_task_slot] = co_tasks (core_of rt)"
    using assms(2) list_update_id [of "rt_tasks rt" n] by (simp add: core_length)
  then show ?thesis by (simp add: assms(1))
qed

lemma takes_length: "takes i t (core_of rt) (core_of rt') \<Longrightarrow> length (rt_clients rt') = length (rt_clients rt)"
  unfolding takes_def using moves_length core_length by metis

lemma accept_handled:
  assumes "iouringd_find_free_task_slot rt = Some n"
    and "rt_next_task_id rt < IOURINGD_TASK_ID_RESERVED_MIN" and "task_for i t rt"
    and "takes i t (core_of rt) (core_of rt3)" and "rt_tasks rt3 = (rt_tasks rt)[n := t]"
    and "i < length (rt_clients rt)" and undo: "\<And>e rt y s. undo e rt \<noteq> (Inr y, s)"
  shows "handled i rt (accept_request sys i t undo rt3)"
proof (cases "accept_request sys i t undo rt3")
  case (Pair r rt')
  show ?thesis
  proof (cases r)
    case (Inl e)
    with Pair show ?thesis by (simp add: handled_def)
  next
    case (Inr x)
    have "i < length (rt_clients rt3)" using takes_length [OF assms(4)] assms(6) by simp
    from accept_request_core [OF Pair [unfolded Inr] this undo]
    have "core_of rt' = count_core i (tk_consumes_credit t) (core_of rt3)" "x = True" by blast+
    with assms have "submitted i n t rt rt'" by (auto simp: submitted_def core_length)
    with Pair Inr \<open>x = True\<close> show ?thesis by (auto simp: handled_def)
  qed
qed

lemma reject_handled: "quiet i rt rt1 \<Longrightarrow> handled i rt (reject_request sys i e rt1)"
  by (cases "reject_request sys i e rt1") (auto intro: reject_quiet)

lemma reject_core_handled: "core_of rt1 = core_of rt \<Longrightarrow> handled i rt (reject_request sys i e rt1)"
  by (intro reject_handled quiet_core)

lemma plain_task_for:
  "task_for i (plain_task i rt) rt" "tk_file_slot_index (plain_task i rt) = - 1"
  "tk_result_file_slot_index (plain_task i rt) = - 1" "tk_buffer_slot_index (plain_task i rt) = - 1"
  by (simp_all add: plain_task_def Let_def task_for_def new_task_def iouringd_clear_task_slot_def
      index_ok_def)

text \<open>The task slot chosen for a submission is clear.\<close>

definition slots_clear :: "iouringd_runtime \<Rightarrow> bool" where
  "slots_clear rt \<longleftrightarrow> (\<forall>n. iouringd_find_free_task_slot rt = Some n \<longrightarrow>
     task_at rt n = iouringd_clear_task_slot)"

lemma core_ok_slots_clear: "core_ok (core_of rt) \<Longrightarrow> slots_clear rt"
  using free_task_slot [of rt] core_ok_clear [of "core_of rt"] core_okD(4) [of "core_of rt"]
  by (force simp: slots_clear_def core_length core_fields)

lemma submit_cases:
  obtains (exhausted) "rt_next_task_id rt \<ge> IOURINGD_TASK_ID_RESERVED_MIN"
  | (full) "rt_next_task_id rt < IOURINGD_TASK_ID_RESERVED_MIN" "iouringd_find_free_task_slot rt = None"
  | (free) n where "rt_next_task_id rt < IOURINGD_TASK_ID_RESERVED_MIN"
      "iouringd_find_free_task_slot rt = Some n"
  using not_less by (cases "iouringd_find_free_task_slot rt") blast+

lemma dispatch_plain_handled:
  assumes i: "i < length (rt_clients rt)" and clear: "slots_clear rt"
  shows "handled i rt (dispatch_plain sys i rt)"
proof -
  let ?t = "plain_task i rt"
  show ?thesis
  proof (cases rt rule: submit_cases)
    case (free n)
    obtain r rt2 where ring: "on_ring (submit_plain sys n ?t) (set_task n ?t rt) = (r, rt2)" by fastforce
    from on_ring_core [OF ring] have core2: "core_of rt2 = (core_of rt)\<lparr>co_tasks := (rt_tasks rt)[n := ?t]\<rparr>"
      "rt_tasks rt2 = (rt_tasks rt)[n := ?t]" by (simp_all add: core_length)
    have "core_of (set_task n iouringd_clear_task_slot rt2) = core_of rt"
      using free clear by (intro clear_task_core [OF core2(1)]) (simp add: slots_clear_def)
    moreover have "takes i ?t (core_of rt) (core_of rt2)"
      using core2(1) plain_task_for(2-4) by (rule takes_none)
    ultimately show ?thesis
      using free ring core2(2) i plain_task_for(1)
      by (cases r) (simp_all add: dispatch_plain_def Let_def reject_core_handled accept_handled
          del: core_of_set)
  qed (simp_all add: dispatch_plain_def reject_core_handled)
qed

section \<open>Taking and giving back slots\<close>

lemma dlt_uminus [simp]: "- dlt j x k = dlt j (- x) k"
  by (simp add: dlt_def)

lemma dlt_of_bool: "dlt j 1 k = of_bool (k = j)"
  by (simp add: dlt_def)

text \<open>A submission that takes slots and gives them back changes nothing that is counted.\<close>

lemma rollback_quiet:
  assumes "moves i d e (core_of rt) (core_of rt3)"
    and "moves i (\<lambda>j. - d j) (\<lambda>j. - e j) (core_of rt3) (core_of rt4)"
    and "rt_tasks rt4 = (rt_tasks rt)[n := t]" and "task_at rt n = iouringd_clear_task_slot"
    and "i < length (rt_clients rt)"
  shows "quiet i rt (set_task n iouringd_clear_task_slot rt4)"
proof -
  have "stays i (core_of rt) (core_of rt4)"
    using moves_trans [OF assms(1,2)] assms(5) by (simp add: core_length)
  moreover have "rt_tasks (set_task n iouringd_clear_task_slot rt4) = rt_tasks rt"
    using assms(3,4) list_update_id [of "rt_tasks rt" n] by simp
  moreover have "length (rt_clients rt4) = length (rt_clients rt)"
    using moves_length [OF assms(1)] moves_length [OF assms(2)] by (simp add: core_length)
  ultimately show ?thesis by (simp add: quiet_def moves_tasks)
qed

lemma unreserve_moves:
  assumes i: "i < length (rt_clients rt)" and j: "j < length (cl_file_resources (client_at rt i))"
    and one: "fs_in_flight (cl_file_resources (client_at rt i) ! j) = 1"
  shows "moves i (dlt j (- 1)) (\<lambda>_. 0) (core_of rt) (core_of (unreserve_slot i j rt))"
    and "rt_tasks (unreserve_slot i j rt) = rt_tasks rt"
proof -
  let ?rt1 = "upd_client i (upd_file_slot j drop_in_flight) rt"
  have "moves i (dlt j (- 1)) (\<lambda>_. 0) (core_of rt) (core_of ?rt1)"
    using i j one by (intro upd_file_slot_moves) (simp_all add: drop_in_flight_def)
  moreover have "stays i (core_of ?rt1) (core_of (rt_clear_file_slot i j ?rt1))"
    using i j one
    by (intro clear_file_slot_moves)
      (simp_all add: upd_file_slot_def set_file_slot_def drop_in_flight_def)
  ultimately show "moves i (dlt j (- 1)) (\<lambda>_. 0) (core_of rt) (core_of (unreserve_slot i j rt))"
    using i unfolding unreserve_slot_def by (auto intro: moves_stays simp: core_length)
  show "rt_tasks (unreserve_slot i j rt) = rt_tasks rt"
    by (simp add: unreserve_slot_def rt_clear_file_slot_def iouringd_clear_file_slot_def)
qed

lemma unallocate_core [simp]: "core_of_client (iouringd_unallocate_resource_id r c) = core_of_client c"
  by (simp add: iouringd_unallocate_resource_id_def core_of_client_def)

lemma core_ok_tables:
  assumes "core_ok (core_of rt)" and "i < length (rt_clients rt)"
  shows "length (cl_file_resources (client_at rt i)) = 32"
    and "length (cl_buffer_resources (client_at rt i)) = 4"
    and "cl_file_slot_limit (client_at rt i) \<le> 32" and "cl_buffer_slot_limit (client_at rt i) \<le> 4"
proof -
  have "i < 64" using assms core_okD(2) [OF assms(1)] by (simp add: core_length)
  from core_ok_client [OF assms(1) this] core_client_at [OF assms(2)]
  show "length (cl_file_resources (client_at rt i)) = 32"
    "length (cl_buffer_resources (client_at rt i)) = 4"
    "cl_file_slot_limit (client_at rt i) \<le> 32" "cl_buffer_slot_limit (client_at rt i) \<le> 4"
    by (simp_all add: client_ok_def client_fields)
qed

section \<open>Opening a file\<close>

lemma open_task_for:
  assumes "j < cl_file_slot_limit (client_at rt i)"
  shows "task_for i (open_task i j r rt) rt"
    and "file_ref i k (open_task i j r rt) \<longleftrightarrow> k = j" and "\<not> buffer_ref i k (open_task i j r rt)"
  using assms
  by (auto simp: open_task_def Let_def task_for_def new_task_def iouringd_clear_task_slot_def
      index_ok_def file_ref_def buffer_ref_def task_of_def)

lemma allocate_payload: "iouringd_allocate_resource_id c = (r, c1) \<Longrightarrow> cl_io_payload c1 = cl_io_payload c"
  unfolding iouringd_allocate_resource_id_def by (auto dest: allocate_attempts_spec)

lemma dispatch_openat_handled:
  assumes ok: "core_ok (core_of rt)" and i: "i < length (rt_clients rt)"
  shows "handled i rt (dispatch_openat sys i rt)"
proof -
  let ?c = "client_at rt i"
  obtain r c1 where alloc: "iouringd_allocate_resource_id ?c = (r, c1)" by fastforce
  let ?rt1 = "set_client i c1 rt"
  have core1: "core_of ?rt1 = core_of rt" using alloc by (rule set_client_allocated)
  have same: "iouringd_find_free_task_slot ?rt1 = iouringd_find_free_task_slot rt"
    by (simp add: iouringd_find_free_task_slot_def set_client_def)
  note files1 = core_files_eq [OF allocate_core(1) [OF alloc]] allocate_core(3) [OF alloc] allocate_payload [OF alloc]
  consider "rt_next_task_id rt \<ge> IOURINGD_TASK_ID_RESERVED_MIN"
    | "iouringd_find_free_file_slot ?c = None" | "r = 0" | "iouringd_find_free_task_slot rt = None"
    | n j where "rt_next_task_id rt < IOURINGD_TASK_ID_RESERVED_MIN"
      "iouringd_find_free_task_slot rt = Some n" "iouringd_find_free_file_slot ?c = Some j" "r \<noteq> 0"
    by (cases rt rule: submit_cases; cases "iouringd_find_free_file_slot ?c"; cases "r = 0") auto
  then show ?thesis
  proof cases
    case (5 n j)
    let ?t = "open_task i j r ?rt1"
    define rt2 where "rt2 = upd_client i (set_file_slot j (reserve_slot r)) (set_task n ?t ?rt1)"
    define ring where "ring = iouringd_ring_submit_openat (s_kernel sys) (tk_task_id ?t) (- 100)
      (s_addr sys (Task_io_buffer n)) (tk_open_flags ?t) (tk_open_mode ?t) (tk_submit_priority ?t)"
    have j: "j < cl_file_slot_limit ?c" "fs_in_flight (cl_file_resources ?c ! j) = 0"
      using free_file_slot [OF 5(3)] by simp_all
    then have j32: "j < length (cl_file_resources c1)" using core_ok_tables [OF ok i] files1 by simp
    have "j < cl_file_slot_limit (client_at ?rt1 i)" using j files1 i by simp
    note t = open_task_for [OF this, where r = r]
    have tf: "task_for i ?t rt" using t(1) i files1 by (simp add: task_for_def set_client_def)
    have "moves i (dlt j 1) (\<lambda>_. 0) (core_of (set_task n ?t ?rt1)) (core_of rt2)"
      unfolding rt2_def using i j j32 files1
      by (intro set_file_slot_moves) (simp_all add: reserve_slot_def)
    then have mv: "moves i (dlt j 1) (\<lambda>_. 0) (core_of rt) (core_of rt2)"
      using core1 by (simp add: moves_tasks del: core_of_set(1))
    obtain x rt3 where run: "on_ring ring rt2 = (x, rt3)" by fastforce
    note c3 = on_ring_core [OF run]
    have tasks3: "rt_tasks rt3 = (rt_tasks rt)[n := ?t]" using c3 by (simp add: rt2_def)
    have slot3: "i < length (rt_clients rt3)" "j < length (cl_file_resources (client_at rt3 i))"
      "fs_in_flight (cl_file_resources (client_at rt3 i) ! j) = 1"
      using c3 i j32 by (simp_all add: rt2_def set_file_slot_def reserve_slot_def)
    have run': "dispatch_openat sys i rt = (case (x, rt3) of
        (Inl e, rt3) \<Rightarrow> reject_request sys i e (set_task n iouringd_clear_task_slot
          (upd_client i (iouringd_unallocate_resource_id r) (unreserve_slot i j rt3)))
      | (Inr _, rt3) \<Rightarrow> accept_request sys i ?t (\<lambda>e rt. (Inl e, set_task n iouringd_clear_task_slot
          (unreserve_slot i j rt))) rt3)"
      using 5 5(1) [folded not_le] alloc same run by (simp add: dispatch_openat_def rt2_def ring_def Let_def)
    let ?rt4 = "upd_client i (iouringd_unallocate_resource_id r) (unreserve_slot i j rt3)"
    have "core_of ?rt4 = core_of (unreserve_slot i j rt3)"
      by (intro core_upd_client_same) simp
    with unreserve_moves(1) [OF slot3] have undone: "moves i (dlt j (- 1)) (\<lambda>_. 0) (core_of rt3) (core_of ?rt4)"
      by simp
    have "quiet i rt (set_task n iouringd_clear_task_slot ?rt4)"
      using mv undone c3 tasks3 unreserve_moves(2) [OF slot3] i 5(2) core_ok_slots_clear [OF ok]
      by (intro rollback_quiet [where d = "dlt j 1" and e = "\<lambda>_. 0" and ?rt3.0 = rt3 and t = ?t]) (simp_all add: slots_clear_def)
    moreover have "takes i ?t (core_of rt) (core_of rt3)"
      using mv c3 t by (simp add: takes_def dlt_of_bool [symmetric])
    ultimately show ?thesis
      using run' 5 tf tasks3 i by (cases x) (simp_all add: reject_handled accept_handled)
  qed (use alloc same core1 in \<open>auto simp: dispatch_openat_def Let_def reject_core_handled
      simp del: core_of_set split: option.splits\<close>)
qed

section \<open>Closing a file\<close>

lemma close_task_for:
  assumes "j < cl_file_slot_limit (client_at rt i)"
  shows "task_for i (close_task i j fd rt) rt"
    and "file_ref i k (close_task i j fd rt) \<longleftrightarrow> k = j" and "\<not> buffer_ref i k (close_task i j fd rt)"
  using assms
  by (auto simp: close_task_def Let_def task_for_def new_task_def iouringd_clear_task_slot_def
      index_ok_def file_ref_def buffer_ref_def task_of_def)

lemma handled_Inl [simp]: "handled i rt (Inl e, rt')"
  by (simp add: handled_def)

lemma rt_update_file_static:
  "rt_update_file sys g fd rt = (r, rt') \<Longrightarrow> rt_tasks rt' = rt_tasks rt
    \<and> rt_next_task_id rt' = rt_next_task_id rt \<and> rt_task_capacity rt' = rt_task_capacity rt"
  by (auto simp: rt_update_file_def split: prod.splits)

lemma dispatch_close_handled:
  assumes ok: "core_ok (core_of rt)" and i: "i < length (rt_clients rt)"
  shows "handled i rt (dispatch_close sys i rt)"
proof -
  let ?c = "client_at rt i"
  let ?fd = "\<lambda>j. fs_daemon_fd (cl_file_resources ?c ! j)"
  consider "iouringd_find_file_slot ?c (cl_resource_id ?c) = None"
    | j where "iouringd_find_file_slot ?c (cl_resource_id ?c) = Some j"
      "fs_closing (cl_file_resources ?c ! j) \<or> fs_in_flight (cl_file_resources ?c ! j) \<noteq> 0
        \<or> ?fd j < 0 \<or> rt_next_task_id rt \<ge> IOURINGD_TASK_ID_RESERVED_MIN
        \<or> iouringd_find_free_task_slot rt = None"
    | n j where "\<not> rt_next_task_id rt \<ge> IOURINGD_TASK_ID_RESERVED_MIN"
      "iouringd_find_free_task_slot rt = Some n"
      "iouringd_find_file_slot ?c (cl_resource_id ?c) = Some j"
      "\<not> fs_closing (cl_file_resources ?c ! j)" "fs_in_flight (cl_file_resources ?c ! j) = 0" "\<not> ?fd j < 0"
    by (cases "iouringd_find_file_slot ?c (cl_resource_id ?c)"; cases "iouringd_find_free_task_slot rt") auto
  then show ?thesis
  proof cases
    case (2 j)
    then show ?thesis
      by (auto simp: dispatch_close_def Let_def reject_core_handled split: option.splits)
  next
    case (3 n j)
    let ?g = "iouringd_global_file_index rt i j"
    obtain u rt1 where upd: "rt_update_file sys ?g (- 1) rt = (u, rt1)" by fastforce
    note c1 = rt_update_file_core [OF upd] rt_update_file_static [OF upd]
    let ?t = "close_task i j (?fd j) rt1"
    define rt2 where "rt2 = upd_client i (upd_file_slot j detach_slot) (set_task n ?t rt1)"
    have j: "j < cl_file_slot_limit ?c" "j < length (cl_file_resources ?c)"
      using files.find_key_Some [OF 3(3)] core_ok_tables [OF ok i] by auto
    have "j < cl_file_slot_limit (client_at rt1 i)" using j c1 by simp
    note t = close_task_for [OF this, where fd = "?fd j"]
    have tf: "task_for i ?t rt" using t(1) c1 by (simp add: task_for_def)
    have mv: "moves i (dlt j 1) (\<lambda>_. 0) (core_of rt) (core_of rt2)"
      using upd_file_slot_moves [of i "set_task n ?t rt1" j 1 detach_slot] i j c1 3(5)
      unfolding rt2_def by (simp add: detach_slot_def moves_tasks del: core_of_set(1))
    obtain x rt3 where run: "on_ring (iouringd_ring_submit_close (s_kernel sys) (tk_task_id ?t) (?fd j)
      (tk_submit_priority ?t)) rt2 = (x, rt3)" by fastforce
    note c3 = on_ring_core [OF run]
    have tasks3: "rt_tasks rt3 = (rt_tasks rt)[n := ?t]" using c3 c1 by (simp add: rt2_def)
    have slot3: "i < length (rt_clients rt3)" "j < length (cl_file_resources (client_at rt3 i))"
      "fs_in_flight (cl_file_resources (client_at rt3 i) ! j) = 1"
      using c3 c1 i j by (simp_all add: rt2_def upd_file_slot_def set_file_slot_def detach_slot_def)
    let ?rt4 = "upd_client i (upd_file_slot j (attach_slot (?fd j))) rt3"
    have undone: "moves i (dlt j (- 1)) (\<lambda>_. 0) (core_of rt3) (core_of ?rt4)"
      using slot3 by (intro upd_file_slot_moves) (simp_all add: attach_slot_def)
    obtain v rt5 where upd5: "rt_update_file sys ?g (?fd j) ?rt4 = (v, rt5)" by fastforce
    note c5 = rt_update_file_core [OF upd5] rt_update_file_static [OF upd5]
    have "quiet i rt (set_task n iouringd_clear_task_slot rt5)"
      using mv undone c3 c5 tasks3 i 3(2) core_ok_slots_clear [OF ok]
      by (intro rollback_quiet [where d = "dlt j 1" and e = "\<lambda>_. 0" and ?rt3.0 = rt3 and t = ?t])
        (simp_all add: slots_clear_def)
    moreover have "takes i ?t (core_of rt) (core_of rt3)"
      using mv c3 t by (simp add: takes_def dlt_of_bool [symmetric])
    moreover have "dispatch_close sys i rt = bind_rc (u, rt1) (\<lambda>_ _. case (x, rt3) of
        (Inl e, rt3) \<Rightarrow> bind_rc (v, rt5)
          (\<lambda>_ rt4. reject_request sys i e (set_task n iouringd_clear_task_slot rt4))
      | (Inr _, rt3) \<Rightarrow> accept_request sys i ?t
          (\<lambda>e rt. bind_rc (rt_update_file sys ?g (?fd j) (upd_client i (upd_file_slot j (attach_slot (?fd j))) rt))
             (\<lambda>_ rt. (Inl e, set_task n iouringd_clear_task_slot rt))) rt3)"
      using 3 upd run upd5 by (cases u; cases x) (simp_all add: dispatch_close_def rt2_def Let_def)
    ultimately show ?thesis
      using 3 tf tasks3 i
      by (cases u; cases x; cases v)
        (auto simp: not_le intro!: reject_handled accept_handled elim: bind_rc_cases)
  qed (simp add: dispatch_close_def Let_def reject_core_handled)
qed

section \<open>Tasks on registered resources\<close>

definition opt_dlt :: "nat option \<Rightarrow> u32 \<Rightarrow> nat \<Rightarrow> u32" where
  "opt_dlt b x = (case b of None \<Rightarrow> (\<lambda>_. 0) | Some k \<Rightarrow> dlt k x)"

lemma opt_dlt_simps [simp]: "opt_dlt None x = (\<lambda>_. 0)" "opt_dlt (Some k) x = dlt k x"
  by (simp_all add: opt_dlt_def)

lemma opt_dlt_uminus [simp]: "- opt_dlt b x k = opt_dlt b (- x) k"
  by (cases b) simp_all

lemma upd_client_comp:
  "i < length (rt_clients rt) \<Longrightarrow> upd_client i f (upd_client i g rt) = upd_client i (\<lambda>c. f (g c)) rt"
  by (simp add: upd_client_def set_client_def)

lemma io_target_bounds:
  assumes "io_target c = Inr (j, b)"
  shows "j < cl_file_slot_limit c" and "fs_registered (cl_file_resources c ! j)"
    and "fs_resource_id (cl_file_resources c ! j) = cl_resource_id c"
    and "\<not> fs_closing (cl_file_resources c ! j)"
    and "b = Some k \<Longrightarrow> k < cl_buffer_slot_limit c \<and> bs_registered (cl_buffer_resources c ! k)
      \<and> bs_resource_id (cl_buffer_resources c ! k) = cl_buffer_resource_id c
      \<and> \<not> bs_closing (cl_buffer_resources c ! k)"
proof -
  from assms obtain j' where j': "iouringd_find_file_slot c (cl_resource_id c) = Some j'"
    by (simp add: io_target_def Let_def split: option.splits)
  with assms have "j' = j" "\<not> fs_closing (cl_file_resources c ! j)"
    by (auto simp: io_target_def Let_def split: option.splits if_splits)
  with files.find_key_Some [OF j'] show "j < cl_file_slot_limit c"
    "fs_registered (cl_file_resources c ! j)"
    "fs_resource_id (cl_file_resources c ! j) = cl_resource_id c"
    "\<not> fs_closing (cl_file_resources c ! j)" by simp_all
  assume "b = Some k"
  with assms have "iouringd_find_buffer_slot c (cl_buffer_resource_id c) = Some k"
    "\<not> bs_closing (cl_buffer_resources c ! k)"
    by (auto simp: io_target_def Let_def split: option.splits if_splits)
  with buffers.find_key_Some show "k < cl_buffer_slot_limit c \<and> bs_registered (cl_buffer_resources c ! k)
      \<and> bs_resource_id (cl_buffer_resources c ! k) = cl_buffer_resource_id c
      \<and> \<not> bs_closing (cl_buffer_resources c ! k)" by blast
qed

lemma add_in_flight_moves:
  assumes i: "i < length (rt_clients rt)" and j: "j < length (cl_file_resources (client_at rt i))"
    and b: "\<And>k. b = Some k \<Longrightarrow> k < length (cl_buffer_resources (client_at rt i))"
  shows "moves i (dlt j x) (opt_dlt b x) (core_of rt) (core_of (upd_client i (add_in_flight x j b) rt))"
proof -
  let ?rt1 = "upd_client i (upd_file_slot j (file_in_flight x)) rt"
  have mv: "moves i (dlt j x) (\<lambda>_. 0) (core_of rt) (core_of ?rt1)"
    using i j by (intro upd_file_slot_moves) (simp_all add: file_in_flight_def)
  show ?thesis
  proof (cases b)
    case None
    with mv show ?thesis by (simp add: add_in_flight_def [abs_def])
  next
    case (Some k)
    let ?rt2 = "upd_client i (upd_buffer_slot k (buffer_in_flight x)) ?rt1"
    have "k < length (cl_buffer_resources (client_at ?rt1 i))"
      using b [OF Some] i by (simp add: upd_file_slot_def set_file_slot_def)
    then have "moves i (\<lambda>_. 0) (dlt k x) (core_of ?rt1) (core_of ?rt2)"
      using i by (intro upd_buffer_slot_moves) (simp_all add: buffer_in_flight_def)
    from moves_trans [OF mv this] i
    have "moves i (dlt j x) (opt_dlt b x) (core_of rt) (core_of ?rt2)"
      using Some by (simp add: core_length)
    moreover have "?rt2 = upd_client i (add_in_flight x j b) rt"
      using Some i by (simp add: upd_client_comp add_in_flight_def [abs_def])
    ultimately show ?thesis by simp
  qed
qed

lemma add_in_flight_files:
  "length (cl_file_resources (add_in_flight x j b c)) = length (cl_file_resources c)"
  "length (cl_buffer_resources (add_in_flight x j b c)) = length (cl_buffer_resources c)"
  "cl_file_slot_limit (add_in_flight x j b c) = cl_file_slot_limit c"
  "cl_file_resources (add_in_flight x j b c)
     = (cl_file_resources c)[j := file_in_flight x (cl_file_resources c ! j)]"
  by (simp_all add: add_in_flight_def Let_def upd_file_slot_def upd_buffer_slot_def set_file_slot_def
      set_buffer_slot_def split: option.splits)

lemma add_in_flight_payload [simp]: "cl_io_payload (add_in_flight x j b c) = cl_io_payload c"
  by (simp add: add_in_flight_def Let_def upd_file_slot_def upd_buffer_slot_def set_file_slot_def
      set_buffer_slot_def split: option.splits)

text \<open>What a successful reservation does.\<close>

lemma reserve_result_Some:
  assumes "reserve_result i n rt = (Inr (Some (m, r)), rt')" and i: "i < length (rt_clients rt)"
    and lim: "cl_file_slot_limit (client_at rt i) \<le> length (cl_file_resources (client_at rt i))"
  shows "moves i (dlt m 1) (\<lambda>_. 0) (core_of rt) (core_of rt')"
    and "rt_tasks rt' = (rt_tasks rt)[n := (task_at rt n)\<lparr>tk_result_file_slot_index := int m,
      tk_result_resource_id := r\<rparr>]"
    and "m < cl_file_slot_limit (client_at rt i)"
    and "fs_in_flight (cl_file_resources (client_at rt i) ! m) = 0"
    and "cl_file_resources (client_at rt' i) = (cl_file_resources (client_at rt i))[m := reserve_slot r]"
    and "tk_task_kind (task_at rt n) = IOURINGD_TASK_KIND_ACCEPT"
proof -
  let ?c = "client_at rt i"
  obtain r' c1 where alloc: "iouringd_allocate_resource_id ?c = (r', c1)" by fastforce
  note files1 = core_files_eq [OF allocate_core(1) [OF alloc]]
  show kind: "tk_task_kind (task_at rt n) = IOURINGD_TASK_KIND_ACCEPT"
    using assms(1) by (auto simp: reserve_result_def split: if_splits)
  from assms(1) kind have "reserve_accept i n rt = (Inr (m, r), rt')"
    by (auto simp: reserve_result_def elim: bind_rc_cases)
  with alloc have m: "iouringd_find_free_file_slot ?c = Some m" and r: "r' = r"
    and rt': "rt' = set_task n ((task_at rt n)\<lparr>tk_result_file_slot_index := int m, tk_result_resource_id := r\<rparr>)
      (set_client i (set_file_slot m (reserve_slot r) c1) rt)"
    by (auto simp: reserve_accept_def Let_def split: option.splits if_splits)
  note free = free_file_slot [OF m]
  then show "m < cl_file_slot_limit ?c" "fs_in_flight (cl_file_resources ?c ! m) = 0" by simp_all
  show "rt_tasks rt' = (rt_tasks rt)[n := (task_at rt n)\<lparr>tk_result_file_slot_index := int m,
      tk_result_resource_id := r\<rparr>]" by (simp add: rt')
  show "cl_file_resources (client_at rt' i) = (cl_file_resources ?c)[m := reserve_slot r]"
    using i files1 by (simp add: rt' set_file_slot_def)
  have core1: "core_of (set_client i c1 rt) = core_of rt"
    using alloc by (rule set_client_allocated)
  have "moves i (dlt m 1) (\<lambda>_. 0) (core_of (set_client i c1 rt))
      (core_of (upd_client i (set_file_slot m (reserve_slot r)) (set_client i c1 rt)))"
    using i free lim files1 by (intro set_file_slot_moves) (simp_all add: reserve_slot_def)
  moreover have "upd_client i (set_file_slot m (reserve_slot r)) (set_client i c1 rt)
      = set_client i (set_file_slot m (reserve_slot r) c1) rt"
    using i by (simp add: upd_client_def set_client_def)
  ultimately show "moves i (dlt m 1) (\<lambda>_. 0) (core_of rt) (core_of rt')"
    unfolding rt' core1 by (simp only: core_of_set(2) moves_tasks)
qed

lemma reserve_result_other:
  "reserve_result i n rt = (Inl e, rt') \<Longrightarrow> core_of rt' = core_of rt"
  "reserve_result i n rt = (Inr None, rt') \<Longrightarrow> rt' = rt"
  unfolding reserve_result_def reserve_accept_def Let_def
  by (auto elim!: bind_rc_cases split: if_splits option.splits prod.splits
      dest: set_client_allocated simp del: core_of_set)

lemma reserve_result_payload:
  assumes "reserve_result i n rt = (r, rt')"
  shows "cl_io_payload (client_at rt' i) = cl_io_payload (client_at rt i)"
proof -
  obtain r1 c1 where alloc: "iouringd_allocate_resource_id (client_at rt i) = (r1, c1)" by fastforce
  from allocate_payload [OF alloc] have "cl_io_payload (client_at (set_client i c1 rt) i) = cl_io_payload (client_at rt i)"
    "cl_io_payload (client_at (set_client i (set_file_slot j s c1) rt) i) = cl_io_payload (client_at rt i)" for j s
    by (cases "i < length (rt_clients rt)"; simp add: set_client_def set_file_slot_def list_update_beyond)+
  with assms alloc show ?thesis
    unfolding reserve_result_def reserve_accept_def Let_def
    by (auto elim!: bind_rc_cases split: if_splits option.splits)
qed

lemma give_back_moves:
  assumes i: "i < length (rt_clients rt)" and j: "j < length (cl_file_resources (client_at rt i))"
    and b: "\<And>k. b = Some k \<Longrightarrow> k < length (cl_buffer_resources (client_at rt i))"
    and result: "\<And>m r. result = Some (m, r) \<Longrightarrow> m \<noteq> j \<and> m < length (cl_file_resources (client_at rt i))
      \<and> fs_in_flight (cl_file_resources (client_at rt i) ! m) = 1"
  shows "moves i (\<lambda>k. dlt j (- 1) k + opt_dlt (map_option fst result) (- 1) k) (opt_dlt b (- 1))
      (core_of rt) (core_of (give_back i j b result rt))"
    and "rt_tasks (give_back i j b result rt) = rt_tasks rt"
proof -
  let ?rt1 = "upd_client i (add_in_flight (- 1) j b) rt"
  note mv = add_in_flight_moves [where x = "- 1", OF i j b]
  show "moves i (\<lambda>k. dlt j (- 1) k + opt_dlt (map_option fst result) (- 1) k) (opt_dlt b (- 1))
      (core_of rt) (core_of (give_back i j b result rt))"
  proof (cases result)
    case None
    with mv show ?thesis by (simp add: give_back_def)
  next
    case (Some p)
    then obtain m r where p: "result = Some (m, r)" by (cases p) auto
    note m = result [OF p]
    have "moves i (dlt m (- 1)) (\<lambda>_. 0) (core_of ?rt1) (core_of (unreserve_slot i m ?rt1))"
      using i m by (intro unreserve_moves) (simp_all add: add_in_flight_files)
    from moves_trans [OF mv this] i p show ?thesis by (simp add: give_back_def core_length)
  qed
  show "rt_tasks (give_back i j b result rt) = rt_tasks rt"
    by (simp add: give_back_def Let_def unreserve_slot_def rt_clear_file_slot_def
        iouringd_clear_file_slot_def split: option.splits prod.splits)
qed

lemma load_io_buffer_task:
  obtains buf where "load_io_buffer i n rt = set_task n ((task_at rt n)\<lparr>tk_io_buffer := buf\<rparr>) rt"
    and "length buf \<le> max (length (tk_io_buffer (task_at rt n))) (length (cl_io_payload (client_at rt i)))"
proof (cases "load_io_buffer i n rt = rt")
  case True
  moreover have "set_task n ((task_at rt n)\<lparr>tk_io_buffer := tk_io_buffer (task_at rt n)\<rparr>) rt = rt"
    by (simp add: set_task_def)
  ultimately show thesis using that [of "tk_io_buffer (task_at rt n)"] by simp
next
  case False
  then have "load_io_buffer i n rt = set_task n ((task_at rt n)\<lparr>tk_io_buffer :=
      take (unat (tk_io_length (task_at rt n))) (cl_io_payload (client_at rt i))\<rparr>) rt"
    unfolding load_io_buffer_def Let_def by metis
  then show thesis by (rule that) simp
qed

lemma submit_io_core:
  "submit_io sys i j n rt = (r, rt') \<Longrightarrow>
    core_of rt' = core_of rt \<and> rt_clients rt' = rt_clients rt \<and> rt_tasks rt' = rt_tasks rt"
  unfolding submit_io_def Let_def by (auto split: if_splits dest!: on_ring_core)

lemma unallocate_result_core:
  "core_of (unallocate_result i result rt) = core_of rt"
  by (cases result) (auto simp: unallocate_result_def intro!: core_upd_client_same)

text \<open>The task slot of a task on resources, with the slot reserved for its result.\<close>

lemma io_task_for:
  assumes "j < cl_file_slot_limit (client_at rt i)"
    and "\<And>k. b = Some k \<Longrightarrow> k < cl_buffer_slot_limit (client_at rt i)"
    and "\<And>m. result = Some m \<Longrightarrow> m \<noteq> j \<and> m < cl_file_slot_limit (client_at rt i)"
    and t: "t = (io_task i j b rt)
      \<lparr>tk_result_file_slot_index := (case result of None \<Rightarrow> - 1 | Some m \<Rightarrow> int m),
       tk_result_resource_id := r, tk_io_buffer := buf\<rparr>"
    and "length buf \<le> length (cl_io_payload (client_at rt i))"
  shows "task_for i t rt" and "of_bool (file_ref i k t) = dlt j 1 k + opt_dlt result 1 k"
    and "of_bool (buffer_ref i k t) = opt_dlt b 1 k"
  using assms(1-3,5) unfolding t
  by (auto simp: io_task_def Let_def task_for_def new_task_def iouringd_clear_task_slot_def dlt_def
      index_ok_def file_ref_def buffer_ref_def task_of_def split: option.splits)

lemma in_flight_bound:
  assumes "core_ok (core_of rt)" and "i < length (rt_clients rt)" and "j < 32"
  shows "unat (fs_in_flight (cl_file_resources (client_at rt i) ! j)) \<le> 64"
proof -
  have "i < 64" using assms core_okD(2) [OF assms(1)] by (simp add: core_length)
  from core_ok_client [OF assms(1) this] core_client_at [OF assms(2)] assms(3)
  have "unat (fs_in_flight (cl_file_resources (client_at rt i) ! j)) = cnt (file_ref i j) (rt_tasks rt)"
    by (simp add: client_ok_def client_fields core_length)
  also have "\<dots> \<le> 64" using core_okD(1) [OF assms(1)] cnt_le_length [of "file_ref i j" "rt_tasks rt"]
    by (simp add: core_length)
  finally show ?thesis .
qed

lemma io_taken:
  assumes ok: "core_ok (core_of rt)" and i: "i < length (rt_clients rt)"
    and target: "io_target (client_at rt i) = Inr (j, b)"
    and rt1: "rt1 = upd_client i (add_in_flight 1 j b) (set_task n (io_task i j b rt) rt)"
  shows "moves i (dlt j 1) (opt_dlt b 1) (core_of rt) (core_of rt1)"
    and "rt_tasks rt1 = (rt_tasks rt)[n := io_task i j b rt]"
  using add_in_flight_moves [of i "set_task n (io_task i j b rt) rt" j b 1] i core_ok_tables [OF ok i]
    io_target_bounds(1) [OF target] io_target_bounds(5) [OF target]
  unfolding rt1 by (force simp: moves_tasks simp del: core_of_set(1))+

text \<open>The state in which a task on resources is given to the ring.\<close>

lemma io_reserved:
  assumes ok: "core_ok (core_of rt)" and i: "i < length (rt_clients rt)"
    and target: "io_target (client_at rt i) = Inr (j, b)"
    and n: "iouringd_find_free_task_slot rt = Some n"
    and rt1: "rt1 = upd_client i (add_in_flight 1 j b) (set_task n (io_task i j b rt) rt)"
    and res: "reserve_result i n rt1 = (Inr result, rt2)"
  shows "moves i (\<lambda>k. dlt j 1 k + opt_dlt (map_option fst result) 1 k) (opt_dlt b 1)
      (core_of rt) (core_of rt2)"
    and "\<exists>r. rt_tasks rt2 = (rt_tasks rt)[n := (io_task i j b rt)\<lparr>
      tk_result_file_slot_index := (case map_option fst result of None \<Rightarrow> - 1 | Some m \<Rightarrow> int m),
      tk_result_resource_id := r\<rparr>]"
    and "\<And>m r. result = Some (m, r) \<Longrightarrow> m \<noteq> j \<and> m < cl_file_slot_limit (client_at rt i)
      \<and> fs_in_flight (cl_file_resources (client_at rt2 i) ! m) = 1"
proof -
  note tab = core_ok_tables [OF ok i] and bnd = io_target_bounds [OF target]
  have n64: "n < length (rt_tasks rt)"
    using free_task_slot [OF n] core_okD(1,4) [OF ok] by (simp add: core_length core_fields)
  have mv1: "moves i (dlt j 1) (opt_dlt b 1) (core_of rt) (core_of rt1)"
    using io_taken(1) [OF ok i target rt1] .
  have c1: "client_at rt1 i = add_in_flight 1 j b (client_at rt i)" "length (rt_clients rt1) = length (rt_clients rt)"
    "rt_tasks rt1 = (rt_tasks rt)[n := io_task i j b rt]"
    using i by (simp_all add: rt1)
  have idx: "tk_result_file_slot_index (io_task i j b rt) = - 1"
    by (simp add: io_task_def Let_def new_task_def iouringd_clear_task_slot_def)
  have busy: "fs_in_flight (cl_file_resources (client_at rt1 i) ! j) \<noteq> 0"
  proof -
    have "unat (fs_in_flight (cl_file_resources (client_at rt i) ! j) + 1)
      = unat (fs_in_flight (cl_file_resources (client_at rt i) ! j)) + 1"
      using in_flight_bound [OF ok i, of j] bnd(1) tab by (intro unat_inc) simp
    then show ?thesis
      using bnd(1) tab by (auto simp: c1 add_in_flight_files file_in_flight_def)
  qed
  have lim: "i < length (rt_clients rt1)"
    "cl_file_slot_limit (client_at rt1 i) \<le> length (cl_file_resources (client_at rt1 i))"
    using i tab by (simp_all add: c1 add_in_flight_files)
  have some: "reserve_result i n rt1 = (Inr (Some (m, r)), rt2)" if "result = Some (m, r)" for m r
    using res that by simp
  have none: "rt2 = rt1" if "result = None" using reserve_result_other(2) res that by simp
  show "moves i (\<lambda>k. dlt j 1 k + opt_dlt (map_option fst result) 1 k) (opt_dlt b 1)
      (core_of rt) (core_of rt2)"
  proof (cases result)
    case (Some p)
    then obtain m r where p: "result = Some (m, r)" by (cases p) auto
    from moves_trans [OF mv1 reserve_result_Some(1) [OF some [OF p] lim]] i p
    show ?thesis by (simp add: core_length)
  qed (use none mv1 in simp)
  show "\<exists>r. rt_tasks rt2 = (rt_tasks rt)[n := (io_task i j b rt)\<lparr>
      tk_result_file_slot_index := (case map_option fst result of None \<Rightarrow> - 1 | Some m \<Rightarrow> int m),
      tk_result_resource_id := r\<rparr>]"
  proof (cases result)
    case None
    have "(io_task i j b rt)\<lparr>tk_result_file_slot_index := - 1,
      tk_result_resource_id := tk_result_resource_id (io_task i j b rt)\<rparr> = io_task i j b rt"
      unfolding idx [symmetric] by simp
    with None none c1(3) show ?thesis by (auto intro: exI [of _ "tk_result_resource_id (io_task i j b rt)"])
  next
    case (Some p)
    then obtain m r where p: "result = Some (m, r)" by (cases p) auto
    from reserve_result_Some(2) [OF some [OF p] lim] c1(3) n64 p show ?thesis by auto
  qed
  show "m \<noteq> j \<and> m < cl_file_slot_limit (client_at rt i)
      \<and> fs_in_flight (cl_file_resources (client_at rt2 i) ! m) = 1" if p: "result = Some (m, r)" for m r
  proof -
    note r = reserve_result_Some [OF some [OF p] lim]
    from r(4) busy have "m \<noteq> j" by auto
    with r(3,5) lim show ?thesis by (simp add: c1 add_in_flight_files reserve_slot_def)
  qed
qed

lemma client_tables_stable:
  assumes "moves i d e (core_of rt) (core_of rt')" and "i < length (rt_clients rt)"
  shows "i < length (rt_clients rt')"
    and "length (cl_file_resources (client_at rt' i)) = length (cl_file_resources (client_at rt i))"
    and "length (cl_buffer_resources (client_at rt' i)) = length (cl_buffer_resources (client_at rt i))"
proof -
  show i': "i < length (rt_clients rt')"
    using moves_length [OF assms(1)] assms(2) by (simp add: core_length)
  obtain c' where "(core_of rt')\<lparr>co_tasks := []\<rparr>
      = (core_of rt)\<lparr>co_tasks := [], co_clients := (co_clients (core_of rt))[i := c']\<rparr>"
    and c': "length (cc_files c') = length (cc_files (co_clients (core_of rt) ! i))"
      "length (cc_buffers c') = length (cc_buffers (co_clients (core_of rt) ! i))"
    using assms(1) unfolding moves_def by auto
  from arg_cong [OF this(1), of "\<lambda>co. co_clients co ! i"] assms(2) i'
  have "core_of_client (client_at rt' i) = c'" by (simp add: core_length core_client_at)
  with c' core_client_at [OF assms(2)]
  show "length (cl_file_resources (client_at rt' i)) = length (cl_file_resources (client_at rt i))"
    "length (cl_buffer_resources (client_at rt' i)) = length (cl_buffer_resources (client_at rt i))"
    by (auto simp: client_fields)
qed

text \<open>Giving back what was taken, before or after the reservation of a result slot.\<close>

lemma io_rollback:
  assumes ok: "core_ok (core_of rt)" and i: "i < length (rt_clients rt)"
    and target: "io_target (client_at rt i) = Inr (j, b)"
    and n: "iouringd_find_free_task_slot rt = Some n"
    and mv: "moves i (\<lambda>k. dlt j 1 k + opt_dlt (map_option fst result) 1 k) (opt_dlt b 1)
      (core_of rt) (core_of rt3)"
    and tasks: "rt_tasks rt3 = (rt_tasks rt)[n := t]"
    and result: "\<And>m r. result = Some (m, r) \<Longrightarrow> m \<noteq> j \<and> m < cl_file_slot_limit (client_at rt i)
      \<and> fs_in_flight (cl_file_resources (client_at rt3 i) ! m) = 1"
    and rt4: "core_of rt4 = core_of (give_back i j b result rt3)"
  shows "quiet i rt (set_task n iouringd_clear_task_slot rt4)"
proof -
  note tab = core_ok_tables [OF ok i] and bnd = io_target_bounds [OF target]
  note st = client_tables_stable [OF mv i]
  have back1: "moves i (\<lambda>k. dlt j (- 1) k + opt_dlt (map_option fst result) (- 1) k) (opt_dlt b (- 1))
      (core_of rt3) (core_of (give_back i j b result rt3))"
    and back2: "rt_tasks (give_back i j b result rt3) = rt_tasks rt3"
    using give_back_moves [of i rt3 j b result] st tab bnd(1) bnd(5) result by force+
  have tasks4: "rt_tasks rt4 = (rt_tasks rt)[n := t]"
    using rt4 back2 tasks core_length(2) by metis
  show ?thesis
    using back1 rt4 tasks4 n i core_ok_slots_clear [OF ok]
    by (intro rollback_quiet [OF mv, where t = t]) (simp_all add: slots_clear_def)
qed

lemma dispatch_resource_io_handled:
  assumes ok: "core_ok (core_of rt)" and i: "i < length (rt_clients rt)"
  shows "handled i rt (dispatch_resource_io sys i rt)"
proof (cases "io_target (client_at rt i)")
  case (Inl e)
  then show ?thesis by (simp add: dispatch_resource_io_def reject_core_handled)
next
  case (Inr p)
  then obtain j b where target: "io_target (client_at rt i) = Inr (j, b)" by (cases p) auto
  show ?thesis
  proof (cases rt rule: submit_cases)
    case (free n)
    define rt1 where "rt1 = upd_client i (add_in_flight 1 j b) (set_task n (io_task i j b rt) rt)"
    obtain x rt2 where res: "reserve_result i n rt1 = (x, rt2)" by fastforce
    have run: "dispatch_resource_io sys i rt = (case (x, rt2) of
        (Inl e, rt2) \<Rightarrow> reject_request sys i e (set_task n iouringd_clear_task_slot (give_back i j b None rt2))
      | (Inr result, rt2) \<Rightarrow> (case submit_io sys i j n (load_io_buffer i n rt2) of
          (Inl e, rt3) \<Rightarrow> reject_request sys i e (set_task n iouringd_clear_task_slot
            (unallocate_result i result (give_back i j b result rt3)))
        | (Inr _, rt3) \<Rightarrow> accept_request sys i (task_at rt3 n)
            (\<lambda>e rt. (Inl e, set_task n iouringd_clear_task_slot (give_back i j b result rt))) rt3))"
      using target free(2) free(1) [folded not_le] res
      by (simp add: dispatch_resource_io_def rt1_def Let_def)
    show ?thesis
    proof (cases x)
      case (Inl e)
      have mv: "moves i (\<lambda>k. dlt j 1 k + opt_dlt (map_option fst None) 1 k) (opt_dlt b 1)
          (core_of rt) (core_of rt1)" and tasks: "rt_tasks rt1 = (rt_tasks rt)[n := io_task i j b rt]"
        using io_taken [OF ok i target rt1_def] by simp_all
      have core2: "core_of rt2 = core_of rt1" using reserve_result_other(1) res Inl by simp
      then have "rt_tasks rt2 = rt_tasks rt1" using core_length(2) by metis
      with io_rollback [OF ok i target free(2), of None rt2 _ "give_back i j b None rt2"] mv tasks core2
      have "quiet i rt (set_task n iouringd_clear_task_slot (give_back i j b None rt2))" by simp
      with run Inl show ?thesis by (simp add: reject_handled)
    next
      case (Inr result)
      note rv = io_reserved [OF ok i target free(2) rt1_def res [unfolded Inr]]
      obtain y rt3 where sub: "submit_io sys i j n (load_io_buffer i n rt2) = (y, rt3)" by fastforce
      obtain buf where load: "load_io_buffer i n rt2 = set_task n ((task_at rt2 n)\<lparr>tk_io_buffer := buf\<rparr>) rt2"
        and buf: "length buf \<le> max (length (tk_io_buffer (task_at rt2 n))) (length (cl_io_payload (client_at rt2 i)))"
        by (rule load_io_buffer_task)
      note c3 = submit_io_core [OF sub, unfolded load]
      have mv: "moves i (\<lambda>k. dlt j 1 k + opt_dlt (map_option fst result) 1 k) (opt_dlt b 1)
          (core_of rt) (core_of rt3)"
        using rv(1) c3 by (simp add: moves_tasks)
      have n64: "n < length (rt_tasks rt)"
        using free_task_slot [OF free(2)] core_okD(1,4) [OF ok] by (simp add: core_length core_fields)
      obtain r where r: "rt_tasks rt2 = (rt_tasks rt)[n := (io_task i j b rt)\<lparr>
        tk_result_file_slot_index := (case map_option fst result of None \<Rightarrow> - 1 | Some m \<Rightarrow> int m),
        tk_result_resource_id := r\<rparr>]"
        using rv(2) by blast
      define t where "t = (io_task i j b rt)
        \<lparr>tk_result_file_slot_index := (case map_option fst result of None \<Rightarrow> - 1 | Some m \<Rightarrow> int m),
         tk_result_resource_id := r, tk_io_buffer := buf\<rparr>"
      have tasks: "rt_tasks rt3 = (rt_tasks rt)[n := t]" "task_at rt3 n = t"
        using c3 r n64 by (simp_all add: t_def)
      have "core_of (unallocate_result i result (give_back i j b result rt3))
          = core_of (give_back i j b result rt3)" by (rule unallocate_result_core)
      from io_rollback [OF ok i target free(2) mv tasks(1) _ this] rv(3) c3
      have "quiet i rt (set_task n iouringd_clear_task_slot
          (unallocate_result i result (give_back i j b result rt3)))" by simp
      moreover have "m \<noteq> j \<and> m < cl_file_slot_limit (client_at rt i)"
        if "map_option fst result = Some m" for m
        using rv(3) that by auto
      moreover have "length buf \<le> length (cl_io_payload (client_at rt i))"
        using buf r n64 i reserve_result_payload [OF res]
        by (simp add: rt1_def io_task_def new_task_def Let_def iouringd_clear_task_slot_def)
      note tf = io_task_for [OF io_target_bounds(1) [OF target] _ calculation(2) t_def this]
      have "task_for i t rt" "takes i t (core_of rt) (core_of rt3)"
        using tf io_target_bounds(5) [OF target] mv by (simp_all add: takes_def)
      ultimately show ?thesis
        using run Inr sub tasks free i
        by (cases y) (simp_all add: reject_handled accept_handled)
    qed
  qed (simp_all add: dispatch_resource_io_def target reject_core_handled)
qed

section \<open>The dispatcher\<close>

lemma core_ok_index:
  "core_ok (core_of rt) \<Longrightarrow> i < lim_max_clients (rt_limits rt) \<Longrightarrow> i < length (rt_clients rt) \<and> i < 64"
  using core_okD(2,3) [of "core_of rt"] by (simp add: core_fields core_length)

lemma dispatch_submit_handled:
  assumes ok: "core_ok (core_of rt)" and i: "i < length (rt_clients rt)"
  shows "handled i rt (dispatch_submit sys i rt)"
    and "submit_error rt (client_at rt i) = Some e \<Longrightarrow>
      dispatch_submit sys i rt = reject_request sys i e rt"
  using dispatch_plain_handled [OF i core_ok_slots_clear [OF ok]] dispatch_openat_handled [OF ok i]
    dispatch_close_handled [OF ok i] dispatch_resource_io_handled [OF ok i]
  by (simp_all add: dispatch_submit_def Let_def reject_core_handled split: option.splits)

lemma finished_True:
  "bind_rc y (\<lambda>_. finish_request i) = (Inr x, rt') \<Longrightarrow> x"
  "bind_rc y (\<lambda>_ rt. finish_request i (g rt)) = (Inr x, rt') \<Longrightarrow> x"
  "bind_rc y (\<lambda>_. released sys i r av) = (Inr x, rt') \<Longrightarrow> x"
  by (auto elim!: bind_rc_cases simp: finish_request_def released_def)

lemma control_requests_done:
  "dispatch_register_fd sys i rt = (Inr x, rt') \<Longrightarrow> x"
  "dispatch_register_buffer sys i rt = (Inr x, rt') \<Longrightarrow> x"
  "dispatch_release_resource sys i rt = (Inr x, rt') \<Longrightarrow> x"
  "dispatch_get_stats i rt = (Inr x, rt') \<Longrightarrow> x"
  "dispatch_get_trace i rt = (Inr x, rt') \<Longrightarrow> x"
  unfolding dispatch_register_fd_def dispatch_register_buffer_def dispatch_release_resource_def
    dispatch_get_stats_def dispatch_get_trace_def Let_def
  by (auto split: if_splits option.splits prod.splits sum.splits dest: finished_True)

lemma dispatch_handled:
  assumes ok: "core_ok (core_of rt)" and i: "i < lim_max_clients (rt_limits rt)"
    and ready: "cl_request_ready (client_at rt i)"
    and out: "iouringd_dispatch_client_request sys i rt = (Inr x, rt')"
  shows "x" and "quiet i rt rt' \<or>
    admission_error rt (client_at rt i) = None \<and> (\<exists>n t. submitted i n t rt rt')"
proof -
  have il: "i < length (rt_clients rt)" using core_ok_index [OF ok i] by simp
  consider "dispatch_register_fd sys i rt = (Inr x, rt')" | "dispatch_register_buffer sys i rt = (Inr x, rt')"
    | "dispatch_release_resource sys i rt = (Inr x, rt')" | "dispatch_get_stats i rt = (Inr x, rt')"
    | "dispatch_get_trace i rt = (Inr x, rt')" | "dispatch_submit sys i rt = (Inr x, rt')"
    using out ready unfolding iouringd_dispatch_client_request_def Let_def by (auto split: if_splits)
  then have "x \<and> (quiet i rt rt' \<or>
    admission_error rt (client_at rt i) = None \<and> (\<exists>n t. submitted i n t rt rt'))"
  proof cases
    case 6
    note h = dispatch_submit_handled [OF ok il]
    show ?thesis
    proof (cases "submit_error rt (client_at rt i)")
      case None
      then have "admission_error rt (client_at rt i) = None"
        by (simp add: submit_error_def split: option.splits)
      with h(1) [of sys] 6 show ?thesis by (simp add: handled_def)
    next
      case (Some e)
      from h(2) [OF this, of sys] 6 have "reject_request sys i e rt = (Inr x, rt')" by simp
      from quiet_core [OF reject_request_core [OF this]] this show ?thesis
        unfolding reject_request_def by (auto dest: finished_True)
    qed
  qed (use il in \<open>auto dest: control_requests_done register_fd_quiet register_buffer_quiet
      release_resource_quiet quiet_core [OF get_stats_core] quiet_core [OF get_trace_core]\<close>)
  then show "x" "quiet i rt rt' \<or>
    admission_error rt (client_at rt i) = None \<and> (\<exists>n t. submitted i n t rt rt')" by blast+
qed

lemma dispatch_core_ok:
  assumes ok: "core_ok (core_of rt)" and i: "i < lim_max_clients (rt_limits rt)"
    and out: "iouringd_dispatch_client_request sys i rt = (Inr x, rt')"
  shows "core_ok (core_of rt')"
proof (cases "cl_request_ready (client_at rt i)")
  case True
  from dispatch_handled(2) [OF ok i True out] show ?thesis
    using quiet_ok [OF _ ok] submitted_ok [OF _ ok i] core_ok_index [OF ok i] by blast
next
  case False
  with out ok show ?thesis by (simp add: iouringd_dispatch_client_request_def Let_def)
qed

end
