(* ===== verification/Dispatching.thy ===== *)
theory Dispatching
  imports Submission
begin

text \<open>
  Properties of the dispatcher: the outcome of every request on the accounting state, and that every
  submission is answered with exactly one submit result.
\<close>

section \<open>A runtime without tasks\<close>

definition idle_client :: "iouringd_client \<Rightarrow> bool" where
  "idle_client c \<longleftrightarrow>
     cl_outstanding_tasks c = 0 \<and> cl_outstanding_credit_tasks c = 0
     \<and> length (cl_file_resources c) = IOURINGD_MAX_REGISTERED_FDS
     \<and> length (cl_buffer_resources c) = IOURINGD_MAX_REGISTERED_BUFFERS
     \<and> cl_file_slot_limit c \<le> IOURINGD_MAX_REGISTERED_FDS
     \<and> cl_buffer_slot_limit c \<le> IOURINGD_MAX_REGISTERED_BUFFERS
     \<and> (\<forall>s \<in> set (cl_file_resources c). fs_in_flight s = 0)
     \<and> (\<forall>s \<in> set (cl_buffer_resources c). bs_in_flight s = 0)"

lemma idle_core_ok:
  assumes "rt_tasks rt = replicate 64 iouringd_clear_task_slot" and "length (rt_clients rt) = 64"
    and "\<And>c. c \<in> set (rt_clients rt) \<Longrightarrow> idle_client c"
    and "lim_max_clients (rt_limits rt) \<le> 64" and "rt_task_capacity rt \<le> 64"
    and "rt_next_task_id rt \<noteq> 0" and "rt_outstanding_tasks rt = 0"
    and "rt_outstanding_credit_tasks rt = 0"
  shows "core_ok (core_of rt)"
proof -
  have zero: "cnt P (rt_tasks rt) = 0" if "\<not> P iouringd_clear_task_slot" for P
    using that assms(1) by simp
  have "client_ok (rt_tasks rt) (rt_per_client_credit_limit rt) i (co_clients (core_of rt) ! i)"
    if i: "i < 64" for i
  proof -
    have "idle_client (client_at rt i)" using assms(2,3) i by simp
    then show ?thesis
      using i assms(2) core_client_at [of i rt]
      by (simp add: client_ok_def idle_client_def client_fields zero)
  qed
  then show ?thesis
    using assms zero by (simp add: core_ok_def core_fields core_length ids_distinct_def)
qed

lemma init_client_idle: "idle_client init_client"
  by (simp add: idle_client_def init_client_def iouringd_init_client_resources_def
      iouringd_reset_client_input_def empty_file_slot_def empty_buffer_slot_def)

text \<open>A daemon with 63 task slots and a ring of 64 entries, whose client 0 is connected and in the
  state \<open>f\<close> sets up.\<close>

definition demo_rt :: "(iouringd_client \<Rightarrow> iouringd_client) \<Rightarrow> iouringd_runtime" where
  "demo_rt f =
     iouringd_init_runtime
       \<lparr>rt_ring_capacity := 64, rt_task_capacity := 63, rt_per_client_credit_limit := 63,
        rt_client_output_capacity := 4096, rt_ring := fresh_ring 6 0 0,
        rt_clients := (replicate 64 init_client)
          [0 := f (init_client\<lparr>cl_fd := 5, cl_output_capacity := 4096\<rparr>)]\<rparr>"

lemma demo_core_ok:
  assumes "core_of_client (f (init_client\<lparr>cl_fd := 5, cl_output_capacity := 4096\<rparr>)) = core_of_client init_client"
  shows "core_ok (core_of (demo_rt f))"
proof -
  have "idle_client (f (init_client\<lparr>cl_fd := 5, cl_output_capacity := 4096\<rparr>))"
    using init_client_idle assms by (simp add: idle_client_def core_of_client_def)
  with init_client_idle show ?thesis
    by (intro idle_core_ok) (auto simp: demo_rt_def iouringd_init_runtime_def iouringd_init_limits_def
        dest!: set_update_subset_insert [THEN subsetD])
qed

section \<open>The outcome of a request\<close>

lemma moves_fields:
  assumes "moves i d e co co'"
  shows "co_outstanding co' = co_outstanding co" "co_credit co' = co_credit co"
    "co_capacity co' = co_capacity co" "co_next_id co' = co_next_id co"
    "co_max_clients co' = co_max_clients co" "co_credit_limit co' = co_credit_limit co"
    "k \<noteq> i \<Longrightarrow> co_clients co' ! k = co_clients co ! k"
proof -
  obtain c' where eq: "co'\<lparr>co_tasks := []\<rparr> = co\<lparr>co_tasks := [], co_clients := (co_clients co)[i := c']\<rparr>"
    using assms unfolding moves_def by blast
  from arg_cong [OF eq, of co_outstanding] arg_cong [OF eq, of co_credit]
    arg_cong [OF eq, of co_capacity] arg_cong [OF eq, of co_next_id]
    arg_cong [OF eq, of co_max_clients] arg_cong [OF eq, of co_credit_limit]
  show "co_outstanding co' = co_outstanding co" "co_credit co' = co_credit co"
    "co_capacity co' = co_capacity co" "co_next_id co' = co_next_id co"
    "co_max_clients co' = co_max_clients co" "co_credit_limit co' = co_credit_limit co"
    by simp_all
  from arg_cong [OF eq, of "\<lambda>co. co_clients co ! k"]
  show "k \<noteq> i \<Longrightarrow> co_clients co' ! k = co_clients co ! k" by simp
qed

lemma quiet_fields:
  assumes "quiet i rt rt'"
  shows "rt_tasks rt' = rt_tasks rt" "rt_outstanding_tasks rt' = rt_outstanding_tasks rt"
    "rt_outstanding_credit_tasks rt' = rt_outstanding_credit_tasks rt"
    "rt_next_task_id rt' = rt_next_task_id rt"
    "lim_max_clients (rt_limits rt') = lim_max_clients (rt_limits rt)"
  using assms moves_fields(1,2,4,5) [of i _ _ "core_of rt" "core_of rt'"]
  by (auto simp: quiet_def core_fields)

lemma submitted_fields:
  assumes "submitted i n t rt rt'"
  shows "rt_tasks rt' = (rt_tasks rt)[n := t]" "rt_outstanding_tasks rt' = rt_outstanding_tasks rt + 1"
    "rt_outstanding_credit_tasks rt' = rt_outstanding_credit_tasks rt + of_bool (tk_consumes_credit t)"
    "rt_next_task_id rt' = rt_next_task_id rt + 1"
    "lim_max_clients (rt_limits rt') = lim_max_clients (rt_limits rt)"
proof -
  obtain co where co: "takes i t (core_of rt) co" "co_tasks co = (rt_tasks rt)[n := t]"
    "core_of rt' = count_core i (tk_consumes_credit t) co"
    using assms by (auto simp: submitted_def)
  note f = moves_fields(1,2,4,5) [OF co(1) [unfolded takes_def]]
  show "rt_tasks rt' = (rt_tasks rt)[n := t]"
    using arg_cong [OF co(3), of co_tasks] co(2) by (simp add: core_length count_core_def)
  show "rt_outstanding_tasks rt' = rt_outstanding_tasks rt + 1"
    using arg_cong [OF co(3), of co_outstanding] f by (simp add: core_fields count_core_def)
  show "rt_outstanding_credit_tasks rt' = rt_outstanding_credit_tasks rt + of_bool (tk_consumes_credit t)"
    using arg_cong [OF co(3), of co_credit] f by (simp add: core_fields count_core_def)
  show "rt_next_task_id rt' = rt_next_task_id rt + 1"
    using arg_cong [OF co(3), of co_next_id] f by (simp add: core_fields count_core_def)
  show "lim_max_clients (rt_limits rt') = lim_max_clients (rt_limits rt)"
    using arg_cong [OF co(3), of co_max_clients] f by (simp add: core_fields count_core_def)
qed

text \<open>
  C5: dispatching a ready request keeps the accounting invariant, and either adds no task or adds
  exactly one. In the first case (control requests, refusals, submissions the kernel turned down)
  the task table, the counters and the identifier counter are as before. In the second case the
  request had passed admission control, a free task slot below the capacity now holds the task of
  this client with the next identifier, and the counters have grown by that task.
\<close>

theorem dispatch_request_outcome:
  assumes "core_ok (core_of rt)" and "i < lim_max_clients (rt_limits rt)"
    and "cl_request_ready (client_at rt i)"
    and "iouringd_dispatch_client_request sys i rt = (Inr x, rt')"
  shows "x \<and> core_ok (core_of rt')
    \<and> (rt_tasks rt' = rt_tasks rt \<and> rt_outstanding_tasks rt' = rt_outstanding_tasks rt
         \<and> rt_outstanding_credit_tasks rt' = rt_outstanding_credit_tasks rt
         \<and> rt_next_task_id rt' = rt_next_task_id rt
       \<or> (\<exists>n t. admission_error rt (client_at rt i) = None
            \<and> n < rt_task_capacity rt \<and> \<not> tk_active (task_at rt n) \<and> task_for i t rt
            \<and> rt_tasks rt' = (rt_tasks rt)[n := t]
            \<and> rt_outstanding_tasks rt' = rt_outstanding_tasks rt + 1
            \<and> rt_outstanding_credit_tasks rt'
                = rt_outstanding_credit_tasks rt + of_bool (uses_credit (tk_task_kind t))
            \<and> rt_next_task_id rt' = rt_next_task_id rt + 1))"
proof -
  have "x" "core_ok (core_of rt')"
    using dispatch_handled(1) [OF assms] dispatch_core_ok [OF assms(1,2,4)] by blast+
  moreover from dispatch_handled(2) [OF assms] consider "quiet i rt rt'"
    | n t where "admission_error rt (client_at rt i) = None" "submitted i n t rt rt'" by blast
  then have "rt_tasks rt' = rt_tasks rt \<and> rt_outstanding_tasks rt' = rt_outstanding_tasks rt
         \<and> rt_outstanding_credit_tasks rt' = rt_outstanding_credit_tasks rt
         \<and> rt_next_task_id rt' = rt_next_task_id rt
       \<or> (\<exists>n t. admission_error rt (client_at rt i) = None
            \<and> n < rt_task_capacity rt \<and> \<not> tk_active (task_at rt n) \<and> task_for i t rt
            \<and> rt_tasks rt' = (rt_tasks rt)[n := t]
            \<and> rt_outstanding_tasks rt' = rt_outstanding_tasks rt + 1
            \<and> rt_outstanding_credit_tasks rt'
                = rt_outstanding_credit_tasks rt + of_bool (uses_credit (tk_task_kind t))
            \<and> rt_next_task_id rt' = rt_next_task_id rt + 1)"
  proof cases
    case 1
    with quiet_fields [OF 1] show ?thesis by simp
  next
    case (2 n t)
    have "task_for i t rt" "n < rt_task_capacity rt" "\<not> tk_active (task_at rt n)"
      using 2(2) free_task_slot [of rt n] by (auto simp: submitted_def)
    moreover from this(1) have "tk_consumes_credit t = uses_credit (tk_task_kind t)"
      by (simp add: task_for_def)
    ultimately show ?thesis
      using 2(1) submitted_fields(1-4) [OF 2(2)] by (intro disjI2 exI [of _ n] exI [of _ t]) simp
  qed
  ultimately show ?thesis by blast
qed

text \<open>A connected client with a complete request for a no-op of normal priority.\<close>

definition demo_nop :: "iouringd_client \<Rightarrow> iouringd_client" where
  "demo_nop c = c\<lparr>cl_phase := IOURINGD_CLIENT_PHASE_SUBMIT, cl_request_ready := True,
     cl_request := (cl_request c)\<lparr>sr_task_kind := IOURINGD_TASK_KIND_NOP\<rparr>\<rparr>"

lemma demo_nop_ok: "core_ok (core_of (demo_rt demo_nop))"
  by (rule demo_core_ok) (simp add: demo_nop_def core_of_client_def)

lemma find_slot_first: "0 < n \<Longrightarrow> P (xs ! 0) \<Longrightarrow> find_slot P n xs = Some 0"
  by (simp add: find_slot_def upt_rec [of 0 n])

lemma demo_nop_admitted:
  "cl_request_ready (client_at (demo_rt demo_nop) 0)" "cl_control_op (client_at (demo_rt demo_nop) 0) = 0"
  "lim_max_clients (rt_limits (demo_rt demo_nop)) = 64"
  "submit_error (demo_rt demo_nop) (client_at (demo_rt demo_nop) 0) = None"
  "iouringd_find_free_task_slot (demo_rt demo_nop) = Some 0"
  by (simp_all add: demo_rt_def demo_nop_def init_client_def iouringd_init_runtime_def zero_client_def
      iouringd_init_client_resources_def iouringd_reset_client_input_def iouringd_init_limits_def
      submit_error_def admission_error_def cancel_error_def capability_error_def argument_error_def
      uses_credit_def iouringd_find_free_task_slot_def find_slot_first zero_request_def Let_def)

lemma fresh_ring_accepts:
  "\<exists>ring. ring_publish_sqe prompt_kernel sqe (fresh_ring 6 files bufs) = (Inr (), ring)"
  by (simp add: ring_publish_sqe_def ring_sq_full_def fresh_ring_def ring_store_sqe_def
      prompt_kernel_def Let_def)

lemma demo_rt_fields:
  "rt_next_task_id (demo_rt f) = 1" "rt_ring (demo_rt f) = fresh_ring 6 0 0"
  "client_at (demo_rt f) 0 = f (init_client\<lparr>cl_fd := 5, cl_output_capacity := 4096\<rparr>)"
  "length (rt_clients (demo_rt f)) = 64" "rt_ring_capacity (demo_rt f) = 64"
  "rt_task_capacity (demo_rt f) = 63" "rt_per_client_credit_limit (demo_rt f) = 63"
  "lim_max_clients (rt_limits (demo_rt f)) = 64" "rt_dispatch_cursor (demo_rt f) = 0"
  by (simp_all add: demo_rt_def iouringd_init_runtime_def iouringd_init_limits_def)

lemma demo_client_fields:
  "cl_output init_client = []" "cl_output_sent init_client = 0" "cl_control_op init_client = 0"
  by (simp_all add: init_client_def iouringd_init_client_resources_def
      iouringd_reset_client_input_def zero_client_def)

lemma demo_nop_dispatched:
  "\<exists>rt'. iouringd_dispatch_client_request demo_sys 0 (demo_rt demo_nop) = (Inr True, rt')
     \<and> rt_tasks rt' = (rt_tasks (demo_rt demo_nop))[0 := plain_task 0 (demo_rt demo_nop)]
     \<and> length (cl_output (client_at rt' 0)) \<le> 64"
proof -
  let ?rt = "demo_rt demo_nop" and ?t = "plain_task 0 (demo_rt demo_nop)"
  have kind: "tk_task_kind ?t = IOURINGD_TASK_KIND_NOP"
    by (simp add: plain_task_def new_task_def Let_def demo_rt_fields demo_nop_def)
  obtain ring where "ring_publish_sqe prompt_kernel
      (zero_sqe\<lparr>sqe_opcode := 0, sqe_user_data := tk_task_id ?t, sqe_addr := 0, sqe_len := 0\<rparr>)
      (fresh_ring 6 0 0) = (Inr (), ring)"
    using fresh_ring_accepts by blast
  then have "on_ring (submit_plain demo_sys 0 ?t) (set_task 0 ?t ?rt)
      = (Inr (), (set_task 0 ?t ?rt)\<lparr>rt_ring := ring\<rparr>)"
    using kind
    by (simp add: on_ring_def submit_plain_def iouringd_ring_submit_nop_def ring_queue_sqe_def
        demo_sys_def demo_rt_fields) (simp add: fresh_ring_def)
  then have "dispatch_plain demo_sys 0 ?rt = accept_request demo_sys 0 ?t
      (\<lambda>e rt. (Inl e, set_task 0 iouringd_clear_task_slot rt)) ((set_task 0 ?t ?rt)\<lparr>rt_ring := ring\<rparr>)"
    by (simp add: dispatch_plain_def demo_nop_admitted demo_rt_fields word_le_nat_alt Let_def)
  moreover have "\<exists>rt'. accept_request demo_sys 0 ?t
      (\<lambda>e rt. (Inl e, set_task 0 iouringd_clear_task_slot rt)) ((set_task 0 ?t ?rt)\<lparr>rt_ring := ring\<rparr>)
      = (Inr True, rt') \<and> rt_tasks rt' = (rt_tasks ?rt)[0 := ?t] \<and> length (cl_output (client_at rt' 0)) \<le> 64"
    by (simp add: accept_request_def iouringd_queue_submit_result_def on_client_def finish_request_def
        iouringd_queue_client_output_def count_task_def upd_client_def Let_def)
      (simp add: demo_rt_fields demo_nop_def demo_client_fields wire_simps iouringd_finish_client_request_def
        iouringd_reset_client_input_def)
  ultimately show ?thesis
    using demo_nop_admitted
    by (simp add: iouringd_dispatch_client_request_def dispatch_submit_def Let_def)
      (simp add: demo_rt_fields demo_nop_def)
qed

theorem dispatch_request_outcome_witness:
  "\<exists>rt'. iouringd_dispatch_client_request demo_sys 0 (demo_rt demo_nop) = (Inr True, rt')
     \<and> core_ok (core_of rt')"
proof -
  obtain rt' where out: "iouringd_dispatch_client_request demo_sys 0 (demo_rt demo_nop) = (Inr True, rt')"
    using demo_nop_dispatched by blast
  have "core_ok (core_of rt')"
    using dispatch_request_outcome [OF demo_nop_ok _ demo_nop_admitted(1) out] demo_nop_admitted(3)
    by simp
  with out show ?thesis by blast
qed

section \<open>Every submission is answered once\<close>

text \<open>The output buffer of a client, which only the replies touch.\<close>

definition io_of :: "iouringd_client \<Rightarrow> bytes \<times> nat \<times> nat" where
  "io_of c = (cl_output c, cl_output_sent c, cl_output_capacity c)"

lemma io_of_pending:
  "io_of c' = io_of c \<Longrightarrow> output_pending c' = output_pending c \<and> output_ok c' = output_ok c
    \<and> cl_output_capacity c' = cl_output_capacity c"
  by (simp add: io_of_def output_pending_def output_ok_def)

lemma io_of_simps [simp]:
  "io_of (set_file_slot j s c) = io_of c" "io_of (set_buffer_slot j b c) = io_of c"
  "io_of (upd_file_slot j f c) = io_of c" "io_of (upd_buffer_slot j g c) = io_of c"
  "io_of (add_in_flight x j k c) = io_of c" "io_of (iouringd_unallocate_resource_id r c) = io_of c"
  "io_of (iouringd_finish_client_request c) = io_of c" "io_of (c\<lparr>cl_received_fd := fd\<rparr>) = io_of c"
  by (simp_all add: io_of_def set_file_slot_def set_buffer_slot_def upd_file_slot_def
      upd_buffer_slot_def add_in_flight_def Let_def iouringd_unallocate_resource_id_def
      iouringd_finish_client_request_def split: option.splits)

lemma io_of_allocate:
  assumes "iouringd_allocate_resource_id c = (r, c1)"
  shows "io_of c1 = io_of c"
  using allocate_attempts_spec [OF assms [unfolded iouringd_allocate_resource_id_def]]
  by (auto simp: io_of_def)

lemma next_id_simps [simp]:
  "rt_next_task_id (set_client i c rt) = rt_next_task_id rt" "rt_next_task_id (set_task n t rt) = rt_next_task_id rt"
  "rt_next_task_id (upd_client i f rt) = rt_next_task_id rt"
  by (simp_all add: set_client_def set_task_def upd_client_def)

lemma io_of_upd:
  assumes "i < length (rt_clients rt)" and "\<And>c. io_of (f c) = io_of c"
  shows "io_of (client_at (upd_client i f rt) i) = io_of (client_at rt i)"
  using assms by (simp add: upd_client_def)

lemma io_of_clear_slot:
  "i < length (rt_clients rt) \<Longrightarrow> io_of (client_at (rt_clear_file_slot i j rt) i) = io_of (client_at rt i)"
  by (simp add: rt_clear_file_slot_def iouringd_clear_file_slot_def)

lemma unreserve_io:
  "i < length (rt_clients rt) \<Longrightarrow> io_of (client_at (unreserve_slot i j rt) i) = io_of (client_at rt i)"
  "length (rt_clients (unreserve_slot i j rt)) = length (rt_clients rt)"
  "rt_next_task_id (unreserve_slot i j rt) = rt_next_task_id rt"
  by (simp_all add: unreserve_slot_def io_of_clear_slot io_of_upd)
    (simp_all add: rt_clear_file_slot_def iouringd_clear_file_slot_def)

lemma give_back_io:
  "i < length (rt_clients rt) \<Longrightarrow>
    io_of (client_at (unallocate_result i result (give_back i j b result rt)) i) = io_of (client_at rt i)"
  "i < length (rt_clients rt) \<Longrightarrow> io_of (client_at (give_back i j b None rt) i) = io_of (client_at rt i)"
  by (cases result) (auto simp: unallocate_result_def give_back_def io_of_upd unreserve_io Let_def)

text \<open>
  Why a submission is refused before the ring sees it: by the checks of the request (\<open>submit_error\<close>),
  by the state of the resources it names, by the end of the identifiers or by a full task table. An
  accept may also be refused for want of a slot or an identifier for the new socket.
\<close>

definition slot_refusal :: "iouringd_runtime \<Rightarrow> errno option" where
  "slot_refusal rt =
     (if IOURINGD_TASK_ID_RESERVED_MIN \<le> rt_next_task_id rt then Some EOVERFLOW
      else if iouringd_find_free_task_slot rt = None then Some EAGAIN else None)"

definition open_refusal :: "iouringd_client \<Rightarrow> iouringd_runtime \<Rightarrow> errno option" where
  "open_refusal c rt =
     (if slot_refusal rt = Some EOVERFLOW then Some EOVERFLOW
      else if iouringd_find_free_file_slot c = None then Some EAGAIN
      else if fst (iouringd_allocate_resource_id c) = IOURINGD_RESOURCE_ID_INVALID then Some EOVERFLOW
      else slot_refusal rt)"

definition close_refusal :: "iouringd_client \<Rightarrow> iouringd_runtime \<Rightarrow> errno option" where
  "close_refusal c rt =
     (case iouringd_find_file_slot c (cl_resource_id c) of
        None \<Rightarrow> Some ENOENT
      | Some j \<Rightarrow>
          if fs_closing (cl_file_resources c ! j) then Some ENOENT
          else if fs_in_flight (cl_file_resources c ! j) \<noteq> 0 \<or> fs_daemon_fd (cl_file_resources c ! j) < 0
          then Some EBUSY
          else slot_refusal rt)"

definition io_refusal :: "iouringd_client \<Rightarrow> iouringd_runtime \<Rightarrow> errno option" where
  "io_refusal c rt = (case io_target c of Inl e \<Rightarrow> Some e | Inr p \<Rightarrow> slot_refusal rt)"

text \<open>The kinds that work on a registered file.\<close>

definition resource_kinds :: "u16 set" where
  "resource_kinds = {IOURINGD_TASK_KIND_SOCK_READ, IOURINGD_TASK_KIND_SOCK_WRITE,
     IOURINGD_TASK_KIND_FILE_READ, IOURINGD_TASK_KIND_FILE_WRITE, IOURINGD_TASK_KIND_POLL,
     IOURINGD_TASK_KIND_CONNECT, IOURINGD_TASK_KIND_ACCEPT,
     IOURINGD_TASK_KIND_SOCK_READ_FIXED, IOURINGD_TASK_KIND_SOCK_WRITE_FIXED}"

definition submit_refusal :: "nat \<Rightarrow> iouringd_runtime \<Rightarrow> errno option" where
  "submit_refusal i rt =
     (let c = client_at rt i; kind = sr_task_kind (cl_request c) in
      case submit_error rt c of
        Some e \<Rightarrow> Some e
      | None \<Rightarrow>
          if kind = IOURINGD_TASK_KIND_OPENAT then open_refusal c rt
          else if kind = IOURINGD_TASK_KIND_CLOSE then close_refusal c rt
          else if kind \<in> resource_kinds then io_refusal c rt
          else slot_refusal rt)"

text \<open>The errors of the ring: its own checks, a full queue, or what io_uring_enter returned.\<close>

definition ring_errors :: "sys \<Rightarrow> errno set" where
  "ring_errors sys = {EINVAL, EBUSY}
     \<union> {e. 0 < e \<and> (\<exists>calls ring head. k_enter (s_kernel sys) calls ring = (- e, head))}"

definition late_refusals :: "sys \<Rightarrow> nat \<Rightarrow> iouringd_runtime \<Rightarrow> errno set" where
  "late_refusals sys i rt = ring_errors sys
     \<union> (if sr_task_kind (cl_request (client_at rt i)) = IOURINGD_TASK_KIND_ACCEPT then {EAGAIN, EOVERFLOW} else {})"

text \<open>The verdict on a submission is \<open>None\<close> when it is accepted, and otherwise an errno.\<close>

definition decides :: "errno option \<Rightarrow> errno set \<Rightarrow> errno option \<Rightarrow> bool" where
  "decides early late verdict \<longleftrightarrow>
     (case early of Some e \<Rightarrow> verdict = Some e
      | None \<Rightarrow> (case verdict of None \<Rightarrow> True | Some e \<Rightarrow> e \<in> late))"

text \<open>The answer to a submission: one result record appended to the pending output, with the
  identifier of the new task and result 0, or with the invalid identifier and the negated errno.\<close>

definition answer_for ::
  "iouringd_runtime \<Rightarrow> iouringd_runtime \<Rightarrow> errno option \<Rightarrow> iouringd_submit_result_v1 \<Rightarrow> bool" where
  "answer_for rt rt' verdict m \<longleftrightarrow>
     (case verdict of
        None \<Rightarrow> sres_res m = IOURINGD_COMPLETION_RES_OK \<and> sres_task m = rt_next_task_id rt
          \<and> rt_next_task_id rt' = rt_next_task_id rt + 1
      | Some e \<Rightarrow> sres_res m = neg_errno e \<and> sres_task m = IOURINGD_TASK_ID_INVALID
          \<and> rt_next_task_id rt' = rt_next_task_id rt)"

definition answers ::
  "(errno option \<Rightarrow> bool) \<Rightarrow> nat \<Rightarrow> iouringd_runtime \<Rightarrow> (bool, iouringd_runtime) res \<Rightarrow> bool" where
  "answers P i rt out \<longleftrightarrow>
     (case out of (Inl e, rt') \<Rightarrow> True
      | (Inr x, rt') \<Rightarrow> (\<exists>verdict m. P verdict \<and> answer_for rt rt' verdict m
          \<and> output_pending (client_at rt' i) = output_pending (client_at rt i) @ enc_submit_result m
          \<and> output_ok (client_at rt' i)))"

lemma submit_result_appends:
  assumes "iouringd_queue_submit_result i task res rt = (Inr x, rt')"
    and "i < length (rt_clients rt)" and "output_ok (client_at rt i)"
  shows "\<exists>m. sres_task m = task \<and> sres_res m = res
      \<and> output_pending (client_at rt' i) = output_pending (client_at rt i) @ enc_submit_result m
      \<and> output_ok (client_at rt' i) \<and> length (rt_clients rt') = length (rt_clients rt)
      \<and> rt_next_task_id rt' = rt_next_task_id rt"
proof -
  let ?m = "\<lparr>sres_task = task, sres_res = res, sres_credits = iouringd_available_credits rt\<rparr>"
  obtain r c' where q: "iouringd_queue_client_output (enc_submit_result ?m) (client_at rt i) = (r, c')"
    by fastforce
  with assms(1) have "r = Inr x" "rt' = set_client i c' rt"
    by (auto simp: iouringd_queue_submit_result_def on_client_def)
  with q outq.put_cases [OF assms(3), of "enc_submit_result ?m"] assms(2) show ?thesis
    by (intro exI [of _ ?m]) auto
qed

lemma emit_client_at [simp]:
  "rt_clients (iouringd_emit_trace_event sys k ek tk p t r res cr rt) = rt_clients rt"
  by simp

lemma reject_answers:
  assumes "i < length (rt_clients rt1)" and "io_of (client_at rt1 i) = io_of (client_at rt i)"
    and "output_ok (client_at rt i)" and "rt_next_task_id rt1 = rt_next_task_id rt" and "P (Some e)"
  shows "answers P i rt (reject_request sys i e rt1)"
proof (cases "reject_request sys i e rt1")
  case (Pair r rt')
  show ?thesis
  proof (cases r)
    case (Inr x)
    let ?rt0 = "rt1\<lparr>rt_rejected_submits := rt_rejected_submits rt1 + 1\<rparr>"
    from Pair Inr obtain u rt2 where q: "iouringd_queue_submit_result i IOURINGD_TASK_ID_INVALID
        (neg_errno e) ?rt0 = (Inr u, rt2)"
      and rt': "rt' = upd_client i iouringd_finish_client_request (iouringd_emit_trace_event sys i
        IOURINGD_TRACE_EVENT_SUBMIT_REJECT (sr_task_kind (cl_request (client_at rt2 i)))
        (sr_priority (cl_request (client_at rt2 i))) IOURINGD_TASK_ID_INVALID
        (cl_resource_id (client_at rt2 i)) (neg_errno e) (iouringd_available_credits rt2) rt2)"
      unfolding reject_request_def iouringd_reject_submit_def Let_def
      by (auto elim!: bind_rc_cases simp: finish_request_def)
    from submit_result_appends [OF q] assms io_of_pending [OF assms(2)] obtain m where
      m: "sres_task m = IOURINGD_TASK_ID_INVALID" "sres_res m = neg_errno e"
        "output_pending (client_at rt2 i) = output_pending (client_at rt i) @ enc_submit_result m"
        "output_ok (client_at rt2 i)" "length (rt_clients rt2) = length (rt_clients rt1)"
        "rt_next_task_id rt2 = rt_next_task_id rt1"
      by auto
    have "io_of (client_at rt' i) = io_of (client_at rt2 i)"
      using rt' m(5) assms(1) by (auto simp: io_of_upd)
    from io_of_pending [OF this] m rt' assms(4) have "answer_for rt rt' (Some e) m"
      "output_pending (client_at rt' i) = output_pending (client_at rt i) @ enc_submit_result m"
      "output_ok (client_at rt' i)" by (auto simp: answer_for_def)
    with Pair Inr assms(5) show ?thesis by (auto simp: answers_def)
  qed (simp add: Pair answers_def)
qed

lemma count_task_io:
  "i < length (rt_clients rt) \<Longrightarrow> io_of (client_at (count_task i cr rt) i) = io_of (client_at rt i)"
  "length (rt_clients (count_task i cr rt)) = length (rt_clients rt)"
  "rt_next_task_id (count_task i cr rt) = rt_next_task_id rt + 1"
  by (simp_all add: count_task_def upd_client_def io_of_def)

lemma accept_answers:
  assumes "i < length (rt_clients rt1)" and "io_of (client_at rt1 i) = io_of (client_at rt i)"
    and "output_ok (client_at rt i)" and "tk_task_id t = rt_next_task_id rt"
    and "rt_next_task_id rt1 = rt_next_task_id rt" and "P None"
    and undo: "\<And>e rt y s. undo e rt \<noteq> (Inr y, s)"
  shows "answers P i rt (accept_request sys i t undo rt1)"
proof (cases "accept_request sys i t undo rt1")
  case (Pair r rt')
  show ?thesis
  proof (cases r)
    case (Inr x)
    let ?rt0 = "count_task i (tk_consumes_credit t) rt1"
    have io0: "io_of (client_at ?rt0 i) = io_of (client_at rt i)"
      using assms(1,2) by (simp add: count_task_io)
    obtain u rt2 where q: "iouringd_queue_submit_result i (tk_task_id t) IOURINGD_COMPLETION_RES_OK ?rt0
        = (Inr u, rt2)"
      and rt': "rt' = upd_client i iouringd_finish_client_request
        (iouringd_emit_trace_event sys i IOURINGD_TRACE_EVENT_SUBMIT_ACCEPT (tk_task_kind t)
          (tk_submit_priority t) (tk_task_id t) (tk_resource_id t) IOURINGD_COMPLETION_RES_OK
          (iouringd_available_credits rt2) rt2)"
      using Pair Inr undo unfolding accept_request_def
      by (auto simp: finish_request_def split: prod.splits sum.splits)
    from submit_result_appends [OF q] assms(1,3) io_of_pending [OF io0] obtain m where
      m: "sres_task m = tk_task_id t" "sres_res m = IOURINGD_COMPLETION_RES_OK"
        "output_pending (client_at rt2 i) = output_pending (client_at rt i) @ enc_submit_result m"
        "output_ok (client_at rt2 i)" "length (rt_clients rt2) = length (rt_clients rt1)"
        "rt_next_task_id rt2 = rt_next_task_id rt1 + 1"
      by (auto simp: count_task_io)
    have "io_of (client_at rt' i) = io_of (client_at rt2 i)"
      using rt' m(5) assms(1) by (auto simp: io_of_upd)
    from io_of_pending [OF this] m rt' assms(4,5) have "answer_for rt rt' None m"
      "output_pending (client_at rt' i) = output_pending (client_at rt i) @ enc_submit_result m"
      "output_ok (client_at rt' i)" by (auto simp: answer_for_def)
    with Pair Inr assms(6) show ?thesis by (auto simp: answers_def)
  qed (simp add: Pair answers_def)
qed

lemma answers_Inl [simp]: "answers P i rt (Inl e, s)"
  by (simp add: answers_def)

lemma on_ring_clients:
  "on_ring f rt = (r, rt') \<Longrightarrow> rt_clients rt' = rt_clients rt \<and> rt_next_task_id rt' = rt_next_task_id rt"
  by (auto simp: on_ring_def split: prod.splits)

lemmas ring_submits = iouringd_ring_submit_nop_def iouringd_ring_submit_timeout_def
  iouringd_ring_submit_cancel_def iouringd_ring_submit_readv_def iouringd_ring_submit_writev_def
  iouringd_ring_submit_poll_def iouringd_ring_submit_connect_def iouringd_ring_submit_accept_def
  iouringd_ring_submit_openat_def iouringd_ring_submit_close_def iouringd_ring_submit_read_fixed_def
  iouringd_ring_submit_write_fixed_def ring_queue_sqe_def ring_queue_rw_sqe_def ring_queue_poll_sqe_def
  ring_queue_connect_sqe_def ring_queue_accept_sqe_def ring_queue_openat_sqe_def ring_queue_close_sqe_def
  ring_queue_fixed_buffer_sqe_def

lemma publish_errors:
  assumes "ring_publish_sqe (s_kernel sys) sqe ring = (Inl e, ring')"
  shows "e \<in> ring_errors sys"
proof (cases "ring_sq_full ring")
  case True
  with assms show ?thesis by (simp add: ring_publish_sqe_def ring_errors_def)
next
  case False
  obtain rc head where "k_enter (s_kernel sys) (rg_calls (ring_store_sqe sqe ring)) (ring_store_sqe sqe ring) = (rc, head)"
    by fastforce
  with assms False show ?thesis
    by (auto simp: ring_publish_sqe_def ring_errors_def Let_def split: if_splits)
qed

lemma submit_errors:
  "on_ring (submit_plain sys n t) rt = (Inl e, rt') \<Longrightarrow> e \<in> ring_errors sys"
  "on_ring (iouringd_ring_submit_openat (s_kernel sys) a b c d f g) rt = (Inl e, rt') \<Longrightarrow> e \<in> ring_errors sys"
  "on_ring (iouringd_ring_submit_close (s_kernel sys) a b g) rt = (Inl e, rt') \<Longrightarrow> e \<in> ring_errors sys"
  "submit_io sys i j n rt = (Inl e, rt') \<Longrightarrow> e \<in> ring_errors sys"
  unfolding submit_plain_def submit_io_def on_ring_def ring_submits Let_def
  by (auto split: if_splits prod.splits dest: publish_errors simp: ring_errors_def)

lemma ring_outcome:
  "on_ring (submit_plain sys n t) rt = (r, rt') \<Longrightarrow> rt_clients rt' = rt_clients rt
    \<and> rt_next_task_id rt' = rt_next_task_id rt \<and> (\<forall>e. r = Inl e \<longrightarrow> e \<in> ring_errors sys)"
  "on_ring (iouringd_ring_submit_openat (s_kernel sys) a b c d f g) rt = (r, rt') \<Longrightarrow> rt_clients rt' = rt_clients rt
    \<and> rt_next_task_id rt' = rt_next_task_id rt \<and> (\<forall>e. r = Inl e \<longrightarrow> e \<in> ring_errors sys)"
  "on_ring (iouringd_ring_submit_close (s_kernel sys) a b g) rt = (r, rt') \<Longrightarrow> rt_clients rt' = rt_clients rt
    \<and> rt_next_task_id rt' = rt_next_task_id rt \<and> (\<forall>e. r = Inl e \<longrightarrow> e \<in> ring_errors sys)"
  by (auto dest: on_ring_clients submit_errors(1-3))

lemma task_ids [simp]:
  "tk_task_id (plain_task i rt) = rt_next_task_id rt" "tk_task_id (open_task i j r rt) = rt_next_task_id rt"
  "tk_task_id (close_task i j fd rt) = rt_next_task_id rt" "tk_task_id (io_task i j b rt) = rt_next_task_id rt"
  by (simp_all add: plain_task_def open_task_def close_task_def io_task_def new_task_def Let_def)

lemma dispatch_plain_answers:
  assumes i: "i < length (rt_clients rt)" and ok: "output_ok (client_at rt i)"
  shows "answers (decides (slot_refusal rt) (ring_errors sys)) i rt (dispatch_plain sys i rt)"
  unfolding dispatch_plain_def Let_def
  using assms
  by (auto split: option.splits prod.splits sum.splits dest!: ring_outcome
      intro!: reject_answers accept_answers simp: decides_def slot_refusal_def)

lemma dispatch_openat_answers:
  assumes i: "i < length (rt_clients rt)" and ok: "output_ok (client_at rt i)"
  shows "answers (decides (open_refusal (client_at rt i) rt) (ring_errors sys)) i rt (dispatch_openat sys i rt)"
  unfolding dispatch_openat_def Let_def
  using assms
  by (auto split: option.splits prod.splits sum.splits dest!: ring_outcome io_of_allocate
      intro!: reject_answers accept_answers
      simp: io_of_upd unreserve_io set_client_def decides_def open_refusal_def slot_refusal_def
        iouringd_find_free_task_slot_def)

lemma update_file_clients:
  "rt_update_file sys g fd rt = (r, rt') \<Longrightarrow> rt_clients rt' = rt_clients rt \<and> rt_next_task_id rt' = rt_next_task_id rt"
  by (auto simp: rt_update_file_def split: prod.splits)

lemma dispatch_close_answers:
  assumes i: "i < length (rt_clients rt)" and ok: "output_ok (client_at rt i)"
  shows "answers (decides (close_refusal (client_at rt i) rt) (ring_errors sys)) i rt (dispatch_close sys i rt)"
  unfolding dispatch_close_def Let_def bind_rc_def
  using assms
  by (auto split: option.splits prod.splits sum.splits dest!: ring_outcome update_file_clients
      intro!: reject_answers accept_answers simp: io_of_upd decides_def close_refusal_def slot_refusal_def)

lemma reserve_result_io:
  assumes "reserve_result i n rt = (r, rt')" and "i < length (rt_clients rt)"
  shows "io_of (client_at rt' i) = io_of (client_at rt i)" and "length (rt_clients rt') = length (rt_clients rt)"
    and "n < length (rt_tasks rt) \<Longrightarrow> n < length (rt_tasks rt') \<and> tk_task_id (task_at rt' n) = tk_task_id (task_at rt n)"
    and "rt_next_task_id rt' = rt_next_task_id rt"
    and "r = Inl e \<Longrightarrow> tk_task_kind (task_at rt n) = IOURINGD_TASK_KIND_ACCEPT \<and> e \<in> {EAGAIN, EOVERFLOW}"
  using assms unfolding reserve_result_def reserve_accept_def bind_rc_def Let_def
  by (auto split: if_splits option.splits prod.splits sum.splits dest!: io_of_allocate)

lemma load_submit_io:
  assumes "submit_io sys i j n (load_io_buffer i n rt) = (r, rt')" and "n < length (rt_tasks rt)"
  shows "rt_clients rt' = rt_clients rt" and "tk_task_id (task_at rt' n) = tk_task_id (task_at rt n)"
    and "rt_next_task_id rt' = rt_next_task_id rt"
proof -
  note io = submit_io_core [OF assms(1)]
  show "rt_clients rt' = rt_clients rt" "tk_task_id (task_at rt' n) = tk_task_id (task_at rt n)"
    using io assms(2) by (auto simp: load_io_buffer_def Let_def split: if_splits)
  have "rt_next_task_id rt' = rt_next_task_id (load_io_buffer i n rt)"
    using io by (metis core_fields(2))
  then show "rt_next_task_id rt' = rt_next_task_id rt" by (simp add: load_io_buffer_def Let_def)
qed

lemma dispatch_resource_io_answers:
  assumes i: "i < length (rt_clients rt)" and ok: "output_ok (client_at rt i)"
    and n: "rt_task_capacity rt \<le> length (rt_tasks rt)"
  shows "answers (decides (io_refusal (client_at rt i) rt) (late_refusals sys i rt)) i rt (dispatch_resource_io sys i rt)"
proof (cases "io_target (client_at rt i)")
  case (Inl e)
  with assms show ?thesis by (simp add: dispatch_resource_io_def reject_answers decides_def io_refusal_def)
next
  case (Inr p)
  then obtain j b where target: "io_target (client_at rt i) = Inr (j, b)" by (cases p) auto
  show ?thesis
  proof (cases rt rule: submit_cases)
    case (free n)
    define rt1 where "rt1 = upd_client i (add_in_flight 1 j b) (set_task n (io_task i j b rt) rt)"
    obtain x rt2 where res: "reserve_result i n rt1 = (x, rt2)" by fastforce
    have n1: "n < length (rt_tasks rt)" using free_task_slot [OF free(2)] n by simp
    have rt1: "io_of (client_at rt1 i) = io_of (client_at rt i)" "i < length (rt_clients rt1)"
      "n < length (rt_tasks rt1)" "tk_task_id (task_at rt1 n) = rt_next_task_id rt"
      "tk_task_kind (task_at rt1 n) = sr_task_kind (cl_request (client_at rt i))" "rt_next_task_id rt1 = rt_next_task_id rt"
      using i n1 by (simp_all add: rt1_def io_of_upd io_task_def new_task_def Let_def)
    note rt2 = reserve_result_io [OF res rt1(2)]
    obtain y rt3 where sub: "submit_io sys i j n (load_io_buffer i n rt2) = (y, rt3)" by fastforce
    have rt3: "rt_clients rt3 = rt_clients rt2" "tk_task_id (task_at rt3 n) = rt_next_task_id rt"
      "rt_next_task_id rt3 = rt_next_task_id rt"
      using load_submit_io [OF sub] rt2(3,4) rt1 by simp_all
    have late: "e \<in> late_refusals sys i rt" if "x = Inl e \<or> y = Inl e" for e
      using that rt2(5) [of e] rt1(5) submit_errors(4) [of sys i j n] sub by (auto simp: late_refusals_def)
    have early: "io_refusal (client_at rt i) rt = None"
      using target free by (simp add: io_refusal_def slot_refusal_def)
    have i2: "i < length (rt_clients rt2)" "io_of (client_at rt2 i) = io_of (client_at rt i)"
      "rt_next_task_id rt2 = rt_next_task_id rt"
      using rt1 rt2 by simp_all
    have lens: "length (rt_clients (give_back i j b result rt)) = length (rt_clients rt)"
      "length (rt_clients (unallocate_result i result rt)) = length (rt_clients rt)"
      "rt_next_task_id (give_back i j b result rt) = rt_next_task_id rt"
      "rt_next_task_id (unallocate_result i result rt) = rt_next_task_id rt" for result rt
      by (auto simp: give_back_def unallocate_result_def unreserve_io Let_def split: option.splits prod.splits)
    show ?thesis
      using target free(2) free(1) [folded not_le] res sub i2 rt3 ok i late
      by (cases x; cases y)
        (auto simp: dispatch_resource_io_def Let_def rt1_def [symmetric] lens give_back_io decides_def early
          intro!: reject_answers accept_answers)
  qed (use assms in \<open>simp_all add: dispatch_resource_io_def target reject_answers decides_def io_refusal_def
      slot_refusal_def not_le\<close>)
qed

text \<open>A refused submission: the invalid identifier, the negated errno, and no task.\<close>

definition refused_with ::
  "errno \<Rightarrow> iouringd_submit_result_v1 \<Rightarrow> iouringd_runtime \<Rightarrow> iouringd_runtime \<Rightarrow> bool" where
  "refused_with e m rt rt' \<longleftrightarrow> sres_task m = IOURINGD_TASK_ID_INVALID \<and> sres_res m = neg_errno e
     \<and> rt_tasks rt' = rt_tasks rt"

text \<open>A granted submission: result 0 and the identifier of the one task that was added, in a slot that
  was free, with the next identifier and the kind and priority of the request.\<close>

definition granted_with ::
  "nat \<Rightarrow> iouringd_submit_result_v1 \<Rightarrow> iouringd_runtime \<Rightarrow> iouringd_runtime \<Rightarrow> bool" where
  "granted_with i m rt rt' \<longleftrightarrow> sres_res m = IOURINGD_COMPLETION_RES_OK
     \<and> (\<exists>n t. n < rt_task_capacity rt \<and> \<not> tk_active (task_at rt n) \<and> task_for i t rt
          \<and> rt_tasks rt' = (rt_tasks rt)[n := t] \<and> sres_task m = tk_task_id t)"

lemma verdict_outcome:
  assumes "answer_for rt rt' verdict m" and "quiet i rt rt' \<or> (\<exists>n t. submitted i n t rt rt')"
  shows "case verdict of None \<Rightarrow> granted_with i m rt rt' | Some e \<Rightarrow> refused_with e m rt rt'"
proof (cases verdict)
  case None
  with assms(1) have id: "rt_next_task_id rt' = rt_next_task_id rt + 1" by (simp add: answer_for_def)
  then have "\<not> quiet i rt rt'" using quiet_fields(4) [of i rt rt'] by auto
  with assms(2) obtain n t where sub: "submitted i n t rt rt'" by blast
  then have "task_for i t rt" "n < rt_task_capacity rt" "\<not> tk_active (task_at rt n)"
    using free_task_slot [of rt n] by (auto simp: submitted_def)
  moreover from this(1) have "tk_task_id t = rt_next_task_id rt" by (simp add: task_for_def)
  moreover have "sres_task m = rt_next_task_id rt" "sres_res m = IOURINGD_COMPLETION_RES_OK"
    using None assms(1) by (simp_all add: answer_for_def)
  ultimately have "granted_with i m rt rt'"
    using submitted_fields(1) [OF sub] unfolding granted_with_def by metis
  with None show ?thesis by simp
next
  case (Some e)
  with assms(1) have id: "rt_next_task_id rt' = rt_next_task_id rt" by (simp add: answer_for_def)
  then have "quiet i rt rt'" using assms(2) submitted_fields(4) [of i _ _ rt rt'] by auto
  with Some assms(1) quiet_fields(1) [of i rt rt'] show ?thesis
    by (simp add: refused_with_def answer_for_def)
qed

lemma answers_mono: "answers P i rt out \<Longrightarrow> (\<And>v. P v \<Longrightarrow> Q v) \<Longrightarrow> answers Q i rt out"
  by (auto simp: answers_def split: prod.splits sum.splits)

lemma decides_late: "decides early (ring_errors sys) v \<Longrightarrow> decides early (late_refusals sys i rt) v"
  by (auto simp: decides_def late_refusals_def split: option.splits)

lemma dispatch_submit_answers:
  assumes "i < length (rt_clients rt)" and "output_ok (client_at rt i)" and "rt_task_capacity rt \<le> length (rt_tasks rt)"
  shows "answers (decides (submit_refusal i rt) (late_refusals sys i rt)) i rt (dispatch_submit sys i rt)"
proof (cases "submit_error rt (client_at rt i)")
  case None
  note ring = answers_mono [OF _ decides_late [where sys = sys and i = i and rt = rt]]
  note ring [OF dispatch_plain_answers [OF assms(1,2)]] ring [OF dispatch_openat_answers [OF assms(1,2)]]
    ring [OF dispatch_close_answers [OF assms(1,2)]] dispatch_resource_io_answers [OF assms]
  with None show ?thesis
    unfolding dispatch_submit_def submit_refusal_def Let_def resource_kinds_def [symmetric] by simp
next
  case (Some e)
  with assms show ?thesis
    by (simp add: dispatch_submit_def submit_refusal_def Let_def reject_answers decides_def)
qed



end
