(* ===== verification/Completing.thy ===== *)
theory Completing
  imports Dispatching
begin

text \<open>
  Completing a task keeps the accounting invariant: the slots the task held are given back exactly
  once, the counters lose exactly that task, and its slot is free again. A completion is queued for
  the client that submitted the task and for no other.
\<close>

section \<open>Steps that change no count\<close>

lemma moves_slots:
  assumes "moves i d e (core_of rt) (core_of rt')" and "i < length (rt_clients rt)"
  shows "j < 32 \<Longrightarrow> fs_in_flight (cl_file_resources (client_at rt' i) ! j)
      = fs_in_flight (cl_file_resources (client_at rt i) ! j) + d j"
    and "j < 4 \<Longrightarrow> bs_in_flight (cl_buffer_resources (client_at rt' i) ! j)
      = bs_in_flight (cl_buffer_resources (client_at rt i) ! j) + e j"
    and "cl_file_slot_limit (client_at rt' i) = cl_file_slot_limit (client_at rt i)"
    and "cl_buffer_slot_limit (client_at rt' i) = cl_buffer_slot_limit (client_at rt i)"
    and "cl_generation (client_at rt' i) = cl_generation (client_at rt i)"
proof -
  have i': "i < length (rt_clients rt')"
    using moves_length [OF assms(1)] assms(2) by (simp add: core_length)
  obtain c' where eq: "(core_of rt')\<lparr>co_tasks := []\<rparr>
      = (core_of rt)\<lparr>co_tasks := [], co_clients := (co_clients (core_of rt))[i := c']\<rparr>"
    and c': "cc_generation c' = cc_generation (co_clients (core_of rt) ! i)"
      "cc_file_limit c' = cc_file_limit (co_clients (core_of rt) ! i)"
      "cc_buffer_limit c' = cc_buffer_limit (co_clients (core_of rt) ! i)"
      "\<forall>j < 32. fs_in_flight (cc_files c' ! j) = fs_in_flight (cc_files (co_clients (core_of rt) ! i) ! j) + d j"
      "\<forall>j < 4. bs_in_flight (cc_buffers c' ! j) = bs_in_flight (cc_buffers (co_clients (core_of rt) ! i) ! j) + e j"
    using assms(1) unfolding moves_def by auto
  from arg_cong [OF eq, of "\<lambda>co. co_clients co ! i"] assms(2) i'
  have "c' = core_of_client (client_at rt' i)" by (simp add: core_length core_client_at)
  with c' core_client_at [OF assms(2)]
  show "j < 32 \<Longrightarrow> fs_in_flight (cl_file_resources (client_at rt' i) ! j)
      = fs_in_flight (cl_file_resources (client_at rt i) ! j) + d j"
    "j < 4 \<Longrightarrow> bs_in_flight (cl_buffer_resources (client_at rt' i) ! j)
      = bs_in_flight (cl_buffer_resources (client_at rt i) ! j) + e j"
    "cl_file_slot_limit (client_at rt' i) = cl_file_slot_limit (client_at rt i)"
    "cl_buffer_slot_limit (client_at rt' i) = cl_buffer_slot_limit (client_at rt i)"
    "cl_generation (client_at rt' i) = cl_generation (client_at rt i)"
    by (simp_all add: client_fields)
qed

lemma kernel_fill_core: "core_of (kernel_fill_buffer sys t res rt) = core_of rt"
  by (simp add: kernel_fill_buffer_def Let_def)

lemma register_result_quiet:
  assumes "register_result sys t fd rt = (r, rt')" and "tk_client_index t = i" and "i < length (rt_clients rt)"
  shows "quiet i rt rt'"
proof -
  let ?m = "nat (tk_result_file_slot_index t)"
  let ?f = "\<lambda>s. s\<lparr>fs_resource_id := tk_result_resource_id t, fs_daemon_fd := fd,
    fs_registered := True, fs_closing := False\<rparr>"
  obtain u rt1 where upd: "rt_update_file sys (iouringd_global_file_index rt i ?m) fd rt = (u, rt1)"
    by fastforce
  note c1 = rt_update_file_core [OF upd]
  have "quiet i rt1 (upd_client i (upd_file_slot ?m ?f) rt1)"
    using c1 assms(3) by (intro upd_slot_quiet) simp_all
  from quiet_core_left [OF _ this] c1 have "quiet i rt (upd_client i (upd_file_slot ?m ?f) rt1)" by simp
  with assms(1,2) upd c1 show ?thesis
    by (cases u) (auto simp: register_result_def Let_def intro: quiet_core)
qed

lemma prepare_accept_quiet:
  assumes "iouringd_prepare_accept_completion sys t (cp, p) rt = (out, rt')"
    and "tk_client_index t = i" and "i < length (rt_clients rt)"
  shows "quiet i rt rt'"
  using assms(1) register_result_quiet [OF _ assms(2,3)]
  by (auto simp: iouringd_prepare_accept_completion_def Let_def intro: quiet_core
      split: if_splits prod.splits sum.splits)

lemma prepare_openat_quiet:
  assumes "iouringd_prepare_openat_completion sys t cp rt = (out, rt')"
    and "tk_client_index t = i" and "i < length (rt_clients rt)"
  shows "quiet i rt rt'"
  using assms(1) register_result_quiet [OF _ assms(2,3)]
  by (auto simp: iouringd_prepare_openat_completion_def Let_def intro: quiet_core
      split: if_splits prod.splits sum.splits)

lemma take_read_payload_quiet:
  assumes "take_read_payload t res p rt = (out, rt')" and "tk_client_index t = i" and "i < length (rt_clients rt)"
  shows "quiet i rt rt'"
  using assms by (auto simp: take_read_payload_def Let_def intro: quiet_core upd_slot_quiet(2) split: if_splits)

lemma queue_completion_core:
  assumes "queue_completion t cp p rt = (r, rt')"
  shows "core_of rt' = core_of rt"
  using assms unfolding queue_completion_def Let_def
  by (auto split: if_splits option.splits elim!: bind_rc_cases
      dest!: on_client_core [OF _ queue_output_core])

section \<open>Giving back the slots of a task\<close>

definition idx_dlt :: "int \<Rightarrow> u32 \<Rightarrow> nat \<Rightarrow> u32" where
  "idx_dlt k x = (if 0 \<le> k then dlt (nat k) x else (\<lambda>_. 0))"

lemma stays_then:
  assumes "moves i d e (core_of rt) (core_of rt1)" and "quiet i rt1 rt2" and "i < length (rt_clients rt)"
  shows "moves i d e (core_of rt) (core_of rt2)" and "rt_tasks rt2 = rt_tasks rt1"
  using assms moves_stays [of i d e "core_of rt" "core_of rt1" "core_of rt2"]
  by (auto simp: quiet_def core_length)

lemma drop_file_moves:
  assumes "i < length (rt_clients rt)" and "j < length (cl_file_resources (client_at rt i))"
    and "fs_in_flight (cl_file_resources (client_at rt i) ! j) \<noteq> 0"
  shows "moves i (dlt j (- 1)) (\<lambda>_. 0) (core_of rt) (core_of (upd_client i (upd_file_slot j drop_in_flight) rt))"
  using assms by (intro upd_file_slot_moves) (simp_all add: drop_in_flight_def)

lemma release_task_file_moves:
  assumes out: "release_task_file sys t rt = (Inr u, rt')" and i: "tk_client_index t = i" "i < length (rt_clients rt)"
    and idx: "index_ok (tk_file_slot_index t) (cl_file_slot_limit (client_at rt i))"
    and len: "cl_file_slot_limit (client_at rt i) \<le> length (cl_file_resources (client_at rt i))"
    and flight: "0 \<le> tk_file_slot_index t \<Longrightarrow>
      fs_in_flight (cl_file_resources (client_at rt i) ! nat (tk_file_slot_index t)) \<noteq> 0"
  shows "moves i (idx_dlt (tk_file_slot_index t) (- 1)) (\<lambda>_. 0) (core_of rt) (core_of rt')
    \<and> rt_tasks rt' = rt_tasks rt"
proof (cases "0 \<le> tk_file_slot_index t")
  case True
  let ?j = "nat (tk_file_slot_index t)"
  let ?rt1 = "upd_client i (upd_file_slot ?j drop_in_flight) rt"
  have j: "tk_file_slot_index t < int (cl_file_slot_limit (client_at rt i))"
    using idx True by (auto simp: index_ok_def)
  have mv: "moves i (dlt ?j (- 1)) (\<lambda>_. 0) (core_of rt) (core_of ?rt1)"
    using i j len True flight by (intro drop_file_moves) auto
  have "quiet i ?rt1 rt'"
    using out i j True try_release_quiet(1) [of sys i ?j ?rt1 "Inr u" rt']
    by (auto simp: release_task_file_def Let_def intro: quiet_core split: if_splits)
  from stays_then [OF mv this i(2)] True show ?thesis by (simp add: idx_dlt_def)
qed (use out in \<open>simp add: release_task_file_def idx_dlt_def Let_def moves_refl\<close>)

lemma release_task_result_moves:
  assumes out: "release_task_result sys t rt = (Inr u, rt')" and i: "tk_client_index t = i" "i < length (rt_clients rt)"
    and idx: "index_ok (tk_result_file_slot_index t) (cl_file_slot_limit (client_at rt i))"
    and len: "cl_file_slot_limit (client_at rt i) \<le> length (cl_file_resources (client_at rt i))"
    and flight: "0 \<le> tk_result_file_slot_index t \<Longrightarrow>
      fs_in_flight (cl_file_resources (client_at rt i) ! nat (tk_result_file_slot_index t)) \<noteq> 0"
  shows "moves i (idx_dlt (tk_result_file_slot_index t) (- 1)) (\<lambda>_. 0) (core_of rt) (core_of rt')
    \<and> rt_tasks rt' = rt_tasks rt"
proof (cases "0 \<le> tk_result_file_slot_index t")
  case True
  let ?j = "nat (tk_result_file_slot_index t)"
  let ?rt1 = "upd_client i (upd_file_slot ?j drop_in_flight) rt"
  have j: "tk_result_file_slot_index t < int (cl_file_slot_limit (client_at rt i))"
    using idx True by (auto simp: index_ok_def)
  have mv: "moves i (dlt ?j (- 1)) (\<lambda>_. 0) (core_of rt) (core_of ?rt1)"
    using i j len True flight by (intro drop_file_moves) auto
  have "quiet i ?rt1 rt'"
    using out i j True try_release_quiet(1) [of sys i ?j ?rt1 "Inr u" rt']
    by (auto simp: release_task_result_def Let_def intro: quiet_core split: if_splits)
  from stays_then [OF mv this i(2)] True show ?thesis by (simp add: idx_dlt_def)
qed (use out in \<open>simp add: release_task_result_def idx_dlt_def Let_def moves_refl\<close>)

lemma release_task_buffer_moves:
  assumes out: "release_task_buffer t rt = (Inr u, rt')" and i: "tk_client_index t = i" "i < length (rt_clients rt)"
    and idx: "index_ok (tk_buffer_slot_index t) (cl_buffer_slot_limit (client_at rt i))"
    and len: "cl_buffer_slot_limit (client_at rt i) \<le> length (cl_buffer_resources (client_at rt i))"
    and flight: "0 \<le> tk_buffer_slot_index t \<Longrightarrow>
      bs_in_flight (cl_buffer_resources (client_at rt i) ! nat (tk_buffer_slot_index t)) \<noteq> 0"
  shows "moves i (\<lambda>_. 0) (idx_dlt (tk_buffer_slot_index t) (- 1)) (core_of rt) (core_of rt')
    \<and> rt_tasks rt' = rt_tasks rt"
proof (cases "0 \<le> tk_buffer_slot_index t")
  case True
  let ?j = "nat (tk_buffer_slot_index t)"
  let ?rt1 = "upd_client i (upd_buffer_slot ?j drop_buffer_in_flight) rt"
  have j: "tk_buffer_slot_index t < int (cl_buffer_slot_limit (client_at rt i))"
    using idx True by (auto simp: index_ok_def)
  have mv: "moves i (\<lambda>_. 0) (dlt ?j (- 1)) (core_of rt) (core_of ?rt1)"
    using i j len True flight by (intro upd_buffer_slot_moves) (auto simp: drop_buffer_in_flight_def)
  have "quiet i ?rt1 rt'"
    using out i j True try_release_quiet(2) [of i ?j ?rt1 "Inr u" rt']
    by (auto simp: release_task_buffer_def Let_def intro: quiet_core split: if_splits)
  from stays_then [OF mv this i(2)] True show ?thesis by (simp add: idx_dlt_def)
qed (use out in \<open>simp add: release_task_buffer_def idx_dlt_def Let_def moves_refl\<close>)

section \<open>The task leaves the table\<close>

definition uncount_core :: "nat \<Rightarrow> bool \<Rightarrow> core \<Rightarrow> core" where
  "uncount_core i credit co =
     co\<lparr>co_outstanding := co_outstanding co - 1, co_credit := co_credit co - of_bool credit,
        co_clients := (co_clients co)[i := (co_clients co ! i)
          \<lparr>cc_outstanding := cc_outstanding (co_clients co ! i) - 1,
           cc_credit := cc_credit (co_clients co ! i) - of_bool credit\<rparr>]\<rparr>"

lemma finish_task_counts_core:
  assumes i: "tk_client_index t = i" "i < length (rt_clients rt)" "i < lim_max_clients (rt_limits rt)"
    and out: "0 < rt_outstanding_tasks rt" "rt_outstanding_tasks rt < 2 ^ 64"
    and cred: "tk_consumes_credit t \<Longrightarrow> 0 < rt_outstanding_credit_tasks rt \<and> rt_outstanding_credit_tasks rt < 2 ^ 64"
  shows "core_of (finish_task_counts t rt) = uncount_core i (tk_consumes_credit t) (core_of rt)"
proof -
  have at: "co_clients (core_of rt) ! i = core_of_client (client_at rt i)"
    using i(2) by (rule core_client_at)
  have eq: "core_of (finish_task_counts t rt) = (core_of rt)
      \<lparr>co_outstanding := size_sub (rt_outstanding_tasks rt) 1,
       co_credit := (if tk_consumes_credit t then size_sub (rt_outstanding_credit_tasks rt) 1
         else rt_outstanding_credit_tasks rt),
       co_clients := (co_clients (core_of rt))[i := (core_of_client (client_at rt i))
          \<lparr>cc_outstanding := cl_outstanding_tasks (client_at rt i) - 1,
           cc_credit := cl_outstanding_credit_tasks (client_at rt i) - of_bool (tk_consumes_credit t)\<rparr>]\<rparr>"
    using i
    by (cases "tk_consumes_credit t")
      (simp_all add: finish_task_counts_def Let_def upd_client_def core_of_def set_client_def
        core_of_client_def map_update)
  show ?thesis
    unfolding eq uncount_core_def at using out cred
    by (cases "tk_consumes_credit t") (simp_all add: core_fields client_fields)
qed

lemma core_ok_finish:
  assumes ok: "core_ok co" and n: "n < 64" and act: "tk_active (co_tasks co ! n)"
    and i: "i = tk_client_index (co_tasks co ! n)"
    and mv: "moves i (\<lambda>k. - of_bool (file_ref i k (co_tasks co ! n)))
      (\<lambda>k. - of_bool (buffer_ref i k (co_tasks co ! n))) co co4"
    and tasks: "co_tasks co4 = co_tasks co"
  shows "core_ok ((uncount_core i (tk_consumes_credit (co_tasks co ! n)) co4)
    \<lparr>co_tasks := (co_tasks co)[n := iouringd_clear_task_slot]\<rparr>)"
proof -
  note D = core_okD [OF ok]
  let ?t = "co_tasks co ! n" and ?c = "co_clients co ! i"
  have i64: "i < 64" using core_ok_task [OF ok n act] D(3) i by (simp add: task_ok_def)
  note cl = core_ok_client [OF ok i64]
  obtain c'' where eq: "co4\<lparr>co_tasks := []\<rparr> = co\<lparr>co_tasks := [], co_clients := (co_clients co)[i := c'']\<rparr>"
    and c'': "cc_generation c'' = cc_generation ?c" "cc_file_limit c'' = cc_file_limit ?c"
       "cc_buffer_limit c'' = cc_buffer_limit ?c" "cc_outstanding c'' = cc_outstanding ?c"
       "cc_credit c'' = cc_credit ?c" "length (cc_files c'') = length (cc_files ?c)"
       "length (cc_buffers c'') = length (cc_buffers ?c)"
       "\<forall>j < 32. fs_in_flight (cc_files c'' ! j) = fs_in_flight (cc_files ?c ! j) + - of_bool (file_ref i j ?t)"
       "\<forall>j < 4. bs_in_flight (cc_buffers c'' ! j) = bs_in_flight (cc_buffers ?c ! j) + - of_bool (buffer_ref i j ?t)"
    using mv unfolding moves_def by auto
  let ?c' = "c''\<lparr>cc_outstanding := cc_outstanding c'' - 1,
    cc_credit := cc_credit c'' - of_bool (tk_consumes_credit ?t)\<rparr>"
  have "co4 = (co4\<lparr>co_tasks := []\<rparr>)\<lparr>co_tasks := co_tasks co4\<rparr>" by simp
  also have "\<dots> = co\<lparr>co_clients := (co_clients co)[i := c'']\<rparr>" unfolding eq tasks by simp
  finally have co4: "co4 = co\<lparr>co_clients := (co_clients co)[i := c'']\<rparr>" .
  have fref: "fs_in_flight (cc_files ?c ! j) \<noteq> 0" if "file_ref i j ?t" "j < 32" for j
  proof -
    have "0 < cnt (file_ref i j) (co_tasks co)" using that n D(1) by (intro cnt_pos [of n]) simp_all
    with cl that show ?thesis by (auto simp: client_ok_def)
  qed
  have bref: "bs_in_flight (cc_buffers ?c ! j) \<noteq> 0" if "buffer_ref i j ?t" "j < 4" for j
  proof -
    have "0 < cnt (buffer_ref i j) (co_tasks co)" using that n D(1) by (intro cnt_pos [of n]) simp_all
    with cl that show ?thesis by (auto simp: client_ok_def)
  qed
  have acc: "accounts i ?t iouringd_clear_task_slot ?c ?c'"
    using c'' act i fref bref
    by (simp add: accounts_def unat_dec credit_of_def task_of_def)
  have co': "(uncount_core i (tk_consumes_credit ?t) co4)\<lparr>co_tasks := (co_tasks co)[n := iouringd_clear_task_slot]\<rparr>
    = co\<lparr>co_tasks := (co_tasks co)[n := iouringd_clear_task_slot], co_clients := (co_clients co)[i := ?c'],
        co_outstanding := co_outstanding co + of_bool (tk_active iouringd_clear_task_slot) - of_bool (tk_active ?t),
        co_credit := co_credit co + of_bool (credit_task iouringd_clear_task_slot) - of_bool (credit_task ?t),
        co_next_id := co_next_id co\<rparr>"
    using i64 D(2) act by (simp add: co4 uncount_core_def credit_task_def)
  show ?thesis
  proof (rule core_ok_replace [OF ok n i64 _ acc _ co'])
    show "\<not> task_of k ?t \<and> \<not> task_of k iouringd_clear_task_slot" if "k \<noteq> i" for k
      using that i by (simp add: task_of_def)
    show "cc_credit ?c' \<le> co_credit_limit co"
      using c''(5) cl by (auto simp: client_ok_def)
    show "co_credit ((uncount_core i (tk_consumes_credit ?t) co4)\<lparr>co_tasks := (co_tasks co)[n := iouringd_clear_task_slot]\<rparr>)
      \<le> co_capacity co"
      unfolding co' using D(9) by simp
  qed simp_all
qed

text \<open>The task slot as the kernel left it differs from the one in the table only in the data.\<close>

lemma kernel_done_fields [simp]:
  "tk_active (kernel_done sys t) = tk_active t" "tk_client_index (kernel_done sys t) = tk_client_index t"
  "tk_consumes_credit (kernel_done sys t) = tk_consumes_credit t"
  "tk_client_generation (kernel_done sys t) = tk_client_generation t"
  "tk_file_slot_index (kernel_done sys t) = tk_file_slot_index t"
  "tk_result_file_slot_index (kernel_done sys t) = tk_result_file_slot_index t"
  "tk_buffer_slot_index (kernel_done sys t) = tk_buffer_slot_index t"
  "tk_task_id (kernel_done sys t) = tk_task_id t" "tk_task_kind (kernel_done sys t) = tk_task_kind t"
  by (simp_all add: kernel_done_def Let_def)

lemma idx_dlt_ref:
  assumes "index_ok (tk_file_slot_index t) a" and "index_ok (tk_result_file_slot_index t) b"
    and "index_ok (tk_buffer_slot_index t) c"
    and "tk_file_slot_index t = - 1 \<or> tk_file_slot_index t \<noteq> tk_result_file_slot_index t"
    and "tk_active t"
  shows "idx_dlt (tk_file_slot_index t) (- 1) k + idx_dlt (tk_result_file_slot_index t) (- 1) k
      = - of_bool (file_ref (tk_client_index t) k t)"
    and "idx_dlt (tk_buffer_slot_index t) (- 1) k = - of_bool (buffer_ref (tk_client_index t) k t)"
  using assms
  by (auto simp: idx_dlt_def dlt_def file_ref_def buffer_ref_def task_of_def index_ok_def)

lemma complete_task_chain:
  assumes out: "iouringd_complete_task sys n res rt = (Inr u, rt')"
    and t: "t = kernel_done sys (task_at rt n)" and i: "i = tk_client_index t"
    and pa: "iouringd_prepare_accept_completion sys t (completion_record t res, None) (kernel_fill_buffer sys t res rt)
      = ((cp1, p1), rt1)"
    and po: "iouringd_prepare_openat_completion sys t cp1 rt1 = (cp, rt2)"
    and tr: "take_read_payload t res p1 rt2 = (p, rt3)"
    and lim: "i < lim_max_clients (rt_limits rt2)"
  obtains rt4 rt5 rt6 rt7 resource where
    "queue_completion t cp p rt3 = (Inr (), rt4)" "release_task_file sys t rt4 = (Inr (), rt5)"
    "release_task_result sys t rt5 = (Inr (), rt6)" "release_task_buffer t rt6 = (Inr (), rt7)"
    "rt' = set_task n iouringd_clear_task_slot (iouringd_emit_trace_event sys i
      IOURINGD_TRACE_EVENT_COMPLETION (tk_task_kind t) (tk_submit_priority t) (tk_task_id t) resource (cp_res cp)
      (iouringd_available_credits (finish_task_counts t rt7)) (finish_task_counts t rt7))"
proof -
  let ?resource = "if (tk_task_kind t = IOURINGD_TASK_KIND_ACCEPT \<or> tk_task_kind t = IOURINGD_TASK_KIND_OPENAT)
    \<and> 0 \<le>s cp_res cp then tk_result_resource_id t else tk_resource_id t"
  from out pa po tr lim
  have "bind_rc (bind_rc (queue_completion t cp p rt3) (\<lambda>_ rt4.
      bind_rc (release_task_file sys t rt4) (\<lambda>_ rt5.
      bind_rc (release_task_result sys t rt5) (\<lambda>_ rt6. release_task_buffer t rt6))))
    (\<lambda>_ rt4. let rt5 = finish_task_counts t rt4;
         rt6 = iouringd_emit_trace_event sys i IOURINGD_TRACE_EVENT_COMPLETION
           (tk_task_kind t) (tk_submit_priority t) (tk_task_id t) ?resource (cp_res cp)
           (iouringd_available_credits rt5) rt5
       in (Inr (), set_task n iouringd_clear_task_slot rt6)) = (Inr u, rt')"
    unfolding iouringd_complete_task_def t [symmetric] i [symmetric] by (simp add: Let_def i [symmetric])
  then show thesis by (auto elim!: bind_rc_cases simp: Let_def intro: that)
qed

text \<open>The states a completion goes through.\<close>

lemma complete_task_run:
  assumes out: "iouringd_complete_task sys n res rt = (Inr u, rt')"
    and t: "t = kernel_done sys (task_at rt n)" and i: "i = tk_client_index t"
    and il: "i < length (rt_clients rt)" "i < lim_max_clients (rt_limits rt)"
  obtains cp1 p1 rt1 cp rt2 p rt3 rt4 rt5 rt6 rt7 resource where
    "iouringd_prepare_accept_completion sys t (completion_record t res, None) (kernel_fill_buffer sys t res rt)
      = ((cp1, p1), rt1)"
    "iouringd_prepare_openat_completion sys t cp1 rt1 = (cp, rt2)" "take_read_payload t res p1 rt2 = (p, rt3)"
    "quiet i rt rt3" "queue_completion t cp p rt3 = (Inr (), rt4)"
    "release_task_file sys t rt4 = (Inr (), rt5)" "release_task_result sys t rt5 = (Inr (), rt6)"
    "release_task_buffer t rt6 = (Inr (), rt7)"
    "rt' = set_task n iouringd_clear_task_slot (iouringd_emit_trace_event sys i
      IOURINGD_TRACE_EVENT_COMPLETION (tk_task_kind t) (tk_submit_priority t) (tk_task_id t) resource (cp_res cp)
      (iouringd_available_credits (finish_task_counts t rt7)) (finish_task_counts t rt7))"
proof -
  let ?rt0 = "kernel_fill_buffer sys t res rt"
  obtain cp1 p1 rt1 where pa: "iouringd_prepare_accept_completion sys t (completion_record t res, None) ?rt0
      = ((cp1, p1), rt1)" by (metis surj_pair)
  obtain cp rt2 where po: "iouringd_prepare_openat_completion sys t cp1 rt1 = (cp, rt2)" by fastforce
  obtain p rt3 where tr: "take_read_payload t res p1 rt2 = (p, rt3)" by fastforce
  have len0: "length (rt_clients ?rt0) = length (rt_clients rt)" "core_of ?rt0 = core_of rt"
    using core_length(1) [of ?rt0] core_length(1) [of rt] kernel_fill_core [of sys t res rt] by simp_all
  have q1: "quiet i ?rt0 rt1" using prepare_accept_quiet [OF pa i [symmetric]] il len0 by simp
  then have len1: "length (rt_clients rt1) = length (rt_clients rt)" using len0 by (simp add: quiet_def)
  have q2: "quiet i rt1 rt2" using prepare_openat_quiet [OF po i [symmetric]] il len1 by simp
  then have len2: "length (rt_clients rt2) = length (rt_clients rt)" using len1 by (simp add: quiet_def)
  have q3: "quiet i rt2 rt3" using take_read_payload_quiet [OF tr i [symmetric]] il len2 by simp
  have q02: "quiet i rt rt2"
    using quiet_trans [OF q1 q2] quiet_core_left [OF len0(2)] il len0(1) by simp
  have q: "quiet i rt rt3" using quiet_trans [OF q02 q3] il by simp
  have lim: "i < lim_max_clients (rt_limits rt2)" using quiet_fields(5) [OF q02] il by simp
  from complete_task_chain [OF out t i pa po tr lim] show thesis
    using that [OF pa po tr q] by metis
qed

lemma complete_task_steps:
  assumes out: "iouringd_complete_task sys n res rt = (Inr u, rt')"
    and t: "t = kernel_done sys (task_at rt n)" and i: "i = tk_client_index t"
    and il: "i < length (rt_clients rt)" "i < lim_max_clients (rt_limits rt)"
  obtains cp p rt3 rt4 rt5 rt6 rt7 rt8 where
    "quiet i rt rt3" "queue_completion t cp p rt3 = (Inr (), rt4)"
    "release_task_file sys t rt4 = (Inr (), rt5)" "release_task_result sys t rt5 = (Inr (), rt6)"
    "release_task_buffer t rt6 = (Inr (), rt7)" "core_of rt8 = core_of (finish_task_counts t rt7)"
    "rt' = set_task n iouringd_clear_task_slot rt8"
proof (rule complete_task_run [OF assms])
  fix cp p rt3 rt4 rt5 rt6 rt7 resource
  assume "quiet i rt rt3" "queue_completion t cp p rt3 = (Inr (), rt4)"
    "release_task_file sys t rt4 = (Inr (), rt5)" "release_task_result sys t rt5 = (Inr (), rt6)"
    "release_task_buffer t rt6 = (Inr (), rt7)"
    "rt' = set_task n iouringd_clear_task_slot (iouringd_emit_trace_event sys i
      IOURINGD_TRACE_EVENT_COMPLETION (tk_task_kind t) (tk_submit_priority t) (tk_task_id t) resource (cp_res cp)
      (iouringd_available_credits (finish_task_counts t rt7)) (finish_task_counts t rt7))"
  from that [OF this(1-5) _ this(6)] show thesis by simp
qed

text \<open>The slots of an active task are in flight.\<close>

lemma task_slots_in_flight:
  assumes ok: "core_ok (core_of rt)" and n: "n < 64" and act: "tk_active (task_at rt n)"
    and i: "i = tk_client_index (task_at rt n)" and il: "i < length (rt_clients rt)"
  shows "0 \<le> tk_file_slot_index (task_at rt n) \<Longrightarrow>
      fs_in_flight (cl_file_resources (client_at rt i) ! nat (tk_file_slot_index (task_at rt n))) \<noteq> 0"
    and "0 \<le> tk_result_file_slot_index (task_at rt n) \<Longrightarrow>
      fs_in_flight (cl_file_resources (client_at rt i) ! nat (tk_result_file_slot_index (task_at rt n))) \<noteq> 0"
    and "0 \<le> tk_buffer_slot_index (task_at rt n) \<Longrightarrow>
      bs_in_flight (cl_buffer_resources (client_at rt i) ! nat (tk_buffer_slot_index (task_at rt n))) \<noteq> 0"
proof -
  let ?t = "task_at rt n"
  have i64: "i < 64" using il core_okD(2) [OF ok] by (simp add: core_length)
  have tok: "task_ok (core_of rt) ?t" using core_ok_task [OF ok n] act by (simp add: core_length)
  note tab = core_ok_tables [OF ok il] and at = core_client_at [OF il]
  have len: "n < length (rt_tasks rt)" using core_okD(1) [OF ok] n by (simp add: core_length)
  have c: "unat (fs_in_flight (cl_file_resources (client_at rt i) ! j)) = cnt (file_ref i j) (rt_tasks rt)"
    if "j < 32" for j
    using core_ok_client [OF ok i64] at that by (simp add: client_ok_def client_fields core_length)
  have b: "unat (bs_in_flight (cl_buffer_resources (client_at rt i) ! j)) = cnt (buffer_ref i j) (rt_tasks rt)"
    if "j < 4" for j
    using core_ok_client [OF ok i64] at that by (simp add: client_ok_def client_fields core_length)
  have ref: "fs_in_flight (cl_file_resources (client_at rt i) ! j) \<noteq> 0" if "j < 32" "file_ref i j ?t" for j
    using c [OF that(1)] cnt_pos [OF len, of "file_ref i j", OF that(2)] by auto
  have bound: "tk_file_slot_index ?t < 32" "tk_result_file_slot_index ?t < 32" "tk_buffer_slot_index ?t < 4"
    using tok at i tab by (auto simp: task_ok_def Let_def client_fields index_ok_def)
  show "0 \<le> tk_file_slot_index ?t \<Longrightarrow>
      fs_in_flight (cl_file_resources (client_at rt i) ! nat (tk_file_slot_index ?t)) \<noteq> 0"
    "0 \<le> tk_result_file_slot_index ?t \<Longrightarrow>
      fs_in_flight (cl_file_resources (client_at rt i) ! nat (tk_result_file_slot_index ?t)) \<noteq> 0"
    using bound act i ref [of "nat (tk_file_slot_index ?t)"] ref [of "nat (tk_result_file_slot_index ?t)"]
    by (simp_all add: file_ref_def task_of_def)
  assume pos: "0 \<le> tk_buffer_slot_index ?t"
  then have k: "nat (tk_buffer_slot_index ?t) < 4" using bound(3) by linarith
  from pos have "buffer_ref i (nat (tk_buffer_slot_index ?t)) ?t" using act i by (simp add: buffer_ref_def task_of_def)
  from cnt_pos [OF len, of "buffer_ref i (nat (tk_buffer_slot_index ?t))", OF this]
    b [OF k]
  show "bs_in_flight (cl_buffer_resources (client_at rt i) ! nat (tk_buffer_slot_index ?t)) \<noteq> 0" by auto
qed

lemma complete_task_moves:
  assumes ok: "core_ok (core_of rt)" and n: "n < 64" and act: "tk_active (task_at rt n)"
    and i: "i = tk_client_index (task_at rt n)" and il: "i < length (rt_clients rt)"
    and q: "quiet i rt rt4"
    and steps: "release_task_file sys t rt4 = (Inr (), rt5)" "release_task_result sys t rt5 = (Inr (), rt6)"
      "release_task_buffer t rt6 = (Inr (), rt7)"
    and t: "t = kernel_done sys (task_at rt n)"
  shows "moves i (\<lambda>k. - of_bool (file_ref i k (task_at rt n))) (\<lambda>k. - of_bool (buffer_ref i k (task_at rt n)))
      (core_of rt) (core_of rt7) \<and> rt_tasks rt7 = rt_tasks rt"
proof -
  let ?t = "task_at rt n"
  let ?f = "tk_file_slot_index ?t" and ?r = "tk_result_file_slot_index ?t" and ?b = "tk_buffer_slot_index ?t"
  note tab = core_ok_tables [OF ok il] and fl = task_slots_in_flight [OF ok n act i il]
  have idx: "index_ok ?f (cl_file_slot_limit (client_at rt i))" "index_ok ?r (cl_file_slot_limit (client_at rt i))"
    "index_ok ?b (cl_buffer_slot_limit (client_at rt i))" "?f = - 1 \<or> ?f \<noteq> ?r"
    using core_ok_task [OF ok n] act core_client_at [OF il] i
    by (simp_all add: core_length task_ok_def Let_def client_fields)
  have bnd: "?f < 32" "?r < 32" "?b < 4" using idx tab by (auto simp: index_ok_def)
  have m4: "stays i (core_of rt) (core_of rt4)" and t4: "rt_tasks rt4 = rt_tasks rt" using q by (auto simp: quiet_def)
  note s4 = moves_slots [OF m4 il] client_tables_stable [OF m4 il]
  have r5: "moves i (idx_dlt ?f (- 1)) (\<lambda>_. 0) (core_of rt4) (core_of rt5) \<and> rt_tasks rt5 = rt_tasks rt4"
    using release_task_file_moves [OF steps(1), of i] i idx tab fl bnd s4 by (simp add: t)
  from moves_trans [OF m4] r5 il have m5: "moves i (idx_dlt ?f (- 1)) (\<lambda>_. 0) (core_of rt) (core_of rt5)"
    by (fastforce simp: core_length)
  note s5 = moves_slots [OF m5 il] client_tables_stable [OF m5 il]
  have "0 \<le> ?r \<Longrightarrow> idx_dlt ?f (- 1) (nat ?r) = 0"
    using idx(4) by (auto simp: idx_dlt_def dlt_def)
  then have r6: "moves i (idx_dlt ?r (- 1)) (\<lambda>_. 0) (core_of rt5) (core_of rt6) \<and> rt_tasks rt6 = rt_tasks rt5"
    using release_task_result_moves [OF steps(2), of i] i idx tab fl bnd s5 by (simp add: t)
  from moves_trans [OF m5] r6 il
  have m6: "moves i (\<lambda>k. idx_dlt ?f (- 1) k + idx_dlt ?r (- 1) k) (\<lambda>_. 0) (core_of rt) (core_of rt6)"
    by (fastforce simp: core_length)
  note s6 = moves_slots [OF m6 il] client_tables_stable [OF m6 il]
  have r7: "moves i (\<lambda>_. 0) (idx_dlt ?b (- 1)) (core_of rt6) (core_of rt7) \<and> rt_tasks rt7 = rt_tasks rt6"
    using release_task_buffer_moves [OF steps(3), of i] i idx tab fl bnd s6 by (simp add: t)
  from moves_trans [OF m6] r7 il
  have "moves i (\<lambda>k. idx_dlt ?f (- 1) k + idx_dlt ?r (- 1) k) (idx_dlt ?b (- 1)) (core_of rt) (core_of rt7)"
    by (fastforce simp: core_length)
  moreover have "(\<lambda>k. idx_dlt ?f (- 1) k + idx_dlt ?r (- 1) k) = (\<lambda>k. - of_bool (file_ref i k ?t))"
    "idx_dlt ?b (- 1) = (\<lambda>k. - of_bool (buffer_ref i k ?t))"
    using idx_dlt_ref [OF idx act] i by auto
  ultimately show ?thesis using r5 r6 r7 t4 by simp
qed

lemma complete_task_core_ok:
  assumes ok: "core_ok (core_of rt)" and n: "n < 64" and act: "tk_active (task_at rt n)"
    and out: "iouringd_complete_task sys n res rt = (Inr u, rt')"
  shows "core_ok (core_of rt')" and "rt_tasks rt' = (rt_tasks rt)[n := iouringd_clear_task_slot]"
    and "lim_max_clients (rt_limits rt') = lim_max_clients (rt_limits rt)"
    and "rt_task_capacity rt' = rt_task_capacity rt"
proof -
  let ?t = "task_at rt n"
  define i where "i = tk_client_index ?t"
  have i': "i = tk_client_index (kernel_done sys ?t)" by (simp add: i_def)
  have il: "i < lim_max_clients (rt_limits rt)"
    using core_ok_task [OF ok n] act by (simp add: core_length i_def task_ok_def core_fields)
  have ilen: "i < length (rt_clients rt)" using core_ok_index [OF ok il] by simp
  obtain cp p rt3 rt4 rt5 rt6 rt7 rt8 where q: "quiet i rt rt3"
    and c4: "queue_completion (kernel_done sys ?t) cp p rt3 = (Inr (), rt4)"
    and steps: "release_task_file sys (kernel_done sys ?t) rt4 = (Inr (), rt5)"
      "release_task_result sys (kernel_done sys ?t) rt5 = (Inr (), rt6)"
      "release_task_buffer (kernel_done sys ?t) rt6 = (Inr (), rt7)"
    and c8: "core_of rt8 = core_of (finish_task_counts (kernel_done sys ?t) rt7)"
    and rt': "rt' = set_task n iouringd_clear_task_slot rt8"
    using complete_task_steps [OF out refl i' ilen il] by metis
  have q4: "quiet i rt rt4" using q queue_completion_core [OF c4] by (rule quiet_core_right)
  from complete_task_moves [OF ok n act i_def ilen q4 steps refl]
  have mv: "moves i (\<lambda>k. - of_bool (file_ref i k ?t)) (\<lambda>k. - of_bool (buffer_ref i k ?t)) (core_of rt) (core_of rt7)"
    and tasks7: "rt_tasks rt7 = rt_tasks rt" by simp_all
  note f = moves_fields [OF mv, unfolded core_fields]
  have len: "n < length (rt_tasks rt)" using core_okD(1) [OF ok] n by (simp add: core_length)
  have cnts: "0 < cnt tk_active (rt_tasks rt)" "tk_consumes_credit ?t \<Longrightarrow> 0 < cnt credit_task (rt_tasks rt)"
    "cnt P (rt_tasks rt) \<le> 64" for P
    using core_okD(1) [OF ok] act cnt_le_length [of P "rt_tasks rt"] cnt_pos [OF len, of tk_active]
      cnt_pos [OF len, of credit_task] by (simp_all add: core_length credit_task_def)
  have cnt_eq: "rt_outstanding_tasks rt = cnt tk_active (rt_tasks rt)"
    "rt_outstanding_credit_tasks rt = cnt credit_task (rt_tasks rt)"
    using core_okD(7,8) [OF ok] by (simp_all add: core_fields core_length)
  have "i < length (rt_clients rt7)" using moves_length [OF mv] ilen by (simp add: core_length)
  then have core8: "core_of rt8 = uncount_core i (tk_consumes_credit ?t) (core_of rt7)"
    using c8 finish_task_counts_core [of "kernel_done sys ?t" i rt7] il f i' cnts(1,2) cnts(3) [of tk_active]
      cnts(3) [of credit_task] cnt_eq by simp
  have tasks8: "rt_tasks rt8 = rt_tasks rt"
    using arg_cong [OF core8, of co_tasks] tasks7 by (simp add: uncount_core_def core_length)
  have "core_ok ((uncount_core i (tk_consumes_credit ?t) (core_of rt7))\<lparr>co_tasks := (rt_tasks rt)[n := iouringd_clear_task_slot]\<rparr>)"
    using core_ok_finish [OF ok n, of i "core_of rt7"] act mv tasks7 by (simp add: core_length i_def)
  then show "core_ok (core_of rt')"
    using tasks8 by (simp add: rt' core8 core_length [symmetric])
  show "rt_tasks rt' = (rt_tasks rt)[n := iouringd_clear_task_slot]" using tasks8 by (simp add: rt')
  show "lim_max_clients (rt_limits rt') = lim_max_clients (rt_limits rt)"
    using arg_cong [OF core8, of co_max_clients] f by (simp add: rt' uncount_core_def core_fields)
  show "rt_task_capacity rt' = rt_task_capacity rt"
    using arg_cong [OF core8, of co_capacity] f by (simp add: rt' uncount_core_def core_fields set_task_def)
qed

end
