(* ===== verification/Event_Loop.thy ===== *)
theory Event_Loop
  imports Completion
begin

text \<open>
  The event loop, main.c lines 744 to 840, 3530 to 3551 and 3867 to 4122: accepting clients,
  reading from all clients, reaping completions, flushing output, the set of polled descriptors,
  and one turn of \<open>iouringd_run\<close>.

  The results of the system calls of one turn are an \<open>env\<close>: what recvmsg and write return per
  client (as in \<open>Parser\<close> and \<open>Output\<close>, separately for the pass over all clients and for the
  events), what accept and poll return, and the value of the stop flag where it is read. The
  loop that reaps completions ends because every turn of it frees a task slot; it is a partial
  function, whose definedness is proved.
\<close>

section \<open>New clients\<close>

text \<open>An accept call: its result, the errno of setting close-on-exec on the new socket if that fails,
  whether making it non-blocking and malloc succeed, and the stop flag when it is read.\<close>

record accept_event =
  ae_result :: "errno + int"
  ae_cloexec :: "errno option"
  ae_nonblock :: bool
  ae_memory :: bool
  ae_stop :: bool

definition client_slot_unused :: "iouringd_client \<Rightarrow> bool" where
  "client_slot_unused c \<longleftrightarrow>
     \<not> (cl_fd c \<ge> 0 \<or> iouringd_client_has_retained_resources c) \<and> cl_outstanding_tasks c = 0"

definition opened_client :: "iouringd_runtime \<Rightarrow> int \<Rightarrow> iouringd_client \<Rightarrow> iouringd_client" where
  "opened_client rt fd c =
     iouringd_reset_client_input (iouringd_init_client_resources
       (c\<lparr>cl_output := [], cl_fd := fd, cl_generation := rt_next_client_generation rt + 1,
          cl_phase := IOURINGD_CLIENT_PHASE_HANDSHAKE,
          cl_output_capacity := rt_client_output_capacity rt, cl_output_sent := 0,
          cl_close_after_flush := False, cl_request_ready := False, cl_received_fd := - 1,
          cl_file_slot_limit := lim_registered_fds_per_client (rt_limits rt),
          cl_buffer_slot_limit := lim_registered_buffers_per_client (rt_limits rt),
          cl_io_bytes_max := lim_io_bytes_max (rt_limits rt),
          cl_request := zero_request, cl_control_op := 0, cl_timeout_nsec := 0,
          cl_cancel_target_id := IOURINGD_TASK_ID_INVALID,
          cl_resource_id := IOURINGD_RESOURCE_ID_INVALID,
          cl_buffer_resource_id := IOURINGD_RESOURCE_ID_INVALID, cl_open_flags := 0,
          cl_close_fd := - 1, cl_open_mode := 0, cl_io_length := 0, cl_trace_after_sequence := 0,
          cl_trace_max_events := 0, cl_poll_mask := 0, cl_io_payload := []\<rparr>))"

definition iouringd_open_client :: "accept_event \<Rightarrow> int \<Rightarrow> iouringd_runtime \<Rightarrow> iouringd_runtime" where
  "iouringd_open_client a fd rt =
     (if \<not> ae_nonblock a then rt_close fd rt
      else case find_slot client_slot_unused (lim_max_clients (rt_limits rt)) (rt_clients rt) of
        None \<Rightarrow> rt_close fd rt
      | Some i \<Rightarrow>
          if \<not> ae_memory a then rt_close fd rt
          else (set_client i (opened_client rt fd (client_at rt i)) rt)
            \<lparr>rt_next_client_generation := rt_next_client_generation rt + 1\<rparr>)"

fun accept_loop ::
  "accept_event list \<Rightarrow> bool \<Rightarrow> iouringd_runtime \<Rightarrow> (bool, iouringd_runtime) res" where
  "accept_loop [] progress rt = (Inr progress, rt)"
| "accept_loop (a # as) progress rt =
     (case ae_result a of
        Inl e \<Rightarrow>
          if e = EAGAIN then (Inr progress, rt)
          else if ae_stop a \<and> (e = EINTR \<or> e = EBADF) then (Inr progress, rt)
          else (Inl e, rt)
      | Inr fd \<Rightarrow>
          if ae_cloexec a \<noteq> None then (Inl (the (ae_cloexec a)), rt_close fd rt)
          else if ae_stop a then (Inr progress, rt_close fd rt)
          else accept_loop as True (iouringd_open_client a fd rt))"

definition iouringd_accept_clients ::
  "accept_event list \<Rightarrow> iouringd_runtime \<Rightarrow> (bool, iouringd_runtime) res" where
  "iouringd_accept_clients as rt = accept_loop as False rt"

section \<open>Passes over the clients\<close>

fun service_inputs ::
  "(nat \<Rightarrow> recv_result list) \<Rightarrow> nat list \<Rightarrow> bool \<Rightarrow> iouringd_runtime \<Rightarrow> (bool, iouringd_runtime) res"
where
  "service_inputs recv [] progress rt = (Inr progress, rt)"
| "service_inputs recv (i # is) progress rt =
     (if \<not> iouringd_client_is_active (client_at rt i) then service_inputs recv is progress rt
      else case iouringd_service_client_readable i (recv i) rt of
        (Inl e, ws, rt1) \<Rightarrow> (Inl e, rt1)
      | (Inr x, ws, rt1) \<Rightarrow> service_inputs recv is (progress \<or> x) rt1)"

definition iouringd_service_ready_inputs ::
  "(nat \<Rightarrow> recv_result list) \<Rightarrow> iouringd_runtime \<Rightarrow> (bool, iouringd_runtime) res" where
  "iouringd_service_ready_inputs recv rt =
     service_inputs recv [0..<lim_max_clients (rt_limits rt)] False rt"

text \<open>Flush one client and close it on an error, or when it was to be closed after the flush: whether
  it was closed, the bytes that were sent, and the runtime.\<close>

definition flush_or_close ::
  "nat \<Rightarrow> write_result list \<Rightarrow> iouringd_runtime \<Rightarrow> bool \<times> bytes \<times> iouringd_runtime" where
  "flush_or_close i ws rt =
     (case iouringd_flush_client_output ws (client_at rt i) of
        (sent, Inl e, c) \<Rightarrow> (True, sent, rt_close_client i (set_client i c rt))
      | (sent, Inr _, c) \<Rightarrow>
          if cl_close_after_flush c then (True, sent, rt_close_client i (set_client i c rt))
          else (False, sent, set_client i c rt))"

fun flush_outputs ::
  "(nat \<Rightarrow> write_result list) \<Rightarrow> nat list \<Rightarrow> bool \<Rightarrow> iouringd_runtime \<Rightarrow> bool \<times> iouringd_runtime" where
  "flush_outputs write [] progress rt = (progress, rt)"
| "flush_outputs write (i # is) progress rt =
     (let c = client_at rt i in
      if \<not> iouringd_client_is_active c \<or> \<not> iouringd_client_has_output c
      then flush_outputs write is progress rt
      else case flush_or_close i (write i) rt of
        (closed, sent, rt1) \<Rightarrow> flush_outputs write is (progress \<or> closed) rt1)"

definition iouringd_flush_client_outputs ::
  "(nat \<Rightarrow> write_result list) \<Rightarrow> iouringd_runtime \<Rightarrow> bool \<times> iouringd_runtime" where
  "iouringd_flush_client_outputs write rt =
     flush_outputs write [0..<lim_max_clients (rt_limits rt)] False rt"

section \<open>Reaping completions\<close>

partial_function (option) reap_loop ::
  "sys \<Rightarrow> bool \<Rightarrow> iouringd_runtime \<Rightarrow> (bool, iouringd_runtime) res option" where
  "reap_loop sys progress rt =
     (case iouringd_ring_peek_completion (s_kernel sys) (rt_ring rt) of
        (None, ring) \<Rightarrow> Some (Inr progress, rt\<lparr>rt_ring := ring\<rparr>)
      | (Some (task, res), ring) \<Rightarrow>
          (let rt1 = rt\<lparr>rt_ring := ring\<rparr> in
           case iouringd_find_task_slot rt1 task of
             None \<Rightarrow> Some (Inl EPROTO, rt1)
           | Some n \<Rightarrow>
               (case iouringd_complete_task sys n res rt1 of
                  (Inl e, rt2) \<Rightarrow> Some (Inl e, rt2)
                | (Inr _, rt2) \<Rightarrow> reap_loop sys True rt2)))"

declare reap_loop.simps [code]

definition iouringd_reap_completions ::
  "sys \<Rightarrow> iouringd_runtime \<Rightarrow> (bool, iouringd_runtime) res option" where
  "iouringd_reap_completions sys rt = reap_loop sys False rt"

section \<open>The polled descriptors\<close>

definition iouringd_client_wants_read :: "iouringd_client \<Rightarrow> bool" where
  "iouringd_client_wants_read c =
     (if cl_fd c < 0 \<or> cl_close_after_flush c \<or> cl_request_ready c then False
      else if cl_phase c = IOURINGD_CLIENT_PHASE_HANDSHAKE then True
      else if cl_input c \<noteq> [] then True
      else True)"

text \<open>\<open>client_slots[count]\<close>: -1, -2, or the index of a client.\<close>

datatype poll_slot = Poll_server | Poll_ring | Poll_client nat

record pollfd =
  pf_fd :: int
  pf_in :: bool
  pf_out :: bool
  pf_slot :: poll_slot

definition poll_client :: "nat \<Rightarrow> iouringd_client \<Rightarrow> pollfd list" where
  "poll_client i c =
     (let rd = iouringd_client_wants_read c;
          wr = iouringd_client_has_output c
      in if \<not> iouringd_client_is_active c \<or> \<not> rd \<and> \<not> wr then []
         else [\<lparr>pf_fd = cl_fd c, pf_in = rd, pf_out = wr, pf_slot = Poll_client i\<rparr>])"

definition iouringd_build_pollfds :: "iouringd_runtime \<Rightarrow> pollfd list" where
  "iouringd_build_pollfds rt =
     (if rt_server_fd rt \<ge> 0
      then [\<lparr>pf_fd = rt_server_fd rt, pf_in = True, pf_out = False, pf_slot = Poll_server\<rparr>] else [])
     @ (if rt_outstanding_tasks rt \<noteq> 0
        then [\<lparr>pf_fd = rg_ring_fd (rt_ring rt), pf_in = True, pf_out = False, pf_slot = Poll_ring\<rparr>]
        else [])
     @ concat (map (\<lambda>i. poll_client i (client_at rt i)) [0..<lim_max_clients (rt_limits rt)])"

section \<open>One turn of the loop\<close>

text \<open>\<open>revents\<close>: POLLIN, POLLOUT, and any of POLLERR, POLLHUP, POLLNVAL.\<close>

record revents =
  re_in :: bool
  re_out :: bool
  re_err :: bool

record env =
  en_recv :: "nat \<Rightarrow> recv_result list"
  en_write :: "nat \<Rightarrow> write_result list"
  en_stop :: bool
  en_poll :: "errno + (poll_slot \<Rightarrow> revents)"
  en_poll_stop :: bool
  en_accept :: "accept_event list"
  en_event_recv :: "nat \<Rightarrow> recv_result list"
  en_event_write :: "nat \<Rightarrow> write_result list"

text \<open>The events of a client socket.\<close>

definition client_event ::
  "env \<Rightarrow> nat \<Rightarrow> revents \<Rightarrow> iouringd_runtime \<Rightarrow> (unit, iouringd_runtime) res" where
  "client_event en i ev rt =
     (let (closed, rt1) =
        (if re_out ev \<and> iouringd_client_is_active (client_at rt i)
         then case flush_or_close i (en_event_write en i) rt of (closed, sent, rt1) \<Rightarrow> (closed, rt1)
         else (False, rt))
      in if closed then (Inr (), rt1)
         else if re_in ev \<and> iouringd_client_is_active (client_at rt1 i) then
           (case iouringd_service_client_readable i (en_event_recv en i) rt1 of
              (Inl e, ws, rt2) \<Rightarrow> (Inl e, rt2)
            | (Inr _, ws, rt2) \<Rightarrow> (Inr (), rt2))
         else if re_err ev \<and> iouringd_client_is_active (client_at rt1 i)
         then (Inr (), rt_close_client i rt1)
         else (Inr (), rt1))"

definition poll_event ::
  "sys \<Rightarrow> env \<Rightarrow> poll_slot \<Rightarrow> revents \<Rightarrow> iouringd_runtime \<Rightarrow> (unit, iouringd_runtime) res option" where
  "poll_event sys en slot ev rt =
     (case slot of
        Poll_server \<Rightarrow>
          Some (if re_in ev
                then bind_rc (iouringd_accept_clients (en_accept en) rt) (\<lambda>_ rt. (Inr (), rt))
                else (Inr (), rt))
      | Poll_ring \<Rightarrow>
          (if re_in ev
           then map_option (\<lambda>r. bind_rc r (\<lambda>_ rt. (Inr (), rt))) (iouringd_reap_completions sys rt)
           else Some (Inr (), rt))
      | Poll_client i \<Rightarrow> Some (client_event en i ev rt))"

fun poll_events ::
  "sys \<Rightarrow> env \<Rightarrow> (poll_slot \<Rightarrow> revents) \<Rightarrow> pollfd list \<Rightarrow> iouringd_runtime
    \<Rightarrow> (unit, iouringd_runtime) res option" where
  "poll_events sys en occurred [] rt = Some (Inr (), rt)"
| "poll_events sys en occurred (p # ps) rt =
     (case poll_event sys en (pf_slot p) (occurred (pf_slot p)) rt of
        None \<Rightarrow> None
      | Some (Inl e, rt1) \<Rightarrow> Some (Inl e, rt1)
      | Some (Inr _, rt1) \<Rightarrow> poll_events sys en occurred ps rt1)"

text \<open>The end of a turn: \<open>Inr False\<close> leaves the loop, \<open>Inr True\<close> continues it.\<close>

definition wait_for_events ::
  "sys \<Rightarrow> env \<Rightarrow> iouringd_runtime \<Rightarrow> (bool, iouringd_runtime) res option" where
  "wait_for_events sys en rt =
     (let fds = iouringd_build_pollfds rt in
      if fds = [] then Some (Inr True, rt)
      else case en_poll en of
        Inl e \<Rightarrow>
          Some (if en_poll_stop en \<and> e = EINTR then (Inr False, rt)
                else if e = EINTR then (Inr True, rt)
                else (Inl e, rt))
      | Inr occurred \<Rightarrow>
          map_option (\<lambda>r. bind_rc r (\<lambda>_ rt. (Inr True, rt))) (poll_events sys en occurred fds rt))"

definition run_turn ::
  "sys \<Rightarrow> env \<Rightarrow> iouringd_runtime \<Rightarrow> (bool, iouringd_runtime) res option" where
  "run_turn sys en rt =
     (case iouringd_service_ready_inputs (en_recv en) rt of
        (Inl e, rt1) \<Rightarrow> Some (Inl e, rt1)
      | (Inr p1, rt1) \<Rightarrow>
     (case iouringd_dispatch_ready_requests sys rt1 of
        (Inl e, rt2) \<Rightarrow> Some (Inl e, rt2)
      | (Inr p2, rt2) \<Rightarrow>
     (case iouringd_reap_completions sys rt2 of
        None \<Rightarrow> None
      | Some (Inl e, rt3) \<Rightarrow> Some (Inl e, rt3)
      | Some (Inr p3, rt3) \<Rightarrow>
     (case iouringd_sweep_closing_resources sys rt3 of
        (Inl e, rt4) \<Rightarrow> Some (Inl e, rt4)
      | (Inr p4, rt4) \<Rightarrow>
          let (p5, rt5) = iouringd_flush_client_outputs (en_write en) rt4
          in if en_stop en then Some (Inr False, rt5)
             else if p1 \<or> p2 \<or> p3 \<or> p4 \<or> p5 then Some (Inr True, rt5)
             else wait_for_events sys en rt5))))"

text \<open>\<open>iouringd_run\<close> for as many turns as there are environments: \<open>None\<close> when a turn does not return,
  \<open>Inr True\<close> when the loop is still running after the last of them.\<close>

fun iouringd_run ::
  "sys \<Rightarrow> env list \<Rightarrow> iouringd_runtime \<Rightarrow> (bool, iouringd_runtime) res option" where
  "iouringd_run sys [] rt = Some (Inr True, rt)"
| "iouringd_run sys (en # ens) rt =
     (case run_turn sys en rt of
        None \<Rightarrow> None
      | Some (Inl e, rt1) \<Rightarrow> Some (Inl e, rt1)
      | Some (Inr False, rt1) \<Rightarrow> Some (Inr False, rt1)
      | Some (Inr True, rt1) \<Rightarrow> iouringd_run sys ens rt1)"

section \<open>Shutdown\<close>

definition close_all_clients :: "iouringd_runtime \<Rightarrow> iouringd_runtime" where
  "close_all_clients rt = fold rt_close_client [0..<lim_max_clients (rt_limits rt)] rt"

text \<open>\<open>iouringd_cleanup_runtime\<close>, without the calls that unlink the socket path and unmap the ring,
  which \<open>Program\<close> adds.\<close>

definition iouringd_cleanup_runtime :: "iouringd_runtime \<Rightarrow> iouringd_runtime" where
  "iouringd_cleanup_runtime rt =
     (let rt1 = (if rt_server_fd rt \<ge> 0 then (rt_close (rt_server_fd rt) rt)\<lparr>rt_server_fd := - 1\<rparr> else rt);
          rt2 = close_all_clients rt1
      in rt2\<lparr>rt_outstanding_tasks := 0, rt_outstanding_credit_tasks := 0, rt_ring_capacity := 0,
             rt_buffer_storage := []\<rparr>)"

end
