(* ===== verification/Frames.thy ===== *)
theory Frames
  imports Completing Event_Loop
begin

text \<open>
  What the handlers of one client leave alone: the other clients, the configuration, and of the
  client itself the connection and the parser state. The rules are compositional: a rule for every
  primitive step and for every way the handlers combine steps, collected in \<open>frames\<close>.
\<close>

named_theorems frames "frame rules of the primitive steps and their combinations"

definition config_of :: "iouringd_runtime \<Rightarrow> iouringd_limits \<times> nat \<times> u32 \<times> int" where
  "config_of rt = (rt_limits rt, rt_client_output_capacity rt, rt_next_client_generation rt, rt_server_fd rt)"

definition side_of :: "iouringd_client \<Rightarrow> int \<times> iouringd_client_phase \<times> bool \<times> bytes \<times> nat \<times> bytes \<times> nat \<times> nat \<times> u32"
where
  "side_of c = (cl_fd c, cl_phase c, cl_close_after_flush c, cl_input c, cl_expected_input c,
     cl_io_payload c, cl_io_bytes_max c, cl_output_capacity c, cl_generation c)"

definition touches :: "nat \<Rightarrow> iouringd_runtime \<Rightarrow> iouringd_runtime \<Rightarrow> bool" where
  "touches i rt rt' \<longleftrightarrow> config_of rt' = config_of rt \<and> length (rt_clients rt') = length (rt_clients rt)
     \<and> (\<forall>k. k \<noteq> i \<longrightarrow> client_at rt' k = client_at rt k)
     \<and> side_of (client_at rt' i) = side_of (client_at rt i)
     \<and> (output_ok (client_at rt i) \<longrightarrow> output_ok (client_at rt' i))"

definition framed :: "nat \<Rightarrow> iouringd_runtime \<Rightarrow> ('a, iouringd_runtime) res \<Rightarrow> bool" where
  "framed i rt out \<longleftrightarrow> touches i rt (snd out)"

lemma touches_refl [frames]: "touches i rt rt"
  by (simp add: touches_def)

lemma touches_trans: "touches i a b \<Longrightarrow> touches i b c \<Longrightarrow> touches i a c"
  by (simp add: touches_def)

lemma side_of_simps [simp]:
  "side_of (set_file_slot j s c) = side_of c" "side_of (set_buffer_slot j b c) = side_of c"
  "side_of (upd_file_slot j f c) = side_of c" "side_of (upd_buffer_slot j g c) = side_of c"
  "side_of (add_in_flight x j k c) = side_of c" "side_of (iouringd_unallocate_resource_id r c) = side_of c"
  "side_of (iouringd_finish_client_request c) = side_of c" "side_of (c\<lparr>cl_received_fd := fd\<rparr>) = side_of c"
  "side_of (c\<lparr>cl_outstanding_tasks := n\<rparr>) = side_of c"
  "side_of (c\<lparr>cl_outstanding_credit_tasks := n\<rparr>) = side_of c"
  by (simp_all add: side_of_def set_file_slot_def set_buffer_slot_def upd_file_slot_def
      upd_buffer_slot_def add_in_flight_def Let_def iouringd_unallocate_resource_id_def
      iouringd_finish_client_request_def split: option.splits)

lemma io_of_counts [simp]:
  "io_of (c\<lparr>cl_outstanding_tasks := n\<rparr>) = io_of c"
  "io_of (c\<lparr>cl_outstanding_credit_tasks := n\<rparr>) = io_of c"
  by (simp_all add: io_of_def)

section \<open>Primitive steps\<close>

lemma touches_set_client [frames]:
  assumes "touches i rt rt1" and "side_of c = side_of (client_at rt1 i)"
    and "output_ok (client_at rt1 i) \<Longrightarrow> output_ok c"
  shows "touches i rt (set_client i c rt1)"
proof (cases "i < length (rt_clients rt1)")
  case True
  with assms show ?thesis by (auto simp: touches_def config_of_def set_client_def)
next
  case False
  then have "set_client i c rt1 = rt1" by (simp add: set_client_def list_update_beyond)
  with assms(1) show ?thesis by simp
qed

lemma touches_upd_client [frames]:
  assumes "touches i rt rt1" and "\<And>c. side_of (f c) = side_of c" and "\<And>c. io_of (f c) = io_of c"
  shows "touches i rt (upd_client i f rt1)"
  unfolding upd_client_def using assms io_of_pending by (intro touches_set_client) blast+

lemma touches_fields [frames]:
  assumes "touches i rt rt1"
  shows "touches i rt (set_task n t rt1)" "touches i rt (rt_close fd rt1)"
    "touches i rt (rt1\<lparr>rt_ring := ring\<rparr>)" "touches i rt (rt1\<lparr>rt_os := os\<rparr>)"
    "touches i rt (rt1\<lparr>rt_rejected_submits := a\<rparr>)" "touches i rt (rt1\<lparr>rt_buffer_storage := bs\<rparr>)"
    "touches i rt (rt1\<lparr>rt_outstanding_credit_tasks := n\<rparr>)"
    "touches i rt (rt1\<lparr>rt_next_task_id := w, rt_outstanding_tasks := n, rt_outstanding_credit_tasks := m,
       rt_accepted_submits := a\<rparr>)"
    "touches i rt (rt1\<lparr>rt_outstanding_tasks := n, rt_outstanding_credit_tasks := m\<rparr>)"
    "touches i rt (rt1\<lparr>rt_completions := a, rt_outstanding_tasks := n\<rparr>)"
    "touches i rt (rt1\<lparr>rt_dispatch_cursor := n\<rparr>)"
  using assms by (simp_all add: touches_def config_of_def set_task_def rt_close_def)

lemma emit_config [simp]:
  "config_of (iouringd_emit_trace_event sys k ek tk p t r res cr rt) = config_of rt"
  by (simp add: config_of_def iouringd_emit_trace_event_def Let_def)

lemma touches_emit [frames]:
  "touches i rt rt1 \<Longrightarrow> touches i rt (iouringd_emit_trace_event sys k ek tk p t r res cr rt1)"
  by (simp add: touches_def)

section \<open>Combinations\<close>

lemma framed_pair [frames]: "touches i rt rt1 \<Longrightarrow> framed i rt (r, rt1)"
  by (simp add: framed_def)

lemma framed_bind [frames]:
  assumes "framed i rt r" and "\<And>x s. touches i rt s \<Longrightarrow> framed i rt (f x s)"
  shows "framed i rt (bind_rc r f)"
proof (cases r)
  case (Pair y s)
  with assms show ?thesis by (cases y) (simp_all add: framed_def)
qed

lemma framed_case [frames]:
  assumes "framed i rt r" and "\<And>e s. touches i rt s \<Longrightarrow> framed i rt (A e s)"
    and "\<And>x s. touches i rt s \<Longrightarrow> framed i rt (B x s)"
  shows "framed i rt (case r of (Inl e, s) \<Rightarrow> A e s | (Inr x, s) \<Rightarrow> B x s)"
proof (cases r)
  case (Pair y s)
  with assms show ?thesis by (cases y) (simp_all add: framed_def)
qed

lemma framed_on_ring [frames]: "touches i rt rt1 \<Longrightarrow> framed i rt (on_ring f rt1)"
  by (auto simp: framed_def on_ring_def split: prod.splits intro!: touches_fields)

lemma framed_update_file [frames]: "touches i rt rt1 \<Longrightarrow> framed i rt (rt_update_file sys g fd rt1)"
  by (auto simp: framed_def rt_update_file_def split: prod.splits intro!: touches_fields)

lemma framed_on_client:
  assumes "touches i rt rt1" and "\<And>c r c'. f c = (r, c') \<Longrightarrow> side_of c' = side_of c \<and> (output_ok c \<longrightarrow> output_ok c')"
  shows "framed i rt (on_client i f rt1)"
  using assms by (auto simp: framed_def on_client_def split: prod.splits intro!: touches_set_client)

text \<open>Replies change the output buffer only.\<close>

lemma queue_output_side:
  assumes "iouringd_queue_client_output m c = (r, c')"
  shows "side_of c' = side_of c \<and> (output_ok c \<longrightarrow> output_ok c')"
proof
  show "side_of c' = side_of c"
    using same_but_outputD [OF queue_output_frame [OF assms]] by (simp add: side_of_def)
  show "output_ok c \<longrightarrow> output_ok c'"
    using assms by (auto elim!: outq.put_cases [of c m])
qed

lemma framed_queue_output [frames]:
  "touches i rt rt1 \<Longrightarrow> framed i rt (on_client i (iouringd_queue_client_output m) rt1)"
  by (erule framed_on_client) (rule queue_output_side)

lemma framed_submit_result [frames]:
  "touches i rt rt1 \<Longrightarrow> framed i rt (iouringd_queue_submit_result i task res rt1)"
  unfolding iouringd_queue_submit_result_def by (rule framed_queue_output)

lemma framed_reply [frames]: "touches i rt rt1 \<Longrightarrow> framed i rt (reply_resource i r res av rt1)"
  unfolding reply_resource_def
  by (rule framed_on_client) (simp_all add: iouringd_queue_resource_result_def queue_output_side)

lemma framed_finish [frames]: "touches i rt rt1 \<Longrightarrow> framed i rt (finish_request i rt1)"
  unfolding finish_request_def by (auto intro!: frames)

lemma framed_reject [frames]: "touches i rt rt1 \<Longrightarrow> framed i rt (reject_request sys i e rt1)"
  unfolding reject_request_def iouringd_reject_submit_def Let_def by (auto intro!: frames)

lemma touches_count_task [frames]: "touches i rt rt1 \<Longrightarrow> touches i rt (count_task i cr rt1)"
  unfolding count_task_def by (intro frames) (simp_all add: side_of_def io_of_def)

lemma touches_uncount_task [frames]: "touches i rt rt1 \<Longrightarrow> touches i rt (uncount_task i cr rt1)"
  unfolding uncount_task_def by (intro frames) (simp_all add: side_of_def io_of_def)

lemma framed_accept [frames]:
  assumes "touches i rt rt1" and "\<And>e s. touches i rt s \<Longrightarrow> framed i rt (undo e s)"
  shows "framed i rt (accept_request sys i t undo rt1)"
  unfolding accept_request_def using assms(1) by (auto intro!: frames assms(2))

lemma allocate_frame:
  assumes "iouringd_allocate_resource_id c = (r, c1)"
  shows "side_of c1 = side_of c" and "output_ok c \<Longrightarrow> output_ok c1"
  using allocate_attempts_spec [OF assms [unfolded iouringd_allocate_resource_id_def]]
  by (auto simp: side_of_def output_ok_def)

lemma framed_allocate [frames]:
  assumes "touches i rt rt1"
    and "\<And>r c1. side_of c1 = side_of (client_at rt1 i) \<Longrightarrow> (output_ok (client_at rt1 i) \<longrightarrow> output_ok c1) \<Longrightarrow>
      framed i rt (f r c1)"
  shows "framed i rt (case iouringd_allocate_resource_id (client_at rt1 i) of (r, c1) \<Rightarrow> f r c1)"
  using assms(2) allocate_frame by (auto split: prod.splits)

lemma output_ok_slots [simp]:
  "output_ok (set_file_slot j s c) = output_ok c" "output_ok (set_buffer_slot j b c) = output_ok c"
  by (simp_all add: output_ok_def set_file_slot_def set_buffer_slot_def)

lemma touches_clear_slot [frames]:
  "touches i rt rt1 \<Longrightarrow> touches i rt (rt_clear_file_slot i j rt1)"
  unfolding rt_clear_file_slot_def iouringd_clear_file_slot_def
  by (auto intro!: touches_set_client touches_fields simp: output_ok_def set_file_slot_def)
    (simp add: side_of_def)

lemma touches_unreserve [frames]: "touches i rt rt1 \<Longrightarrow> touches i rt (unreserve_slot i j rt1)"
  unfolding unreserve_slot_def by (auto intro!: frames)

lemma framed_try_release_file [frames]:
  "touches i rt rt1 \<Longrightarrow> framed i rt (iouringd_try_release_file_slot sys i j rt1)"
  unfolding iouringd_try_release_file_slot_def Let_def by (auto intro!: frames)

lemma framed_try_release_buffer [frames]:
  "touches i rt rt1 \<Longrightarrow> framed i rt (on_client i (iouringd_try_release_buffer_slot j) rt1)"
  by (rule framed_on_client)
    (auto simp: iouringd_try_release_buffer_slot_def Let_def output_ok_def set_buffer_slot_def side_of_def
      split: if_splits)

section \<open>Dispatching\<close>

lemma framed_register_fd: "framed i rt (dispatch_register_fd sys i rt)"
  unfolding dispatch_register_fd_def drop_received_fd_def Let_def
  by (auto intro!: frames split: option.splits simp: io_of_def side_of_def set_file_slot_def)

lemma framed_register_buffer: "framed i rt (dispatch_register_buffer sys i rt)"
  unfolding dispatch_register_buffer_def Let_def
  by (auto intro!: frames split: option.splits)

lemma framed_release_resource: "framed i rt (dispatch_release_resource sys i rt)"
  unfolding dispatch_release_resource_def released_def Let_def
  by (auto intro!: frames split: option.splits)

lemma trace_send_side:
  "trace_send_loop es latest q n c = (r, c') \<Longrightarrow> side_of c' = side_of c \<and> (output_ok c \<longrightarrow> output_ok c')"
proof (induction es latest q n c arbitrary: r c' rule: trace_send_loop.induct)
  case (1 es latest q n c)
  show ?case
  proof (cases "q \<le> latest \<and> n \<noteq> 0")
    case True
    obtain r1 c1 where q1: "iouringd_queue_client_output (enc_trace_event (es ! trace_slot q)) c = (r1, c1)"
      by fastforce
    with True 1 queue_output_side [OF q1] show ?thesis
      by (cases r1) (auto simp: trace_send_loop.simps [of es latest q n c])
  next
    case False
    with 1(2) show ?thesis by (auto simp: trace_send_loop.simps [of es latest q n c])
  qed
qed

lemma queue_trace_side:
  "iouringd_queue_trace_result rt c = (r, c') \<Longrightarrow> side_of c' = side_of c \<and> (output_ok c \<longrightarrow> output_ok c')"
  unfolding iouringd_queue_trace_result_def Let_def
  by (erule bind_rc_cases) (auto dest!: queue_output_side trace_send_side split: if_splits)

lemma framed_get_stats: "framed i rt (dispatch_get_stats i rt)"
  unfolding dispatch_get_stats_def iouringd_queue_stats_result_def by (auto intro!: frames)

lemma framed_get_trace: "framed i rt (dispatch_get_trace i rt)"
  unfolding dispatch_get_trace_def
  by (intro framed_bind framed_on_client touches_refl queue_trace_side framed_finish)

lemma framed_openat: "framed i rt (dispatch_openat sys i rt)"
  unfolding dispatch_openat_def Let_def
  by (auto intro!: frames split: option.splits)

lemma framed_close: "framed i rt (dispatch_close sys i rt)"
  unfolding dispatch_close_def Let_def by (auto intro!: frames split: option.splits)

lemma framed_submit_io [frames]:
  "touches i rt rt1 \<Longrightarrow> framed i rt (submit_io sys i j n rt1)"
  unfolding submit_io_def Let_def by (auto intro!: frames)

lemma touches_load_io [frames]: "touches i rt rt1 \<Longrightarrow> touches i rt (load_io_buffer i n rt1)"
  unfolding load_io_buffer_def Let_def by (auto intro!: frames)

lemma touches_give_back [frames]: "touches i rt rt1 \<Longrightarrow> touches i rt (give_back i j b result rt1)"
  unfolding give_back_def Let_def by (auto intro!: frames split: option.splits)

lemma touches_unallocate [frames]: "touches i rt rt1 \<Longrightarrow> touches i rt (unallocate_result i result rt1)"
  unfolding unallocate_result_def by (auto intro!: frames split: option.splits)

lemma framed_reserve [frames]: "touches i rt rt1 \<Longrightarrow> framed i rt (reserve_result i n rt1)"
  unfolding reserve_result_def reserve_accept_def Let_def
  by (auto intro!: frames split: option.splits)

lemma framed_resource_io: "framed i rt (dispatch_resource_io sys i rt)"
  unfolding dispatch_resource_io_def Let_def by (auto intro!: frames split: option.splits sum.splits)

lemma framed_plain: "framed i rt (dispatch_plain sys i rt)"
  unfolding dispatch_plain_def Let_def by (auto intro!: frames split: option.splits)

lemma framed_dispatch: "framed i rt (iouringd_dispatch_client_request sys i rt)"
  unfolding iouringd_dispatch_client_request_def dispatch_submit_def Let_def
  by (simp add: framed_register_fd framed_register_buffer framed_release_resource
      framed_get_stats framed_get_trace framed_openat framed_close framed_resource_io framed_plain
      framed_pair framed_reject touches_refl split: option.splits)

section \<open>Completing\<close>

lemma touches_kernel_fill [frames]: "touches i rt rt1 \<Longrightarrow> touches i rt (kernel_fill_buffer sys t res rt1)"
  unfolding kernel_fill_buffer_def Let_def by (auto intro!: frames)

lemma framed_register_result [frames]:
  "touches i rt rt1 \<Longrightarrow> tk_client_index t = i \<Longrightarrow> framed i rt (register_result sys t fd rt1)"
  unfolding register_result_def Let_def by (auto intro!: frames)

lemma register_result_touches:
  "register_result sys t fd rt1 = (r, rt2) \<Longrightarrow> touches i rt rt1 \<Longrightarrow> tk_client_index t = i \<Longrightarrow> touches i rt rt2"
  using framed_register_result [of i rt rt1 t sys fd] by (simp add: framed_def)

lemma prepare_accept_touches:
  assumes "iouringd_prepare_accept_completion sys t (cp, p) rt1 = (out, rt2)" and "touches i rt rt1"
    and "tk_client_index t = i"
  shows "touches i rt rt2"
  using assms register_result_touches [OF _ assms(2,3)]
  by (auto simp: iouringd_prepare_accept_completion_def Let_def intro!: frames
      split: if_splits prod.splits sum.splits)

lemma prepare_openat_touches:
  assumes "iouringd_prepare_openat_completion sys t cp rt1 = (out, rt2)" and "touches i rt rt1"
    and "tk_client_index t = i"
  shows "touches i rt rt2"
  using assms register_result_touches [OF _ assms(2,3)]
  by (auto simp: iouringd_prepare_openat_completion_def Let_def intro!: frames
      split: if_splits prod.splits sum.splits)

lemma take_read_payload_touches:
  assumes "take_read_payload t res p rt1 = (out, rt2)" and "touches i rt rt1" and "tk_client_index t = i"
  shows "touches i rt rt2"
  using assms by (auto simp: take_read_payload_def Let_def intro!: frames split: if_splits)

lemma framed_queue_completion [frames]:
  "touches i rt rt1 \<Longrightarrow> tk_client_index t = i \<Longrightarrow> framed i rt (queue_completion t cp p rt1)"
  unfolding queue_completion_def Let_def by (auto intro!: frames split: option.splits)

lemma framed_release_task [frames]:
  "touches i rt rt1 \<Longrightarrow> tk_client_index t = i \<Longrightarrow> framed i rt (release_task_file sys t rt1)"
  "touches i rt rt1 \<Longrightarrow> tk_client_index t = i \<Longrightarrow> framed i rt (release_task_result sys t rt1)"
  "touches i rt rt1 \<Longrightarrow> tk_client_index t = i \<Longrightarrow> framed i rt (release_task_buffer t rt1)"
  unfolding release_task_file_def release_task_result_def release_task_buffer_def Let_def
  by (auto intro!: frames)

lemma touches_finish_counts [frames]:
  "touches i rt rt1 \<Longrightarrow> tk_client_index t = i \<Longrightarrow> touches i rt (finish_task_counts t rt1)"
  unfolding finish_task_counts_def Let_def by (auto intro!: frames)

lemma framed_complete_task:
  assumes "i = tk_client_index (task_at rt n)"
  shows "framed i rt (iouringd_complete_task sys n res rt)"
proof -
  let ?t = "kernel_done sys (task_at rt n)"
  have i: "tk_client_index ?t = i" using assms by simp
  obtain cp1 p1 rt1 where pa: "iouringd_prepare_accept_completion sys ?t (completion_record ?t res, None)
      (kernel_fill_buffer sys ?t res rt) = ((cp1, p1), rt1)" by (metis surj_pair)
  obtain cp rt2 where po: "iouringd_prepare_openat_completion sys ?t cp1 rt1 = (cp, rt2)" by fastforce
  obtain p rt3 where tr: "take_read_payload ?t res p1 rt2 = (p, rt3)" by fastforce
  have t1: "touches i rt rt1" using prepare_accept_touches [OF pa _ i] by (auto intro!: frames)
  have t2: "touches i rt rt2" using prepare_openat_touches [OF po t1 i] .
  have t3: "touches i rt rt3" using take_read_payload_touches [OF tr t2 i] .
  show ?thesis
    unfolding iouringd_complete_task_def Let_def pa po tr prod.case
    using t2 t3 i by (auto intro!: frames)
qed

section \<open>All clients\<close>

definition keeps :: "iouringd_runtime \<Rightarrow> iouringd_runtime \<Rightarrow> bool" where
  "keeps rt rt' \<longleftrightarrow> config_of rt' = config_of rt \<and> length (rt_clients rt') = length (rt_clients rt)
     \<and> (\<forall>k. side_of (client_at rt' k) = side_of (client_at rt k)
          \<and> (output_ok (client_at rt k) \<longrightarrow> output_ok (client_at rt' k)))"

lemma keeps_refl: "keeps rt rt"
  by (simp add: keeps_def)

lemma keeps_trans: "keeps a b \<Longrightarrow> keeps b c \<Longrightarrow> keeps a c"
  by (simp add: keeps_def)

lemma touches_keeps: "touches i rt rt' \<Longrightarrow> keeps rt rt'"
  unfolding touches_def keeps_def by metis

lemma framed_keeps: "framed i rt (r, rt') \<Longrightarrow> keeps rt rt'"
  by (simp add: framed_def touches_keeps)

lemma keeps_limits: "keeps rt rt' \<Longrightarrow> rt_limits rt' = rt_limits rt"
  by (simp add: keeps_def config_of_def)

lemma sweep_files_frame: "sweep_files sys i js p rt = (r, rt') \<Longrightarrow> keeps rt rt'"
proof (induction sys i js p rt arbitrary: r rt' rule: sweep_files.induct)
  case (2 sys i j js p rt)
  show ?case
  proof (cases "\<not> fs_closing (cl_file_resources (client_at rt i) ! j)
      \<or> fs_in_flight (cl_file_resources (client_at rt i) ! j) \<noteq> 0")
    case True
    with 2 show ?thesis by (auto simp: Let_def split: if_splits)
  next
    case False
    obtain y rt1 where rel: "iouringd_try_release_file_slot sys i j rt = (y, rt1)" by fastforce
    have "keeps rt rt1"
      using framed_try_release_file [OF touches_refl, of i rt sys j] rel by (simp add: framed_keeps)
    with False 2 rel show ?thesis by (cases y) (auto simp: Let_def intro: keeps_trans)
  qed
qed (simp add: keeps_refl)

lemma sweep_buffers_frame: "sweep_buffers i js p rt = (r, rt') \<Longrightarrow> keeps rt rt'"
proof (induction i js p rt arbitrary: r rt' rule: sweep_buffers.induct)
  case (2 i j js p rt)
  show ?case
  proof (cases "\<not> bs_closing (cl_buffer_resources (client_at rt i) ! j)
      \<or> bs_in_flight (cl_buffer_resources (client_at rt i) ! j) \<noteq> 0")
    case True
    with 2 show ?thesis by (auto simp: Let_def split: if_splits)
  next
    case False
    obtain y rt1 where rel: "on_client i (iouringd_try_release_buffer_slot j) rt = (y, rt1)" by fastforce
    have "keeps rt rt1"
      using framed_try_release_buffer [OF touches_refl, of i rt j] rel by (simp add: framed_keeps)
    with False 2 rel show ?thesis by (cases y) (auto simp: Let_def intro: keeps_trans)
  qed
qed (simp add: keeps_refl)

lemma sweep_clients_frame: "sweep_clients sys is p rt = (r, rt') \<Longrightarrow> keeps rt rt'"
proof (induction sys "is" p rt arbitrary: r rt' rule: sweep_clients.induct)
  case (2 sys i "is" p rt)
  obtain y rt1 where f: "sweep_files sys i [0..<cl_file_slot_limit (client_at rt i)] p rt = (y, rt1)" by fastforce
  show ?case
  proof (cases y)
    case (Inr p1)
    obtain z rt2 where b: "sweep_buffers i [0..<cl_buffer_slot_limit (client_at rt1 i)] p1 rt1 = (z, rt2)" by fastforce
    have "keeps rt rt2" using sweep_files_frame [OF f] sweep_buffers_frame [OF b] by (rule keeps_trans)
    with 2 f b Inr show ?thesis by (cases z) (auto intro: keeps_trans)
  qed (use 2 f sweep_files_frame in simp)
qed (simp add: keeps_refl)

end
