(* ===== verification/Startup.thy ===== *)
theory Startup
  imports Event_Loop
begin

text \<open>
  Start of the daemon, main.c lines 398 to 416 and 4124 to 4375: the command line, the limits it
  sets, and the initialisation of the runtime up to the event loop. The system calls of the start
  are a \<open>boot\<close> record. The exit status of a start that fails is \<open>Inl\<close>.
\<close>

section \<open>Numbers on the command line\<close>

definition is_space :: "char \<Rightarrow> bool" where
  "is_space c \<longleftrightarrow> (let n = (of_char c :: nat) in n = 32 \<or> 9 \<le> n \<and> n \<le> 13)"

definition is_digit :: "char \<Rightarrow> bool" where
  "is_digit c \<longleftrightarrow> (let n = (of_char c :: nat) in 48 \<le> n \<and> n \<le> 57)"

definition digit_value :: "char \<Rightarrow> nat" where
  "digit_value c = of_char c - 48"

definition decimal :: "string \<Rightarrow> nat" where
  "decimal ds = foldl (\<lambda>n c. 10 * n + digit_value c) 0 ds"

datatype strtoul_result = No_conversion | Out_of_range | Parsed nat string

text \<open>\<open>strtoul(value, &end, 10)\<close>: white space, an optional sign, digits; the rest is \<open>end\<close>. A minus
  sign negates the value modulo \<open>2 ^ 64\<close>, as the C standard has it.\<close>

definition strtoul :: "string \<Rightarrow> strtoul_result" where
  "strtoul s =
     (let s1 = dropWhile is_space s;
          negative = (s1 \<noteq> [] \<and> hd s1 = CHR ''-'');
          s2 = (if s1 \<noteq> [] \<and> (hd s1 = CHR ''-'' \<or> hd s1 = CHR ''+'') then tl s1 else s1);
          ds = takeWhile is_digit s2;
          n = decimal ds
      in if ds = [] then No_conversion
         else if n \<ge> 2 ^ 64 then Out_of_range
         else Parsed (if negative then (2 ^ 64 - n) mod 2 ^ 64 else n) (dropWhile is_digit s2))"

definition iouringd_parse_unsigned_arg :: "string \<Rightarrow> errno + nat" where
  "iouringd_parse_unsigned_arg value =
     (if value = [] then Inl EINVAL
      else case strtoul value of
        No_conversion \<Rightarrow> Inl EINVAL
      | Out_of_range \<Rightarrow> Inl EINVAL
      | Parsed n rest \<Rightarrow> if rest \<noteq> [] \<or> n > 2 ^ 32 - 1 then Inl EINVAL else Inr n)"

section \<open>The command line\<close>

record options =
  op_limits :: iouringd_limits
  op_trace_to_stderr :: bool
  op_job_id :: "nat option"

text \<open>The arguments from \<open>argv[index]\<close> on; the last one is the socket path.\<close>

fun parse_options :: "string list \<Rightarrow> options \<Rightarrow> errno + options \<times> string" where
  "parse_options [] op = Inl EINVAL"
| "parse_options [path] op = Inr (op, path)"
| "parse_options (name # value # args) op =
     (if name = ''--trace-stderr'' then parse_options (value # args) (op\<lparr>op_trace_to_stderr := True\<rparr>)
      else case iouringd_parse_unsigned_arg value of
        Inl e \<Rightarrow> Inl e
      | Inr v \<Rightarrow>
          let lim = op_limits op in
          if name = ''--ring-entries''
          then parse_options args (op\<lparr>op_limits := lim\<lparr>lim_ring_entries := v\<rparr>\<rparr>)
          else if name = ''--max-clients''
          then parse_options args (op\<lparr>op_limits := lim\<lparr>lim_max_clients := v\<rparr>\<rparr>)
          else if name = ''--registered-fds''
          then parse_options args (op\<lparr>op_limits := lim\<lparr>lim_registered_fds_per_client := v\<rparr>\<rparr>)
          else if name = ''--registered-buffers''
          then parse_options args (op\<lparr>op_limits := lim\<lparr>lim_registered_buffers_per_client := v\<rparr>\<rparr>)
          else if name = ''--per-client-credits''
          then parse_options args (op\<lparr>op_limits := lim\<lparr>lim_per_client_credits := v\<rparr>\<rparr>)
          else if name = ''--io-bytes-max''
          then parse_options args (op\<lparr>op_limits := lim\<lparr>lim_io_bytes_max := v\<rparr>\<rparr>)
          else if name = ''--job-id'' then parse_options args (op\<lparr>op_job_id := Some v\<rparr>)
          else Inl EINVAL)"

definition limits_ok :: "iouringd_limits \<Rightarrow> bool" where
  "limits_ok lim \<longleftrightarrow>
     \<not> (lim_ring_entries lim < 2 \<or> lim_ring_entries lim > IOURINGD_MAX_TASKS
        \<or> lim_max_clients lim = 0 \<or> lim_max_clients lim > IOURINGD_MAX_CLIENTS
        \<or> lim_registered_fds_per_client lim = 0
        \<or> lim_registered_fds_per_client lim > IOURINGD_MAX_REGISTERED_FDS
        \<or> lim_registered_buffers_per_client lim = 0
        \<or> lim_registered_buffers_per_client lim > IOURINGD_MAX_REGISTERED_BUFFERS
        \<or> lim_per_client_credits lim = 0 \<or> lim_per_client_credits lim > IOURINGD_MAX_TASKS
        \<or> lim_io_bytes_max lim = 0 \<or> lim_io_bytes_max lim > IOURINGD_MAX_IO_BYTES)"

text \<open>\<open>iouringd_parse_args\<close> on the arguments after the program name: the runtime with its limits and
  table sizes, the options, and the socket path.\<close>

definition iouringd_parse_args ::
  "string list \<Rightarrow> iouringd_runtime \<Rightarrow> errno + iouringd_runtime \<times> options \<times> string" where
  "iouringd_parse_args args rt =
     (case parse_options args \<lparr>op_limits = rt_limits rt, op_trace_to_stderr = False, op_job_id = None\<rparr> of
        Inl e \<Rightarrow> Inl e
      | Inr (op, path) \<Rightarrow>
          let lim = op_limits op in
          if \<not> limits_ok lim then Inl EINVAL
          else Inr (rt\<lparr>rt_limits := lim,
                       rt_registered_file_capacity :=
                         lim_max_clients lim * lim_registered_fds_per_client lim,
                       rt_registered_buffer_capacity :=
                         lim_max_clients lim * lim_registered_buffers_per_client lim\<rparr>,
                    op, path))"

section \<open>Initialisation\<close>

record boot =
  bt_signals :: bool
  bt_setup :: setup_kernel
  bt_storage :: bool
  bt_register_files :: int
  bt_iovecs :: bool
  bt_register_buffers :: int
  bt_socket :: "errno + int"
  bt_cloexec :: bool
  bt_nonblock :: bool
  bt_bind :: bool
  bt_listen :: bool

text \<open>The ring behind the mapped memory: empty queues of the sizes the kernel reports.\<close>

definition mapped_ring :: "int \<Rightarrow> u32 \<Rightarrow> iouringd_capability_descriptor_v1 \<Rightarrow> iouringd_ring" where
  "mapped_ring fd flags cap =
     closed_ring
       \<lparr>rg_ring_fd := fd, rg_setup_flags := flags,
        rg_sqes := replicate (unat (cap_ring_entries cap)) zero_sqe,
        rg_sq_array := replicate (unat (cap_ring_entries cap)) 0,
        rg_sq_ring_mask := cap_ring_entries cap - 1, rg_sq_ring_entries := cap_ring_entries cap,
        rg_cqes := replicate (unat (cap_cq_entries cap)) \<lparr>cqe_user_data = 0, cqe_res = 0\<rparr>,
        rg_cq_ring_mask := cap_cq_entries cap - 1\<rparr>"

definition iouringd_init_registered_buffer_storage :: "iouringd_runtime \<Rightarrow> iouringd_runtime" where
  "iouringd_init_registered_buffer_storage rt =
     rt\<lparr>rt_buffer_storage := replicate (rt_registered_buffer_capacity rt)
       (replicate (lim_io_bytes_max (rt_limits rt)) 0)\<rparr>"

definition output_capacity :: "iouringd_limits \<Rightarrow> nat \<Rightarrow> nat" where
  "output_capacity lim tasks =
     sizeof_handshake_result + sizeof_stats_result + sizeof_trace_result
     + IOURINGD_TRACE_CAPACITY * sizeof_trace_event
     + (lim_registered_fds_per_client lim + lim_registered_buffers_per_client lim)
       * sizeof_resource_result
     + tasks * (sizeof_submit_result + sizeof_completion_record + lim_io_bytes_max lim)"

text \<open>The derived capacities and what the handshake advertises.\<close>

definition set_capacities :: "iouringd_runtime \<Rightarrow> iouringd_runtime" where
  "set_capacities rt =
     (let lim = rt_limits rt;
          tasks = rt_ring_capacity rt - 1
      in rt\<lparr>rt_task_capacity := tasks,
            rt_per_client_credit_limit := min (lim_per_client_credits lim) tasks,
            rt_capabilities := (rt_capabilities rt)
              \<lparr>cap_submit_credits := of_nat tasks,
               cap_registered_fd_slots := of_nat (lim_registered_fds_per_client lim),
               cap_registered_buffer_slots := of_nat (lim_registered_buffers_per_client lim),
               cap_io_bytes_max := of_nat (lim_io_bytes_max lim)\<rparr>,
            rt_client_output_capacity := output_capacity lim tasks\<rparr>)"

text \<open>The part of \<open>main\<close> before the event loop. A failure runs the cleanup, whose effect ends with the
  process, and returns the exit status.\<close>

definition start_sockets :: "boot \<Rightarrow> string \<Rightarrow> iouringd_runtime \<Rightarrow> int + iouringd_runtime" where
  "start_sockets b path rt =
     (case bt_socket b of
        Inl e \<Rightarrow> Inl 1
      | Inr fd \<Rightarrow>
          if \<not> bt_cloexec b \<or> \<not> bt_nonblock b then Inl 1
          else if length path \<ge> 108 then Inl 2
          else if \<not> bt_bind b \<or> \<not> bt_listen b then Inl 1
          else Inr (rt\<lparr>rt_server_fd := fd\<rparr>))"

definition start_ring :: "boot \<Rightarrow> iouringd_runtime \<Rightarrow> int + iouringd_runtime" where
  "start_ring b rt =
     (case iouringd_ring_init (bt_setup b) (lim_ring_entries (rt_limits rt)) of
        Inl e \<Rightarrow> Inl 1
      | Inr (fd, flags, cap) \<Rightarrow>
          let ring = mapped_ring fd flags cap;
              capacity = unat (iouringd_ring_capacity ring);
              rt1 = iouringd_init_registered_buffer_storage
                (rt\<lparr>rt_ring := ring, rt_capabilities := cap, rt_ring_capacity := capacity\<rparr>)
          in if capacity \<le> 1 \<or> capacity > IOURINGD_MAX_TASKS \<or> \<not> bt_storage b then Inl 1
             else case iouringd_ring_init_registered_files (bt_register_files b)
                 (rt_registered_file_capacity rt1) (rt_ring rt1) of
               (Inl e, ring1) \<Rightarrow> Inl 1
             | (Inr _, ring1) \<Rightarrow>
                 if \<not> bt_iovecs b then Inl 1
                 else case iouringd_ring_init_registered_buffers (bt_register_buffers b)
                     (rt_registered_buffer_capacity rt1) ring1 of
                   (Inl e, ring2) \<Rightarrow> Inl 1
                 | (Inr _, ring2) \<Rightarrow> Inr (set_capacities (rt1\<lparr>rt_ring := ring2\<rparr>)))"

definition daemon_start :: "boot \<Rightarrow> string list \<Rightarrow> int + iouringd_runtime" where
  "daemon_start b args =
     (if args = [] then Inl 2
      else case iouringd_parse_args args iouringd_init_runtime of
        Inl e \<Rightarrow> Inl 2
      | Inr (rt, op, path) \<Rightarrow>
          if \<not> bt_signals b then Inl 1
          else case start_ring b rt of
            Inl status \<Rightarrow> Inl status
          | Inr rt1 \<Rightarrow> start_sockets b path rt1)"

end
