(* ===== verification/Running.thy ===== *)
theory Running
  imports Frames Startup
begin

text \<open>
  The invariant of the running daemon, and that every part of a turn of the event loop keeps it:
  the accounting invariant of \<open>Core\<close> together with the parser and output invariants of every client
  and the bounds on the configuration.
\<close>

definition config_ok :: "iouringd_runtime \<Rightarrow> bool" where
  "config_ok rt \<longleftrightarrow>
     0 < lim_max_clients (rt_limits rt)
     \<and> lim_registered_fds_per_client (rt_limits rt) \<le> IOURINGD_MAX_REGISTERED_FDS
     \<and> lim_registered_buffers_per_client (rt_limits rt) \<le> IOURINGD_MAX_REGISTERED_BUFFERS
     \<and> lim_io_bytes_max (rt_limits rt) \<le> IOURINGD_MAX_IO_BYTES
     \<and> rt_client_output_capacity rt < 2 ^ 64"

definition daemon_ok :: "iouringd_runtime \<Rightarrow> bool" where
  "daemon_ok rt \<longleftrightarrow> core_ok (core_of rt) \<and> config_ok rt
     \<and> (\<forall>k < IOURINGD_MAX_CLIENTS. parser_ok (client_at rt k) \<and> output_ok (client_at rt k))"

lemma daemon_okD:
  assumes "daemon_ok rt"
  shows "core_ok (core_of rt)" and "config_ok rt" and "length (rt_clients rt) = 64"
    and "length (rt_tasks rt) = 64" and "0 < lim_max_clients (rt_limits rt)"
    and "lim_max_clients (rt_limits rt) \<le> 64"
    and "k < 64 \<Longrightarrow> parser_ok (client_at rt k)" and "k < 64 \<Longrightarrow> output_ok (client_at rt k)"
  using assms core_okD(1-3) [of "core_of rt"]
  by (simp_all add: daemon_ok_def config_ok_def core_length core_fields)

lemma config_ok_cong: "config_of rt' = config_of rt \<Longrightarrow> config_ok rt' = config_ok rt"
  by (simp add: config_of_def config_ok_def)

lemma parser_ok_side: "side_of c' = side_of c \<Longrightarrow> parser_ok c' = parser_ok c"
  by (simp add: side_of_def parser_ok_def payload_ok_def)

lemma daemon_ok_keeps:
  assumes "daemon_ok rt" and "keeps rt rt'" and "core_ok (core_of rt')"
  shows "daemon_ok rt'"
  using assms parser_ok_side [of "client_at rt' k" "client_at rt k" for k] config_ok_cong [of rt' rt]
  unfolding daemon_ok_def keeps_def by blast

lemma daemon_ok_core_ring: "daemon_ok rt \<Longrightarrow> daemon_ok (rt\<lparr>rt_ring := ring\<rparr>)"
  by (rule daemon_ok_keeps) (auto simp: daemon_okD intro!: touches_keeps frames)

section \<open>A client that only its own socket changes\<close>

text \<open>The accounting of the client is as before: its counters, and in every slot the count of the tasks
  in flight, the identifier and the registration.\<close>

definition file_account :: "iouringd_resource_slot \<Rightarrow> u32 \<times> resource_id \<times> bool" where
  "file_account s = (fs_in_flight s, fs_resource_id s, fs_registered s)"

definition buffer_account :: "iouringd_buffer_slot \<Rightarrow> u32 \<times> resource_id \<times> bool" where
  "buffer_account s = (bs_in_flight s, bs_resource_id s, bs_registered s)"

definition same_account :: "iouringd_client \<Rightarrow> iouringd_client \<Rightarrow> bool" where
  "same_account c c' \<longleftrightarrow>
     cl_generation c' = cl_generation c \<and> cl_file_slot_limit c' = cl_file_slot_limit c
     \<and> cl_buffer_slot_limit c' = cl_buffer_slot_limit c
     \<and> cl_outstanding_tasks c' = cl_outstanding_tasks c
     \<and> cl_outstanding_credit_tasks c' = cl_outstanding_credit_tasks c
     \<and> map file_account (cl_file_resources c') = map file_account (cl_file_resources c)
     \<and> map buffer_account (cl_buffer_resources c') = map buffer_account (cl_buffer_resources c)"

lemma same_account_refl: "same_account c c"
  by (simp add: same_account_def)

lemma same_account_trans: "same_account a b \<Longrightarrow> same_account b c \<Longrightarrow> same_account a c"
  by (simp add: same_account_def)

lemma map_eq_nth: "map f xs = map f ys \<Longrightarrow> j < length ys \<Longrightarrow> f (xs ! j) = f (ys ! j)"
  by (metis map_eq_imp_length_eq nth_map)

lemma same_account_slots:
  assumes "same_account c c'"
  shows "length (cl_file_resources c') = length (cl_file_resources c)"
    and "length (cl_buffer_resources c') = length (cl_buffer_resources c)"
    and "j < length (cl_file_resources c) \<Longrightarrow>
      file_account (cl_file_resources c' ! j) = file_account (cl_file_resources c ! j)"
    and "b < length (cl_buffer_resources c) \<Longrightarrow>
      buffer_account (cl_buffer_resources c' ! b) = buffer_account (cl_buffer_resources c ! b)"
  using assms unfolding same_account_def by (auto dest: map_eq_imp_length_eq intro: map_eq_nth)

lemma same_account_core_ok:
  assumes "daemon_ok rt" and "i < 64" and same: "same_account (client_at rt i) c"
  shows "core_ok (core_of (set_client i c rt))"
proof -
  note d = daemon_okD [OF assms(1)]
  have i: "i < length (rt_clients rt)" using assms(2) d(3) by simp
  note tables = core_ok_tables [OF d(1) i]
  note slots = same_account_slots [OF same]
  have "fs_in_flight (cl_file_resources c ! j) = fs_in_flight (cl_file_resources (client_at rt i) ! j)"
    if "j < 32" for j
    using slots(3) [of j] that tables(1) by (simp add: file_account_def)
  moreover have "bs_in_flight (cl_buffer_resources c ! j) = bs_in_flight (cl_buffer_resources (client_at rt i) ! j)"
    if "j < 4" for j
    using slots(4) [of j] that tables(2) by (simp add: buffer_account_def)
  ultimately have "stays i (core_of rt) (core_of (set_client i c rt))"
    using same slots(1,2) by (intro moves_client [OF i refl refl]) (auto simp: same_account_def)
  then show ?thesis
    using stays_core_ok d(1) assms(2) by (simp add: core_length)
qed

lemma daemon_ok_set_client:
  assumes "daemon_ok rt" and i: "i < 64" and "core_ok (core_of (set_client i c rt))"
    and "parser_ok c" and "output_ok c"
  shows "daemon_ok (set_client i c rt)"
proof -
  have "config_ok (set_client i c rt)"
    using daemon_okD(2) [OF assms(1)] by (simp add: set_client_def config_ok_def)
  with assms daemon_okD [OF assms(1)] show ?thesis
    by (auto simp: daemon_ok_def nth_list_update)
qed

lemma daemon_ok_os: "daemon_ok (rt\<lparr>rt_os := os\<rparr>) = daemon_ok rt"
  by (simp add: daemon_ok_def config_ok_def)

lemma close_client_account:
  assumes "iouringd_close_client (os, c) = (os', c')"
  shows "same_account c c'" and "output_ok c'"
  using assms
  by (auto simp: iouringd_close_client_def iouringd_reset_client_input_def same_account_def output_ok_def
      mark_file_closing_def mark_buffer_closing_def file_account_def buffer_account_def)

text \<open>The steps on the socket of one client.\<close>

definition account_step :: "nat \<Rightarrow> iouringd_runtime \<Rightarrow> iouringd_runtime \<Rightarrow> bool" where
  "account_step i rt rt' \<longleftrightarrow>
     (\<exists>os c. rt' = set_client i c (rt\<lparr>rt_os := os\<rparr>) \<and> same_account (client_at rt i) c)"

lemma account_stepI: "same_account (client_at rt i) c \<Longrightarrow> account_step i rt (set_client i c (rt\<lparr>rt_os := os\<rparr>))"
  unfolding account_step_def by blast

lemma close_account_step: "account_step i rt (rt_close_client i rt)"
  by (auto simp: rt_close_client_def split: prod.splits intro!: account_stepI close_client_account(1))

lemma close_client_ok:
  assumes "daemon_ok rt" and i: "i < 64"
  shows "daemon_ok (rt_close_client i rt)"
proof -
  obtain os c where cl: "iouringd_close_client (rt_os rt, client_at rt i) = (os, c)" by fastforce
  have rt: "daemon_ok (rt\<lparr>rt_os := os\<rparr>)" using assms by (simp add: daemon_ok_os)
  have "cl_io_bytes_max (client_at rt i) \<le> 4096"
    using daemon_okD(7) [OF assms] by (simp add: parser_ok_def payload_ok_def)
  from close_client_parser_ok [OF cl this] close_client_account [OF cl]
    daemon_ok_set_client [OF rt i same_account_core_ok [OF rt i]] show ?thesis
    by (simp add: rt_close_client_def cl)
qed

lemma parse_frame_account: "parse_frame c c' \<Longrightarrow> same_account c c' \<and> io_of c' = io_of c"
  by (simp add: parse_frame_def same_account_def io_of_def)

lemma handshake_account:
  assumes "iouringd_queue_handshake_result rt q c = (r, c')"
  shows "same_account c c'" and "output_ok c \<Longrightarrow> output_ok c'"
proof -
  obtain c1 m where c1: "c1 = c\<lparr>cl_close_after_flush := True\<rparr>
      \<or> c1 = c\<lparr>cl_phase := IOURINGD_CLIENT_PHASE_SUBMIT\<rparr>"
    and "bind_rc (iouringd_queue_client_output m c1)
      (\<lambda>_ c2. (Inr (), iouringd_reset_client_input c2)) = (r, c')"
    using assms unfolding iouringd_queue_handshake_result_def Let_def
    by (auto split: if_splits)
  then obtain r2 c2 where q: "iouringd_queue_client_output m c1 = (r2, c2)"
    and c': "c' = c2 \<or> c' = iouringd_reset_client_input c2"
    by (auto elim: bind_rc_cases)
  note same = same_but_outputD [OF queue_output_frame [OF q]]
  have start: "same_account c c1 \<and> output_ok c1 = output_ok c"
    using c1 by (elim disjE) (simp_all add: same_account_def output_ok_def)
  have "same_account c1 c2" using same by (simp add: same_account_def)
  moreover have "same_account c2 c' \<and> output_ok c' = output_ok c2"
    using c' by (elim disjE) (simp_all add: iouringd_reset_client_input_def same_account_def output_ok_def)
  ultimately show "same_account c c'" and "output_ok c \<Longrightarrow> output_ok c'"
    using start queue_output_side [OF q] same_account_trans by blast+
qed

section \<open>Reading, flushing, closing\<close>

lemma service_loop_account:
  assumes "output_ok c" and "service_loop rt progress (ws, os, c) = (r, ws', os', c')"
  shows "same_account c c' \<and> output_ok c'"
  using conjI [OF same_account_refl assms(1)] assms(2)
proof (rule service_loop_invariant)
  fix ws os c1 r ws' os' c2
  assume "same_account c c1 \<and> output_ok c1"
    and "iouringd_read_client_input (ws, os, c1) = (r, ws', os', c2)"
  with read_input_spec [OF this(2)] same_but_inputD [of c1 c2] show "same_account c c2 \<and> output_ok c2"
    by (auto simp: same_account_def output_ok_def)
next
  fix os c1 os' c2
  assume "same_account c c1 \<and> output_ok c1" and "iouringd_close_client (os, c1) = (os', c2)"
  with close_client_account [OF this(2)] show "same_account c c2 \<and> output_ok c2"
    using same_account_trans [of c c1 c2] by simp
next
  fix q c1 r c2
  assume "same_account c c1 \<and> output_ok c1" and "iouringd_queue_handshake_result rt q c1 = (r, c2)"
  with handshake_account [OF this(2)] show "same_account c c2 \<and> output_ok c2"
    using same_account_trans [of c c1 c2] by simp
next
  fix c1 b c2
  assume "same_account c c1 \<and> output_ok c1" and "iouringd_process_submit_input c1 = (Inr b, c2)"
  with parse_frame_account [OF process_frame [OF this(2)]] show "same_account c c2 \<and> output_ok c2"
    using io_of_pending [of c2 c1] same_account_trans [of c c1 c2] by simp
next
  fix c1 e c2 os os' c3
  assume ok: "same_account c c1 \<and> output_ok c1" and "iouringd_process_submit_input c1 = (Inl e, c2)"
    and cl: "iouringd_close_client (os, c2) = (os', c3)"
  with parse_frame_account [OF process_frame [OF this(2)]] close_client_account [OF cl]
  show "same_account c c3 \<and> output_ok c3"
    using same_account_trans [of c c1 c2] same_account_trans [of c c2 c3] by simp
qed

lemma service_account_step:
  assumes "output_ok (client_at rt i)" and "iouringd_service_client_readable i ws rt = (r, ws', rt')"
  shows "account_step i rt rt'"
  using assms(2)
  by (auto simp: iouringd_service_client_readable_def split: prod.splits
      intro!: account_stepI dest!: service_loop_account [OF assms(1)])

lemma service_ok:
  assumes "daemon_ok rt" and i: "i < 64"
    and out: "iouringd_service_client_readable i ws rt = (r, ws', rt')"
  shows "daemon_ok rt'"
proof -
  obtain os c where l: "service_loop rt False (ws, rt_os rt, client_at rt i) = (r, ws', os, c)"
    and rt': "rt' = set_client i c (rt\<lparr>rt_os := os\<rparr>)"
    using out by (auto simp: iouringd_service_client_readable_def split: prod.splits)
  have rt: "daemon_ok (rt\<lparr>rt_os := os\<rparr>)" using assms(1) by (simp add: daemon_ok_os)
  note d = daemon_okD(7,8) [OF assms(1) i]
  from service_loop_account [OF d(2) l] service_loop_parser_ok [OF d(1) l]
    daemon_ok_set_client [OF rt i same_account_core_ok [OF rt i]] show ?thesis
    by (simp add: rt')
qed

lemma flush_account_step:
  assumes "output_ok (client_at rt i)" and "iouringd_flush_client_output ws (client_at rt i) = (sent, r, c)"
  shows "account_step i rt (set_client i c rt)"
proof -
  have "cl_output_sent (client_at rt i) \<le> length (cl_output (client_at rt i))"
    using assms(1) by (simp add: output_ok_def)
  note f = flush_loop_spec [OF this assms(2)]
  have "same_account (client_at rt i) c"
    using same_but_outputD [OF f [THEN conjunct2, THEN conjunct1]] by (auto simp: same_account_def)
  then have "account_step i rt (set_client i c (rt\<lparr>rt_os := rt_os rt\<rparr>))" by (rule account_stepI)
  then show ?thesis by simp
qed

lemma flush_ok:
  assumes "daemon_ok rt" and i: "i < 64"
    and out: "iouringd_flush_client_output ws (client_at rt i) = (sent, r, c)"
  shows "daemon_ok (set_client i c rt)"
proof -
  note d = daemon_okD(7,8) [OF assms(1) i]
  have "cl_output_sent (client_at rt i) \<le> length (cl_output (client_at rt i))"
    using d(2) by (simp add: output_ok_def)
  note f = flush_loop_spec [OF this out]
  note same = same_but_outputD [OF f [THEN conjunct2, THEN conjunct1]]
  show ?thesis
    using d f same
    by (intro daemon_ok_set_client assms same_account_core_ok)
      (auto simp: same_account_def output_ok_def parser_ok_def payload_ok_def)
qed

section \<open>Dispatching\<close>

lemma dispatch_ok:
  assumes "daemon_ok rt" and "i < lim_max_clients (rt_limits rt)"
    and out: "iouringd_dispatch_client_request sys i rt = (Inr x, rt')"
  shows "daemon_ok rt'" and "rt_limits rt' = rt_limits rt"
proof -
  have k: "keeps rt rt'" using framed_dispatch [of i rt sys] out by (simp add: framed_keeps)
  with dispatch_core_ok [OF daemon_okD(1) [OF assms(1)] assms(2) out] assms(1)
  show "daemon_ok rt'" by (blast intro: daemon_ok_keeps)
  from k show "rt_limits rt' = rt_limits rt" by (rule keeps_limits)
qed

lemma daemon_ok_cursor: "daemon_ok (rt\<lparr>rt_dispatch_cursor := n\<rparr>) = daemon_ok rt"
  by (simp add: daemon_ok_def config_ok_def)

section \<open>The sweep\<close>

lemma daemon_ok_quiet: "daemon_ok rt \<Longrightarrow> keeps rt rt' \<Longrightarrow> quiet i rt rt' \<Longrightarrow> i < 64 \<Longrightarrow> daemon_ok rt'"
  by (rule daemon_ok_keeps) (auto intro: quiet_ok daemon_okD(1))

lemma release_file_ok:
  assumes "iouringd_try_release_file_slot sys i j rt = (r, rt')" and "daemon_ok rt" and "i < 64"
  shows "daemon_ok rt'"
proof -
  have "keeps rt rt'" using framed_try_release_file [OF touches_refl, of i rt sys j] assms(1)
    by (simp add: framed_keeps)
  with assms(2,3) try_release_quiet(1) [OF assms(1)] daemon_okD(3) [OF assms(2)] show ?thesis
    by (intro daemon_ok_quiet [of rt rt' i]) simp_all
qed

lemma release_buffer_ok:
  assumes "on_client i (iouringd_try_release_buffer_slot j) rt = (r, rt')" and "daemon_ok rt" and "i < 64"
  shows "daemon_ok rt'"
proof -
  have "keeps rt rt'" using framed_try_release_buffer [OF touches_refl, of i rt j] assms(1)
    by (simp add: framed_keeps)
  with assms(2,3) try_release_quiet(2) [OF assms(1)] daemon_okD(3) [OF assms(2)] show ?thesis
    by (intro daemon_ok_quiet [of rt rt' i]) simp_all
qed

section \<open>Reaping\<close>

lemma complete_task_ok:
  assumes "daemon_ok rt" and "iouringd_find_task_slot rt task = Some n"
    and out: "iouringd_complete_task sys n res rt = (Inr u, rt')"
  shows "daemon_ok rt'" and "cnt tk_active (rt_tasks rt') < cnt tk_active (rt_tasks rt)"
proof -
  note d = daemon_okD [OF assms(1)]
  have n: "n < 64" and act: "tk_active (task_at rt n)"
    using find_slot_Some [OF assms(2) [unfolded iouringd_find_task_slot_def]] core_okD(4) [OF d(1)]
    by (simp_all add: core_fields)
  note c = complete_task_core_ok [OF d(1) n act out]
  have "keeps rt rt'" using framed_complete_task [OF refl, of rt n sys res] out by (simp add: framed_keeps)
  with c(1) assms(1) show "daemon_ok rt'" by (blast intro: daemon_ok_keeps)
  have "0 < cnt tk_active (rt_tasks rt)"
    using act n d(4) nth_mem [of n "rt_tasks rt"] by (auto simp: filter_empty_conv)
  then show "cnt tk_active (rt_tasks rt') < cnt tk_active (rt_tasks rt)"
    using c(2) n d(4) act by (simp add: cnt_replace)
qed

section \<open>New clients\<close>

lemma opened_client_fields:
  "parser_ok (opened_client rt fd c) = (lim_io_bytes_max (rt_limits rt) \<le> 4096)"
  "output_ok (opened_client rt fd c) = (rt_client_output_capacity rt < 2 ^ 64)"
  "cl_outstanding_tasks (opened_client rt fd c) = 0"
  "cl_outstanding_credit_tasks (opened_client rt fd c) = 0"
  "cl_file_slot_limit (opened_client rt fd c) = lim_registered_fds_per_client (rt_limits rt)"
  "cl_buffer_slot_limit (opened_client rt fd c) = lim_registered_buffers_per_client (rt_limits rt)"
  "cl_file_resources (opened_client rt fd c) = replicate 32 empty_file_slot"
  "cl_buffer_resources (opened_client rt fd c) = replicate 4 empty_buffer_slot"
  by (auto simp: opened_client_def iouringd_reset_client_input_def iouringd_init_client_resources_def
      parser_ok_def payload_ok_def output_ok_def)

lemma daemon_ok_generation: "daemon_ok (rt\<lparr>rt_next_client_generation := g\<rparr>) = daemon_ok rt"
  by (simp add: daemon_ok_def config_ok_def core_of_def)

lemma daemon_ok_rt_close: "daemon_ok (rt_close fd rt) = daemon_ok rt"
  by (simp add: daemon_ok_def config_ok_def rt_close_def)

lemma open_client_ok:
  assumes "daemon_ok rt"
  shows "daemon_ok (iouringd_open_client a fd rt)"
proof (cases "find_slot client_slot_unused (lim_max_clients (rt_limits rt)) (rt_clients rt)")
  case (Some i)
  note d = daemon_okD [OF assms]
  have i: "i < 64" and idle: "cl_outstanding_tasks (client_at rt i) = 0"
    using find_slot_Some [OF Some] d(6) by (simp_all add: client_slot_unused_def)
  have at: "co_clients (core_of rt) ! i = core_of_client (client_at rt i)"
    using i d(3) by (simp add: core_client_at)
  have "core_ok (core_of (set_client i (opened_client rt fd (client_at rt i)) rt))"
    using core_ok_reuse [OF d(1) i, of "core_of_client (opened_client rt fd (client_at rt i))"] at idle
      d(2) by (simp add: client_fields opened_client_fields config_ok_def empty_file_slot_def
        empty_buffer_slot_def)
  with daemon_ok_set_client [OF assms i this] d(2)
  have "daemon_ok (set_client i (opened_client rt fd (client_at rt i)) rt)"
    by (simp add: opened_client_fields config_ok_def)
  with assms Some show ?thesis
    by (simp add: iouringd_open_client_def daemon_ok_generation daemon_ok_rt_close)
qed (use assms in \<open>simp add: iouringd_open_client_def daemon_ok_rt_close\<close>)

end
