(* ===== verification/Turns.thy ===== *)
theory Turns
  imports Running
begin

text \<open>
  A turn of the event loop as a composition of steps: a property of the runtime that every step keeps
  (reading one client, flushing or closing it, dispatching one request, completing one task,
  releasing one slot, opening a client) is kept by all the loops of a turn and by \<open>iouringd_run\<close>, and
  the turn returns. The locale states what is asked of the steps; the invariant of the running daemon
  is its first instance.
\<close>

section \<open>The contract of the steps\<close>

locale step_invariant =
  fixes inv :: "iouringd_runtime \<Rightarrow> bool"
  assumes running: "inv rt \<Longrightarrow> daemon_ok rt"
    and ring_step: "inv rt \<Longrightarrow> inv (rt\<lparr>rt_ring := ring\<rparr>)"
    and cursor_step: "inv rt \<Longrightarrow> inv (rt\<lparr>rt_dispatch_cursor := n\<rparr>)"
    and fd_step: "inv rt \<Longrightarrow> inv (rt_close fd rt)"
    and service_step: "iouringd_service_client_readable i ws rt = (r, ws', rt') \<Longrightarrow> inv rt \<Longrightarrow> i < 64 \<Longrightarrow> inv rt'"
    and flush_step: "iouringd_flush_client_output out (client_at rt i) = (sent, r2, c) \<Longrightarrow> inv rt \<Longrightarrow> i < 64 \<Longrightarrow>
      inv (set_client i c rt)"
    and close_step: "inv rt \<Longrightarrow> i < 64 \<Longrightarrow> inv (rt_close_client i rt)"
    and dispatch_step: "iouringd_dispatch_client_request sys i rt = (Inr x, rt') \<Longrightarrow> inv rt \<Longrightarrow>
      i < lim_max_clients (rt_limits rt) \<Longrightarrow> inv rt'"
    and release_file_step: "iouringd_try_release_file_slot sys i j rt = (r3, rt') \<Longrightarrow> inv rt \<Longrightarrow> i < 64 \<Longrightarrow> inv rt'"
    and release_buffer_step: "on_client i (iouringd_try_release_buffer_slot j) rt = (r3, rt') \<Longrightarrow> inv rt \<Longrightarrow> i < 64 \<Longrightarrow>
      inv rt'"
    and complete_step: "iouringd_complete_task sys n res rt = (Inr u, rt') \<Longrightarrow> inv rt \<Longrightarrow>
      iouringd_find_task_slot rt task = Some n \<Longrightarrow> inv rt'"
    and open_step: "inv rt \<Longrightarrow> inv (iouringd_open_client a fd rt)"
begin

lemma service_inputs_keep:
  assumes "service_inputs recv is progress rt = (Inr p, rt')" and "inv rt" and "\<forall>i \<in> set is. i < 64"
  shows "inv rt'"
  using assms
proof (induction recv "is" progress rt rule: service_inputs.induct)
  case (2 recv i "is" progress rt)
  obtain r ws rt1 where s: "iouringd_service_client_readable i (recv i) rt = (r, ws, rt1)"
    by (metis surj_pair)
  with 2 service_step [OF s 2(4)] show ?case by (cases r) (auto split: if_splits)
qed simp

lemma flush_or_close_keeps:
  assumes "inv rt" and "i < 64" and "flush_or_close i ws rt = (closed, sent, rt')"
  shows "inv rt'"
proof -
  obtain out r c where f: "iouringd_flush_client_output ws (client_at rt i) = (out, r, c)"
    by (metis surj_pair)
  have "inv (set_client i c rt)" using flush_step [OF f assms(1,2)] .
  with assms(2,3) close_step [of "set_client i c rt" i] show ?thesis
    by (cases r) (auto simp: flush_or_close_def f split: if_splits)
qed

lemma flush_outputs_keep:
  assumes "flush_outputs wr is progress rt = (p, rt')" and "inv rt" and "\<forall>i \<in> set is. i < 64"
  shows "inv rt'"
  using assms
proof (induction wr "is" progress rt rule: flush_outputs.induct)
  case (2 wr i "is" progress rt)
  obtain closed sent rt1 where f: "flush_or_close i (wr i) rt = (closed, sent, rt1)"
    by (metis surj_pair)
  with 2 flush_or_close_keeps [OF 2(4) _ f] show ?case by (auto simp: Let_def split: if_splits)
qed simp

lemma dispatch_band_keeps:
  assumes "dispatch_band sys band off n progress rt = (Inr p, rt')" and "inv rt"
  shows "inv rt'"
  using assms
proof (induction sys band off n progress rt rule: dispatch_band.induct)
  case (2 sys band off n progress rt)
  let ?i = "(rt_dispatch_cursor rt + off) mod lim_max_clients (rt_limits rt)"
  have i: "?i < lim_max_clients (rt_limits rt)" using daemon_okD(5) [OF running [OF 2(5)]] by simp
  obtain r rt1 where d: "iouringd_dispatch_client_request sys ?i rt = (r, rt1)" by fastforce
  show ?case
  proof (cases "\<not> iouringd_client_is_active (client_at rt ?i) \<or> \<not> cl_request_ready (client_at rt ?i)
      \<or> client_band (client_at rt ?i) \<noteq> band")
    case True
    with 2(1) [OF refl refl True] 2(4,5) show ?thesis by (simp add: Let_def)
  next
    case False
    note eq = 2(4) [unfolded dispatch_band.simps Let_def if_not_P [OF False] d]
    show ?thesis
    proof (cases r)
      case (Inr x)
      have "inv rt1" using dispatch_step [OF _ 2(5) i] d Inr by blast
      with 2(2,3) [OF refl refl False] eq Inr show ?thesis by (cases x) (simp_all add: cursor_step)
    qed (use eq in simp)
  qed
qed simp

lemma dispatch_bands_keep:
  "dispatch_bands sys bs progress rt = (Inr p, rt') \<Longrightarrow> inv rt \<Longrightarrow> inv rt'"
proof (induction sys bs progress rt rule: dispatch_bands.induct)
  case (2 sys b bs progress rt)
  from 2(2) obtain q rt1 where "dispatch_band sys b 0 (lim_max_clients (rt_limits rt)) progress rt = (Inr q, rt1)"
    and "dispatch_bands sys bs q rt1 = (Inr p, rt')" by (auto elim!: bind_rc_cases)
  with 2(1) dispatch_band_keeps 2(3) show ?case by blast
qed simp

lemma dispatch_ready_keeps:
  "iouringd_dispatch_ready_requests sys rt = (Inr p, rt') \<Longrightarrow> inv rt \<Longrightarrow> inv rt'"
  unfolding iouringd_dispatch_ready_requests_def by (rule dispatch_bands_keep)

lemma sweep_files_keep:
  "sweep_files sys i js p rt = (r, rt') \<Longrightarrow> inv rt \<Longrightarrow> i < 64 \<Longrightarrow> inv rt'"
proof (induction sys i js p rt rule: sweep_files.induct)
  case (2 sys i j js p rt)
  obtain y rt1 where rel: "iouringd_try_release_file_slot sys i j rt = (y, rt1)" by fastforce
  with 2 release_file_step [OF rel] show ?case by (cases y) (auto simp: Let_def split: if_splits)
qed simp

lemma sweep_buffers_keep:
  "sweep_buffers i js p rt = (r, rt') \<Longrightarrow> inv rt \<Longrightarrow> i < 64 \<Longrightarrow> inv rt'"
proof (induction i js p rt rule: sweep_buffers.induct)
  case (2 i j js p rt)
  obtain y rt1 where rel: "on_client i (iouringd_try_release_buffer_slot j) rt = (y, rt1)" by fastforce
  with 2 release_buffer_step [OF rel] show ?case by (cases y) (auto simp: Let_def split: if_splits)
qed simp

lemma sweep_clients_keep:
  "sweep_clients sys is p rt = (r, rt') \<Longrightarrow> inv rt \<Longrightarrow> \<forall>i \<in> set is. i < 64 \<Longrightarrow> inv rt'"
proof (induction sys "is" p rt rule: sweep_clients.induct)
  case (2 sys i "is" p rt)
  obtain y rt1 where f: "sweep_files sys i [0..<cl_file_slot_limit (client_at rt i)] p rt = (y, rt1)" by fastforce
  have rt1: "inv rt1" using sweep_files_keep [OF f] 2 by simp
  show ?case
  proof (cases y)
    case (Inr p1)
    obtain z rt2 where b: "sweep_buffers i [0..<cl_buffer_slot_limit (client_at rt1 i)] p1 rt1 = (z, rt2)" by fastforce
    have "inv rt2" using sweep_buffers_keep [OF b rt1] 2 by simp
    with 2 f b Inr show ?thesis by (cases z) auto
  qed (use 2 f rt1 in simp)
qed simp

lemma reap_loop_keeps:
  assumes "inv rt"
  shows "\<exists>r rt'. reap_loop sys progress rt = Some (r, rt') \<and> (\<forall>p. r = Inr p \<longrightarrow> inv rt')"
  using assms
proof (induction "cnt tk_active (rt_tasks rt)" arbitrary: rt progress rule: less_induct)
  case less
  obtain x ring where p: "iouringd_ring_peek_completion (s_kernel sys) (rt_ring rt) = (x, ring)" by fastforce
  let ?rt = "rt\<lparr>rt_ring := ring\<rparr>"
  have rt: "inv ?rt" using less(2) by (rule ring_step)
  show ?case
  proof (cases x)
    case (Some y)
    obtain task res where y: "y = (task, res)" by fastforce
    show ?thesis
    proof (cases "iouringd_find_task_slot ?rt task")
      case (Some n)
      obtain z rt2 where c: "iouringd_complete_task sys n res ?rt = (z, rt2)" by fastforce
      show ?thesis
      proof (cases z)
        case (Inr u)
        from complete_task_ok(2) [OF running [OF rt] Some c [unfolded Inr]]
        have "cnt tk_active (rt_tasks rt2) < cnt tk_active (rt_tasks rt)" by simp
        from less(1) [OF this complete_step [OF c [unfolded Inr] rt Some], of True] show ?thesis
          using p y Some \<open>x = Some y\<close> c Inr by (simp add: reap_loop.simps [of sys progress rt])
      qed (use p y Some \<open>x = Some y\<close> c in \<open>simp add: reap_loop.simps [of sys progress rt]\<close>)
    qed (use p y \<open>x = Some y\<close> in \<open>simp add: reap_loop.simps [of sys progress rt]\<close>)
  qed (use p rt in \<open>simp add: reap_loop.simps [of sys progress rt]\<close>)
qed

lemma reap_keeps:
  assumes "inv rt"
  obtains r rt' where "iouringd_reap_completions sys rt = Some (r, rt')" and "\<And>p. r = Inr p \<Longrightarrow> inv rt'"
  using reap_loop_keeps [OF assms, of sys False] unfolding iouringd_reap_completions_def by blast

lemma accept_loop_keeps:
  "accept_loop as progress rt = (r, rt') \<Longrightarrow> inv rt \<Longrightarrow> inv rt'"
  by (induction as progress rt rule: accept_loop.induct)
    (auto simp: open_step fd_step split: sum.splits if_splits)

lemma client_event_keeps:
  assumes "client_event en i ev rt = (r, rt')" and "inv rt" and i: "i < 64"
  shows "inv rt'"
proof -
  obtain closed rt1 where f: "(if re_out ev \<and> iouringd_client_is_active (client_at rt i)
         then case flush_or_close i (en_event_write en i) rt of (closed, sent, rt1) \<Rightarrow> (closed, rt1)
         else (False, rt)) = (closed, rt1)" by fastforce
  have rt1: "inv rt1"
    using f assms(2) flush_or_close_keeps [OF assms(2) i] by (auto split: if_splits prod.splits)
  obtain x ws rt2 where s: "iouringd_service_client_readable i (en_event_recv en i) rt1 = (x, ws, rt2)"
    by (metis surj_pair)
  have "inv rt2" using s rt1 i by (rule service_step)
  with rt1 close_step [OF rt1 i] assms(1) show ?thesis
    by (cases x) (auto simp: client_event_def Let_def f s split: if_splits)
qed

lemma poll_event_keeps:
  assumes "inv rt" and "\<And>i. slot = Poll_client i \<Longrightarrow> i < 64"
  shows "\<exists>r rt'. poll_event sys en slot ev rt = Some (r, rt') \<and> (\<forall>u. r = Inr u \<longrightarrow> inv rt')"
proof (cases slot)
  case Poll_server
  obtain x rt1 where a: "iouringd_accept_clients (en_accept en) rt = (x, rt1)" by fastforce
  then have "inv rt1"
    using assms(1) accept_loop_keeps unfolding iouringd_accept_clients_def by blast
  with Poll_server a assms(1) show ?thesis by (cases x) (simp_all add: poll_event_def)
next
  case Poll_ring
  obtain x rt1 where "iouringd_reap_completions sys rt = Some (x, rt1)" "\<And>p. x = Inr p \<Longrightarrow> inv rt1"
    using reap_keeps [OF assms(1)] by metis
  with Poll_ring assms(1) show ?thesis by (cases x) (simp_all add: poll_event_def)
next
  case (Poll_client i)
  obtain x rt1 where "client_event en i ev rt = (x, rt1)" by fastforce
  with Poll_client assms client_event_keeps show ?thesis by (auto simp: poll_event_def)
qed

lemma poll_events_keep:
  assumes "inv rt" and "\<forall>p \<in> set ps. \<forall>i. pf_slot p = Poll_client i \<longrightarrow> i < 64"
  shows "\<exists>r rt'. poll_events sys en occurred ps rt = Some (r, rt') \<and> (\<forall>u. r = Inr u \<longrightarrow> inv rt')"
  using assms
proof (induction ps arbitrary: rt)
  case (Cons p ps)
  obtain x rt1 where e: "poll_event sys en (pf_slot p) (occurred (pf_slot p)) rt = Some (x, rt1)"
    and rt1: "\<And>u. x = Inr u \<Longrightarrow> inv rt1"
    using poll_event_keeps [OF Cons(2), of "pf_slot p" sys en "occurred (pf_slot p)"] Cons(3) by auto
  show ?case
  proof (cases x)
    case (Inr u)
    with Cons.IH [of rt1] rt1 e Cons(3) show ?thesis by simp
  qed (use e in simp)
qed simp

lemma wait_keeps:
  assumes "inv rt"
  shows "\<exists>r rt'. wait_for_events sys en rt = Some (r, rt') \<and> (\<forall>b. r = Inr b \<longrightarrow> inv rt')"
proof (cases "en_poll en")
  case (Inr occurred)
  have "\<forall>p \<in> set (iouringd_build_pollfds rt). \<forall>i. pf_slot p = Poll_client i \<longrightarrow> i < 64"
    using daemon_okD(6) [OF running [OF assms]]
    by (auto simp: iouringd_build_pollfds_def poll_client_def Let_def split: if_splits)
  from poll_events_keep [OF assms this, of sys en occurred] obtain x rt1
    where "poll_events sys en occurred (iouringd_build_pollfds rt) rt = Some (x, rt1)"
      and "\<And>u. x = Inr u \<Longrightarrow> inv rt1" by blast
  with Inr assms show ?thesis
    by (cases x) (simp_all add: wait_for_events_def Let_def)
qed (use assms in \<open>simp add: wait_for_events_def Let_def\<close>)

lemma turn_keeps:
  assumes "inv rt"
  shows "\<exists>r rt'. run_turn sys en rt = Some (r, rt') \<and> (\<forall>b. r = Inr b \<longrightarrow> inv rt')"
proof -
  have below: "\<forall>i \<in> set [0..<lim_max_clients (rt_limits s)]. i < 64" if "inv s" for s
    using daemon_okD(6) [OF running [OF that]] by simp
  obtain r1 rt1 where s: "iouringd_service_ready_inputs (en_recv en) rt = (r1, rt1)" by fastforce
  obtain r2 rt2 where d: "iouringd_dispatch_ready_requests sys rt1 = (r2, rt2)" by fastforce
  show ?thesis
  proof (cases "isl r1 \<or> isl r2")
    case True
    with s d show ?thesis by (cases r1; cases r2) (simp_all add: run_turn_def)
  next
    case False
    then obtain p1 p2 where p: "r1 = Inr p1" "r2 = Inr p2" by (cases r1; cases r2) auto
    have "inv rt1"
      using service_inputs_keep [OF _ assms below [OF assms]] s p
      unfolding iouringd_service_ready_inputs_def by blast
    with d p have rt2: "inv rt2" by (auto intro: dispatch_ready_keeps)
    obtain r3 rt3 where r: "iouringd_reap_completions sys rt2 = Some (r3, rt3)"
      and rt3: "\<And>p. r3 = Inr p \<Longrightarrow> inv rt3" using reap_keeps [OF rt2] by metis
    obtain r4 rt4 where w: "iouringd_sweep_closing_resources sys rt3 = (r4, rt4)" by fastforce
    obtain p5 rt5 where f: "iouringd_flush_client_outputs (en_write en) rt4 = (p5, rt5)" by fastforce
    show ?thesis
    proof (cases "isl r3 \<or> isl r4")
      case True
      with s d p r w show ?thesis by (cases r3; cases r4) (simp_all add: run_turn_def)
    next
      case False
      then obtain p3 p4 where q: "r3 = Inr p3" "r4 = Inr p4" by (cases r3; cases r4) auto
      have rt4: "inv rt4"
        using w sweep_clients_keep rt3 [OF q(1)] below
        unfolding iouringd_sweep_closing_resources_def by blast
      have "inv rt5"
        using f flush_outputs_keep [OF _ rt4 below [OF rt4]] unfolding iouringd_flush_client_outputs_def by blast
      with wait_keeps [of rt5 sys en] show ?thesis
        using s d p r w f q by (simp add: run_turn_def)
    qed
  qed
qed

lemma run_keeps:
  "inv rt \<Longrightarrow> \<exists>r rt'. iouringd_run sys ens rt = Some (r, rt') \<and> (\<forall>b. r = Inr b \<longrightarrow> inv rt')"
proof (induction ens arbitrary: rt)
  case (Cons en ens)
  obtain r rt1 where t: "run_turn sys en rt = Some (r, rt1)" "\<And>b. r = Inr b \<Longrightarrow> inv rt1"
    using turn_keeps [OF Cons(2)] by blast
  show ?case
  proof (cases r)
    case (Inr b)
    with t Cons.IH [of rt1] show ?thesis by (cases b) simp_all
  qed (use t in simp)
qed simp

end

section \<open>The running daemon\<close>

interpretation daemon: step_invariant daemon_ok
proof
  show "daemon_ok rt'" if "iouringd_complete_task sys n res rt = (Inr u, rt')" "daemon_ok rt"
    "iouringd_find_task_slot rt task = Some n" for sys n res rt u rt' task
    using complete_task_ok(1) [OF that(2,3,1)] .
  show "daemon_ok rt'" if "iouringd_dispatch_client_request sys i rt = (Inr x, rt')" "daemon_ok rt"
    "i < lim_max_clients (rt_limits rt)" for sys i rt x rt'
    using dispatch_ok(1) [OF that(2,3,1)] .
  show "daemon_ok rt'" if "iouringd_service_client_readable i ws rt = (r, ws', rt')" "daemon_ok rt" "i < 64"
    for i ws rt r ws' rt' using service_ok [OF that(2,3,1)] .
  show "daemon_ok (set_client i c rt)" if "iouringd_flush_client_output out (client_at rt i) = (sent, r2, c)"
    "daemon_ok rt" "i < 64" for out rt i sent r2 c using flush_ok [OF that(2,3,1)] .
  show "daemon_ok rt'" if "iouringd_try_release_file_slot sys i j rt = (r3, rt')" "daemon_ok rt" "i < 64"
    for sys i j rt r3 rt' using that by (rule release_file_ok)
  show "daemon_ok rt'" if "on_client i (iouringd_try_release_buffer_slot j) rt = (r3, rt')" "daemon_ok rt" "i < 64"
    for i j rt r3 rt' using that by (rule release_buffer_ok)
qed (simp_all only: daemon_ok_core_ring daemon_ok_cursor daemon_ok_rt_close close_client_ok open_client_ok)

end
