(* ===== verification/Reachable.thy ===== *)
theory Reachable
  imports Turns
begin

text \<open>
  The states the daemon can be in: those a start leaves and those the turns of the event loop lead
  to, for every command line, every behaviour of the kernel and of the clients. The invariant of
  \<open>Running\<close> holds in all of them, and every turn from them returns.
\<close>

section \<open>Invariants of a transition system\<close>

locale transition_invariant =
  fixes initial :: "'s \<Rightarrow> bool" and step :: "'s \<Rightarrow> 's \<Rightarrow> bool" and inv :: "'s \<Rightarrow> bool"
  assumes initially: "initial s \<Longrightarrow> inv s"
    and preserved: "inv s \<Longrightarrow> step s t \<Longrightarrow> inv t"
begin

lemma along: "rtranclp step s t \<Longrightarrow> inv s \<Longrightarrow> inv t"
  by (induction rule: rtranclp_induct) (auto intro: preserved)

lemma always: "initial s \<Longrightarrow> rtranclp step s t \<Longrightarrow> inv t"
  by (blast intro: along initially)

end

section \<open>The start\<close>

lemma find_slot_eqI:
  assumes "i < n" and "P (xs ! i)" and "\<And>j. j < i \<Longrightarrow> \<not> P (xs ! j)"
  shows "find_slot P n xs = Some i"
proof -
  obtain k where k: "find_slot P n xs = Some k" using find_slot_ex [of i n P xs] assms by blast
  with find_slot_Some [OF k] assms have "k = i" by (cases k i rule: linorder_cases) auto
  with k show ?thesis by simp
qed

lemma parse_args_limits:
  assumes "iouringd_parse_args args rt = Inr (rt', opts, path)"
  shows "limits_ok (rt_limits rt')" and "rt' = rt\<lparr>rt_limits := rt_limits rt',
     rt_registered_file_capacity := rt_registered_file_capacity rt',
     rt_registered_buffer_capacity := rt_registered_buffer_capacity rt'\<rparr>"
  using assms by (auto simp: iouringd_parse_args_def Let_def split: sum.splits prod.splits if_splits)

lemma registered_ring:
  "iouringd_ring_init_registered_files rc n r = (Inr u, r1) \<Longrightarrow>
    r1 = r\<lparr>rg_registered_files_count := n, rg_file_table := replicate n (- 1)\<rparr>"
  "iouringd_ring_init_registered_buffers rc n r = (Inr u, r1) \<Longrightarrow> r1 = r\<lparr>rg_registered_buffers_count := n\<rparr>"
  by (auto simp: iouringd_ring_init_registered_files_def iouringd_ring_init_registered_buffers_def
      split: if_splits)

text \<open>What the start sets beyond the command line.\<close>

definition started :: "iouringd_runtime \<Rightarrow> nat \<Rightarrow> iouringd_runtime \<Rightarrow> bool" where
  "started rt capacity rt' \<longleftrightarrow> 1 < capacity \<and> capacity \<le> IOURINGD_MAX_TASKS
     \<and> rt_limits rt' = rt_limits rt \<and> rt_clients rt' = rt_clients rt \<and> rt_tasks rt' = rt_tasks rt
     \<and> rt_outstanding_tasks rt' = rt_outstanding_tasks rt
     \<and> rt_outstanding_credit_tasks rt' = rt_outstanding_credit_tasks rt
     \<and> rt_next_task_id rt' = rt_next_task_id rt \<and> rt_ring_capacity rt' = capacity
     \<and> rt_task_capacity rt' = capacity - 1
     \<and> rt_per_client_credit_limit rt' = min (lim_per_client_credits (rt_limits rt)) (capacity - 1)
     \<and> rt_client_output_capacity rt' = output_capacity (rt_limits rt) (capacity - 1)"

lemma start_ring_started:
  assumes "start_ring b rt = Inr rt'"
  shows "\<exists>capacity. started rt capacity rt'"
proof -
  obtain fd flags cap where i: "iouringd_ring_init (bt_setup b) (lim_ring_entries (rt_limits rt)) = Inr (fd, flags, cap)"
    using assms by (auto simp: start_ring_def split: sum.splits)
  define capacity where "capacity = unat (iouringd_ring_capacity (mapped_ring fd flags cap))"
  define rt1 where "rt1 = iouringd_init_registered_buffer_storage
    (rt\<lparr>rt_ring := mapped_ring fd flags cap, rt_capabilities := cap, rt_ring_capacity := capacity\<rparr>)"
  have c: "1 < capacity" "capacity \<le> 64"
    using assms by (auto simp: start_ring_def i Let_def capacity_def split: if_splits)
  obtain ring where "rt' = set_capacities (rt1\<lparr>rt_ring := ring\<rparr>)"
    using assms by (auto simp: start_ring_def i Let_def capacity_def rt1_def
        split: if_splits prod.splits sum.splits)
  with c show ?thesis
    by (auto simp: started_def set_capacities_def Let_def rt1_def iouringd_init_registered_buffer_storage_def)
qed

lemma start_steps:
  assumes "daemon_start b args = Inr rt"
  obtains rt0 capacity where "limits_ok (rt_limits rt0)"
    "rt0 = iouringd_init_runtime\<lparr>rt_limits := rt_limits rt0,
       rt_registered_file_capacity := rt_registered_file_capacity rt0,
       rt_registered_buffer_capacity := rt_registered_buffer_capacity rt0\<rparr>"
    "started rt0 capacity (rt\<lparr>rt_server_fd := - 1\<rparr>)"
proof -
  obtain rt0 opts path where p: "iouringd_parse_args args iouringd_init_runtime = Inr (rt0, opts, path)"
    using assms by (auto simp: daemon_start_def split: sum.splits if_splits)
  obtain rt1 where r: "start_ring b rt0 = Inr rt1" and s: "start_sockets b path rt1 = Inr rt"
    using assms p by (auto simp: daemon_start_def split: sum.splits if_splits)
  obtain fd where "rt = rt1\<lparr>rt_server_fd := fd\<rparr>"
    using s by (auto simp: start_sockets_def split: sum.splits if_splits)
  then obtain capacity where "started rt0 capacity (rt\<lparr>rt_server_fd := - 1\<rparr>)"
    using start_ring_started [OF r] by (auto simp: started_def)
  with that parse_args_limits [OF p] show ?thesis by blast
qed

lemma output_capacity_bound:
  assumes "limits_ok lim" and "tasks \<le> 63"
  shows "output_capacity lim tasks \<le> 300000"
proof -
  have "lim_io_bytes_max lim \<le> 4096" "lim_registered_fds_per_client lim \<le> 32"
    "lim_registered_buffers_per_client lim \<le> 4" using assms(1) by (simp_all add: limits_ok_def)
  moreover from this assms(2) have "tasks * (16 + 24 + lim_io_bytes_max lim) \<le> 63 * (16 + 24 + 4096)"
    by (intro mult_le_mono) simp_all
  ultimately show ?thesis by (simp add: output_capacity_def)
qed

lemma init_client_core_ok:
  "client_ok (replicate 64 iouringd_clear_task_slot) n i (core_of_client init_client)"
  by (simp add: client_ok_def client_fields init_client_def iouringd_reset_client_input_def
      iouringd_init_client_resources_def empty_file_slot_def empty_buffer_slot_def zero_client_def
      filter_replicate)

lemma start_ok:
  assumes "daemon_start b args = Inr rt"
  shows "daemon_ok rt"
proof -
  obtain rt0 capacity where lim: "limits_ok (rt_limits rt0)"
    and rt0: "rt0 = iouringd_init_runtime\<lparr>rt_limits := rt_limits rt0,
       rt_registered_file_capacity := rt_registered_file_capacity rt0,
       rt_registered_buffer_capacity := rt_registered_buffer_capacity rt0\<rparr>"
    and s: "started rt0 capacity (rt\<lparr>rt_server_fd := - 1\<rparr>)"
    using start_steps [OF assms] .
  have init: "rt_clients rt = replicate 64 init_client" "rt_tasks rt = replicate 64 iouringd_clear_task_slot"
    "rt_outstanding_tasks rt = 0" "rt_outstanding_credit_tasks rt = 0" "rt_next_task_id rt = 1"
    using s by (simp_all add: started_def; subst rt0, simp add: iouringd_init_runtime_def)+
  have fields: "rt_limits rt = rt_limits rt0" "rt_task_capacity rt \<le> 63"
    "rt_client_output_capacity rt = output_capacity (rt_limits rt0) (rt_task_capacity rt)"
    using s by (auto simp: started_def)
  have "core_ok (core_of rt)"
    using fields lim init_client_core_ok
    by (simp add: core_ok_def core_of_def init ids_distinct_def limits_ok_def filter_replicate credit_task_def)
  moreover have "config_ok rt"
    using fields lim output_capacity_bound [OF lim fields(2)] by (simp add: config_ok_def limits_ok_def)
  moreover have "parser_ok init_client" "output_ok init_client"
    by (simp_all add: init_client_def parser_ok_def payload_ok_def output_ok_def
        iouringd_reset_client_input_def iouringd_init_client_resources_def zero_client_def)
  ultimately show ?thesis by (simp add: daemon_ok_def init)
qed

section \<open>Reachable states\<close>

definition booted :: "iouringd_runtime \<Rightarrow> bool" where
  "booted rt \<longleftrightarrow> (\<exists>b args. daemon_start b args = Inr rt)"

inductive turn_step :: "iouringd_runtime \<Rightarrow> iouringd_runtime \<Rightarrow> bool" where
  turn: "run_turn sys en rt = Some (Inr running, rt') \<Longrightarrow> turn_step rt rt'"

inductive_cases turn_stepE: "turn_step rt rt'"

definition reachable :: "iouringd_runtime \<Rightarrow> bool" where
  "reachable rt \<longleftrightarrow> (\<exists>s. booted s \<and> rtranclp turn_step s rt)"

interpretation loop: transition_invariant booted turn_step daemon_ok
proof
  show "daemon_ok s" if "booted s" for s
    using that start_ok by (auto simp: booted_def)
  show "daemon_ok t" if "daemon_ok s" "turn_step s t" for s t
    using that(2) daemon.turn_keeps [OF that(1)] by (elim turn_stepE) (metis option.inject prod.inject)
qed

lemma reachable_turn: "reachable rt \<Longrightarrow> run_turn sys en rt = Some (Inr running, rt') \<Longrightarrow> reachable rt'"
  by (auto simp: reachable_def intro: turn_step.turn rtranclp.rtrancl_into_rtrancl)

lemma reachable_ok: "reachable rt \<Longrightarrow> daemon_ok rt"
  using loop.always by (auto simp: reachable_def)

lemma reachable_start: "daemon_start b args = Inr rt \<Longrightarrow> reachable rt"
  by (auto simp: reachable_def booted_def)


section \<open>A start that succeeds\<close>

definition demo_boot :: boot where
  "demo_boot =
     \<lparr>bt_signals = True,
      bt_setup = \<lparr>ks_setup = (\<lambda>n flags. Inr (4, \<lparr>par_sq_entries = of_nat n, par_cq_entries = 2 * of_nat n,
                     par_features = 0\<rparr>)),
                  ks_mmap_errno = None,
                  ks_probe = Inr [\<lparr>po_op = IORING_OP_NOP, po_flags = 1\<rparr>], ks_fault = None\<rparr>,
      bt_storage = True, bt_register_files = 0, bt_iovecs = True, bt_register_buffers = 0,
      bt_socket = Inr 3, bt_cloexec = True, bt_nonblock = True, bt_bind = True, bt_listen = True\<rparr>"

definition demo_args :: "string list" where
  "demo_args = [''--ring-entries'', ''8'', ''--max-clients'', ''2'', ''/run/iouringd'']"

lemma init_limits: "rt_limits iouringd_init_runtime = iouringd_init_limits"
  by (simp only: iouringd_init_runtime_def iouringd_runtime.select_convs)

lemma demo_boots: "\<exists>rt. daemon_start demo_boot demo_args = Inr rt"
proof -
  have "iouringd_parse_unsigned_arg ''8'' = Inr 8" "iouringd_parse_unsigned_arg ''2'' = Inr 2"
    by (simp_all add: iouringd_parse_unsigned_arg_def strtoul_def Let_def is_space_def is_digit_def
        decimal_def digit_value_def)
  then have "\<exists>rt opts. iouringd_parse_args demo_args iouringd_init_runtime = Inr (rt, opts, ''/run/iouringd'')
      \<and> rt_registered_file_capacity rt \<noteq> 0 \<and> rt_registered_buffer_capacity rt \<noteq> 0
      \<and> lim_ring_entries (rt_limits rt) = 8"
    by (simp add: iouringd_parse_args_def demo_args_def Let_def limits_ok_def init_limits
        iouringd_init_limits_def)
  then obtain rt opts where p: "iouringd_parse_args demo_args iouringd_init_runtime = Inr (rt, opts, ''/run/iouringd'')"
      "rt_registered_file_capacity rt \<noteq> 0" "rt_registered_buffer_capacity rt \<noteq> 0"
      "lim_ring_entries (rt_limits rt) = 8" by blast
  have mask: "probe_op_mask [\<lparr>po_op = IORING_OP_NOP, po_flags = 1\<rparr>] = 1" by code_simp
  have "\<exists>fd flags cap. iouringd_ring_init (bt_setup demo_boot) 8 = Inr (fd, flags, cap) \<and> fd = 4
      \<and> cap_ring_entries cap = 8"
    using mask by (simp add: iouringd_ring_init_def demo_boot_def ring_setup_best_effort_def
        ring_setup_with_flags_def Let_def)
  then obtain flags cap where r: "iouringd_ring_init (bt_setup demo_boot) 8 = Inr (4, flags, cap)"
      "cap_ring_entries cap = 8" by blast
  have "\<exists>rt1. start_ring demo_boot rt = Inr rt1"
    using p r by (simp add: start_ring_def Let_def mapped_ring_def iouringd_ring_capacity_def demo_boot_def
        iouringd_ring_init_registered_files_def iouringd_ring_init_registered_buffers_def
        iouringd_init_registered_buffer_storage_def)
  with p(1) show ?thesis
    by (auto simp: daemon_start_def demo_args_def start_sockets_def demo_boot_def)
qed

section \<open>What holds in every reachable state\<close>

lemma reachable_demo: "\<exists>rt. reachable rt"
  using demo_boots reachable_start by blast

text \<open>
  C1: In every state the daemon can reach, the counters are exact: the number of outstanding tasks
  is the number of task slots in use, the number of credits in use is the number of tasks that
  consume one and stays within the task capacity; for every client slot, the same of its own tasks
  and its own credit limit; and the in-flight count of every registered file and buffer slot is the
  number of tasks in flight that refer to it.
\<close>

theorem reachable_accounting:
  assumes "reachable rt"
  shows "rt_outstanding_tasks rt = cnt tk_active (rt_tasks rt)
    \<and> rt_outstanding_credit_tasks rt = cnt credit_task (rt_tasks rt)
    \<and> rt_outstanding_credit_tasks rt \<le> rt_task_capacity rt
    \<and> (\<forall>i < 64. cl_outstanding_tasks (client_at rt i) = cnt (task_of i) (rt_tasks rt)
        \<and> cl_outstanding_credit_tasks (client_at rt i) = cnt (credit_of i) (rt_tasks rt)
        \<and> cl_outstanding_credit_tasks (client_at rt i) \<le> rt_per_client_credit_limit rt
        \<and> (\<forall>j < 32. unat (fs_in_flight (cl_file_resources (client_at rt i) ! j))
             = cnt (file_ref i j) (rt_tasks rt))
        \<and> (\<forall>j < 4. unat (bs_in_flight (cl_buffer_resources (client_at rt i) ! j))
             = cnt (buffer_ref i j) (rt_tasks rt)))"
proof -
  note d = daemon_okD [OF reachable_ok [OF assms]]
  have "client_ok (rt_tasks rt) (rt_per_client_credit_limit rt) i (core_of_client (client_at rt i))"
    if "i < 64" for i
    using core_ok_client [OF d(1) that] core_client_at [of i rt] that d(3) by (simp add: core_length core_fields)
  then have "\<forall>i < 64. client_ok (rt_tasks rt) (rt_per_client_credit_limit rt) i (core_of_client (client_at rt i))"
    by blast
  with core_okD(7-9) [OF d(1)] show ?thesis
    unfolding core_length core_fields client_ok_def client_fields by blast
qed

text \<open>A state with a task in flight: the no-op of \<open>Dispatching\<close> has been submitted.\<close>

lemma demo_client_at:
  "k < 64 \<Longrightarrow> client_at (demo_rt f) k
    = (if k = 0 then f (init_client\<lparr>cl_fd := 5, cl_output_capacity := 4096\<rparr>) else init_client)"
  by (simp add: demo_rt_def iouringd_init_runtime_def nth_list_update)

lemma demo_daemon_okI:
  assumes "core_of_client (f (init_client\<lparr>cl_fd := 5, cl_output_capacity := 4096\<rparr>)) = core_of_client init_client"
    and "parser_ok (f (init_client\<lparr>cl_fd := 5, cl_output_capacity := 4096\<rparr>))"
    and "output_ok (f (init_client\<lparr>cl_fd := 5, cl_output_capacity := 4096\<rparr>))"
  shows "daemon_ok (demo_rt f)"
proof -
  have "parser_ok init_client" "output_ok init_client"
    by (simp_all add: init_client_def parser_ok_def payload_ok_def output_ok_def
        iouringd_reset_client_input_def iouringd_init_client_resources_def zero_client_def)
  with assms(2,3) have "parser_ok (client_at (demo_rt f) k) \<and> output_ok (client_at (demo_rt f) k)" if "k < 64" for k
    using that by (simp add: demo_client_at)
  moreover have "config_ok (demo_rt f)"
    by (simp add: config_ok_def demo_rt_def iouringd_init_runtime_def iouringd_init_limits_def)
  ultimately show ?thesis by (simp add: daemon_ok_def demo_core_ok [of f, OF assms(1)])
qed

lemma demo_daemon_ok: "daemon_ok (demo_rt demo_nop)"
  by (rule demo_daemon_okI)
    (simp_all add: core_of_client_def init_client_def parser_ok_def payload_ok_def output_ok_def demo_nop_def
      iouringd_reset_client_input_def iouringd_init_client_resources_def zero_client_def)

lemma demo_busy:
  obtains rt where "daemon_ok rt" and "tk_active (task_at rt 0)" and "tk_client_index (task_at rt 0) = 0"
    and "tk_task_kind (task_at rt 0) = IOURINGD_TASK_KIND_NOP" "tk_task_id (task_at rt 0) = 1"
    and "tk_file_slot_index (task_at rt 0) < 0" "tk_result_file_slot_index (task_at rt 0) < 0"
      "tk_buffer_slot_index (task_at rt 0) < 0"
    and "cl_fd (client_at rt 0) = 5" "cl_output_capacity (client_at rt 0) = 4096"
      "length (cl_output (client_at rt 0)) \<le> 64"
proof -
  obtain rt where out: "iouringd_dispatch_client_request demo_sys 0 (demo_rt demo_nop) = (Inr True, rt)"
    and tasks: "rt_tasks rt = (rt_tasks (demo_rt demo_nop))[0 := plain_task 0 (demo_rt demo_nop)]"
    and room: "length (cl_output (client_at rt 0)) \<le> 64"
    using demo_nop_dispatched by blast
  have ok: "daemon_ok rt" using dispatch_ok(1) [OF demo_daemon_ok _ out] demo_nop_admitted(3) by simp
  have "touches 0 (demo_rt demo_nop) rt"
    using framed_dispatch [of 0 "demo_rt demo_nop" demo_sys] unfolding out framed_def by simp
  then have "side_of (client_at rt 0) = side_of (client_at (demo_rt demo_nop) 0)"
    unfolding touches_def by blast
  then have side: "cl_fd (client_at rt 0) = 5" "cl_output_capacity (client_at rt 0) = 4096"
    by (simp_all add: side_of_def demo_rt_fields demo_nop_def)
  let ?t = "plain_task 0 (demo_rt demo_nop)"
  have t: "task_at rt 0 = ?t"
    using tasks daemon_okD(4) [OF demo_daemon_ok] by simp
  have "tk_active ?t" "tk_client_index ?t = 0" "tk_task_kind ?t = IOURINGD_TASK_KIND_NOP" "tk_task_id ?t = 1"
    "tk_file_slot_index ?t < 0" "tk_result_file_slot_index ?t < 0" "tk_buffer_slot_index ?t < 0"
    by (simp_all add: plain_task_def new_task_def Let_def demo_rt_fields demo_nop_def iouringd_clear_task_slot_def)
  then show ?thesis by (rule that [OF ok, unfolded t, OF _ _ _ _ _ _ _ side room])
qed

lemma daemon_ok_task_found:
  assumes "daemon_ok rt" and "n < 64" and "tk_active (task_at rt n)"
  shows "tk_task_id (task_at rt n) \<noteq> IOURINGD_TASK_ID_INVALID \<and> tk_task_id (task_at rt n) < rt_next_task_id rt
    \<and> iouringd_find_task_slot rt (tk_task_id (task_at rt n)) = Some n
    \<and> tk_client_generation (task_at rt n) = cl_generation (client_at rt (tk_client_index (task_at rt n)))"
proof -
  note d = daemon_okD [OF assms(1)]
  let ?t = "task_at rt n"
  have t: "n < rt_task_capacity rt" "task_ok (core_of rt) ?t"
    using core_ok_task [OF d(1) assms(2)] assms(3) by (simp_all add: core_length core_fields)
  have k: "tk_client_index ?t < length (rt_clients rt)" using t(2) d(3,6) by (simp add: task_ok_def core_fields)
  have "find_slot (\<lambda>t. tk_active t \<and> tk_task_id t = tk_task_id ?t) (rt_task_capacity rt) (rt_tasks rt) = Some n"
  proof (rule find_slot_eqI)
    fix m assume m: "m < n"
    then have "m < 64" "m \<noteq> n" using assms(2) by simp_all
    with core_okD(6) [OF d(1)] assms(2,3) d(4)
    show "\<not> (tk_active (rt_tasks rt ! m) \<and> tk_task_id (rt_tasks rt ! m) = tk_task_id ?t)"
      unfolding ids_distinct_def core_length by metis
  qed (use t assms in simp_all)
  with t(2) core_client_at [OF k] show ?thesis
    by (simp add: iouringd_find_task_slot_def task_ok_def client_fields core_fields Let_def)
qed

text \<open>
  C10: In every state the daemon can reach, through any sequence of turns with accepts, disconnects,
  requests and completions, a task in flight can be found by its identifier and only it is found:
  identifiers of tasks in flight are valid, pairwise distinct and below the next one to be given
  out, so a completion of the ring is attributed to the task that was submitted. The task belongs to the
  connection that is in its client slot: the slot has not been given to another client while the
  task was in flight.
\<close>

theorem task_found_by_identifier:
  assumes "reachable rt" and "n < 64" and "tk_active (task_at rt n)"
  shows "tk_task_id (task_at rt n) \<noteq> IOURINGD_TASK_ID_INVALID \<and> tk_task_id (task_at rt n) < rt_next_task_id rt
    \<and> iouringd_find_task_slot rt (tk_task_id (task_at rt n)) = Some n
    \<and> tk_client_generation (task_at rt n) = cl_generation (client_at rt (tk_client_index (task_at rt n)))"
  using assms by (intro daemon_ok_task_found reachable_ok)

text \<open>
  C9: From every reachable state, and for every behaviour of the kernel and of the clients, a turn of
  the event loop returns: reading a client stops after one request, and the loop that reaps
  completions ends although it is driven by the ring. A turn that reports no error leaves a reachable
  state, so the loop never gets stuck in a turn.
\<close>

theorem turn_returns:
  assumes "reachable rt"
  shows "\<exists>r rt'. run_turn sys en rt = Some (r, rt') \<and> (\<forall>again. r = Inr again \<longrightarrow> reachable rt')"
proof -
  obtain r rt' where t: "run_turn sys en rt = Some (r, rt')" using daemon.turn_keeps [OF reachable_ok [OF assms]] by blast
  with reachable_turn [OF assms] show ?thesis by blast
qed

theorem turn_returns_witness:
  "\<exists>rt. daemon_start demo_boot demo_args = Inr rt \<and> (\<forall>sys en. run_turn sys en rt \<noteq> None)"
  using demo_boots turn_returns [OF reachable_start] by (metis option.distinct(1))

text \<open>
  C13: In every reachable state the buffers of every client are within their bounds: the input is not
  longer than what the parser waits for, which is at most the size of the input array; the payload
  fits the payload array; the unsent part of the output is within the queued output, and the queued
  output within the buffer that was allocated for it.
\<close>

theorem reachable_buffers_bounded:
  assumes "reachable rt" and "i < 64"
  shows "length (cl_input (client_at rt i)) \<le> cl_expected_input (client_at rt i)
    \<and> cl_expected_input (client_at rt i) \<le> IOURINGD_MAX_REQUEST_BYTES
    \<and> length (cl_io_payload (client_at rt i)) \<le> IOURINGD_MAX_IO_BYTES
    \<and> cl_output_sent (client_at rt i) \<le> length (cl_output (client_at rt i))
    \<and> length (cl_output (client_at rt i)) \<le> cl_output_capacity (client_at rt i)"
  using daemon_okD(7,8) [OF reachable_ok [OF assms(1)] assms(2)]
  by (simp add: parser_ok_def payload_ok_def output_ok_def)

theorem reachable_buffers_bounded_witness:
  "\<exists>rt. daemon_start demo_boot demo_args = Inr rt
    \<and> length (cl_output (client_at rt 1)) \<le> cl_output_capacity (client_at rt 1)"
  using demo_boots reachable_buffers_bounded [OF reachable_start, of _ _ _ 1] by fastforce

text \<open>
  In every reachable state the descriptors to poll fit the array of \<open>iouringd_run\<close>: at most one
  entry per client slot, one for the listening socket and one for the ring; every entry is for an
  open client descriptor, the listening socket, or the ring.
\<close>

lemma pollfds_fit:
  assumes "reachable rt"
  shows "length (iouringd_build_pollfds rt) \<le> IOURINGD_MAX_CLIENTS + 2
    \<and> (\<forall>p \<in> set (iouringd_build_pollfds rt). \<forall>i. pf_slot p = Poll_client i \<longrightarrow>
         i < lim_max_clients (rt_limits rt) \<and> pf_fd p = cl_fd (client_at rt i) \<and> 0 \<le> pf_fd p)"
proof -
  have "length (concat (map (\<lambda>i. poll_client i (client_at rt i)) is)) \<le> length is" for "is"
    by (induction "is") (auto simp: poll_client_def Let_def)
  from this [of "[0..<lim_max_clients (rt_limits rt)]"] daemon_okD(6) [OF reachable_ok [OF assms]]
  show ?thesis
    by (auto simp: iouringd_build_pollfds_def poll_client_def iouringd_client_is_active_def Let_def
        split: if_splits)
qed

text \<open>
  C37: A start that succeeds leaves a configuration within the compiled-in limits, whatever the command
  line: between 1 and 64 client slots, 1 to 32 file and 1 to 4 buffer slots per client, at least one
  and at most 4096 bytes per transfer; one ring entry is kept back from the task capacity, a client's
  credits do not exceed it, and the output buffer of a client is smaller than 300000 bytes.
\<close>

theorem start_within_limits:
  assumes "daemon_start b args = Inr rt"
  shows "1 \<le> lim_max_clients (rt_limits rt) \<and> lim_max_clients (rt_limits rt) \<le> 64
    \<and> 1 \<le> lim_registered_fds_per_client (rt_limits rt) \<and> lim_registered_fds_per_client (rt_limits rt) \<le> 32
    \<and> 1 \<le> lim_registered_buffers_per_client (rt_limits rt) \<and> lim_registered_buffers_per_client (rt_limits rt) \<le> 4
    \<and> 1 \<le> lim_io_bytes_max (rt_limits rt) \<and> lim_io_bytes_max (rt_limits rt) \<le> 4096
    \<and> rt_task_capacity rt + 1 = rt_ring_capacity rt \<and> 1 \<le> rt_task_capacity rt \<and> rt_task_capacity rt \<le> 63
    \<and> 1 \<le> rt_per_client_credit_limit rt \<and> rt_per_client_credit_limit rt \<le> rt_task_capacity rt
    \<and> rt_client_output_capacity rt \<le> 300000"
proof -
  obtain rt0 capacity where lim: "limits_ok (rt_limits rt0)"
    and s: "started rt0 capacity (rt\<lparr>rt_server_fd := - 1\<rparr>)"
    using start_steps [OF assms] by metis
  have "capacity - 1 \<le> 63" using s by (auto simp: started_def)
  from output_capacity_bound [OF lim this] have "rt_client_output_capacity rt \<le> 300000"
    using s by (simp add: started_def)
  with s lim show ?thesis by (auto simp: started_def limits_ok_def)
qed

theorem start_within_limits_witness:
  "\<exists>rt. daemon_start demo_boot demo_args = Inr rt \<and> rt_task_capacity rt + 1 = rt_ring_capacity rt"
  using demo_boots start_within_limits by blast

end
