(* ===== verification/Delivery.thy ===== *)
theory Delivery
  imports Reachable
begin

text \<open>
  What reaches whom: a completion is delivered once and to the client that submitted the task, with
  the data the kernel has read for it, and the handling of one client's request leaves all others
  alone.
\<close>

named_theorems muted "steps that leave the output of the client alone"

definition mute :: "nat \<Rightarrow> iouringd_runtime \<Rightarrow> iouringd_runtime \<Rightarrow> bool" where
  "mute i rt rt' \<longleftrightarrow> io_of (client_at rt' i) = io_of (client_at rt i)"

definition muffled :: "nat \<Rightarrow> iouringd_runtime \<Rightarrow> ('a, iouringd_runtime) res \<Rightarrow> bool" where
  "muffled i rt out \<longleftrightarrow> mute i rt (snd out)"

lemma mute_refl [muted]: "mute i rt rt"
  by (simp add: mute_def)

lemma mute_trans: "mute i a b \<Longrightarrow> mute i b c \<Longrightarrow> mute i a c"
  by (simp add: mute_def)

lemma mute_set_client [muted]:
  "mute i rt rt1 \<Longrightarrow> io_of c = io_of (client_at rt1 i) \<Longrightarrow> mute i rt (set_client i c rt1)"
  by (cases "i < length (rt_clients rt1)") (simp_all add: mute_def list_update_beyond)

lemma mute_upd_client [muted]:
  "mute i rt rt1 \<Longrightarrow> (\<And>c. io_of (f c) = io_of c) \<Longrightarrow> mute i rt (upd_client i f rt1)"
  unfolding upd_client_def by (rule mute_set_client)

lemma mute_fields [muted]:
  assumes "mute i rt rt1"
  shows "mute i rt (set_task n t rt1)" "mute i rt (rt_close fd rt1)" "mute i rt (rt1\<lparr>rt_ring := ring\<rparr>)"
    "mute i rt (rt1\<lparr>rt_os := os\<rparr>)" "mute i rt (rt1\<lparr>rt_buffer_storage := bs\<rparr>)"
    "mute i rt (rt1\<lparr>rt_outstanding_credit_tasks := k\<rparr>)"
    "mute i rt (rt1\<lparr>rt_completions := a, rt_outstanding_tasks := k\<rparr>)"
    "mute i rt (iouringd_emit_trace_event sys j ek tk p t' r res cr rt1)"
  using assms by (simp_all add: mute_def set_task_def rt_close_def)

lemma muffled_pair [muted]: "mute i rt rt1 \<Longrightarrow> muffled i rt (r, rt1)"
  by (simp add: muffled_def)

lemma muffled_bind [muted]:
  assumes "muffled i rt r" and "\<And>x s. mute i rt s \<Longrightarrow> muffled i rt (f x s)"
  shows "muffled i rt (bind_rc r f)"
proof (cases r)
  case (Pair y s)
  with assms show ?thesis by (cases y) (simp_all add: muffled_def)
qed

lemma muffled_case [muted]:
  assumes "muffled i rt r" and "\<And>e s. mute i rt s \<Longrightarrow> muffled i rt (A e s)"
    and "\<And>x s. mute i rt s \<Longrightarrow> muffled i rt (B x s)"
  shows "muffled i rt (case r of (Inl e, s) \<Rightarrow> A e s | (Inr x, s) \<Rightarrow> B x s)"
proof (cases r)
  case (Pair y s)
  with assms show ?thesis by (cases y) (simp_all add: muffled_def)
qed

lemma muffled_update_file [muted]: "mute i rt rt1 \<Longrightarrow> muffled i rt (rt_update_file sys g fd rt1)"
  by (auto simp: muffled_def rt_update_file_def split: prod.splits intro!: mute_fields)

lemma mute_clear_slot [muted]: "mute i rt rt1 \<Longrightarrow> mute i rt (rt_clear_file_slot i j rt1)"
  unfolding rt_clear_file_slot_def iouringd_clear_file_slot_def by (auto intro!: muted)

lemma muffled_try_release [muted]:
  "mute i rt rt1 \<Longrightarrow> muffled i rt (iouringd_try_release_file_slot sys i j rt1)"
  "mute i rt rt1 \<Longrightarrow> muffled i rt (on_client i (iouringd_try_release_buffer_slot j) rt1)"
  unfolding iouringd_try_release_file_slot_def on_client_def iouringd_try_release_buffer_slot_def Let_def
  by (auto intro!: muted)

lemma muffled_register_result [muted]:
  "mute i rt rt1 \<Longrightarrow> tk_client_index t = i \<Longrightarrow> muffled i rt (register_result sys t fd rt1)"
  unfolding register_result_def Let_def by (auto intro!: muted)

lemma muffled_release_task [muted]:
  "mute i rt rt1 \<Longrightarrow> tk_client_index t = i \<Longrightarrow> muffled i rt (release_task_file sys t rt1)"
  "mute i rt rt1 \<Longrightarrow> tk_client_index t = i \<Longrightarrow> muffled i rt (release_task_result sys t rt1)"
  "mute i rt rt1 \<Longrightarrow> tk_client_index t = i \<Longrightarrow> muffled i rt (release_task_buffer t rt1)"
  unfolding release_task_file_def release_task_result_def release_task_buffer_def Let_def
  by (auto intro!: muted)

lemma mute_finish_counts [muted]:
  "mute i rt rt1 \<Longrightarrow> tk_client_index t = i \<Longrightarrow> mute i rt (finish_task_counts t rt1)"
  unfolding finish_task_counts_def Let_def by (auto intro!: muted)

lemma mute_kernel_fill [muted]: "mute i rt rt1 \<Longrightarrow> mute i rt (kernel_fill_buffer sys t res rt1)"
  unfolding kernel_fill_buffer_def Let_def by (auto intro!: muted)

section \<open>What is delivered\<close>

text \<open>The record of a completion: the task and its kind, and the result of the kernel unless the
  result is a descriptor, for which the record carries the resource identifier or an error.\<close>

definition record_for :: "iouringd_task_slot \<Rightarrow> i32 \<Rightarrow> iouringd_completion_record_v1 \<Rightarrow> bool" where
  "record_for t res cp \<longleftrightarrow> cp_header cp = v1_header \<and> cp_task cp = tk_task_id t
     \<and> cp_task_kind cp = tk_task_kind t
     \<and> (tk_task_kind t \<noteq> IOURINGD_TASK_KIND_ACCEPT \<and> tk_task_kind t \<noteq> IOURINGD_TASK_KIND_OPENAT
        \<longrightarrow> cp_res cp = res)
     \<and> (tk_task_kind t \<noteq> IOURINGD_TASK_KIND_ACCEPT \<longrightarrow> cp_payload_length cp
          = (if is_read_kind (tk_task_kind t) \<and> 0 <s res then ucast res else 0))"

lemma register_result_mute:
  "register_result sys t fd rt1 = (r, rt2) \<Longrightarrow> mute i rt rt1 \<Longrightarrow> tk_client_index t = i \<Longrightarrow> mute i rt rt2"
  using muffled_register_result [of i rt rt1 t sys fd] by (simp add: muffled_def)

lemma prepare_accept_record:
  assumes "iouringd_prepare_accept_completion sys t (cp, p) rt1 = ((cp', p'), rt2)"
    and "mute i rt rt1" and "tk_client_index t = i" and "record_for t res cp"
  shows "mute i rt rt2 \<and> record_for t res cp'
    \<and> (tk_task_kind t \<noteq> IOURINGD_TASK_KIND_ACCEPT \<longrightarrow> p' = p)"
  using assms register_result_mute [OF _ assms(2,3)]
  by (auto simp: iouringd_prepare_accept_completion_def Let_def record_for_def is_read_kind_def
      intro!: muted split: if_splits prod.splits sum.splits)

lemma prepare_openat_record:
  assumes "iouringd_prepare_openat_completion sys t cp rt1 = (cp', rt2)"
    and "mute i rt rt1" and "tk_client_index t = i" and "record_for t res cp"
  shows "mute i rt rt2 \<and> record_for t res cp'"
  using assms register_result_mute [OF _ assms(2,3)]
  by (auto simp: iouringd_prepare_openat_completion_def Let_def record_for_def is_read_kind_def
      intro!: muted split: if_splits prod.splits sum.splits)

lemma take_read_payload_mute:
  assumes "take_read_payload t res p rt1 = (p', rt2)" and "mute i rt rt1" and "tk_client_index t = i"
  shows "mute i rt rt2"
  using assms by (auto simp: take_read_payload_def Let_def intro!: muted split: if_splits)

lemma queue_completion_output:
  assumes "queue_completion t cp p rt = (Inr u, rt')" and "tk_client_index t = i"
    and "i < length (rt_clients rt)" and "output_ok (client_at rt i)"
  shows "output_pending (client_at rt' i) = output_pending (client_at rt i)
    @ (if 0 \<le> cl_fd (client_at rt i) \<and> cl_generation (client_at rt i) = tk_client_generation t
       then enc_completion_record cp @ (case p of None \<Rightarrow> [] | Some d \<Rightarrow> take (unat (cp_payload_length cp)) d)
       else [])"
proof (cases "0 \<le> cl_fd (client_at rt i) \<and> cl_generation (client_at rt i) = tk_client_generation t")
  case True
  let ?put = "\<lambda>m. on_client i (iouringd_queue_client_output m)"
  have put: "\<exists>c'. rt2 = set_client i c' rt1 \<and> output_ok c'
      \<and> output_pending c' = output_pending (client_at rt1 i) @ m"
    if "?put m rt1 = (Inr v, rt2)" "output_ok (client_at rt1 i)" for m v rt1 rt2
  proof -
    obtain r c' where q: "iouringd_queue_client_output m (client_at rt1 i) = (r, c')" by fastforce
    with that(1) have "r = Inr v" "rt2 = set_client i c' rt1" by (simp_all add: on_client_def)
    with q outq.put_cases [OF that(2), of m] show ?thesis by (metis Inl_Inr_False prod.inject)
  qed
  obtain rt1 where first: "?put (enc_completion_record cp) rt = (Inr (), rt1)"
    using assms(1,2) True by (auto simp: queue_completion_def Let_def elim: bind_rc_cases)
  from put [OF first assms(4)] obtain c1 where c1: "rt1 = set_client i c1 rt" "output_ok c1"
    "output_pending c1 = output_pending (client_at rt i) @ enc_completion_record cp" by blast
  have at1: "client_at rt1 i = c1" using c1(1) assms(3) by simp
  show ?thesis
  proof (cases "p = None \<or> cp_payload_length cp = 0")
    case True
    with assms(1,2) first \<open>0 \<le> _ \<and> _\<close> have "rt' = rt1"
      by (auto simp: queue_completion_def Let_def split: option.splits if_splits)
    with at1 c1(3) True \<open>0 \<le> _ \<and> _\<close> show ?thesis by (auto split: option.splits)
  next
    case False
    then obtain d where p: "p = Some d" by auto
    with False assms(1,2) first \<open>0 \<le> _ \<and> _\<close>
    have second: "?put (take (unat (cp_payload_length cp)) d) rt1 = (Inr u, rt')"
      by (simp add: queue_completion_def Let_def)
    from put [OF second] at1 c1(2) obtain c2 where "rt' = set_client i c2 rt1"
      "output_pending c2 = output_pending c1 @ take (unat (cp_payload_length cp)) d" by auto
    with c1 p assms(3) \<open>0 \<le> _ \<and> _\<close> show ?thesis by simp
  qed
qed (use assms in \<open>auto simp: queue_completion_def Let_def\<close>)

text \<open>The bytes of a plain read are what the kernel has put in the task's buffer.\<close>

definition payload_for :: "sys \<Rightarrow> iouringd_task_slot \<Rightarrow> i32 \<Rightarrow> iouringd_completion_record_v1 \<Rightarrow> bytes \<Rightarrow> bool" where
  "payload_for sys t res cp payload \<longleftrightarrow> length payload \<le> unat (cp_payload_length cp)
     \<and> ((tk_task_kind t = IOURINGD_TASK_KIND_SOCK_READ \<or> tk_task_kind t = IOURINGD_TASK_KIND_FILE_READ)
        \<and> unat (cp_payload_length cp) \<le> unat (tk_io_length t)
        \<longrightarrow> payload = received_bytes sys (tk_task_id t) (unat (cp_payload_length cp)))"

lemma take_read_payload_for:
  assumes "take_read_payload (kernel_done sys t) res p rt1 = (p', rt2)" and "record_for t res cp"
    and "tk_task_kind t \<noteq> IOURINGD_TASK_KIND_ACCEPT \<longrightarrow> p = None"
  shows "payload_for sys t res cp (case p' of None \<Rightarrow> [] | Some d \<Rightarrow> take (unat (cp_payload_length cp)) d)"
proof -
  let ?n = "unat (cp_payload_length cp)" and ?p = "case p' of None \<Rightarrow> [] | Some d \<Rightarrow> take (unat (cp_payload_length cp)) d"
  have "length ?p \<le> ?n" by (simp split: option.split)
  moreover have "?p = received_bytes sys (tk_task_id t) ?n"
    if read: "tk_task_kind t = IOURINGD_TASK_KIND_SOCK_READ \<or> tk_task_kind t = IOURINGD_TASK_KIND_FILE_READ"
      and fits: "?n \<le> unat (tk_io_length t)"
  proof (cases "0 <s res")
    case True
    then have "p' = Some (received_bytes sys (tk_task_id t) (unat (tk_io_length t)))"
      using assms(1) read by (auto simp: take_read_payload_def kernel_done_def Let_def)
    with fits show ?thesis by (simp add: received_bytes_def take_map)
  next
    case False
    moreover have "is_read_kind (tk_task_kind t)" using read by (auto simp: is_read_kind_def)
    ultimately have "cp_payload_length cp = 0" using assms(2) read by (auto simp: record_for_def)
    then show ?thesis by (simp add: received_bytes_def split: option.split)
  qed
  ultimately show ?thesis unfolding payload_for_def by blast
qed

lemma complete_task_output:
  assumes ok: "daemon_ok rt" and n: "n < 64" and act: "tk_active (task_at rt n)"
    and out: "iouringd_complete_task sys n res rt = (Inr u, rt')" and i: "i = tk_client_index (task_at rt n)"
  shows "\<exists>cp payload. record_for (task_at rt n) res cp \<and> payload_for sys (task_at rt n) res cp payload
    \<and> output_pending (client_at rt' i) = output_pending (client_at rt i)
      @ (if 0 \<le> cl_fd (client_at rt i) then enc_completion_record cp @ payload else [])"
proof -
  note d = daemon_okD [OF ok]
  let ?t = "kernel_done sys (task_at rt n)"
  have it: "tk_client_index ?t = i" using i by simp
  have tok: "task_ok (core_of rt) (task_at rt n)" using core_ok_task [OF d(1) n] act by (simp add: core_length)
  then have im: "i < lim_max_clients (rt_limits rt)" using i by (simp add: task_ok_def core_fields)
  then have il: "i < length (rt_clients rt)" using d(3,6) by simp
  have gen: "tk_client_generation (task_at rt n) = cl_generation (client_at rt i)"
    using tok i core_client_at [OF il] by (simp add: task_ok_def Let_def client_fields)
  obtain cp1 p1 rt1 where pa: "iouringd_prepare_accept_completion sys ?t (completion_record ?t res, None)
      (kernel_fill_buffer sys ?t res rt) = ((cp1, p1), rt1)" by (metis surj_pair)
  obtain cp rt2 where po: "iouringd_prepare_openat_completion sys ?t cp1 rt1 = (cp, rt2)" by fastforce
  obtain p rt3 where tr: "take_read_payload ?t res p1 rt2 = (p, rt3)" by fastforce
  have rec: "record_for ?t res (completion_record ?t res)" by (simp add: record_for_def completion_record_def)
  note m1 = prepare_accept_record [OF pa mute_kernel_fill [OF mute_refl] it rec]
  note m2 = prepare_openat_record [OF po conjunct1 [OF m1] it conjunct1 [OF conjunct2 [OF m1]]]
  have m3: "mute i rt rt3" using take_read_payload_mute [OF tr conjunct1 [OF m2] it] .
  have t3: "touches i rt rt3"
    using prepare_accept_touches [OF pa touches_kernel_fill [OF touches_refl] it] prepare_openat_touches [OF po _ it]
      take_read_payload_touches [OF tr _ it] by blast
  have lim2: "i < lim_max_clients (rt_limits rt2)"
    using prepare_openat_touches [OF po prepare_accept_touches [OF pa touches_kernel_fill [OF touches_refl] it] it]
      im by (simp add: touches_def config_of_def)
  obtain rt4 rt5 rt6 rt7 resource where q: "queue_completion ?t cp p rt3 = (Inr (), rt4)"
    and s: "release_task_file sys ?t rt4 = (Inr (), rt5)" "release_task_result sys ?t rt5 = (Inr (), rt6)"
      "release_task_buffer ?t rt6 = (Inr (), rt7)"
    and rt': "rt' = set_task n iouringd_clear_task_slot (iouringd_emit_trace_event sys i
      IOURINGD_TRACE_EVENT_COMPLETION (tk_task_kind ?t) (tk_submit_priority ?t) (tk_task_id ?t) resource (cp_res cp)
      (iouringd_available_credits (finish_task_counts ?t rt7)) (finish_task_counts ?t rt7))"
    using complete_task_chain [OF out refl it [symmetric] pa po tr lim2] by metis
  have m47: "mute i rt4 rt7"
    using muffled_release_task(1) [OF mute_refl it, of rt4 sys] muffled_release_task(2) [OF mute_refl it, of rt5 sys]
      muffled_release_task(3) [OF mute_refl it, of rt6] s by (simp add: muffled_def mute_def)
  have m4: "mute i rt4 rt'" unfolding rt' by (intro muted m47 it)
  have l3: "i < length (rt_clients rt3)" using t3 il by (simp add: touches_def)
  have same: "output_pending (client_at rt3 i) = output_pending (client_at rt i)" "output_ok (client_at rt3 i)"
    using m3 io_of_pending [of "client_at rt3 i" "client_at rt i"] d(8) [of i] il d(3) by (simp_all add: mute_def)
  have side: "cl_fd (client_at rt3 i) = cl_fd (client_at rt i)" "cl_generation (client_at rt3 i) = cl_generation (client_at rt i)"
    using t3 by (simp_all add: touches_def side_of_def)
  let ?payload = "case p of None \<Rightarrow> [] | Some d \<Rightarrow> take (unat (cp_payload_length cp)) d"
  have "output_pending (client_at rt' i) = output_pending (client_at rt i)
      @ (if 0 \<le> cl_fd (client_at rt i) then enc_completion_record cp @ ?payload else [])"
    using queue_completion_output [OF q it l3 same(2)] m4 io_of_pending [of "client_at rt' i" "client_at rt4 i"]
      same(1) side gen by (simp add: mute_def)
  moreover have rec': "record_for (task_at rt n) res cp" using m2 by (simp add: record_for_def kernel_done_def Let_def)
  moreover have "payload_for sys (task_at rt n) res cp ?payload"
    using take_read_payload_for [OF tr rec'] m1 by (simp add: kernel_done_def Let_def)
  ultimately show ?thesis by blast
qed

text \<open>
  C3: A completion is delivered once, to the client that submitted the task and to nobody else. When
  \<open>iouringd_complete_task\<close> returns, the unsent output of the owner has grown by exactly one completion
  record, with the identifier and the kind of the task, and by the payload it announces: for a plain
  read these are the bytes the kernel has put in the task's buffer. Nothing is added when the
  client's descriptor is closed. Every other client is unchanged, and the task slot is free again, so
  no second completion is delivered for it.
\<close>

theorem completion_delivered_once:
  assumes "daemon_ok rt" and "n < 64" and "tk_active (task_at rt n)" and "i = tk_client_index (task_at rt n)"
    and "iouringd_complete_task sys n res rt = (Inr (), rt')"
  shows "(\<exists>cp payload. record_for (task_at rt n) res cp \<and> payload_for sys (task_at rt n) res cp payload
      \<and> output_pending (client_at rt' i) = output_pending (client_at rt i)
        @ (if 0 \<le> cl_fd (client_at rt i) then enc_completion_record cp @ payload else []))
    \<and> (\<forall>k. k \<noteq> i \<longrightarrow> client_at rt' k = client_at rt k)
    \<and> rt_tasks rt' = (rt_tasks rt)[n := iouringd_clear_task_slot]"
  using complete_task_output [OF assms(1,2,3,5,4)] framed_complete_task [OF assms(4), of sys res] assms(5)
    complete_task_core_ok(2) [OF daemon_okD(1) [OF assms(1)] assms(2,3,5)]
  by (simp add: framed_def touches_def)

text \<open>The no-op of \<open>demo_busy\<close> completes.\<close>

lemma demo_completes:
  obtains rt rt' where "daemon_ok rt" "tk_active (task_at rt 0)" "tk_client_index (task_at rt 0) = 0"
    "cl_fd (client_at rt 0) = 5" "tk_task_kind (task_at rt 0) = IOURINGD_TASK_KIND_NOP" "tk_task_id (task_at rt 0) = 1"
    "iouringd_complete_task demo_sys 0 0 rt = (Inr (), rt')"
proof -
  obtain rt where ok: "daemon_ok rt" and act: "tk_active (task_at rt 0)" and cl: "tk_client_index (task_at rt 0) = 0"
    and kind: "tk_task_kind (task_at rt 0) = IOURINGD_TASK_KIND_NOP" and id: "tk_task_id (task_at rt 0) = 1"
    and slots: "tk_file_slot_index (task_at rt 0) < 0" "tk_result_file_slot_index (task_at rt 0) < 0"
      "tk_buffer_slot_index (task_at rt 0) < 0"
    and c: "cl_fd (client_at rt 0) = 5" "cl_output_capacity (client_at rt 0) = 4096"
      "length (cl_output (client_at rt 0)) \<le> 64"
    by (rule demo_busy)
  let ?t = "kernel_done demo_sys (task_at rt 0)"
  have t: "tk_client_index ?t = 0" "tk_task_kind ?t = IOURINGD_TASK_KIND_NOP" "tk_file_slot_index ?t < 0"
    "tk_result_file_slot_index ?t < 0" "tk_buffer_slot_index ?t < 0"
    using cl kind slots by (simp_all add: kernel_done_def Let_def)
  have fill: "kernel_fill_buffer demo_sys ?t 0 rt = rt"
    using t(2) by (simp add: kernel_fill_buffer_def Let_def)
  have "length (output_pending (client_at rt 0)) + length (enc_completion_record (completion_record ?t 0)) \<le> 4096"
    using c(3) by (simp add: output_pending_def wire_simps)
  then obtain c' where "iouringd_queue_client_output (enc_completion_record (completion_record ?t 0)) (client_at rt 0)
      = (Inr (), c')"
    using outq.put_fits [of "client_at rt 0" "enc_completion_record (completion_record ?t 0)"]
      daemon_okD(8) [OF ok, of 0] c(2) by auto
  then have "\<exists>rt4. queue_completion ?t (completion_record ?t 0) None rt = (Inr (), rt4)"
    using t(1) by (simp add: queue_completion_def on_client_def Let_def)
  then obtain rt4 where q: "queue_completion ?t (completion_record ?t 0) None rt = (Inr (), rt4)" by blast
  have lim: "0 < lim_max_clients (rt_limits rt)"
    using daemon_okD(5) [OF ok] .
  have "\<exists>rt'. iouringd_complete_task demo_sys 0 0 rt = (Inr (), rt')"
    unfolding iouringd_complete_task_def Let_def fill
    using t q lim
    by (simp add: iouringd_prepare_accept_completion_def iouringd_prepare_openat_completion_def take_read_payload_def
        release_task_file_def release_task_result_def release_task_buffer_def Let_def)
  with that ok act cl c kind id show thesis by blast
qed

theorem completion_delivered_once_witness:
  "\<exists>rt rt' cp payload. iouringd_complete_task demo_sys 0 0 rt = (Inr (), rt')
     \<and> cp_task cp = tk_task_id (task_at rt 0)
     \<and> output_pending (client_at rt' 0) = output_pending (client_at rt 0) @ enc_completion_record cp @ payload"
proof -
  obtain rt rt' where d: "daemon_ok rt" "tk_active (task_at rt 0)" "tk_client_index (task_at rt 0) = 0"
    "cl_fd (client_at rt 0) = 5" "iouringd_complete_task demo_sys 0 0 rt = (Inr (), rt')" by (rule demo_completes) blast
  from completion_delivered_once [OF d(1) _ d(2) d(3) [symmetric] d(5)] obtain cp payload where
    "record_for (task_at rt 0) 0 cp" "output_pending (client_at rt' 0) = output_pending (client_at rt 0)
      @ (if 0 \<le> cl_fd (client_at rt 0) then enc_completion_record cp @ payload else [])" by auto
  with d(4,5) show ?thesis by (auto simp: record_for_def)
qed

section \<open>Isolation\<close>

text \<open>
  C7: Handling the request of one client leaves every other client alone: whatever the request and
  whatever the outcome, an error included, the slots of all other clients are unchanged, with their
  input, output, resources and counters. When the request is handled without an error, no task in
  flight, of any client, is changed either.
\<close>

theorem dispatch_isolates_clients:
  assumes "daemon_ok rt" and "i < lim_max_clients (rt_limits rt)"
    and "iouringd_dispatch_client_request sys i rt = (r, rt')"
  shows "(\<forall>k. k \<noteq> i \<longrightarrow> client_at rt' k = client_at rt k)
    \<and> (\<forall>n. n < 64 \<and> r = Inr x \<and> tk_active (task_at rt n) \<longrightarrow> task_at rt' n = task_at rt n)"
proof -
  have "touches i rt rt'" using framed_dispatch [of i rt sys] unfolding assms(3) framed_def by simp
  moreover have "task_at rt' n = task_at rt n" if "r = Inr x" "tk_active (task_at rt n)" for n
  proof (cases "cl_request_ready (client_at rt i)")
    case True
    from dispatch_handled(2) [OF daemon_okD(1) [OF assms(1)] assms(2) True assms(3) [unfolded that(1)]]
    consider "quiet i rt rt'" | m t where "submitted i m t rt rt'" by blast
    then show ?thesis
    proof cases
      case 1
      then show ?thesis using quiet_fields(1) [OF 1] by simp
    next
      case (2 m t)
      then have "\<not> tk_active (task_at rt m)" using free_task_slot [of rt m] by (auto simp: submitted_def)
      then have "m \<noteq> n" using that(2) by auto
      then show ?thesis using submitted_fields(1) [OF 2] by simp
    qed
  next
    case False
    with assms(3) show ?thesis by (simp add: iouringd_dispatch_client_request_def)
  qed
  ultimately show ?thesis by (auto simp: touches_def)
qed

theorem dispatch_isolates_clients_witness:
  "\<exists>rt'. iouringd_dispatch_client_request demo_sys 0 (demo_rt demo_nop) = (Inr True, rt')
     \<and> client_at rt' 1 = client_at (demo_rt demo_nop) 1"
proof -
  obtain rt' where out: "iouringd_dispatch_client_request demo_sys 0 (demo_rt demo_nop) = (Inr True, rt')"
    using demo_nop_dispatched by blast
  from dispatch_isolates_clients [OF demo_daemon_ok _ out] have "client_at rt' 1 = client_at (demo_rt demo_nop) 1"
    by (simp add: demo_rt_fields)
  with out show ?thesis by blast
qed

end
