(* ===== verification/Liveness.thy ===== *)
theory Liveness
  imports Reachable
begin

text \<open>
  Progress of the dispatcher: a pass over the clients answers at least one ready request if there is
  one, no pass makes a request ready, and the event loop does not wait for events in a turn that has
  answered a request. The last section is about the error that ends the loop when the reply to a
  client does not fit its output buffer.
\<close>

named_theorems finishing "results that end in \<open>iouringd_finish_client_request\<close>"

definition finished :: "nat \<Rightarrow> ('a, iouringd_runtime) res \<Rightarrow> bool" where
  "finished i out \<longleftrightarrow> (\<forall>x s. out = (Inr x, s) \<longrightarrow> (\<exists>s0. s = upd_client i iouringd_finish_client_request s0))"

lemma finished_finish [finishing]: "finished i (finish_request i s)"
  by (auto simp: finished_def finish_request_def)

lemma finished_error [finishing]: "finished i (Inl e, s)"
  by (simp add: finished_def)

lemma finished_bind [finishing]: "(\<And>x s. finished i (f x s)) \<Longrightarrow> finished i (bind_rc r f)"
  by (auto simp: finished_def elim!: bind_rc_cases)

lemma finished_case [finishing]:
  "(\<And>e s. finished i (A e s)) \<Longrightarrow> (\<And>x s. finished i (B x s)) \<Longrightarrow>
    finished i (case r of (Inl e, s) \<Rightarrow> A e s | (Inr x, s) \<Rightarrow> B x s)"
  by (simp split: prod.split sum.split)

lemma finished_reject [finishing]: "finished i (reject_request sys i e s)"
  unfolding reject_request_def by (intro finishing)

lemma finished_accept [finishing]:
  "(\<And>e s. finished i (undo e s)) \<Longrightarrow> finished i (accept_request sys i t undo s)"
  unfolding accept_request_def by (intro finishing)

lemma finished_dispatch:
  assumes "cl_request_ready (client_at rt i)"
  shows "finished i (iouringd_dispatch_client_request sys i rt)"
proof -
  have "finished i (dispatch_register_fd sys i rt)" "finished i (dispatch_register_buffer sys i rt)"
    "finished i (dispatch_release_resource sys i rt)" "finished i (dispatch_get_stats i rt)"
    "finished i (dispatch_get_trace i rt)"
    unfolding dispatch_register_fd_def dispatch_register_buffer_def dispatch_release_resource_def released_def
      dispatch_get_stats_def dispatch_get_trace_def Let_def
    by (auto intro!: finishing split: option.split prod.split sum.split)
  moreover have "finished i (dispatch_openat sys i rt)" "finished i (dispatch_close sys i rt)"
    "finished i (dispatch_resource_io sys i rt)" "finished i (dispatch_plain sys i rt)"
    unfolding dispatch_openat_def dispatch_close_def dispatch_resource_io_def dispatch_plain_def Let_def
    by (auto intro!: finishing split: option.split prod.split sum.split)
  ultimately show ?thesis
    using assms by (simp add: iouringd_dispatch_client_request_def dispatch_submit_def Let_def finished_reject
        split: option.split)
qed

text \<open>The clients whose request waits to be dispatched.\<close>

definition waiting :: "iouringd_runtime \<Rightarrow> nat \<Rightarrow> bool" where
  "waiting rt i \<longleftrightarrow> iouringd_client_is_active (client_at rt i) \<and> cl_request_ready (client_at rt i)"

definition backlog :: "iouringd_runtime \<Rightarrow> nat set" where
  "backlog rt = {i. i < lim_max_clients (rt_limits rt) \<and> waiting rt i}"

lemma backlog_cursor [simp]: "backlog (rt\<lparr>rt_dispatch_cursor := n\<rparr>) = backlog rt"
  by (simp add: backlog_def waiting_def)

lemma finite_backlog [simp]: "finite (backlog rt)"
  by (simp add: backlog_def)

text \<open>A dispatched request leaves the backlog, and nothing enters it.\<close>

lemma dispatch_backlog:
  assumes ok: "daemon_ok rt" and i: "i < lim_max_clients (rt_limits rt)" and w: "waiting rt i"
    and out: "iouringd_dispatch_client_request sys i rt = (Inr x, rt')"
  shows "x" and "backlog rt' = backlog rt - {i}"
proof -
  have ready: "cl_request_ready (client_at rt i)" using w by (simp add: waiting_def)
  show x using dispatch_handled(1) [OF daemon_okD(1) [OF ok] i ready out] .
  have t: "touches i rt rt'" using framed_dispatch [of i rt sys] unfolding out framed_def by simp
  then have len: "length (rt_clients rt') = length (rt_clients rt)"
    and other: "\<And>k. k \<noteq> i \<Longrightarrow> client_at rt' k = client_at rt k" by (simp_all add: touches_def)
  have lim: "rt_limits rt' = rt_limits rt" using dispatch_ok(2) [OF ok i out] .
  obtain s0 where s0: "rt' = upd_client i iouringd_finish_client_request s0"
    using finished_dispatch [OF ready] out by (force simp: finished_def)
  have "i < length (rt_clients s0)" using len i daemon_okD(3,6) [OF ok] by (simp add: s0)
  then have "\<not> cl_request_ready (client_at rt' i)"
    by (simp add: s0 iouringd_finish_client_request_def iouringd_reset_client_input_def)
  then show "backlog rt' = backlog rt - {i}"
    using other lim by (auto simp: backlog_def waiting_def) (metis+)
qed

lemma dispatch_band_backlog:
  assumes "dispatch_band sys band off n progress rt = (Inr p, rt')" and "daemon_ok rt"
  shows "rt_limits rt' = rt_limits rt \<and> backlog rt' \<subseteq> backlog rt \<and> (progress \<longrightarrow> p)
    \<and> (p \<and> \<not> progress \<longrightarrow> backlog rt' \<noteq> backlog rt)
    \<and> (\<not> p \<longrightarrow> rt' = rt \<and> (\<forall>k < n. let i = (rt_dispatch_cursor rt + (off + k)) mod lim_max_clients (rt_limits rt)
         in \<not> (waiting rt i \<and> client_band (client_at rt i) = band)))"
  using assms
proof (induction sys band off n progress rt rule: dispatch_band.induct)
  case (2 sys band off n progress rt)
  let ?m = "lim_max_clients (rt_limits rt)"
  let ?i = "(rt_dispatch_cursor rt + off) mod ?m"
  have i: "?i < ?m" using daemon_okD(5) [OF 2(5)] by simp
  show ?case
  proof (cases "\<not> iouringd_client_is_active (client_at rt ?i) \<or> \<not> cl_request_ready (client_at rt ?i)
      \<or> client_band (client_at rt ?i) \<noteq> band")
    case True
    then have "dispatch_band sys band (off + 1) n progress rt = (Inr p, rt')" using 2(4) by (simp add: Let_def)
    note ih = 2(1) [OF refl refl True this 2(5)]
    have "\<forall>k < Suc n. let i = (rt_dispatch_cursor rt + (off + k)) mod ?m
        in \<not> (waiting rt i \<and> client_band (client_at rt i) = band)" if "\<not> p"
    proof (intro allI impI)
      fix k assume "k < Suc n"
      with True ih that show "let i = (rt_dispatch_cursor rt + (off + k)) mod ?m
          in \<not> (waiting rt i \<and> client_band (client_at rt i) = band)"
        by (cases k) (auto simp: Let_def waiting_def)
    qed
    with ih show ?thesis by blast
  next
    case False
    then have w: "waiting rt ?i" by (simp add: waiting_def)
    obtain r rt1 where d: "iouringd_dispatch_client_request sys ?i rt = (r, rt1)" by fastforce
    note eq = 2(4) [unfolded dispatch_band.simps Let_def if_not_P [OF False] d]
    from eq obtain x where r: "r = Inr x" by (cases r) simp_all
    note b = dispatch_backlog [OF 2(5) i w d [unfolded r]]
    have ok1: "daemon_ok rt1" and lim: "rt_limits rt1 = rt_limits rt" using dispatch_ok [OF 2(5) i d [unfolded r]] .
    from eq r b(1) have "dispatch_band sys band (off + 1) n True (rt1\<lparr>rt_dispatch_cursor := (?i + 1) mod lim_max_clients (rt_limits rt1)\<rparr>)
      = (Inr p, rt')" by simp
    with 2(2) [OF refl refl False b(1) this] ok1 have "rt_limits rt' = rt_limits rt1 \<and> backlog rt' \<subseteq> backlog rt1 \<and> p"
      by (simp add: daemon_ok_cursor)
    moreover have "?i \<in> backlog rt" using w i by (simp add: backlog_def)
    ultimately show ?thesis using b(2) lim by auto
  qed
qed simp

lemma rotation_covers:
  assumes "i < m"
  shows "\<exists>k < m. (c + k) mod m = (i :: nat)"
proof -
  have "(c + (i + (m - c mod m))) mod m = i"
  proof -
    have "c mod m \<le> m" using assms by (simp add: less_imp_le)
    then have "(c mod m + (i + (m - c mod m))) mod m = (i + m) mod m" by simp
    with assms show ?thesis by (simp add: mod_add_left_eq)
  qed
  then have "(c + (i + (m - c mod m)) mod m) mod m = i" by (simp add: mod_add_right_eq)
  with assms show ?thesis by (intro exI [of _ "(i + (m - c mod m)) mod m"]) simp
qed

lemma dispatch_bands_backlog:
  assumes "dispatch_bands sys bs progress rt = (Inr p, rt')" and "daemon_ok rt"
  shows "backlog rt' \<subseteq> backlog rt \<and> (progress \<longrightarrow> p) \<and> (p \<and> \<not> progress \<longrightarrow> backlog rt' \<noteq> backlog rt)
    \<and> (\<not> p \<longrightarrow> rt' = rt \<and> (\<forall>i \<in> backlog rt. client_band (client_at rt i) \<notin> set bs))"
  using assms
proof (induction sys bs progress rt rule: dispatch_bands.induct)
  case (2 sys b bs progress rt)
  let ?m = "lim_max_clients (rt_limits rt)"
  from 2(2) obtain q rt1 where d: "dispatch_band sys b 0 ?m progress rt = (Inr q, rt1)"
    and rest: "dispatch_bands sys bs q rt1 = (Inr p, rt')" by (auto elim!: bind_rc_cases)
  note band = dispatch_band_backlog [OF d 2(3)]
  note ih = 2(1) [OF rest daemon.dispatch_band_keeps [OF d 2(3)]]
  have "client_band (client_at rt i) \<noteq> b" if "\<not> q" "i \<in> backlog rt" for i
  proof -
    from that(2) have "i < ?m" "waiting rt i" by (simp_all add: backlog_def)
    with rotation_covers [of i ?m "rt_dispatch_cursor rt"] band that(1) show ?thesis by (auto simp: Let_def)
  qed
  with band ih show ?case by (cases q) auto
qed simp

lemma client_band_cases: "client_band c \<in> set [3, 2, 1, 0]"
  by (simp add: client_band_def)

lemma dispatch_ready_backlog:
  assumes "iouringd_dispatch_ready_requests sys rt = (Inr p, rt')" and "daemon_ok rt"
  shows "backlog rt' \<subseteq> backlog rt" and "p \<longleftrightarrow> backlog rt \<noteq> {}" and "p \<longrightarrow> backlog rt' \<subset> backlog rt"
  using dispatch_bands_backlog [OF assms(1) [unfolded iouringd_dispatch_ready_requests_def] assms(2)]
    client_band_cases by blast+

text \<open>
  C8: A pass of the dispatcher makes progress exactly when a client has a request ready: it then
  answers at least one of them, and it never makes another request ready, so the set of clients with
  a waiting request shrinks with every pass until it is empty. The turn of the event loop in which
  that happens does not wait for events: it returns the same whatever \<open>poll\<close> would report.
\<close>

theorem dispatch_makes_progress:
  assumes "daemon_ok rt" and "iouringd_service_ready_inputs (en_recv en) rt = (Inr p1, rt1)"
    and "iouringd_dispatch_ready_requests sys rt1 = (Inr p2, rt2)"
  shows "backlog rt2 \<subseteq> backlog rt1 \<and> (p2 \<longleftrightarrow> backlog rt1 \<noteq> {})
    \<and> (p2 \<longrightarrow> card (backlog rt2) < card (backlog rt1) \<and> (\<forall>q. run_turn sys (en\<lparr>en_poll := q\<rparr>) rt = run_turn sys en rt))"
proof -
  have ok: "daemon_ok rt1"
    using daemon.service_inputs_keep [OF assms(2) [unfolded iouringd_service_ready_inputs_def] assms(1)]
      daemon_okD(6) [OF assms(1)] by simp
  note b = dispatch_ready_backlog [OF assms(3) ok]
  have "card (backlog rt2) < card (backlog rt1)" if p2 using b(3) that by (simp add: psubset_card_mono)
  moreover have "run_turn sys (en\<lparr>en_poll := q\<rparr>) rt = run_turn sys en rt" if p2 for q
    using assms(2,3) that
    by (simp add: run_turn_def split: option.split prod.split sum.split)
  ultimately show ?thesis using b by blast
qed

text \<open>A client alone with a request that can be answered.\<close>

definition lone :: "sys \<Rightarrow> nat \<Rightarrow> iouringd_runtime \<Rightarrow> bool" where
  "lone sys i rt \<longleftrightarrow> daemon_ok rt \<and> backlog rt \<subseteq> {i}
     \<and> (backlog rt = {} \<or> (\<exists>rt'. iouringd_dispatch_client_request sys i rt = (Inr True, rt')))"

lemma lone_band:
  "lone sys i rt \<Longrightarrow> \<exists>p rt'. dispatch_band sys band off n progress rt = (Inr p, rt') \<and> lone sys i rt'"
proof (induction sys band off n progress rt rule: dispatch_band.induct)
  case (2 sys band off n progress rt)
  let ?m = "lim_max_clients (rt_limits rt)"
  let ?i = "(rt_dispatch_cursor rt + off) mod ?m"
  have ok: "daemon_ok rt" using 2(4) by (simp add: lone_def)
  have i: "?i < ?m" using daemon_okD(5) [OF ok] by simp
  show ?case
  proof (cases "\<not> iouringd_client_is_active (client_at rt ?i) \<or> \<not> cl_request_ready (client_at rt ?i)
      \<or> client_band (client_at rt ?i) \<noteq> band")
    case True
    with 2(1) [OF refl refl True 2(4)] show ?thesis by (simp add: Let_def)
  next
    case False
    then have w: "waiting rt ?i" by (simp add: waiting_def)
    with i have "?i \<in> backlog rt" by (simp add: backlog_def)
    with 2(4) obtain rt1 where here: "?i = i" "backlog rt = {i}"
      and d: "iouringd_dispatch_client_request sys ?i rt = (Inr True, rt1)" by (auto simp: lone_def)
    let ?rt2 = "rt1\<lparr>rt_dispatch_cursor := (?i + 1) mod lim_max_clients (rt_limits rt1)\<rparr>"
    have "lone sys i ?rt2"
      using dispatch_backlog(2) [OF ok i w d] dispatch_ok(1) [OF ok i d] here
      by (simp add: lone_def daemon_ok_cursor)
    with 2(2) [OF refl refl False TrueI] d False show ?thesis by (simp add: Let_def)
  qed
qed auto

lemma lone_bands:
  "lone sys i rt \<Longrightarrow> \<exists>p rt'. dispatch_bands sys bs progress rt = (Inr p, rt')"
proof (induction bs arbitrary: progress rt)
  case (Cons b bs)
  from lone_band [OF Cons.prems] obtain p rt1 where
    "dispatch_band sys b 0 (lim_max_clients (rt_limits rt)) progress rt = (Inr p, rt1)" "lone sys i rt1" by blast
  with Cons.IH show ?case by simp
qed simp

lemma service_inputs_idle:
  assumes "\<forall>i \<in> set is. i < length (rt_clients rt) \<and> (iouringd_client_is_active (client_at rt i) \<longrightarrow>
    cl_request_ready (client_at rt i))"
  shows "service_inputs recv is progress rt = (Inr progress, rt)"
  using assms
  by (induction "is") (simp_all add: iouringd_service_client_readable_def service_loop.simps set_client_def)

definition demo_env :: env where
  "demo_env = \<lparr>en_recv = (\<lambda>_. []), en_write = (\<lambda>_. []), en_stop = False, en_poll = Inl EINTR, en_poll_stop = False,
    en_accept = [], en_event_recv = (\<lambda>_. []), en_event_write = (\<lambda>_. [])\<rparr>"

text \<open>The demonstration daemon when its only client has a request ready.\<close>

lemma demo_waiting:
  assumes "cl_request_ready (f (init_client\<lparr>cl_fd := 5, cl_output_capacity := 4096\<rparr>))"
    and "cl_fd (f (init_client\<lparr>cl_fd := 5, cl_output_capacity := 4096\<rparr>)) = 5"
  shows "backlog (demo_rt f) = {0}" and "iouringd_service_ready_inputs recv (demo_rt f) = (Inr False, demo_rt f)"
proof -
  have idle: "\<not> iouringd_client_is_active init_client"
    by (simp add: iouringd_client_is_active_def init_client_def iouringd_init_client_resources_def
        iouringd_reset_client_input_def zero_client_def)
  then have "waiting (demo_rt f) k \<longleftrightarrow> k = 0" if "k < 64" for k
    using that assms by (auto simp: waiting_def demo_client_at iouringd_client_is_active_def)
  then show "backlog (demo_rt f) = {0}" by (auto simp: backlog_def demo_rt_fields)
  show "iouringd_service_ready_inputs recv (demo_rt f) = (Inr False, demo_rt f)"
    unfolding iouringd_service_ready_inputs_def
    using assms idle by (intro service_inputs_idle) (auto simp: demo_rt_fields demo_client_at)
qed

theorem dispatch_makes_progress_witness:
  "\<exists>rt2. iouringd_dispatch_ready_requests demo_sys (demo_rt demo_nop) = (Inr True, rt2)
     \<and> backlog (demo_rt demo_nop) = {0} \<and> backlog rt2 = {}"
proof -
  have b: "backlog (demo_rt demo_nop) = {0}"
    and s: "iouringd_service_ready_inputs recv (demo_rt demo_nop) = (Inr False, demo_rt demo_nop)" for recv
    by (rule demo_waiting; simp add: demo_nop_def)+
  have "lone demo_sys 0 (demo_rt demo_nop)"
    using b demo_daemon_ok demo_nop_dispatched by (auto simp: lone_def)
  from lone_bands [OF this] obtain p rt2 where
    d: "iouringd_dispatch_ready_requests demo_sys (demo_rt demo_nop) = (Inr p, rt2)"
    unfolding iouringd_dispatch_ready_requests_def by blast
  from dispatch_makes_progress [OF demo_daemon_ok s d, of demo_env] b have "p" "backlog rt2 \<subset> {0}" by auto
  with d b show ?thesis by auto
qed

section \<open>A client that does not read its replies\<close>

lemma lone_error_band:
  assumes "daemon_ok rt" and "backlog rt \<subseteq> {i}" and "iouringd_dispatch_client_request sys i rt = (Inl e, rt1)"
  shows "dispatch_band sys band off n progress rt \<in> {(Inr progress, rt), (Inl e, rt1)}"
proof (induction n arbitrary: off)
  case (Suc n)
  let ?i = "(rt_dispatch_cursor rt + off) mod lim_max_clients (rt_limits rt)"
  have "?i < lim_max_clients (rt_limits rt)" using daemon_okD(5) [OF assms(1)] by simp
  then have "?i = i" if "waiting rt ?i" using assms(2) that by (auto simp: backlog_def)
  with Suc [of "off + 1"] assms(3) show ?case by (auto simp: Let_def waiting_def)
qed simp

lemma lone_error_bands:
  assumes "daemon_ok rt" and "backlog rt \<subseteq> {i}" and "iouringd_dispatch_client_request sys i rt = (Inl e, rt1)"
  shows "dispatch_bands sys bs progress rt \<in> {(Inr progress, rt), (Inl e, rt1)}"
proof (induction bs)
  case (Cons b bs)
  with lone_error_band [OF assms, of b 0 "lim_max_clients (rt_limits rt)" progress] show ?case by auto
qed simp

lemma lone_error_ready:
  assumes "daemon_ok rt" and "backlog rt = {i}" and "iouringd_dispatch_client_request sys i rt = (Inl e, rt1)"
  shows "iouringd_dispatch_ready_requests sys rt = (Inl e, rt1)"
  using lone_error_bands [OF assms(1) _ assms(3), of "[3, 2, 1, 0]" False] assms(2)
    dispatch_ready_backlog(2) [of sys rt False rt, OF _ assms(1)]
  by (auto simp: iouringd_dispatch_ready_requests_def)

text \<open>
  C34: A client that does not read its replies can stop the daemon. When its output buffer has no room
  for one more reply and its next submission is one that is refused, the reply cannot be queued,
  \<open>iouringd_dispatch_client_request\<close> fails with \<open>EOVERFLOW\<close>, and that error is not confined to the
  connection: the turn of the event loop returns it, and with it \<open>iouringd_run\<close>, for all clients.
\<close>

theorem full_output_stops_daemon:
  assumes "daemon_ok rt" and "iouringd_service_ready_inputs (en_recv en) rt = (Inr p1, rt1)"
    and "backlog rt1 = {i}" and "cl_control_op (client_at rt1 i) = 0"
    and "submit_error rt1 (client_at rt1 i) = Some e"
    and "cl_output_capacity (client_at rt1 i) < length (output_pending (client_at rt1 i)) + 16"
  shows "\<exists>rt'. run_turn sys en rt = Some (Inl EOVERFLOW, rt') \<and> iouringd_run sys (en # ens) rt = Some (Inl EOVERFLOW, rt')"
proof -
  have ok: "daemon_ok rt1"
    using daemon.service_inputs_keep [OF assms(2) [unfolded iouringd_service_ready_inputs_def] assms(1)]
      daemon_okD(6) [OF assms(1)] by simp
  have i: "i < lim_max_clients (rt_limits rt1)" and w: "waiting rt1 i" using assms(3) by (auto simp: backlog_def)
  have "output_ok (client_at rt1 i)" using daemon_okD(8) [OF ok, of i] daemon_okD(6) [OF ok] i by simp
  then have full: "\<exists>c'. iouringd_queue_client_output (enc_submit_result m) (client_at rt1 i) = (Inl EOVERFLOW, c')" for m
    using outq.put_full [of "client_at rt1 i" "enc_submit_result m"] assms(6) by (auto simp: wire_simps)
  let ?rt = "rt1\<lparr>rt_rejected_submits := rt_rejected_submits rt1 + 1\<rparr>"
  have "\<exists>rt2. iouringd_queue_submit_result i IOURINGD_TASK_ID_INVALID (neg_errno e) ?rt = (Inl EOVERFLOW, rt2)"
    using full [of "\<lparr>sres_task = IOURINGD_TASK_ID_INVALID, sres_res = neg_errno e,
        sres_credits = iouringd_available_credits ?rt\<rparr>"]
    by (auto simp: iouringd_queue_submit_result_def on_client_def)
  then have "\<exists>rt2. reject_request sys i e rt1 = (Inl EOVERFLOW, rt2)"
    by (auto simp: reject_request_def iouringd_reject_submit_def Let_def)
  then obtain rt2 where "reject_request sys i e rt1 = (Inl EOVERFLOW, rt2)" by blast
  then have "iouringd_dispatch_client_request sys i rt1 = (Inl EOVERFLOW, rt2)"
    using assms(4,5) w by (simp add: iouringd_dispatch_client_request_def dispatch_submit_def waiting_def)
  from lone_error_ready [OF ok assms(3) this] assms(2) have "run_turn sys en rt = Some (Inl EOVERFLOW, rt2)"
    by (simp add: run_turn_def)
  then show ?thesis by simp
qed

text \<open>A client with six bytes left in its output buffer asks for a poll, which
  the ring of the demonstration does not support.\<close>

definition demo_full :: "iouringd_client \<Rightarrow> iouringd_client" where
  "demo_full c = c\<lparr>cl_phase := IOURINGD_CLIENT_PHASE_SUBMIT, cl_request_ready := True,
     cl_output := replicate 4090 0, cl_request := (cl_request c)\<lparr>sr_task_kind := IOURINGD_TASK_KIND_POLL\<rparr>\<rparr>"

theorem full_output_stops_daemon_witness:
  "\<exists>rt'. iouringd_run demo_sys [demo_env] (demo_rt demo_full) = Some (Inl EOVERFLOW, rt')"
proof -
  have ok: "daemon_ok (demo_rt demo_full)"
    by (rule demo_daemon_okI)
      (simp_all add: core_of_client_def init_client_def parser_ok_def payload_ok_def output_ok_def demo_full_def
        iouringd_reset_client_input_def iouringd_init_client_resources_def zero_client_def)
  have b: "backlog (demo_rt demo_full) = {0}"
    and s: "iouringd_service_ready_inputs recv (demo_rt demo_full) = (Inr False, demo_rt demo_full)" for recv
    by (rule demo_waiting; simp add: demo_full_def)+
  have c: "cl_control_op (client_at (demo_rt demo_full) 0) = 0"
    "cl_output_capacity (client_at (demo_rt demo_full) 0) < length (output_pending (client_at (demo_rt demo_full) 0)) + 16"
    by (simp_all add: demo_rt_fields demo_full_def demo_client_fields output_pending_def)
  have "\<exists>e. submit_error (demo_rt demo_full) (client_at (demo_rt demo_full) 0) = Some e"
    by (simp add: submit_error_def admission_error_def cancel_error_def capability_error_def uses_credit_def
        demo_full_def demo_rt_def init_client_def iouringd_init_runtime_def zero_client_def
        iouringd_init_client_resources_def iouringd_reset_client_input_def iouringd_init_limits_def
        zero_capabilities_def Let_def)
  then obtain e where e: "submit_error (demo_rt demo_full) (client_at (demo_rt demo_full) 0) = Some e" by blast
  from full_output_stops_daemon [OF ok s b c(1) e c(2), of demo_sys demo_env "[]"] show ?thesis by auto
qed

end
