(* ===== verification/Client_Socket.thy ===== *)
theory Client_Socket
  imports Framing
begin

text \<open>
  The blocking socket calls of the client library, src/lib/submit.c lines 42 to 204 and 280 to 306,
  and their copies in src/lib/client.c and src/daemon/handshake.c: the loops around send, sendmsg
  and recv, and the peek at the next protocol header.

  The kernel's side of a connection is a script per direction. For sending, \<open>Sent n\<close> accepts up to
  \<open>n\<close> of the offered bytes and \<open>Send_error e\<close> fails; a socket with an empty script accepts
  everything. For receiving, \<open>In_data d\<close> is the next segment of the stream and \<open>In_error e\<close> a call
  that fails; the end of the script is the end of the stream. Bytes of a segment that were not asked
  for stay in front of the script.
\<close>

datatype send_event = Sent nat | Send_error errno

datatype in_event = In_data bytes | In_error errno

record socket_io =
  so_in :: "in_event list"
  so_send :: "send_event list"
  so_out :: bytes
  so_rights :: "(nat \<times> int) list"

type_synonym send_result = "(errno + unit) \<times> bytes \<times> send_event list"

definition prepend :: "bytes \<Rightarrow> send_result \<Rightarrow> send_result" where
  "prepend bs out = (case out of (r, sent, ws) \<Rightarrow> (r, bs @ sent, ws))"

section \<open>Sending\<close>

primrec send_loop :: "send_event list \<Rightarrow> bytes \<Rightarrow> nat \<Rightarrow> send_result" where
  "send_loop [] buf offset =
     (if offset < length buf then (Inr (), drop offset buf, []) else (Inr (), [], []))"
| "send_loop (w # ws) buf offset =
     (if offset < length buf then
        (case w of
           Sent n \<Rightarrow>
             (let rc = min n (length buf - offset) in
              if rc = 0 then (Inl EPIPE, [], ws)
              else prepend (take rc (drop offset buf)) (send_loop ws buf (offset + rc)))
         | Send_error e \<Rightarrow>
             (if e = EINTR then send_loop ws buf offset else (Inl e, [], ws)))
      else (Inr (), [], w # ws))"

definition write_full :: "bytes \<Rightarrow> socket_io \<Rightarrow> (unit, socket_io) res" where
  "write_full buf s =
     (case send_loop (so_send s) buf 0 of
        (r, sent, ws) \<Rightarrow> (r, s\<lparr>so_send := ws, so_out := so_out s @ sent\<rparr>))"

definition iov_rest :: "bytes \<Rightarrow> nat \<Rightarrow> bytes \<Rightarrow> nat \<Rightarrow> bytes" where
  "iov_rest first first_offset second second_offset =
     (if first_offset < length first then drop first_offset first else [])
     @ (if second_offset < length second then drop second_offset second else [])"

primrec send_iov_loop :: "send_event list \<Rightarrow> bytes \<Rightarrow> nat \<Rightarrow> bytes \<Rightarrow> nat \<Rightarrow> send_result" where
  "send_iov_loop [] first first_offset second second_offset =
     (if first_offset < length first \<or> second_offset < length second
      then (Inr (), iov_rest first first_offset second second_offset, [])
      else (Inr (), [], []))"
| "send_iov_loop (w # ws) first first_offset second second_offset =
     (if first_offset < length first \<or> second_offset < length second then
        (case w of
           Sent n \<Rightarrow>
             (let iov = iov_rest first first_offset second second_offset;
                  rc = min n (length iov)
              in if rc = 0 then (Inl EPIPE, [], ws)
                 else prepend (take rc iov)
                   (if rc \<le> length first - first_offset
                    then send_iov_loop ws first (first_offset + rc) second second_offset
                    else send_iov_loop ws first (length first) second
                           (second_offset + (rc - (length first - first_offset)))))
         | Send_error e \<Rightarrow>
             (if e = EINTR then send_iov_loop ws first first_offset second second_offset
              else (Inl e, [], ws)))
      else (Inr (), [], w # ws))"

definition write_iov_full :: "bytes \<Rightarrow> bytes \<Rightarrow> socket_io \<Rightarrow> (unit, socket_io) res" where
  "write_iov_full first second s =
     (case send_iov_loop (so_send s) first 0 second 0 of
        (r, sent, ws) \<Rightarrow> (r, s\<lparr>so_send := ws, so_out := so_out s @ sent\<rparr>))"

text \<open>A descriptor passed with the first byte of a request.\<close>

fun send_fd_loop :: "send_event list \<Rightarrow> bytes \<Rightarrow> send_result" where
  "send_fd_loop [] buf = (Inr (), buf, [])"
| "send_fd_loop (Sent n # ws) buf =
     (let rc = min n (length buf) in
      if rc = 0 then (Inl EPIPE, [], ws)
      else if rc \<noteq> length buf then (Inl EPROTO, take rc buf, ws)
      else (Inr (), buf, ws))"
| "send_fd_loop (Send_error e # ws) buf =
     (if e = EINTR then send_fd_loop ws buf else (Inl e, [], ws))"

definition send_fd_with_request :: "int \<Rightarrow> bytes \<Rightarrow> socket_io \<Rightarrow> (unit, socket_io) res" where
  "send_fd_with_request resource_fd buf s =
     (case send_fd_loop (so_send s) buf of
        (r, sent, ws) \<Rightarrow>
          (r, s\<lparr>so_send := ws, so_out := so_out s @ sent,
               so_rights := so_rights s
                 @ (if sent = [] then [] else [(length (so_out s), resource_fd)])\<rparr>))"

section \<open>Receiving\<close>

fun recv_loop :: "in_event list \<Rightarrow> nat \<Rightarrow> (errno + bytes) \<times> in_event list" where
  "recv_loop ins 0 = (Inr [], ins)"
| "recv_loop [] (Suc n) = (Inl EPIPE, [])"
| "recv_loop (In_error e # ins) (Suc n) =
     (if e = EINTR then recv_loop ins (Suc n) else (Inl e, ins))"
| "recv_loop (In_data d # ins) (Suc n) =
     (if d = [] then (Inl EPIPE, ins)
      else if length d < Suc n then
        (case recv_loop ins (Suc n - length d) of
           (Inl e, ins') \<Rightarrow> (Inl e, ins')
         | (Inr bs, ins') \<Rightarrow> (Inr (d @ bs), ins'))
      else (Inr (take (Suc n) d), if length d = Suc n then ins else In_data (drop (Suc n) d) # ins))"

definition read_full :: "nat \<Rightarrow> socket_io \<Rightarrow> (bytes, socket_io) res" where
  "read_full len s = (case recv_loop (so_in s) len of (r, ins) \<Rightarrow> (r, s\<lparr>so_in := ins\<rparr>))"

text \<open>
  \<open>recv(fd, header, sizeof(*header), MSG_PEEK | MSG_WAITALL)\<close>: the bytes in front of the stream,
  fewer than asked for only when the stream ends or the call is interrupted behind them.
\<close>

fun peek_bytes :: "nat \<Rightarrow> in_event list \<Rightarrow> bytes" where
  "peek_bytes n [] = []"
| "peek_bytes n (In_error e # ins) = []"
| "peek_bytes n (In_data d # ins) =
     (if d = [] then [] else if length d < n then d @ peek_bytes (n - length d) ins else take n d)"

fun peek_loop :: "in_event list \<Rightarrow> (errno + bytes) \<times> in_event list" where
  "peek_loop [] = (Inl EPIPE, [])"
| "peek_loop (In_error e # ins) = (if e = EINTR then peek_loop ins else (Inl e, ins))"
| "peek_loop (In_data d # ins) =
     (let bs = peek_bytes sizeof_protocol_header (In_data d # ins) in
      if bs = [] then (Inl EPIPE, ins)
      else if length bs = sizeof_protocol_header then (Inr bs, In_data d # ins)
      else (Inl EPROTO, In_data d # ins))"

definition peek_protocol_header :: "socket_io \<Rightarrow> (iouringd_protocol_header_v1, socket_io) res" where
  "peek_protocol_header s =
     (case peek_loop (so_in s) of
        (Inl e, ins) \<Rightarrow> (Inl e, s\<lparr>so_in := ins\<rparr>)
      | (Inr bs, ins) \<Rightarrow> (Inr (dec_protocol_header bs), s\<lparr>so_in := ins\<rparr>))"

text \<open>The copies of these loops in src/lib/client.c and src/daemon/handshake.c.\<close>

definition client_write_full :: "bytes \<Rightarrow> socket_io \<Rightarrow> (unit, socket_io) res" where
  "client_write_full = write_full"

definition client_read_full :: "nat \<Rightarrow> socket_io \<Rightarrow> (bytes, socket_io) res" where
  "client_read_full = read_full"

definition handshake_write_full :: "bytes \<Rightarrow> socket_io \<Rightarrow> (unit, socket_io) res" where
  "handshake_write_full = write_full"

definition handshake_read_full :: "nat \<Rightarrow> socket_io \<Rightarrow> (bytes, socket_io) res" where
  "handshake_read_full = read_full"

section \<open>The two ways to send are the same\<close>

lemma min_zero: "min a b = (0::nat) \<longleftrightarrow> a = 0 \<or> b = 0"
  by (auto simp: min_def)

lemma send_loop_offset: "send_loop ws buf offset = send_loop ws (drop offset buf) 0"
proof (induction ws arbitrary: buf offset)
  case (Cons w ws)
  show ?case
  proof (cases w)
    case (Sent n)
    with Cons.IH [of buf "offset + min n (length buf - offset)"]
      Cons.IH [of "drop offset buf" "min n (length buf - offset)"] show ?thesis
      by (cases "n = 0"; cases "offset < length buf") (simp_all add: Let_def add.commute min_zero)
  next
    case (Send_error e)
    with Cons.IH [of buf offset] show ?thesis by simp
  qed
qed simp

lemma iov_rest_eq: "iov_rest first fo second so = drop fo first @ drop so second"
  by (simp add: iov_rest_def)

lemma send_iov_is_send:
  "send_iov_loop ws first fo second so = send_loop ws (drop fo first @ drop so second) 0"
proof (induction ws arbitrary: fo so)
  case Nil
  show ?case by (auto simp: iov_rest_eq)
next
  case (Cons w ws)
  let ?iov = "drop fo first @ drop so second"
  have more: "(fo < length first \<or> so < length second) = (0 < length ?iov)" by auto
  show ?case
  proof (cases w)
    case (Send_error e)
    with Cons.IH [of fo so] show ?thesis by (simp only: send_iov_loop.simps send_loop.simps more) simp
  next
    case (Sent n)
    let ?rc = "min n (length ?iov)"
    have "(if ?rc \<le> length first - fo then send_iov_loop ws first (fo + ?rc) second so
        else send_iov_loop ws first (length first) second (so + (?rc - (length first - fo))))
      = send_loop ws (drop ?rc ?iov) 0"
      by (simp add: Cons.IH add.commute)
    then show ?thesis
      unfolding send_iov_loop.simps send_loop.simps more Let_def iov_rest_eq Sent send_event.case
      by (simp only: drop_0 diff_zero add_0 send_loop_offset [of ws ?iov ?rc])
  qed
qed

text \<open>
  C32: Sending two buffers with sendmsg is sending their concatenation: for every behaviour of the
  socket (short counts that end in either buffer, interruptions, errors) the loop over two buffers
  writes the same bytes, fails with the same error and leaves the socket in the same state as the
  plain loop over one buffer.
\<close>

theorem write_iov_full_is_write_full: "write_iov_full first second s = write_full (first @ second) s"
  by (simp add: write_iov_full_def write_full_def send_iov_is_send)

text \<open>What has been sent is a prefix of the buffer, and all of it on success.\<close>

lemma send_loop_prefix:
  assumes "send_loop ws buf 0 = (r, sent, ws')"
  shows "\<exists>rest. buf = sent @ rest \<and> (r = Inr () \<longrightarrow> rest = [])"
  using assms
proof (induction ws arbitrary: buf r sent ws')
  case (Cons w ws)
  show ?case
  proof (cases w)
    case (Sent n)
    let ?rc = "min n (length buf)"
    obtain r1 sent1 ws1 where l: "send_loop ws (drop ?rc buf) 0 = (r1, sent1, ws1)" by (metis surj_pair)
    obtain rest where rest: "drop ?rc buf = sent1 @ rest" "r1 = Inr () \<longrightarrow> rest = []"
      using Cons.IH [OF l] by blast
    have buf: "buf = take ?rc buf @ sent1 @ rest" using append_take_drop_id [of ?rc buf] rest(1) by metis
    show ?thesis
    proof (cases "buf = [] \<or> n = 0")
      case True
      with Cons.prems Sent show ?thesis by (cases "buf = []") (auto simp: Let_def)
    next
      case False
      with Cons.prems Sent l have "r = r1" "sent = take ?rc buf @ sent1"
        by (auto simp: Let_def prepend_def send_loop_offset [of ws buf ?rc] min_zero)
      with buf rest(2) show ?thesis by (metis append.assoc)
    qed
  qed (use Cons in \<open>auto split: if_splits\<close>)
qed (auto split: if_splits)

section \<open>Reading from a stream\<close>

text \<open>
  What the library relies on: \<open>carries s bs\<close> says that the bytes \<open>bs\<close> are what the connection will
  deliver; a read takes exactly the bytes asked for from the front, and a peek takes none.
\<close>

locale byte_source =
  fixes carries :: "'s \<Rightarrow> bytes \<Rightarrow> bool"
    and read :: "nat \<Rightarrow> 's \<Rightarrow> (bytes, 's) res"
    and peek :: "'s \<Rightarrow> (iouringd_protocol_header_v1, 's) res"
    and frame :: "'s \<Rightarrow> 's \<Rightarrow> bool"
  assumes read_front: "carries s (x @ rest) \<Longrightarrow> \<exists>s'. read (length x) s = (Inr x, s') \<and> carries s' rest \<and> frame s s'"
    and peek_front: "carries s bs \<Longrightarrow> 8 \<le> length bs \<Longrightarrow> peek s = (Inr (dec_protocol_header bs), s)"
    and frame_refl: "frame s s"
    and frame_trans: "frame a b \<Longrightarrow> frame b c \<Longrightarrow> frame a c"
begin

lemma read_struct:
  assumes "codec enc dec sz" and "carries s (enc x @ rest)"
  obtains s' where "read sz s = (Inr (enc x), s')" and "dec (enc x) = x" and "carries s' rest" and "frame s s'"
  using read_front [OF assms(2)] codec.enc_length [OF assms(1), of x] codec.dec_enc_exact [OF assms(1), of x]
  by auto

lemma peek_struct:
  assumes "carries s (enc_protocol_header h @ rest)"
  shows "peek s = (Inr h, s)"
  using peek_front [OF assms] by simp

end

definition in_stream :: "socket_io \<Rightarrow> bytes \<Rightarrow> bool" where
  "in_stream s bs \<longleftrightarrow> (\<exists>ds. [] \<notin> set ds \<and> concat ds = bs \<and> so_in s = map In_data ds)"

definition only_in :: "socket_io \<Rightarrow> socket_io \<Rightarrow> bool" where
  "only_in s s' \<longleftrightarrow> so_send s' = so_send s \<and> so_out s' = so_out s \<and> so_rights s' = so_rights s"

lemma recv_plain:
  assumes "[] \<notin> set ds" and "n \<le> length (concat ds)"
  shows "\<exists>ds'. [] \<notin> set ds' \<and> concat ds' = drop n (concat ds)
    \<and> recv_loop (map In_data ds) n = (Inr (take n (concat ds)), map In_data ds')"
  using assms
proof (induction ds arbitrary: n)
  case (Cons d ds)
  show ?case
  proof (cases n)
    case 0
    with Cons.prems show ?thesis by (intro exI [of _ "d # ds"]) simp
  next
    case (Suc m)
    show ?thesis
    proof (cases "length d < n")
      case True
      with Cons.IH [of "n - length d"] Cons.prems Suc show ?thesis by fastforce
    next
      case False
      let ?ds = "if length d = n then ds else drop n d # ds"
      have "[] \<notin> set ?ds \<and> concat ?ds = drop n (concat (d # ds))
          \<and> recv_loop (map In_data (d # ds)) n = (Inr (take n (concat (d # ds))), map In_data ?ds)"
        using False Cons.prems Suc by auto
      then show ?thesis by blast
    qed
  qed
qed (auto intro: exI [of _ "[]"])

lemma peek_bytes_plain: "[] \<notin> set ds \<Longrightarrow> peek_bytes n (map In_data ds) = take n (concat ds)"
proof (induction ds arbitrary: n)
  case (Cons d ds)
  then show ?case by (cases "length d < n") auto
qed simp

interpretation stream: byte_source in_stream read_full peek_protocol_header only_in
proof
  fix s :: socket_io and x rest
  assume "in_stream s (x @ rest)"
  then obtain ds where ds: "[] \<notin> set ds" "concat ds = x @ rest" "so_in s = map In_data ds"
    by (auto simp: in_stream_def)
  from recv_plain [OF ds(1), of "length x"] ds(2,3) show
    "\<exists>s'. read_full (length x) s = (Inr x, s') \<and> in_stream s' rest \<and> only_in s s'"
    by (auto simp: read_full_def in_stream_def only_in_def)
next
  fix s :: socket_io and bs
  assume "in_stream s bs" and len: "8 \<le> length bs"
  then obtain ds where ds: "[] \<notin> set ds" "concat ds = bs" "so_in s = map In_data ds"
    by (auto simp: in_stream_def)
  obtain d ds' where d: "ds = d # ds'" using ds(2) len by (cases ds) auto
  have "peek_loop (so_in s) = (Inr (take 8 bs), so_in s)"
    using peek_bytes_plain [OF ds(1), of 8] ds len unfolding ds(3) d by (auto simp: Let_def)
  moreover have "dec_protocol_header (take 8 bs) = dec_protocol_header bs"
    by (simp add: dec_protocol_header_def slice_at_def take_drop min_def)
  ultimately show "peek_protocol_header s = (Inr (dec_protocol_header bs), s)"
    by (simp add: peek_protocol_header_def)
qed (auto simp: only_in_def)

end
