(* ===== verification/Client_Library.thy ===== *)
theory Client_Library
  imports Client_Socket
begin

text \<open>
  The client library, src/lib/submit.c: the buffers for completions and payloads that arrive while
  another reply is awaited, the readers of the replies, one function per request, and waiting for a
  completion.

  The two global lists and the connections of the process are the state; \<open>lb_memory\<close> gives the
  results of malloc in order (an empty list means that memory is available). A buffer argument is an
  optional byte list, \<open>None\<close> for a null pointer, whose length is the length argument that goes with
  it; the argument \<open>out\<close> of a function says that its output pointers are not null.
\<close>

record buffered_completion =
  bc_fd :: int
  bc_completion :: iouringd_completion_record_v1
  bc_payload :: bytes

record buffered_payload =
  bp_fd :: int
  bp_task_id :: task_id
  bp_payload :: bytes

record library =
  lb_completions :: "buffered_completion list"
  lb_payloads :: "buffered_payload list"
  lb_memory :: "bool list"
  lb_sock :: "int \<Rightarrow> socket_io"

definition on_sock ::
  "int \<Rightarrow> (socket_io \<Rightarrow> ('a, socket_io) res) \<Rightarrow> library \<Rightarrow> ('a, library) res" where
  "on_sock fd f L = (case f (lb_sock L fd) of (r, s) \<Rightarrow> (r, L\<lparr>lb_sock := (lb_sock L)(fd := s)\<rparr>))"

definition lib_malloc :: "library \<Rightarrow> bool \<times> library" where
  "lib_malloc L = (case lb_memory L of [] \<Rightarrow> (True, L) | ok # rest \<Rightarrow> (ok, L\<lparr>lb_memory := rest\<rparr>))"

section \<open>Validity of what the daemon sends\<close>

definition task_id_is_invalid :: "task_id \<Rightarrow> bool" where
  "task_id_is_invalid task_id \<longleftrightarrow>
     task_id = IOURINGD_TASK_ID_INVALID \<or> task_id \<ge> IOURINGD_TASK_ID_RESERVED_MIN"

definition resource_id_is_invalid :: "resource_id \<Rightarrow> bool" where
  "resource_id_is_invalid resource_id \<longleftrightarrow> resource_id = IOURINGD_RESOURCE_ID_INVALID"

definition lib_submit_priority_is_valid :: "u16 \<Rightarrow> bool" where
  "lib_submit_priority_is_valid priority \<longleftrightarrow>
     priority = IOURINGD_SUBMIT_PRIORITY_NORMAL \<or> priority = IOURINGD_SUBMIT_PRIORITY_LOW
     \<or> priority = IOURINGD_SUBMIT_PRIORITY_HIGH"

definition iouringd_submit_request_set_priority ::
  "u16 \<Rightarrow> iouringd_submit_request_v1 option \<Rightarrow> (unit, iouringd_submit_request_v1 option) res" where
  "iouringd_submit_request_set_priority priority request =
     (case request of
        None \<Rightarrow> (Inl EINVAL, None)
      | Some q \<Rightarrow>
          if \<not> lib_submit_priority_is_valid priority then (Inl EINVAL, Some q)
          else (Inr (), Some (q\<lparr>sr_priority := priority\<rparr>)))"

definition iouringd_submit_request_priority :: "iouringd_submit_request_v1 option \<Rightarrow> u16" where
  "iouringd_submit_request_priority request =
     (case request of None \<Rightarrow> IOURINGD_SUBMIT_PRIORITY_NORMAL | Some q \<Rightarrow> sr_priority q)"

definition header_is_v1 :: "iouringd_protocol_header_v1 \<Rightarrow> bool" where
  "header_is_v1 h \<longleftrightarrow>
     \<not> (ph_magic h \<noteq> IOURINGD_PROTOCOL_WIRE_MAGIC
        \<or> ph_version_major h \<noteq> IOURINGD_PROTOCOL_V1_MAJOR
        \<or> ph_version_minor h \<noteq> IOURINGD_PROTOCOL_V1_MINOR)"

definition completion_record_is_valid :: "iouringd_completion_record_v1 \<Rightarrow> bool" where
  "completion_record_is_valid completion =
     (if \<not> header_is_v1 (cp_header completion) \<or> task_id_is_invalid (cp_task completion)
         \<or> cp_task_kind completion < IOURINGD_TASK_KIND_NOP
         \<or> cp_task_kind completion \<ge> IOURINGD_TASK_KIND_MAX_V1
      then False
      else if cp_task_kind completion = IOURINGD_TASK_KIND_SOCK_READ
         \<or> cp_task_kind completion = IOURINGD_TASK_KIND_SOCK_READ_FIXED
         \<or> cp_task_kind completion = IOURINGD_TASK_KIND_FILE_READ
      then (if sint (cp_res completion) < 0 then cp_payload_length completion = 0
            else sint (cp_res completion) \<le> 65535
              \<and> cp_payload_length completion = ucast (cp_res completion))
      else if cp_task_kind completion = IOURINGD_TASK_KIND_ACCEPT
      then (if sint (cp_res completion) < 0 then cp_payload_length completion = 0
            else sint (cp_res completion) > 0)
      else cp_payload_length completion = 0)"

definition submit_result_is_rejection :: "iouringd_submit_result_v1 \<Rightarrow> bool" where
  "submit_result_is_rejection result \<longleftrightarrow>
     sres_task result = IOURINGD_TASK_ID_INVALID \<and> sint (sres_res result) < 0"

definition submit_result_is_valid :: "iouringd_submit_result_v1 \<Rightarrow> bool" where
  "submit_result_is_valid result =
     (if submit_result_is_rejection result then True
      else sres_res result = IOURINGD_COMPLETION_RES_OK \<and> \<not> task_id_is_invalid (sres_task result))"

definition resource_result_is_rejection :: "iouringd_resource_result_v1 \<Rightarrow> bool" where
  "resource_result_is_rejection result \<longleftrightarrow>
     rres_resource result = IOURINGD_RESOURCE_ID_INVALID \<and> sint (rres_res result) < 0
     \<and> rres_reserved result = 0"

definition resource_result_is_valid :: "iouringd_resource_result_v1 \<Rightarrow> bool" where
  "resource_result_is_valid result =
     (if resource_result_is_rejection result then True
      else rres_reserved result = 0 \<and> rres_res result = IOURINGD_COMPLETION_RES_OK
        \<and> \<not> resource_id_is_invalid (rres_resource result))"

definition trace_event_is_valid :: "iouringd_trace_event_v1 \<Rightarrow> bool" where
  "trace_event_is_valid event =
     (if te_event_kind event < IOURINGD_TRACE_EVENT_SUBMIT_ACCEPT
         \<or> te_event_kind event > IOURINGD_TRACE_EVENT_RESOURCE_RELEASE then False
      else if te_task_kind event \<ge> IOURINGD_TASK_KIND_MAX_V1 then False
      else lib_submit_priority_is_valid (te_priority event) \<and> te_reserved1 event = 0)"

section \<open>The buffers\<close>

definition store_buffered_payload_owned ::
  "int \<Rightarrow> task_id \<Rightarrow> bytes \<Rightarrow> library \<Rightarrow> (unit, library) res" where
  "store_buffered_payload_owned fd task_id payload L =
     (case lib_malloc L of
        (False, L1) \<Rightarrow> (Inl ENOMEM, L1)
      | (True, L1) \<Rightarrow>
          (Inr (), L1\<lparr>lb_payloads := lb_payloads L1
             @ [\<lparr>bp_fd = fd, bp_task_id = task_id, bp_payload = payload\<rparr>]\<rparr>))"

definition queue_buffered_completion ::
  "int \<Rightarrow> iouringd_completion_record_v1 \<Rightarrow> bytes \<Rightarrow> library \<Rightarrow> (unit, library) res" where
  "queue_buffered_completion fd completion payload L =
     (case lib_malloc L of
        (False, L1) \<Rightarrow> (Inl ENOMEM, L1)
      | (True, L1) \<Rightarrow>
          (Inr (), L1\<lparr>lb_completions := lb_completions L1
             @ [\<lparr>bc_fd = fd, bc_completion = completion, bc_payload = payload\<rparr>]\<rparr>))"

text \<open>The walk along a list that unlinks the first entry that satisfies \<open>P\<close>.\<close>

fun unlink_first :: "('a \<Rightarrow> bool) \<Rightarrow> 'a list \<Rightarrow> ('a \<times> 'a list) option" where
  "unlink_first P [] = None"
| "unlink_first P (x # xs) =
     (if P x then Some (x, xs)
      else case unlink_first P xs of None \<Rightarrow> None | Some (y, ys) \<Rightarrow> Some (y, x # ys))"

text \<open>\<open>Inr None\<close> is the return value 0, \<open>Inr (Some completion)\<close> the return value 1.\<close>

definition pop_buffered_completion ::
  "int \<Rightarrow> library \<Rightarrow> (iouringd_completion_record_v1 option, library) res" where
  "pop_buffered_completion fd L =
     (case unlink_first (\<lambda>b. bc_fd b = fd) (lb_completions L) of
        None \<Rightarrow> (Inr None, L)
      | Some (b, rest) \<Rightarrow>
          let L1 = L\<lparr>lb_completions := rest\<rparr> in
          if bc_payload b \<noteq> [] then
            bind_rc (store_buffered_payload_owned fd (cp_task (bc_completion b)) (bc_payload b) L1)
              (\<lambda>_ L2. (Inr (Some (bc_completion b)), L2))
          else (Inr (Some (bc_completion b)), L1))"

definition read_completion_with_payload ::
  "int \<Rightarrow> library \<Rightarrow> (iouringd_completion_record_v1 \<times> bytes, library) res" where
  "read_completion_with_payload fd L =
     bind_rc (on_sock fd (read_full sizeof_completion_record) L)
       (\<lambda>bs L1.
          let completion = dec_completion_record bs in
          if \<not> completion_record_is_valid completion then (Inl EPROTO, L1)
          else if cp_payload_length completion = 0 then (Inr (completion, []), L1)
          else case lib_malloc L1 of
            (False, L2) \<Rightarrow> (Inl ENOMEM, L2)
          | (True, L2) \<Rightarrow>
              bind_rc (on_sock fd (read_full (unat (cp_payload_length completion))) L2)
                (\<lambda>payload L3. (Inr (completion, payload), L3)))"

text \<open>Every turn of the loop that drains completions reads at least one record.\<close>

definition in_size :: "in_event list \<Rightarrow> nat" where
  "in_size ins = sum_list (map (\<lambda>e. case e of In_data d \<Rightarrow> Suc (length d) | In_error e \<Rightarrow> 1) ins)"

lemma in_size_simps [simp]:
  "in_size [] = 0" "in_size (In_data d # ins) = Suc (length d + in_size ins)"
  "in_size (In_error e # ins) = Suc (in_size ins)"
  by (simp_all add: in_size_def)

lemma recv_loop_size: "recv_loop ins n = (r, ins') \<Longrightarrow> in_size ins' \<le> in_size ins \<and> (0 < n \<longrightarrow> \<not> isl r \<longrightarrow> in_size ins' < in_size ins)"
proof (induction ins n arbitrary: r rule: recv_loop.induct)
  case (4 d ins n)
  then show ?case by (fastforce split: if_splits prod.splits sum.splits)
qed (auto split: if_splits)

lemma peek_loop_size: "peek_loop ins = (r, ins') \<Longrightarrow> in_size ins' \<le> in_size ins"
  by (induction ins rule: peek_loop.induct) (auto simp: Let_def simp del: peek_bytes.simps split: if_splits)

abbreviation pending_in :: "int \<Rightarrow> library \<Rightarrow> nat" where
  "pending_in fd L \<equiv> in_size (so_in (lb_sock L fd))"

lemma on_sock_read_size:
  assumes "on_sock fd (read_full n) L = (r, L')"
  shows "pending_in fd L' \<le> pending_in fd L" and "0 < n \<Longrightarrow> \<not> isl r \<Longrightarrow> pending_in fd L' < pending_in fd L"
  using assms recv_loop_size [of "so_in (lb_sock L fd)" n]
  by (auto simp: on_sock_def read_full_def split: prod.splits)

lemma malloc_sock: "lib_malloc L = (ok, L') \<Longrightarrow> lb_sock L' = lb_sock L"
  by (auto simp: lib_malloc_def split: list.splits)

lemma read_completion_size:
  assumes "read_completion_with_payload fd L = (Inr x, L')"
  shows "pending_in fd L' < pending_in fd L"
proof -
  obtain bs L1 where r: "on_sock fd (read_full 24) L = (Inr bs, L1)"
    using assms unfolding read_completion_with_payload_def by (auto elim: bind_rc_cases)
  have less: "pending_in fd L1 < pending_in fd L" using on_sock_read_size(2) [OF r] by simp
  obtain ok L2 where m: "lib_malloc L1 = (ok, L2)" by fastforce
  obtain y L3 where p: "on_sock fd (read_full (unat (cp_payload_length (dec_completion_record bs)))) L2 = (y, L3)"
    by fastforce
  have "pending_in fd L3 \<le> pending_in fd L1" using on_sock_read_size(1) [OF p] malloc_sock [OF m] by simp
  with less show ?thesis
    using assms unfolding read_completion_with_payload_def Let_def r m
    by (cases y; cases ok) (auto simp: bind_rc_def m p split: if_splits)
qed

section \<open>Readers of replies\<close>

function drain_completion_prefix :: "int \<Rightarrow> library \<Rightarrow> (unit, library) res" where
  "drain_completion_prefix fd L =
     (case on_sock fd peek_protocol_header L of
        (Inl e, L1) \<Rightarrow> (Inl e, L1)
      | (Inr header, L1) \<Rightarrow>
          if \<not> header_is_v1 header then (Inr (), L1)
          else case read_completion_with_payload fd L1 of
            (Inl e, L2) \<Rightarrow> (Inl e, L2)
          | (Inr (completion, payload), L2) \<Rightarrow>
              (case queue_buffered_completion fd completion payload L2 of
                 (Inl e, L3) \<Rightarrow> (Inl e, L3)
               | (Inr _, L3) \<Rightarrow> drain_completion_prefix fd L3))"
  by pat_completeness auto
termination
proof (relation "measure (\<lambda>(fd, L). pending_in fd L)")
  fix fd L x L1 header y L2 z completion payload w L3 u
  assume p: "(x, L1) = on_sock fd peek_protocol_header L" and "x = Inr header"
    and r: "(y, L2) = read_completion_with_payload fd L1" "y = Inr z" "(completion, payload) = z"
    and q: "(w, L3) = queue_buffered_completion fd completion payload L2" "w = Inr u"
  have "pending_in fd L1 \<le> pending_in fd L"
    using p peek_loop_size [of "so_in (lb_sock L fd)"]
    by (auto simp: on_sock_def peek_protocol_header_def split: prod.splits sum.splits)
  moreover have "pending_in fd L2 < pending_in fd L1" using r read_completion_size [of fd L1 z L2] by simp
  moreover have "lb_sock L3 = lb_sock L2"
    using q malloc_sock [of L2]
    by (auto simp: queue_buffered_completion_def split: prod.splits bool.splits)
  ultimately show "((fd, L3), fd, L) \<in> measure (\<lambda>(fd, L). pending_in fd L)" by simp
qed simp

declare drain_completion_prefix.simps [simp del]

definition read_submit_result :: "int \<Rightarrow> library \<Rightarrow> (iouringd_submit_result_v1, library) res" where
  "read_submit_result fd L =
     bind_rc (drain_completion_prefix fd L) (\<lambda>_ L1.
     bind_rc (on_sock fd (read_full sizeof_submit_result) L1) (\<lambda>bs L2.
       let result = dec_submit_result bs in
       if \<not> submit_result_is_valid result then (Inl EPROTO, L2)
       else if submit_result_is_rejection result then (Inl (- sint (sres_res result)), L2)
       else (Inr result, L2)))"

definition read_resource_result :: "int \<Rightarrow> library \<Rightarrow> (iouringd_resource_result_v1, library) res" where
  "read_resource_result fd L =
     bind_rc (drain_completion_prefix fd L) (\<lambda>_ L1.
     bind_rc (on_sock fd (read_full sizeof_resource_result) L1) (\<lambda>bs L2.
       let result = dec_resource_result bs in
       if \<not> resource_result_is_valid result then (Inl EPROTO, L2)
       else if resource_result_is_rejection result then (Inl (- sint (rres_res result)), L2)
       else (Inr result, L2)))"

definition read_stats_result :: "int \<Rightarrow> library \<Rightarrow> (iouringd_stats_result_v1, library) res" where
  "read_stats_result fd L =
     bind_rc (drain_completion_prefix fd L) (\<lambda>_ L1.
     bind_rc (on_sock fd (read_full sizeof_stats_result) L1) (\<lambda>bs L2. (Inr (dec_stats_result bs), L2)))"

fun read_trace_events :: "int \<Rightarrow> nat \<Rightarrow> library \<Rightarrow> (iouringd_trace_event_v1 list, library) res" where
  "read_trace_events fd 0 L = (Inr [], L)"
| "read_trace_events fd (Suc n) L =
     bind_rc (on_sock fd (read_full sizeof_trace_event) L) (\<lambda>bs L1.
       let event = dec_trace_event bs in
       if \<not> trace_event_is_valid event then (Inl EPROTO, L1)
       else bind_rc (read_trace_events fd n L1) (\<lambda>events L2. (Inr (event # events), L2)))"

text \<open>\<open>capacity\<close> is \<open>event_capacity\<close>, and \<open>has_events\<close> says that the array pointer is not null.\<close>

definition read_trace_result ::
  "int \<Rightarrow> bool \<Rightarrow> nat \<Rightarrow> bool \<Rightarrow> library \<Rightarrow> (iouringd_trace_result_v1 \<times> iouringd_trace_event_v1 list, library) res"
where
  "read_trace_result fd has_events capacity out L =
     (if \<not> out then (Inl EINVAL, L)
      else bind_rc (drain_completion_prefix fd L) (\<lambda>_ L1.
      bind_rc (on_sock fd (read_full sizeof_trace_result) L1) (\<lambda>bs L2.
        let result = dec_trace_result bs in
        if tr_reserved result \<noteq> 0 then (Inl EPROTO, L2)
        else if tr_count result \<noteq> 0 \<and> \<not> has_events \<or> unat (tr_count result) > capacity
        then (Inl EOVERFLOW, L2)
        else bind_rc (read_trace_events fd (unat (tr_count result)) L2)
          (\<lambda>events L3. (Inr (result, events), L3)))))"

definition init_submit_header :: "u16 \<Rightarrow> iouringd_submit_request_v1" where
  "init_submit_header task_kind =
     \<lparr>sr_header = \<lparr>ph_magic = IOURINGD_PROTOCOL_WIRE_MAGIC,
        ph_version_major = IOURINGD_PROTOCOL_V1_MAJOR, ph_version_minor = IOURINGD_PROTOCOL_V1_MINOR\<rparr>,
      sr_task_kind = task_kind, sr_priority = 0, sr_reserved1 = 0\<rparr>"

definition init_control_header :: "u16 \<Rightarrow> iouringd_control_request_v1" where
  "init_control_header request_kind =
     \<lparr>cr_header = \<lparr>ph_magic = IOURINGD_PROTOCOL_WIRE_MAGIC,
        ph_version_major = IOURINGD_PROTOCOL_V1_MAJOR, ph_version_minor = IOURINGD_PROTOCOL_V1_MINOR\<rparr>,
      cr_request_kind = request_kind, cr_reserved0 = 0, cr_reserved1 = 0\<rparr>"

section \<open>Requests\<close>

definition iouringd_submit_nop_result ::
  "int \<Rightarrow> bool \<Rightarrow> library \<Rightarrow> (iouringd_submit_result_v1, library) res" where
  "iouringd_submit_nop_result fd out L =
     (if fd < 0 \<or> \<not> out then (Inl EINVAL, L)
      else bind_rc (on_sock fd (write_full (enc_submit_request (init_submit_header IOURINGD_TASK_KIND_NOP))) L) (\<lambda>_. read_submit_result fd))"

definition iouringd_submit_timeout_result ::
  "int \<Rightarrow> u64 \<Rightarrow> bool \<Rightarrow> library \<Rightarrow> (iouringd_submit_result_v1, library) res" where
  "iouringd_submit_timeout_result fd timeout_nsec out L =
     (if fd < 0 \<or> \<not> out then (Inl EINVAL, L)
      else bind_rc (on_sock fd (write_full (enc_timeout_request
        \<lparr>tmo_submit = init_submit_header IOURINGD_TASK_KIND_TIMEOUT, tmo_timeout_nsec = timeout_nsec\<rparr>)) L) (\<lambda>_. read_submit_result fd))"

definition iouringd_submit_cancel_result ::
  "int \<Rightarrow> task_id \<Rightarrow> bool \<Rightarrow> library \<Rightarrow> (iouringd_submit_result_v1, library) res" where
  "iouringd_submit_cancel_result fd target_task_id out L =
     (if fd < 0 \<or> \<not> out then (Inl EINVAL, L)
      else bind_rc (on_sock fd (write_full (enc_cancel_request
        \<lparr>can_header = \<lparr>ph_magic = IOURINGD_PROTOCOL_WIRE_MAGIC,
           ph_version_major = IOURINGD_PROTOCOL_V1_MAJOR, ph_version_minor = IOURINGD_PROTOCOL_V1_MINOR\<rparr>,
         can_task_kind = IOURINGD_TASK_KIND_CANCEL, can_reserved0 = 0, can_reserved1 = 0,
         can_target = target_task_id\<rparr>)) L) (\<lambda>_. read_submit_result fd))"

definition iouringd_submit_sock_read_result ::
  "int \<Rightarrow> resource_id \<Rightarrow> u32 \<Rightarrow> bool \<Rightarrow> library \<Rightarrow> (iouringd_submit_result_v1, library) res" where
  "iouringd_submit_sock_read_result fd resource_id len out L =
     (if fd < 0 \<or> \<not> out \<or> resource_id_is_invalid resource_id \<or> len = 0 then (Inl EINVAL, L)
      else bind_rc (on_sock fd (write_full (enc_sock_read_request
        \<lparr>io_submit = init_submit_header IOURINGD_TASK_KIND_SOCK_READ, io_resource = resource_id, io_length = len\<rparr>)) L) (\<lambda>_. read_submit_result fd))"

definition iouringd_submit_sock_write_result ::
  "int \<Rightarrow> resource_id \<Rightarrow> bytes option \<Rightarrow> bool \<Rightarrow> library \<Rightarrow> (iouringd_submit_result_v1, library) res" where
  "iouringd_submit_sock_write_result fd resource_id buf out L =
     (case buf of
        None \<Rightarrow> (Inl EINVAL, L)
      | Some data \<Rightarrow>
          if fd < 0 \<or> \<not> out \<or> resource_id_is_invalid resource_id \<or> length data = 0
          then (Inl EINVAL, L)
          else bind_rc (on_sock fd (write_iov_full (enc_sock_read_request
              \<lparr>io_submit = init_submit_header IOURINGD_TASK_KIND_SOCK_WRITE, io_resource = resource_id,
               io_length = of_nat (length data)\<rparr>) data) L) (\<lambda>_. read_submit_result fd))"

definition iouringd_submit_file_read_result ::
  "int \<Rightarrow> resource_id \<Rightarrow> u32 \<Rightarrow> bool \<Rightarrow> library \<Rightarrow> (iouringd_submit_result_v1, library) res" where
  "iouringd_submit_file_read_result fd resource_id len out L =
     (if fd < 0 \<or> \<not> out \<or> resource_id_is_invalid resource_id \<or> len = 0 then (Inl EINVAL, L)
      else bind_rc (on_sock fd (write_full (enc_sock_read_request
        \<lparr>io_submit = init_submit_header IOURINGD_TASK_KIND_FILE_READ, io_resource = resource_id, io_length = len\<rparr>)) L) (\<lambda>_. read_submit_result fd))"

definition iouringd_submit_file_write_result ::
  "int \<Rightarrow> resource_id \<Rightarrow> bytes option \<Rightarrow> bool \<Rightarrow> library \<Rightarrow> (iouringd_submit_result_v1, library) res" where
  "iouringd_submit_file_write_result fd resource_id buf out L =
     (case buf of
        None \<Rightarrow> (Inl EINVAL, L)
      | Some data \<Rightarrow>
          if fd < 0 \<or> \<not> out \<or> resource_id_is_invalid resource_id \<or> length data = 0
          then (Inl EINVAL, L)
          else bind_rc (on_sock fd (write_iov_full (enc_sock_read_request
              \<lparr>io_submit = init_submit_header IOURINGD_TASK_KIND_FILE_WRITE, io_resource = resource_id,
               io_length = of_nat (length data)\<rparr>) data) L) (\<lambda>_. read_submit_result fd))"

definition iouringd_submit_poll_result ::
  "int \<Rightarrow> resource_id \<Rightarrow> u16 \<Rightarrow> bool \<Rightarrow> library \<Rightarrow> (iouringd_submit_result_v1, library) res" where
  "iouringd_submit_poll_result fd resource_id poll_mask out L =
     (if fd < 0 \<or> \<not> out \<or> resource_id_is_invalid resource_id \<or> poll_mask = 0 then (Inl EINVAL, L)
      else bind_rc (on_sock fd (write_full (enc_poll_request
        \<lparr>po_submit = init_submit_header IOURINGD_TASK_KIND_POLL, po_resource = resource_id, po_poll_mask = poll_mask,
         po_reserved2 = 0\<rparr>)) L) (\<lambda>_. read_submit_result fd))"

definition iouringd_submit_connect_result ::
  "int \<Rightarrow> resource_id \<Rightarrow> bytes option \<Rightarrow> bool \<Rightarrow> library \<Rightarrow> (iouringd_submit_result_v1, library) res" where
  "iouringd_submit_connect_result fd resource_id buf out L =
     (case buf of
        None \<Rightarrow> (Inl EINVAL, L)
      | Some data \<Rightarrow>
          if fd < 0 \<or> \<not> out \<or> resource_id_is_invalid resource_id \<or> length data = 0 \<or> length data > 65535
          then (Inl EINVAL, L)
          else bind_rc (on_sock fd (write_iov_full (enc_sock_read_request
              \<lparr>io_submit = init_submit_header IOURINGD_TASK_KIND_CONNECT, io_resource = resource_id,
               io_length = of_nat (length data)\<rparr>) data) L) (\<lambda>_. read_submit_result fd))"

definition iouringd_submit_accept_result ::
  "int \<Rightarrow> resource_id \<Rightarrow> u32 \<Rightarrow> bool \<Rightarrow> library \<Rightarrow> (iouringd_submit_result_v1, library) res" where
  "iouringd_submit_accept_result fd resource_id sockaddr_length out L =
     (if fd < 0 \<or> \<not> out \<or> resource_id_is_invalid resource_id \<or> sockaddr_length > 65535 then (Inl EINVAL, L)
      else bind_rc (on_sock fd (write_full (enc_sock_read_request
        \<lparr>io_submit = init_submit_header IOURINGD_TASK_KIND_ACCEPT, io_resource = resource_id, io_length = sockaddr_length\<rparr>)) L) (\<lambda>_. read_submit_result fd))"

text \<open>The path is the C string at \<open>path\<close>, without its terminator.\<close>

definition iouringd_submit_openat_result ::
  "int \<Rightarrow> bytes option \<Rightarrow> i32 \<Rightarrow> u32 \<Rightarrow> bool \<Rightarrow> library \<Rightarrow> (iouringd_submit_result_v1, library) res" where
  "iouringd_submit_openat_result fd path open_flags open_mode out L =
     (case path of
        None \<Rightarrow> (Inl EINVAL, L)
      | Some name \<Rightarrow>
          if fd < 0 \<or> \<not> out then (Inl EINVAL, L)
          else if length name + 1 \<le> 1 \<or> length name + 1 > 4096 then (Inl EINVAL, L)
          else bind_rc (on_sock fd (write_iov_full (enc_openat_request
              \<lparr>oa_submit = init_submit_header IOURINGD_TASK_KIND_OPENAT, oa_open_flags = open_flags,
               oa_open_mode = open_mode, oa_path_length = of_nat (length name + 1)\<rparr>) (name @ [0])) L)
            (\<lambda>_. read_submit_result fd))"

definition iouringd_submit_close_result ::
  "int \<Rightarrow> resource_id \<Rightarrow> bool \<Rightarrow> library \<Rightarrow> (iouringd_submit_result_v1, library) res" where
  "iouringd_submit_close_result fd resource_id out L =
     (if fd < 0 \<or> \<not> out \<or> resource_id_is_invalid resource_id then (Inl EINVAL, L)
      else bind_rc (on_sock fd (write_full (enc_sock_read_request
        \<lparr>io_submit = init_submit_header IOURINGD_TASK_KIND_CLOSE, io_resource = resource_id, io_length = 0\<rparr>)) L) (\<lambda>_. read_submit_result fd))"

definition iouringd_submit_sock_read_fixed_result ::
  "int \<Rightarrow> resource_id \<Rightarrow> resource_id \<Rightarrow> u32 \<Rightarrow> bool \<Rightarrow> library \<Rightarrow> (iouringd_submit_result_v1, library) res" where
  "iouringd_submit_sock_read_fixed_result fd file_resource_id buffer_resource_id len out L =
     (if fd < 0 \<or> \<not> out \<or> resource_id_is_invalid file_resource_id \<or> resource_id_is_invalid buffer_resource_id \<or> len = 0 then (Inl EINVAL, L)
      else bind_rc (on_sock fd (write_full (enc_sock_read_fixed_request
        \<lparr>fx_submit = init_submit_header IOURINGD_TASK_KIND_SOCK_READ_FIXED, fx_file_resource = file_resource_id,
         fx_buffer_resource = buffer_resource_id, fx_length = len\<rparr>)) L) (\<lambda>_. read_submit_result fd))"

definition iouringd_submit_sock_write_fixed_result ::
  "int \<Rightarrow> resource_id \<Rightarrow> resource_id \<Rightarrow> u32 \<Rightarrow> bool \<Rightarrow> library \<Rightarrow> (iouringd_submit_result_v1, library) res" where
  "iouringd_submit_sock_write_fixed_result fd file_resource_id buffer_resource_id len out L =
     (if fd < 0 \<or> \<not> out \<or> resource_id_is_invalid file_resource_id \<or> resource_id_is_invalid buffer_resource_id \<or> len = 0 then (Inl EINVAL, L)
      else bind_rc (on_sock fd (write_full (enc_sock_read_fixed_request
        \<lparr>fx_submit = init_submit_header IOURINGD_TASK_KIND_SOCK_WRITE_FIXED, fx_file_resource = file_resource_id,
         fx_buffer_resource = buffer_resource_id, fx_length = len\<rparr>)) L) (\<lambda>_. read_submit_result fd))"

definition iouringd_register_fd_result ::
  "int \<Rightarrow> int \<Rightarrow> bool \<Rightarrow> library \<Rightarrow> (iouringd_resource_result_v1, library) res" where
  "iouringd_register_fd_result fd resource_fd out L =
     (if fd < 0 \<or> resource_fd < 0 \<or> \<not> out then (Inl EINVAL, L)
      else bind_rc (on_sock fd (send_fd_with_request resource_fd
        (enc_control_request (init_control_header IOURINGD_REQUEST_KIND_REGISTER_FD))) L) (\<lambda>_. read_resource_result fd))"

text \<open>A null buffer is allowed with length 0.\<close>

definition iouringd_register_buffer_result ::
  "int \<Rightarrow> bytes option \<Rightarrow> u32 \<Rightarrow> bool \<Rightarrow> library \<Rightarrow> (iouringd_resource_result_v1, library) res" where
  "iouringd_register_buffer_result fd buf len out L =
     (if fd < 0 \<or> \<not> out \<or> len > 4096 \<or> len \<noteq> 0 \<and> buf = None then (Inl EINVAL, L)
      else
        let request = enc_register_buffer_request
          \<lparr>rb_control = init_control_header IOURINGD_REQUEST_KIND_REGISTER_BUFFER, rb_length = len,
           rb_reserved2 = 0\<rparr>
        in bind_rc
             (if len = 0 then on_sock fd (write_full request) L
              else on_sock fd (write_iov_full request (take (unat len) (the buf))) L)
             (\<lambda>_. read_resource_result fd))"

definition iouringd_release_resource_result ::
  "int \<Rightarrow> resource_id \<Rightarrow> bool \<Rightarrow> library \<Rightarrow> (iouringd_resource_result_v1, library) res" where
  "iouringd_release_resource_result fd resource_id out L =
     (if fd < 0 \<or> \<not> out \<or> resource_id_is_invalid resource_id then (Inl EINVAL, L)
      else bind_rc (on_sock fd (write_full (enc_release_resource_request
        \<lparr>rr_control = init_control_header IOURINGD_REQUEST_KIND_RELEASE_RESOURCE, rr_resource = resource_id,
         rr_reserved2 = 0\<rparr>)) L) (\<lambda>_. read_resource_result fd))"

definition iouringd_get_stats_result ::
  "int \<Rightarrow> bool \<Rightarrow> library \<Rightarrow> (iouringd_stats_result_v1, library) res" where
  "iouringd_get_stats_result fd out L =
     (if fd < 0 \<or> \<not> out then (Inl EINVAL, L)
      else bind_rc (on_sock fd (write_full (enc_control_request (init_control_header IOURINGD_REQUEST_KIND_GET_STATS))) L) (\<lambda>_. read_stats_result fd))"

definition iouringd_get_trace_result ::
  "int \<Rightarrow> u64 \<Rightarrow> u32 \<Rightarrow> bool \<Rightarrow> nat \<Rightarrow> bool \<Rightarrow> library
    \<Rightarrow> (iouringd_trace_result_v1 \<times> iouringd_trace_event_v1 list, library) res" where
  "iouringd_get_trace_result fd after_sequence max_events has_events capacity out L =
     (if fd < 0 \<or> \<not> out \<or> max_events \<noteq> 0 \<and> capacity < unat max_events then (Inl EINVAL, L)
      else bind_rc (on_sock fd (write_full (enc_get_trace_request
          \<lparr>gt_control = init_control_header IOURINGD_REQUEST_KIND_GET_TRACE, gt_after_sequence = after_sequence,
           gt_max_events = max_events, gt_reserved2 = 0\<rparr>)) L)
        (\<lambda>_. read_trace_result fd has_events capacity out))"

section \<open>Requests that return the identifier only\<close>

definition task_only :: "(iouringd_submit_result_v1, library) res \<Rightarrow> (task_id, library) res" where
  "task_only r = bind_rc r (\<lambda>result L. (Inr (sres_task result), L))"

definition resource_only :: "(iouringd_resource_result_v1, library) res \<Rightarrow> (resource_id, library) res" where
  "resource_only r = bind_rc r (\<lambda>result L. (Inr (rres_resource result), L))"

definition iouringd_submit_nop ::
  "int \<Rightarrow> bool \<Rightarrow> library \<Rightarrow> (task_id, library) res" where
  "iouringd_submit_nop fd out L =
     (if \<not> out then (Inl EINVAL, L) else task_only (iouringd_submit_nop_result fd True L))"

definition iouringd_submit_timeout ::
  "int \<Rightarrow> u64 \<Rightarrow> bool \<Rightarrow> library \<Rightarrow> (task_id, library) res" where
  "iouringd_submit_timeout fd timeout_nsec out L =
     (if \<not> out then (Inl EINVAL, L) else task_only (iouringd_submit_timeout_result fd timeout_nsec True L))"

definition iouringd_submit_cancel ::
  "int \<Rightarrow> task_id \<Rightarrow> bool \<Rightarrow> library \<Rightarrow> (task_id, library) res" where
  "iouringd_submit_cancel fd target_task_id out L =
     (if \<not> out then (Inl EINVAL, L) else task_only (iouringd_submit_cancel_result fd target_task_id True L))"

definition iouringd_submit_sock_read ::
  "int \<Rightarrow> resource_id \<Rightarrow> u32 \<Rightarrow> bool \<Rightarrow> library \<Rightarrow> (task_id, library) res" where
  "iouringd_submit_sock_read fd resource_id len out L =
     (if \<not> out then (Inl EINVAL, L) else task_only (iouringd_submit_sock_read_result fd resource_id len True L))"

definition iouringd_submit_sock_write ::
  "int \<Rightarrow> resource_id \<Rightarrow> bytes option \<Rightarrow> bool \<Rightarrow> library \<Rightarrow> (task_id, library) res" where
  "iouringd_submit_sock_write fd resource_id buf out L =
     (if \<not> out then (Inl EINVAL, L) else task_only (iouringd_submit_sock_write_result fd resource_id buf True L))"

definition iouringd_submit_file_read ::
  "int \<Rightarrow> resource_id \<Rightarrow> u32 \<Rightarrow> bool \<Rightarrow> library \<Rightarrow> (task_id, library) res" where
  "iouringd_submit_file_read fd resource_id len out L =
     (if \<not> out then (Inl EINVAL, L) else task_only (iouringd_submit_file_read_result fd resource_id len True L))"

definition iouringd_submit_file_write ::
  "int \<Rightarrow> resource_id \<Rightarrow> bytes option \<Rightarrow> bool \<Rightarrow> library \<Rightarrow> (task_id, library) res" where
  "iouringd_submit_file_write fd resource_id buf out L =
     (if \<not> out then (Inl EINVAL, L) else task_only (iouringd_submit_file_write_result fd resource_id buf True L))"

definition iouringd_submit_poll ::
  "int \<Rightarrow> resource_id \<Rightarrow> u16 \<Rightarrow> bool \<Rightarrow> library \<Rightarrow> (task_id, library) res" where
  "iouringd_submit_poll fd resource_id poll_mask out L =
     (if \<not> out then (Inl EINVAL, L) else task_only (iouringd_submit_poll_result fd resource_id poll_mask True L))"

definition iouringd_submit_connect ::
  "int \<Rightarrow> resource_id \<Rightarrow> bytes option \<Rightarrow> bool \<Rightarrow> library \<Rightarrow> (task_id, library) res" where
  "iouringd_submit_connect fd resource_id sockaddr_buf out L =
     (if \<not> out then (Inl EINVAL, L) else task_only (iouringd_submit_connect_result fd resource_id sockaddr_buf True L))"

definition iouringd_submit_accept ::
  "int \<Rightarrow> resource_id \<Rightarrow> u32 \<Rightarrow> bool \<Rightarrow> library \<Rightarrow> (task_id, library) res" where
  "iouringd_submit_accept fd resource_id sockaddr_length out L =
     (if \<not> out then (Inl EINVAL, L) else task_only (iouringd_submit_accept_result fd resource_id sockaddr_length True L))"

definition iouringd_submit_openat ::
  "int \<Rightarrow> bytes option \<Rightarrow> i32 \<Rightarrow> u32 \<Rightarrow> bool \<Rightarrow> library \<Rightarrow> (task_id, library) res" where
  "iouringd_submit_openat fd path open_flags open_mode out L =
     (if \<not> out then (Inl EINVAL, L) else task_only (iouringd_submit_openat_result fd path open_flags open_mode True L))"

definition iouringd_submit_close ::
  "int \<Rightarrow> resource_id \<Rightarrow> bool \<Rightarrow> library \<Rightarrow> (task_id, library) res" where
  "iouringd_submit_close fd resource_id out L =
     (if \<not> out then (Inl EINVAL, L) else task_only (iouringd_submit_close_result fd resource_id True L))"

definition iouringd_submit_sock_read_fixed ::
  "int \<Rightarrow> resource_id \<Rightarrow> resource_id \<Rightarrow> u32 \<Rightarrow> bool \<Rightarrow> library \<Rightarrow> (task_id, library) res" where
  "iouringd_submit_sock_read_fixed fd file_resource_id buffer_resource_id len out L =
     (if \<not> out then (Inl EINVAL, L) else task_only (iouringd_submit_sock_read_fixed_result fd file_resource_id buffer_resource_id len True L))"

definition iouringd_submit_sock_write_fixed ::
  "int \<Rightarrow> resource_id \<Rightarrow> resource_id \<Rightarrow> u32 \<Rightarrow> bool \<Rightarrow> library \<Rightarrow> (task_id, library) res" where
  "iouringd_submit_sock_write_fixed fd file_resource_id buffer_resource_id len out L =
     (if \<not> out then (Inl EINVAL, L) else task_only (iouringd_submit_sock_write_fixed_result fd file_resource_id buffer_resource_id len True L))"

definition iouringd_register_fd ::
  "int \<Rightarrow> int \<Rightarrow> bool \<Rightarrow> library \<Rightarrow> (resource_id, library) res" where
  "iouringd_register_fd fd resource_fd out L =
     (if \<not> out then (Inl EINVAL, L) else resource_only (iouringd_register_fd_result fd resource_fd True L))"

definition iouringd_register_buffer ::
  "int \<Rightarrow> bytes option \<Rightarrow> u32 \<Rightarrow> bool \<Rightarrow> library \<Rightarrow> (resource_id, library) res" where
  "iouringd_register_buffer fd buf len out L =
     (if \<not> out then (Inl EINVAL, L) else resource_only (iouringd_register_buffer_result fd buf len True L))"

definition iouringd_release_resource ::
  "int \<Rightarrow> resource_id \<Rightarrow> bool \<Rightarrow> library \<Rightarrow> (resource_id, library) res" where
  "iouringd_release_resource fd resource_id out L =
     (if \<not> out then (Inl EINVAL, L) else resource_only (iouringd_release_resource_result fd resource_id True L))"

definition iouringd_get_stats ::
  "int \<Rightarrow> bool \<Rightarrow> library \<Rightarrow> (iouringd_stats_result_v1, library) res" where
  "iouringd_get_stats fd out L = iouringd_get_stats_result fd out L"

definition iouringd_get_trace ::
  "int \<Rightarrow> u64 \<Rightarrow> u32 \<Rightarrow> bool \<Rightarrow> nat \<Rightarrow> bool \<Rightarrow> library
    \<Rightarrow> (iouringd_trace_result_v1 \<times> iouringd_trace_event_v1 list, library) res" where
  "iouringd_get_trace fd after_sequence max_events has_events capacity out L =
     iouringd_get_trace_result fd after_sequence max_events has_events capacity out L"

section \<open>Completions\<close>

definition iouringd_wait_completion ::
  "int \<Rightarrow> bool \<Rightarrow> library \<Rightarrow> (iouringd_completion_record_v1, library) res" where
  "iouringd_wait_completion fd out L =
     (if fd < 0 \<or> \<not> out then (Inl EINVAL, L)
      else case pop_buffered_completion fd L of
        (Inl e, L1) \<Rightarrow> (Inl e, L1)
      | (Inr (Some completion), L1) \<Rightarrow> (Inr completion, L1)
      | (Inr None, L1) \<Rightarrow>
          bind_rc (read_completion_with_payload fd L1)
            (\<lambda>(completion, payload) L2.
               if payload \<noteq> [] then
                 bind_rc (store_buffered_payload_owned fd (cp_task completion) payload L2)
                   (\<lambda>_ L3. (Inr completion, L3))
               else (Inr completion, L2)))"

text \<open>\<open>completion\<close> is \<open>None\<close> for a null pointer; \<open>buf\<close> says that the buffer pointer is not null.\<close>

definition iouringd_read_completion_payload ::
  "int \<Rightarrow> iouringd_completion_record_v1 option \<Rightarrow> bool \<Rightarrow> nat \<Rightarrow> bool \<Rightarrow> library \<Rightarrow> (bytes, library) res"
where
  "iouringd_read_completion_payload fd completion buf buf_capacity out L =
     (case completion of
        None \<Rightarrow> (Inl EINVAL, L)
      | Some cp \<Rightarrow>
          if fd < 0 \<or> \<not> out then (Inl EINVAL, L)
          else if cp_task_kind cp \<noteq> IOURINGD_TASK_KIND_SOCK_READ
            \<and> cp_task_kind cp \<noteq> IOURINGD_TASK_KIND_SOCK_READ_FIXED
            \<and> cp_task_kind cp \<noteq> IOURINGD_TASK_KIND_FILE_READ
            \<and> cp_task_kind cp \<noteq> IOURINGD_TASK_KIND_ACCEPT then (Inl EINVAL, L)
          else if cp_payload_length cp = 0 then (Inr [], L)
          else if \<not> buf \<or> buf_capacity < unat (cp_payload_length cp) then (Inl EMSGSIZE, L)
          else case unlink_first (\<lambda>b. bp_fd b = fd \<and> bp_task_id b = cp_task cp) (lb_payloads L) of
            Some (b, rest) \<Rightarrow> (Inr (bp_payload b), L\<lparr>lb_payloads := rest\<rparr>)
          | None \<Rightarrow> (Inl EPROTO, L))"

end
