(* ===== verification/Client_Session.thy ===== *)
theory Client_Session
  imports Client_Library
begin

text \<open>
  What the client library does with the stream of the daemon: completions that arrive before a reply
  are kept in order with their payloads, the reply is found behind them, and the completions are
  handed out in the order in which the daemon sent them, each with its own payload.
\<close>

section \<open>The stream of the daemon\<close>

text \<open>A completion on the wire: a valid record and as many bytes as it announces.\<close>

definition completion_ok :: "iouringd_completion_record_v1 \<times> bytes \<Rightarrow> bool" where
  "completion_ok cp \<longleftrightarrow> completion_record_is_valid (fst cp) \<and> length (snd cp) = unat (cp_payload_length (fst cp))"

definition completion_wire :: "iouringd_completion_record_v1 \<times> bytes \<Rightarrow> bytes" where
  "completion_wire cp = enc_completion_record (fst cp) @ snd cp"

definition entry :: "int \<Rightarrow> iouringd_completion_record_v1 \<times> bytes \<Rightarrow> buffered_completion" where
  "entry fd cp = \<lparr>bc_fd = fd, bc_completion = fst cp, bc_payload = snd cp\<rparr>"

text \<open>The library is connected on \<open>fd\<close>, will receive \<open>bs\<close> there, and has memory.\<close>

definition receives :: "int \<Rightarrow> library \<Rightarrow> bytes \<Rightarrow> bool" where
  "receives fd L bs \<longleftrightarrow> in_stream (lb_sock L fd) bs \<and> lb_memory L = []"

text \<open>Only the input of the connection \<open>fd\<close> and the buffers may differ.\<close>

definition same_sockets :: "int \<Rightarrow> library \<Rightarrow> library \<Rightarrow> bool" where
  "same_sockets fd L L' \<longleftrightarrow> only_in (lb_sock L fd) (lb_sock L' fd)
     \<and> (\<forall>g. g \<noteq> fd \<longrightarrow> lb_sock L' g = lb_sock L g)"

lemma same_sockets_refl: "same_sockets fd L L"
  by (simp add: same_sockets_def only_in_def)

lemma same_sockets_trans: "same_sockets fd a b \<Longrightarrow> same_sockets fd b c \<Longrightarrow> same_sockets fd a c"
  by (simp add: same_sockets_def only_in_def)

lemma read_received:
  assumes "receives fd L (x @ rest)"
  obtains L' where "on_sock fd (read_full (length x)) L = (Inr x, L')" and "receives fd L' rest"
    and "same_sockets fd L L'" and "lb_completions L' = lb_completions L" and "lb_payloads L' = lb_payloads L"
proof -
  obtain s where "read_full (length x) (lb_sock L fd) = (Inr x, s)" "in_stream s rest" "only_in (lb_sock L fd) s"
    using stream.read_front [of "lb_sock L fd" x rest] assms by (auto simp: receives_def)
  then show ?thesis
    using assms by (intro that [of "L\<lparr>lb_sock := (lb_sock L)(fd := s)\<rparr>"])
      (simp_all add: on_sock_def receives_def same_sockets_def)
qed

lemma peek_received:
  assumes "receives fd L bs" and "8 \<le> length bs"
  shows "on_sock fd peek_protocol_header L = (Inr (dec_protocol_header bs), L)"
  using stream.peek_front [of "lb_sock L fd" bs] assms by (simp add: on_sock_def receives_def)

lemma malloc_received: "receives fd L bs \<Longrightarrow> lib_malloc L = (True, L)"
  by (simp add: receives_def lib_malloc_def)

section \<open>Draining completions\<close>

lemma read_completion_received:
  assumes "receives fd L (completion_wire cp @ rest)" and ok: "completion_ok cp"
  obtains L' where "read_completion_with_payload fd L = (Inr cp, L')" and "receives fd L' rest"
    and "same_sockets fd L L'" and "lb_completions L' = lb_completions L" and "lb_payloads L' = lb_payloads L"
proof -
  obtain c p where cp: "cp = (c, p)" by fastforce
  have "receives fd L (enc_completion_record c @ p @ rest)"
    using assms(1) by (simp add: completion_wire_def cp)
  then obtain L1 where r: "on_sock fd (read_full 24) L = (Inr (enc_completion_record c), L1)"
    and L1: "receives fd L1 (p @ rest)" "same_sockets fd L L1" "lb_completions L1 = lb_completions L"
      "lb_payloads L1 = lb_payloads L"
    using read_received [of fd L "enc_completion_record c" "p @ rest"] by auto
  have len: "length p = unat (cp_payload_length c)" and valid: "completion_record_is_valid c"
    using ok by (simp_all add: completion_ok_def cp)
  show ?thesis
  proof (cases "cp_payload_length c = 0")
    case True
    with len have "p = []" by simp
    with that [of L1] True r L1 valid show ?thesis
      by (simp add: read_completion_with_payload_def cp)
  next
    case False
    obtain L2 where "on_sock fd (read_full (unat (cp_payload_length c))) L1 = (Inr p, L2)"
      and L2: "receives fd L2 rest" "same_sockets fd L1 L2" "lb_completions L2 = lb_completions L1"
      "lb_payloads L2 = lb_payloads L1"
      using read_received [OF L1(1)] len by metis
    with that [of L2] False r L1 valid malloc_received [OF L1(1)] same_sockets_trans [OF L1(2) L2(2)] show ?thesis
      by (simp add: read_completion_with_payload_def cp)
  qed
qed

text \<open>The bytes are not the start of a completion.\<close>

definition not_completion :: "bytes \<Rightarrow> bool" where
  "not_completion bs \<longleftrightarrow> 8 \<le> length bs \<and> \<not> header_is_v1 (dec_protocol_header bs)"

lemma completion_header: "completion_ok cp \<Longrightarrow> header_is_v1 (dec_protocol_header (completion_wire cp @ rest))
    \<and> 8 \<le> length (completion_wire cp @ rest)"
  by (simp add: completion_ok_def completion_record_is_valid_def completion_wire_def
      enc_completion_record_def split: if_splits)

lemma drain_received:
  assumes "receives fd L (concat (map completion_wire cps) @ tail)" and "list_all completion_ok cps"
    and "not_completion tail"
  obtains L' where "drain_completion_prefix fd L = (Inr (), L')" and "receives fd L' tail"
    and "same_sockets fd L L'" and "lb_completions L' = lb_completions L @ map (entry fd) cps"
    and "lb_payloads L' = lb_payloads L"
  using assms
proof (induction cps arbitrary: L thesis)
  case Nil
  then show ?case
    using peek_received [of fd L tail]
    by (auto simp: drain_completion_prefix.simps [of fd L] not_completion_def same_sockets_refl)
next
  case (Cons cp cps)
  let ?rest = "concat (map completion_wire cps) @ tail"
  have recv: "receives fd L (completion_wire cp @ ?rest)" and ok: "completion_ok cp"
    using Cons.prems(2,3) by simp_all
  obtain L1 where r: "read_completion_with_payload fd L = (Inr cp, L1)"
    and L1: "receives fd L1 ?rest" "same_sockets fd L L1" "lb_completions L1 = lb_completions L"
      "lb_payloads L1 = lb_payloads L"
    using read_completion_received [OF recv ok] by blast
  let ?L2 = "L1\<lparr>lb_completions := lb_completions L1 @ [entry fd cp]\<rparr>"
  have q: "queue_buffered_completion fd (fst cp) (snd cp) L1 = (Inr (), ?L2)"
    using malloc_received [OF L1(1)] by (simp add: queue_buffered_completion_def entry_def)
  have "receives fd ?L2 ?rest" using L1(1) by (simp add: receives_def)
  then obtain L3 where d: "drain_completion_prefix fd ?L2 = (Inr (), L3)" and L3: "receives fd L3 tail"
    "same_sockets fd ?L2 L3" "lb_completions L3 = lb_completions ?L2 @ map (entry fd) cps"
    "lb_payloads L3 = lb_payloads ?L2"
    using Cons.IH [of ?L2] Cons.prems(3,4) by auto
  have "drain_completion_prefix fd L = (Inr (), L3)"
    using completion_header [OF ok, of ?rest] peek_received [OF recv] r q d
    by (cases cp) (simp add: drain_completion_prefix.simps [of fd L])
  moreover have "same_sockets fd L L3"
    using L1(2) L3(2) by (simp add: same_sockets_def only_in_def)
  ultimately show ?case
    using Cons.prems(1) [of L3] L1 L3 by simp
qed

section \<open>The reply behind the completions\<close>

lemma read_submit_received:
  assumes "receives fd L (concat (map completion_wire cps) @ enc_submit_result r @ rest)"
    and "list_all completion_ok cps" and "not_completion (enc_submit_result r)"
  obtains L' where "read_submit_result fd L
      = (if \<not> submit_result_is_valid r then Inl EPROTO
         else if submit_result_is_rejection r then Inl (- sint (sres_res r)) else Inr r, L')"
    and "receives fd L' rest" and "same_sockets fd L L'"
    and "lb_completions L' = lb_completions L @ map (entry fd) cps" and "lb_payloads L' = lb_payloads L"
proof -
  have "dec_protocol_header (enc_submit_result r @ rest) = dec_protocol_header (enc_submit_result r)"
    by (simp add: dec_protocol_header_def slice_at_def)
  with assms(3) have "not_completion (enc_submit_result r @ rest)" by (simp add: not_completion_def)
  then obtain L1 where d: "drain_completion_prefix fd L = (Inr (), L1)"
    and L1: "receives fd L1 (enc_submit_result r @ rest)" "same_sockets fd L L1"
      "lb_completions L1 = lb_completions L @ map (entry fd) cps" "lb_payloads L1 = lb_payloads L"
    using drain_received [OF assms(1,2)] by blast
  obtain L2 where "on_sock fd (read_full 16) L1 = (Inr (enc_submit_result r), L2)"
    and L2: "receives fd L2 rest" "same_sockets fd L1 L2" "lb_completions L2 = lb_completions L1"
      "lb_payloads L2 = lb_payloads L1"
    using read_received [OF L1(1)] by auto
  with that [of L2] d L1 same_sockets_trans [OF L1(2) L2(2)] show ?thesis
    by (simp add: read_submit_result_def Let_def)
qed

text \<open>A submit result starts like a completion only for one task identifier.\<close>

lemma submit_result_header:
  "not_completion (enc_submit_result r) \<longleftrightarrow> sres_task r \<noteq> 0x000c000131444f49"
proof -
  let ?h = "\<lparr>ph_magic = IOURINGD_PROTOCOL_WIRE_MAGIC, ph_version_major = IOURINGD_PROTOCOL_V1_MAJOR,
    ph_version_minor = IOURINGD_PROTOCOL_V1_MINOR\<rparr>"
  let ?h' = "dec_protocol_header (le_enc 8 (sres_task r))"
  have dec: "dec_protocol_header (enc_submit_result r) = ?h'"
    by (simp add: dec_protocol_header_def enc_submit_result_def slice_at_def)
  have "header_is_v1 ?h' \<longleftrightarrow> ?h' = ?h"
    by (cases ?h') (auto simp: header_is_v1_def)
  also have "\<dots> \<longleftrightarrow> le_enc 8 (sres_task r) = enc_protocol_header ?h"
    using protocol_header.enc_dec [of "le_enc 8 (sres_task r)"] protocol_header.dec_enc_exact [of ?h] by auto
  also have "enc_protocol_header ?h = le_enc 8 (0x000c000131444f49 :: 64 word)"
    by code_simp
  also have "(le_enc 8 (sres_task r) = le_enc 8 (0x000c000131444f49 :: 64 word)) \<longleftrightarrow> sres_task r = 0x000c000131444f49"
    using le_dec_enc [of 8 "sres_task r"] le_dec_enc [of 8 "0x000c000131444f49 :: 64 word"] by auto
  finally show ?thesis by (simp add: not_completion_def dec)
qed

text \<open>
  C27: The library finds the reply to a submission behind any number of completions. When the daemon's
  stream holds completions (valid records with their payloads) followed by a submit result, in
  segments of any size, reading the reply returns that submit result, or the error it reports; the
  completions are appended to the buffered ones in order and with their payloads, the bytes behind
  the reply stay in the stream, nothing is sent, and other connections are not touched. The reply
  must not carry the one task identifier whose bytes look like a protocol header.
\<close>

theorem submit_reply_behind_completions:
  assumes "receives fd L (concat (map completion_wire cps) @ enc_submit_result r @ rest)"
    and "list_all completion_ok cps" and "submit_result_is_valid r"
    and "sres_task r \<noteq> 0x000c000131444f49"
  shows "\<exists>L'. read_submit_result fd L
        = (if submit_result_is_rejection r then Inl (- sint (sres_res r)) else Inr r, L')
      \<and> receives fd L' rest \<and> same_sockets fd L L'
      \<and> lb_completions L' = lb_completions L @ map (entry fd) cps \<and> lb_payloads L' = lb_payloads L"
proof -
  have reply: "not_completion (enc_submit_result r)" using assms(4) submit_result_header by blast
  show ?thesis
  proof (rule read_submit_received [OF assms(1,2) reply])
    fix L'
    assume "read_submit_result fd L = (if \<not> submit_result_is_valid r then Inl EPROTO
         else if submit_result_is_rejection r then Inl (- sint (sres_res r)) else Inr r, L')"
      and "receives fd L' rest" "same_sockets fd L L'"
        "lb_completions L' = lb_completions L @ map (entry fd) cps" "lb_payloads L' = lb_payloads L"
    with assms(3) show ?thesis by (intro exI [of _ L']) simp
  qed
qed

text \<open>A library connected on descriptor 3 whose daemon sends the given bytes in one segment.\<close>

definition demo_library :: "bytes \<Rightarrow> library" where
  "demo_library bs =
     \<lparr>lb_completions = [], lb_payloads = [], lb_memory = [],
      lb_sock = (\<lambda>fd. \<lparr>so_in = (if bs = [] then [] else [In_data bs]), so_send = [], so_out = [], so_rights = []\<rparr>)\<rparr>"

lemma demo_receives: "receives fd (demo_library bs) bs"
proof (cases "bs = []")
  case False
  then show ?thesis by (auto simp: receives_def demo_library_def in_stream_def intro!: exI [of _ "[bs]"])
qed (simp add: receives_def demo_library_def in_stream_def)

definition demo_completion :: "iouringd_completion_record_v1 \<times> bytes" where
  "demo_completion = (\<lparr>cp_header = v1_header, cp_task = 6, cp_res = 2,
     cp_task_kind = IOURINGD_TASK_KIND_SOCK_READ, cp_payload_length = 2\<rparr>, [104, 105])"

lemma demo_completion_ok: "completion_ok demo_completion"
  by (simp add: completion_ok_def demo_completion_def completion_record_is_valid_def header_is_v1_def
      v1_header_def task_id_is_invalid_def word_le_nat_alt word_less_nat_alt)

theorem submit_reply_behind_completions_witness:
  "\<exists>L'. read_submit_result 3 (demo_library (completion_wire demo_completion
        @ enc_submit_result \<lparr>sres_task = 7, sres_res = 0, sres_credits = 62\<rparr>))
      = (Inr \<lparr>sres_task = 7, sres_res = 0, sres_credits = 62\<rparr>, L')
    \<and> lb_completions L' = [entry 3 demo_completion]"
proof -
  let ?r = "\<lparr>sres_task = 7, sres_res = 0, sres_credits = 62\<rparr> :: iouringd_submit_result_v1"
  have "submit_result_is_valid ?r" "\<not> submit_result_is_rejection ?r"
    by (simp_all add: submit_result_is_valid_def submit_result_is_rejection_def task_id_is_invalid_def
        word_le_nat_alt)
  then obtain L' where "read_submit_result 3 (demo_library (completion_wire demo_completion @ enc_submit_result ?r))
      = (Inr ?r, L')" "lb_completions L' = lb_completions (demo_library (completion_wire demo_completion
        @ enc_submit_result ?r)) @ map (entry 3) [demo_completion]"
    using submit_reply_behind_completions [of 3 "demo_library (completion_wire demo_completion @ enc_submit_result ?r)"
      "[demo_completion]" ?r "[]"] demo_completion_ok demo_receives [of 3] by auto
  then show ?thesis by (simp add: demo_library_def [of "_ @ _"])
qed

section \<open>Completions in order\<close>

text \<open>The completions of connection \<open>fd\<close> that have not been handed out, oldest first: the buffered
  ones, then those still in the stream, behind which the bytes \<open>rest\<close> follow.\<close>

definition inbox ::
  "int \<Rightarrow> bytes \<Rightarrow> library \<Rightarrow> (iouringd_completion_record_v1 \<times> bytes) list \<Rightarrow> bool" where
  "inbox fd rest L cps \<longleftrightarrow>
     (\<exists>early late. cps = early @ late \<and> list_all completion_ok late
        \<and> filter (\<lambda>b. bc_fd b = fd) (lb_completions L) = map (entry fd) early
        \<and> receives fd L (concat (map completion_wire late) @ rest))"

definition payload_entry :: "int \<Rightarrow> iouringd_completion_record_v1 \<times> bytes \<Rightarrow> buffered_payload list" where
  "payload_entry fd cp =
     (if snd cp = [] then [] else [\<lparr>bp_fd = fd, bp_task_id = cp_task (fst cp), bp_payload = snd cp\<rparr>])"

lemma unlink_first_filter:
  "filter P xs = y # ys \<Longrightarrow> \<exists>zs. unlink_first P xs = Some (y, zs) \<and> filter P zs = ys
    \<and> filter (\<lambda>x. \<not> P x) zs = filter (\<lambda>x. \<not> P x) xs"
  by (induction xs) (auto split: if_splits)

lemma unlink_first_none: "filter P xs = [] \<Longrightarrow> unlink_first P xs = None"
  by (induction xs) (auto split: if_splits)

lemma unlink_first_last: "\<forall>b \<in> set ps. \<not> P b \<Longrightarrow> P x \<Longrightarrow> unlink_first P (ps @ [x]) = Some (x, ps)"
  by (induction ps) auto

lemma store_payload:
  "lb_memory L = [] \<Longrightarrow> store_buffered_payload_owned fd task p L
    = (Inr (), L\<lparr>lb_payloads := lb_payloads L @ [\<lparr>bp_fd = fd, bp_task_id = task, bp_payload = p\<rparr>]\<rparr>)"
  by (simp add: store_buffered_payload_owned_def lib_malloc_def)

lemma wait_buffered:
  assumes "0 \<le> fd" and mem: "lb_memory L = []"
    and "filter (\<lambda>b. bc_fd b = fd) (lb_completions L) = entry fd cp # es"
  obtains L' where "iouringd_wait_completion fd True L = (Inr (fst cp), L')"
    and "filter (\<lambda>b. bc_fd b = fd) (lb_completions L') = es"
    and "filter (\<lambda>b. bc_fd b \<noteq> fd) (lb_completions L') = filter (\<lambda>b. bc_fd b \<noteq> fd) (lb_completions L)"
    and "lb_sock L' = lb_sock L" and "lb_memory L' = []"
    and "lb_payloads L' = lb_payloads L @ payload_entry fd cp"
proof -
  obtain zs where z: "unlink_first (\<lambda>b. bc_fd b = fd) (lb_completions L) = Some (entry fd cp, zs)"
    "filter (\<lambda>b. bc_fd b = fd) zs = es"
    "filter (\<lambda>b. bc_fd b \<noteq> fd) zs = filter (\<lambda>b. bc_fd b \<noteq> fd) (lb_completions L)"
    using unlink_first_filter [OF assms(3)] by blast
  let ?L = "L\<lparr>lb_completions := zs, lb_payloads := lb_payloads L @ payload_entry fd cp\<rparr>"
  have "iouringd_wait_completion fd True L = (Inr (fst cp), ?L)"
    using assms(1) mem z(1) store_payload [of "L\<lparr>lb_completions := zs\<rparr>"]
    by (simp add: iouringd_wait_completion_def pop_buffered_completion_def Let_def entry_def payload_entry_def)
  with that [of ?L] z mem show ?thesis by simp
qed

lemma wait_streamed:
  assumes "0 \<le> fd" and "receives fd L (completion_wire cp @ rest)" and "completion_ok cp"
    and "filter (\<lambda>b. bc_fd b = fd) (lb_completions L) = []"
  obtains L' where "iouringd_wait_completion fd True L = (Inr (fst cp), L')" and "receives fd L' rest"
    and "same_sockets fd L L'" and "lb_completions L' = lb_completions L"
    and "lb_payloads L' = lb_payloads L @ payload_entry fd cp"
proof -
  obtain L1 where r: "read_completion_with_payload fd L = (Inr cp, L1)"
    and L1: "receives fd L1 rest" "same_sockets fd L L1" "lb_completions L1 = lb_completions L"
      "lb_payloads L1 = lb_payloads L"
    using read_completion_received [OF assms(2,3)] .
  let ?L = "L1\<lparr>lb_payloads := lb_payloads L1 @ payload_entry fd cp\<rparr>"
  have "iouringd_wait_completion fd True L = (Inr (fst cp), ?L)"
    using assms(1) unlink_first_none [OF assms(4)] r store_payload [of L1] L1(1)
    by (cases cp) (simp add: iouringd_wait_completion_def pop_buffered_completion_def payload_entry_def receives_def)
  with that [of ?L] L1 show ?thesis by (simp add: receives_def same_sockets_def)
qed

lemma wait_completion_oldest:
  assumes "0 \<le> fd" and "inbox fd rest L (cp # cps)"
  shows "\<exists>L'. iouringd_wait_completion fd True L = (Inr (fst cp), L') \<and> inbox fd rest L' cps
    \<and> lb_payloads L' = lb_payloads L @ payload_entry fd cp
    \<and> filter (\<lambda>b. bc_fd b \<noteq> fd) (lb_completions L') = filter (\<lambda>b. bc_fd b \<noteq> fd) (lb_completions L)
    \<and> same_sockets fd L L'"
proof -
  obtain early late where split: "cp # cps = early @ late" and late: "list_all completion_ok late"
    and buf: "filter (\<lambda>b. bc_fd b = fd) (lb_completions L) = map (entry fd) early"
    and recv: "receives fd L (concat (map completion_wire late) @ rest)"
    using assms(2) by (auto simp: inbox_def)
  show ?thesis
  proof (cases early)
    case Nil
    with split recv late have "receives fd L (completion_wire cp @ concat (map completion_wire cps) @ rest)"
      "completion_ok cp" "list_all completion_ok cps" by (auto simp: Cons_eq_append_conv)
    from wait_streamed [OF assms(1) this(1,2)] buf Nil obtain L' where
      L': "iouringd_wait_completion fd True L = (Inr (fst cp), L')"
      "receives fd L' (concat (map completion_wire cps) @ rest)" "same_sockets fd L L'"
      "lb_completions L' = lb_completions L" "lb_payloads L' = lb_payloads L @ payload_entry fd cp" by auto
    moreover have "inbox fd rest L' cps"
      unfolding inbox_def using L' buf Nil \<open>list_all completion_ok cps\<close>
      by (intro exI [of _ "[]"] exI [of _ cps]) simp
    ultimately show ?thesis by auto
  next
    case (Cons e es)
    with split buf have "filter (\<lambda>b. bc_fd b = fd) (lb_completions L) = entry fd cp # map (entry fd) es"
      by simp
    moreover have "lb_memory L = []" using recv by (simp add: receives_def)
    ultimately obtain L' where L': "iouringd_wait_completion fd True L = (Inr (fst cp), L')"
      "filter (\<lambda>b. bc_fd b = fd) (lb_completions L') = map (entry fd) es"
      "filter (\<lambda>b. bc_fd b \<noteq> fd) (lb_completions L') = filter (\<lambda>b. bc_fd b \<noteq> fd) (lb_completions L)"
      "lb_sock L' = lb_sock L" "lb_memory L' = []" "lb_payloads L' = lb_payloads L @ payload_entry fd cp"
      using wait_buffered [OF assms(1), of L cp "map (entry fd) es"] by auto
    moreover have "inbox fd rest L' cps"
      unfolding inbox_def using L' split Cons late recv
      by (intro exI [of _ es] exI [of _ late]) (simp add: receives_def)
    ultimately show ?thesis by (auto simp: same_sockets_def only_in_def)
  qed
qed

text \<open>
  C28: Waiting for a completion implements a FIFO queue per connection. Whatever part of the completions
  of a connection has been buffered while other replies were awaited, waiting returns the oldest one
  and leaves exactly the later ones in order; its payload becomes available to the payload reader, and
  the buffered completions of other connections are not touched.
\<close>

theorem wait_completion_takes_oldest:
  assumes "0 \<le> fd" and "inbox fd rest L (cp # cps)"
  shows "\<exists>L'. iouringd_wait_completion fd True L = (Inr (fst cp), L') \<and> inbox fd rest L' cps
    \<and> lb_payloads L' = lb_payloads L @ payload_entry fd cp
    \<and> filter (\<lambda>b. bc_fd b \<noteq> fd) (lb_completions L') = filter (\<lambda>b. bc_fd b \<noteq> fd) (lb_completions L)
    \<and> same_sockets fd L L'"
  using assms by (rule wait_completion_oldest)

lemma demo_inbox: "inbox 3 [] (demo_library (completion_wire demo_completion)) [demo_completion]"
  unfolding inbox_def
  by (intro exI [of _ "[]"] exI [of _ "[demo_completion]"])
    (use demo_completion_ok demo_receives [of 3 "completion_wire demo_completion"] in
      \<open>simp add: demo_library_def [of "completion_wire demo_completion"]\<close>)

theorem wait_completion_takes_oldest_witness:
  "\<exists>L'. iouringd_wait_completion 3 True (demo_library (completion_wire demo_completion))
      = (Inr (fst demo_completion), L') \<and> inbox 3 [] L' []"
  using wait_completion_takes_oldest [OF _ demo_inbox] by auto

text \<open>
  C29: Round trip of a payload: after waiting for a completion of a read or accept, asking for its
  payload with a large enough buffer returns exactly the bytes that followed the completion record,
  and removes them from the buffered payloads. A smaller buffer is refused and the payload kept.
\<close>

theorem completion_payload_roundtrip:
  assumes "0 \<le> fd" and "inbox fd rest L (cp # cps)" and "completion_ok cp"
    and kind: "cp_task_kind (fst cp) \<in> {IOURINGD_TASK_KIND_SOCK_READ, IOURINGD_TASK_KIND_SOCK_READ_FIXED,
        IOURINGD_TASK_KIND_FILE_READ, IOURINGD_TASK_KIND_ACCEPT}"
    and fresh: "\<forall>b \<in> set (lb_payloads L). \<not> (bp_fd b = fd \<and> bp_task_id b = cp_task (fst cp))"
  shows "\<exists>L' L''. iouringd_wait_completion fd True L = (Inr (fst cp), L')
    \<and> (\<forall>capacity \<ge> length (snd cp).
         iouringd_read_completion_payload fd (Some (fst cp)) True capacity True L' = (Inr (snd cp), L''))
    \<and> lb_payloads L'' = lb_payloads L
    \<and> (\<forall>capacity < length (snd cp).
         iouringd_read_completion_payload fd (Some (fst cp)) True capacity True L' = (Inl EMSGSIZE, L'))"
proof -
  obtain L' where L': "iouringd_wait_completion fd True L = (Inr (fst cp), L')"
    "lb_payloads L' = lb_payloads L @ payload_entry fd cp"
    using wait_completion_oldest [OF assms(1,2)] by blast
  have len: "length (snd cp) = unat (cp_payload_length (fst cp))" using assms(3) by (simp add: completion_ok_def)
  let ?P = "\<lambda>b. bp_fd b = fd \<and> bp_task_id b = cp_task (fst cp)"
  have kinds: "\<not> (cp_task_kind (fst cp) \<noteq> 4 \<and> cp_task_kind (fst cp) \<noteq> 6 \<and> cp_task_kind (fst cp) \<noteq> 8
      \<and> cp_task_kind (fst cp) \<noteq> 12)" using kind by auto
  show ?thesis
  proof (cases "cp_payload_length (fst cp) = 0")
    case True
    with len L' kinds assms(1) show ?thesis
      by (intro exI [of _ L'] exI [of _ L']) (auto simp: iouringd_read_completion_payload_def payload_entry_def)
  next
    case False
    with len have ne: "snd cp \<noteq> []" by (auto simp: unat_eq_zero)
    from unlink_first_last [OF fresh] ne have "unlink_first ?P (lb_payloads L')
        = Some (\<lparr>bp_fd = fd, bp_task_id = cp_task (fst cp), bp_payload = snd cp\<rparr>, lb_payloads L)"
      by (simp add: L'(2) payload_entry_def)
    with False len L' kinds assms(1) show ?thesis
      by (intro exI [of _ L'] exI [of _ "L'\<lparr>lb_payloads := lb_payloads L\<rparr>"])
        (auto simp: iouringd_read_completion_payload_def)
  qed
qed

theorem completion_payload_roundtrip_witness:
  "\<exists>L' L''. iouringd_wait_completion 3 True (demo_library (completion_wire demo_completion))
      = (Inr (fst demo_completion), L')
    \<and> iouringd_read_completion_payload 3 (Some (fst demo_completion)) True 16 True L' = (Inr [104, 105], L'')"
  using completion_payload_roundtrip [OF _ demo_inbox demo_completion_ok]
  by (fastforce simp: demo_completion_def demo_library_def)

end
