(* ===== verification/Client_Requests.thy ===== *)
theory Client_Requests
  imports Client_Session
begin

text \<open>
  The requests of the client library against the parser of the daemon: every request function writes
  exactly one message of \<open>Framing\<close>, and the daemon reads back from the connection the request that
  the function was called with. Two places where library and daemon disagree are stated at the end.
\<close>

text \<open>Send a message, then read the reply.\<close>

definition request_then ::
  "int \<Rightarrow> request_message \<Rightarrow> (int \<Rightarrow> library \<Rightarrow> ('a, library) res) \<Rightarrow> library \<Rightarrow> ('a, library) res" where
  "request_then fd m reply L = bind_rc (on_sock fd (write_full (message_bytes m)) L) (\<lambda>_. reply fd)"

lemma init_headers: "init_submit_header k = v1_submit k 0" "init_control_header k = v1_control k"
  by (simp_all add: init_submit_header_def init_control_header_def v1_submit_def v1_control_def v1_header_def)

lemma iov_is_plain: "write_iov_full a b = write_full (a @ b)"
  by (intro ext) (simp add: write_iov_full_def write_full_def send_iov_is_send)

lemmas request_eval = request_then_def message_bytes_def init_headers iov_is_plain resource_id_is_invalid_def

lemma buffer_length:
  assumes "length data \<le> 4096"
  shows "unat (of_nat (length data) :: u32) = length data"
    and "(of_nat (length data) = (0 :: u32)) = (data = [])"
    and "\<not> (4096 :: u32) < of_nat (length data)"
proof -
  show u: "unat (of_nat (length data) :: u32) = length data"
    using assms by (intro unat_length_small) simp
  show "(of_nat (length data) = (0 :: u32)) = (data = [])"
    using u by (metis length_0_conv unat_eq_zero)
  show "\<not> (4096 :: u32) < of_nat (length data)"
    using u assms by (simp add: word_less_nat_alt)
qed

section \<open>Calls of the library\<close>

text \<open>
  The calls of the library, each with the arguments of the caller; a null pointer is \<open>None\<close>, and
  the trace call has the presence and the capacity of its array of events.
\<close>

datatype library_call =
  Call_nop
| Call_timeout u64
| Call_cancel task_id
| Call_sock_read resource_id u32
| Call_sock_write resource_id "bytes option"
| Call_file_read resource_id u32
| Call_file_write resource_id "bytes option"
| Call_poll resource_id u16
| Call_connect resource_id "bytes option"
| Call_accept resource_id u32
| Call_openat "bytes option" i32 u32
| Call_close resource_id
| Call_sock_read_fixed resource_id resource_id u32
| Call_sock_write_fixed resource_id resource_id u32
| Call_register_fd int
| Call_register_buffer "bytes option" u32
| Call_release_resource resource_id
| Call_get_stats
| Call_get_trace u64 u32 bool nat

datatype answer =
  Ans_submit iouringd_submit_result_v1
| Ans_resource iouringd_resource_result_v1
| Ans_stats iouringd_stats_result_v1
| Ans_trace "iouringd_trace_result_v1 \<times> iouringd_trace_event_v1 list"

datatype short_answer =
  Short_task task_id
| Short_resource resource_id
| Short_stats iouringd_stats_result_v1
| Short_trace "iouringd_trace_result_v1 \<times> iouringd_trace_event_v1 list"

primrec short_of :: "answer \<Rightarrow> short_answer" where
  "short_of (Ans_submit r) = Short_task (sres_task r)"
| "short_of (Ans_resource r) = Short_resource (rres_resource r)"
| "short_of (Ans_stats r) = Short_stats r"
| "short_of (Ans_trace r) = Short_trace r"

definition with_value :: "('a \<Rightarrow> 'b) \<Rightarrow> ('a, 's) res \<Rightarrow> ('b, 's) res" where
  "with_value f r = bind_rc r (\<lambda>x s. (Inr (f x), s))"

text \<open>The functions that return the whole result; \<open>out\<close> says that the pointer for it is not null.\<close>

primrec call_result :: "library_call \<Rightarrow> int \<Rightarrow> bool \<Rightarrow> library \<Rightarrow> (answer, library) res" where
  "call_result Call_nop fd out L = with_value Ans_submit (iouringd_submit_nop_result fd out L)"
| "call_result (Call_timeout nsec) fd out L = with_value Ans_submit (iouringd_submit_timeout_result fd nsec out L)"
| "call_result (Call_cancel target) fd out L = with_value Ans_submit (iouringd_submit_cancel_result fd target out L)"
| "call_result (Call_sock_read res len) fd out L =
     with_value Ans_submit (iouringd_submit_sock_read_result fd res len out L)"
| "call_result (Call_sock_write res buf) fd out L =
     with_value Ans_submit (iouringd_submit_sock_write_result fd res buf out L)"
| "call_result (Call_file_read res len) fd out L =
     with_value Ans_submit (iouringd_submit_file_read_result fd res len out L)"
| "call_result (Call_file_write res buf) fd out L =
     with_value Ans_submit (iouringd_submit_file_write_result fd res buf out L)"
| "call_result (Call_poll res events) fd out L =
     with_value Ans_submit (iouringd_submit_poll_result fd res events out L)"
| "call_result (Call_connect res buf) fd out L =
     with_value Ans_submit (iouringd_submit_connect_result fd res buf out L)"
| "call_result (Call_accept res len) fd out L =
     with_value Ans_submit (iouringd_submit_accept_result fd res len out L)"
| "call_result (Call_openat path flags mode) fd out L =
     with_value Ans_submit (iouringd_submit_openat_result fd path flags mode out L)"
| "call_result (Call_close res) fd out L = with_value Ans_submit (iouringd_submit_close_result fd res out L)"
| "call_result (Call_sock_read_fixed res buf len) fd out L =
     with_value Ans_submit (iouringd_submit_sock_read_fixed_result fd res buf len out L)"
| "call_result (Call_sock_write_fixed res buf len) fd out L =
     with_value Ans_submit (iouringd_submit_sock_write_fixed_result fd res buf len out L)"
| "call_result (Call_register_fd resource) fd out L =
     with_value Ans_resource (iouringd_register_fd_result fd resource out L)"
| "call_result (Call_register_buffer buf len) fd out L =
     with_value Ans_resource (iouringd_register_buffer_result fd buf len out L)"
| "call_result (Call_release_resource res) fd out L =
     with_value Ans_resource (iouringd_release_resource_result fd res out L)"
| "call_result Call_get_stats fd out L = with_value Ans_stats (iouringd_get_stats_result fd out L)"
| "call_result (Call_get_trace after n has_events capacity) fd out L =
     with_value Ans_trace (iouringd_get_trace_result fd after n has_events capacity out L)"

text \<open>The functions that return the identifier only, and the two that are the same.\<close>

primrec call_short :: "library_call \<Rightarrow> int \<Rightarrow> bool \<Rightarrow> library \<Rightarrow> (short_answer, library) res" where
  "call_short Call_nop fd out L = with_value Short_task (iouringd_submit_nop fd out L)"
| "call_short (Call_timeout nsec) fd out L = with_value Short_task (iouringd_submit_timeout fd nsec out L)"
| "call_short (Call_cancel target) fd out L = with_value Short_task (iouringd_submit_cancel fd target out L)"
| "call_short (Call_sock_read res len) fd out L = with_value Short_task (iouringd_submit_sock_read fd res len out L)"
| "call_short (Call_sock_write res buf) fd out L = with_value Short_task (iouringd_submit_sock_write fd res buf out L)"
| "call_short (Call_file_read res len) fd out L = with_value Short_task (iouringd_submit_file_read fd res len out L)"
| "call_short (Call_file_write res buf) fd out L = with_value Short_task (iouringd_submit_file_write fd res buf out L)"
| "call_short (Call_poll res events) fd out L = with_value Short_task (iouringd_submit_poll fd res events out L)"
| "call_short (Call_connect res buf) fd out L = with_value Short_task (iouringd_submit_connect fd res buf out L)"
| "call_short (Call_accept res len) fd out L = with_value Short_task (iouringd_submit_accept fd res len out L)"
| "call_short (Call_openat path flags mode) fd out L =
     with_value Short_task (iouringd_submit_openat fd path flags mode out L)"
| "call_short (Call_close res) fd out L = with_value Short_task (iouringd_submit_close fd res out L)"
| "call_short (Call_sock_read_fixed res buf len) fd out L =
     with_value Short_task (iouringd_submit_sock_read_fixed fd res buf len out L)"
| "call_short (Call_sock_write_fixed res buf len) fd out L =
     with_value Short_task (iouringd_submit_sock_write_fixed fd res buf len out L)"
| "call_short (Call_register_fd resource) fd out L =
     with_value Short_resource (iouringd_register_fd fd resource out L)"
| "call_short (Call_register_buffer buf len) fd out L =
     with_value Short_resource (iouringd_register_buffer fd buf len out L)"
| "call_short (Call_release_resource res) fd out L =
     with_value Short_resource (iouringd_release_resource fd res out L)"
| "call_short Call_get_stats fd out L = with_value Short_stats (iouringd_get_stats fd out L)"
| "call_short (Call_get_trace after n has_events capacity) fd out L =
     with_value Short_trace (iouringd_get_trace fd after n has_events capacity out L)"

text \<open>What a call means: the bytes of its one message, or \<open>None\<close> when its arguments are invalid.\<close>

definition given :: "bool \<Rightarrow> request_message \<Rightarrow> bytes option" where
  "given valid m = (if valid then Some (message_bytes m) else None)"

fun call_bytes :: "library_call \<Rightarrow> bytes option" where
  "call_bytes Call_nop = given True (Msg_nop 0)"
| "call_bytes (Call_timeout nsec) = given True (Msg_timeout 0 nsec)"
| "call_bytes (Call_cancel target) = given True (Msg_cancel 0 target)"
| "call_bytes (Call_sock_read res len) =
     given (res \<noteq> 0 \<and> len \<noteq> 0) (Msg_io IOURINGD_TASK_KIND_SOCK_READ 0 res len)"
| "call_bytes (Call_sock_write res (Some d)) =
     given (res \<noteq> 0 \<and> d \<noteq> []) (Msg_write IOURINGD_TASK_KIND_SOCK_WRITE 0 res d)"
| "call_bytes (Call_file_read res len) =
     given (res \<noteq> 0 \<and> len \<noteq> 0) (Msg_io IOURINGD_TASK_KIND_FILE_READ 0 res len)"
| "call_bytes (Call_file_write res (Some d)) =
     given (res \<noteq> 0 \<and> d \<noteq> []) (Msg_write IOURINGD_TASK_KIND_FILE_WRITE 0 res d)"
| "call_bytes (Call_poll res events) = given (res \<noteq> 0 \<and> events \<noteq> 0) (Msg_poll 0 res events)"
| "call_bytes (Call_connect res (Some d)) =
     given (res \<noteq> 0 \<and> d \<noteq> [] \<and> length d \<le> 65535) (Msg_write IOURINGD_TASK_KIND_CONNECT 0 res d)"
| "call_bytes (Call_accept res len) =
     given (res \<noteq> 0 \<and> len \<le> 65535) (Msg_io IOURINGD_TASK_KIND_ACCEPT 0 res len)"
| "call_bytes (Call_openat (Some name) flags mode) =
     given (name \<noteq> [] \<and> length name \<le> 4095) (Msg_openat 0 flags mode (name @ [0]))"
| "call_bytes (Call_close res) = given (res \<noteq> 0) (Msg_close 0 res)"
| "call_bytes (Call_sock_read_fixed res buf len) =
     given (res \<noteq> 0 \<and> buf \<noteq> 0 \<and> len \<noteq> 0) (Msg_fixed IOURINGD_TASK_KIND_SOCK_READ_FIXED 0 res buf len)"
| "call_bytes (Call_sock_write_fixed res buf len) =
     given (res \<noteq> 0 \<and> buf \<noteq> 0 \<and> len \<noteq> 0) (Msg_fixed IOURINGD_TASK_KIND_SOCK_WRITE_FIXED 0 res buf len)"
| "call_bytes (Call_register_fd resource) =
     (if 0 \<le> resource then Some (enc_control_request (v1_control IOURINGD_REQUEST_KIND_REGISTER_FD)) else None)"
| "call_bytes (Call_register_buffer buf len) =
     given (len = 0 \<or> buf \<noteq> None \<and> len \<le> 4096)
       (Msg_register_buffer (if len = 0 then [] else take (unat len) (the buf)))"
| "call_bytes (Call_release_resource res) = given (res \<noteq> 0) (Msg_release res)"
| "call_bytes Call_get_stats = given True Msg_get_stats"
| "call_bytes (Call_get_trace after n has_events capacity) =
     given (unat n \<le> capacity) (Msg_get_trace after n)"
| "call_bytes _ = None"

text \<open>The descriptor that travels with the message.\<close>

fun call_passes :: "library_call \<Rightarrow> int option" where
  "call_passes (Call_register_fd resource) = Some resource"
| "call_passes _ = None"

text \<open>The caller's buffer has the length that is given with it.\<close>

fun call_readable :: "library_call \<Rightarrow> bool" where
  "call_readable (Call_register_buffer (Some d) len) \<longleftrightarrow> unat len \<le> length d"
| "call_readable _ \<longleftrightarrow> True"

text \<open>The reader of the reply to a call.\<close>

fun call_reply :: "library_call \<Rightarrow> int \<Rightarrow> library \<Rightarrow> (answer, library) res" where
  "call_reply (Call_register_fd resource) fd = (\<lambda>L. with_value Ans_resource (read_resource_result fd L))"
| "call_reply (Call_register_buffer buf len) fd = (\<lambda>L. with_value Ans_resource (read_resource_result fd L))"
| "call_reply (Call_release_resource res) fd = (\<lambda>L. with_value Ans_resource (read_resource_result fd L))"
| "call_reply Call_get_stats fd = (\<lambda>L. with_value Ans_stats (read_stats_result fd L))"
| "call_reply (Call_get_trace after n has_events capacity) fd = (\<lambda>L. with_value Ans_trace (read_trace_result fd has_events capacity True L))"
| "call_reply _ fd = (\<lambda>L. with_value Ans_submit (read_submit_result fd L))"

lemma with_value_simps [simp]:
  "with_value f (Inl e, s) = (Inl e, s)" "with_value f (Inr x, s) = (Inr (f x), s)"
  "with_value f (bind_rc m g) = bind_rc m (\<lambda>x s. with_value f (g x s))"
  by (simp_all add: with_value_def bind_rc_def split: prod.splits sum.splits)

lemma with_value_ids:
  "with_value Short_task (task_only r) = with_value short_of (with_value Ans_submit r)"
  "with_value Short_resource (resource_only q) = with_value short_of (with_value Ans_resource q)"
  "with_value Short_stats s = with_value short_of (with_value Ans_stats s)"
  "with_value Short_trace t = with_value short_of (with_value Ans_trace t)"
  by (simp_all add: with_value_def bind_rc_def task_only_def resource_only_def split: prod.splits sum.splits)

lemmas result_calls = iouringd_submit_nop_result_def iouringd_submit_timeout_result_def
  iouringd_submit_cancel_result_def iouringd_submit_sock_read_result_def
  iouringd_submit_file_read_result_def iouringd_submit_sock_write_result_def
  iouringd_submit_file_write_result_def iouringd_submit_poll_result_def
  iouringd_submit_connect_result_def iouringd_submit_accept_result_def
  iouringd_submit_openat_result_def iouringd_submit_close_result_def
  iouringd_submit_sock_read_fixed_result_def iouringd_submit_sock_write_fixed_result_def
  iouringd_register_fd_result_def iouringd_release_resource_result_def
  iouringd_get_stats_result_def iouringd_get_trace_result_def

lemmas short_calls = iouringd_submit_nop_def iouringd_submit_timeout_def iouringd_submit_cancel_def
  iouringd_submit_sock_read_def iouringd_submit_sock_write_def iouringd_submit_file_read_def
  iouringd_submit_file_write_def iouringd_submit_poll_def iouringd_submit_connect_def
  iouringd_submit_accept_def iouringd_submit_openat_def iouringd_submit_close_def
  iouringd_submit_sock_read_fixed_def iouringd_submit_sock_write_fixed_def iouringd_register_fd_def
  iouringd_register_buffer_def iouringd_release_resource_def iouringd_get_stats_def iouringd_get_trace_def

lemma call_without_result: "call_result q fd False L = (Inl EINVAL, L)"
  by (cases q) (simp_all add: result_calls iouringd_register_buffer_result_def split: option.split)

lemma call_short_is_result: "call_short q fd out L = with_value short_of (call_result q fd out L)"
  using call_without_result [of q fd L] by (cases q; cases out) (simp_all add: short_calls with_value_ids)

lemma registered_buffer_call:
  assumes "unat len \<le> length d" and "len \<noteq> 0" and "len \<le> 4096"
  shows "enc_register_buffer_request \<lparr>rb_control = v1_control IOURINGD_REQUEST_KIND_REGISTER_BUFFER, rb_length = len,
      rb_reserved2 = 0\<rparr> @ take (unat len) d = message_bytes (Msg_register_buffer (take (unat len) d))"
  using assms by (simp add: message_bytes_def min_absorb2)

text \<open>Every call sends its message, if it has one, and then reads the reply.\<close>

definition call_send :: "library_call \<Rightarrow> bytes \<Rightarrow> socket_io \<Rightarrow> (unit, socket_io) res" where
  "call_send q bs = (case call_passes q of None \<Rightarrow> write_full bs | Some f \<Rightarrow> send_fd_with_request f bs)"

lemma call_result_sends:
  assumes "call_readable q"
  shows "call_result q fd out L =
    (case (if fd < 0 \<or> \<not> out then None else call_bytes q) of
       None \<Rightarrow> (Inl EINVAL, L)
     | Some bs \<Rightarrow> bind_rc (on_sock fd (call_send q bs) L) (\<lambda>_. call_reply q fd))"
proof (cases q)
  case (Call_register_buffer buf len)
  then show ?thesis
    using assms registered_buffer_call [of len "the buf"]
    by (cases buf)
      (auto simp: request_eval iouringd_register_buffer_result_def given_def call_send_def Let_def not_less)
next
  case (Call_sock_write res buf)
  then show ?thesis by (cases buf) (auto simp: request_eval result_calls given_def call_send_def)
next
  case (Call_file_write res buf)
  then show ?thesis by (cases buf) (auto simp: request_eval result_calls given_def call_send_def)
next
  case (Call_connect res buf)
  then show ?thesis by (cases buf) (auto simp: request_eval result_calls given_def call_send_def)
next
  case (Call_openat path flags mode)
  then show ?thesis by (cases path) (auto simp: request_eval result_calls given_def call_send_def)
qed (auto simp: request_eval result_calls given_def call_send_def v1_header_def not_less not_le)

text \<open>A reader of replies writes nothing and leaves the other connections alone.\<close>

definition only_received :: "int \<Rightarrow> library \<Rightarrow> library \<Rightarrow> bool" where
  "only_received fd L L' \<longleftrightarrow> (\<forall>k. k \<noteq> fd \<longrightarrow> lb_sock L' k = lb_sock L k)
     \<and> so_out (lb_sock L' fd) = so_out (lb_sock L fd) \<and> so_rights (lb_sock L' fd) = so_rights (lb_sock L fd)"

lemma only_received_refl [simp, intro]: "only_received fd L L"
  by (simp add: only_received_def)

lemma only_received_trans: "only_received fd L L1 \<Longrightarrow> only_received fd L1 L2 \<Longrightarrow> only_received fd L L2"
  by (simp add: only_received_def)

lemma received_bind:
  assumes "only_received fd L (snd m)" and "\<And>x L1. only_received fd L1 (snd (f x L1))"
  shows "only_received fd L (snd (bind_rc m f))"
  using assms by (cases m) (auto simp: bind_rc_def split: sum.split intro: only_received_trans)

lemma received_value [simp]: "snd (with_value f r) = snd r"
  by (simp add: with_value_def bind_rc_def split: prod.split sum.split)

lemma received_read [simp, intro]:
  "only_received fd L (snd (on_sock fd (read_full n) L))"
  "only_received fd L (snd (on_sock fd peek_protocol_header L))"
  by (auto simp: only_received_def on_sock_def read_full_def peek_protocol_header_def split: prod.splits sum.splits)

lemma received_malloc [simp, intro]: "only_received fd L (snd (lib_malloc L))"
  by (simp add: only_received_def lib_malloc_def split: list.split)

lemma received_queue: "only_received fd L (snd (queue_buffered_completion fd c p L))"
  using received_malloc [of fd L]
  by (auto simp: queue_buffered_completion_def only_received_def split: prod.splits bool.splits)

lemma received_completion: "only_received fd L (snd (read_completion_with_payload fd L))"
proof -
  have payload: "only_received fd L1 (snd (case lib_malloc L1 of (False, L2) \<Rightarrow> (Inl ENOMEM, L2)
      | (True, L2) \<Rightarrow> bind_rc (on_sock fd (read_full n) L2) (\<lambda>payload L3. (Inr (c, payload), L3))))" for L1 n c
  proof (cases "lib_malloc L1")
    case (Pair ok L2)
    then have "only_received fd L1 L2" using received_malloc [of fd L1] by simp
    moreover have "only_received fd L2 (snd (bind_rc (on_sock fd (read_full n) L2) (\<lambda>payload L3. (Inr (c, payload), L3))))"
      by (rule received_bind) simp_all
    ultimately show ?thesis using Pair by (cases ok) (auto intro: only_received_trans)
  qed
  show ?thesis
    unfolding read_completion_with_payload_def Let_def
    by (intro received_bind) (auto intro: payload split del: prod.split bool.split)
qed

lemma received_drain: "only_received fd L (snd (drain_completion_prefix fd L))"
proof (induction fd L rule: drain_completion_prefix.induct)
  case (1 fd L)
  obtain r1 L1 where s1: "on_sock fd peek_protocol_header L = (r1, L1)" by fastforce
  obtain r2 L2 where s2: "read_completion_with_payload fd L1 = (r2, L2)" by fastforce
  have o1: "only_received fd L L1" "only_received fd L L2"
    using received_read(2) [of fd L] received_completion [of fd L1] s1 s2 by (auto intro: only_received_trans)
  show ?case
  proof (cases "\<exists>h x. r1 = Inr h \<and> header_is_v1 h \<and> r2 = Inr x")
    case True
    then obtain h c p where r: "r1 = Inr h" "header_is_v1 h" "r2 = Inr (c, p)" by auto
    obtain r3 L3 where s3: "queue_buffered_completion fd c p L2 = (r3, L3)" by fastforce
    have o3: "only_received fd L L3"
      using o1(2) received_queue [of fd L2 c p] s3 by (auto intro: only_received_trans)
    have "only_received fd L3 (snd (drain_completion_prefix fd L3))" if "r3 = Inr ()"
      using 1 [OF s1 [symmetric] r(1) _ s2 [symmetric] r(3) _ s3 [symmetric]] r(2) that by simp
    then show ?thesis
      using o3 r s1 s2 s3
      by (cases r3) (auto simp: drain_completion_prefix.simps [of fd L] intro: only_received_trans)
  next
    case False
    then show ?thesis
      using o1 s1 s2 by (auto simp: drain_completion_prefix.simps [of fd L] split: sum.split)
  qed
qed

lemma received_events: "only_received fd L (snd (read_trace_events fd n L))"
  by (induction fd n L rule: read_trace_events.induct) (auto simp: Let_def intro!: received_bind)

lemma received_replies:
  "only_received fd L (snd (read_submit_result fd L))" "only_received fd L (snd (read_resource_result fd L))"
  "only_received fd L (snd (read_stats_result fd L))" "only_received fd L (snd (read_trace_result fd h n out L))"
  unfolding read_submit_result_def read_resource_result_def read_stats_result_def read_trace_result_def
  by (auto simp: Let_def intro!: received_bind received_drain received_events)

lemma received_reply: "only_received fd L (snd (call_reply q fd L))"
  by (cases q) (simp_all add: received_replies)

text \<open>What a send leaves on its connection.\<close>

definition sent_on :: "int option \<Rightarrow> bytes \<Rightarrow> socket_io \<Rightarrow> socket_io \<Rightarrow> bool" where
  "sent_on passed sent s s' \<longleftrightarrow> so_out s' = so_out s @ sent
     \<and> so_rights s' = so_rights s @ (case passed of Some f \<Rightarrow> if sent = [] then [] else [(length (so_out s), f)] | None \<Rightarrow> [])"

lemma send_fd_prefix: "send_fd_loop ws buf = (r, sent, ws') \<Longrightarrow> \<exists>rest. buf = sent @ rest \<and> (r = Inr () \<longrightarrow> rest = [])"
  by (induction ws buf rule: send_fd_loop.induct)
    (auto simp: Let_def split: if_splits intro: append_take_drop_id [symmetric])

lemma call_send_sends:
  assumes "call_send q bs s = (r, s')"
  obtains sent rest where "bs = sent @ rest" "r = Inr () \<longrightarrow> rest = []" "sent_on (call_passes q) sent s s'"
proof (cases "call_passes q")
  case None
  obtain sent ws where l: "send_loop (so_send s) bs 0 = (r, sent, ws)"
    and "s' = s\<lparr>so_send := ws, so_out := so_out s @ sent\<rparr>"
    using assms None by (auto simp: call_send_def write_full_def split: prod.splits)
  with send_loop_prefix [OF l] None that show thesis by (auto simp: sent_on_def)
next
  case (Some f)
  obtain sent ws where l: "send_fd_loop (so_send s) bs = (r, sent, ws)"
    and "s' = s\<lparr>so_send := ws, so_out := so_out s @ sent,
      so_rights := so_rights s @ (if sent = [] then [] else [(length (so_out s), f)])\<rparr>"
    using assms Some by (auto simp: call_send_def send_fd_with_request_def split: prod.splits)
  with send_fd_prefix [OF l] Some that show thesis by (auto simp: sent_on_def)
qed



section \<open>From the library to the daemon\<close>

lemma write_full_sends:
  assumes "write_full buf s = (Inr (), s')"
  shows "so_out s' = so_out s @ buf"
  using assms send_loop_prefix [of "so_send s" buf] by (fastforce simp: write_full_def split: prod.splits)

text \<open>
  C6: A request reaches the daemon as it was made. When the library has written a message to the
  connection, with any sequence of short writes and interruptions, and the bytes that were written
  arrive at the daemon in segments of any size, then servicing the client consumes all of them and
  leaves the request ready with the fields of the message.
\<close>

theorem request_reaches_daemon:
  assumes "write_full (message_bytes m) s = (Inr (), s')"
    and "message_ok (cl_io_bytes_max c) m" and "reading c"
    and "cl_input c = []" and "cl_expected_input c = sizeof_submit_request"
    and ds: "[] \<notin> set ds" "concat ds = drop (length (so_out s)) (so_out s')"
  shows "service_loop rt False (segments ds, os, c) = (Inr True, [], os, message_client m c)"
proof -
  have "concat ds = message_bytes m @ []" using ds(2) write_full_sends [OF assms(1)] by simp
  from service_loop_decodes [OF assms(2-5) ds(1) this, of rt os] obtain ds' where
    "[] \<notin> set ds'" "concat ds' = []"
    "service_loop rt False (segments ds, os, c) = (Inr True, segments ds', os, message_client m c)"
    by blast
  moreover from this have "ds' = []" by (cases ds') auto
  ultimately show ?thesis by simp
qed

theorem request_reaches_daemon_witness:
  "\<exists>s'. write_full (message_bytes (Msg_nop 0)) \<lparr>so_in = [], so_send = [Sent 5, Send_error EINTR], so_out = [],
        so_rights = []\<rparr> = (Inr (), s')
    \<and> service_loop iouringd_init_runtime False (segments [so_out s'], \<lparr>os_closed = []\<rparr>,
         init_client\<lparr>cl_fd := 4, cl_phase := IOURINGD_CLIENT_PHASE_SUBMIT\<rparr>)
      = (Inr True, [], \<lparr>os_closed = []\<rparr>,
         message_client (Msg_nop 0) (init_client\<lparr>cl_fd := 4, cl_phase := IOURINGD_CLIENT_PHASE_SUBMIT\<rparr>))"
proof -
  let ?s = "\<lparr>so_in = [], so_send = [Sent 5, Send_error EINTR], so_out = [], so_rights = []\<rparr> :: socket_io"
  let ?c = "init_client\<lparr>cl_fd := 4, cl_phase := IOURINGD_CLIENT_PHASE_SUBMIT\<rparr>"
  note init = init_client_def zero_client_def iouringd_init_client_resources_def
    iouringd_reset_client_input_def
  have len: "length (message_bytes (Msg_nop 0)) = 16" by (simp add: message_bytes_def)
  then obtain s' where w: "write_full (message_bytes (Msg_nop 0)) ?s = (Inr (), s')"
    by (simp add: write_full_def prepend_def Let_def)
  have out: "so_out s' = message_bytes (Msg_nop 0)" using write_full_sends [OF w] by simp
  have "message_ok (cl_io_bytes_max ?c) (Msg_nop 0)" "reading ?c" "cl_input ?c = []" "cl_expected_input ?c = 16"
    by (simp_all add: init reading_def iouringd_submit_priority_is_valid_def)
  moreover have "message_bytes (Msg_nop 0) \<noteq> []" using len by auto
  ultimately show ?thesis
    using request_reaches_daemon [OF w, of ?c "[so_out s']" iouringd_init_runtime "\<lparr>os_closed = []\<rparr>"] w out
    by (intro exI [of _ s']) simp
qed

section \<open>Where library and daemon disagree\<close>

text \<open>
  C35: The library accepts paths of up to 4095 bytes for openat, but the daemon's input array has room
  for paths of at most 4091: with a longer one the library sends the request, and the daemon refuses
  its fixed part with EPROTO, for which the event loop closes the connection.
\<close>

theorem openat_long_path_refused:
  assumes "0 \<le> fd" and "4092 \<le> length name" and "length name \<le> 4095"
  shows "iouringd_submit_openat_result fd (Some name) flags mode True L
      = request_then fd (Msg_openat 0 flags mode (name @ [0])) read_submit_result L
    \<and> (\<exists>c'. iouringd_process_submit_input
          (c\<lparr>cl_input := message_fixed (Msg_openat 0 flags mode (name @ [0]))\<rparr>) = (Inl EPROTO, c'))"
proof
  show "iouringd_submit_openat_result fd (Some name) flags mode True L
      = request_then fd (Msg_openat 0 flags mode (name @ [0])) read_submit_result L"
    using assms by (auto simp: iouringd_submit_openat_result_def request_eval)
  let ?m = "Msg_openat 0 flags mode (name @ [0])"
  let ?c = "c\<lparr>cl_input := message_fixed ?m\<rparr>"
  have len: "unat (of_nat (length name + 1) :: u32) = length name + 1"
    using assms(3) by (intro unat_length_small) simp
  have "dec_submit_request (cl_input ?c) = v1_submit 13 0"
    using dec_message_header [of "length (message_fixed ?m)" ?m] message_length [of ?m]
    by (simp add: message_bytes_def)
  moreover have "16 \<le> length (cl_input ?c)" using message_length [of ?m] by simp
  ultimately have "iouringd_process_submit_input ?c = process_path_input (?c\<lparr>cl_request := v1_submit 13 0\<rparr>)"
    using process_guards [of ?c 13 0] by simp
  moreover have "\<exists>c'. process_path_input (?c\<lparr>cl_request := v1_submit 13 0\<rparr>) = (Inl EPROTO, c')"
    using assms(2) len
    by (simp add: process_path_input_def await_input_def await_payload_def Let_def)
  ultimately show "\<exists>c'. iouringd_process_submit_input ?c = (Inl EPROTO, c')" by simp
qed

theorem openat_long_path_refused_witness:
  "\<exists>c'. iouringd_process_submit_input
      (init_client\<lparr>cl_input := message_fixed (Msg_openat 0 0 0 (replicate 4092 97 @ [0]))\<rparr>) = (Inl EPROTO, c')"
  using openat_long_path_refused [of 3 "replicate 4092 97" 0 0 "demo_library []" init_client] by simp

text \<open>
  C36: The submit result with the task identifier whose bytes are those of a protocol header is valid,
  but the library takes it for the start of a completion: when it is all that is in the stream, the
  reply is not found and the call fails.
\<close>

theorem submit_reply_taken_for_completion:
  assumes "receives fd L (enc_submit_result \<lparr>sres_task = 0x000c000131444f49, sres_res = 0, sres_credits = n\<rparr>)"
  shows "submit_result_is_valid \<lparr>sres_task = 0x000c000131444f49, sres_res = 0, sres_credits = n\<rparr>
    \<and> fst (read_submit_result fd L) = Inl EPIPE"
proof
  let ?r = "\<lparr>sres_task = 0x000c000131444f49, sres_res = 0, sres_credits = n\<rparr> :: iouringd_submit_result_v1"
  show "submit_result_is_valid ?r"
    by (simp add: submit_result_is_valid_def task_id_is_invalid_def word_le_nat_alt)
  have "\<not> not_completion (enc_submit_result ?r)" by (simp add: submit_result_header)
  then have v1: "header_is_v1 (dec_protocol_header (enc_submit_result ?r))" by (simp add: not_completion_def)
  obtain ds where ds: "[] \<notin> set ds" "concat ds = enc_submit_result ?r" "so_in (lb_sock L fd) = map In_data ds"
    using assms by (auto simp: receives_def in_stream_def)
  have short: "[] \<notin> set es \<Longrightarrow> length (concat es) < k \<Longrightarrow> \<exists>ins. recv_loop (map In_data es) k = (Inl EPIPE, ins)" for es k
  proof (induction es arbitrary: k)
    case Nil
    then show ?case by (cases k) auto
  next
    case (Cons d es)
    then have "length (concat es) < k - length d" by simp
    then obtain ins where "recv_loop (map In_data es) (k - length d) = (Inl EPIPE, ins)"
      using Cons.IH [of "k - length d"] Cons.prems(1) by auto
    with Cons.prems show ?case by (cases k) auto
  qed
  have "fst (drain_completion_prefix fd L) = Inl EPIPE"
    using short [OF ds(1), of 24] ds v1 peek_received [OF assms]
    by (auto simp: drain_completion_prefix.simps [of fd L] read_completion_with_payload_def on_sock_def
        read_full_def)
  then show "fst (read_submit_result fd L) = Inl EPIPE"
    by (cases "drain_completion_prefix fd L") (simp add: read_submit_result_def)
qed

theorem submit_reply_taken_for_completion_witness:
  "fst (read_submit_result 3 (demo_library
      (enc_submit_result \<lparr>sres_task = 0x000c000131444f49, sres_res = 0, sres_credits = 5\<rparr>))) = Inl EPIPE"
  using submit_reply_taken_for_completion [OF demo_receives] by blast

end
