(* ===== verification/Handshake.thy ===== *)
theory Handshake
  imports Client_Requests
begin

text \<open>
  The connection of a client and the handshake on both sides: src/lib/client.c, and the blocking
  server side of src/daemon/handshake.c. The daemon's own answer is \<open>iouringd_queue_handshake_result\<close>
  in \<open>Parser\<close>; the two servers give the same answer, and the client accepts it when the daemon has
  credits left.
\<close>

section \<open>src/lib/client.c\<close>

text \<open>The calls of \<open>iouringd_client_connect\<close>: socket, fcntl, connect.\<close>

record connect_calls =
  cc_socket :: "errno + int"
  cc_getfd :: "errno + int"
  cc_setfd :: "errno + unit"
  cc_connect :: "errno + unit"

definition set_cloexec :: "connect_calls \<Rightarrow> errno + unit" where
  "set_cloexec k =
     (case cc_getfd k of
        Inl e \<Rightarrow> Inl e
      | Inr flags \<Rightarrow> (case cc_setfd k of Inl e \<Rightarrow> Inl e | Inr _ \<Rightarrow> Inr ()))"

text \<open>The result and the descriptors that were closed.\<close>

definition iouringd_client_connect :: "connect_calls \<Rightarrow> bytes option \<Rightarrow> (int, int list) res" where
  "iouringd_client_connect k socket_path =
     (case socket_path of
        None \<Rightarrow> (Inl EINVAL, [])
      | Some path \<Rightarrow>
          (case cc_socket k of
             Inl e \<Rightarrow> (Inl e, [])
           | Inr fd \<Rightarrow>
               (case set_cloexec k of
                  Inl e \<Rightarrow> (Inl e, [fd])
                | Inr _ \<Rightarrow>
                    if length path \<ge> 108 then (Inl ENAMETOOLONG, [fd])
                    else case cc_connect k of
                      Inl e \<Rightarrow> (Inl e, [fd])
                    | Inr _ \<Rightarrow> (Inr fd, []))))"

definition handshake_request :: iouringd_handshake_request_v1 where
  "handshake_request =
     \<lparr>hq_header = \<lparr>ph_magic = IOURINGD_PROTOCOL_WIRE_MAGIC,
        ph_version_major = IOURINGD_PROTOCOL_V1_MAJOR, ph_version_minor = IOURINGD_PROTOCOL_V1_MINOR\<rparr>,
      hq_abi_major = IOURINGD_ABI_V1_MAJOR, hq_abi_minor = IOURINGD_ABI_V1_MINOR, hq_reserved = 0\<rparr>"

definition handshake_result_is_valid :: "iouringd_handshake_result_v1 \<Rightarrow> bool" where
  "handshake_result_is_valid result =
     (let response = hr_response result; cap = hr_capabilities result in
      if ph_magic (hp_header response) \<noteq> IOURINGD_PROTOCOL_WIRE_MAGIC
         \<or> ph_version_major (hp_header response) \<noteq> IOURINGD_PROTOCOL_V1_MAJOR
         \<or> ph_version_minor (hp_header response) \<noteq> IOURINGD_PROTOCOL_V1_MINOR
         \<or> hp_abi_major response \<noteq> IOURINGD_ABI_V1_MAJOR
         \<or> hp_abi_minor response \<noteq> IOURINGD_ABI_V1_MINOR
         \<or> hp_reserved response \<noteq> 0
         \<or> hp_status response \<noteq> IOURINGD_HANDSHAKE_STATUS_ACCEPT
         \<or> cap_struct_size cap \<noteq> 36
         \<or> cap_ring_entries cap = 0 \<or> cap_cq_entries cap = 0 \<or> cap_op_mask cap = 0
         \<or> cap_op_mask cap AND NOT IOURINGD_CAPABILITY_OP_MASK_V1 \<noteq> 0
         \<or> cap_submit_credits cap = 0
         \<or> cap_submit_credits cap > cap_ring_entries cap
         \<or> cap_registered_fd_slots cap = 0
         \<or> cap_io_bytes_max cap = 0
      then False
      else \<not> (cap_op_mask cap AND (IOURINGD_CAPABILITY_OP_READ_FIXED OR IOURINGD_CAPABILITY_OP_WRITE_FIXED) \<noteq> 0
             \<and> cap_registered_buffer_slots cap = 0))"

definition iouringd_client_handshake_fd ::
  "int \<Rightarrow> bool \<Rightarrow> socket_io \<Rightarrow> (iouringd_handshake_result_v1, socket_io) res" where
  "iouringd_client_handshake_fd fd out s =
     (if fd < 0 \<or> \<not> out then (Inl EINVAL, s)
      else bind_rc (client_write_full (enc_handshake_request handshake_request) s) (\<lambda>_ s1.
      bind_rc (client_read_full sizeof_handshake_result s1) (\<lambda>bs s2.
        let result = dec_handshake_result bs in
        if \<not> handshake_result_is_valid result then (Inl EPROTO, s2) else (Inr result, s2))))"

text \<open>\<open>sock\<close> gives the connection behind a descriptor; the descriptor is closed in the end.\<close>

definition iouringd_client_handshake ::
  "connect_calls \<Rightarrow> (int \<Rightarrow> socket_io) \<Rightarrow> bytes option \<Rightarrow> bool \<Rightarrow> (iouringd_handshake_result_v1, int list) res"
where
  "iouringd_client_handshake k sock socket_path out =
     (if \<not> out then (Inl EINVAL, [])
      else case iouringd_client_connect k socket_path of
        (Inl e, closed) \<Rightarrow> (Inl e, closed)
      | (Inr fd, closed) \<Rightarrow>
          (case iouringd_client_handshake_fd fd True (sock fd) of (r, s) \<Rightarrow> (r, closed @ [fd])))"

definition iouringd_version_string :: string where
  "iouringd_version_string = ''0.1.0''"

definition iouringd_client_version :: string where
  "iouringd_client_version = ''0.1.0''"

section \<open>src/daemon/handshake.c\<close>

definition served_result ::
  "iouringd_capability_descriptor_v1 \<Rightarrow> iouringd_handshake_request_v1 \<Rightarrow> iouringd_handshake_result_v1" where
  "served_result capabilities request =
     (let response =
        \<lparr>hp_header = \<lparr>ph_magic = IOURINGD_PROTOCOL_WIRE_MAGIC,
           ph_version_major = IOURINGD_PROTOCOL_V1_MAJOR,
           ph_version_minor = IOURINGD_PROTOCOL_V1_MINOR\<rparr>,
         hp_abi_major = IOURINGD_ABI_V1_MAJOR, hp_abi_minor = IOURINGD_ABI_V1_MINOR,
         hp_status = IOURINGD_HANDSHAKE_STATUS_ACCEPT, hp_reserved = 0\<rparr>
      in if ph_magic (hq_header request) \<noteq> IOURINGD_PROTOCOL_WIRE_MAGIC
            \<or> ph_version_major (hq_header request) \<noteq> IOURINGD_PROTOCOL_V1_MAJOR
            \<or> ph_version_minor (hq_header request) \<noteq> IOURINGD_PROTOCOL_V1_MINOR
            \<or> hq_abi_major request \<noteq> IOURINGD_ABI_V1_MAJOR
            \<or> hq_abi_minor request \<noteq> IOURINGD_ABI_V1_MINOR
            \<or> hq_reserved request \<noteq> 0
         then \<lparr>hr_response = response\<lparr>hp_status := IOURINGD_HANDSHAKE_STATUS_REJECT\<rparr>,
               hr_capabilities = zero_capabilities\<rparr>
         else \<lparr>hr_response = response, hr_capabilities = capabilities\<rparr>)"

definition iouringd_serve_handshake_client ::
  "iouringd_capability_descriptor_v1 \<Rightarrow> socket_io \<Rightarrow> (u16, socket_io) res" where
  "iouringd_serve_handshake_client capabilities s =
     bind_rc (handshake_read_full sizeof_handshake_request s) (\<lambda>bs s1.
       let result = served_result capabilities (dec_handshake_request bs)
       in bind_rc (handshake_write_full (enc_handshake_result result) s1)
            (\<lambda>_ s2. (Inr (hp_status (hr_response result)), s2)))"

section \<open>The two servers\<close>

text \<open>The request names the protocol and ABI version of this release.\<close>

definition request_accepted :: "iouringd_handshake_request_v1 \<Rightarrow> bool" where
  "request_accepted q \<longleftrightarrow> header_is_v1 (hq_header q) \<and> hq_abi_major q = IOURINGD_ABI_V1_MAJOR
     \<and> hq_abi_minor q = IOURINGD_ABI_V1_MINOR \<and> hq_reserved q = 0"

lemma served_result_cases:
  "served_result cap q = (if request_accepted q
     then \<lparr>hr_response = hr_response (served_result cap handshake_request), hr_capabilities = cap\<rparr>
     else \<lparr>hr_response = (hr_response (served_result cap handshake_request))\<lparr>hp_status := 1\<rparr>,
           hr_capabilities = zero_capabilities\<rparr>)"
  by (auto simp: served_result_def request_accepted_def header_is_v1_def handshake_request_def Let_def)

lemma daemon_answer:
  "iouringd_queue_handshake_result rt q c =
     (let cap = (rt_capabilities rt)\<lparr>cap_submit_credits := iouringd_available_credits rt\<rparr>
      in bind_rc (iouringd_queue_client_output (enc_handshake_result (served_result cap q))
             (if request_accepted q then c\<lparr>cl_phase := IOURINGD_CLIENT_PHASE_SUBMIT\<rparr>
              else c\<lparr>cl_close_after_flush := True\<rparr>))
           (\<lambda>_ c2. (Inr (), iouringd_reset_client_input c2)))"
  unfolding iouringd_queue_handshake_result_def served_result_def request_accepted_def header_is_v1_def Let_def
  by auto

text \<open>
  C31: The event loop and the blocking server of handshake.c answer a handshake alike: on the same
  request bytes, the daemon queues for the client exactly the bytes that the blocking server writes
  when it is given the capabilities of the daemon with the credits that are left, and both accept or
  both refuse: the event loop then moves the client to the submit phase, or closes it after the flush.
\<close>

theorem handshake_servers_agree:
  assumes "in_stream s (enc_handshake_request q)" and "so_send s = []" and "output_ok c"
    and "length (output_pending c) + sizeof_handshake_result \<le> cl_output_capacity c"
    and "cap = (rt_capabilities rt)\<lparr>cap_submit_credits := iouringd_available_credits rt\<rparr>"
  shows "\<exists>answer status s' c'. iouringd_serve_handshake_client cap s = (Inr status, s')
    \<and> so_out s' = so_out s @ answer
    \<and> iouringd_queue_handshake_result rt q c = (Inr (), c')
    \<and> output_pending c' = output_pending c @ answer
    \<and> (status = IOURINGD_HANDSHAKE_STATUS_ACCEPT \<longrightarrow> cl_phase c' = IOURINGD_CLIENT_PHASE_SUBMIT)
    \<and> (status \<noteq> IOURINGD_HANDSHAKE_STATUS_ACCEPT \<longrightarrow> cl_close_after_flush c')"
proof -
  let ?answer = "enc_handshake_result (served_result cap q)"
  let ?status = "hp_status (hr_response (served_result cap q))"
  obtain s1 where r: "read_full 16 s = (Inr (enc_handshake_request q), s1)" and s1: "only_in s s1"
    using stream.read_struct [OF handshake_request.codec_axioms, of s q "[]"] assms(1) by auto
  obtain s2 where w: "write_full ?answer s1 = (Inr (), s2)"
    using s1 assms(2) by (simp add: write_full_def only_in_def)
  have serve: "iouringd_serve_handshake_client cap s = (Inr ?status, s2)"
    using r w by (simp add: iouringd_serve_handshake_client_def handshake_read_full_def handshake_write_full_def
        Let_def)
  have out: "so_out s2 = so_out s @ ?answer" using write_full_sends [OF w] s1 by (simp add: only_in_def)
  let ?c1 = "if request_accepted q then c\<lparr>cl_phase := IOURINGD_CLIENT_PHASE_SUBMIT\<rparr>
    else c\<lparr>cl_close_after_flush := True\<rparr>"
  have c1: "output_ok ?c1" "output_pending ?c1 = output_pending c" "cl_output_capacity ?c1 = cl_output_capacity c"
    using assms(3) by (simp_all add: output_ok_def output_pending_def)
  obtain c2 where q: "iouringd_queue_client_output ?answer ?c1 = (Inr (), c2)"
    "output_pending c2 = output_pending c @ ?answer"
    using outq.put_cases [OF c1(1), of ?answer] assms(4) c1 by auto
  note same = same_but_outputD [OF queue_output_frame [OF q(1)]]
  have "iouringd_queue_handshake_result rt q c = (Inr (), iouringd_reset_client_input c2)"
    using q(1) assms(5) by (simp add: daemon_answer Let_def)
  moreover have "output_pending (iouringd_reset_client_input c2) = output_pending c @ ?answer"
    using q(2) by (simp add: iouringd_reset_client_input_def output_pending_def)
  moreover have "?status = 0 \<longleftrightarrow> request_accepted q"
    unfolding served_result_cases [of cap q] by (simp add: served_result_def handshake_request_def Let_def)
  ultimately show ?thesis
    using serve out same
    by (intro exI [of _ ?answer] exI [of _ ?status] exI [of _ s2] exI [of _ "iouringd_reset_client_input c2"])
      (auto simp: iouringd_reset_client_input_def)
qed

theorem handshake_servers_agree_witness:
  "\<exists>status s' c'. iouringd_serve_handshake_client
        (zero_capabilities\<lparr>cap_submit_credits := iouringd_available_credits iouringd_init_runtime\<rparr>)
        (lb_sock (demo_library (enc_handshake_request handshake_request)) 3) = (Inr status, s')
    \<and> iouringd_queue_handshake_result iouringd_init_runtime handshake_request
        (init_client\<lparr>cl_output_capacity := 4096\<rparr>) = (Inr (), c')
    \<and> output_pending c' = so_out s'"
proof -
  let ?s = "lb_sock (demo_library (enc_handshake_request handshake_request)) 3"
  let ?c = "init_client\<lparr>cl_output_capacity := 4096\<rparr>"
  have "in_stream ?s (enc_handshake_request handshake_request)" using demo_receives [of 3] by (simp add: receives_def)
  moreover have "so_send ?s = []" "so_out ?s = []" by (simp_all add: demo_library_def)
  moreover have "output_ok ?c" "output_pending ?c = []" "cl_output_capacity ?c = 4096"
    by (simp_all add: output_ok_def output_pending_def init_client_def zero_client_def
        iouringd_init_client_resources_def iouringd_reset_client_input_def)
  moreover have "rt_capabilities iouringd_init_runtime = zero_capabilities"
    by (simp only: iouringd_init_runtime_def iouringd_runtime.select_convs)
  ultimately show ?thesis
    using handshake_servers_agree [of ?s handshake_request ?c
      "zero_capabilities\<lparr>cap_submit_credits := iouringd_available_credits iouringd_init_runtime\<rparr>"
      iouringd_init_runtime] by fastforce
qed

section \<open>The client's view\<close>

text \<open>What the daemon advertises is usable: the descriptor a successful start leaves.\<close>

definition capabilities_ok :: "iouringd_capability_descriptor_v1 \<Rightarrow> bool" where
  "capabilities_ok cap \<longleftrightarrow> cap_struct_size cap = 36 \<and> cap_ring_entries cap \<noteq> 0 \<and> cap_cq_entries cap \<noteq> 0
     \<and> cap_op_mask cap \<noteq> 0 \<and> cap_op_mask cap AND NOT IOURINGD_CAPABILITY_OP_MASK_V1 = 0
     \<and> cap_registered_fd_slots cap \<noteq> 0 \<and> cap_registered_buffer_slots cap \<noteq> 0 \<and> cap_io_bytes_max cap \<noteq> 0"

lemma client_handshake_reads:
  assumes "0 \<le> fd" and "so_send s = []" and "in_stream s (enc_handshake_result h)"
  shows "\<exists>s'. iouringd_client_handshake_fd fd True s
    = (if handshake_result_is_valid h then Inr h else Inl EPROTO, s')"
proof -
  let ?s1 = "s\<lparr>so_out := so_out s @ enc_handshake_request handshake_request\<rparr>"
  have w: "write_full (enc_handshake_request handshake_request) s = (Inr (), ?s1)"
    using assms(2) by (cases s) (simp add: write_full_def handshake_request.enc_length)
  have "in_stream ?s1 (enc_handshake_result h @ [])" using assms(3) by (simp add: in_stream_def)
  then obtain s2 where "read_full 52 ?s1 = (Inr (enc_handshake_result h), s2)"
    using stream.read_struct [OF handshake_result.codec_axioms, of ?s1 h "[]"] by auto
  with w assms(1) show ?thesis
    by (simp add: iouringd_client_handshake_fd_def client_write_full_def client_read_full_def Let_def)
qed

text \<open>
  C33: A client can complete the handshake with a daemon of its own version exactly when the daemon has
  a credit left. The daemon advertises the credits that are left at that moment, and the library
  treats an answer without credits as a protocol error: while as many tasks are in flight as the
  daemon has credits, a new client is accepted by the daemon and fails with EPROTO on its own side.
\<close>

theorem handshake_needs_credit:
  assumes "0 \<le> fd" and "so_send s = []" and caps: "capabilities_ok (rt_capabilities rt)"
    and capacity: "rt_task_capacity rt \<le> unat (cap_ring_entries (rt_capabilities rt))"
      "rt_outstanding_credit_tasks rt \<le> rt_task_capacity rt"
    and answer: "h = served_result ((rt_capabilities rt)\<lparr>cap_submit_credits := iouringd_available_credits rt\<rparr>)
      handshake_request"
    and "in_stream s (enc_handshake_result h)"
  shows "fst (iouringd_client_handshake_fd fd True s)
    = (if rt_outstanding_credit_tasks rt = rt_task_capacity rt then Inl EPROTO else Inr h)"
proof -
  let ?n = "rt_task_capacity rt - rt_outstanding_credit_tasks rt"
  have small: "rt_task_capacity rt < 2 ^ 32"
    using capacity(1) unsigned_less [where ?'a = nat, of "cap_ring_entries (rt_capabilities rt)"] by simp
  have "iouringd_available_credits rt = of_nat ?n"
    using capacity(2) small by (simp add: iouringd_available_credits_def)
  moreover have u: "unat (of_nat ?n :: u32) = ?n" using small by (simp add: unat_of_nat take_bit_eq_mod)
  moreover from this have "(of_nat ?n :: u32) = 0 \<longleftrightarrow> ?n = 0" by (metis unat_eq_zero)
  ultimately have "handshake_result_is_valid h \<longleftrightarrow> ?n \<noteq> 0"
    using caps capacity(1) u
    by (simp add: answer served_result_def handshake_request_def Let_def handshake_result_is_valid_def
        capabilities_ok_def word_less_nat_alt) arith
  moreover have "?n = 0 \<longleftrightarrow> rt_outstanding_credit_tasks rt = rt_task_capacity rt" using capacity(2) by auto
  ultimately show ?thesis
    using client_handshake_reads [OF assms(1,2,7)] by auto
qed

definition demo_capabilities :: iouringd_capability_descriptor_v1 where
  "demo_capabilities =
     \<lparr>cap_struct_size = 36, cap_features = 0, cap_ring_entries = 8, cap_cq_entries = 16, cap_op_mask = 1,
      cap_submit_credits = 7, cap_registered_fd_slots = 32, cap_registered_buffer_slots = 4,
      cap_io_bytes_max = 4096\<rparr>"

theorem handshake_needs_credit_witness:
  "let rt = iouringd_init_runtime\<lparr>rt_capabilities := demo_capabilities, rt_task_capacity := 7,
         rt_outstanding_credit_tasks := 7\<rparr>
   in fst (iouringd_client_handshake_fd 3 True (lb_sock (demo_library (enc_handshake_result
        (served_result (demo_capabilities\<lparr>cap_submit_credits := iouringd_available_credits rt\<rparr>)
          handshake_request))) 3)) = Inl EPROTO"
proof -
  let ?rt = "iouringd_init_runtime\<lparr>rt_capabilities := demo_capabilities, rt_task_capacity := 7,
    rt_outstanding_credit_tasks := 7\<rparr>"
  let ?h = "served_result (demo_capabilities\<lparr>cap_submit_credits := iouringd_available_credits ?rt\<rparr>) handshake_request"
  let ?s = "lb_sock (demo_library (enc_handshake_result ?h)) 3"
  have "in_stream ?s (enc_handshake_result ?h)" using demo_receives [of 3] by (simp add: receives_def)
  moreover have "so_send ?s = []" by (simp add: demo_library_def)
  moreover have "capabilities_ok demo_capabilities" by (simp add: capabilities_ok_def demo_capabilities_def)
  ultimately show ?thesis
    using handshake_needs_credit [of 3 ?s ?rt ?h] by (simp add: demo_capabilities_def Let_def)
qed

end
