(* ===== verification/Scenario.thy ===== *)
theory Scenario
  imports Reachable Handshake
begin

text \<open>
  A run of the daemon in which a task is in flight: the daemon starts, accepts a client, answers its
  handshake and takes its openat. The state after it is reachable and busy, so the properties of
  reachable states are about more than the start.
\<close>

section \<open>The start\<close>

definition session_boot :: boot where
  "session_boot = demo_boot\<lparr>bt_setup := (bt_setup demo_boot)\<lparr>ks_probe :=
     Inr [\<lparr>po_op = IORING_OP_NOP, po_flags = 1\<rparr>, \<lparr>po_op = IORING_OP_OPENAT, po_flags = 1\<rparr>]\<rparr>\<rparr>"

definition session_args :: "string list" where
  "session_args = [''--ring-entries'', ''8'', ''--max-clients'', ''1'', ''/run/iouringd'']"

text \<open>What the later steps need of the daemon beside its clients and tasks.\<close>

definition session_base :: "iouringd_runtime \<Rightarrow> bool" where
  "session_base rt \<longleftrightarrow> lim_max_clients (rt_limits rt) = 1 \<and> lim_registered_fds_per_client (rt_limits rt) = 32
     \<and> lim_io_bytes_max (rt_limits rt) = 4096 \<and> lim_registered_buffers_per_client (rt_limits rt) = 1
     \<and> rt_task_capacity rt = 7 \<and> rt_ring_capacity rt = 8 \<and> rt_per_client_credit_limit rt = 7
     \<and> 4096 \<le> rt_client_output_capacity rt \<and> rt_client_output_capacity rt \<le> 300000
     \<and> rt_outstanding_tasks rt = 0 \<and> rt_outstanding_credit_tasks rt = 0 \<and> rt_next_task_id rt = 1
     \<and> rt_server_fd rt = 3 \<and> cap_op_mask (rt_capabilities rt) = 0x401
     \<and> rt_tasks rt = replicate 64 iouringd_clear_task_slot \<and> length (rt_clients rt) = 64
     \<and> rg_ring_fd (rt_ring rt) = 4 \<and> rg_sq_head (rt_ring rt) = 0 \<and> rg_sq_tail (rt_ring rt) = 0
     \<and> rg_sq_ring_entries (rt_ring rt) = 8 \<and> rg_cq_head (rt_ring rt) = rg_cq_tail (rt_ring rt)"

lemma session_starts:
  "\<exists>rt. daemon_start session_boot session_args = Inr rt \<and> session_base rt \<and> rt_clients rt = replicate 64 init_client"
proof -
  have "iouringd_parse_unsigned_arg ''8'' = Inr 8" "iouringd_parse_unsigned_arg ''1'' = Inr 1"
    by (simp_all add: iouringd_parse_unsigned_arg_def strtoul_def Let_def is_space_def is_digit_def
        decimal_def digit_value_def)
  moreover define rt where "rt = iouringd_init_runtime\<lparr>rt_limits := iouringd_init_limits\<lparr>lim_ring_entries := 8,
      lim_max_clients := 1\<rparr>, rt_registered_file_capacity := 32, rt_registered_buffer_capacity := 1\<rparr>"
  ultimately obtain opts where p: "iouringd_parse_args session_args iouringd_init_runtime = Inr (rt, opts, ''/run/iouringd'')"
    by (simp add: iouringd_parse_args_def session_args_def Let_def limits_ok_def init_limits
        iouringd_init_limits_def)
  have mask: "probe_op_mask [\<lparr>po_op = IORING_OP_NOP, po_flags = 1\<rparr>, \<lparr>po_op = IORING_OP_OPENAT, po_flags = 1\<rparr>] = 0x401"
    by code_simp
  obtain flags cap where r: "iouringd_ring_init (bt_setup session_boot) 8 = Inr (4, flags, cap)"
      "cap_ring_entries cap = 8" "cap_op_mask cap = 0x401"
    using mask by (simp add: iouringd_ring_init_def session_boot_def demo_boot_def ring_setup_best_effort_def
        ring_setup_with_flags_def Let_def)
  have lim: "lim_ring_entries (rt_limits rt) = 8" by (simp add: rt_def)
  obtain rt1 where s1: "start_ring session_boot rt = Inr rt1" and rt1: "session_base (rt1\<lparr>rt_server_fd := 3\<rparr>)"
      "rt_clients rt1 = replicate 64 init_client"
    using r by (simp add: start_ring_def lim Let_def mapped_ring_def iouringd_ring_capacity_def session_boot_def demo_boot_def
        iouringd_ring_init_registered_files_def iouringd_ring_init_registered_buffers_def
        iouringd_init_registered_buffer_storage_def rt_def iouringd_init_limits_def set_capacities_def
        output_capacity_def session_base_def iouringd_init_runtime_def closed_ring_def)
  have "daemon_start session_boot session_args = Inr (rt1\<lparr>rt_server_fd := 3\<rparr>)"
    using p s1 by (simp add: daemon_start_def session_args_def start_sockets_def session_boot_def demo_boot_def)
  with rt1 show ?thesis by simp
qed

section \<open>Turns of a daemon with one client\<close>

text \<open>The kernel of \<open>demo_sys\<close> accepts submissions and completes nothing.\<close>

definition polled :: "iouringd_runtime \<Rightarrow> iouringd_runtime" where
  "polled rt = rt\<lparr>rt_ring := (rt_ring rt)\<lparr>rg_calls := Suc (rg_calls (rt_ring rt))\<rparr>\<rparr>"

lemma reap_idle:
  "rg_cq_head (rt_ring rt) = rg_cq_tail (rt_ring rt)
    \<Longrightarrow> iouringd_reap_completions demo_sys rt = Some (Inr False, polled rt)"
  by (simp add: iouringd_reap_completions_def reap_loop.simps iouringd_ring_peek_completion_def demo_sys_def
      prompt_kernel_def polled_def)

text \<open>No slot of the client is to be released, and its output is not to be followed by a close.\<close>

definition settled :: "iouringd_client \<Rightarrow> bool" where
  "settled c \<longleftrightarrow> (\<forall>j < cl_file_slot_limit c. \<not> fs_closing (cl_file_resources c ! j))
     \<and> (\<forall>j < cl_buffer_slot_limit c. \<not> bs_closing (cl_buffer_resources c ! j)) \<and> \<not> cl_close_after_flush c"

lemma sweep_idle:
  assumes "lim_max_clients (rt_limits rt) = 1" and "settled (client_at rt 0)"
  shows "iouringd_sweep_closing_resources sys rt = (Inr False, rt)"
proof -
  have "sweep_files sys 0 js p rt = (Inr p, rt)" if "\<forall>j \<in> set js. j < cl_file_slot_limit (client_at rt 0)" for js p
    using that assms(2) by (induction js) (auto simp: settled_def Let_def)
  moreover have "sweep_buffers 0 js p rt = (Inr p, rt)" if "\<forall>j \<in> set js. j < cl_buffer_slot_limit (client_at rt 0)" for js p
    using that assms(2) by (induction js) (auto simp: settled_def Let_def)
  ultimately show ?thesis using assms(1) by (simp add: iouringd_sweep_closing_resources_def)
qed

lemma flush_idle:
  assumes "lim_max_clients (rt_limits rt) = 1" and "length (rt_clients rt) = 64" and "settled (client_at rt 0)"
  shows "iouringd_flush_client_outputs (\<lambda>_. []) rt = (False, rt)"
  using assms
  by (simp add: iouringd_flush_client_outputs_def flush_or_close_def iouringd_client_has_output_def Let_def
      flush_blocked settled_def set_client_def)

text \<open>A turn in which the client sends something and nothing else happens.\<close>

definition sending :: "bytes \<Rightarrow> env" where
  "sending bs = \<lparr>en_recv = (\<lambda>_. [Recv_data bs [] False]), en_write = (\<lambda>_. []), en_stop = False, en_poll = Inl EINTR,
     en_poll_stop = False, en_accept = [], en_event_recv = (\<lambda>_. []), en_event_write = (\<lambda>_. [])\<rparr>"

lemma sending_turn:
  assumes "lim_max_clients (rt_limits rt) = 1" and "iouringd_client_is_active (client_at rt 0)"
    and "service_loop rt False ([Recv_data bs [] False], rt_os rt, client_at rt 0) = (Inr True, ws, rt_os rt, c)"
    and "iouringd_dispatch_ready_requests demo_sys (set_client 0 c rt) = (Inr p, rt')"
    and "lim_max_clients (rt_limits rt') = 1" and "length (rt_clients rt') = 64"
    and "rg_cq_head (rt_ring rt') = rg_cq_tail (rt_ring rt')" and "settled (client_at rt' 0)"
  shows "run_turn demo_sys (sending bs) rt = Some (Inr True, polled rt')"
proof -
  have "iouringd_service_ready_inputs (en_recv (sending bs)) rt = (Inr True, set_client 0 c rt)"
    using assms(1-3) by (simp add: iouringd_service_ready_inputs_def iouringd_service_client_readable_def sending_def)
  moreover have "settled (client_at (polled rt') 0)" "lim_max_clients (rt_limits (polled rt')) = 1"
    "length (rt_clients (polled rt')) = 64" using assms(5,6,8) by (simp_all add: polled_def)
  ultimately show ?thesis
    using assms(4) reap_idle [OF assms(7)] sweep_idle [of "polled rt'"] flush_idle [of "polled rt'"]
    by (simp add: run_turn_def sending_def)
qed

section \<open>Accepting the client\<close>

definition accepting :: env where
  "accepting = (sending [])\<lparr>en_recv := (\<lambda>_. []),
     en_poll := Inr (\<lambda>slot. \<lparr>re_in = (slot = Poll_server), re_out = False, re_err = False\<rparr>),
     en_accept := [\<lparr>ae_result = Inr 5, ae_cloexec = None, ae_nonblock = True, ae_memory = True, ae_stop = False\<rparr>,
       \<lparr>ae_result = Inl EAGAIN, ae_cloexec = None, ae_nonblock = True, ae_memory = True, ae_stop = False\<rparr>]\<rparr>"

definition session_client :: "iouringd_runtime \<Rightarrow> iouringd_client" where
  "session_client rt = opened_client rt 5 init_client"

lemma init_client_settled: "settled init_client" "client_slot_unused init_client" "\<not> iouringd_client_is_active init_client"
  by (simp_all add: settled_def client_slot_unused_def iouringd_client_is_active_def init_client_def
      iouringd_reset_client_input_def iouringd_init_client_resources_def zero_client_def
      iouringd_client_has_retained_resources_def empty_file_slot_def empty_buffer_slot_def find_slot_None)

lemma accepting_turn:
  assumes base: "session_base rt" and "rt_clients rt = replicate 64 init_client"
  shows "\<exists>rt'. run_turn demo_sys accepting rt = Some (Inr True, rt') \<and> session_base rt'
    \<and> client_at rt' 0 = session_client rt \<and> rt_limits rt' = rt_limits rt"
proof -
  have lim: "lim_max_clients (rt_limits rt) = 1" and idle: "rg_cq_head (rt_ring rt) = rg_cq_tail (rt_ring rt)"
    using base by (simp_all add: session_base_def)
  have c: "client_at rt 0 = init_client" using assms(2) by simp
  let ?rt = "polled rt"
  have p: "lim_max_clients (rt_limits ?rt) = 1" "client_at ?rt 0 = init_client" "length (rt_clients ?rt) = 64"
    "rt_server_fd ?rt = 3" "rt_outstanding_tasks ?rt = 0"
    using base lim c by (simp_all add: polled_def session_base_def)
  have "iouringd_service_ready_inputs (en_recv accepting) rt = (Inr False, rt)"
    using lim c init_client_settled by (simp add: iouringd_service_ready_inputs_def)
  moreover have "iouringd_dispatch_ready_requests demo_sys rt = (Inr False, rt)"
    using lim c init_client_settled by (simp add: iouringd_dispatch_ready_requests_def Let_def)
  moreover have "iouringd_sweep_closing_resources demo_sys ?rt = (Inr False, ?rt)"
    by (rule sweep_idle) (simp_all add: p init_client_settled)
  moreover have "iouringd_flush_client_outputs (\<lambda>_. []) ?rt = (False, ?rt)"
    by (rule flush_idle) (simp_all add: p init_client_settled)
  moreover have "iouringd_build_pollfds ?rt = [\<lparr>pf_fd = 3, pf_in = True, pf_out = False, pf_slot = Poll_server\<rparr>]"
    using p init_client_settled by (simp add: iouringd_build_pollfds_def poll_client_def Let_def)
  moreover have "find_slot client_slot_unused 1 (rt_clients ?rt) = Some 0"
    using p init_client_settled by (simp add: find_slot_first)
  ultimately have "run_turn demo_sys accepting rt = Some (Inr True, (set_client 0 (opened_client ?rt 5 init_client) ?rt)
      \<lparr>rt_next_client_generation := rt_next_client_generation ?rt + 1\<rparr>)"
    using reap_idle [OF idle] p
    by (simp add: run_turn_def accepting_def sending_def wait_for_events_def poll_event_def
        iouringd_accept_clients_def iouringd_open_client_def)
  moreover have "opened_client ?rt 5 init_client = session_client rt"
    by (simp add: session_client_def opened_client_def polled_def)
  ultimately show ?thesis
    using base by (simp add: session_base_def set_client_def polled_def)
qed

section \<open>The handshake\<close>

text \<open>What the later steps need of the client.\<close>

definition session_ready :: "iouringd_client \<Rightarrow> bool" where
  "session_ready c \<longleftrightarrow> cl_fd c = 5 \<and> \<not> cl_close_after_flush c \<and> \<not> cl_request_ready c \<and> cl_received_fd c = - 1
     \<and> cl_input c = [] \<and> cl_expected_input c = 16 \<and> length (cl_output c) \<le> 64 \<and> cl_output_sent c = 0
     \<and> 4096 \<le> cl_output_capacity c \<and> cl_output_capacity c \<le> 300000
     \<and> cl_file_slot_limit c = 32 \<and> cl_buffer_slot_limit c = 1 \<and> cl_io_bytes_max c = 4096
     \<and> cl_file_resources c = replicate 32 empty_file_slot \<and> cl_buffer_resources c = replicate 4 empty_buffer_slot
     \<and> cl_next_resource_id c = 1 \<and> cl_outstanding_credit_tasks c = 0 \<and> cl_outstanding_tasks c = 0"

lemma session_client_ready:
  "session_base rt \<Longrightarrow> session_ready (session_client rt) \<and> cl_phase (session_client rt) = IOURINGD_CLIENT_PHASE_HANDSHAKE
    \<and> cl_output (session_client rt) = []"
  by (simp add: session_ready_def session_base_def session_client_def opened_client_def
      iouringd_reset_client_input_def iouringd_init_client_resources_def)

lemma session_settled: "session_ready c \<Longrightarrow> settled c \<and> iouringd_client_is_active c"
  by (simp add: session_ready_def settled_def iouringd_client_is_active_def empty_file_slot_def empty_buffer_slot_def)

lemma read_all_at_once:
  assumes "cl_input c = []" and "cl_expected_input c = length bs" and "bs \<noteq> []"
  shows "iouringd_read_client_input ([Recv_data bs [] False], os, c) = (Inr Read_full, [], os, c\<lparr>cl_input := bs\<rparr>)"
  using assms by (simp add: iouringd_read_client_input.simps [of "[Recv_data bs [] False]"]
      iouringd_read_client_input.simps [of "[]"] unread_def)

lemma handshake_served:
  assumes "session_ready c" and "cl_phase c = IOURINGD_CLIENT_PHASE_HANDSHAKE" and "cl_output c = []"
  shows "\<exists>c'. service_loop rt False ([Recv_data (enc_handshake_request handshake_request) [] False], os, c)
      = (Inr True, [], os, c') \<and> session_ready c' \<and> cl_phase c' = IOURINGD_CLIENT_PHASE_SUBMIT \<and> cl_output c' \<noteq> []"
proof -
  let ?bs = "enc_handshake_request handshake_request"
  have len: "length ?bs = 16" by (simp add: handshake_request.enc_length)
  then have read: "iouringd_read_client_input ([Recv_data ?bs [] False], os, c)
      = (Inr Read_full, [], os, c\<lparr>cl_input := ?bs\<rparr>)"
    using assms by (intro read_all_at_once) (auto simp: session_ready_def simp flip: length_greater_0_conv)
  have "request_accepted handshake_request"
    by (simp add: request_accepted_def handshake_request_def header_is_v1_def)
  then obtain c' where "iouringd_queue_handshake_result rt handshake_request (c\<lparr>cl_input := ?bs\<rparr>) = (Inr (), c')"
    "session_ready c'" "cl_phase c' = IOURINGD_CLIENT_PHASE_SUBMIT" "cl_output c' \<noteq> []"
    using assms(1,3) by (simp flip: length_greater_0_conv add: daemon_answer iouringd_queue_client_output_def session_ready_def size_sub_def
        iouringd_reset_client_input_def handshake_result.enc_length Let_def)
  with read assms show ?thesis by (simp add: service_loop.simps session_ready_def)
qed

lemma handshake_turn:
  assumes base: "session_base rt" and c: "session_ready (client_at rt 0)"
    "cl_phase (client_at rt 0) = IOURINGD_CLIENT_PHASE_HANDSHAKE" "cl_output (client_at rt 0) = []"
  shows "\<exists>rt'. run_turn demo_sys (sending (enc_handshake_request handshake_request)) rt = Some (Inr True, rt')
    \<and> session_base rt' \<and> session_ready (client_at rt' 0) \<and> cl_phase (client_at rt' 0) = IOURINGD_CLIENT_PHASE_SUBMIT
    \<and> cl_output (client_at rt' 0) \<noteq> []"
proof -
  obtain c' where s: "service_loop rt False ([Recv_data (enc_handshake_request handshake_request) [] False],
      rt_os rt, client_at rt 0) = (Inr True, [], rt_os rt, c')" "session_ready c'"
      "cl_phase c' = IOURINGD_CLIENT_PHASE_SUBMIT" "cl_output c' \<noteq> []"
    using handshake_served [OF c] by blast
  let ?rt = "set_client 0 c' rt"
  have at: "client_at ?rt 0 = c'" "session_base ?rt" using base by (simp_all add: session_base_def set_client_def)
  have "iouringd_dispatch_ready_requests demo_sys ?rt = (Inr False, ?rt)"
    using at s(2) by (simp add: iouringd_dispatch_ready_requests_def session_base_def session_ready_def Let_def)
  then have "run_turn demo_sys (sending (enc_handshake_request handshake_request)) rt = Some (Inr True, polled ?rt)"
    using base at s session_settled c(1) by (intro sending_turn [OF _ _ s(1)]) (auto simp: session_base_def)
  moreover have "session_base (polled ?rt)" "client_at (polled ?rt) 0 = c'"
    using at by (simp_all add: session_base_def polled_def)
  ultimately show ?thesis using s(2-4) by auto
qed

section \<open>A task in flight\<close>

definition openat_message :: request_message where
  "openat_message = Msg_openat IOURINGD_SUBMIT_PRIORITY_NORMAL 0 0 [97, 0]"

lemma openat_served:
  assumes "session_ready c" and "cl_phase c = IOURINGD_CLIENT_PHASE_SUBMIT"
  shows "service_loop rt False ([Recv_data (message_bytes openat_message) [] False], os, c)
    = (Inr True, [], os, message_client openat_message c)"
proof -
  have "message_ok (cl_io_bytes_max c) openat_message" "reading c" "cl_input c = []" "cl_expected_input c = 16"
    using assms by (simp_all add: session_ready_def reading_def openat_message_def iouringd_submit_priority_is_valid_def)
  moreover have ne: "message_bytes openat_message \<noteq> []" by (simp add: message_bytes_def openat_message_def)
  ultimately obtain ds where "[] \<notin> set ds" "concat ds = []"
    "service_loop rt False (segments [message_bytes openat_message], os, c) = (Inr True, segments ds, os, message_client openat_message c)"
    using service_loop_decodes [of c openat_message "[message_bytes openat_message]" "[]" rt os] by auto
  moreover from this have "ds = []" by (cases ds) auto
  ultimately show ?thesis by simp
qed

lemmas openat_client = message_client_def openat_message_def session_ready_def set_request_args_def v1_submit_def

lemma openat_admitted:
  assumes "session_base rt" and "session_ready c"
  shows "submit_error rt (message_client openat_message c) = None"
    and "iouringd_find_free_file_slot (message_client openat_message c) = Some 0"
    and "iouringd_allocate_resource_id (message_client openat_message c)
      = (1, (message_client openat_message c)\<lparr>cl_next_resource_id := 2\<rparr>)"
    and "iouringd_find_free_task_slot rt = Some 0"
proof -
  show "submit_error rt (message_client openat_message c) = None" using assms
    by (simp add: submit_error_def admission_error_def cancel_error_def capability_error_def argument_error_def
        session_base_def openat_client uses_credit_def Let_def)
  show "iouringd_find_free_file_slot (message_client openat_message c) = Some 0" using assms(2)
    by (simp add: iouringd_find_free_file_slot_def find_slot_first openat_client empty_file_slot_def fs_free_def)
  let ?c = "message_client openat_message c"
  have "cl_file_slot_limit ?c + cl_buffer_slot_limit ?c = Suc 32" "cl_next_resource_id ?c = 1"
    "\<not> iouringd_resource_id_in_use (?c\<lparr>cl_next_resource_id := 2\<rparr>) 1" using assms(2)
    by (simp_all add: openat_client iouringd_resource_id_in_use_def find_slot_None empty_file_slot_def
        empty_buffer_slot_def)
  then show "iouringd_allocate_resource_id ?c = (1, ?c\<lparr>cl_next_resource_id := 2\<rparr>)"
    by (simp only: iouringd_allocate_resource_id_def allocate_attempts.simps Let_def) simp
  show "iouringd_find_free_task_slot rt = Some 0" using assms(1)
    by (simp add: iouringd_find_free_task_slot_def find_slot_first session_base_def iouringd_clear_task_slot_def)
qed

lemma accept_with_room:
  assumes "i < length (rt_clients rt)" and "c = client_at rt i" and "cl_output_sent c = 0" and "cl_output c \<noteq> []"
    and "length (cl_output c) + 16 \<le> cl_output_capacity c" and "cl_output_capacity c \<le> 300000"
  shows "\<exists>rt' n m out. accept_request sys i t undo rt = (Inr True, rt') \<and> rt_tasks rt' = rt_tasks rt
    \<and> rt_limits rt' = rt_limits rt \<and> rt_ring rt' = rt_ring rt \<and> length (rt_clients rt') = length (rt_clients rt)
    \<and> client_at rt' i = iouringd_finish_client_request (c\<lparr>cl_outstanding_tasks := n, cl_outstanding_credit_tasks := m,
        cl_output := out\<rparr>)"
proof -
  let ?rt1 = "count_task i (tk_consumes_credit t) rt"
  let ?c1 = "client_at ?rt1 i"
  obtain n m where c1: "?c1 = c\<lparr>cl_outstanding_tasks := n, cl_outstanding_credit_tasks := m\<rparr>"
    using assms(1,2) by (simp add: count_task_def upd_client_def set_client_def)
  have "iouringd_queue_client_output bs ?c1 = (Inr (), ?c1\<lparr>cl_output := cl_output c @ bs\<rparr>)" if "length bs = 16" for bs
    using assms(3-6) that c1 by (simp add: iouringd_queue_client_output_def Let_def)
  then obtain bs where "iouringd_queue_submit_result i (tk_task_id t) IOURINGD_COMPLETION_RES_OK ?rt1
      = (Inr (), set_client i (?c1\<lparr>cl_output := cl_output c @ bs\<rparr>) ?rt1)"
    by (simp add: iouringd_queue_submit_result_def on_client_def submit_result.enc_length)
  with assms(1) c1 show ?thesis
    by (simp add: accept_request_def finish_request_def upd_client_def set_client_def count_task_def) blast
qed

lemma openat_dispatched:
  assumes base: "session_base rt" and ready: "session_ready c" "cl_output c \<noteq> []" and at: "client_at rt 0 = message_client openat_message c"
  shows "\<exists>rt' t. iouringd_dispatch_client_request demo_sys 0 rt = (Inr True, rt')
    \<and> rt_tasks rt' = (rt_tasks rt)[0 := t] \<and> tk_active t \<and> tk_task_kind t = IOURINGD_TASK_KIND_OPENAT
    \<and> tk_result_file_slot_index t = 0 \<and> tk_client_index t = 0
    \<and> rt_limits rt' = rt_limits rt \<and> length (rt_clients rt') = 64
    \<and> rg_cq_head (rt_ring rt') = rg_cq_tail (rt_ring rt')
    \<and> settled (client_at rt' 0) \<and> \<not> cl_request_ready (client_at rt' 0)"
proof -
  let ?c = "message_client openat_message c"
  let ?c1 = "?c\<lparr>cl_next_resource_id := 2\<rparr>"
  let ?rt1 = "set_client 0 ?c1 rt"
  let ?t = "open_task 0 0 1 ?rt1"
  let ?rt2 = "upd_client 0 (set_file_slot 0 (reserve_slot 1)) (set_task 0 ?t ?rt1)"
  note adm = openat_admitted [OF base ready(1)]
  have free: "iouringd_find_free_task_slot ?rt1 = Some 0"
    using adm(4) by (simp add: iouringd_find_free_task_slot_def set_client_def)
  have ring2: "rt_ring ?rt2 = rt_ring rt" by (simp add: upd_client_def set_client_def set_task_def)
  obtain ring where ring: "iouringd_ring_submit_openat (s_kernel demo_sys) (tk_task_id ?t) (- 100)
      (s_addr demo_sys (Task_io_buffer 0)) (tk_open_flags ?t) (tk_open_mode ?t) (tk_submit_priority ?t) (rt_ring rt)
      = (Inr (), ring)" "rg_cq_head ring = rg_cq_tail ring"
    using base by (simp add: iouringd_ring_submit_openat_def ring_queue_openat_sqe_def ring_publish_sqe_def
        ring_sq_full_def ring_store_sqe_def demo_sys_def prompt_kernel_def session_base_def Let_def)
  let ?rt3 = "?rt2\<lparr>rt_ring := ring\<rparr>"
  let ?undo = "\<lambda>e rt. (Inl e, set_task 0 iouringd_clear_task_slot (unreserve_slot 0 0 rt))"
  have "on_ring (iouringd_ring_submit_openat (s_kernel demo_sys) (tk_task_id ?t) (- 100)
        (s_addr demo_sys (Task_io_buffer 0)) (tk_open_flags ?t) (tk_open_mode ?t) (tk_submit_priority ?t)) ?rt2
      = (Inr (), ?rt3)"
    using ring ring2 by (simp add: on_ring_def)
  then have "dispatch_openat demo_sys 0 rt = accept_request demo_sys 0 ?t ?undo ?rt3"
    using base adm free at by (simp add: dispatch_openat_def session_base_def word_le_nat_alt Let_def)
  moreover have "cl_request_ready ?c" "cl_control_op ?c = 0" "sr_task_kind (cl_request ?c) = IOURINGD_TASK_KIND_OPENAT"
    by (simp_all add: openat_client)
  ultimately have dispatched: "iouringd_dispatch_client_request demo_sys 0 rt = accept_request demo_sys 0 ?t ?undo ?rt3"
    using adm(1) at by (simp add: iouringd_dispatch_client_request_def dispatch_submit_def Let_def)
  have len: "length (rt_clients rt) = 64" "length (rt_tasks rt) = 64" using base by (simp_all add: session_base_def)
  let ?c2 = "set_file_slot 0 (reserve_slot 1) ?c1"
  have c3: "client_at ?rt3 0 = ?c2" "rt_tasks ?rt3 = (rt_tasks rt)[0 := ?t]" "rt_limits ?rt3 = rt_limits rt"
    using len by (simp_all add: upd_client_def set_client_def set_task_def)
  have room: "0 < length (rt_clients ?rt3)" "cl_output_sent ?c2 = 0" "cl_output ?c2 \<noteq> []"
    "length (cl_output ?c2) + 16 \<le> cl_output_capacity ?c2" "cl_output_capacity ?c2 \<le> 300000"
    using len ready by (simp_all add: upd_client_def set_client_def set_task_def set_file_slot_def openat_client)
  obtain rt' n m out where
    a: "accept_request demo_sys 0 ?t ?undo ?rt3 = (Inr True, rt')" "rt_tasks rt' = rt_tasks ?rt3"
      "rt_limits rt' = rt_limits ?rt3" "rt_ring rt' = rt_ring ?rt3" "length (rt_clients rt') = length (rt_clients ?rt3)"
      "client_at rt' 0 = iouringd_finish_client_request (?c2\<lparr>cl_outstanding_tasks := n, cl_outstanding_credit_tasks := m,
        cl_output := out\<rparr>)"
    using accept_with_room [OF room(1) c3(1) [symmetric] room(2-), of demo_sys ?t ?undo] by blast
  have "settled (client_at rt' 0)" "\<not> cl_request_ready (client_at rt' 0)"
    using ready(1) by (simp_all add: a(6) settled_def iouringd_finish_client_request_def set_file_slot_def openat_client
        reserve_slot_def nth_list_update empty_file_slot_def empty_buffer_slot_def)
  moreover have "tk_active ?t" "tk_task_kind ?t = IOURINGD_TASK_KIND_OPENAT" "tk_result_file_slot_index ?t = 0"
    "tk_client_index ?t = 0"
    using len by (simp_all add: open_task_def new_task_def set_client_def openat_client Let_def)
  moreover have "length (rt_clients ?rt3) = 64"
    using len by (simp add: upd_client_def set_client_def set_task_def)
  ultimately show ?thesis using dispatched a c3(2,3) ring(2)
    by (intro exI [of _ rt'] exI [of _ ?t]) simp
qed

lemma openat_turn:
  assumes base: "session_base rt" and c: "session_ready (client_at rt 0)" "cl_output (client_at rt 0) \<noteq> []"
    "cl_phase (client_at rt 0) = IOURINGD_CLIENT_PHASE_SUBMIT"
  shows "\<exists>rt'. run_turn demo_sys (sending (message_bytes openat_message)) rt = Some (Inr True, rt')
    \<and> tk_active (task_at rt' 0) \<and> tk_task_kind (task_at rt' 0) = IOURINGD_TASK_KIND_OPENAT
    \<and> tk_result_file_slot_index (task_at rt' 0) = 0 \<and> tk_client_index (task_at rt' 0) = 0"
proof -
  let ?c = "message_client openat_message (client_at rt 0)"
  let ?rt = "set_client 0 ?c rt"
  note served = openat_served [OF c(1,3), of rt "rt_os rt"]
  have at: "client_at ?rt 0 = ?c" "session_base ?rt" using base by (simp_all add: session_base_def set_client_def)
  obtain rt1 t where d: "iouringd_dispatch_client_request demo_sys 0 ?rt = (Inr True, rt1)"
    "rt_tasks rt1 = (rt_tasks ?rt)[0 := t]" "tk_active t" "tk_task_kind t = IOURINGD_TASK_KIND_OPENAT"
    "tk_result_file_slot_index t = 0" "tk_client_index t = 0" "rt_limits rt1 = rt_limits ?rt"
    "length (rt_clients rt1) = 64" "rg_cq_head (rt_ring rt1) = rg_cq_tail (rt_ring rt1)"
    "settled (client_at rt1 0)" "\<not> cl_request_ready (client_at rt1 0)"
    using openat_dispatched [OF at(2) c(1,2) at(1)] by blast
  let ?rt2 = "rt1\<lparr>rt_dispatch_cursor := 0\<rparr>"
  have lim: "lim_max_clients (rt_limits ?rt) = 1" "lim_max_clients (rt_limits rt1) = 1"
    using at(2) d(7) by (simp_all add: session_base_def)
  have "iouringd_client_is_active ?c" "cl_request_ready ?c" "client_band ?c = 1"
    using c(1) by (simp_all add: iouringd_client_is_active_def client_band_def openat_client)
  then have ready: "iouringd_dispatch_ready_requests demo_sys ?rt = (Inr True, ?rt2)"
    using lim d(1,11) at(1) by (simp add: iouringd_dispatch_ready_requests_def Let_def)
  have "run_turn demo_sys (sending (message_bytes openat_message)) rt = Some (Inr True, polled ?rt2)"
    using base c(1) session_settled lim d by (intro sending_turn [OF _ _ served ready]) (auto simp: session_base_def)
  moreover have "task_at (polled ?rt2) 0 = t" using d(2) at(2) by (simp add: polled_def session_base_def)
  ultimately show ?thesis using d(3-6) by blast
qed

text \<open>The daemon can get there.\<close>

lemma busy_reachable:
  obtains rt where "reachable rt" and "tk_active (task_at rt 0)" and "tk_task_kind (task_at rt 0) = IOURINGD_TASK_KIND_OPENAT"
    and "tk_result_file_slot_index (task_at rt 0) = 0" and "tk_client_index (task_at rt 0) = 0"
proof -
  obtain rt0 where s0: "daemon_start session_boot session_args = Inr rt0" "session_base rt0"
    "rt_clients rt0 = replicate 64 init_client" using session_starts by blast
  obtain rt1 where s1: "run_turn demo_sys accepting rt0 = Some (Inr True, rt1)" "session_base rt1"
    "client_at rt1 0 = session_client rt0" using accepting_turn [OF s0(2,3)] by blast
  obtain rt2 where s2: "run_turn demo_sys (sending (enc_handshake_request handshake_request)) rt1 = Some (Inr True, rt2)"
    "session_base rt2" "session_ready (client_at rt2 0)" "cl_phase (client_at rt2 0) = IOURINGD_CLIENT_PHASE_SUBMIT"
    "cl_output (client_at rt2 0) \<noteq> []"
    using handshake_turn [OF s1(2)] session_client_ready [OF s0(2)] s1(3) by metis
  obtain rt3 where s3: "run_turn demo_sys (sending (message_bytes openat_message)) rt2 = Some (Inr True, rt3)"
    "tk_active (task_at rt3 0)" "tk_task_kind (task_at rt3 0) = IOURINGD_TASK_KIND_OPENAT"
    "tk_result_file_slot_index (task_at rt3 0) = 0" "tk_client_index (task_at rt3 0) = 0"
    using openat_turn [OF s2(2,3,5,4)] by blast
  have "reachable rt3"
    using reachable_turn [OF reachable_turn [OF reachable_turn [OF reachable_start [OF s0(1)] s1(1)] s2(1)] s3(1)] .
  with that s3 show thesis by blast
qed

text \<open>The counters of \<open>reachable_accounting\<close> in that state: one task is outstanding or more.\<close>

theorem reachable_accounting_witness:
  "\<exists>rt. reachable rt \<and> tk_active (task_at rt 0) \<and> rt_outstanding_tasks rt = cnt tk_active (rt_tasks rt)
    \<and> rt_outstanding_tasks rt \<noteq> 0"
proof -
  obtain rt where rt: "reachable rt" "tk_active (task_at rt 0)" using busy_reachable by blast
  have "0 < length (rt_tasks rt)" using daemon_okD(4) [OF reachable_ok [OF rt(1)]] by simp
  with rt(2) have "task_at rt 0 \<in> set (filter tk_active (rt_tasks rt))" by simp
  then have "cnt tk_active (rt_tasks rt) \<noteq> 0" by (auto simp: filter_empty_conv)
  with rt reachable_accounting [OF rt(1)] show ?thesis by auto
qed

text \<open>The task of that state is found by its identifier.\<close>

theorem task_found_by_identifier_witness:
  "\<exists>rt. reachable rt \<and> tk_active (task_at rt 0)
    \<and> iouringd_find_task_slot rt (tk_task_id (task_at rt 0)) = Some 0"
proof -
  obtain rt where "reachable rt" "tk_active (task_at rt 0)" using busy_reachable by blast
  with task_found_by_identifier [of rt 0] show ?thesis by auto
qed

end
