(* ===== verification/Shapes.thy ===== *)
theory Shapes
  imports Scenario
begin

text \<open>
  The shape of the state: the arrays of the C structures keep their sizes, the indices a task holds are
  indices of them or the -1 that stands for none, and what is copied into the \<open>io_buffer\<close> of a task
  fits it. A property of the task slots is an invariant of the loop once it holds of the cleared slot
  and of every task a request submits; the locale \<open>task_invariant\<close> has this for any such property.
\<close>

section \<open>Properties of the task slots\<close>

locale task_invariant =
  fixes good :: "iouringd_task_slot \<Rightarrow> bool"
  assumes cleared: "good iouringd_clear_task_slot"
    and submits: "daemon_ok rt \<Longrightarrow> i < lim_max_clients (rt_limits rt) \<Longrightarrow> submitted i n t rt rt' \<Longrightarrow> good t"
begin

lemma same_tasks: "rt_tasks rt' = rt_tasks rt \<Longrightarrow> \<forall>n < 64. good (task_at rt n) \<Longrightarrow> \<forall>n < 64. good (task_at rt' n)"
  by simp

lemma dispatch_good:
  assumes ok: "daemon_ok rt" and good: "\<forall>n < 64. good (task_at rt n)" and i: "i < lim_max_clients (rt_limits rt)"
    and out: "iouringd_dispatch_client_request sys i rt = (Inr x, rt')"
  shows "\<forall>n < 64. good (task_at rt' n)"
proof (cases "cl_request_ready (client_at rt i)")
  case True
  from dispatch_handled(2) [OF daemon_okD(1) [OF ok] i True out]
  consider "rt_tasks rt' = rt_tasks rt" | n t where "submitted i n t rt rt'" "rt_tasks rt' = (rt_tasks rt)[n := t]"
    using submitted_fields(1) by (auto simp: quiet_def)
  then show ?thesis
    using good submits [OF ok i] daemon_okD(4) [OF ok] by cases (auto simp: nth_update)
qed (use out good in \<open>simp add: iouringd_dispatch_client_request_def Let_def\<close>)

lemma complete_good:
  assumes ok: "daemon_ok rt" and good: "\<forall>n < 64. good (task_at rt n)"
    and found: "iouringd_find_task_slot rt task = Some n" and out: "iouringd_complete_task sys n res rt = (Inr u, rt')"
  shows "\<forall>n < 64. good (task_at rt' n)"
proof -
  note d = daemon_okD [OF ok]
  have "n < 64" "tk_active (task_at rt n)"
    using find_slot_Some [OF found [unfolded iouringd_find_task_slot_def]] core_okD(4) [OF d(1)]
    by (simp_all add: core_fields)
  from complete_task_core_ok(2) [OF d(1) this out] good cleared d(4) show ?thesis
    by (simp add: nth_update)
qed

end

section \<open>In every turn\<close>

lemma steps_keep_tasks:
  "account_step i rt rt' \<Longrightarrow> rt_tasks rt' = rt_tasks rt"
  "iouringd_try_release_file_slot sys i j rt = (r, rt') \<Longrightarrow> rt_tasks rt' = rt_tasks rt"
  "on_client i (iouringd_try_release_buffer_slot j) rt = (r2, rt') \<Longrightarrow> rt_tasks rt' = rt_tasks rt"
  "rt_tasks (iouringd_open_client a fd rt) = rt_tasks rt"
  by (auto simp: account_step_def iouringd_try_release_file_slot_def Let_def rt_update_file_def rt_clear_file_slot_def
      iouringd_clear_file_slot_def on_client_def iouringd_open_client_def rt_close_def
      elim!: bind_rc_cases split: if_splits prod.splits option.splits)

sublocale task_invariant \<subseteq> step_invariant "\<lambda>rt. daemon_ok rt \<and> (\<forall>n < 64. good (task_at rt n))"
proof
  show "daemon_ok rt" if "daemon_ok rt \<and> (\<forall>n < 64. good (task_at rt n))" for rt using that ..
  show "daemon_ok (rt\<lparr>rt_ring := ring\<rparr>) \<and> (\<forall>n < 64. good (task_at (rt\<lparr>rt_ring := ring\<rparr>) n))"
    if "daemon_ok rt \<and> (\<forall>n < 64. good (task_at rt n))" for rt ring
    using that daemon.ring_step by simp
  show "daemon_ok (rt\<lparr>rt_dispatch_cursor := k\<rparr>) \<and> (\<forall>n < 64. good (task_at (rt\<lparr>rt_dispatch_cursor := k\<rparr>) n))"
    if "daemon_ok rt \<and> (\<forall>n < 64. good (task_at rt n))" for rt k
    using that daemon.cursor_step by simp
  show "daemon_ok (rt_close fd rt) \<and> (\<forall>n < 64. good (task_at (rt_close fd rt) n))"
    if "daemon_ok rt \<and> (\<forall>n < 64. good (task_at rt n))" for rt fd
    using that daemon.fd_step by (simp add: rt_close_def)
  show "daemon_ok rt' \<and> (\<forall>n < 64. good (task_at rt' n))"
    if "iouringd_service_client_readable i ws rt = (r, ws', rt')"
      "daemon_ok rt \<and> (\<forall>n < 64. good (task_at rt n))" "i < 64" for i ws rt r ws' rt'
    using daemon.service_step [OF that(1) _ that(3)] that(2,3)
      steps_keep_tasks(1) [OF service_account_step [OF daemon_okD(8) that(1)]] by simp
  show "daemon_ok (set_client i c rt) \<and> (\<forall>n < 64. good (task_at (set_client i c rt) n))"
    if "iouringd_flush_client_output ws (client_at rt i) = (sent, r, c)"
      "daemon_ok rt \<and> (\<forall>n < 64. good (task_at rt n))" "i < 64" for ws rt i sent r c
    using daemon.flush_step [OF that(1) _ that(3)] that(2) by simp
  show "daemon_ok (rt_close_client i rt) \<and> (\<forall>n < 64. good (task_at (rt_close_client i rt) n))"
    if "daemon_ok rt \<and> (\<forall>n < 64. good (task_at rt n))" "i < 64" for rt i
    using that daemon.close_step steps_keep_tasks(1) [OF close_account_step] by simp
  show "daemon_ok rt' \<and> (\<forall>n < 64. good (task_at rt' n))"
    if "iouringd_dispatch_client_request sys i rt = (Inr x, rt')"
      "daemon_ok rt \<and> (\<forall>n < 64. good (task_at rt n))" "i < lim_max_clients (rt_limits rt)" for sys i rt x rt'
    using that daemon.dispatch_step [OF that(1)] dispatch_good [OF _ _ that(3,1)] by simp
  show "daemon_ok rt' \<and> (\<forall>n < 64. good (task_at rt' n))"
    if "iouringd_try_release_file_slot sys i j rt = (r, rt')"
      "daemon_ok rt \<and> (\<forall>n < 64. good (task_at rt n))" "i < 64" for sys i j rt r rt'
    using that daemon.release_file_step [OF that(1)] steps_keep_tasks(2) [OF that(1)] by simp
  show "daemon_ok rt' \<and> (\<forall>n < 64. good (task_at rt' n))"
    if "on_client i (iouringd_try_release_buffer_slot j) rt = (r, rt')"
      "daemon_ok rt \<and> (\<forall>n < 64. good (task_at rt n))" "i < 64" for i j rt r rt'
    using that daemon.release_buffer_step [OF that(1)] steps_keep_tasks(3) [OF that(1)] by simp
  show "daemon_ok rt' \<and> (\<forall>n < 64. good (task_at rt' n))"
    if "iouringd_complete_task sys n res rt = (Inr u, rt')"
      "daemon_ok rt \<and> (\<forall>n < 64. good (task_at rt n))" "iouringd_find_task_slot rt task = Some n"
    for sys n res rt u rt' task
    using that daemon.complete_step [OF that(1) _ that(3)] complete_good [OF _ _ that(3,1)] by simp
  show "daemon_ok (iouringd_open_client a fd rt) \<and> (\<forall>n < 64. good (task_at (iouringd_open_client a fd rt) n))"
    if "daemon_ok rt \<and> (\<forall>n < 64. good (task_at rt n))" for a fd rt
    using that daemon.open_step steps_keep_tasks(4) by simp
qed

section \<open>The data of a task fits its buffer\<close>

definition task_fits :: "iouringd_task_slot \<Rightarrow> bool" where
  "task_fits t \<longleftrightarrow> length (tk_io_buffer t) \<le> IOURINGD_MAX_IO_BYTES"

interpretation fits: task_invariant task_fits
proof
  show "task_fits iouringd_clear_task_slot" by (simp add: task_fits_def iouringd_clear_task_slot_def)
  show "task_fits t" if "daemon_ok rt" "i < lim_max_clients (rt_limits rt)" "submitted i n t rt rt'" for rt i n t rt'
  proof -
    have "i < 64" using daemon_okD(6) [OF that(1)] that(2) by simp
    then have "length (cl_io_payload (client_at rt i)) \<le> 4096"
      using daemon_okD(7) [OF that(1)] by (simp add: parser_ok_def payload_ok_def)
    with that(3) show ?thesis by (simp add: task_fits_def submitted_def task_for_def)
  qed
qed

text \<open>After a start every task slot is clear.\<close>

lemma start_tasks:
  assumes "daemon_start b args = Inr rt"
  shows "rt_tasks rt = replicate 64 iouringd_clear_task_slot"
proof -
  obtain rt0 capacity where rt0: "rt0 = iouringd_init_runtime\<lparr>rt_limits := rt_limits rt0,
       rt_registered_file_capacity := rt_registered_file_capacity rt0,
       rt_registered_buffer_capacity := rt_registered_buffer_capacity rt0\<rparr>"
    and s: "started rt0 capacity (rt\<lparr>rt_server_fd := - 1\<rparr>)"
    using start_steps [OF assms] .
  from s show ?thesis by (simp add: started_def; subst rt0, simp add: iouringd_init_runtime_def)
qed

interpretation fitting: transition_invariant booted turn_step "\<lambda>rt. daemon_ok rt \<and> (\<forall>n < 64. task_fits (task_at rt n))"
proof
  show "daemon_ok s \<and> (\<forall>n < 64. task_fits (task_at s n))" if "booted s" for s
    using that start_ok start_tasks fits.cleared by (auto simp: booted_def)
  show "daemon_ok t \<and> (\<forall>n < 64. task_fits (task_at t n))"
    if "daemon_ok s \<and> (\<forall>n < 64. task_fits (task_at s n))" "turn_step s t" for s t
    using that(2) fits.turn_keeps [OF that(1)] by (elim turn_stepE) (metis option.inject prod.inject)
qed

text \<open>
  C12: In every state the daemon can reach, the state has the shape of the C structures: 64 client slots
  and 64 task slots; in every client slot 32 file slots and 4 buffer slots, of which at most these
  numbers are in use; every active task belongs to a configured client slot, the bytes it keeps fit
  its \<open>io_buffer\<close>, and each of its slot indices is -1 or the index of a slot its client may use, with
  different slots for the file it works on and the descriptor it returns.
\<close>

theorem reachable_shapes:
  assumes "reachable rt"
  shows "length (rt_clients rt) = IOURINGD_MAX_CLIENTS \<and> length (rt_tasks rt) = IOURINGD_MAX_TASKS
    \<and> (\<forall>i < 64. length (cl_file_resources (client_at rt i)) = IOURINGD_MAX_REGISTERED_FDS
        \<and> length (cl_buffer_resources (client_at rt i)) = IOURINGD_MAX_REGISTERED_BUFFERS
        \<and> cl_file_slot_limit (client_at rt i) \<le> 32 \<and> cl_buffer_slot_limit (client_at rt i) \<le> 4)
    \<and> (\<forall>n < 64. length (tk_io_buffer (task_at rt n)) \<le> IOURINGD_MAX_IO_BYTES)
    \<and> (\<forall>n < 64. \<forall>t. t = task_at rt n \<and> tk_active t \<longrightarrow>
        tk_client_index t < lim_max_clients (rt_limits rt)
        \<and> tk_file_slot_index t \<in> {- 1..<int (cl_file_slot_limit (client_at rt (tk_client_index t)))}
        \<and> tk_result_file_slot_index t \<in> {- 1..<int (cl_file_slot_limit (client_at rt (tk_client_index t)))}
        \<and> tk_buffer_slot_index t \<in> {- 1..<int (cl_buffer_slot_limit (client_at rt (tk_client_index t)))}
        \<and> (tk_file_slot_index t = - 1 \<or> tk_file_slot_index t \<noteq> tk_result_file_slot_index t))"
proof -
  note ok = reachable_ok [OF assms]
  note d = daemon_okD [OF ok]
  have "\<forall>n < 64. task_fits (task_at rt n)" using fitting.always assms by (auto simp: reachable_def)
  moreover have "tk_client_index t < lim_max_clients (rt_limits rt)
        \<and> tk_file_slot_index t \<in> {- 1..<int (cl_file_slot_limit (client_at rt (tk_client_index t)))}
        \<and> tk_result_file_slot_index t \<in> {- 1..<int (cl_file_slot_limit (client_at rt (tk_client_index t)))}
        \<and> tk_buffer_slot_index t \<in> {- 1..<int (cl_buffer_slot_limit (client_at rt (tk_client_index t)))}
        \<and> (tk_file_slot_index t = - 1 \<or> tk_file_slot_index t \<noteq> tk_result_file_slot_index t)"
    if "n < 64" "t = task_at rt n \<and> tk_active t" for n t
  proof -
    have t: "task_ok (core_of rt) t" using core_ok_task [OF d(1) that(1)] that(2) by (auto simp: core_length)
    then have "tk_client_index t < length (rt_clients rt)" using d(3,6) by (simp add: task_ok_def core_fields)
    with t core_client_at [OF this] show ?thesis
      by (auto simp: task_ok_def core_fields client_fields Let_def index_ok_def)
  qed
  ultimately show ?thesis
    using d(3,4) core_ok_tables [OF d(1)] by (simp add: task_fits_def)
qed

theorem reachable_shapes_witness:
  "\<exists>rt. reachable rt \<and> tk_active (task_at rt 0) \<and> tk_task_kind (task_at rt 0) = IOURINGD_TASK_KIND_OPENAT
    \<and> length (rt_clients rt) = 64 \<and> tk_client_index (task_at rt 0) < lim_max_clients (rt_limits rt)
    \<and> length (tk_io_buffer (task_at rt 0)) \<le> 4096"
proof -
  obtain rt where rt: "reachable rt" "tk_active (task_at rt 0)" "tk_task_kind (task_at rt 0) = IOURINGD_TASK_KIND_OPENAT"
    using busy_reachable by blast
  with reachable_shapes [OF rt(1)] show ?thesis by (intro exI [of _ rt]) auto
qed

end
