(* ===== verification/Pinning.thy ===== *)
theory Pinning
  imports Shapes
begin

text \<open>
  Resources in use are not released: while a task in flight refers to a registered file or buffer,
  the slot keeps the identifier and the registration the task was submitted with, whatever the client
  requests, whether it disconnects, and whatever else completes; the slot reserved for the descriptor
  a task will return stays reserved for it. A slot that the kernel still uses is therefore never
  handed out to another resource.
\<close>

named_theorems pinned "steps that keep the pinned slots of a client"

section \<open>What a pinned slot keeps\<close>

definition file_kept :: "iouringd_resource_slot \<Rightarrow> iouringd_resource_slot \<Rightarrow> bool" where
  "file_kept s s' \<longleftrightarrow> fs_resource_id s' = fs_resource_id s \<and> fs_registered s' = fs_registered s
     \<and> (fs_registered s \<or> fs_in_flight s' = fs_in_flight s)"

definition buffer_kept :: "iouringd_buffer_slot \<Rightarrow> iouringd_buffer_slot \<Rightarrow> bool" where
  "buffer_kept s s' \<longleftrightarrow> bs_resource_id s' = bs_resource_id s \<and> bs_registered s' = bs_registered s"

lemma kept_refl [simp]: "file_kept s s" "buffer_kept b b"
  by (simp_all add: file_kept_def buffer_kept_def)

text \<open>The client keeps the file slots in \<open>P\<close> and the buffer slots in \<open>Q\<close>.\<close>

definition holds :: "(nat \<Rightarrow> bool) \<Rightarrow> (nat \<Rightarrow> bool) \<Rightarrow> iouringd_client \<Rightarrow> iouringd_client \<Rightarrow> bool" where
  "holds P Q c c' \<longleftrightarrow>
     (\<forall>j. P j \<longrightarrow> file_kept (cl_file_resources c ! j) (cl_file_resources c' ! j))
     \<and> (\<forall>b. Q b \<longrightarrow> buffer_kept (cl_buffer_resources c ! b) (cl_buffer_resources c' ! b))"

lemma kept_trans:
  "file_kept a b \<Longrightarrow> file_kept b c \<Longrightarrow> file_kept a c" "buffer_kept p q \<Longrightarrow> buffer_kept q r \<Longrightarrow> buffer_kept p r"
  by (auto simp: file_kept_def buffer_kept_def)

lemma holds_trans: "holds P Q a b \<Longrightarrow> holds P Q b c \<Longrightarrow> holds P Q a c"
  unfolding holds_def by (blast intro: kept_trans)

lemma holds_mono: "holds P Q c c' \<Longrightarrow> (\<And>j. P' j \<Longrightarrow> P j) \<Longrightarrow> (\<And>b. Q' b \<Longrightarrow> Q b) \<Longrightarrow> holds P' Q' c c'"
  by (simp add: holds_def)

lemma holds_same:
  "cl_file_resources c' = cl_file_resources c \<Longrightarrow> cl_buffer_resources c' = cl_buffer_resources c \<Longrightarrow> holds P Q c c'"
  by (simp add: holds_def)

lemma holds_slots:
  "(P j \<Longrightarrow> file_kept (cl_file_resources c ! j) s) \<Longrightarrow> holds P Q c (set_file_slot j s c)"
  "(Q b \<Longrightarrow> buffer_kept (cl_buffer_resources c ! b) q) \<Longrightarrow> holds P Q c (set_buffer_slot b q c)"
  "(P j \<Longrightarrow> file_kept (cl_file_resources c ! j) (f (cl_file_resources c ! j))) \<Longrightarrow> holds P Q c (upd_file_slot j f c)"
  "(Q b \<Longrightarrow> buffer_kept (cl_buffer_resources c ! b) (g (cl_buffer_resources c ! b))) \<Longrightarrow> holds P Q c (upd_buffer_slot b g c)"
  by (simp_all add: holds_def set_file_slot_def set_buffer_slot_def upd_file_slot_def upd_buffer_slot_def nth_update)

lemmas hold_simps = holds_def set_file_slot_def set_buffer_slot_def upd_file_slot_def upd_buffer_slot_def nth_update

text \<open>The runtime, for the slots of client \<open>i\<close>.\<close>

definition pins :: "(nat \<Rightarrow> bool) \<Rightarrow> (nat \<Rightarrow> bool) \<Rightarrow> nat \<Rightarrow> iouringd_runtime \<Rightarrow> iouringd_runtime \<Rightarrow> bool" where
  "pins P Q i rt rt' \<longleftrightarrow> holds P Q (client_at rt i) (client_at rt' i)"

definition pinning ::
  "(nat \<Rightarrow> bool) \<Rightarrow> (nat \<Rightarrow> bool) \<Rightarrow> nat \<Rightarrow> iouringd_runtime \<Rightarrow> ('a, iouringd_runtime) res \<Rightarrow> bool" where
  "pinning P Q i rt out \<longleftrightarrow> pins P Q i rt (snd out)"

lemma pins_refl [pinned]: "pins P Q i rt rt"
  by (simp add: pins_def holds_same)

lemma pins_trans: "pins P Q i a b \<Longrightarrow> pins P Q i b c \<Longrightarrow> pins P Q i a c"
  unfolding pins_def by (rule holds_trans)

lemma pins_set_client [pinned]:
  "pins P Q i rt rt1 \<Longrightarrow> holds P Q (client_at rt1 i) c \<Longrightarrow> pins P Q i rt (set_client i c rt1)"
  by (cases "i < length (rt_clients rt1)")
    (auto simp: pins_def set_client_def list_update_beyond intro: holds_trans)

lemma pins_upd_client [pinned]:
  "pins P Q i rt rt1 \<Longrightarrow> (\<And>c. holds P Q c (f c)) \<Longrightarrow> pins P Q i rt (upd_client i f rt1)"
  unfolding upd_client_def by (rule pins_set_client)

lemma pins_fields [pinned]:
  assumes "pins P Q i rt rt1"
  shows "pins P Q i rt (set_task n t rt1)" "pins P Q i rt (rt_close fd rt1)" "pins P Q i rt (rt1\<lparr>rt_ring := ring\<rparr>)"
    "pins P Q i rt (rt1\<lparr>rt_os := os\<rparr>)" "pins P Q i rt (rt1\<lparr>rt_rejected_submits := a\<rparr>)"
    "pins P Q i rt (rt1\<lparr>rt_buffer_storage := bs\<rparr>)" "pins P Q i rt (rt1\<lparr>rt_outstanding_credit_tasks := m\<rparr>)"
    "pins P Q i rt (rt1\<lparr>rt_next_task_id := w, rt_outstanding_tasks := m, rt_outstanding_credit_tasks := m',
       rt_accepted_submits := a\<rparr>)"
    "pins P Q i rt (rt1\<lparr>rt_outstanding_tasks := m, rt_outstanding_credit_tasks := m'\<rparr>)"
    "pins P Q i rt (rt1\<lparr>rt_completions := a, rt_outstanding_tasks := m\<rparr>)"
    "pins P Q i rt (iouringd_emit_trace_event sys k ek tk p t' r res cr rt1)"
  using assms by (simp_all add: pins_def set_task_def rt_close_def)

section \<open>Combinations\<close>

lemma pinning_pair [pinned]: "pins P Q i rt rt1 \<Longrightarrow> pinning P Q i rt (r, rt1)"
  by (simp add: pinning_def)

lemma pinning_bind [pinned]:
  assumes "pinning P Q i rt r" and "\<And>x s. pins P Q i rt s \<Longrightarrow> pinning P Q i rt (f x s)"
  shows "pinning P Q i rt (bind_rc r f)"
proof (cases r)
  case (Pair y s)
  with assms show ?thesis by (cases y) (simp_all add: pinning_def)
qed

lemma pinning_case [pinned]:
  assumes "pinning P Q i rt r" and "\<And>e s. pins P Q i rt s \<Longrightarrow> pinning P Q i rt (A e s)"
    and "\<And>x s. pins P Q i rt s \<Longrightarrow> pinning P Q i rt (B x s)"
  shows "pinning P Q i rt (case r of (Inl e, s) \<Rightarrow> A e s | (Inr x, s) \<Rightarrow> B x s)"
proof (cases r)
  case (Pair y s)
  with assms show ?thesis by (cases y) (simp_all add: pinning_def)
qed

lemma pinning_on_ring [pinned]: "pins P Q i rt rt1 \<Longrightarrow> pinning P Q i rt (on_ring f rt1)"
  by (auto simp: pinning_def on_ring_def split: prod.splits intro!: pins_fields)

lemma pinning_update_file [pinned]: "pins P Q i rt rt1 \<Longrightarrow> pinning P Q i rt (rt_update_file sys g fd rt1)"
  by (auto simp: pinning_def rt_update_file_def split: prod.splits intro!: pins_fields)

lemma pinning_on_client:
  assumes "pins P Q i rt rt1" and "\<And>c r c'. f c = (r, c') \<Longrightarrow> same_but_output c c'"
  shows "pinning P Q i rt (on_client i f rt1)"
  using assms same_but_outputD
  by (auto simp: pinning_def on_client_def split: prod.splits intro!: pins_set_client holds_same)

lemma pinning_queue_output [pinned]:
  "pins P Q i rt rt1 \<Longrightarrow> pinning P Q i rt (on_client i (iouringd_queue_client_output m) rt1)"
  by (erule pinning_on_client) (rule queue_output_frame)

section \<open>Dispatching\<close>

lemma tables_simps [simp]:
  "cl_file_resources (iouringd_finish_client_request c) = cl_file_resources c"
  "cl_buffer_resources (iouringd_finish_client_request c) = cl_buffer_resources c"
  "cl_file_resources (iouringd_unallocate_resource_id r c) = cl_file_resources c"
  "cl_buffer_resources (iouringd_unallocate_resource_id r c) = cl_buffer_resources c"
  by (simp_all add: iouringd_finish_client_request_def iouringd_reset_client_input_def
      iouringd_unallocate_resource_id_def)

lemma pinning_submit_result [pinned]:
  "pins P Q i rt rt1 \<Longrightarrow> pinning P Q i rt (iouringd_queue_submit_result i task res rt1)"
  unfolding iouringd_queue_submit_result_def by (rule pinning_queue_output)

lemma pinning_reply [pinned]: "pins P Q i rt rt1 \<Longrightarrow> pinning P Q i rt (reply_resource i r res av rt1)"
  unfolding reply_resource_def
  by (rule pinning_on_client) (simp_all add: iouringd_queue_resource_result_def queue_output_frame)

lemma pinning_finish [pinned]: "pins P Q i rt rt1 \<Longrightarrow> pinning P Q i rt (finish_request i rt1)"
  unfolding finish_request_def by (auto intro!: pinned holds_same)

lemma pinning_reject [pinned]: "pins P Q i rt rt1 \<Longrightarrow> pinning P Q i rt (reject_request sys i e rt1)"
  unfolding reject_request_def iouringd_reject_submit_def Let_def by (auto intro!: pinned)

lemma pins_counts [pinned]:
  "pins P Q i rt rt1 \<Longrightarrow> pins P Q i rt (count_task i cr rt1)" "pins P Q i rt rt1 \<Longrightarrow> pins P Q i rt (uncount_task i cr rt1)"
  unfolding count_task_def uncount_task_def by (intro pinned holds_same; simp)+

lemma pinning_accept [pinned]:
  assumes "pins P Q i rt rt1" and "\<And>e s. pins P Q i rt s \<Longrightarrow> pinning P Q i rt (undo e s)"
  shows "pinning P Q i rt (accept_request sys i t undo rt1)"
  unfolding accept_request_def using assms(1) by (auto intro!: pinned assms(2))

lemma allocate_tables:
  assumes "iouringd_allocate_resource_id c = (r, c1)"
  shows "cl_file_resources c1 = cl_file_resources c" and "cl_buffer_resources c1 = cl_buffer_resources c"
  using allocate_attempts_spec [OF assms [unfolded iouringd_allocate_resource_id_def]] by auto

lemma pinning_allocate [pinned]:
  assumes "\<And>r c1. cl_file_resources c1 = cl_file_resources c \<Longrightarrow>
      cl_buffer_resources c1 = cl_buffer_resources c \<Longrightarrow> pinning P Q i rt (f r c1)"
  shows "pinning P Q i rt (case iouringd_allocate_resource_id c of (r, c1) \<Rightarrow> f r c1)"
  using assms allocate_tables by (auto split: prod.splits)

lemma pins_clear_slot: "pins P Q i rt rt1 \<Longrightarrow> \<not> P j \<Longrightarrow> pins P Q i rt (rt_clear_file_slot i j rt1)"
  unfolding rt_clear_file_slot_def iouringd_clear_file_slot_def
  using pins_set_client [OF pins_fields(4), of P Q i rt rt1] holds_slots(1) [of P j "client_at rt1 i"] by simp

lemma pins_unreserve: "pins P Q i rt rt1 \<Longrightarrow> \<not> P j \<Longrightarrow> pins P Q i rt (unreserve_slot i j rt1)"
  unfolding unreserve_slot_def by (auto intro!: pins_clear_slot pins_upd_client holds_slots)

lemma pinning_try_release_file:
  assumes "pins P Q i rt rt1" and "P j \<Longrightarrow> fs_in_flight (cl_file_resources (client_at rt1 i) ! j) \<noteq> 0"
  shows "pinning P Q i rt (iouringd_try_release_file_slot sys i j rt1)"
  unfolding iouringd_try_release_file_slot_def Let_def using assms
  by (auto intro!: pinned intro: pins_clear_slot)

lemma pinning_try_release_buffer:
  assumes "pins P Q i rt rt1" and "Q b \<Longrightarrow> bs_in_flight (cl_buffer_resources (client_at rt1 i) ! b) \<noteq> 0"
  shows "pinning P Q i rt (on_client i (iouringd_try_release_buffer_slot b) rt1)"
proof -
  obtain r c where f: "iouringd_try_release_buffer_slot b (client_at rt1 i) = (r, c)" by fastforce
  have "holds P Q (client_at rt1 i) c"
    using f assms(2)
    by (auto simp: iouringd_try_release_buffer_slot_def Let_def intro!: holds_slots intro: holds_same split: if_splits)
  with f assms(1) show ?thesis by (simp add: pinning_def on_client_def pins_set_client)
qed

text \<open>A request that is dispatched writes free slots, and slots that no task in flight refers to.\<close>

definition live_file :: "iouringd_client \<Rightarrow> nat \<Rightarrow> bool" where
  "live_file c j \<longleftrightarrow> fs_registered (cl_file_resources c ! j) \<or> fs_in_flight (cl_file_resources c ! j) \<noteq> 0"

definition live_buffer :: "iouringd_client \<Rightarrow> nat \<Rightarrow> bool" where
  "live_buffer c b \<longleftrightarrow> bs_registered (cl_buffer_resources c ! b) \<or> bs_in_flight (cl_buffer_resources c ! b) \<noteq> 0"

lemma found_free:
  "iouringd_find_free_file_slot c = Some j \<Longrightarrow> \<not> live_file c j"
  "iouringd_find_free_buffer_slot c = Some b \<Longrightarrow> \<not> live_buffer c b"
  unfolding iouringd_find_free_file_slot_def iouringd_find_free_buffer_slot_def
  by (drule find_slot_Some; simp add: fs_free_def bs_free_def live_file_def live_buffer_def)+

lemma pinning_register_fd:
  assumes "\<And>j. P j \<Longrightarrow> live_file (client_at rt i) j"
  shows "pinning P Q i rt (dispatch_register_fd sys i rt)"
  unfolding dispatch_register_fd_def drop_received_fd_def Let_def using assms found_free(1) [of "client_at rt i"]
  by (auto intro!: pinned split: option.splits simp: hold_simps)

lemma pinning_register_buffer:
  assumes "\<And>b. Q b \<Longrightarrow> live_buffer (client_at rt i) b"
  shows "pinning P Q i rt (dispatch_register_buffer sys i rt)"
  unfolding dispatch_register_buffer_def Let_def using assms found_free(2) [of "client_at rt i"]
  by (auto intro!: pinned split: option.splits simp: hold_simps)

lemma pinning_release_resource:
  assumes "\<And>j. P j \<Longrightarrow> fs_in_flight (cl_file_resources (client_at rt i) ! j) \<noteq> 0"
    and "\<And>b. Q b \<Longrightarrow> bs_in_flight (cl_buffer_resources (client_at rt i) ! b) \<noteq> 0"
  shows "pinning P Q i rt (dispatch_release_resource sys i rt)"
  unfolding dispatch_release_resource_def released_def Let_def
  by (auto intro!: pinned pinning_try_release_file pinning_try_release_buffer split: option.splits
      simp: hold_simps dest: assms)

lemma pins_core:
  assumes "core_of rt' = core_of rt" and "i < length (rt_clients rt)"
  shows "pins P Q i rt rt'"
proof -
  have "length (rt_clients rt') = length (rt_clients rt)"
    using arg_cong [OF assms(1), of "length \<circ> co_clients"] by (simp add: core_length)
  then have "core_of_client (client_at rt' i) = core_of_client (client_at rt i)"
    using assms core_client_at [of i rt] core_client_at [of i rt'] by simp
  from arg_cong [OF this, of cc_files] arg_cong [OF this, of cc_buffers] show ?thesis
    by (simp add: pins_def holds_same client_fields)
qed

lemma pinning_get_stats: "pinning P Q i rt (dispatch_get_stats i rt)"
  unfolding dispatch_get_stats_def
  by (auto intro!: pinned pinning_on_client simp: iouringd_queue_stats_result_def queue_output_frame)

lemma pinning_plain: "pinning P Q i rt (dispatch_plain sys i rt)"
  unfolding dispatch_plain_def Let_def by (auto intro!: pinned split: option.splits)

lemma pinning_openat:
  assumes "\<And>j. P j \<Longrightarrow> live_file (client_at rt i) j"
  shows "pinning P Q i rt (dispatch_openat sys i rt)"
  unfolding dispatch_openat_def Let_def using assms found_free(1) [of "client_at rt i"]
  by (auto intro!: pinned pins_unreserve split: option.splits simp: hold_simps)

lemma pinning_close:
  assumes "\<And>j. P j \<Longrightarrow> fs_in_flight (cl_file_resources (client_at rt i) ! j) \<noteq> 0"
  shows "pinning P Q i rt (dispatch_close sys i rt)"
  unfolding dispatch_close_def Let_def
  by (auto intro!: pinned split: option.splits simp: hold_simps dest: assms)

text \<open>Reads, writes and the other tasks on registered resources.\<close>

lemma pins_registered_live:
  assumes "pins P Q i rt rt1" and "\<And>j. P j \<Longrightarrow> live_file (client_at rt i) j" and "P j"
  shows "live_file (client_at rt1 i) j"
  using assms(1) assms(2) [OF assms(3)] assms(3) by (auto simp: pins_def holds_def file_kept_def live_file_def)

lemma pins_add_in_flight:
  assumes "pins P Q i rt rt1" and "fs_registered (cl_file_resources (client_at rt i) ! j)"
  shows "pins P Q i rt (upd_client i (add_in_flight d j b) rt1)"
  unfolding upd_client_def
proof (rule pins_set_client [OF assms(1)])
  have "fs_registered (cl_file_resources (client_at rt1 i) ! j)" if "P j"
    using assms that by (auto simp: pins_def holds_def file_kept_def)
  then show "holds P Q (client_at rt1 i) (add_in_flight d j b (client_at rt1 i))"
    by (auto simp: add_in_flight_def hold_simps Let_def file_kept_def buffer_kept_def file_in_flight_def
        buffer_in_flight_def split: option.splits)
qed

lemma reserve_result_pins:
  assumes "reserve_result i n rt1 = (r, rt2)" and "pins P Q i rt rt1" and "\<And>j. P j \<Longrightarrow> live_file (client_at rt i) j"
  shows "pins P Q i rt rt2" and "r = Inr (Some (m, rid)) \<Longrightarrow> \<not> P m"
proof -
  note live = pins_registered_live [OF assms(2,3)]
  show "r = Inr (Some (m, rid)) \<Longrightarrow> \<not> P m"
    using assms(1) live found_free(1) [of "client_at rt1 i"]
    by (auto simp: reserve_result_def reserve_accept_def Let_def elim!: bind_rc_cases split: option.splits if_splits prod.splits)
  have "pinning P Q i rt (reserve_result i n rt1)"
    unfolding reserve_result_def reserve_accept_def Let_def
    using assms(2) live found_free(1) [of "client_at rt1 i"]
    by (auto intro!: pinned split: option.splits simp: hold_simps)
  with assms(1) show "pins P Q i rt rt2" by (simp add: pinning_def)
qed

lemma pins_give_back:
  assumes "pins P Q i rt rt1" and "fs_registered (cl_file_resources (client_at rt i) ! j)"
    and "\<And>m rid. result = Some (m, rid) \<Longrightarrow> \<not> P m"
  shows "pins P Q i rt (give_back i j b result rt1)"
  unfolding give_back_def Let_def
  using assms by (auto intro!: pins_add_in_flight pins_unreserve split: option.splits)

lemma pins_io_steps [pinned]:
  "pins P Q i rt rt1 \<Longrightarrow> pinning P Q i rt (submit_io sys i j n rt1)"
  "pins P Q i rt rt1 \<Longrightarrow> pins P Q i rt (load_io_buffer i n rt1)"
  "pins P Q i rt rt1 \<Longrightarrow> pins P Q i rt (unallocate_result i result rt1)"
  unfolding submit_io_def load_io_buffer_def unallocate_result_def Let_def
  by (auto intro!: pinned holds_same split: option.splits)

lemma pinning_resource_io:
  assumes "\<And>j. P j \<Longrightarrow> live_file (client_at rt i) j"
  shows "pinning P Q i rt (dispatch_resource_io sys i rt)"
proof (cases "io_target (client_at rt i)")
  case (Inr p)
  obtain j b where p: "p = (j, b)" by fastforce
  have reg: "fs_registered (cl_file_resources (client_at rt i) ! j)"
    using Inr p io_target_bounds(2) [of "client_at rt i" j b] by simp
  show ?thesis
  proof (cases "iouringd_find_free_task_slot rt")
    case (Some n)
    let ?rt1 = "upd_client i (add_in_flight 1 j b) (set_task n (io_task i j b rt) rt)"
    have p1: "pins P Q i rt ?rt1" by (intro pins_add_in_flight pinned reg)
    obtain r rt2 where res: "reserve_result i n ?rt1 = (r, rt2)" by fastforce
    note p2 = reserve_result_pins [OF res p1 assms]
    show ?thesis
    proof (cases r)
      case (Inr result)
      have "\<not> P m" if "result = Some (m, rid)" for m rid using p2(2) Inr that by blast
      then show ?thesis
        unfolding dispatch_resource_io_def \<open>io_target _ = _\<close> p
        using p2(1) res Inr Some reg by (auto intro!: pinned pins_give_back simp: Let_def)
    qed (use \<open>io_target _ = _\<close> p p2(1) res Some reg in
        \<open>auto intro!: pinned pins_give_back simp: dispatch_resource_io_def Let_def\<close>)
  qed (use Inr p in \<open>auto intro!: pinned simp: dispatch_resource_io_def\<close>)
qed (auto intro!: pinned simp: dispatch_resource_io_def)

lemma dispatch_pins:
  assumes "i < length (rt_clients rt)" and "iouringd_dispatch_client_request sys i rt = (r, rt')"
    and files: "\<And>j. P j \<Longrightarrow> fs_in_flight (cl_file_resources (client_at rt i) ! j) \<noteq> 0"
    and buffers: "\<And>b. Q b \<Longrightarrow> bs_in_flight (cl_buffer_resources (client_at rt i) ! b) \<noteq> 0"
  shows "pins P Q i rt rt'"
proof -
  have live: "\<And>j. P j \<Longrightarrow> live_file (client_at rt i) j" "\<And>b. Q b \<Longrightarrow> live_buffer (client_at rt i) b"
    using files buffers by (simp_all add: live_file_def live_buffer_def)
  have trace: "pinning P Q i rt (dispatch_get_trace i rt)"
    using pins_core [OF get_trace_core assms(1)] by (metis pinning_def prod.collapse)
  have "pinning P Q i rt (dispatch_submit sys i rt)"
    using pinning_openat [OF live(1)] pinning_close [OF files] pinning_resource_io [OF live(1)] pinning_plain
    by (auto simp: dispatch_submit_def Let_def intro!: pinned split: option.split)
  then have "pinning P Q i rt (iouringd_dispatch_client_request sys i rt)"
    using pinning_register_fd [OF live(1)] pinning_register_buffer [OF live(2)] trace
      pinning_release_resource [OF files buffers] pinning_get_stats
    by (simp add: iouringd_dispatch_client_request_def Let_def pinning_pair pins_refl)
  with assms(2) show ?thesis by (simp add: pinning_def)
qed

section \<open>The slots of the tasks in flight\<close>

text \<open>The slots a task refers to are the ones it was submitted with: the file slot has the resource
  identifier of the task and is registered, except that a close has detached it and is its only user;
  the slot for a returned descriptor is reserved under the identifier promised to the client, and only
  for this task; the buffer slot is registered under the task's buffer identifier.\<close>

definition slot_bound :: "iouringd_client \<Rightarrow> iouringd_task_slot \<Rightarrow> bool" where
  "slot_bound c t \<longleftrightarrow>
     (\<forall>j. tk_file_slot_index t = int j \<longrightarrow>
        fs_resource_id (cl_file_resources c ! j) = tk_resource_id t
        \<and> fs_registered (cl_file_resources c ! j) = (tk_task_kind t \<noteq> IOURINGD_TASK_KIND_CLOSE)
        \<and> (fs_registered (cl_file_resources c ! j) \<or> fs_in_flight (cl_file_resources c ! j) = 1))
     \<and> (\<forall>j. tk_result_file_slot_index t = int j \<longrightarrow>
        fs_resource_id (cl_file_resources c ! j) = tk_result_resource_id t
        \<and> \<not> fs_registered (cl_file_resources c ! j) \<and> fs_in_flight (cl_file_resources c ! j) = 1)
     \<and> (\<forall>b. tk_buffer_slot_index t = int b \<longrightarrow>
        bs_resource_id (cl_buffer_resources c ! b) = tk_buffer_resource_id t \<and> bs_registered (cl_buffer_resources c ! b))"

lemma slot_bound_holds:
  assumes "slot_bound c t" and "holds P Q c c'"
    and "\<And>j. tk_file_slot_index t = int j \<or> tk_result_file_slot_index t = int j \<Longrightarrow> P j"
    and "\<And>b. tk_buffer_slot_index t = int b \<Longrightarrow> Q b"
  shows "slot_bound c' t"
proof -
  have "file_kept (cl_file_resources c ! j) (cl_file_resources c' ! j)"
    if "tk_file_slot_index t = int j \<or> tk_result_file_slot_index t = int j" for j
    using assms(2) assms(3) [OF that] by (simp add: holds_def)
  moreover have "buffer_kept (cl_buffer_resources c ! b) (cl_buffer_resources c' ! b)"
    if "tk_buffer_slot_index t = int b" for b
    using assms(2) assms(4) [OF that] by (simp add: holds_def)
  ultimately show ?thesis
    using assms(1) unfolding slot_bound_def file_kept_def buffer_kept_def by metis
qed

lemma slot_bound_copy [simp]: "slot_bound c (t\<lparr>tk_io_buffer := buf\<rparr>) = slot_bound c t"
  by (simp add: slot_bound_def)

definition slots_bound :: "iouringd_runtime \<Rightarrow> bool" where
  "slots_bound rt \<longleftrightarrow> (\<forall>n < IOURINGD_MAX_TASKS. tk_active (task_at rt n) \<longrightarrow>
     slot_bound (client_at rt (tk_client_index (task_at rt n))) (task_at rt n))"

text \<open>Every task in flight after a request was there before, or is a new one bound to its slots.\<close>

definition newly_bound :: "nat \<Rightarrow> iouringd_runtime \<Rightarrow> iouringd_runtime \<Rightarrow> bool" where
  "newly_bound i rt rt' \<longleftrightarrow> (\<forall>n < IOURINGD_MAX_TASKS. tk_active (task_at rt' n) \<longrightarrow> task_at rt' n = task_at rt n
     \<or> tk_client_index (task_at rt' n) = i \<and> slot_bound (client_at rt' i) (task_at rt' n))"

lemma newly_bound_same: "rt_tasks rt' = rt_tasks rt \<Longrightarrow> newly_bound i rt rt'"
  by (simp add: newly_bound_def)

lemma newly_bound_cleared: "rt_tasks rt' = (rt_tasks rt)[n := iouringd_clear_task_slot] \<Longrightarrow> newly_bound i rt rt'"
  by (auto simp: newly_bound_def nth_update iouringd_clear_task_slot_def)

lemma newly_bound_added:
  assumes "rt_tasks rt' = (rt_tasks rt)[n := t]" and "tk_client_index t = i" and "slot_bound (client_at rt' i) t"
  shows "newly_bound i rt rt'"
  using assms by (simp add: newly_bound_def nth_update)

lemma reject_tasks: "reject_request sys i e rt1 = (r, rt') \<Longrightarrow> rt_tasks rt' = rt_tasks rt1"
  using reject_request_core core_length(2) by metis

lemma count_task_tasks [simp]: "rt_tasks (count_task i cr rt) = rt_tasks rt"
  by (simp add: count_task_def)

lemma accept_tables:
  assumes "accept_request sys i t undo rt1 = (Inr x, rt')" and "\<And>e s y z. undo e s \<noteq> (Inr y, z)"
  shows "rt_tasks rt' = rt_tasks rt1" and "pins (\<lambda>_. True) (\<lambda>_. True) i rt1 rt'"
proof -
  let ?q = "iouringd_queue_submit_result i (tk_task_id t) IOURINGD_COMPLETION_RES_OK
    (count_task i (tk_consumes_credit t) rt1)"
  obtain u rt2 where q: "?q = (Inr u, rt2)"
    using assms unfolding accept_request_def by (cases ?q; cases "fst ?q") auto
  have "pinning (\<lambda>_. True) (\<lambda>_. True) i rt1 ?q" by (intro pinned)
  then have p2: "pins (\<lambda>_. True) (\<lambda>_. True) i rt1 rt2" by (simp add: q pinning_def)
  have t2: "rt_tasks rt2 = rt_tasks rt1"
    using q by (auto simp: iouringd_queue_submit_result_def on_client_def split: prod.splits)
  from assms(1) q t2 show "rt_tasks rt' = rt_tasks rt1"
    by (auto simp: accept_request_def finish_request_def)
  from assms(1) q p2 show "pins (\<lambda>_. True) (\<lambda>_. True) i rt1 rt'"
    by (auto simp: accept_request_def finish_request_def intro!: pinned holds_same)
qed

text \<open>The outcome of a handler that answers its request.\<close>

definition binding :: "nat \<Rightarrow> iouringd_runtime \<Rightarrow> (bool, iouringd_runtime) res \<Rightarrow> bool" where
  "binding i rt out \<longleftrightarrow> (\<forall>x rt'. out = (Inr x, rt') \<longrightarrow> newly_bound i rt rt')"

lemma binding_Inl [simp]: "binding i rt (Inl e, rt')"
  by (simp add: binding_def)

lemma binding_reject: "rt_tasks rt1 = rt_tasks rt \<Longrightarrow> binding i rt (reject_request sys i e rt1)"
  by (auto simp: binding_def dest!: reject_tasks intro: newly_bound_same)

lemma binding_rollback:
  "rt_tasks rt1 = (rt_tasks rt)[n := t] \<Longrightarrow>
    binding i rt (reject_request sys i e (set_task n iouringd_clear_task_slot rt1))"
  by (auto simp: binding_def dest!: reject_tasks intro!: newly_bound_cleared [of _ _ n])

lemma binding_accept:
  assumes "rt_tasks rt3 = (rt_tasks rt)[n := t]" and "tk_client_index t = i" and "slot_bound (client_at rt3 i) t"
    and "\<And>e s y z. undo e s \<noteq> (Inr y, z)"
  shows "binding i rt (accept_request sys i t undo rt3)"
  unfolding binding_def
proof (intro allI impI)
  fix x rt'
  assume "accept_request sys i t undo rt3 = (Inr x, rt')"
  note acc = accept_tables [OF this assms(4)]
  from slot_bound_holds [OF assms(3) acc(2) [unfolded pins_def]] have "slot_bound (client_at rt' i) t" by simp
  with acc(1) assms(1,2) show "newly_bound i rt rt'" by (intro newly_bound_added [of _ _ n t]) simp_all
qed

lemma on_ring_tables:
  "on_ring f rt = (r, rt') \<Longrightarrow> rt_tasks rt' = rt_tasks rt \<and> rt_clients rt' = rt_clients rt"
  by (auto simp: on_ring_def split: prod.splits)

lemma plain_binding: "binding i rt (dispatch_plain sys i rt)"
proof (cases rt rule: submit_cases)
  case (free n)
  let ?t = "plain_task i rt"
  obtain r rt2 where s: "on_ring (submit_plain sys n ?t) (set_task n ?t rt) = (r, rt2)" by fastforce
  then have t2: "rt_tasks rt2 = (rt_tasks rt)[n := ?t]" by (auto dest: on_ring_tables)
  have t: "tk_client_index ?t = i" "slot_bound c ?t" for c
    by (simp_all add: plain_task_def new_task_def Let_def slot_bound_def iouringd_clear_task_slot_def)
  show ?thesis
    using free s binding_rollback [OF t2] binding_accept [OF t2 t]
    by (cases r) (simp_all add: dispatch_plain_def Let_def binding_reject)
qed (simp_all add: dispatch_plain_def binding_reject)

lemma openat_binding:
  assumes ok: "core_ok (core_of rt)" and i: "i < length (rt_clients rt)"
  shows "binding i rt (dispatch_openat sys i rt)"
proof -
  let ?c = "client_at rt i"
  obtain r c1 where alloc: "iouringd_allocate_resource_id ?c = (r, c1)" by fastforce
  let ?rt1 = "set_client i c1 rt"
  show ?thesis
  proof (cases "rt_next_task_id rt \<ge> IOURINGD_TASK_ID_RESERVED_MIN \<or> iouringd_find_free_file_slot ?c = None
      \<or> r = 0 \<or> iouringd_find_free_task_slot ?rt1 = None")
    case True
    then show ?thesis
      using alloc by (auto simp: dispatch_openat_def Let_def intro!: binding_reject split: option.splits)
  next
    case False
    then obtain j n where jn: "iouringd_find_free_file_slot ?c = Some j" "iouringd_find_free_task_slot ?rt1 = Some n"
      by auto
    let ?t = "open_task i j r ?rt1"
    let ?rt2 = "upd_client i (set_file_slot j (reserve_slot r)) (set_task n ?t ?rt1)"
    obtain x rt3 where run: "on_ring (iouringd_ring_submit_openat (s_kernel sys) (tk_task_id ?t) (- 100)
      (s_addr sys (Task_io_buffer n)) (tk_open_flags ?t) (tk_open_mode ?t) (tk_submit_priority ?t)) ?rt2 = (x, rt3)"
      by fastforce
    note rt3 = on_ring_tables [OF run]
    have j: "j < length (cl_file_resources c1)"
      using free_file_slot [OF jn(1)] core_ok_tables [OF ok i] allocate_tables [OF alloc] by simp
    have tasks: "rt_tasks rt3 = (rt_tasks rt)[n := ?t]" using rt3 by simp
    have "slot_bound (client_at rt3 i) ?t"
      using rt3 i j
      by (simp add: slot_bound_def open_task_def new_task_def Let_def iouringd_clear_task_slot_def
          set_file_slot_def reserve_slot_def)
    from binding_accept [OF tasks _ this] have "binding i rt (accept_request sys i ?t undo rt3)"
      if "\<And>e s y z. undo e s \<noteq> (Inr y, z)" for undo
      using that by (simp add: open_task_def new_task_def Let_def)
    moreover have "rt_tasks (upd_client i f (unreserve_slot i j rt3)) = (rt_tasks rt)[n := ?t]" for f
      using tasks by (simp add: unreserve_slot_def rt_clear_file_slot_def iouringd_clear_file_slot_def)
    ultimately show ?thesis
      using False jn alloc run by (cases x) (simp_all add: dispatch_openat_def Let_def binding_rollback)
  qed
qed

lemma close_binding:
  assumes ok: "core_ok (core_of rt)" and i: "i < length (rt_clients rt)"
    and kind: "sr_task_kind (cl_request (client_at rt i)) = IOURINGD_TASK_KIND_CLOSE"
  shows "binding i rt (dispatch_close sys i rt)"
proof -
  let ?c = "client_at rt i"
  let ?fd = "\<lambda>j. fs_daemon_fd (cl_file_resources ?c ! j)"
  consider "iouringd_find_file_slot ?c (cl_resource_id ?c) = None"
    | j where "iouringd_find_file_slot ?c (cl_resource_id ?c) = Some j"
      "fs_closing (cl_file_resources ?c ! j) \<or> fs_in_flight (cl_file_resources ?c ! j) \<noteq> 0 \<or> ?fd j < 0
        \<or> rt_next_task_id rt \<ge> IOURINGD_TASK_ID_RESERVED_MIN \<or> iouringd_find_free_task_slot rt = None"
    | n j where "iouringd_find_file_slot ?c (cl_resource_id ?c) = Some j" "iouringd_find_free_task_slot rt = Some n"
      "\<not> rt_next_task_id rt \<ge> IOURINGD_TASK_ID_RESERVED_MIN"
      "\<not> fs_closing (cl_file_resources ?c ! j)" "fs_in_flight (cl_file_resources ?c ! j) = 0" "\<not> ?fd j < 0"
    by (cases "iouringd_find_file_slot ?c (cl_resource_id ?c)"; cases "iouringd_find_free_task_slot rt") auto
  then show ?thesis
  proof cases
    case (3 n j)
    let ?g = "iouringd_global_file_index rt i j"
    obtain u rt1 where upd: "rt_update_file sys ?g (- 1) rt = (u, rt1)" by fastforce
    then have rt1: "rt_tasks rt1 = rt_tasks rt" "rt_clients rt1 = rt_clients rt"
      by (auto simp: rt_update_file_def split: prod.splits)
    let ?t = "close_task i j (?fd j) rt1"
    let ?rt2 = "upd_client i (upd_file_slot j detach_slot) (set_task n ?t rt1)"
    obtain x rt3 where run: "on_ring (iouringd_ring_submit_close (s_kernel sys) (tk_task_id ?t) (?fd j)
      (tk_submit_priority ?t)) ?rt2 = (x, rt3)" by fastforce
    note rt3 = on_ring_tables [OF run]
    let ?rt4 = "upd_client i (upd_file_slot j (attach_slot (?fd j))) rt3"
    obtain v rt5 where upd5: "rt_update_file sys ?g (?fd j) ?rt4 = (v, rt5)" by fastforce
    have tasks: "rt_tasks rt3 = (rt_tasks rt)[n := ?t]" "rt_tasks rt5 = (rt_tasks rt)[n := ?t]"
      using rt3 rt1 rt_update_file_static [OF upd5] by simp_all
    have j: "j < length (cl_file_resources ?c)" "fs_resource_id (cl_file_resources ?c ! j) = cl_resource_id ?c"
      using files.find_key_Some [OF 3(1)] core_ok_tables [OF ok i] by auto
    have "slot_bound (client_at rt3 i) ?t"
      using rt3 rt1 i j kind
      by (simp add: slot_bound_def close_task_def new_task_def Let_def iouringd_clear_task_slot_def
          upd_file_slot_def set_file_slot_def detach_slot_def)
    from binding_accept [OF tasks(1) _ this] have acc: "binding i rt (accept_request sys i ?t undo rt3)"
      if "\<And>e s y z. undo e s \<noteq> (Inr y, z)" for undo
      using that by (simp add: close_task_def new_task_def Let_def)
    have "dispatch_close sys i rt = bind_rc (u, rt1) (\<lambda>_ _. case (x, rt3) of
        (Inl e, rt3) \<Rightarrow> bind_rc (v, rt5)
          (\<lambda>_ rt4. reject_request sys i e (set_task n iouringd_clear_task_slot rt4))
      | (Inr _, rt3) \<Rightarrow> accept_request sys i ?t
          (\<lambda>e rt. bind_rc (rt_update_file sys ?g (?fd j) (upd_client i (upd_file_slot j (attach_slot (?fd j))) rt))
             (\<lambda>_ rt. (Inl e, set_task n iouringd_clear_task_slot rt))) rt3)"
      using 3 upd run upd5 by (cases u; cases x) (simp_all add: dispatch_close_def Let_def)
    then show ?thesis
      by (cases u; cases x; cases v) (auto intro!: acc binding_rollback [OF tasks(2)] elim: bind_rc_cases)
  qed (auto simp: dispatch_close_def Let_def intro!: binding_reject split: option.splits)
qed

text \<open>The slots of a task on resources, when it is given to the ring.\<close>

lemma io_slot_bound:
  assumes ok: "core_ok (core_of rt)" and i: "i < length (rt_clients rt)"
    and target: "io_target (client_at rt i) = Inr (j, b)"
    and kind: "sr_task_kind (cl_request (client_at rt i)) \<noteq> IOURINGD_TASK_KIND_CLOSE"
    and n: "n < length (rt_tasks rt)"
    and rt1: "rt1 = upd_client i (add_in_flight 1 j b) (set_task n (io_task i j b rt) rt)"
    and res: "reserve_result i n rt1 = (Inr result, rt2)"
  obtains t where "rt_tasks rt2 = (rt_tasks rt)[n := t]" and "tk_client_index t = i"
    and "slot_bound (client_at rt2 i) t"
proof -
  note tab = core_ok_tables [OF ok i] and bnd = io_target_bounds [OF target]
  let ?t = "io_task i j b rt" and ?c1 = "add_in_flight 1 j b (client_at rt i)"
  have c1: "client_at rt1 i = ?c1" "rt_tasks rt1 = (rt_tasks rt)[n := ?t]" "i < length (rt_clients rt1)"
    using i by (simp_all add: rt1)
  have t: "tk_client_index ?t = i" "tk_file_slot_index ?t = int j" "tk_result_file_slot_index ?t = - 1"
    "tk_resource_id ?t = cl_resource_id (client_at rt i)" "tk_task_kind ?t \<noteq> IOURINGD_TASK_KIND_CLOSE"
    "tk_buffer_resource_id ?t = cl_buffer_resource_id (client_at rt i)"
    "tk_buffer_slot_index ?t = (case b of None \<Rightarrow> - 1 | Some b \<Rightarrow> int b)"
    using kind by (simp_all add: io_task_def new_task_def Let_def iouringd_clear_task_slot_def)
  have bound: "slot_bound ?c1 ?t"
    using bnd(1-3) bnd(5) tab t
    by (auto simp: slot_bound_def add_in_flight_def Let_def upd_file_slot_def upd_buffer_slot_def
        set_file_slot_def set_buffer_slot_def file_in_flight_def buffer_in_flight_def split: option.splits)
  show thesis
  proof (cases result)
    case None
    with reserve_result_other(2) res have "rt2 = rt1" by simp
    with that [of ?t] c1 t bound show thesis by simp
  next
    case (Some p)
    then obtain m r where p: "result = Some (m, r)" by (cases p) auto
    let ?t' = "?t\<lparr>tk_result_file_slot_index := int m, tk_result_resource_id := r\<rparr>"
    have lim: "cl_file_slot_limit (client_at rt1 i) \<le> length (cl_file_resources (client_at rt1 i))"
      using tab by (simp add: c1 add_in_flight_files)
    note r = reserve_result_Some [OF res [unfolded p] c1(3) lim]
    have "m \<noteq> j"
      using reserve_result_pins(2) [OF res [unfolded p] pins_refl [of "\<lambda>k. k = j"], of m r] bnd(1,2) tab
      by (auto simp: live_file_def c1 add_in_flight_files file_in_flight_def)
    moreover have "cl_buffer_resources (client_at rt2 i) = cl_buffer_resources ?c1"
      using res p i by (auto simp: reserve_result_def reserve_accept_def Let_def c1 set_file_slot_def
          dest: allocate_tables elim!: bind_rc_cases split: option.splits if_splits prod.splits)
    ultimately have "slot_bound (client_at rt2 i) ?t'"
      using bound r(3) lim t r(5) by (auto simp: slot_bound_def c1 reserve_slot_def)
    moreover have "rt_tasks rt2 = (rt_tasks rt)[n := ?t']" using r(2) c1(2) n by simp
    ultimately show thesis using that [of ?t'] t(1) by simp
  qed
qed

lemma give_back_tasks [simp]:
  "rt_tasks (give_back i j b result rt) = rt_tasks rt"
  "rt_tasks (unallocate_result i result rt) = rt_tasks rt"
  by (simp_all add: give_back_def Let_def unreserve_slot_def rt_clear_file_slot_def unallocate_result_def
      iouringd_clear_file_slot_def split: option.splits prod.splits)

lemma resource_io_binding:
  assumes ok: "core_ok (core_of rt)" and i: "i < length (rt_clients rt)"
    and kind: "sr_task_kind (cl_request (client_at rt i)) \<noteq> IOURINGD_TASK_KIND_CLOSE"
  shows "binding i rt (dispatch_resource_io sys i rt)"
proof (cases "io_target (client_at rt i)")
  case (Inr p)
  then obtain j b where target: "io_target (client_at rt i) = Inr (j, b)" by (cases p) auto
  show ?thesis
  proof (cases rt rule: submit_cases)
    case (free n)
    define rt1 where "rt1 = upd_client i (add_in_flight 1 j b) (set_task n (io_task i j b rt) rt)"
    obtain x rt2 where res: "reserve_result i n rt1 = (x, rt2)" by fastforce
    have n: "n < length (rt_tasks rt)"
      using free_task_slot [OF free(2)] core_okD(1,4) [OF ok] by (simp add: core_length core_fields)
    show ?thesis
    proof (cases x)
      case (Inl e)
      then have "core_of rt2 = core_of rt1" using reserve_result_other(1) res by simp
      then have "rt_tasks rt2 = (rt_tasks rt)[n := io_task i j b rt]"
        using core_length(2) [of rt1] core_length(2) [of rt2] by (simp add: rt1_def)
      with free res Inl show ?thesis
        by (auto simp: dispatch_resource_io_def target Let_def rt1_def [symmetric] intro!: binding_reject binding_rollback)
    next
      case (Inr result)
      obtain t where t: "rt_tasks rt2 = (rt_tasks rt)[n := t]" "tk_client_index t = i" "slot_bound (client_at rt2 i) t"
        using io_slot_bound [OF ok i target kind n rt1_def res [unfolded Inr]] by blast
      obtain y rt3 where sub: "submit_io sys i j n (load_io_buffer i n rt2) = (y, rt3)" by fastforce
      obtain buf where load: "load_io_buffer i n rt2 = set_task n ((task_at rt2 n)\<lparr>tk_io_buffer := buf\<rparr>) rt2"
        by (rule load_io_buffer_task)
      let ?t = "t\<lparr>tk_io_buffer := buf\<rparr>"
      note c3 = submit_io_core [OF sub, unfolded load]
      have tasks: "rt_tasks rt3 = (rt_tasks rt)[n := ?t]" "task_at rt3 n = ?t" "tk_client_index ?t = i"
        using c3 t n by simp_all
      have "slot_bound (client_at rt3 i) ?t" using t(3) c3 by simp
      note acc = binding_accept [OF tasks(1,3) this]
      have nth: "(rt_tasks rt)[n := ?t] ! n = ?t" using n by simp
      from free res Inr sub show ?thesis
        by (cases y) (auto simp: dispatch_resource_io_def target Let_def rt1_def [symmetric] tasks(1) nth
            intro!: acc binding_reject binding_rollback [of _ _ _ ?t])
    qed
  qed (simp_all add: dispatch_resource_io_def target binding_reject)
qed (simp add: dispatch_resource_io_def binding_reject)

lemma dispatch_newly_bound:
  assumes ok: "core_ok (core_of rt)" and i: "i < lim_max_clients (rt_limits rt)"
    and out: "iouringd_dispatch_client_request sys i rt = (Inr x, rt')"
  shows "newly_bound i rt rt'"
proof -
  have il: "i < length (rt_clients rt)" using core_ok_index [OF ok i] by simp
  consider "rt' = rt"
    | "dispatch_register_fd sys i rt = (Inr x, rt')" | "dispatch_register_buffer sys i rt = (Inr x, rt')"
    | "dispatch_release_resource sys i rt = (Inr x, rt')" | "dispatch_get_stats i rt = (Inr x, rt')"
    | "dispatch_get_trace i rt = (Inr x, rt')" | "dispatch_submit sys i rt = (Inr x, rt')"
    using out unfolding iouringd_dispatch_client_request_def Let_def by (auto split: if_splits)
  then show ?thesis
  proof cases
    case 7
    have "binding i rt (dispatch_submit sys i rt)"
      using plain_binding openat_binding [OF ok il] close_binding [OF ok il] resource_io_binding [OF ok il]
      by (auto simp: dispatch_submit_def Let_def intro!: binding_reject split: option.splits)
    with 7 show ?thesis by (simp add: binding_def)
  qed (use il in \<open>auto intro!: newly_bound_same simp: quiet_def dest!: register_fd_quiet register_buffer_quiet
      release_resource_quiet quiet_core [OF get_stats_core] quiet_core [OF get_trace_core]\<close>)
qed

section \<open>The steps of a turn\<close>

text \<open>The slots of an active task are slots of its client.\<close>

lemma task_index_bounds:
  assumes ok: "daemon_ok rt" and n: "n < 64" and act: "tk_active (task_at rt n)"
    and i: "i = tk_client_index (task_at rt n)"
  shows "i < 64" and "i < length (rt_clients rt)" and "tk_client_generation (task_at rt n) = cl_generation (client_at rt i)"
    and "tk_file_slot_index (task_at rt n) = int j \<Longrightarrow> j < length (cl_file_resources (client_at rt i)) \<and> j < 32"
    and "tk_result_file_slot_index (task_at rt n) = int j \<Longrightarrow> j < length (cl_file_resources (client_at rt i)) \<and> j < 32"
    and "tk_buffer_slot_index (task_at rt n) = int b \<Longrightarrow> b < length (cl_buffer_resources (client_at rt i)) \<and> b < 4"
proof -
  note d = daemon_okD [OF ok]
  note t = core_ok_task [OF d(1), of n, unfolded core_length, OF n act]
  show i64: "i < 64" and il: "i < length (rt_clients rt)" using t d(3,6) i by (simp_all add: task_ok_def core_fields)
  note tab = core_ok_tables [OF d(1) il]
  show "tk_client_generation (task_at rt n) = cl_generation (client_at rt i)"
    using t i core_client_at [OF il] by (simp add: task_ok_def Let_def client_fields)
  show "tk_file_slot_index (task_at rt n) = int j \<Longrightarrow> j < length (cl_file_resources (client_at rt i)) \<and> j < 32"
    "tk_result_file_slot_index (task_at rt n) = int j \<Longrightarrow> j < length (cl_file_resources (client_at rt i)) \<and> j < 32"
    "tk_buffer_slot_index (task_at rt n) = int b \<Longrightarrow> b < length (cl_buffer_resources (client_at rt i)) \<and> b < 4"
    using t i core_client_at [OF il] tab by (auto simp: task_ok_def Let_def client_fields index_ok_def)
qed

lemma slots_boundD:
  "slots_bound rt \<Longrightarrow> n < 64 \<Longrightarrow> tk_active (task_at rt n) \<Longrightarrow> i = tk_client_index (task_at rt n) \<Longrightarrow>
    slot_bound (client_at rt i) (task_at rt n)"
  by (simp add: slots_bound_def)

text \<open>A step that keeps the slots of the tasks of one client, and of which every other client knows
  nothing.\<close>

lemma slots_bound_step:
  assumes ok: "daemon_ok rt" and bound: "slots_bound rt"
    and others: "\<And>k. k \<noteq> i \<Longrightarrow> client_at rt' k = client_at rt k"
    and tasks: "\<And>n. n < 64 \<Longrightarrow> tk_active (task_at rt' n) \<Longrightarrow> task_at rt' n = task_at rt n
      \<or> tk_client_index (task_at rt' n) = i \<and> slot_bound (client_at rt' i) (task_at rt' n)"
    and "\<And>n. n < 64 \<Longrightarrow> tk_active (task_at rt' n) \<Longrightarrow> task_at rt' n = task_at rt n \<Longrightarrow>
      tk_client_index (task_at rt n) = i \<Longrightarrow> slot_bound (client_at rt' i) (task_at rt n)"
  shows "slots_bound rt'"
  unfolding slots_bound_def
proof (intro allI impI)
  fix n
  assume n: "n < IOURINGD_MAX_TASKS" and act: "tk_active (task_at rt' n)"
  with tasks [of n] consider "task_at rt' n = task_at rt n"
    | "tk_client_index (task_at rt' n) = i" "slot_bound (client_at rt' i) (task_at rt' n)" by auto
  then show "slot_bound (client_at rt' (tk_client_index (task_at rt' n))) (task_at rt' n)"
  proof cases
    case 1
    show ?thesis
    proof (cases "tk_client_index (task_at rt n) = i")
      case True
      with assms(5) [of n] n act 1 show ?thesis by simp
    next
      case False
      with slots_boundD [OF bound, of n] n act 1 others show ?thesis by simp
    qed
  qed simp
qed

lemma account_step_bound:
  assumes "daemon_ok rt" and "slots_bound rt" and "account_step i rt rt'"
  shows "slots_bound rt'"
proof -
  obtain os c where rt': "rt' = set_client i c (rt\<lparr>rt_os := os\<rparr>)" and same: "same_account (client_at rt i) c"
    using assms(3) by (auto simp: account_step_def)
  note slots = same_account_slots [OF same]
  let ?P = "\<lambda>j. j < length (cl_file_resources (client_at rt i))" and ?Q = "\<lambda>b. b < length (cl_buffer_resources (client_at rt i))"
  have h: "holds ?P ?Q (client_at rt i) c"
    using slots(3,4) by (simp add: holds_def file_kept_def buffer_kept_def file_account_def buffer_account_def)
  have tasks: "rt_tasks rt' = rt_tasks rt" by (simp add: rt' set_client_def)
  show ?thesis
  proof (rule slots_bound_step [OF assms(1,2), of i])
    show "client_at rt' k = client_at rt k" if "k \<noteq> i" for k using that by (simp add: rt' set_client_def)
    fix n
    assume n: "n < 64" and "tk_active (task_at rt' n)" and i: "tk_client_index (task_at rt n) = i"
    then have act: "tk_active (task_at rt n)" by (simp add: tasks)
    note b = task_index_bounds [OF assms(1) n act i [symmetric]]
    have "client_at rt' i = c" using b(2) by (simp add: rt' set_client_def)
    with slot_bound_holds [OF slots_boundD [OF assms(2) n act i [symmetric]] h] b(4-6)
    show "slot_bound (client_at rt' i) (task_at rt n)" by blast
  qed (simp add: tasks)
qed

lemma pins_step_bound:
  assumes "daemon_ok rt" and "slots_bound rt" and t: "touches i rt rt'"
    and p: "pins (\<lambda>j. fs_in_flight (cl_file_resources (client_at rt i) ! j) \<noteq> 0)
      (\<lambda>b. bs_in_flight (cl_buffer_resources (client_at rt i) ! b) \<noteq> 0) i rt rt'"
    and new: "newly_bound i rt rt'"
  shows "slots_bound rt'"
proof (rule slots_bound_step [OF assms(1,2), of i])
  show "client_at rt' k = client_at rt k" if "k \<noteq> i" for k using that t by (simp add: touches_def)
  show "task_at rt' n = task_at rt n \<or> tk_client_index (task_at rt' n) = i \<and> slot_bound (client_at rt' i) (task_at rt' n)"
    if "n < 64" "tk_active (task_at rt' n)" for n
    using new that by (simp add: newly_bound_def)
  fix n
  assume n: "n < 64" and "tk_active (task_at rt' n)" "task_at rt' n = task_at rt n"
    and i: "tk_client_index (task_at rt n) = i"
  then have act: "tk_active (task_at rt n)" by simp
  note b = task_index_bounds [OF assms(1) n act i [symmetric]]
  note fl = task_slots_in_flight [OF daemon_okD(1) [OF assms(1)] n act i [symmetric] b(2)]
  show "slot_bound (client_at rt' i) (task_at rt n)"
    by (rule slot_bound_holds [OF slots_boundD [OF assms(2) n act i [symmetric]] p [unfolded pins_def]])
      (use fl in auto)
qed

lemma dispatch_bound:
  assumes "daemon_ok rt" and "slots_bound rt" and i: "i < lim_max_clients (rt_limits rt)"
    and out: "iouringd_dispatch_client_request sys i rt = (Inr x, rt')"
  shows "slots_bound rt'"
proof -
  have ok: "core_ok (core_of rt)" using daemon_okD(1) [OF assms(1)] .
  have il: "i < length (rt_clients rt)" using core_ok_index [OF ok i] by simp
  have t: "touches i rt rt'" using framed_dispatch [of i rt sys] out by (simp add: framed_def)
  show ?thesis
    by (rule pins_step_bound [OF assms(1,2) t dispatch_pins [OF il out] dispatch_newly_bound [OF ok i out]])
qed

lemma release_bound:
  assumes "daemon_ok rt" and "slots_bound rt"
  shows "iouringd_try_release_file_slot sys i j rt = (r, rt') \<Longrightarrow> slots_bound rt'"
    and "on_client i (iouringd_try_release_buffer_slot j) rt = (r, rt') \<Longrightarrow> slots_bound rt'"
proof -
  let ?P = "\<lambda>j. fs_in_flight (cl_file_resources (client_at rt i) ! j) \<noteq> 0"
    and ?Q = "\<lambda>b. bs_in_flight (cl_buffer_resources (client_at rt i) ! b) \<noteq> 0"
  show "slots_bound rt'" if out: "iouringd_try_release_file_slot sys i j rt = (r, rt')"
  proof (rule pins_step_bound [OF assms, of i])
    show "touches i rt rt'" using framed_try_release_file [OF touches_refl, of i rt sys j] out by (simp add: framed_def)
    show "pins ?P ?Q i rt rt'" using pinning_try_release_file [OF pins_refl [of ?P ?Q i rt], where j = j and sys = sys] out
      by (simp add: pinning_def)
    show "newly_bound i rt rt'"
      using out by (intro newly_bound_same) (auto simp: iouringd_try_release_file_slot_def Let_def rt_update_file_def
          rt_clear_file_slot_def iouringd_clear_file_slot_def elim!: bind_rc_cases split: if_splits prod.splits)
  qed
  show "slots_bound rt'" if out: "on_client i (iouringd_try_release_buffer_slot j) rt = (r, rt')"
  proof (rule pins_step_bound [OF assms, of i])
    show "touches i rt rt'" using framed_try_release_buffer [OF touches_refl, of i rt j] out by (simp add: framed_def)
    show "pins ?P ?Q i rt rt'" using pinning_try_release_buffer [OF pins_refl [of ?P ?Q i rt], where b = j] out
      by (simp add: pinning_def)
    show "newly_bound i rt rt'" using out by (intro newly_bound_same) (auto simp: on_client_def split: prod.splits)
  qed
qed

lemma open_bound:
  assumes "daemon_ok rt" and "slots_bound rt"
  shows "slots_bound (iouringd_open_client a fd rt)"
proof (cases "ae_nonblock a \<and> ae_memory a \<and> find_slot client_slot_unused (lim_max_clients (rt_limits rt)) (rt_clients rt) \<noteq> None")
  case True
  then obtain i where found: "find_slot client_slot_unused (lim_max_clients (rt_limits rt)) (rt_clients rt) = Some i" by auto
  let ?rt' = "iouringd_open_client a fd rt"
  have rt': "rt_clients ?rt' = (rt_clients rt)[i := opened_client rt fd (client_at rt i)]" "rt_tasks ?rt' = rt_tasks rt"
    using True found by (simp_all add: iouringd_open_client_def set_client_def)
  note d = daemon_okD [OF assms(1)]
  have i: "i < 64" and idle: "cl_outstanding_tasks (client_at rt i) = 0"
    using find_slot_Some [OF found] d(6) by (simp_all add: client_slot_unused_def)
  have "cnt (task_of i) (rt_tasks rt) = 0"
    using core_ok_client [OF d(1) i] idle i d(3)
    by (simp add: client_ok_def core_client_at client_fields core_length)
  then have none: "\<not> task_of i (task_at rt n)" if "n < 64" for n
    using that d(4) cnt_pos [of n "rt_tasks rt" "task_of i"] by auto
  show ?thesis
    by (rule slots_bound_step [OF assms, of i]) (use none in \<open>auto simp: rt' task_of_def\<close>)
qed (use assms(2) in \<open>auto simp: iouringd_open_client_def slots_bound_def rt_close_def split: option.splits\<close>)

section \<open>Completing a task\<close>

text \<open>A slot that another task refers to is counted at least twice.\<close>

lemma cnt_two:
  assumes "n < length xs" and "m < length xs" and "m \<noteq> n" and "P (xs ! n)" and "P (xs ! m)"
  shows "2 \<le> cnt P xs"
proof (cases "\<forall>x. P x")
  case True
  with assms(1-3) show ?thesis by (cases xs; cases "tl xs") auto
next
  case False
  then obtain x where "\<not> P x" by blast
  with cnt_update_remove [of n xs P x] cnt_pos [of m "xs[n := x]" P] assms show ?thesis by simp
qed

definition file_shared :: "nat \<Rightarrow> nat \<Rightarrow> iouringd_runtime \<Rightarrow> nat \<Rightarrow> bool" where
  "file_shared i n rt j \<longleftrightarrow> (\<exists>m < 64. m \<noteq> n \<and> file_ref i j (task_at rt m))"

definition buffer_shared :: "nat \<Rightarrow> nat \<Rightarrow> iouringd_runtime \<Rightarrow> nat \<Rightarrow> bool" where
  "buffer_shared i n rt b \<longleftrightarrow> (\<exists>m < 64. m \<noteq> n \<and> buffer_ref i b (task_at rt m))"

lemma shared_in_flight:
  assumes ok: "daemon_ok rt" and i: "i < 64" and n: "n < 64"
  shows "file_ref i j (task_at rt n) \<Longrightarrow> file_shared i n rt j \<Longrightarrow> j < 32 \<Longrightarrow>
      2 \<le> unat (fs_in_flight (cl_file_resources (client_at rt i) ! j))"
    and "buffer_ref i b (task_at rt n) \<Longrightarrow> buffer_shared i n rt b \<Longrightarrow> b < 4 \<Longrightarrow>
      2 \<le> unat (bs_in_flight (cl_buffer_resources (client_at rt i) ! b))"
proof -
  note d = daemon_okD [OF ok]
  note c = core_ok_client [OF d(1) i, unfolded client_ok_def]
  have at: "co_clients (core_of rt) ! i = core_of_client (client_at rt i)" using i d(3) by (simp add: core_client_at)
  show "2 \<le> unat (fs_in_flight (cl_file_resources (client_at rt i) ! j))"
    if "file_ref i j (task_at rt n)" "file_shared i n rt j" "j < 32"
    using c cnt_two [of n "rt_tasks rt" _ "file_ref i j"] that n d(4)
    by (auto simp: at client_fields core_length file_shared_def)
  show "2 \<le> unat (bs_in_flight (cl_buffer_resources (client_at rt i) ! b))"
    if "buffer_ref i b (task_at rt n)" "buffer_shared i n rt b" "b < 4"
    using c cnt_two [of n "rt_tasks rt" _ "buffer_ref i b"] that n d(4)
    by (auto simp: at client_fields core_length buffer_shared_def)
qed

lemma slot_bound_done [simp]: "slot_bound c (kernel_done sys t) = slot_bound c t"
  by (simp add: kernel_done_def slot_bound_def Let_def)

text \<open>The slot of a result, and a slot that is being closed, is used by one task only.\<close>

lemma shared_slots:
  assumes ok: "daemon_ok rt" and n: "n < 64" and act: "tk_active (task_at rt n)"
    and i: "i = tk_client_index (task_at rt n)" and bound: "slots_bound rt"
  shows "tk_result_file_slot_index (task_at rt n) = int j \<Longrightarrow> \<not> file_shared i n rt j"
    and "tk_file_slot_index (task_at rt n) = int j \<Longrightarrow> file_shared i n rt j \<Longrightarrow>
      fs_registered (cl_file_resources (client_at rt i) ! j)
      \<and> 2 \<le> unat (fs_in_flight (cl_file_resources (client_at rt i) ! j))"
    and "tk_buffer_slot_index (task_at rt n) = int b \<Longrightarrow> buffer_shared i n rt b \<Longrightarrow>
      2 \<le> unat (bs_in_flight (cl_buffer_resources (client_at rt i) ! b))"
proof -
  note b = task_index_bounds [OF ok n act i] and s = slots_boundD [OF bound n act i, unfolded slot_bound_def]
  note two = shared_in_flight [OF ok b(1) n]
  have me: "task_of i (task_at rt n)" using act i by (simp add: task_of_def)
  show "\<not> file_shared i n rt j" if "tk_result_file_slot_index (task_at rt n) = int j"
    using two(1) [of j] s b(5) [of j] that me by (auto simp: file_ref_def)
  show "fs_registered (cl_file_resources (client_at rt i) ! j)
      \<and> 2 \<le> unat (fs_in_flight (cl_file_resources (client_at rt i) ! j))"
    if "tk_file_slot_index (task_at rt n) = int j" "file_shared i n rt j"
  proof -
    have "2 \<le> unat (fs_in_flight (cl_file_resources (client_at rt i) ! j))"
      using two(1) [of j] b(4) [of j] that me by (simp add: file_ref_def)
    moreover from this have "fs_in_flight (cl_file_resources (client_at rt i) ! j) \<noteq> 1" by auto
    ultimately show ?thesis using s that(1) by auto
  qed
  show "2 \<le> unat (bs_in_flight (cl_buffer_resources (client_at rt i) ! b))"
    if "tk_buffer_slot_index (task_at rt n) = int b" "buffer_shared i n rt b"
    using two(2) [of b] b(6) [of b] that me by (simp add: buffer_ref_def)
qed

lemma register_result_pins:
  assumes "pins P Q i rt rt1" and "tk_client_index t = i" and "\<not> P (nat (tk_result_file_slot_index t))"
  shows "pinning P Q i rt (register_result sys t fd rt1)"
  unfolding register_result_def Let_def using assms by (auto intro!: pinned holds_slots)

lemma prepare_pins:
  assumes p: "pins P Q i rt rt1" and i: "tk_client_index t = i"
    and free: "0 \<le> tk_result_file_slot_index t \<Longrightarrow> \<not> P (nat (tk_result_file_slot_index t))"
  shows "iouringd_prepare_accept_completion sys t (cp, py) rt1 = (out, rt2) \<Longrightarrow> pins P Q i rt rt2"
    and "iouringd_prepare_openat_completion sys t cp rt1 = (cp2, rt2) \<Longrightarrow> pins P Q i rt rt2"
    and "take_read_payload t res py rt1 = (py2, rt2) \<Longrightarrow> pins P Q i rt rt2"
    and "queue_completion t cp py rt1 = (r, rt2) \<Longrightarrow> pins P Q i rt rt2"
    and "pins P Q i rt (kernel_fill_buffer sys t res rt1)"
    and "pins P Q i rt (finish_task_counts t rt1)"
proof -
  have reg: "pins P Q i rt rt2" if "0 \<le> tk_result_file_slot_index t" "register_result sys t fd rt1 = (y, rt2)" for fd y rt2
    using register_result_pins [OF p i free [OF that(1)], of sys fd] that(2) by (simp add: pinning_def)
  show "pins P Q i rt rt2" if "iouringd_prepare_accept_completion sys t (cp, py) rt1 = (out, rt2)"
    using that p reg unfolding iouringd_prepare_accept_completion_def Let_def
    by (auto intro: pins_fields split: if_splits prod.splits sum.splits)
  show "pins P Q i rt rt2" if "iouringd_prepare_openat_completion sys t cp rt1 = (cp2, rt2)"
    using that p reg unfolding iouringd_prepare_openat_completion_def Let_def
    by (auto intro: pins_fields split: if_splits prod.splits sum.splits)
  show "pins P Q i rt rt2" if "take_read_payload t res py rt1 = (py2, rt2)"
    using that p i unfolding take_read_payload_def Let_def
    by (auto intro!: pinned holds_slots simp: buffer_kept_def split: if_splits)
  have "pinning P Q i rt (queue_completion t cp py rt1)"
    unfolding queue_completion_def Let_def i using p by (auto intro!: pinned split: option.splits)
  then show "pins P Q i rt rt2" if "queue_completion t cp py rt1 = (r, rt2)"
    using that by (simp add: pinning_def)
  show "pins P Q i rt (kernel_fill_buffer sys t res rt1)"
    using p by (simp add: kernel_fill_buffer_def Let_def pins_fields)
  show "pins P Q i rt (finish_task_counts t rt1)"
    using p i by (auto simp: finish_task_counts_def Let_def intro!: pinned holds_same)
qed

lemma release_file_buffers:
  assumes "i = tk_client_index t" and "i < length (rt_clients rt)"
  shows "release_task_file sys t rt = (r, rt') \<Longrightarrow> cl_buffer_resources (client_at rt' i) = cl_buffer_resources (client_at rt i)"
    and "release_task_result sys t rt = (r, rt') \<Longrightarrow> cl_buffer_resources (client_at rt' i) = cl_buffer_resources (client_at rt i)"
  using assms
  by (auto simp: release_task_file_def release_task_result_def iouringd_try_release_file_slot_def Let_def
      rt_update_file_def rt_clear_file_slot_def iouringd_clear_file_slot_def upd_file_slot_def set_file_slot_def
      set_client_def elim!: bind_rc_cases split: if_splits prod.splits)

lemma drop_two:
  "2 \<le> unat (fs_in_flight s) \<Longrightarrow> fs_in_flight (drop_in_flight s) \<noteq> 0"
  "2 \<le> unat (bs_in_flight b) \<Longrightarrow> bs_in_flight (drop_buffer_in_flight b) \<noteq> 0"
  by (auto simp: drop_in_flight_def drop_buffer_in_flight_def)

lemma release_pins:
  assumes p: "pins P Q i rt rt1" and i: "tk_client_index t = i" and il: "i < length (rt_clients rt1)"
  shows "(\<And>j. tk_file_slot_index t = int j \<Longrightarrow> P j \<Longrightarrow> fs_registered (cl_file_resources (client_at rt1 i) ! j)
      \<and> 2 \<le> unat (fs_in_flight (cl_file_resources (client_at rt1 i) ! j))) \<Longrightarrow>
      pinning P Q i rt (release_task_file sys t rt1)"
    and "(\<And>j. tk_result_file_slot_index t = int j \<Longrightarrow> \<not> P j) \<Longrightarrow> pinning P Q i rt (release_task_result sys t rt1)"
    and "(\<And>b. tk_buffer_slot_index t = int b \<Longrightarrow> Q b \<Longrightarrow>
      2 \<le> unat (bs_in_flight (cl_buffer_resources (client_at rt1 i) ! b))) \<Longrightarrow>
      pinning P Q i rt (release_task_buffer t rt1)"
proof -
  let ?c = "client_at rt1 i"
  show "pinning P Q i rt (release_task_file sys t rt1)"
    if two: "\<And>j. tk_file_slot_index t = int j \<Longrightarrow> P j \<Longrightarrow> fs_registered (cl_file_resources ?c ! j)
      \<and> 2 \<le> unat (fs_in_flight (cl_file_resources ?c ! j))"
  proof (cases "0 \<le> tk_file_slot_index t")
    case True
    then obtain j where j: "tk_file_slot_index t = int j" using nonneg_int_cases by blast
    let ?rt2 = "upd_client i (upd_file_slot j drop_in_flight) rt1"
    have "holds P Q ?c (upd_file_slot j drop_in_flight ?c)"
      using two [OF j] by (intro holds_slots) (auto simp: file_kept_def drop_in_flight_def)
    then have p2: "pins P Q i rt ?rt2" unfolding upd_client_def using p by (intro pins_set_client)
    have "pinning P Q i rt (iouringd_try_release_file_slot sys i j ?rt2)"
    proof (rule pinning_try_release_file [OF p2])
      assume "P j"
      with two [OF j] drop_two(1) have "fs_in_flight (drop_in_flight (cl_file_resources ?c ! j)) \<noteq> 0" by blast
      with two [OF j \<open>P j\<close>] il show "fs_in_flight (cl_file_resources (client_at ?rt2 i) ! j) \<noteq> 0"
        by (auto simp: upd_file_slot_def set_file_slot_def nth_update)
    qed
    with p2 p i j show ?thesis by (auto simp: release_task_file_def Let_def intro: pinned)
  qed (use p in \<open>simp add: release_task_file_def Let_def pinned\<close>)
  show "pinning P Q i rt (release_task_result sys t rt1)" if free: "\<And>j. tk_result_file_slot_index t = int j \<Longrightarrow> \<not> P j"
  proof (cases "0 \<le> tk_result_file_slot_index t")
    case True
    then obtain j where j: "tk_result_file_slot_index t = int j" using nonneg_int_cases by blast
    note f = free [OF j]
    show ?thesis
      unfolding release_task_result_def Let_def i j using p f
      by (auto intro!: pinned holds_slots pinning_try_release_file)
  qed (use p in \<open>simp add: release_task_result_def Let_def pinned\<close>)
  show "pinning P Q i rt (release_task_buffer t rt1)"
    if two: "\<And>b. tk_buffer_slot_index t = int b \<Longrightarrow> Q b \<Longrightarrow> 2 \<le> unat (bs_in_flight (cl_buffer_resources ?c ! b))"
  proof (cases "0 \<le> tk_buffer_slot_index t")
    case True
    then obtain b where b: "tk_buffer_slot_index t = int b" using nonneg_int_cases by blast
    let ?rt2 = "upd_client i (upd_buffer_slot b drop_buffer_in_flight) rt1"
    have p2: "pins P Q i rt ?rt2"
      using p by (intro pinned holds_slots) (simp_all add: buffer_kept_def drop_buffer_in_flight_def)
    have "pinning P Q i rt (on_client i (iouringd_try_release_buffer_slot b) ?rt2)"
    proof (rule pinning_try_release_buffer [OF p2])
      assume "Q b"
      with two [OF b] drop_two(2) have "bs_in_flight (drop_buffer_in_flight (cl_buffer_resources ?c ! b)) \<noteq> 0" by blast
      with two [OF b \<open>Q b\<close>] il show "bs_in_flight (cl_buffer_resources (client_at ?rt2 i) ! b) \<noteq> 0"
        by (auto simp: upd_buffer_slot_def set_buffer_slot_def nth_update)
    qed
    with p2 p i b show ?thesis by (auto simp: release_task_buffer_def Let_def intro: pinned)
  qed (use p in \<open>simp add: release_task_buffer_def Let_def pinned\<close>)
qed

text \<open>The steps of a completion keep the slots that other tasks refer to.\<close>

lemma complete_task_pins:
  assumes ok: "daemon_ok rt" and bound: "slots_bound rt" and n: "n < 64" and act: "tk_active (task_at rt n)"
    and i: "i = tk_client_index (task_at rt n)" and out: "iouringd_complete_task sys n res rt = (Inr u, rt')"
  shows "pins (file_shared i n rt) (buffer_shared i n rt) i rt rt'"
proof -
  let ?t = "kernel_done sys (task_at rt n)" and ?P = "file_shared i n rt" and ?Q = "buffer_shared i n rt"
  note b = task_index_bounds [OF ok n act i] and s = shared_slots [OF ok n act i bound]
  have it: "tk_client_index ?t = i" by (simp add: i)
  have lim: "i < lim_max_clients (rt_limits rt)"
    using core_ok_task [OF daemon_okD(1) [OF ok] n] act by (simp add: core_length i task_ok_def core_fields)
  have free: "\<not> ?P (nat (tk_result_file_slot_index ?t))" if "0 \<le> tk_result_file_slot_index ?t"
    using s(1) [of "nat (tk_result_file_slot_index ?t)"] that by simp
  note prep = prepare_pins [of ?P ?Q i rt _ ?t, OF _ it free]
  obtain cp1 p1 rt1 cp rt2 p rt3 rt4 rt5 rt6 rt7 resource where
    pa: "iouringd_prepare_accept_completion sys ?t (completion_record ?t res, None) (kernel_fill_buffer sys ?t res rt)
      = ((cp1, p1), rt1)" and po: "iouringd_prepare_openat_completion sys ?t cp1 rt1 = (cp, rt2)"
    and tr: "take_read_payload ?t res p1 rt2 = (p, rt3)" and q: "quiet i rt rt3"
    and steps: "queue_completion ?t cp p rt3 = (Inr (), rt4)" "release_task_file sys ?t rt4 = (Inr (), rt5)"
      "release_task_result sys ?t rt5 = (Inr (), rt6)" "release_task_buffer ?t rt6 = (Inr (), rt7)"
    and rt': "rt' = set_task n iouringd_clear_task_slot (iouringd_emit_trace_event sys i
      IOURINGD_TRACE_EVENT_COMPLETION (tk_task_kind ?t) (tk_submit_priority ?t) (tk_task_id ?t) resource (cp_res cp)
      (iouringd_available_credits (finish_task_counts ?t rt7)) (finish_task_counts ?t rt7))"
    using complete_task_run [OF out refl it [symmetric] b(2) lim] .
  have p4: "pins ?P ?Q i rt rt4"
    using prep(4) [OF prep(3) [OF prep(2) [OF prep(1) [OF prep(5) [OF pins_refl] _ pa] _ po] _ tr] _ steps(1)] by blast
  have m4: "stays i (core_of rt) (core_of rt4)"
    using quiet_core_right [OF q queue_completion_core [OF steps(1)]] by (simp add: quiet_def)
  note s4 = moves_slots [OF m4 b(2)] client_tables_stable [OF m4 b(2)]
  have p5: "pins ?P ?Q i rt rt5"
    using release_pins(1) [OF p4 it s4(6), of sys] steps(2) s(2) b(4) s4(1) p4
    by (simp add: pinning_def pins_def holds_def file_kept_def)
  have len5: "i < length (rt_clients rt5)"
    using framed_release_task(1) [OF touches_refl it, of rt4 sys] steps(2) s4(6) by (simp add: framed_def touches_def)
  have p6: "pins ?P ?Q i rt rt6"
    using release_pins(2) [OF p5 it len5, of sys] steps(3) s(1) by (simp add: pinning_def)
  have len6: "i < length (rt_clients rt6)"
    using framed_release_task(2) [OF touches_refl it, of rt5 sys] steps(3) len5 by (simp add: framed_def touches_def)
  have "cl_buffer_resources (client_at rt6 i) = cl_buffer_resources (client_at rt4 i)"
    using release_file_buffers(1) [OF it [symmetric] s4(6) steps(2)]
      release_file_buffers(2) [OF it [symmetric] len5 steps(3)] by simp
  then have p7: "pins ?P ?Q i rt rt7"
    using release_pins(3) [OF p6 it len6] steps(4) s(3) b(6) s4(2) by (simp add: pinning_def)
  show ?thesis
    unfolding rt' using prep(6) [OF p7] by (intro pins_fields) blast
qed

lemma complete_bound:
  assumes ok: "daemon_ok rt" and bound: "slots_bound rt" and found: "iouringd_find_task_slot rt task = Some n"
    and out: "iouringd_complete_task sys n res rt = (Inr u, rt')"
  shows "slots_bound rt'"
proof -
  note d = daemon_okD [OF ok]
  have n: "n < 64" and act: "tk_active (task_at rt n)"
    using find_slot_Some [OF found [unfolded iouringd_find_task_slot_def]] core_okD(4) [OF d(1)]
    by (simp_all add: core_fields)
  define i where "i = tk_client_index (task_at rt n)"
  note tasks = complete_task_core_ok(2) [OF d(1) n act out]
  have touch: "touches i rt rt'" using framed_complete_task [OF i_def, of sys res] out by (simp add: framed_def)
  show ?thesis
  proof (rule slots_bound_step [OF ok bound, of i])
    show "client_at rt' k = client_at rt k" if "k \<noteq> i" for k using touch that by (simp add: touches_def)
    show "task_at rt' m = task_at rt m
        \<or> tk_client_index (task_at rt' m) = i \<and> slot_bound (client_at rt' i) (task_at rt' m)"
      if "m < 64" "tk_active (task_at rt' m)" for m
      using that by (auto simp: tasks nth_update iouringd_clear_task_slot_def split: if_splits)
    fix m
    assume m: "m < 64" and m': "tk_active (task_at rt' m)" "task_at rt' m = task_at rt m"
      and im: "tk_client_index (task_at rt m) = i"
    have "m \<noteq> n" using m'(1) n d(4) by (auto simp: tasks iouringd_clear_task_slot_def)
    have am: "tk_active (task_at rt m)" using m' by simp
    note h = complete_task_pins [OF ok bound n act i_def out, unfolded pins_def]
    show "slot_bound (client_at rt' i) (task_at rt m)"
      by (rule slot_bound_holds [OF slots_boundD [OF bound m am im [symmetric]] h])
        (use m \<open>m \<noteq> n\<close> am im in \<open>auto simp: file_shared_def buffer_shared_def file_ref_def buffer_ref_def task_of_def\<close>)
  qed
qed

section \<open>In every turn\<close>

lemma slots_bound_fields [simp]:
  "slots_bound (rt\<lparr>rt_ring := ring\<rparr>) = slots_bound rt" "slots_bound (rt\<lparr>rt_dispatch_cursor := k\<rparr>) = slots_bound rt"
  "slots_bound (rt_close fd rt) = slots_bound rt"
  by (simp_all add: slots_bound_def rt_close_def)

interpretation slots: step_invariant "\<lambda>rt. daemon_ok rt \<and> slots_bound rt"
proof
  show "daemon_ok rt" if "daemon_ok rt \<and> slots_bound rt" for rt using that ..
  show "daemon_ok (rt\<lparr>rt_ring := ring\<rparr>) \<and> slots_bound (rt\<lparr>rt_ring := ring\<rparr>)" if "daemon_ok rt \<and> slots_bound rt" for rt ring
    using that daemon.ring_step by simp
  show "daemon_ok (rt\<lparr>rt_dispatch_cursor := n\<rparr>) \<and> slots_bound (rt\<lparr>rt_dispatch_cursor := n\<rparr>)"
    if "daemon_ok rt \<and> slots_bound rt" for rt n
    using that daemon.cursor_step by simp
  show "daemon_ok (rt_close fd rt) \<and> slots_bound (rt_close fd rt)" if "daemon_ok rt \<and> slots_bound rt" for rt fd
    using that daemon.fd_step by simp
  show "daemon_ok rt' \<and> slots_bound rt'" if "iouringd_service_client_readable i ws rt = (r, ws', rt')"
    "daemon_ok rt \<and> slots_bound rt" "i < 64" for i ws rt r ws' rt'
    using daemon.service_step [OF that(1) _ that(3)] that(2)
      account_step_bound [OF _ _ service_account_step [OF daemon_okD(8) that(1)]] that(3) by simp
  show "daemon_ok (set_client i c rt) \<and> slots_bound (set_client i c rt)"
    if "iouringd_flush_client_output ws (client_at rt i) = (sent, r, c)" "daemon_ok rt \<and> slots_bound rt" "i < 64"
    for ws rt i sent r c
    using daemon.flush_step [OF that(1) _ that(3)] that(2)
      account_step_bound [OF _ _ flush_account_step [OF daemon_okD(8) that(1)]] that(3) by simp
  show "daemon_ok (rt_close_client i rt) \<and> slots_bound (rt_close_client i rt)"
    if "daemon_ok rt \<and> slots_bound rt" "i < 64" for rt i
    using that daemon.close_step close_account_step account_step_bound by blast
  show "daemon_ok rt' \<and> slots_bound rt'" if "iouringd_dispatch_client_request sys i rt = (Inr x, rt')"
    "daemon_ok rt \<and> slots_bound rt" "i < lim_max_clients (rt_limits rt)" for sys i rt x rt'
    using that daemon.dispatch_step dispatch_bound by blast
  show "daemon_ok rt' \<and> slots_bound rt'" if "iouringd_try_release_file_slot sys i j rt = (r, rt')"
    "daemon_ok rt \<and> slots_bound rt" "i < 64" for sys i j rt r rt'
    using that daemon.release_file_step release_bound(1) by blast
  show "daemon_ok rt' \<and> slots_bound rt'" if "on_client i (iouringd_try_release_buffer_slot j) rt = (r, rt')"
    "daemon_ok rt \<and> slots_bound rt" "i < 64" for i j rt r rt'
    using that daemon.release_buffer_step release_bound(2) by blast
  show "daemon_ok rt' \<and> slots_bound rt'" if "iouringd_complete_task sys n res rt = (Inr u, rt')"
    "daemon_ok rt \<and> slots_bound rt" "iouringd_find_task_slot rt task = Some n" for sys n res rt u rt' task
    using that daemon.complete_step complete_bound by blast
  show "daemon_ok (iouringd_open_client a fd rt) \<and> slots_bound (iouringd_open_client a fd rt)"
    if "daemon_ok rt \<and> slots_bound rt" for a fd rt
    using that daemon.open_step open_bound by blast
qed

lemma start_bound: "daemon_start b args = Inr rt \<Longrightarrow> slots_bound rt"
  by (simp add: slots_bound_def start_tasks iouringd_clear_task_slot_def)

interpretation pinned_loop: transition_invariant booted turn_step "\<lambda>rt. daemon_ok rt \<and> slots_bound rt"
proof
  show "daemon_ok s \<and> slots_bound s" if "booted s" for s
    using that start_ok start_bound by (auto simp: booted_def)
  show "daemon_ok t \<and> slots_bound t" if "daemon_ok s \<and> slots_bound s" "turn_step s t" for s t
    using that(2) slots.turn_keeps [OF that(1)] by (elim turn_stepE) (metis option.inject prod.inject)
qed

lemma reachable_bound: "reachable rt \<Longrightarrow> slots_bound rt"
  using pinned_loop.always by (auto simp: reachable_def)

text \<open>
  C11: In every state the daemon can reach, every task in flight still holds the slots it was submitted
  with, whatever was requested, released, completed or disconnected since: its file slot has the
  resource identifier of the task, is counted in flight, and is registered (a close has detached it
  and is its only user); the slot for the descriptor it will return is reserved, unregistered, under
  the identifier promised to the client, and in flight for this task alone; its buffer slot is
  registered under the buffer identifier of the task and counted in flight.
\<close>

theorem reachable_tasks_hold_slots:
  assumes "reachable rt"
  shows "\<forall>n < 64. \<forall>t c. t = task_at rt n \<and> tk_active t \<and> c = client_at rt (tk_client_index t) \<longrightarrow>
      (\<forall>j. tk_file_slot_index t = int j \<longrightarrow> j < 32
        \<and> fs_resource_id (cl_file_resources c ! j) = tk_resource_id t
        \<and> 0 < fs_in_flight (cl_file_resources c ! j)
        \<and> fs_registered (cl_file_resources c ! j) = (tk_task_kind t \<noteq> IOURINGD_TASK_KIND_CLOSE)
        \<and> (tk_task_kind t = IOURINGD_TASK_KIND_CLOSE \<longrightarrow> fs_in_flight (cl_file_resources c ! j) = 1))
    \<and> (\<forall>j. tk_result_file_slot_index t = int j \<longrightarrow> j < 32
        \<and> fs_resource_id (cl_file_resources c ! j) = tk_result_resource_id t
        \<and> \<not> fs_registered (cl_file_resources c ! j) \<and> fs_in_flight (cl_file_resources c ! j) = 1)
    \<and> (\<forall>b. tk_buffer_slot_index t = int b \<longrightarrow> b < 4
        \<and> bs_resource_id (cl_buffer_resources c ! b) = tk_buffer_resource_id t
        \<and> bs_registered (cl_buffer_resources c ! b) \<and> 0 < bs_in_flight (cl_buffer_resources c ! b))"
proof (intro allI impI, elim conjE)
  fix n t c
  assume n: "n < 64" and t: "t = task_at rt n" and "tk_active t" and c: "c = client_at rt (tk_client_index t)"
  then have act: "tk_active (task_at rt n)" by simp
  note ok = reachable_ok [OF assms]
  note b = task_index_bounds [OF ok n act refl] and s = slots_boundD [OF reachable_bound [OF assms] n act refl]
  note fl = task_slots_in_flight [OF daemon_okD(1) [OF ok] n act refl b(2)]
  show "(\<forall>j. tk_file_slot_index t = int j \<longrightarrow> j < 32
        \<and> fs_resource_id (cl_file_resources c ! j) = tk_resource_id t
        \<and> 0 < fs_in_flight (cl_file_resources c ! j)
        \<and> fs_registered (cl_file_resources c ! j) = (tk_task_kind t \<noteq> IOURINGD_TASK_KIND_CLOSE)
        \<and> (tk_task_kind t = IOURINGD_TASK_KIND_CLOSE \<longrightarrow> fs_in_flight (cl_file_resources c ! j) = 1))
    \<and> (\<forall>j. tk_result_file_slot_index t = int j \<longrightarrow> j < 32
        \<and> fs_resource_id (cl_file_resources c ! j) = tk_result_resource_id t
        \<and> \<not> fs_registered (cl_file_resources c ! j) \<and> fs_in_flight (cl_file_resources c ! j) = 1)
    \<and> (\<forall>b. tk_buffer_slot_index t = int b \<longrightarrow> b < 4
        \<and> bs_resource_id (cl_buffer_resources c ! b) = tk_buffer_resource_id t
        \<and> bs_registered (cl_buffer_resources c ! b) \<and> 0 < bs_in_flight (cl_buffer_resources c ! b))"
    unfolding t c using s [unfolded slot_bound_def] b(4-6) fl by (auto simp: word_gt_0)
qed

theorem reachable_tasks_hold_slots_witness:
  "\<exists>rt. reachable rt \<and> tk_active (task_at rt 0) \<and> fs_in_flight (cl_file_resources (client_at rt 0) ! 0) = 1
    \<and> fs_resource_id (cl_file_resources (client_at rt 0) ! 0) = tk_result_resource_id (task_at rt 0)"
proof -
  obtain rt where rt: "reachable rt" "tk_active (task_at rt 0)" "tk_result_file_slot_index (task_at rt 0) = 0"
    "tk_client_index (task_at rt 0) = 0"
    using busy_reachable by blast
  from reachable_tasks_hold_slots [OF rt(1), rule_format, of 0 "task_at rt 0" "client_at rt 0"] rt
  show ?thesis by (intro exI [of _ rt]) simp
qed

end
