(* ===== verification/Logging.thy ===== *)
theory Logging
  imports Startup
begin

text \<open>
  The text of the daemon, main.c lines 981 to 1146 and 1200 to 1270: the names of kinds and events, the
  trace and metrics lines of \<open>--trace-stderr\<close>, the messages of a failed start, the usage. A function
  that prints returns the string it prints; \<open>printf\<close> conversions of unsigned and signed numbers are
  \<open>dec\<close> and \<open>dec_int\<close>. A reader of a trace line recovers the event from it.
\<close>

section \<open>Numbers\<close>

definition digit :: "nat \<Rightarrow> char" where
  "digit d = char_of (48 + d)"

fun dec :: "nat \<Rightarrow> string" where
  "dec n = (if n < 10 then [digit n] else dec (n div 10) @ [digit (n mod 10)])"

declare dec.simps [simp del]

definition dec_int :: "int \<Rightarrow> string" where
  "dec_int i = (if i < 0 then CHR ''-'' # dec (nat (- i)) else dec (nat i))"

section \<open>Names\<close>

definition iouringd_trace_event_name :: "u16 \<Rightarrow> string" where
  "iouringd_trace_event_name event_kind =
     (if event_kind = IOURINGD_TRACE_EVENT_SUBMIT_ACCEPT then ''submit_accept''
      else if event_kind = IOURINGD_TRACE_EVENT_SUBMIT_REJECT then ''submit_reject''
      else if event_kind = IOURINGD_TRACE_EVENT_COMPLETION then ''completion''
      else if event_kind = IOURINGD_TRACE_EVENT_RESOURCE_REGISTER then ''resource_register''
      else if event_kind = IOURINGD_TRACE_EVENT_RESOURCE_RELEASE then ''resource_release''
      else ''unknown'')"

definition iouringd_task_kind_name :: "u16 \<Rightarrow> string" where
  "iouringd_task_kind_name task_kind =
     (if task_kind = 0 then ''control''
      else if task_kind = IOURINGD_TASK_KIND_NOP then ''nop''
      else if task_kind = IOURINGD_TASK_KIND_TIMEOUT then ''timeout''
      else if task_kind = IOURINGD_TASK_KIND_CANCEL then ''cancel''
      else if task_kind = IOURINGD_TASK_KIND_SOCK_READ then ''sock_read''
      else if task_kind = IOURINGD_TASK_KIND_SOCK_WRITE then ''sock_write''
      else if task_kind = IOURINGD_TASK_KIND_SOCK_READ_FIXED then ''sock_read_fixed''
      else if task_kind = IOURINGD_TASK_KIND_SOCK_WRITE_FIXED then ''sock_write_fixed''
      else if task_kind = IOURINGD_TASK_KIND_FILE_READ then ''file_read''
      else if task_kind = IOURINGD_TASK_KIND_FILE_WRITE then ''file_write''
      else if task_kind = IOURINGD_TASK_KIND_POLL then ''poll''
      else if task_kind = IOURINGD_TASK_KIND_CONNECT then ''connect''
      else if task_kind = IOURINGD_TASK_KIND_ACCEPT then ''accept''
      else if task_kind = IOURINGD_TASK_KIND_OPENAT then ''openat''
      else if task_kind = IOURINGD_TASK_KIND_CLOSE then ''close''
      else ''unknown'')"

definition iouringd_priority_name :: "u16 \<Rightarrow> string" where
  "iouringd_priority_name priority =
     (if priority = IOURINGD_SUBMIT_PRIORITY_NORMAL then ''normal''
      else if priority = IOURINGD_SUBMIT_PRIORITY_LOW then ''low''
      else if priority = IOURINGD_SUBMIT_PRIORITY_HIGH then ''high''
      else ''unknown'')"

section \<open>The bytes of an event\<close>

definition moves_bytes :: "u16 \<Rightarrow> bool" where
  "moves_bytes kind \<longleftrightarrow>
     kind \<in> {IOURINGD_TASK_KIND_SOCK_READ, IOURINGD_TASK_KIND_SOCK_WRITE, IOURINGD_TASK_KIND_SOCK_READ_FIXED,
       IOURINGD_TASK_KIND_SOCK_WRITE_FIXED, IOURINGD_TASK_KIND_FILE_READ, IOURINGD_TASK_KIND_FILE_WRITE}"

definition iouringd_trace_bytes_for_client_request :: "iouringd_client \<Rightarrow> u32" where
  "iouringd_trace_bytes_for_client_request c =
     (if cl_control_op c = IOURINGD_REQUEST_KIND_REGISTER_BUFFER then cl_io_length c
      else if moves_bytes (sr_task_kind (cl_request c)) then cl_io_length c else 0)"

definition iouringd_trace_bytes_for_completion :: "u16 \<Rightarrow> i32 \<Rightarrow> u32" where
  "iouringd_trace_bytes_for_completion task_kind res =
     (if res \<le>s 0 then 0 else if moves_bytes task_kind then res else 0)"

section \<open>Lines\<close>

text \<open>What the lines say of the process: the options \<open>--trace-stderr\<close> and \<open>--job-id\<close>, the process
  identifier, the socket path.\<close>

record log =
  lg_trace_to_stderr :: bool
  lg_job_id :: "u64 option"
  lg_pid :: int
  lg_socket_path :: "string option"

definition iouringd_log_job_field :: "log \<Rightarrow> string" where
  "iouringd_log_job_field lg =
     (case lg_job_id lg of Some job \<Rightarrow> '' job_id='' @ dec (unat job) | None \<Rightarrow> '' job_id=-'')"

definition iouringd_log_metrics :: "log \<Rightarrow> string \<Rightarrow> iouringd_runtime \<Rightarrow> string" where
  "iouringd_log_metrics lg phase rt =
     (if \<not> lg_trace_to_stderr lg then []
      else ''iouringd metrics phase='' @ phase @ '' pid='' @ dec_int (lg_pid lg)
        @ iouringd_log_job_field lg
        @ '' socket='' @ (case lg_socket_path lg of Some path \<Rightarrow> path | None \<Rightarrow> ''-'')
        @ '' active_clients='' @ dec (unat (iouringd_count_active_clients rt))
        @ '' outstanding_tasks='' @ dec (rt_outstanding_tasks rt)
        @ '' outstanding_credit_tasks='' @ dec (rt_outstanding_credit_tasks rt)
        @ '' available_credits='' @ dec (unat (iouringd_available_credits rt))
        @ '' registered_files='' @ dec (unat (iouringd_count_registered_files rt))
        @ '' registered_buffers='' @ dec (unat (iouringd_count_registered_buffers rt))
        @ '' accepted_submits='' @ dec (unat (rt_accepted_submits rt))
        @ '' rejected_submits='' @ dec (unat (rt_rejected_submits rt))
        @ '' completions='' @ dec (unat (rt_completions rt))
        @ '' ring_entries='' @ dec (unat (cap_ring_entries (rt_capabilities rt)))
        @ '' registered_fd_slots='' @ dec (unat (cap_registered_fd_slots (rt_capabilities rt)))
        @ '' registered_buffer_slots='' @ dec (unat (cap_registered_buffer_slots (rt_capabilities rt)))
        @ '' io_bytes_max='' @ dec (unat (cap_io_bytes_max (rt_capabilities rt)))
        @ '' per_client_credit_limit='' @ dec (rt_per_client_credit_limit rt)
        @ '' clients_at_credit_limit='' @ dec (unat (iouringd_count_clients_at_credit_limit rt))
        @ [CHR 10])"

text \<open>The line of \<open>iouringd_emit_trace_event\<close> for the event it has put in the buffer.\<close>

definition trace_line :: "log \<Rightarrow> iouringd_trace_event_v1 \<Rightarrow> u32 \<Rightarrow> string" where
  "trace_line lg e bytes =
     (if \<not> lg_trace_to_stderr lg then []
      else ''iouringd trace sequence='' @ dec (unat (te_sequence e))
        @ '' timestamp_nsec='' @ dec (unat (te_timestamp_nsec e)) @ '' pid='' @ dec_int (lg_pid lg)
        @ iouringd_log_job_field lg
        @ '' client_slot='' @ dec (unat (te_client_slot e))
        @ '' event='' @ iouringd_trace_event_name (te_event_kind e)
        @ '' task_kind='' @ iouringd_task_kind_name (te_task_kind e)
        @ '' priority='' @ iouringd_priority_name (te_priority e)
        @ '' task_id='' @ dec (unat (te_task e)) @ '' resource_id='' @ dec (unat (te_resource e))
        @ '' bytes='' @ dec (unat bytes) @ '' result='' @ dec_int (sint (te_res e))
        @ '' credits='' @ dec (unat (te_credits e)) @ [CHR 10])"

text \<open>Messages; \<open>strerror\<close> is the one of the C library.\<close>

definition iouringd_log_errno :: "(errno \<Rightarrow> string) \<Rightarrow> errno \<Rightarrow> string \<Rightarrow> string" where
  "iouringd_log_errno strerror e context = ''iouringd: '' @ context @ '': '' @ strerror e @ [CHR 10]"

definition iouringd_report_ring_init_error :: "(errno \<Rightarrow> string) \<Rightarrow> errno \<Rightarrow> string" where
  "iouringd_report_ring_init_error strerror err =
     (if err = ENOSYS
      then ''iouringd: io_uring setup is unavailable on this kernel (ENOSYS)'' @ [CHR 10]
      else if err = EPERM \<or> err = EACCES
      then ''iouringd: io_uring setup blocked by kernel policy or sandbox ('' @ strerror err @ '')'' @ [CHR 10]
      else if err = ENOTSUP
      then ''iouringd: io_uring probe reported no supported operations (ENOTSUP)'' @ [CHR 10]
      else iouringd_log_errno strerror err ''io_uring initialization failed'')"

definition iouringd_print_usage :: string where
  "iouringd_print_usage =
     ''usage: iouringd [--ring-entries N] [--max-clients N]'' @ CHR 10 #
     ''                 [--registered-fds N] [--registered-buffers N]'' @ CHR 10 #
     ''                 [--per-client-credits N] [--io-bytes-max N]'' @ CHR 10 #
     ''                 [--job-id N] [--trace-stderr]'' @ CHR 10 #
     ''                 SOCKET_PATH'' @ [CHR 10]"

section \<open>Reading a line\<close>

text \<open>A reader of the lines: the words between spaces, their part before the first equals sign as the
  key, the rest as the value.\<close>

fun split_on :: "'a \<Rightarrow> 'a list \<Rightarrow> 'a list list" where
  "split_on c [] = [[]]"
| "split_on c (x # xs) =
     (if x = c then [] # split_on c xs
      else case split_on c xs of [] \<Rightarrow> [[x]] | w # ws \<Rightarrow> (x # w) # ws)"

definition key_value :: "string \<Rightarrow> string \<times> string" where
  "key_value w = (takeWhile (\<lambda>c. c \<noteq> CHR ''='') w, tl (dropWhile (\<lambda>c. c \<noteq> CHR ''='') w))"

definition field :: "string \<Rightarrow> string \<Rightarrow> string option" where
  "field line key = map_of (map key_value (split_on (CHR '' '') (butlast line))) key"

definition read_int :: "string \<Rightarrow> int" where
  "read_int s = (if s \<noteq> [] \<and> hd s = CHR ''-'' then - int (decimal (tl s)) else int (decimal s))"

lemma split_on_Cons_ex: "\<exists>w ws. split_on c xs = w # ws"
  by (induction xs) (auto split: list.splits)

lemma split_on_append:
  "c \<notin> set xs \<Longrightarrow> split_on c (xs @ ys) = (case split_on c ys of [] \<Rightarrow> [xs] | w # ws \<Rightarrow> (xs @ w) # ws)"
  by (induction xs) (use split_on_Cons_ex [of c ys] in \<open>auto split: list.splits\<close>)

lemma split_on_single: "c \<notin> set xs \<Longrightarrow> split_on c xs = [xs]"
  using split_on_append [of c xs "[]"] by simp

lemma digit_value_digit: "d < 10 \<Longrightarrow> digit_value (digit d) = d"
  by (simp add: digit_value_def digit_def)

lemma digit_is_digit: "d < 10 \<Longrightarrow> is_digit (digit d)"
  by (simp add: is_digit_def digit_def Let_def)

lemma dec_digits: "c \<in> set (dec n) \<Longrightarrow> is_digit c"
proof (induction n rule: dec.induct)
  case (1 n)
  then show ?case by (subst (asm) (2) dec.simps) (auto simp: digit_is_digit split: if_splits)
qed

lemma decimal_snoc: "decimal (ds @ [c]) = 10 * decimal ds + digit_value c"
  by (simp add: decimal_def)

lemma decimal_dec: "decimal (dec n) = n"
proof (induction n rule: dec.induct)
  case (1 n)
  show ?case
  proof (cases "n < 10")
    case True
    then show ?thesis by (subst dec.simps) (simp add: decimal_def digit_value_digit)
  next
    case False
    with 1 show ?thesis by (subst dec.simps) (simp add: decimal_snoc digit_value_digit)
  qed
qed

lemma dec_Nil [simp]: "dec n \<noteq> []"
  by (subst dec.simps) simp

lemma not_digits: "\<not> is_digit (CHR '' '')" "\<not> is_digit (CHR ''='')" "\<not> is_digit (CHR ''-'')" "\<not> is_digit (CHR 10)"
  by (simp_all add: is_digit_def Let_def)

lemma dec_chars [simp]:
  "CHR '' '' \<notin> set (dec n)" "CHR 10 \<notin> set (dec n)" "CHR ''-'' \<notin> set (dec n)"
  "CHR '' '' \<notin> set (dec_int i)" "CHR 10 \<notin> set (dec_int i)"
  using dec_digits not_digits by (auto simp: dec_int_def)

lemma read_int_dec [simp]: "read_int (dec n) = int n" "read_int (dec_int i) = i"
proof -
  have "hd (dec n) \<noteq> CHR ''-''" for n using dec_chars(3) [of n] hd_in_set [OF dec_Nil [of n]] by metis
  then show "read_int (dec n) = int n" "read_int (dec_int i) = i"
    by (simp_all add: read_int_def dec_int_def decimal_dec)
qed

lemma dec_parses: "n < 2 ^ 32 \<Longrightarrow> iouringd_parse_unsigned_arg (dec n) = Inr n"
proof -
  assume n: "n < 2 ^ 32"
  obtain c cs where d: "dec n = c # cs" using dec_Nil [of n] by (cases "dec n") auto
  have ds: "\<forall>x \<in> set (c # cs). is_digit x" using dec_digits [of _ n] d by auto
  then have "\<not> is_space c" "c \<noteq> CHR ''-''" "c \<noteq> CHR ''+''"
    using not_digits by (auto simp: is_digit_def is_space_def Let_def)
  moreover have "takeWhile is_digit (c # cs) = c # cs" "dropWhile is_digit (c # cs) = []"
    using ds by (auto simp: takeWhile_eq_all_conv)
  ultimately show ?thesis
    using n decimal_dec [of n] by (simp add: iouringd_parse_unsigned_arg_def strtoul_def Let_def d)
qed

section \<open>The trace line is readable\<close>

lemma name_chars [simp]:
  "CHR '' '' \<notin> set (iouringd_trace_event_name k)" "CHR 10 \<notin> set (iouringd_trace_event_name k)"
  "CHR '' '' \<notin> set (iouringd_task_kind_name k)" "CHR 10 \<notin> set (iouringd_task_kind_name k)"
  "CHR '' '' \<notin> set (iouringd_priority_name k)" "CHR 10 \<notin> set (iouringd_priority_name k)"
  by (simp_all add: iouringd_trace_event_name_def iouringd_task_kind_name_def iouringd_priority_name_def)

text \<open>The words of a line.\<close>

definition job_value :: "log \<Rightarrow> string" where
  "job_value lg = (case lg_job_id lg of Some job \<Rightarrow> dec (unat job) | None \<Rightarrow> ''-'')"

lemma job_field: "iouringd_log_job_field lg = '' job_id='' @ job_value lg"
  by (simp add: iouringd_log_job_field_def job_value_def split: option.splits)

lemma job_chars [simp]: "CHR '' '' \<notin> set (job_value lg)" "CHR 10 \<notin> set (job_value lg)"
  by (simp_all add: job_value_def split: option.splits)

lemma trace_line_words:
  assumes "lg_trace_to_stderr lg"
  shows "split_on (CHR '' '') (butlast (trace_line lg e bytes)) =
    [''iouringd'', ''trace'', ''sequence='' @ dec (unat (te_sequence e)),
     ''timestamp_nsec='' @ dec (unat (te_timestamp_nsec e)), ''pid='' @ dec_int (lg_pid lg),
     ''job_id='' @ job_value lg, ''client_slot='' @ dec (unat (te_client_slot e)),
     ''event='' @ iouringd_trace_event_name (te_event_kind e),
     ''task_kind='' @ iouringd_task_kind_name (te_task_kind e),
     ''priority='' @ iouringd_priority_name (te_priority e), ''task_id='' @ dec (unat (te_task e)),
     ''resource_id='' @ dec (unat (te_resource e)), ''bytes='' @ dec (unat bytes),
     ''result='' @ dec_int (sint (te_res e)), ''credits='' @ dec (unat (te_credits e))]"
  using assms by (simp add: trace_line_def job_field butlast_append split_on_append split_on_single)

lemma trace_line_fields:
  assumes "lg_trace_to_stderr lg"
  shows "field (trace_line lg e bytes) ''sequence'' = Some (dec (unat (te_sequence e)))"
    and "field (trace_line lg e bytes) ''timestamp_nsec'' = Some (dec (unat (te_timestamp_nsec e)))"
    and "field (trace_line lg e bytes) ''pid'' = Some (dec_int (lg_pid lg))"
    and "field (trace_line lg e bytes) ''job_id'' = Some (job_value lg)"
    and "field (trace_line lg e bytes) ''client_slot'' = Some (dec (unat (te_client_slot e)))"
    and "field (trace_line lg e bytes) ''event'' = Some (iouringd_trace_event_name (te_event_kind e))"
    and "field (trace_line lg e bytes) ''task_kind'' = Some (iouringd_task_kind_name (te_task_kind e))"
    and "field (trace_line lg e bytes) ''priority'' = Some (iouringd_priority_name (te_priority e))"
    and "field (trace_line lg e bytes) ''task_id'' = Some (dec (unat (te_task e)))"
    and "field (trace_line lg e bytes) ''resource_id'' = Some (dec (unat (te_resource e)))"
    and "field (trace_line lg e bytes) ''bytes'' = Some (dec (unat bytes))"
    and "field (trace_line lg e bytes) ''result'' = Some (dec_int (sint (te_res e)))"
    and "field (trace_line lg e bytes) ''credits'' = Some (dec (unat (te_credits e)))"
  by (simp_all add: field_def trace_line_words [OF assms] key_value_def)

lemma names_unique:
  "iouringd_trace_event_name a = iouringd_trace_event_name b \<Longrightarrow> iouringd_trace_event_name b \<noteq> ''unknown'' \<Longrightarrow> a = b"
  "iouringd_priority_name a = iouringd_priority_name b \<Longrightarrow> iouringd_priority_name b \<noteq> ''unknown'' \<Longrightarrow> a = b"
  by (auto simp: iouringd_trace_event_name_def iouringd_priority_name_def split: if_splits)

lemma task_kind_name_unique:
  "iouringd_task_kind_name a = iouringd_task_kind_name b \<Longrightarrow> iouringd_task_kind_name b \<noteq> ''unknown'' \<Longrightarrow> a = b"
  by (auto simp: iouringd_task_kind_name_def split: if_splits)

text \<open>
  C40: A line that \<open>--trace-stderr\<close> prints for an event can be read back: it is one line, its
  space-separated words are the key and value pairs of the documented fields, and reading the numbers
  gives the sequence number, time, process, client slot, task, resource, byte count, signed result and
  credits of the event, the job identifier if one was given, and the names of its event kind, task
  kind and priority, which stand for one kind each unless they are \<open>unknown\<close>.
\<close>

theorem trace_line_roundtrip:
  assumes "lg_trace_to_stderr lg" and "line = trace_line lg e bytes"
  shows "last line = CHR 10 \<and> CHR 10 \<notin> set (butlast line)
    \<and> map_option read_int (field line ''sequence'') = Some (int (unat (te_sequence e)))
    \<and> map_option read_int (field line ''timestamp_nsec'') = Some (int (unat (te_timestamp_nsec e)))
    \<and> map_option read_int (field line ''pid'') = Some (lg_pid lg)
    \<and> field line ''job_id'' = Some (case lg_job_id lg of Some job \<Rightarrow> dec (unat job) | None \<Rightarrow> ''-'')
    \<and> map_option read_int (field line ''client_slot'') = Some (int (unat (te_client_slot e)))
    \<and> map_option read_int (field line ''task_id'') = Some (int (unat (te_task e)))
    \<and> map_option read_int (field line ''resource_id'') = Some (int (unat (te_resource e)))
    \<and> map_option read_int (field line ''bytes'') = Some (int (unat bytes))
    \<and> map_option read_int (field line ''result'') = Some (sint (te_res e))
    \<and> map_option read_int (field line ''credits'') = Some (int (unat (te_credits e)))
    \<and> field line ''event'' = Some (iouringd_trace_event_name (te_event_kind e))
    \<and> (\<forall>k. iouringd_trace_event_name (te_event_kind e) = iouringd_trace_event_name k \<and> iouringd_trace_event_name k \<noteq> ''unknown'' \<longrightarrow> te_event_kind e = k)
    \<and> field line ''task_kind'' = Some (iouringd_task_kind_name (te_task_kind e))
    \<and> (\<forall>k. iouringd_task_kind_name (te_task_kind e) = iouringd_task_kind_name k \<and> iouringd_task_kind_name k \<noteq> ''unknown'' \<longrightarrow> te_task_kind e = k)
    \<and> field line ''priority'' = Some (iouringd_priority_name (te_priority e))
    \<and> (\<forall>k. iouringd_priority_name (te_priority e) = iouringd_priority_name k \<and> iouringd_priority_name k \<noteq> ''unknown'' \<longrightarrow> te_priority e = k)"
proof -
  note f = trace_line_fields [OF assms(1), of e bytes, folded assms(2)]
  have "last line = CHR 10 \<and> CHR 10 \<notin> set (butlast line)"
    using assms(1) by (simp add: assms(2) trace_line_def job_field butlast_append)
  moreover have "field line ''job_id'' = Some (case lg_job_id lg of Some job \<Rightarrow> dec (unat job) | None \<Rightarrow> ''-'')"
    using f(4) by (simp add: job_value_def)
  ultimately show ?thesis
    using names_unique(1) [of "te_event_kind e"] names_unique(2) [of "te_priority e"]
      task_kind_name_unique [of "te_task_kind e"] by (simp add: f(1-3,5-))
qed

theorem trace_line_roundtrip_witness:
  "field (trace_line \<lparr>lg_trace_to_stderr = True, lg_job_id = Some 7, lg_pid = 42, lg_socket_path = None\<rparr>
     (zero_event\<lparr>te_sequence := 3, te_res := - 22\<rparr>) 0) ''job_id'' = Some (dec 7)
   \<and> map_option read_int (field (trace_line \<lparr>lg_trace_to_stderr = True, lg_job_id = Some 7, lg_pid = 42,
       lg_socket_path = None\<rparr> (zero_event\<lparr>te_sequence := 3, te_res := - 22\<rparr>) 0) ''result'') = Some (- 22)"
  using trace_line_roundtrip [of "\<lparr>lg_trace_to_stderr = True, lg_job_id = Some 7, lg_pid = 42, lg_socket_path = None\<rparr>",
      OF _ refl, of "zero_event\<lparr>te_sequence := 3, te_res := - 22\<rparr>" 0] by simp

end
