(* ===== verification/Ring_Memory.thy ===== *)
theory Ring_Memory
  imports Ring "HOL-Library.Multiset"
begin

text \<open>
  The memory of the ring, submit.c lines 484 to 689 and 791 to 813: the sizes and mappings of
  \<open>iouringd_ring_init\<close>, the pointers into them, what each failure gives back, and
  \<open>iouringd_ring_cleanup\<close>. The process is a \<open>memory\<close>: the descriptors it has open and the mappings it
  has, as pairs of address and length. What \<open>mmap\<close> returns for a call is a parameter; the theorems
  assume of it that it returns addresses that are not mapped yet.
\<close>

section \<open>The process\<close>

record memory =
  mem_fds :: "int list"
  mem_maps :: "(nat \<times> nat) list"

definition mem_close :: "int \<Rightarrow> memory \<Rightarrow> memory" where
  "mem_close fd m = m\<lparr>mem_fds := remove1 fd (mem_fds m)\<rparr>"

definition mem_munmap :: "nat \<Rightarrow> nat \<Rightarrow> memory \<Rightarrow> memory" where
  "mem_munmap addr len m = m\<lparr>mem_maps := remove1 (addr, len) (mem_maps m)\<rparr>"

text \<open>\<open>mmap\<close> answers the call with an address, which is mapped from then on, or with an errno.\<close>

definition mem_mmap :: "errno + nat \<Rightarrow> nat \<Rightarrow> memory \<Rightarrow> (errno + nat) \<times> memory" where
  "mem_mmap answer len m =
     (case answer of
        Inl e \<Rightarrow> (Inl e, m)
      | Inr addr \<Rightarrow> (Inr addr, m\<lparr>mem_maps := (addr, len) # mem_maps m\<rparr>))"

text \<open>The part of \<open>struct io_uring_params\<close> that the kernel fills in.\<close>

record sq_offsets =
  so_head :: u32
  so_tail :: u32
  so_ring_mask :: u32
  so_ring_entries :: u32
  so_array :: u32

record cq_offsets =
  co_head :: u32
  co_tail :: u32
  co_ring_mask :: u32
  co_cqes :: u32

record ring_params =
  rp_sq_entries :: u32
  rp_cq_entries :: u32
  rp_features :: u32
  rp_sq_off :: sq_offsets
  rp_cq_off :: cq_offsets

text \<open>The pointers and sizes of \<open>struct iouringd_ring\<close>; \<open>None\<close> is NULL.\<close>

record ring_maps =
  rm_ring_fd :: int
  rm_setup_flags :: u32
  rm_sq_ring_ptr :: "nat option"
  rm_cq_ring_ptr :: "nat option"
  rm_sqes :: "nat option"
  rm_sq_ring_size :: nat
  rm_cq_ring_size :: nat
  rm_sqes_size :: nat

definition no_maps :: ring_maps where
  "no_maps =
     \<lparr>rm_ring_fd = - 1, rm_setup_flags = 0, rm_sq_ring_ptr = None, rm_cq_ring_ptr = None, rm_sqes = None,
      rm_sq_ring_size = 0, rm_cq_ring_size = 0, rm_sqes_size = 0\<rparr>"

abbreviation (input) IORING_FEAT_SINGLE_MMAP :: u32 where "IORING_FEAT_SINGLE_MMAP \<equiv> 1"

definition single_mmap :: "ring_params \<Rightarrow> bool" where
  "single_mmap p \<longleftrightarrow> and (rp_features p) IORING_FEAT_SINGLE_MMAP \<noteq> 0"

definition sq_bytes :: "ring_params \<Rightarrow> nat" where
  "sq_bytes p = unat (so_array (rp_sq_off p)) + unat (rp_sq_entries p) * 4"

definition cq_bytes :: "ring_params \<Rightarrow> nat" where
  "cq_bytes p = unat (co_cqes (rp_cq_off p)) + unat (rp_cq_entries p) * 16"

text \<open>The sizes of the mappings; with a single mapping both rings have the larger one.\<close>

definition set_ring_sizes :: "ring_params \<Rightarrow> ring_maps \<Rightarrow> ring_maps" where
  "set_ring_sizes p r =
     r\<lparr>rm_sq_ring_size := (if single_mmap p \<and> cq_bytes p > sq_bytes p then cq_bytes p else sq_bytes p),
       rm_cq_ring_size := (if single_mmap p \<and> \<not> cq_bytes p > sq_bytes p then sq_bytes p else cq_bytes p),
       rm_sqes_size := unat (rp_sq_entries p) * 64\<rparr>"

section \<open>Cleaning up\<close>

definition iouringd_ring_cleanup :: "ring_maps \<times> memory \<Rightarrow> ring_maps \<times> memory" where
  "iouringd_ring_cleanup = (\<lambda>(r, m).
     let m1 = (case rm_sqes r of Some a \<Rightarrow> mem_munmap a (rm_sqes_size r) m | None \<Rightarrow> m);
         m2 = (case rm_cq_ring_ptr r of
                 Some a \<Rightarrow> if rm_cq_ring_ptr r \<noteq> rm_sq_ring_ptr r then mem_munmap a (rm_cq_ring_size r) m1 else m1
               | None \<Rightarrow> m1);
         m3 = (case rm_sq_ring_ptr r of Some a \<Rightarrow> mem_munmap a (rm_sq_ring_size r) m2 | None \<Rightarrow> m2);
         m4 = (if rm_ring_fd r \<ge> 0 then mem_close (rm_ring_fd r) m3 else m3)
     in (r\<lparr>rm_sqes := None, rm_cq_ring_ptr := None, rm_sq_ring_ptr := None,
           rm_ring_fd := (if rm_ring_fd r \<ge> 0 then - 1 else rm_ring_fd r)\<rparr>, m4))"

section \<open>Mapping\<close>

text \<open>What \<open>mmap\<close> answers for the two rings, the entries and the probe.\<close>

record mmap_answers =
  ma_sq_ring :: "errno + nat"
  ma_cq_ring :: "errno + nat"
  ma_sqes :: "errno + nat"
  ma_probe :: "errno + nat"

definition map_sq_ring :: "mmap_answers \<Rightarrow> ring_maps \<times> memory \<Rightarrow> (unit, ring_maps \<times> memory) res" where
  "map_sq_ring a = (\<lambda>(r, m).
     case mem_mmap (ma_sq_ring a) (rm_sq_ring_size r) m of
       (Inl e, m1) \<Rightarrow> (Inl e, r\<lparr>rm_sq_ring_ptr := None, rm_ring_fd := - 1\<rparr>, mem_close (rm_ring_fd r) m1)
     | (Inr p, m1) \<Rightarrow> (Inr (), r\<lparr>rm_sq_ring_ptr := Some p\<rparr>, m1))"

definition map_cq_ring ::
  "mmap_answers \<Rightarrow> ring_params \<Rightarrow> ring_maps \<times> memory \<Rightarrow> (unit, ring_maps \<times> memory) res" where
  "map_cq_ring a params = (\<lambda>(r, m).
     if single_mmap params then (Inr (), r\<lparr>rm_cq_ring_ptr := rm_sq_ring_ptr r\<rparr>, m)
     else case mem_mmap (ma_cq_ring a) (rm_cq_ring_size r) m of
       (Inl e, m1) \<Rightarrow>
         (Inl e, r\<lparr>rm_sq_ring_ptr := None, rm_cq_ring_ptr := None, rm_ring_fd := - 1\<rparr>,
          mem_close (rm_ring_fd r) (mem_munmap (the (rm_sq_ring_ptr r)) (rm_sq_ring_size r) m1))
     | (Inr p, m1) \<Rightarrow> (Inr (), r\<lparr>rm_cq_ring_ptr := Some p\<rparr>, m1))"

definition map_sqes :: "mmap_answers \<Rightarrow> ring_maps \<times> memory \<Rightarrow> (unit, ring_maps \<times> memory) res" where
  "map_sqes a = (\<lambda>(r, m).
     case mem_mmap (ma_sqes a) (rm_sqes_size r) m of
       (Inl e, m1) \<Rightarrow>
         (let m2 = (if rm_cq_ring_ptr r \<noteq> None \<and> rm_cq_ring_ptr r \<noteq> rm_sq_ring_ptr r
                    then mem_munmap (the (rm_cq_ring_ptr r)) (rm_cq_ring_size r) m1 else m1);
              m3 = mem_munmap (the (rm_sq_ring_ptr r)) (rm_sq_ring_size r) m2
          in (Inl e, r\<lparr>rm_sqes := None, rm_sq_ring_ptr := None, rm_cq_ring_ptr := None, rm_ring_fd := - 1\<rparr>,
              mem_close (rm_ring_fd r) m3))
     | (Inr p, m1) \<Rightarrow> (Inr (), r\<lparr>rm_sqes := Some p\<rparr>, m1))"

text \<open>The probe: the result of the registration, in a page that is mapped for it and unmapped again.
  \<open>Inl\<close> after the cleanup of the ring.\<close>

abbreviation (input) probe_bytes :: nat where "probe_bytes \<equiv> 16 + 256 * 8"

definition run_probe ::
  "mmap_answers \<Rightarrow> setup_kernel \<Rightarrow> ring_maps \<times> memory \<Rightarrow> (u32, ring_maps \<times> memory) res" where
  "run_probe a ks = (\<lambda>(r, m).
     case mem_mmap (ma_probe a) probe_bytes m of
       (Inl e, m1) \<Rightarrow> (Inl e, iouringd_ring_cleanup (r, m1))
     | (Inr p, m1) \<Rightarrow>
         if ks_fault ks = Some ''probe_eperm''
         then (Inl EPERM, iouringd_ring_cleanup (r, mem_munmap p probe_bytes m1))
         else case ks_probe ks of
           Inl e \<Rightarrow> (Inl e, iouringd_ring_cleanup (r, mem_munmap p probe_bytes m1))
         | Inr probe \<Rightarrow>
             (let m2 = mem_munmap p probe_bytes m1; op_mask = probe_op_mask probe
              in if op_mask = 0 then (Inl ENOTSUP, iouringd_ring_cleanup (r, m2)) else (Inr op_mask, (r, m2))))"

text \<open>\<open>iouringd_ring_init\<close> with a capabilities argument; \<open>made\<close> is the descriptor, the parameters and the
  applied flags of \<open>ring_setup_best_effort\<close>.\<close>

definition ring_init_maps ::
  "mmap_answers \<Rightarrow> setup_kernel \<Rightarrow> nat \<Rightarrow> errno + (int \<times> ring_params \<times> u32) \<Rightarrow> memory
    \<Rightarrow> (u32, ring_maps \<times> memory) res"
where
  "ring_init_maps a ks entries made m =
     (if entries = 0 then (Inl EINVAL, no_maps, m)
      else case made of
        Inl e \<Rightarrow> (Inl e, no_maps, m)
      | Inr (fd, params, flags) \<Rightarrow>
          bind_rc (map_sq_ring a (set_ring_sizes params (no_maps\<lparr>rm_ring_fd := fd, rm_setup_flags := flags\<rparr>),
              m\<lparr>mem_fds := fd # mem_fds m\<rparr>)) (\<lambda>_ s1.
          bind_rc (map_cq_ring a params s1) (\<lambda>_ s2.
          bind_rc (map_sqes a s2) (\<lambda>_ s3. run_probe a ks s3))))"

text \<open>The pointers into the mappings, as addresses.\<close>

record ring_pointers =
  pt_sq_head :: nat
  pt_sq_tail :: nat
  pt_sq_ring_mask :: nat
  pt_sq_ring_entries :: nat
  pt_sq_array :: nat
  pt_cq_head :: nat
  pt_cq_tail :: nat
  pt_cq_ring_mask :: nat
  pt_cqes :: nat

definition ring_pointers_of :: "ring_params \<Rightarrow> ring_maps \<Rightarrow> ring_pointers" where
  "ring_pointers_of p r =
     (let sq = the (rm_sq_ring_ptr r); cq = the (rm_cq_ring_ptr r)
      in \<lparr>pt_sq_head = sq + unat (so_head (rp_sq_off p)), pt_sq_tail = sq + unat (so_tail (rp_sq_off p)),
          pt_sq_ring_mask = sq + unat (so_ring_mask (rp_sq_off p)),
          pt_sq_ring_entries = sq + unat (so_ring_entries (rp_sq_off p)),
          pt_sq_array = sq + unat (so_array (rp_sq_off p)), pt_cq_head = cq + unat (co_head (rp_cq_off p)),
          pt_cq_tail = cq + unat (co_tail (rp_cq_off p)), pt_cq_ring_mask = cq + unat (co_ring_mask (rp_cq_off p)),
          pt_cqes = cq + unat (co_cqes (rp_cq_off p))\<rparr>)"

section \<open>What is held\<close>

text \<open>The mappings a ring holds: one for each of its pointers, the shared one once.\<close>

definition held_maps :: "ring_maps \<Rightarrow> (nat \<times> nat) multiset" where
  "held_maps r =
     (case rm_sqes r of Some a \<Rightarrow> {#(a, rm_sqes_size r)#} | None \<Rightarrow> {#})
     + (case rm_cq_ring_ptr r of
          Some a \<Rightarrow> if rm_cq_ring_ptr r \<noteq> rm_sq_ring_ptr r then {#(a, rm_cq_ring_size r)#} else {#}
        | None \<Rightarrow> {#})
     + (case rm_sq_ring_ptr r of Some a \<Rightarrow> {#(a, rm_sq_ring_size r)#} | None \<Rightarrow> {#})"

definition held_fds :: "ring_maps \<Rightarrow> int multiset" where
  "held_fds r = (if rm_ring_fd r \<ge> 0 then {#rm_ring_fd r#} else {#})"

text \<open>The process holds what it held in \<open>m\<close>, and the ring.\<close>

definition holds_ring :: "memory \<Rightarrow> ring_maps \<times> memory \<Rightarrow> bool" where
  "holds_ring m = (\<lambda>(r, m'). mset (mem_maps m') = mset (mem_maps m) + held_maps r
     \<and> mset (mem_fds m') = mset (mem_fds m) + held_fds r)"

definition ring_released :: "ring_maps \<Rightarrow> bool" where
  "ring_released r \<longleftrightarrow> rm_sqes r = None \<and> rm_cq_ring_ptr r = None \<and> rm_sq_ring_ptr r = None \<and> rm_ring_fd r < 0"

lemma ring_released_holds: "ring_released r \<Longrightarrow> holds_ring m (r, m') \<longleftrightarrow> mset (mem_maps m') = mset (mem_maps m) \<and> mset (mem_fds m') = mset (mem_fds m)"
  by (simp add: ring_released_def holds_ring_def held_maps_def held_fds_def)

lemma mem_simps [simp]:
  "mem_fds (mem_munmap a l m) = mem_fds m" "mem_maps (mem_munmap a l m) = remove1 (a, l) (mem_maps m)"
  "mem_maps (mem_close fd m) = mem_maps m" "mem_fds (mem_close fd m) = remove1 fd (mem_fds m)"
  by (simp_all add: mem_munmap_def mem_close_def)

text \<open>The cleanup gives back exactly what the ring holds.\<close>

lemma ring_cleanup_gives_back:
  assumes "holds_ring m (r, m')" and "iouringd_ring_cleanup (r, m') = (r2, m2)"
  shows "ring_released r2" and "mset (mem_maps m2) = mset (mem_maps m)" and "mset (mem_fds m2) = mset (mem_fds m)"
proof -
  show "ring_released r2" using assms(2) by (auto simp: iouringd_ring_cleanup_def Let_def ring_released_def)
  show "mset (mem_maps m2) = mset (mem_maps m)"
    using assms by (auto simp: iouringd_ring_cleanup_def Let_def holds_ring_def held_maps_def split: option.splits if_splits)
  show "mset (mem_fds m2) = mset (mem_fds m)"
    using assms by (auto simp: iouringd_ring_cleanup_def Let_def holds_ring_def held_fds_def split: option.splits if_splits)
qed

lemma map_sq_ring_holds:
  assumes "map_sq_ring a (r, m1) = (x, r2, m2)" and "holds_ring m (r, m1)" and "0 \<le> rm_ring_fd r"
    and "rm_sq_ring_ptr r = None" "rm_cq_ring_ptr r = None" "rm_sqes r = None"
  shows "holds_ring m (r2, m2)" and "x = Inl e \<Longrightarrow> ring_released r2"
    and "x = Inr u \<Longrightarrow> \<exists>p. ma_sq_ring a = Inr p \<and> r2 = r\<lparr>rm_sq_ring_ptr := Some p\<rparr>"
  using assms
  by (auto simp: map_sq_ring_def mem_mmap_def holds_ring_def held_maps_def held_fds_def ring_released_def split: sum.splits)

lemma map_cq_ring_holds:
  assumes "map_cq_ring a params (r, m1) = (x, r2, m2)" and "holds_ring m (r, m1)" and "0 \<le> rm_ring_fd r"
    and "rm_sq_ring_ptr r = Some p" "rm_cq_ring_ptr r = None" "rm_sqes r = None" "ma_cq_ring a \<noteq> Inr p"
  shows "holds_ring m (r2, m2)" and "x = Inl e \<Longrightarrow> ring_released r2"
    and "x = Inr u \<Longrightarrow> \<exists>q. r2 = r\<lparr>rm_cq_ring_ptr := Some q\<rparr> \<and> (single_mmap params \<longrightarrow> q = p)
      \<and> (\<not> single_mmap params \<longrightarrow> ma_cq_ring a = Inr q)"
  using assms
  by (auto simp: map_cq_ring_def mem_mmap_def holds_ring_def held_maps_def held_fds_def ring_released_def
      split: sum.splits if_splits)

lemma map_sqes_holds:
  assumes "map_sqes a (r, m1) = (x, r2, m2)" and "holds_ring m (r, m1)" and "0 \<le> rm_ring_fd r"
    and "rm_sq_ring_ptr r = Some p" "rm_cq_ring_ptr r = Some q" "rm_sqes r = None"
  shows "holds_ring m (r2, m2)" and "x = Inl e \<Longrightarrow> ring_released r2"
    and "x = Inr u \<Longrightarrow> \<exists>s. r2 = r\<lparr>rm_sqes := Some s\<rparr>"
  using assms
  by (auto simp: map_sqes_def mem_mmap_def holds_ring_def held_maps_def held_fds_def ring_released_def Let_def
      split: sum.splits if_splits)

lemma run_probe_cases:
  assumes "run_probe a ks (r, m1) = (x, s)" and "holds_ring m (r, m1)"
  obtains (failed) e m3 where "x = Inl e" "s = iouringd_ring_cleanup (r, m3)" "holds_ring m (r, m3)"
  | (probed) mask m3 where "x = Inr mask" "s = (r, m3)" "holds_ring m (r, m3)"
proof (cases "ma_probe a")
  case (Inl e)
  with assms failed [of e m1] show thesis by (simp add: run_probe_def mem_mmap_def)
next
  case (Inr p)
  let ?m = "mem_munmap p probe_bytes (m1\<lparr>mem_maps := (p, probe_bytes) # mem_maps m1\<rparr>)"
  have page: "holds_ring m (r, ?m)" using assms(2) by (simp add: holds_ring_def)
  have "(\<exists>e. x = Inl e) \<and> s = iouringd_ring_cleanup (r, ?m) \<or> (\<exists>mask. x = Inr mask) \<and> s = (r, ?m)"
    using assms(1) Inr by (auto simp: run_probe_def mem_mmap_def Let_def split: sum.splits if_splits)
  with page failed probed show thesis by blast
qed

lemma run_probe_holds:
  assumes "run_probe a ks (r, m1) = (x, r2, m2)" and "holds_ring m (r, m1)"
  shows "holds_ring m (r2, m2)" and "x = Inl e \<Longrightarrow> ring_released r2" and "x = Inr u \<Longrightarrow> r2 = r"
proof -
  note rel = ring_cleanup_gives_back [OF _ sym]
  show "holds_ring m (r2, m2)"
    using run_probe_cases [OF assms] rel ring_released_holds by (metis (no_types, lifting) prod.inject)
  show "x = Inl e \<Longrightarrow> ring_released r2"
    using run_probe_cases [OF assms] rel(1) by (metis Inl_Inr_False)
  show "x = Inr u \<Longrightarrow> r2 = r"
    using run_probe_cases [OF assms] by (metis Inl_Inr_False prod.inject)
qed

section \<open>Nothing is leaked\<close>

text \<open>The layout of the mappings of a ring that was set up.\<close>

definition ring_mapped :: "ring_params \<Rightarrow> int \<Rightarrow> ring_maps \<Rightarrow> bool" where
  "ring_mapped params fd r \<longleftrightarrow> (\<exists>sq cq sqes.
     rm_ring_fd r = fd \<and> rm_sq_ring_ptr r = Some sq \<and> rm_cq_ring_ptr r = Some cq \<and> rm_sqes r = Some sqes
     \<and> (cq = sq \<longleftrightarrow> single_mmap params)
     \<and> sq_bytes params \<le> rm_sq_ring_size r \<and> cq_bytes params \<le> rm_cq_ring_size r
     \<and> (single_mmap params \<longrightarrow> rm_cq_ring_size r = rm_sq_ring_size r)
     \<and> rm_sqes_size r = unat (rp_sq_entries params) * 64)"

lemma ring_init_steps:
  assumes out: "ring_init_maps a ks entries (Inr (fd, params, flags)) m = (x, r, m')"
    and entries: "entries \<noteq> 0" and fd: "0 \<le> fd" and new: "\<And>p. ma_sq_ring a = Inr p \<Longrightarrow> ma_cq_ring a \<noteq> Inr p"
  shows "holds_ring m (r, m')" and "x = Inl e \<Longrightarrow> ring_released r" and "x = Inr ops \<Longrightarrow> ring_mapped params fd r"
proof -
  let ?r0 = "set_ring_sizes params (no_maps\<lparr>rm_ring_fd := fd, rm_setup_flags := flags\<rparr>)"
  have r0: "rm_ring_fd ?r0 = fd" "rm_sq_ring_ptr ?r0 = None" "rm_cq_ring_ptr ?r0 = None" "rm_sqes ?r0 = None"
    by (simp_all add: set_ring_sizes_def no_maps_def)
  have h0: "holds_ring m (?r0, m\<lparr>mem_fds := fd # mem_fds m\<rparr>)"
    using fd by (simp add: holds_ring_def held_maps_def held_fds_def r0)
  obtain x1 r1 m1 where s1: "map_sq_ring a (?r0, m\<lparr>mem_fds := fd # mem_fds m\<rparr>) = (x1, r1, m1)" by (metis surj_pair)
  obtain x2 r2 m2 where s2: "map_cq_ring a params (r1, m1) = (x2, r2, m2)" by (metis surj_pair)
  obtain x3 r3 m3 where s3: "map_sqes a (r2, m2) = (x3, r3, m3)" by (metis surj_pair)
  obtain x4 r4 m4 where s4: "run_probe a ks (r3, m3) = (x4, r4, m4)" by (metis surj_pair)
  note h1 = map_sq_ring_holds [OF s1 h0 _ r0(2-4)]
  have run: "ring_init_maps a ks entries (Inr (fd, params, flags)) m =
      (case x1 of Inl e \<Rightarrow> (Inl e, r1, m1) | Inr _ \<Rightarrow> (case x2 of Inl e \<Rightarrow> (Inl e, r2, m2) | Inr _ \<Rightarrow>
        (case x3 of Inl e \<Rightarrow> (Inl e, r3, m3) | Inr _ \<Rightarrow> (x4, r4, m4))))"
    using entries s1 s2 s3 s4 by (simp add: ring_init_maps_def split: sum.split)
  have "holds_ring m (r, m') \<and> (\<forall>e. x = Inl e \<longrightarrow> ring_released r) \<and> (\<forall>ops. x = Inr ops \<longrightarrow> ring_mapped params fd r)"
  proof (cases x1)
    case (Inr u1)
    obtain p where p: "ma_sq_ring a = Inr p" and r1: "r1 = ?r0\<lparr>rm_sq_ring_ptr := Some p\<rparr>"
      using h1(3) [OF _ Inr] fd r0(1) by auto
    note h2 = map_cq_ring_holds [OF s2 h1(1), of p]
    show ?thesis
    proof (cases x2)
      case (Inr u2)
      obtain q where q: "r2 = r1\<lparr>rm_cq_ring_ptr := Some q\<rparr>" "single_mmap params \<longrightarrow> q = p"
        and split: "\<not> single_mmap params \<longrightarrow> ma_cq_ring a = Inr q"
        using h2(3) [OF _ _ _ _ _ _ Inr] fd r0 p new r1 by auto
      note h3 = map_sqes_holds [OF s3 h2(1), of p q]
      show ?thesis
      proof (cases x3)
        case (Inr u3)
        obtain s where s: "r3 = r2\<lparr>rm_sqes := Some s\<rparr>"
          using h3(3) [OF _ _ _ _ _ _ _ _ _ _ Inr] fd r0 p new r1 q by auto
        have h3': "holds_ring m (r3, m3)" using h3(1) fd r0 p new r1 q by simp
        note h4 = run_probe_holds [OF s4 h3']
        have "ring_mapped params fd r3"
          using s q split r1 new [OF p] by (auto simp: ring_mapped_def set_ring_sizes_def no_maps_def)
        with h4 out run Inr \<open>x2 = _\<close> \<open>x1 = _\<close> show ?thesis by (auto split: sum.splits)
      qed (use h3(1,2) fd r0 p new r1 q out run Inr \<open>x1 = _\<close> in auto)
    qed (use h2(1,2) fd r0 p new r1 out run Inr in auto)
  qed (use h1(1,2) fd r0 out run in auto)
  then show "holds_ring m (r, m')" "x = Inl e \<Longrightarrow> ring_released r" "x = Inr ops \<Longrightarrow> ring_mapped params fd r" by auto
qed

text \<open>\<open>n\<close> bytes at \<open>p\<close> lie within a mapping.\<close>

definition lies_in :: "nat \<Rightarrow> nat \<Rightarrow> nat \<Rightarrow> nat \<Rightarrow> bool" where
  "lies_in p n base len \<longleftrightarrow> base \<le> p \<and> p + n \<le> base + len"

text \<open>
  What io_uring_setup promises of its offsets: the 32-bit words of a ring are inside the part of
  the mapping that ends with its array.
\<close>

definition words_inside :: "ring_params \<Rightarrow> bool" where
  "words_inside p \<longleftrightarrow>
     (\<forall>off \<in> {so_head (rp_sq_off p), so_tail (rp_sq_off p), so_ring_mask (rp_sq_off p),
         so_ring_entries (rp_sq_off p)}. unat off + 4 \<le> sq_bytes p)
     \<and> (\<forall>off \<in> {co_head (rp_cq_off p), co_tail (rp_cq_off p), co_ring_mask (rp_cq_off p)}.
         unat off + 4 \<le> cq_bytes p)"

text \<open>The words, the queues and the entries lie within the mappings they belong to.\<close>

definition queues_within :: "ring_params \<Rightarrow> ring_maps \<Rightarrow> bool" where
  "queues_within params r \<longleftrightarrow>
     (let pt = ring_pointers_of params r;
          in_sq = (\<lambda>p n. lies_in p n (the (rm_sq_ring_ptr r)) (rm_sq_ring_size r));
          in_cq = (\<lambda>p n. lies_in p n (the (rm_cq_ring_ptr r)) (rm_cq_ring_size r))
      in in_sq (pt_sq_head pt) 4 \<and> in_sq (pt_sq_tail pt) 4 \<and> in_sq (pt_sq_ring_mask pt) 4
         \<and> in_sq (pt_sq_ring_entries pt) 4
         \<and> in_cq (pt_cq_head pt) 4 \<and> in_cq (pt_cq_tail pt) 4 \<and> in_cq (pt_cq_ring_mask pt) 4
         \<and> (\<forall>i < unat (rp_sq_entries params). in_sq (pt_sq_array pt + i * 4) 4)
         \<and> (\<forall>i < unat (rp_cq_entries params). in_cq (pt_cqes pt + i * 16) 16)
         \<and> (\<forall>i < unat (rp_sq_entries params).
              lies_in (the (rm_sqes r) + i * 64) 64 (the (rm_sqes r)) (rm_sqes_size r)))"

lemma entry_within: "(i::nat) < n \<Longrightarrow> i * k + k \<le> n * k"
proof -
  assume "i < n"
  then have "(i + 1) * k \<le> n * k" by (intro mult_le_mono1) simp
  then show ?thesis by simp
qed

lemma mapped_within:
  assumes "ring_mapped params fd r" and "words_inside params"
  shows "queues_within params r"
proof -
  obtain sq cq sqes where r: "rm_sq_ring_ptr r = Some sq" "rm_cq_ring_ptr r = Some cq" "rm_sqes r = Some sqes"
    "sq_bytes params \<le> rm_sq_ring_size r" "cq_bytes params \<le> rm_cq_ring_size r"
    "rm_sqes_size r = unat (rp_sq_entries params) * 64"
    using assms(1) by (auto simp: ring_mapped_def)
  have sq: "lies_in (sq + off) n sq (rm_sq_ring_size r)" if "off + n \<le> sq_bytes params" for off n
    using that r(4) by (simp add: lies_in_def)
  have cq: "lies_in (cq + off) n cq (rm_cq_ring_size r)" if "off + n \<le> cq_bytes params" for off n
    using that r(5) by (simp add: lies_in_def)
  have "lies_in (sq + unat (so_array (rp_sq_off params)) + i * 4) 4 sq (rm_sq_ring_size r)"
    if "i < unat (rp_sq_entries params)" for i
    using entry_within [OF that, of 4] sq [of "unat (so_array (rp_sq_off params)) + i * 4" 4]
    by (simp add: sq_bytes_def add.assoc)
  moreover have "lies_in (cq + unat (co_cqes (rp_cq_off params)) + i * 16) 16 cq (rm_cq_ring_size r)"
    if "i < unat (rp_cq_entries params)" for i
    using entry_within [OF that, of 16] cq [of "unat (co_cqes (rp_cq_off params)) + i * 16" 16]
    by (simp add: cq_bytes_def add.assoc)
  moreover have "lies_in (sqes + i * 64) 64 sqes (rm_sqes_size r)" if "i < unat (rp_sq_entries params)" for i
    using entry_within [OF that, of 64] by (simp add: lies_in_def r(6))
  ultimately show ?thesis
    using assms(2) sq cq by (simp add: queues_within_def words_inside_def ring_pointers_of_def Let_def r(1-3))
qed

text \<open>The result is the one of the description without memory: \<open>ks_mmap_errno\<close> is the first failure.\<close>

definition mmap_failure :: "mmap_answers \<Rightarrow> ring_params \<Rightarrow> errno option" where
  "mmap_failure a params =
     (case ma_sq_ring a of Inl e \<Rightarrow> Some e | Inr _ \<Rightarrow>
     (case (if single_mmap params then Inr 0 else ma_cq_ring a) of Inl e \<Rightarrow> Some e | Inr _ \<Rightarrow>
     (case ma_sqes a of Inl e \<Rightarrow> Some e | Inr _ \<Rightarrow>
     (case ma_probe a of Inl e \<Rightarrow> Some e | Inr _ \<Rightarrow> None))))"

lemma ring_init_refines:
  assumes "ring_setup_best_effort ks entries = Inr (fd, par, flags)" and "ks_mmap_errno ks = mmap_failure a params"
  shows "fst (ring_init_maps a ks entries (Inr (fd, params, flags)) m)
    = map_sum id (\<lambda>(fd, flags, cap). cap_op_mask cap) (iouringd_ring_init ks entries)"
  using assms
  by (simp add: ring_init_maps_def iouringd_ring_init_def map_sq_ring_def map_cq_ring_def map_sqes_def run_probe_def
      mem_mmap_def mmap_failure_def Let_def split: sum.split)

text \<open>
  C15: Setting up the ring leaks nothing. If \<open>iouringd_ring_init\<close> fails, at whatever step, the process has
  the descriptors and mappings it had before, each mapping and descriptor it made having been given
  back once, and the ring has no pointers and no descriptor. If it succeeds, the process has one
  descriptor more, and \<open>iouringd_ring_cleanup\<close> gives everything back. All nine pointers of the ring are
  then within bounds: the words of the submission ring (head, tail, mask and entries) and every
  entry of its array lie in the mapping of the submission ring, the words of the completion ring
  (head, tail and mask) and every completion lie in the mapping of the completion ring, shared or
  not, and every submission entry lies in the third mapping. Assumed of the kernel: a descriptor is
  not negative, two mappings that exist together have different addresses, and the offsets of the words are
  inside the sizes that are mapped.
\<close>

theorem ring_init_gives_back:
  assumes "ring_init_maps a ks entries made m = (x, r, m')"
    and "\<And>fd params flags. made = Inr (fd, params, flags) \<Longrightarrow> 0 \<le> fd \<and> words_inside params"
    and "\<And>p. ma_sq_ring a = Inr p \<Longrightarrow> ma_cq_ring a \<noteq> Inr p"
  shows "case x of
      Inl e \<Rightarrow> ring_released r \<and> mset (mem_maps m') = mset (mem_maps m) \<and> mset (mem_fds m') = mset (mem_fds m)
    | Inr ops \<Rightarrow> (\<exists>fd params flags. made = Inr (fd, params, flags) \<and> rm_ring_fd r = fd
        \<and> mset (mem_fds m') = add_mset fd (mset (mem_fds m)) \<and> queues_within params r
        \<and> (\<forall>r2 m2. iouringd_ring_cleanup (r, m') = (r2, m2) \<longrightarrow>
             ring_released r2 \<and> mset (mem_maps m2) = mset (mem_maps m) \<and> mset (mem_fds m2) = mset (mem_fds m)))"
proof (cases "entries = 0 \<or> isl made")
  case True
  then have "\<exists>e. (x, r, m') = (Inl e, no_maps, m)"
    using assms(1) by (cases made) (auto simp: ring_init_maps_def split: if_splits)
  then show ?thesis by (auto simp: ring_released_def no_maps_def)
next
  case False
  then obtain fd params flags where s: "made = Inr (fd, params, flags)" by (cases made) auto
  from assms(2) [OF s] have k: "0 \<le> fd" "words_inside params" by simp_all
  note st = ring_init_steps [OF assms(1) [unfolded s] _ k(1) assms(3)]
  show ?thesis
  proof (cases x)
    case (Inl e)
    with st(1,2) False ring_released_holds show ?thesis by auto
  next
    case (Inr ops)
    with st(3) False have mapped: "ring_mapped params fd r" by simp
    then have fd: "rm_ring_fd r = fd" by (auto simp: ring_mapped_def)
    have held: "holds_ring m (r, m')" using st(1) False by simp
    then have "mset (mem_fds m') = add_mset fd (mset (mem_fds m))"
      using k(1) fd by (simp add: holds_ring_def held_fds_def)
    with mapped_within [OF mapped k(2)] ring_cleanup_gives_back [OF held] s fd Inr show ?thesis by simp
  qed
qed

definition demo_params :: ring_params where
  "demo_params = \<lparr>rp_sq_entries = 8, rp_cq_entries = 16, rp_features = 0,
     rp_sq_off = \<lparr>so_head = 0, so_tail = 4, so_ring_mask = 8, so_ring_entries = 12, so_array = 64\<rparr>,
     rp_cq_off = \<lparr>co_head = 0, co_tail = 4, co_ring_mask = 8, co_cqes = 64\<rparr>\<rparr>"

lemma demo_words_inside: "words_inside demo_params"
  by (simp add: words_inside_def demo_params_def sq_bytes_def cq_bytes_def)

definition demo_setup_kernel :: setup_kernel where
  "demo_setup_kernel = \<lparr>ks_setup = (\<lambda>_ _. Inl EINVAL), ks_mmap_errno = None,
     ks_probe = Inr [\<lparr>po_op = 0, po_flags = 1\<rparr>], ks_fault = None\<rparr>"

definition demo_init :: "errno + nat \<Rightarrow> (u32, ring_maps \<times> memory) res" where
  "demo_init sqes = ring_init_maps
     \<lparr>ma_sq_ring = Inr 4096, ma_cq_ring = Inr 8192, ma_sqes = sqes, ma_probe = Inr 16384\<rparr>
     demo_setup_kernel 8 (Inr (7, demo_params, 0)) \<lparr>mem_fds = [0, 1, 2], mem_maps = []\<rparr>"

lemma demo_init_result:
  "fst (demo_init (Inl ENOMEM)) = Inl ENOMEM" "fst (demo_init (Inr 12288)) = Inr 1"
  by (simp_all add: demo_init_def demo_setup_kernel_def ring_init_maps_def map_sq_ring_def map_cq_ring_def
      map_sqes_def mem_mmap_def single_mmap_def demo_params_def run_probe_def Let_def probe_op_mask_def
      supported_submit_mask_def probe_table_def)

text \<open>A setup whose third mapping fails, and one that succeeds with two rings mapped apart.\<close>

theorem ring_init_gives_back_witness:
  "(\<exists>r m'. demo_init (Inl ENOMEM) = (Inl ENOMEM, r, m') \<and> mem_maps m' = [] \<and> mset (mem_fds m') = mset [0, 1, 2])
   \<and> (\<exists>r m'. demo_init (Inr 12288) = (Inr 1, r, m') \<and> queues_within demo_params r
        \<and> mset (mem_fds m') = mset [0, 1, 2, 7])"
proof
  note at_demo = ring_init_gives_back [where made = "Inr (7, demo_params, 0)", OF demo_init_def [symmetric, THEN trans]]
  obtain r m' where f: "demo_init (Inl ENOMEM) = (Inl ENOMEM, r, m')"
    using demo_init_result(1) by (metis prod.collapse)
  from at_demo [OF f] demo_words_inside f
  show "\<exists>r m'. demo_init (Inl ENOMEM) = (Inl ENOMEM, r, m') \<and> mem_maps m' = [] \<and> mset (mem_fds m') = mset [0, 1, 2]"
    by auto
  obtain r m' where g: "demo_init (Inr 12288) = (Inr 1, r, m')"
    using demo_init_result(2) by (metis prod.collapse)
  from at_demo [OF g] demo_words_inside g
  show "\<exists>r m'. demo_init (Inr 12288) = (Inr 1, r, m') \<and> queues_within demo_params r
      \<and> mset (mem_fds m') = mset [0, 1, 2, 7]"
    by auto
qed

end
