(* ===== verification/Program.thy ===== *)
theory Program
  imports Logging Ring_Memory Reachable
begin

text \<open>
  The program around the event loop, main.c lines 163 to 247, 370 to 396 and 4236 to 4375: the stop
  signals, the descriptor flags, the cleanup with the socket path and the ring, and \<open>main\<close> from the
  command line to the exit status. \<open>volatile sig_atomic_t\<close> globals are the record \<open>signals\<close>; the signals
  that arrive while the loop runs are a list.
\<close>

section \<open>Stop signals\<close>

record signals =
  sg_stop_requested :: bool
  sg_stop_signal :: int
  sg_server_fd :: int

definition no_signals :: signals where
  "no_signals = \<lparr>sg_stop_requested = False, sg_stop_signal = 0, sg_server_fd = - 1\<rparr>"

definition iouringd_handle_stop_signal :: "int \<Rightarrow> signals \<times> os \<Rightarrow> signals \<times> os" where
  "iouringd_handle_stop_signal signo = (\<lambda>(sg, os).
     (sg\<lparr>sg_stop_requested := True, sg_stop_signal := signo\<rparr>, close_if_open (sg_server_fd sg) os))"

abbreviation (input) SIGINT :: int where "SIGINT \<equiv> 2"
abbreviation (input) SIGTERM :: int where "SIGTERM \<equiv> 15"

datatype disposition = Default | Stop_handler

text \<open>What the signal calls return: sigemptyset, sigaction for a signal, and whether raising a signal
  with its default disposition ends the process.\<close>

record signal_calls =
  sc_emptyset :: bool
  sc_sigaction :: "int \<Rightarrow> bool"
  sc_raise_kills :: bool

definition iouringd_install_signal_handlers ::
  "signal_calls \<Rightarrow> (int \<Rightarrow> disposition) \<Rightarrow> bool \<times> (int \<Rightarrow> disposition)" where
  "iouringd_install_signal_handlers sc disp =
     (if \<not> sc_emptyset sc then (False, disp)
      else if \<not> sc_sigaction sc SIGINT then (False, disp)
      else let disp1 = disp(SIGINT := Stop_handler) in
        if \<not> sc_sigaction sc SIGTERM then (False, disp1)
        else (True, disp1(SIGTERM := Stop_handler)))"

datatype exit = Exit int | Killed int

definition iouringd_finish_stop_signal :: "signal_calls \<Rightarrow> signals \<Rightarrow> exit" where
  "iouringd_finish_stop_signal sc sg =
     (let signo = sg_stop_signal sg in
      if signo = 0 then Exit 0
      else if \<not> sc_emptyset sc then Exit (128 + signo)
      else if \<not> sc_sigaction sc signo then Exit (128 + signo)
      else if sc_raise_kills sc then Killed signo
      else Exit (128 + signo))"

section \<open>Descriptor flags\<close>

abbreviation (input) O_NONBLOCK :: u32 where "O_NONBLOCK \<equiv> 2048"
abbreviation (input) FD_CLOEXEC :: u32 where "FD_CLOEXEC \<equiv> 1"

text \<open>\<open>fcntl\<close>: the flags it reports, or an errno, and the errno of setting flags, if any; the result is
  the flags the descriptor has then.\<close>

definition iouringd_set_nonblocking :: "errno + u32 \<Rightarrow> (u32 \<Rightarrow> errno option) \<Rightarrow> errno + u32" where
  "iouringd_set_nonblocking getfl setfl =
     (case getfl of
        Inl e \<Rightarrow> Inl e
      | Inr flags \<Rightarrow> (case setfl (or flags O_NONBLOCK) of Some e \<Rightarrow> Inl e | None \<Rightarrow> Inr (or flags O_NONBLOCK)))"

definition iouringd_set_cloexec :: "errno + u32 \<Rightarrow> (u32 \<Rightarrow> errno option) \<Rightarrow> errno + u32" where
  "iouringd_set_cloexec getfd setfd =
     (case getfd of
        Inl e \<Rightarrow> Inl e
      | Inr flags \<Rightarrow> (case setfd (or flags FD_CLOEXEC) of Some e \<Rightarrow> Inl e | None \<Rightarrow> Inr (or flags FD_CLOEXEC)))"

lemma descriptor_flags_added:
  assumes "iouringd_set_nonblocking (Inr flags) setfl = Inr nb" and "iouringd_set_cloexec (Inr flags) setfd = Inr ce"
  shows "bit nb n \<longleftrightarrow> bit flags n \<or> n = 11" and "bit ce n \<longleftrightarrow> bit flags n \<or> n = 0"
proof -
  have "(2048 :: u32) = 2 ^ 11" by simp
  then have "bit (2048 :: u32) n \<longleftrightarrow> n = 11" by (simp only: bit_exp_iff) auto
  with assms show "bit nb n \<longleftrightarrow> bit flags n \<or> n = 11"
    by (auto simp: iouringd_set_nonblocking_def bit_or_iff split: option.splits)
  from assms show "bit ce n \<longleftrightarrow> bit flags n \<or> n = 0"
    by (auto simp: iouringd_set_cloexec_def bit_or_iff bit_1_iff split: option.splits)
qed

section \<open>Cleanup\<close>

text \<open>What a process leaves behind: the paths it has unlinked, its descriptors and mappings.\<close>

record process =
  pr_unlinked :: "string list"
  pr_memory :: memory

definition cleanup_process ::
  "string option \<Rightarrow> ring_maps \<Rightarrow> iouringd_runtime \<times> signals \<times> process
    \<Rightarrow> ring_maps \<times> iouringd_runtime \<times> signals \<times> process"
where
  "cleanup_process path ring = (\<lambda>(rt, sg, pr).
     let rt1 = iouringd_cleanup_runtime rt;
         unlinked = (case path of Some p \<Rightarrow> p # pr_unlinked pr | None \<Rightarrow> pr_unlinked pr);
         (ring1, mem) = iouringd_ring_cleanup (ring, pr_memory pr)
     in (ring1, rt1, sg\<lparr>sg_server_fd := - 1\<rparr>, \<lparr>pr_unlinked = unlinked, pr_memory = mem\<rparr>))"

text \<open>The cleanup gives back the ring and removes the socket path.\<close>

lemma cleanup_process_done:
  assumes "holds_ring m (ring, pr_memory pr)" and "cleanup_process (Some path) ring (rt, sg, pr) = (ring', rt', sg', pr')"
  shows "ring_released ring'" and "path \<in> set (pr_unlinked pr')" and "sg_server_fd sg' = - 1" and "rt_buffer_storage rt' = []"
    and "mset (mem_maps (pr_memory pr')) = mset (mem_maps m)" and "mset (mem_fds (pr_memory pr')) = mset (mem_fds m)"
proof -
  obtain r1 m1 where c: "iouringd_ring_cleanup (ring, pr_memory pr) = (r1, m1)" by fastforce
  note g = ring_cleanup_gives_back [OF assms(1) c]
  have "ring' = r1" "pr_memory pr' = m1" "pr_unlinked pr' = path # pr_unlinked pr" "sg' = sg\<lparr>sg_server_fd := - 1\<rparr>"
    "rt' = iouringd_cleanup_runtime rt"
    using assms(2) c by (auto simp: cleanup_process_def Let_def)
  with g show "ring_released ring'" "path \<in> set (pr_unlinked pr')" "sg_server_fd sg' = - 1" "rt_buffer_storage rt' = []"
    "mset (mem_maps (pr_memory pr')) = mset (mem_maps m)" "mset (mem_fds (pr_memory pr')) = mset (mem_fds m)"
    by (simp_all add: iouringd_cleanup_runtime_def Let_def)
qed

section \<open>The program\<close>

text \<open>The end of \<open>main\<close>, after the event loop has returned \<open>r\<close>: the exit, the text on stderr, and what the
  cleanup leaves.\<close>

type_synonym final_state = "ring_maps \<times> iouringd_runtime \<times> signals \<times> process"

definition finish_main ::
  "(errno \<Rightarrow> string) \<Rightarrow> log \<Rightarrow> signal_calls \<Rightarrow> ring_maps \<Rightarrow> errno + bool \<Rightarrow> iouringd_runtime \<times> signals \<times> process
    \<Rightarrow> exit \<times> string \<times> final_state"
where
  "finish_main strerror lg sc ring r = (\<lambda>(rt, sg, pr).
     let final = cleanup_process (lg_socket_path lg) ring (rt, sg, pr) in
     case r of
       Inl e \<Rightarrow>
         (Exit 1, iouringd_log_errno strerror e ''event loop failed'' @ iouringd_log_metrics lg ''shutdown'' rt, final)
     | Inr _ \<Rightarrow>
         (if sg_stop_requested sg then iouringd_finish_stop_signal sc sg else Exit 0,
          iouringd_log_metrics lg ''shutdown'' rt, final))"

text \<open>\<open>main\<close> from a successful start on; \<open>None\<close> while the loop is running. \<open>sigs\<close> are the stop signals that
  arrived while it ran; the descriptors their handlers have closed are added when it has ended.\<close>

definition run_main ::
  "(errno \<Rightarrow> string) \<Rightarrow> log \<Rightarrow> signal_calls \<Rightarrow> sys \<Rightarrow> env list \<Rightarrow> int list \<Rightarrow> ring_maps \<Rightarrow> process \<Rightarrow> iouringd_runtime
    \<Rightarrow> (exit \<times> string \<times> final_state) option"
where
  "run_main strerror lg sc sys ens sigs ring pr rt =
     (case iouringd_run sys ens rt of
        None \<Rightarrow> None
      | Some (Inr True, rt1) \<Rightarrow> None
      | Some (r, rt1) \<Rightarrow>
          (case fold iouringd_handle_stop_signal sigs (no_signals\<lparr>sg_server_fd := rt_server_fd rt\<rparr>, rt_os rt1) of
             (sg, os) \<Rightarrow>
               (case finish_main strerror lg sc ring r (rt1\<lparr>rt_os := os\<rparr>, sg, pr) of
                  (x, printed, final) \<Rightarrow> Some (x, iouringd_log_metrics lg ''ready'' rt @ printed, final))))"

text \<open>\<open>main\<close>: a start that fails ends the program with the status of \<open>daemon_start\<close>.\<close>

definition daemon_main ::
  "(errno \<Rightarrow> string) \<Rightarrow> log \<Rightarrow> boot \<Rightarrow> signal_calls \<Rightarrow> sys \<Rightarrow> env list \<Rightarrow> int list \<Rightarrow> ring_maps \<Rightarrow> process \<Rightarrow> string list
    \<Rightarrow> exit option"
where
  "daemon_main strerror lg b sc sys ens sigs ring pr args =
     (case daemon_start b args of
        Inl status \<Rightarrow> Some (Exit status)
      | Inr rt \<Rightarrow> map_option fst (run_main strerror lg sc sys ens sigs ring pr rt))"

text \<open>src/iouringd.c, a program of its own that only prints a line: the exit status and the output.\<close>

definition iouringd_main :: "int \<times> string" where
  "iouringd_main = (0, ''iouringd: starting'' @ [CHR 10])"

section \<open>How the program ends\<close>

lemma handle_signals:
  "fst (fold iouringd_handle_stop_signal sigs (sg, os)) = (if sigs = [] then sg
     else sg\<lparr>sg_stop_requested := True, sg_stop_signal := last sigs\<rparr>)"
  by (induction sigs arbitrary: sg os) (auto simp: iouringd_handle_stop_signal_def)

lemma run_main_returns:
  "iouringd_run sys ens rt = Some (r, rt1) \<Longrightarrow> r \<noteq> Inr True
    \<Longrightarrow> \<exists>out. run_main strerror lg sc sys ens sigs ring pr rt = Some out"
  by (cases r) (auto simp: run_main_def split: prod.split)

lemma run_main_ends:
  assumes "run_main strerror lg sc sys ens sigs ring pr rt = Some (x, printed, final)"
  shows "(\<exists>e rt'. iouringd_run sys ens rt = Some (Inl e, rt') \<and> x = Exit 1)
      \<or> (\<exists>rt'. iouringd_run sys ens rt = Some (Inr False, rt')
          \<and> (if sigs = [] then x = Exit 0
             else last sigs \<noteq> 0 \<longrightarrow> x = Killed (last sigs) \<or> x = Exit (128 + last sigs)))"
    and "\<exists>rt1 sg. cleanup_process (lg_socket_path lg) ring (rt1, sg, pr) = final"
proof -
  obtain r rt1 where run: "iouringd_run sys ens rt = Some (r, rt1)" "r \<noteq> Inr True"
    using assms by (auto simp: run_main_def split: option.splits sum.splits bool.splits)
  obtain sg os where sig: "fold iouringd_handle_stop_signal sigs (no_signals\<lparr>sg_server_fd := rt_server_fd rt\<rparr>, rt_os rt1) = (sg, os)"
    by fastforce
  have sg: "sg = (if sigs = [] then no_signals\<lparr>sg_server_fd := rt_server_fd rt\<rparr>
     else no_signals\<lparr>sg_server_fd := rt_server_fd rt, sg_stop_requested := True, sg_stop_signal := last sigs\<rparr>)"
    using handle_signals [of sigs "no_signals\<lparr>sg_server_fd := rt_server_fd rt\<rparr>" "rt_os rt1"] sig by simp
  obtain printed' where fin: "finish_main strerror lg sc ring r (rt1\<lparr>rt_os := os\<rparr>, sg, pr) = (x, printed', final)"
    using assms run sig
    by (cases r) (auto simp: run_main_def split: prod.splits bool.splits)
  then show "\<exists>rt1 sg. cleanup_process (lg_socket_path lg) ring (rt1, sg, pr) = final"
    by (auto simp: finish_main_def Let_def split: sum.splits)
  show "(\<exists>e rt'. iouringd_run sys ens rt = Some (Inl e, rt') \<and> x = Exit 1)
      \<or> (\<exists>rt'. iouringd_run sys ens rt = Some (Inr False, rt')
          \<and> (if sigs = [] then x = Exit 0
             else last sigs \<noteq> 0 \<longrightarrow> x = Killed (last sigs) \<or> x = Exit (128 + last sigs)))"
    using fin run sg
    by (cases r) (auto simp: finish_main_def no_signals_def iouringd_finish_stop_signal_def Let_def split: if_splits)
qed

lemma start_ring_failure: "start_ring b rt = Inl status \<Longrightarrow> status = 1"
  by (auto simp: start_ring_def Let_def split: if_splits sum.splits prod.splits)

lemma start_failure:
  assumes "daemon_start b args = Inl status"
  shows "status = 1 \<or> status = 2"
    and "status = 2 \<longleftrightarrow> args = [] \<or> isl (iouringd_parse_args args iouringd_init_runtime)
      \<or> (\<exists>rt op path. iouringd_parse_args args iouringd_init_runtime = Inr (rt, op, path) \<and> 108 \<le> length path
           \<and> bt_signals b \<and> \<not> isl (start_ring b rt) \<and> \<not> isl (bt_socket b) \<and> bt_cloexec b \<and> bt_nonblock b)"
  using assms
  by (auto simp: daemon_start_def start_sockets_def dest: start_ring_failure split: if_splits sum.splits prod.splits)

text \<open>
  C38: When the program ends, its exit status says why. A start that fails ends it with status 1 or 2,
  and 2 exactly when the command line is refused or, everything before having succeeded, the socket
  path is too long for the socket address. An error of the event loop ends it with status 1. After a
  turn that has seen a stop request, the program ends by the last stop signal that arrived, or, if
  the signal cannot be raised again, with 128 and its number; without a stop signal with status 0. In
  both cases the socket path has been removed and, if the ring held its mappings and descriptor, the
  process has none of them left.
\<close>

theorem daemon_exit_status:
  assumes "daemon_main strerror lg b sc sys ens sigs ring pr args = Some x" and "\<forall>s \<in> set sigs. s = SIGINT \<or> s = SIGTERM"
    and "lg_socket_path lg = Some path" and "holds_ring m (ring, pr_memory pr)"
  shows "case daemon_start b args of
      Inl status \<Rightarrow> x = Exit status \<and> (status = 1 \<or> status = 2)
        \<and> (status = 2 \<longleftrightarrow> args = [] \<or> isl (iouringd_parse_args args iouringd_init_runtime)
             \<or> (\<exists>rt op path. iouringd_parse_args args iouringd_init_runtime = Inr (rt, op, path) \<and> 108 \<le> length path
                  \<and> bt_signals b \<and> \<not> isl (start_ring b rt) \<and> \<not> isl (bt_socket b) \<and> bt_cloexec b \<and> bt_nonblock b))
    | Inr rt \<Rightarrow> (\<exists>printed ring' rt' sg' pr'. run_main strerror lg sc sys ens sigs ring pr rt = Some (x, printed, ring', rt', sg', pr')
          \<and> path \<in> set (pr_unlinked pr') \<and> ring_released ring'
          \<and> mset (mem_maps (pr_memory pr')) = mset (mem_maps m) \<and> mset (mem_fds (pr_memory pr')) = mset (mem_fds m))
        \<and> ((\<exists>e rt'. iouringd_run sys ens rt = Some (Inl e, rt') \<and> x = Exit 1)
           \<or> (\<exists>rt'. iouringd_run sys ens rt = Some (Inr False, rt')
               \<and> (if sigs = [] then x = Exit 0 else x = Killed (last sigs) \<or> x = Exit (128 + last sigs))))"
proof (cases "daemon_start b args")
  case (Inl status)
  with Inl assms(1) start_failure [OF Inl] show ?thesis by (simp add: daemon_main_def)
next
  case (Inr rt)
  then obtain printed ring' rt' sg' pr' where out: "run_main strerror lg sc sys ens sigs ring pr rt = Some (x, printed, ring', rt', sg', pr')"
    using assms(1) by (auto simp: daemon_main_def)
  note ended = run_main_ends [OF out]
  have "last sigs \<noteq> 0" if "sigs \<noteq> []" using assms(2) last_in_set [OF that] by auto
  with ended(1) have "(\<exists>e rt'. iouringd_run sys ens rt = Some (Inl e, rt') \<and> x = Exit 1)
      \<or> (\<exists>rt'. iouringd_run sys ens rt = Some (Inr False, rt')
          \<and> (if sigs = [] then x = Exit 0 else x = Killed (last sigs) \<or> x = Exit (128 + last sigs)))" by auto
  moreover obtain rt1 sg where "cleanup_process (Some path) ring (rt1, sg, pr) = (ring', rt', sg', pr')"
    using ended(2) assms(3) by auto
  note cleanup_process_done [OF assms(4) this]
  ultimately show ?thesis using Inr out by auto
qed

text \<open>A start that succeeds, a turn that sees a stop request, and the signal.\<close>

lemma stopped_turn: "run_turn sys en rt = Some (Inr again, rt') \<Longrightarrow> en_stop en \<Longrightarrow> \<not> again"
  by (auto simp: run_turn_def Let_def split: sum.splits prod.splits option.splits if_splits)

definition stop_env :: env where
  "stop_env = \<lparr>en_recv = (\<lambda>_. []), en_write = (\<lambda>_. []), en_stop = True, en_poll = Inl EINTR, en_poll_stop = True,
     en_accept = [], en_event_recv = (\<lambda>_. []), en_event_write = (\<lambda>_. [])\<rparr>"

definition demo_log :: log where
  "demo_log = \<lparr>lg_trace_to_stderr = False, lg_job_id = None, lg_pid = 1, lg_socket_path = Some ''/run/iouringd''\<rparr>"

definition no_memory :: memory where
  "no_memory = \<lparr>mem_fds = [], mem_maps = []\<rparr>"

theorem daemon_exit_status_witness:
  "\<exists>x rt. daemon_main (\<lambda>e. ''error'') demo_log demo_boot \<lparr>sc_emptyset = True, sc_sigaction = (\<lambda>_. True), sc_raise_kills = True\<rparr>
      demo_sys [stop_env] [SIGTERM] no_maps \<lparr>pr_unlinked = [], pr_memory = no_memory\<rparr> demo_args = Some x
    \<and> daemon_start demo_boot demo_args = Inr rt
    \<and> ((\<exists>e rt'. iouringd_run demo_sys [stop_env] rt = Some (Inl e, rt') \<and> x = Exit 1) \<or> x = Killed SIGTERM \<or> x = Exit 143)"
proof -
  let ?sc = "\<lparr>sc_emptyset = True, sc_sigaction = (\<lambda>_. True), sc_raise_kills = True\<rparr>"
  let ?pr = "\<lparr>pr_unlinked = [], pr_memory = no_memory\<rparr>"
  obtain rt where rt: "daemon_start demo_boot demo_args = Inr rt" using demo_boots by blast
  obtain r rt' where t: "run_turn demo_sys stop_env rt = Some (r, rt')"
    using daemon.turn_keeps [OF start_ok [OF rt]] by blast
  have stop: "r \<noteq> Inr True" using stopped_turn [of demo_sys stop_env rt _ rt'] t by (auto simp: stop_env_def)
  with t have "iouringd_run demo_sys [stop_env] rt = Some (r, rt')" by (cases r) auto
  note ran = this stop
  obtain x where out: "daemon_main (\<lambda>e. ''error'') demo_log demo_boot ?sc demo_sys [stop_env] [SIGTERM] no_maps ?pr demo_args = Some x"
    using rt run_main_returns [OF ran] by (fastforce simp: daemon_main_def)
  have "holds_ring no_memory (no_maps, pr_memory ?pr)"
    by (simp add: holds_ring_def held_maps_def held_fds_def no_maps_def)
  from daemon_exit_status [OF out _ _ this] rt show ?thesis using out by (auto simp: demo_log_def)
qed

section \<open>The listening socket\<close>

lemma close_if_open_count: "count_list (os_closed os) fd \<le> count_list (os_closed (close_if_open k os)) fd"
  by (simp add: close_if_open_def os_close_def)

lemma close_client_count: "count_list (os_closed (rt_os rt)) fd \<le> count_list (os_closed (rt_os (rt_close_client i rt))) fd"
proof -
  have "count_list (os_closed (rt_os rt)) fd \<le> count_list (os_closed (close_if_open a (close_if_open k (rt_os rt)))) fd" for a k
    using close_if_open_count order.trans by blast
  then show ?thesis by (simp add: rt_close_client_def iouringd_close_client_def set_client_def)
qed

lemma close_clients_count: "count_list (os_closed (rt_os rt)) fd \<le> count_list (os_closed (rt_os (fold rt_close_client is rt))) fd"
proof (induction "is" arbitrary: rt)
  case (Cons i "is")
  show ?case using order.trans [OF close_client_count [of rt fd i] Cons.IH [of "rt_close_client i rt"]] by simp
qed simp

text \<open>The handler closes the listening socket and leaves its number in \<open>runtime.server_fd\<close>, so the
  cleanup closes it again.\<close>

lemma stop_closes_listener_twice:
  assumes "0 \<le> rt_server_fd rt"
    and "iouringd_handle_stop_signal signo (no_signals\<lparr>sg_server_fd := rt_server_fd rt\<rparr>, rt_os rt) = (sg, os)"
  shows "2 \<le> count_list (os_closed (rt_os (iouringd_cleanup_runtime (rt\<lparr>rt_os := os\<rparr>)))) (rt_server_fd rt)"
proof -
  let ?fd = "rt_server_fd rt"
  let ?rt1 = "(rt_close ?fd (rt\<lparr>rt_os := os\<rparr>))\<lparr>rt_server_fd := - 1\<rparr>"
  have "2 \<le> count_list (os_closed (rt_os ?rt1)) ?fd"
    using assms by (auto simp: iouringd_handle_stop_signal_def close_if_open_def os_close_def rt_close_def)
  also have "\<dots> \<le> count_list (os_closed (rt_os (close_all_clients ?rt1))) ?fd"
    unfolding close_all_clients_def by (rule close_clients_count)
  finally show ?thesis using assms(1) by (simp add: iouringd_cleanup_runtime_def Let_def)
qed

end
