(* ===== verification/Examples.thy ===== *)
theory Examples
  imports Handshake Startup
begin

text \<open>
  The example programs, examples/standalone_nop.c and examples/memfd_overlay_copy.c: clients of the
  library. A program is a function of its arguments and of what the calls of the system return, into
  its exit status, the descriptors it has closed, in order, and the state of the library.
\<close>

section \<open>Calls\<close>

text \<open>\<open>atoi\<close>: white space, an optional sign, digits. Where the number does not fit an int the C function is
  undefined; here it is the number.\<close>

definition atoi :: "string \<Rightarrow> int" where
  "atoi s =
     (let s1 = dropWhile is_space s;
          s2 = (if s1 \<noteq> [] \<and> (hd s1 = CHR ''-'' \<or> hd s1 = CHR ''+'') then tl s1 else s1);
          n = int (decimal (takeWhile is_digit s2))
      in if s1 \<noteq> [] \<and> hd s1 = CHR ''-'' then - n else n)"

definition path_bytes :: "string \<Rightarrow> bytes" where
  "path_bytes s = map of_char s"

definition handshake_on :: "int \<Rightarrow> library \<Rightarrow> (iouringd_handshake_result_v1, library) res" where
  "handshake_on fd = on_sock fd (iouringd_client_handshake_fd fd True)"

text \<open>A failed step is the text the program prints.\<close>

type_synonym ('a, 's) step = "(string + 'a) \<times> 's"

definition attempt :: "string \<Rightarrow> ('a, library) res \<Rightarrow> ('a, library) step" where
  "attempt message r = (case r of (Inl e, L) \<Rightarrow> (Inl message, L) | (Inr x, L) \<Rightarrow> (Inr x, L))"

definition next_step :: "('a, 's) step \<Rightarrow> ('a \<Rightarrow> 's \<Rightarrow> ('b, 's) step) \<Rightarrow> ('b, 's) step" where
  "next_step r f = (case r of (Inl message, L) \<Rightarrow> (Inl message, L) | (Inr x, L) \<Rightarrow> f x L)"

section \<open>standalone_nop.c\<close>

definition nop_session :: "int \<Rightarrow> library \<Rightarrow> (iouringd_completion_record_v1, library) step" where
  "nop_session fd L =
     next_step (attempt ''handshake'' (handshake_on fd L)) (\<lambda>_ L1.
     next_step (attempt ''submit_nop'' (iouringd_submit_nop fd True L1)) (\<lambda>_ L2.
     attempt ''wait_completion'' (iouringd_wait_completion fd True L2)))"

definition standalone_nop :: "connect_calls \<Rightarrow> string list \<Rightarrow> library \<Rightarrow> int \<times> int list \<times> library" where
  "standalone_nop k args L =
     (if length args \<noteq> 1 then (2, [], L)
      else case iouringd_client_connect k (Some (path_bytes (args ! 0))) of
        (Inl e, closed) \<Rightarrow> (1, closed, L)
      | (Inr fd, closed) \<Rightarrow>
          (case nop_session fd L of
             (Inl message, L1) \<Rightarrow> (1, closed @ [fd], L1)
           | (Inr completion, L1) \<Rightarrow> (0, closed @ [fd], L1)))"

section \<open>memfd_overlay_copy.c\<close>

abbreviation (input) copy_buffer_size :: nat where "copy_buffer_size \<equiv> 4096"

definition read_payload ::
  "int \<Rightarrow> iouringd_completion_record_v1 \<Rightarrow> nat \<Rightarrow> library \<Rightarrow> (bytes, library) step" where
  "read_payload fd completion buf_size L =
     attempt ''read_completion_payload''
       (iouringd_read_completion_payload fd (Some completion) True buf_size True L)"

definition await_task ::
  "string \<Rightarrow> int \<Rightarrow> task_id \<Rightarrow> u16 \<Rightarrow> library \<Rightarrow> (iouringd_completion_record_v1, library) step" where
  "await_task message fd task kind L =
     next_step (attempt message (iouringd_wait_completion fd True L)) (\<lambda>cp L1.
       if cp_task cp \<noteq> task \<or> cp_task_kind cp \<noteq> kind \<or> sint (cp_res cp) < 0
       then (Inl ''unexpected completion'', L1) else (Inr cp, L1))"

text \<open>The part between connecting and closing: every failure in it closes both descriptors.\<close>

definition copy_target :: "int \<Rightarrow> resource_id \<Rightarrow> bytes \<Rightarrow> library \<Rightarrow> (unit, library) step" where
  "copy_target fd target data L =
     next_step (attempt ''submit_file_write'' (iouringd_submit_file_write fd target (Some data) True L)) (\<lambda>write_task L1.
     next_step (await_task ''wait target completion'' fd write_task IOURINGD_TASK_KIND_FILE_WRITE L1) (\<lambda>cp L2.
     (Inr (), L2)))"

definition copy_session :: "int \<Rightarrow> int \<Rightarrow> int \<Rightarrow> library \<Rightarrow> (unit, library) step" where
  "copy_session fd source_fd target_fd L =
     next_step (attempt ''handshake'' (handshake_on fd L)) (\<lambda>hs L1.
     if unat (cap_io_bytes_max (hr_capabilities hs)) < copy_buffer_size then (Inl ''io_bytes_max'', L1) else
     next_step (attempt ''register source memfd'' (iouringd_register_fd fd source_fd True L1)) (\<lambda>source L2.
     next_step (attempt ''register target file'' (iouringd_register_fd fd target_fd True L2)) (\<lambda>target L3.
     next_step (attempt ''submit_file_read''
       (iouringd_submit_file_read fd source (of_nat copy_buffer_size) True L3)) (\<lambda>read_task L4.
     next_step (await_task ''wait source completion'' fd read_task IOURINGD_TASK_KIND_FILE_READ L4) (\<lambda>cp L5.
     next_step (read_payload fd cp copy_buffer_size L5) (\<lambda>data L6.
     copy_target fd target data L6))))))"

text \<open>The arguments are the socket path, the number of the source descriptor and the target path;
  \<open>opened\<close> is what \<open>open\<close> returns for the target.\<close>

definition memfd_overlay_copy ::
  "connect_calls \<Rightarrow> errno + int \<Rightarrow> string list \<Rightarrow> library \<Rightarrow> int \<times> int list \<times> library" where
  "memfd_overlay_copy k opened args L =
     (if length args \<noteq> 3 then (2, [], L)
      else let source_fd = atoi (args ! 1) in
        if source_fd < 0 then (2, [], L)
        else case opened of
          Inl e \<Rightarrow> (1, [], L)
        | Inr target_fd \<Rightarrow>
            (case iouringd_client_connect k (Some (path_bytes (args ! 0))) of
               (Inl e, closed) \<Rightarrow> (1, closed @ [target_fd], L)
             | (Inr fd, closed) \<Rightarrow>
                 (case copy_session fd source_fd target_fd L of
                    (Inl message, L1) \<Rightarrow> (1, closed @ [fd, target_fd], L1)
                  | (Inr _, L1) \<Rightarrow> (0, closed @ [fd, target_fd], L1))))"

text \<open>Whatever happens, the programs close what they opened, once each.\<close>

lemma connect_closes:
  "iouringd_client_connect k (Some path) = (r, closed) \<Longrightarrow>
     closed @ (case r of Inl e \<Rightarrow> [] | Inr fd \<Rightarrow> [fd]) = (case cc_socket k of Inl e \<Rightarrow> [] | Inr fd \<Rightarrow> [fd])"
  by (auto simp: iouringd_client_connect_def split: sum.splits if_splits)

lemma standalone_nop_closes:
  "fst (snd (standalone_nop k [path] L)) = (case cc_socket k of Inl e \<Rightarrow> [] | Inr fd \<Rightarrow> [fd])"
  using connect_closes [of k "path_bytes path"]
  by (auto simp: standalone_nop_def split: prod.splits sum.splits)

lemma overlay_copy_closes:
  "0 \<le> atoi number \<Longrightarrow> fst (snd (memfd_overlay_copy k (Inr target_fd) [path, number, name] L))
     = (case cc_socket k of Inl e \<Rightarrow> [] | Inr fd \<Rightarrow> [fd]) @ [target_fd]"
  using connect_closes [of k "path_bytes path"]
  by (auto simp: memfd_overlay_copy_def Let_def split: prod.splits sum.splits)

section \<open>What a session reads and writes\<close>

text \<open>The connection \<open>fd\<close>: the bytes the daemon will send, the bytes written so far, nothing kept back.\<close>

definition link :: "int \<Rightarrow> bytes \<Rightarrow> bytes \<Rightarrow> library \<Rightarrow> bool" where
  "link fd out bs L \<longleftrightarrow> receives fd L bs \<and> so_send (lb_sock L fd) = [] \<and> so_out (lb_sock L fd) = out
     \<and> filter (\<lambda>b. bc_fd b = fd) (lb_completions L) = [] \<and> filter (\<lambda>b. bp_fd b = fd) (lb_payloads L) = []"

lemma link_write:
  assumes "link fd out bs L"
  obtains L' where "on_sock fd (write_full buf) L = (Inr (), L')" and "link fd (out @ buf) bs L'"
proof -
  let ?s = "(lb_sock L fd)\<lparr>so_send := [], so_out := out @ buf\<rparr>"
  have "write_full buf (lb_sock L fd) = (Inr (), ?s)"
    using assms by (cases buf) (simp_all add: write_full_def link_def)
  with assms that [of "L\<lparr>lb_sock := (lb_sock L)(fd := ?s)\<rparr>"] show thesis
    by (simp add: on_sock_def link_def receives_def in_stream_def)
qed

lemma link_send_fd:
  assumes "link fd out bs L"
  obtains L' where "on_sock fd (send_fd_with_request k buf) L = (Inr (), L')" and "link fd (out @ buf) bs L'"
  using assms that
  by (fastforce simp: send_fd_with_request_def link_def on_sock_def receives_def in_stream_def)

lemma link_read:
  assumes "link fd out (x @ bs) L"
  obtains L' where "on_sock fd (read_full (length x)) L = (Inr x, L')" and "link fd out bs L'"
proof -
  obtain L' where "on_sock fd (read_full (length x)) L = (Inr x, L')" "receives fd L' bs" "same_sockets fd L L'"
    "lb_completions L' = lb_completions L" "lb_payloads L' = lb_payloads L"
    using read_received assms unfolding link_def by metis
  with assms that show thesis by (simp add: link_def same_sockets_def only_in_def)
qed


lemma link_drain:
  assumes "link fd out bs L" and "not_completion bs"
  shows "\<exists>L'. drain_completion_prefix fd L = (Inr (), L') \<and> link fd out bs L'"
proof -
  obtain L' where "drain_completion_prefix fd L = (Inr (), L')" "receives fd L' bs" "same_sockets fd L L'"
    "lb_completions L' = lb_completions L" "lb_payloads L' = lb_payloads L"
    using drain_received [of fd L "[]" bs] assms by (auto simp: link_def)
  with assms show ?thesis by (auto simp: link_def same_sockets_def only_in_def)
qed

lemma not_completion_append: "not_completion bs \<Longrightarrow> not_completion (bs @ rest)"
  by (simp add: not_completion_def dec_protocol_header_def slice_at_def)

lemma resource_result_header: "rres_res r = 0 \<Longrightarrow> not_completion (enc_resource_result r)"
  by (simp add: not_completion_def header_is_v1_def dec_protocol_header_def enc_resource_result_def slice_at_def
      eval_nat_numeral)

lemma link_submit_result:
  assumes "link fd out (enc_submit_result r @ bs) L" and "submit_result_is_valid r"
    and "\<not> submit_result_is_rejection r" and "sres_task r \<noteq> 0x000c000131444f49"
  shows "\<exists>L'. read_submit_result fd L = (Inr r, L') \<and> link fd out bs L'"
proof -
  obtain L1 where L1: "drain_completion_prefix fd L = (Inr (), L1)" "link fd out (enc_submit_result r @ bs) L1"
    using link_drain [OF assms(1)] not_completion_append submit_result_header assms(4) by blast
  obtain L2 where "on_sock fd (read_full 16) L1 = (Inr (enc_submit_result r), L2)" "link fd out bs L2"
    using link_read [OF L1(2)] by auto
  with L1 assms(2,3) show ?thesis by (simp add: read_submit_result_def Let_def)
qed

lemma link_resource_result:
  assumes "link fd out (enc_resource_result r @ bs) L" and "resource_result_is_valid r"
    and "\<not> resource_result_is_rejection r"
  shows "\<exists>L'. read_resource_result fd L = (Inr r, L') \<and> link fd out bs L'"
proof -
  have "rres_res r = 0" using assms(2,3) by (simp add: resource_result_is_valid_def)
  then obtain L1 where L1: "drain_completion_prefix fd L = (Inr (), L1)" "link fd out (enc_resource_result r @ bs) L1"
    using link_drain [OF assms(1)] not_completion_append resource_result_header by blast
  obtain L2 where "on_sock fd (read_full 16) L1 = (Inr (enc_resource_result r), L2)" "link fd out bs L2"
    using link_read [OF L1(2)] by auto
  with L1 assms(2,3) show ?thesis by (simp add: read_resource_result_def Let_def)
qed

lemma link_handshake:
  assumes "link fd out (enc_handshake_result h @ bs) L" and "0 \<le> fd" and "handshake_result_is_valid h"
  shows "\<exists>L'. handshake_on fd L = (Inr h, L') \<and> link fd (out @ enc_handshake_request handshake_request) bs L'"
proof -
  obtain L1 where L1: "on_sock fd (write_full (enc_handshake_request handshake_request)) L = (Inr (), L1)"
    "link fd (out @ enc_handshake_request handshake_request) (enc_handshake_result h @ bs) L1"
    using link_write [OF assms(1)] by blast
  obtain L2 where L2: "on_sock fd (read_full 52) L1 = (Inr (enc_handshake_result h), L2)"
    "link fd (out @ enc_handshake_request handshake_request) bs L2"
    using link_read [OF L1(2)] by auto
  have "handshake_on fd L = (Inr h, L2)"
    using L1(1) L2(1) assms(2,3)
    by (auto simp: handshake_on_def on_sock_def iouringd_client_handshake_fd_def client_write_full_def
        client_read_full_def Let_def split: prod.splits)
  with L2 show ?thesis by blast
qed

section \<open>Requests on a connection with nothing pending\<close>

definition granted :: "iouringd_submit_result_v1 \<Rightarrow> bool" where
  "granted r \<longleftrightarrow> submit_result_is_valid r \<and> \<not> submit_result_is_rejection r \<and> sres_task r \<noteq> 0x000c000131444f49"

definition registered :: "iouringd_resource_result_v1 \<Rightarrow> bool" where
  "registered r \<longleftrightarrow> resource_result_is_valid r \<and> \<not> resource_result_is_rejection r"

lemma registered_id: "registered r \<Longrightarrow> rres_resource r \<noteq> 0"
  by (auto simp: registered_def resource_result_is_valid_def resource_id_is_invalid_def)

lemma link_request:
  assumes "link fd out (enc_submit_result r @ bs) L" and "granted r"
  shows "\<exists>L'. request_then fd m read_submit_result L = (Inr r, L') \<and> link fd (out @ message_bytes m) bs L'"
proof -
  obtain L1 where "on_sock fd (write_full (message_bytes m)) L = (Inr (), L1)"
    "link fd (out @ message_bytes m) (enc_submit_result r @ bs) L1"
    using link_write [OF assms(1)] by blast
  with link_submit_result [of fd "out @ message_bytes m" r bs L1] assms(2) show ?thesis
    by (auto simp: request_then_def granted_def)
qed

lemma link_file_read:
  assumes "link fd out (enc_submit_result r @ bs) L" and "granted r" and "0 \<le> fd" "res \<noteq> 0" "len \<noteq> 0"
  shows "\<exists>L'. iouringd_submit_file_read fd res len True L = (Inr (sres_task r), L')
    \<and> link fd (out @ message_bytes (Msg_io IOURINGD_TASK_KIND_FILE_READ 0 res len)) bs L'"
proof -
  let ?m = "Msg_io IOURINGD_TASK_KIND_FILE_READ 0 res len"
  have "iouringd_submit_file_read fd res len True L = task_only (request_then fd ?m read_submit_result L)"
    using assms(3-5) by (simp add: iouringd_submit_file_read_def iouringd_submit_file_read_result_def request_eval)
  with link_request [OF assms(1,2), of ?m] show ?thesis by (auto simp: task_only_def)
qed

lemma link_file_write:
  assumes "link fd out (enc_submit_result r @ bs) L" and "granted r" and "0 \<le> fd" "res \<noteq> 0" "data \<noteq> []"
  shows "\<exists>L'. iouringd_submit_file_write fd res (Some data) True L = (Inr (sres_task r), L')
    \<and> link fd (out @ message_bytes (Msg_write IOURINGD_TASK_KIND_FILE_WRITE 0 res data)) bs L'"
proof -
  let ?m = "Msg_write IOURINGD_TASK_KIND_FILE_WRITE 0 res data"
  have "iouringd_submit_file_write fd res (Some data) True L
      = task_only (request_then fd ?m read_submit_result L)"
    using assms(3-5) by (simp add: iouringd_submit_file_write_def iouringd_submit_file_write_result_def request_eval)
  with link_request [OF assms(1,2), of ?m] show ?thesis by (auto simp: task_only_def)
qed

definition register_message :: bytes where
  "register_message = enc_control_request (init_control_header IOURINGD_REQUEST_KIND_REGISTER_FD)"

lemma link_register:
  assumes "link fd out (enc_resource_result r @ bs) L" and "registered r" and "0 \<le> fd" "0 \<le> k"
  shows "\<exists>L'. iouringd_register_fd fd k True L = (Inr (rres_resource r), L')
    \<and> link fd (out @ register_message) bs L'"
proof -
  obtain L1 where "on_sock fd (send_fd_with_request k register_message) L = (Inr (), L1)"
    "link fd (out @ register_message) (enc_resource_result r @ bs) L1"
    using link_send_fd [OF assms(1)] by blast
  with link_resource_result [of fd "out @ register_message" r bs L1] assms(2-4) show ?thesis
    by (auto simp: iouringd_register_fd_def iouringd_register_fd_result_def resource_only_def
        registered_def register_message_def)
qed

text \<open>The completion that is awaited, and its payload.\<close>

definition awaited :: "task_id \<Rightarrow> u16 \<Rightarrow> iouringd_completion_record_v1 \<times> bytes \<Rightarrow> bool" where
  "awaited task kind cp \<longleftrightarrow> completion_ok cp \<and> cp_task (fst cp) = task \<and> cp_task_kind (fst cp) = kind
     \<and> 0 \<le> sint (cp_res (fst cp))"

lemma link_await:
  assumes "link fd out (completion_wire cp @ bs) L" and "awaited task kind cp" and "0 \<le> fd"
  obtains L' where "await_task message fd task kind L = (Inr (fst cp), L')"
    and "receives fd L' bs" "same_sockets fd L L'" "lb_completions L' = lb_completions L"
    and "lb_payloads L' = lb_payloads L @ payload_entry fd cp"
proof -
  obtain L' where "iouringd_wait_completion fd True L = (Inr (fst cp), L')" "receives fd L' bs"
    "same_sockets fd L L'" "lb_completions L' = lb_completions L"
    "lb_payloads L' = lb_payloads L @ payload_entry fd cp"
    using wait_streamed [OF assms(3)] assms(1,2) unfolding link_def awaited_def by blast
  with that assms(2) show thesis
    by (simp add: await_task_def attempt_def next_step_def awaited_def)
qed

lemma link_await_plain:
  assumes "link fd out (completion_wire cp @ bs) L" and "awaited task kind cp" and "0 \<le> fd" and "snd cp = []"
  shows "\<exists>L'. await_task message fd task kind L = (Inr (fst cp), L') \<and> link fd out bs L'"
proof -
  obtain L' where "await_task message fd task kind L = (Inr (fst cp), L')" "receives fd L' bs"
    "same_sockets fd L L'" "lb_completions L' = lb_completions L"
    "lb_payloads L' = lb_payloads L @ payload_entry fd cp"
    using link_await [OF assms(1-3)] by blast
  with assms(1,4) show ?thesis by (auto simp: link_def payload_entry_def same_sockets_def only_in_def)
qed

lemma link_await_payload:
  assumes "link fd out (completion_wire cp @ bs) L" and "awaited task IOURINGD_TASK_KIND_FILE_READ cp"
    and "0 \<le> fd" and "length (snd cp) \<le> room"
  shows "\<exists>L1 L2. await_task message fd task IOURINGD_TASK_KIND_FILE_READ L = (Inr (fst cp), L1)
    \<and> read_payload fd (fst cp) room L1 = (Inr (snd cp), L2) \<and> link fd out bs L2"
proof -
  obtain L1 where a: "await_task message fd task IOURINGD_TASK_KIND_FILE_READ L = (Inr (fst cp), L1)"
    and L1: "receives fd L1 bs" "same_sockets fd L L1" "lb_completions L1 = lb_completions L"
      "lb_payloads L1 = lb_payloads L @ payload_entry fd cp"
    using link_await [OF assms(1-3)] by blast
  have len: "length (snd cp) = unat (cp_payload_length (fst cp))" and kind: "cp_task_kind (fst cp) = 8"
    using assms(2) by (simp_all add: awaited_def completion_ok_def)
  have none: "\<forall>b \<in> set (lb_payloads L). bp_fd b \<noteq> fd" using assms(1) by (simp add: link_def filter_empty_conv)
  have "read_payload fd (fst cp) room L1 = (Inr (snd cp), L1\<lparr>lb_payloads := lb_payloads L\<rparr>)"
  proof (cases "snd cp = []")
    case True
    then have "cp_payload_length (fst cp) = 0" using len by (simp add: unat_eq_zero)
    with True L1(4) kind assms(3) show ?thesis
      by (simp add: read_payload_def attempt_def iouringd_read_completion_payload_def payload_entry_def)
  next
    case False
    have "unlink_first (\<lambda>b. bp_fd b = fd \<and> bp_task_id b = cp_task (fst cp)) (lb_payloads L1)
        = Some (\<lparr>bp_fd = fd, bp_task_id = cp_task (fst cp), bp_payload = snd cp\<rparr>, lb_payloads L)"
      using unlink_first_last [of "lb_payloads L" "\<lambda>b. bp_fd b = fd \<and> bp_task_id b = cp_task (fst cp)"] none False
      by (simp add: L1(4) payload_entry_def)
    moreover have "cp_payload_length (fst cp) \<noteq> 0" using False len by auto
    ultimately show ?thesis using kind assms(3,4) len
      by (simp add: read_payload_def attempt_def iouringd_read_completion_payload_def)
  qed
  moreover have "link fd out bs (L1\<lparr>lb_payloads := lb_payloads L\<rparr>)"
    using assms(1) L1 by (simp add: link_def receives_def same_sockets_def only_in_def)
  ultimately show ?thesis using a by blast
qed

section \<open>The copy\<close>

text \<open>What the daemon sends for the first part of the copy and for the second, and what the program writes.\<close>

definition read_replies ::
  "iouringd_handshake_result_v1 \<Rightarrow> iouringd_resource_result_v1 \<Rightarrow> iouringd_resource_result_v1
   \<Rightarrow> iouringd_submit_result_v1 \<Rightarrow> iouringd_completion_record_v1 \<times> bytes \<Rightarrow> bytes" where
  "read_replies h source target r cp =
     enc_handshake_result h @ enc_resource_result source @ enc_resource_result target @ enc_submit_result r
     @ completion_wire cp"

definition write_replies ::
  "iouringd_submit_result_v1 \<Rightarrow> iouringd_completion_record_v1 \<times> bytes \<Rightarrow> bytes" where
  "write_replies r cp = enc_submit_result r @ completion_wire cp"

definition read_requests :: "resource_id \<Rightarrow> bytes" where
  "read_requests source = enc_handshake_request handshake_request @ register_message @ register_message
     @ message_bytes (Msg_io IOURINGD_TASK_KIND_FILE_READ 0 source (of_nat copy_buffer_size))"

lemma copy_session_reads:
  assumes "link fd out (read_replies h source target r cp @ bs) L" and "0 \<le> fd" "0 \<le> source_fd" "0 \<le> target_fd"
    and h: "handshake_result_is_valid h" "copy_buffer_size \<le> unat (cap_io_bytes_max (hr_capabilities h))"
    and "registered source" "registered target" "granted r"
    and cp: "awaited (sres_task r) IOURINGD_TASK_KIND_FILE_READ cp" "length (snd cp) \<le> copy_buffer_size"
  shows "\<exists>L'. copy_session fd source_fd target_fd L = copy_target fd (rres_resource target) (snd cp) L'
    \<and> link fd (out @ read_requests (rres_resource source)) bs L'"
proof -
  note step = attempt_def next_step_def
  have l0: "link fd out (enc_handshake_result h @ enc_resource_result source @ enc_resource_result target
      @ enc_submit_result r @ completion_wire cp @ bs) L"
    using assms(1) by (simp add: read_replies_def)
  from link_handshake [OF l0 assms(2) h(1)] obtain L1 where s1: "handshake_on fd L = (Inr h, L1)"
    and l1: "link fd (out @ enc_handshake_request handshake_request) (enc_resource_result source
      @ enc_resource_result target @ enc_submit_result r @ completion_wire cp @ bs) L1" by blast
  from link_register [OF l1 assms(7) assms(2,3)] obtain L2 where
    s2: "iouringd_register_fd fd source_fd True L1 = (Inr (rres_resource source), L2)"
    and l2: "link fd ((out @ enc_handshake_request handshake_request) @ register_message)
      (enc_resource_result target @ enc_submit_result r @ completion_wire cp @ bs) L2" by blast
  from link_register [OF l2 assms(8) assms(2,4)] obtain L3 where
    s3: "iouringd_register_fd fd target_fd True L2 = (Inr (rres_resource target), L3)"
    and l3: "link fd (((out @ enc_handshake_request handshake_request) @ register_message) @ register_message)
      (enc_submit_result r @ completion_wire cp @ bs) L3" by blast
  from link_file_read [OF l3 assms(9) assms(2) registered_id [OF assms(7)], of 4096] obtain L4 where
    s4: "iouringd_submit_file_read fd (rres_resource source) 4096 True L3 = (Inr (sres_task r), L4)"
    and l4: "link fd (out @ read_requests (rres_resource source)) (completion_wire cp @ bs) L4"
    by (auto simp: read_requests_def)
  from link_await_payload [OF l4 cp(1) assms(2) cp(2)] obtain L5 L6 where
    s5: "await_task ''wait source completion'' fd (sres_task r) IOURINGD_TASK_KIND_FILE_READ L4 = (Inr (fst cp), L5)"
      "read_payload fd (fst cp) 4096 L5 = (Inr (snd cp), L6)"
    and l5: "link fd (out @ read_requests (rres_resource source)) bs L6" by blast
  have "copy_session fd source_fd target_fd L = copy_target fd (rres_resource target) (snd cp) L6"
    using s1 s2 s3 s4 s5 h(2) by (simp add: copy_session_def step)
  with l5 show ?thesis by blast
qed

lemma copy_target_writes:
  assumes "link fd out (write_replies r cp @ bs) L" and "0 \<le> fd" and "target \<noteq> 0" and "granted r"
    and "data \<noteq> []" and "awaited (sres_task r) IOURINGD_TASK_KIND_FILE_WRITE cp"
  shows "\<exists>L'. copy_target fd target data L = (Inr (), L')
    \<and> link fd (out @ message_bytes (Msg_write IOURINGD_TASK_KIND_FILE_WRITE 0 target data)) bs L'"
proof -
  have plain: "snd cp = []"
    using assms(6) by (auto simp: awaited_def completion_ok_def completion_record_is_valid_def split: if_splits)
  have "link fd out (enc_submit_result r @ completion_wire cp @ bs) L"
    using assms(1) by (simp add: write_replies_def)
  from link_file_write [OF this assms(4,2,3,5)] obtain L1 where
    s1: "iouringd_submit_file_write fd target (Some data) True L = (Inr (sres_task r), L1)"
    and l1: "link fd (out @ message_bytes (Msg_write IOURINGD_TASK_KIND_FILE_WRITE 0 target data))
      (completion_wire cp @ bs) L1" by blast
  from link_await_plain [OF l1 assms(6,2) plain, of "''wait target completion''"] s1 show ?thesis
    by (auto simp: copy_target_def attempt_def next_step_def)
qed

lemma copy_target_empty: "copy_target fd target [] L = (Inl ''submit_file_write'', L)"
  by (simp add: copy_target_def attempt_def next_step_def iouringd_submit_file_write_def
      iouringd_submit_file_write_result_def task_only_def)

text \<open>
  C39: What the copying example does. Connected to a daemon that accepts it, registers its two
  descriptors, grants the read and answers it with the data (at most the 4096 bytes that were asked
  for), then grants the write and completes it, the program exits with 0, has written to the
  connection the handshake, the two registrations, the read and exactly one write with exactly the
  data it was sent, and has closed the connection and the target. When the source is empty the program
  exits with 1 and sends no write: the library refuses to write no bytes.
\<close>

theorem overlay_copy_writes_what_it_read:
  assumes "iouringd_client_connect k (Some (path_bytes path)) = (Inr fd, closed)"
    and "0 \<le> fd" and "0 \<le> atoi number" and "0 \<le> target_fd"
    and "link fd out (read_replies h source target r cp @ write_replies r' cp' @ bs) L"
    and "handshake_result_is_valid h" and "copy_buffer_size \<le> unat (cap_io_bytes_max (hr_capabilities h))"
    and "registered source" and "registered target" and "granted r" and "granted r'"
    and "awaited (sres_task r) IOURINGD_TASK_KIND_FILE_READ cp" and "length (snd cp) \<le> copy_buffer_size"
    and "awaited (sres_task r') IOURINGD_TASK_KIND_FILE_WRITE cp'"
  shows "\<exists>L'. memfd_overlay_copy k (Inr target_fd) [path, number, name] L
        = (if snd cp = [] then 1 else 0, closed @ [fd, target_fd], L')
    \<and> so_out (lb_sock L' fd) = out @ read_requests (rres_resource source)
        @ (if snd cp = [] then []
           else message_bytes (Msg_write IOURINGD_TASK_KIND_FILE_WRITE 0 (rres_resource target) (snd cp)))"
proof -
  obtain L1 where session: "copy_session fd (atoi number) target_fd L
      = copy_target fd (rres_resource target) (snd cp) L1"
    and l1: "link fd (out @ read_requests (rres_resource source)) (write_replies r' cp' @ bs) L1"
    using copy_session_reads [OF assms(5,2-4,6-10,12,13)] by blast
  have program: "memfd_overlay_copy k (Inr target_fd) [path, number, name] L
      = (case copy_target fd (rres_resource target) (snd cp) L1 of
           (Inl message, L') \<Rightarrow> (1, closed @ [fd, target_fd], L')
         | (Inr _, L') \<Rightarrow> (0, closed @ [fd, target_fd], L'))"
    using assms(1,3) session by (simp add: memfd_overlay_copy_def Let_def)
  show ?thesis
  proof (cases "snd cp = []")
    case True
    with program l1 show ?thesis by (simp add: copy_target_empty link_def)
  next
    case False
    from copy_target_writes [OF l1 assms(2) registered_id [OF assms(9)] assms(11) this assms(14)]
    obtain L' where "copy_target fd (rres_resource target) (snd cp) L1 = (Inr (), L')"
      "so_out (lb_sock L' fd) = (out @ read_requests (rres_resource source))
        @ message_bytes (Msg_write IOURINGD_TASK_KIND_FILE_WRITE 0 (rres_resource target) (snd cp))"
      by (auto simp: link_def)
    with program False show ?thesis by simp
  qed
qed

text \<open>A daemon that sends the two bytes \<open>hi\<close>.\<close>

definition demo_handshake :: iouringd_handshake_result_v1 where
  "demo_handshake = served_result demo_capabilities handshake_request"

definition demo_resource :: "resource_id \<Rightarrow> iouringd_resource_result_v1" where
  "demo_resource i = \<lparr>rres_resource = i, rres_res = 0, rres_resources_available = 30, rres_reserved = 0\<rparr>"

definition demo_grant :: "task_id \<Rightarrow> iouringd_submit_result_v1" where
  "demo_grant i = \<lparr>sres_task = i, sres_res = 0, sres_credits = 6\<rparr>"

definition demo_done :: "task_id \<Rightarrow> u16 \<Rightarrow> u32 \<Rightarrow> bytes \<Rightarrow> iouringd_completion_record_v1 \<times> bytes" where
  "demo_done i kind n data = (\<lparr>cp_header = v1_header, cp_task = i, cp_res = 2, cp_task_kind = kind,
     cp_payload_length = ucast n\<rparr>, data)"

lemma demo_link: "link fd [] bs (demo_library bs)"
  using demo_receives [of fd bs] by (simp add: link_def) (simp add: demo_library_def)

theorem overlay_copy_writes_what_it_read_witness:
  "\<exists>L'. memfd_overlay_copy \<lparr>cc_socket = Inr 5, cc_getfd = Inr 0, cc_setfd = Inr (), cc_connect = Inr ()\<rparr> (Inr 6)
      [''/run/iouringd'', ''4'', ''/tmp/target''] (demo_library
        (read_replies demo_handshake (demo_resource 1) (demo_resource 2) (demo_grant 7) (demo_done 7 8 2 [104, 105])
         @ write_replies (demo_grant 8) (demo_done 8 9 0 [])))
      = (0, [5, 6], L')
    \<and> so_out (lb_sock L' 5) = read_requests 1
        @ message_bytes (Msg_write IOURINGD_TASK_KIND_FILE_WRITE 0 2 [104, 105])"
proof -
  let ?k = "\<lparr>cc_socket = Inr 5, cc_getfd = Inr 0, cc_setfd = Inr (), cc_connect = Inr ()\<rparr> :: connect_calls"
  let ?bs = "read_replies demo_handshake (demo_resource 1) (demo_resource 2) (demo_grant 7)
    (demo_done 7 8 2 [104, 105]) @ write_replies (demo_grant 8) (demo_done 8 9 0 [])"
  have connect: "iouringd_client_connect ?k (Some (path_bytes ''/run/iouringd'')) = (Inr 5, [])"
    by (simp add: iouringd_client_connect_def set_cloexec_def path_bytes_def)
  have "0 \<le> atoi ''4''" by code_simp
  moreover have "link 5 [] ?bs (demo_library ?bs)" by (rule demo_link)
  moreover have "handshake_result_is_valid demo_handshake"
    by (simp add: handshake_result_is_valid_def demo_handshake_def served_result_def handshake_request_def
        demo_capabilities_def Let_def word_less_nat_alt)
  moreover have "4096 \<le> unat (cap_io_bytes_max (hr_capabilities demo_handshake))"
    by (simp add: demo_handshake_def served_result_def handshake_request_def demo_capabilities_def Let_def)
  moreover have "registered (demo_resource 1)" "registered (demo_resource 2)" "granted (demo_grant 7)"
    "granted (demo_grant 8)"
    by (simp_all add: registered_def demo_resource_def resource_result_is_valid_def
        resource_result_is_rejection_def resource_id_is_invalid_def granted_def demo_grant_def
        submit_result_is_valid_def submit_result_is_rejection_def task_id_is_invalid_def word_le_nat_alt)
  moreover have "awaited (sres_task (demo_grant 7)) 8 (demo_done 7 8 2 [104, 105])"
    "awaited (sres_task (demo_grant 8)) 9 (demo_done 8 9 0 [])"
    by (simp_all add: awaited_def demo_grant_def demo_done_def completion_ok_def completion_record_is_valid_def
        header_is_v1_def v1_header_def task_id_is_invalid_def word_le_nat_alt word_less_nat_alt)
  ultimately show ?thesis
    using overlay_copy_writes_what_it_read [OF connect, of "''4''" 6 "[]" demo_handshake "demo_resource 1"
      "demo_resource 2" "demo_grant 7" "demo_done 7 8 2 [104, 105]" "demo_grant 8" "demo_done 8 9 0 []" "[]"
      "demo_library ?bs" "''/tmp/target''"]
    by (simp add: demo_resource_def demo_done_def)
qed

end
