(* ===== verification/Spec2Isabelle.thy ===== *)
theory Spec2Isabelle
  imports Delivery Liveness Pinning Program Examples
begin

text \<open>
  A verification library for iouringd, a daemon that owns an io_uring instance and submits operations
  to it on behalf of the clients of a unix-domain socket, and for the C library those clients use.

  \<^bold>\<open>The program.\<close> The daemon is one process with one thread. Its event loop (src/daemon/main.c,
  \<open>iouringd_run\<close>) reads requests from the client sockets, parses them incrementally, dispatches the
  complete ones by priority, submits entries to the ring (src/daemon/submit.c), reaps completions,
  queues completion records to the clients that asked, sweeps the resources of clients that have
  gone, and flushes the output buffers. A client registers descriptors and buffers with the daemon
  and names them by resource identifiers; the daemon keeps one table of each per client and one
  table of tasks in flight. The client library (src/lib/client.c, src/lib/submit.c) connects,
  performs the handshake, writes requests and reads replies from a stream in which completions may
  come before the reply. src/daemon/handshake.c is a second, blocking implementation of the server
  side of the handshake.

  \<^bold>\<open>How the model corresponds to the code.\<close> C structures are records with the field names of the code
  behind a prefix, enumerations are datatypes or words, fixed-width integers are words, \<open>size_t\<close> is
  \<open>nat\<close> with the wrap-around written out where the code subtracts without a guard. A function that
  returns -1 with errno is a function into \<open>('a, 's) res\<close>, the errno or the result beside the new
  state. Names of C functions are kept; a definition without a C name is a block of the function whose
  lines it maps to. The kernel is a parameter: \<open>kernel\<close> answers the calls on the ring, \<open>sys\<close> adds the
  clock, addresses and the data of completed reads, \<open>env\<close> holds what the sockets do in one turn of the
  loop, \<open>boot\<close> the calls of the start, and the socket scripts of \<open>Client_Socket\<close> what the peer and the
  kernel do with one connection. The theorems quantify over all of them.

  \<^item> \<open>Prelude\<close>: machine types, errno values, results, lemmas on lists, words and sizes.
  \<^item> \<open>Wire\<close>: include/iouringd/api.h and protocol.h, the constants, structures and byte layouts; the
    locales \<open>codec\<close> and \<open>packed_codec\<close>, interpreted for all 22 structures.
  \<^item> \<open>Ring\<close>: src/daemon/submit.c, submission and completion queue, registration, probe. The queue
    refines a bounded FIFO; an entry that \<open>io_uring_enter\<close> refuses stays queued. \<open>Ring_Memory\<close>: the
    mappings of the ring, the pointers into them and the cleanup; a failed setup gives everything back,
    and after a successful one every pointer is within its mapping. The capability mask is described
    against the probe alone (\<open>probe_reports\<close>).
  \<^item> \<open>Daemon_State\<close>, \<open>Output\<close>, \<open>Trace\<close>, \<open>Resources\<close>: the state of main.c, the output buffers (locale
    \<open>byte_sink\<close>), the trace buffer, the resource tables (locale \<open>slot_table\<close>).
  \<^item> \<open>Parser\<close>, \<open>Framing\<close>: the incremental parser, its invariant, that a request is ready only with all of
    its payload (\<open>request_whole\<close>), and that it decodes each message of the protocol from any
    segmentation of its bytes.
  \<^item> \<open>Dispatch\<close>, \<open>Completion\<close>, \<open>Event_Loop\<close>, \<open>Startup\<close>: the handlers of requests, the completion of tasks,
    the turn of the event loop and the shutdown, the command line and the start.
  \<^item> \<open>Core\<close>, \<open>Accounting\<close>, \<open>Submission\<close>, \<open>Dispatching\<close>, \<open>Completing\<close>: the accounting invariant (counters,
    credits, in-flight counts, distinct identifiers) and that each handler keeps it; what each request
    does to the task table, and that each submission is answered once, with the identifier of the task
    that was added or with the error it was refused with (\<open>submit_refusal\<close>, \<open>late_refusals\<close>).
  \<^item> \<open>Frames\<close>, \<open>Running\<close>, \<open>Turns\<close>, \<open>Reachable\<close>: what handlers leave alone, the invariant of the running
    daemon, and the states that a start and the turns of the loop lead to (\<open>reachable\<close>), in which it
    holds. The locale \<open>step_invariant\<close> of \<open>Turns\<close> takes a predicate that each kind of step of a turn
    preserves and gives that every turn, and so every reachable state, has it.
  \<^item> \<open>Scenario\<close>: a run from the start in which a client connects, shakes hands and has an openat in
    flight, so that the properties of reachable states are applied to a busy daemon.
  \<^item> \<open>Shapes\<close>, \<open>Pinning\<close>: two more invariants of reachable states over that locale: the sizes of the tables
    and the kinds and lengths of tasks (locale \<open>task_invariant\<close>, for predicates on single tasks), and
    that a task in flight holds the resource slots it was submitted with.
  \<^item> \<open>Delivery\<close>, \<open>Liveness\<close>: a completion reaches its owner once and nobody else; ready requests are
    answered; what a full output buffer leads to.
  \<^item> \<open>Client_Socket\<close>, \<open>Client_Library\<close>, \<open>Client_Session\<close>, \<open>Client_Requests\<close>: the client library, its socket loops
    (locale \<open>byte_source\<close>), the order of completions and replies, and the bytes of its requests: a call
    of the library is a \<open>library_call\<close> with the arguments of the caller, \<open>call_bytes\<close> the message it means.
  \<^item> \<open>Handshake\<close>: the client side of the handshake, and the blocking server side beside the one of the
    event loop.
  \<^item> \<open>Logging\<close>: the lines and messages on stderr as strings; the fields of a trace line can be read back.
  \<^item> \<open>Program\<close>: the stop signals, the cleanup of the process and \<open>main\<close>, with the exit status.
  \<^item> \<open>Examples\<close>: the programs of examples/ on top of the client library, and what the copying one does
    with a daemon that answers it.
  \<^item> This theory: the path of a result from the kernel through both programs to the caller.

  \<^bold>\<open>Loops.\<close> Every loop is a total function. The parser loop ends because each round raises the number of
  bytes the parser expects, which is bounded; the loop that reaps completions is driven by the ring and
  is an option-valued function whose \<open>None\<close> is shown not to occur (\<open>turn_returns\<close>); the loops around
  socket calls consume a script, whose end stands for a call that blocks. \<open>iouringd_run\<close> takes a list
  of environments, one for each turn, since the loop of the daemon is meant not to end.

  \<^bold>\<open>Not modelled.\<close> The memory ordering of the ring's shared words (one thread reads and writes them
  between kernel calls); a signal that arrives inside a function of the daemon (signals are a list, and
  what the loop sees of them is the stop flag of the environment); the interleaving of the lines on
  stderr with those of other processes. The structures of api.h that have the layout of another one
  share its record. The header files are otherwise prototypes of the functions that are modelled.
  Memory is not modelled at the level of pointers, apart from the mappings of the ring: a buffer is the
  list of its bytes, and that the lists stay within the arrays is proved. The bytes of a read are put
  into its task when it completes, since the kernel writes them at an unknown time before; the failure
  to allocate the tables of registered files and buffers is part of the result of their registration;
  \<open>daemon_main\<close> takes the log settings, the socket path and the ring as arguments and so holds for those
  of every command line.
\<close>

section \<open>From the kernel to the caller\<close>

lemma positive_result:
  fixes res :: i32
  assumes "0 <s res" and "sint res \<le> 65535"
  shows "unat (ucast res :: u16) = nat (sint res)"
proof -
  have "0 < sint res" using assms(1) by (simp add: word_sless_alt)
  with assms(2) have "uint res = sint res" by (simp add: uint_sint take_bit_int_eq_self)
  then have "unat res = nat (sint res)" by (simp flip: nat_uint_eq)
  with assms(2) show ?thesis by (simp add: unsigned_ucast_eq take_bit_nat_eq_self nat_less_iff)
qed

lemma delivered_completion_ok:
  assumes rec: "record_for t res cp" and pay: "payload_for sys t res cp payload"
    and kind: "tk_task_kind t \<noteq> 0" "tk_task_kind t < 15" "tk_task_kind t \<noteq> IOURINGD_TASK_KIND_ACCEPT"
      "tk_task_kind t \<noteq> IOURINGD_TASK_KIND_SOCK_READ_FIXED"
    and id: "tk_task_id t \<noteq> 0" "tk_task_id t < IOURINGD_TASK_ID_RESERVED_MIN"
    and fits: "is_read_kind (tk_task_kind t) \<longrightarrow> nat (sint res) \<le> unat (tk_io_length t) \<and> unat (tk_io_length t) \<le> 65535"
  shows "completion_ok (cp, payload)"
    and "is_read_kind (tk_task_kind t) \<Longrightarrow> 0 <s res \<Longrightarrow> payload = received_bytes sys (tk_task_id t) (nat (sint res))"
proof -
  have head: "header_is_v1 (cp_header cp)" "\<not> task_id_is_invalid (cp_task cp)" "cp_task_kind cp = tk_task_kind t"
    using rec id by (simp_all add: record_for_def v1_header_def header_is_v1_def task_id_is_invalid_def not_le)
  have res: "is_read_kind (tk_task_kind t) \<Longrightarrow> cp_res cp = res"
    using rec kind(3) by (auto simp: record_for_def is_read_kind_def)
  have len: "cp_payload_length cp = (if is_read_kind (tk_task_kind t) \<and> 0 <s res then ucast res else 0)"
    using rec kind(3) by (simp add: record_for_def)
  have n: "unat (cp_payload_length cp) = nat (sint res)" if "is_read_kind (tk_task_kind t)" "0 <s res"
    using len that fits positive_result [OF that(2)] by auto
  have bytes: "payload = received_bytes sys (tk_task_id t) (nat (sint res))"
    if "is_read_kind (tk_task_kind t)" "0 <s res"
    using pay n [OF that] that fits kind(4) by (auto simp: payload_for_def is_read_kind_def)
  show "is_read_kind (tk_task_kind t) \<Longrightarrow> 0 <s res \<Longrightarrow> payload = received_bytes sys (tk_task_id t) (nat (sint res))"
    by (rule bytes)
  have short: "length payload \<le> unat (cp_payload_length cp)" using pay by (simp add: payload_for_def)
  consider (data) "is_read_kind (tk_task_kind t)" "0 <s res" | (empty) "is_read_kind (tk_task_kind t)" "\<not> 0 <s res"
    | (plain) "\<not> is_read_kind (tk_task_kind t)" by blast
  then show "completion_ok (cp, payload)"
  proof cases
    case data
    moreover from this have "sint res \<le> 65535" "0 \<le> sint res" using fits by (auto simp: word_sless_alt)
    moreover have "length payload = unat (cp_payload_length cp)"
      using bytes [OF data] n [OF data] by (simp add: received_bytes_def)
    ultimately show ?thesis
      using kind head len res by (auto simp: completion_ok_def completion_record_is_valid_def is_read_kind_def)
  next
    case empty
    then have "sint res < 0 \<or> res = 0"
      by (metis linorder_neqE_linordered_idom sint_0 signed_word_eqI word_sless_alt)
    then show ?thesis
      using kind head len short empty res [OF empty(1)]
      by (auto simp: completion_ok_def completion_record_is_valid_def is_read_kind_def not_less)
  next
    case plain
    then show ?thesis
      using kind head len short
      by (simp add: completion_ok_def completion_record_is_valid_def is_read_kind_def not_less not_le)
  qed
qed

text \<open>
  C2: A result travels from the kernel to the caller unchanged. Take a task in flight that is not an
  accept or a read into a registered buffer, whose client is connected, and let the kernel complete
  it with the result \<open>res\<close>, for a read with no more bytes than were asked for. If the bytes that
  \<open>iouringd_complete_task\<close> has added to the client's output arrive at the library, in segments of any
  size, then \<open>iouringd_wait_completion\<close> returns a completion with the identifier and kind of that task
  and, unless it is an openat, with that result; a read leaves in the library's payload list exactly
  the bytes the kernel has put in the daemon's buffer, and nothing is left in the stream.
\<close>

theorem completion_reaches_caller:
  assumes "daemon_ok rt" and "n < 64" and "t = task_at rt n" and "tk_active t"
    and "i = tk_client_index t" and "0 \<le> cl_fd (client_at rt i)"
    and "iouringd_complete_task sys n res rt = (Inr (), rt')"
    and "tk_task_kind t \<noteq> 0" and "tk_task_kind t < IOURINGD_TASK_KIND_MAX_V1"
    and "tk_task_kind t \<noteq> IOURINGD_TASK_KIND_ACCEPT" and "tk_task_kind t \<noteq> IOURINGD_TASK_KIND_SOCK_READ_FIXED"
    and "tk_task_id t < IOURINGD_TASK_ID_RESERVED_MIN"
    and "is_read_kind (tk_task_kind t) \<longrightarrow> nat (sint res) \<le> unat (tk_io_length t) \<and> unat (tk_io_length t) \<le> 65535"
    and "output_pending (client_at rt' i) = output_pending (client_at rt i) @ bs"
    and "0 \<le> fd" and "receives fd L bs" and "\<forall>b \<in> set (lb_completions L). bc_fd b \<noteq> fd"
  shows "\<exists>cp payload L'. iouringd_wait_completion fd True L = (Inr cp, L')
    \<and> cp_task cp = tk_task_id t \<and> cp_task_kind cp = tk_task_kind t
    \<and> (tk_task_kind t \<noteq> IOURINGD_TASK_KIND_OPENAT \<longrightarrow> cp_res cp = res)
    \<and> lb_payloads L' = lb_payloads L @ payload_entry fd (cp, payload)
    \<and> (is_read_kind (tk_task_kind t) \<and> 0 <s res \<longrightarrow> payload = received_bytes sys (tk_task_id t) (nat (sint res)))
    \<and> receives fd L' []"
proof -
  from complete_task_output [OF assms(1,2) _ assms(7)] assms(3-5) obtain cp payload
    where rec: "record_for t res cp" and pay: "payload_for sys t res cp payload"
      and out: "output_pending (client_at rt' i) = output_pending (client_at rt i)
        @ (if 0 \<le> cl_fd (client_at rt i) then enc_completion_record cp @ payload else [])" by metis
  from out assms(6,14) have bs: "bs = completion_wire (cp, payload)" by (simp add: completion_wire_def)
  have "task_ok (core_of rt) t"
    using core_ok_task [OF daemon_okD(1) [OF assms(1)] assms(2)] assms(3,4) by (simp add: core_length)
  then have id: "tk_task_id t \<noteq> 0" by (simp add: task_ok_def)
  note ok = delivered_completion_ok [OF rec pay assms(8-11) id assms(12,13)]
  have "inbox fd [] L [(cp, payload)]"
    unfolding inbox_def using ok(1) assms(16,17) bs
    by (intro exI [of _ "[]"] exI [of _ "[(cp, payload)]"]) (auto simp: filter_empty_conv)
  from wait_completion_oldest [OF assms(15) this] obtain L' where L': "iouringd_wait_completion fd True L = (Inr cp, L')"
    "inbox fd [] L' []" "lb_payloads L' = lb_payloads L @ payload_entry fd (cp, payload)" by auto
  have "receives fd L' []" using L'(2) by (simp add: inbox_def)
  with L'(1,3) rec ok(2) assms(10) show ?thesis
    by (intro exI [of _ cp] exI [of _ payload] exI [of _ L']) (simp add: record_for_def)
qed

theorem completion_reaches_caller_witness:
  "\<exists>rt rt' bs cp L'. iouringd_complete_task demo_sys 0 0 rt = (Inr (), rt')
     \<and> output_pending (client_at rt' 0) = output_pending (client_at rt 0) @ bs
     \<and> iouringd_wait_completion 3 True (demo_library bs) = (Inr cp, L') \<and> cp_task cp = 1 \<and> cp_res cp = 0"
proof -
  obtain rt rt' where ok: "daemon_ok rt" and act: "tk_active (task_at rt 0)" and cl: "tk_client_index (task_at rt 0) = 0"
    and fd: "cl_fd (client_at rt 0) = 5" and t: "tk_task_kind (task_at rt 0) = IOURINGD_TASK_KIND_NOP"
      "tk_task_id (task_at rt 0) = 1" and out: "iouringd_complete_task demo_sys 0 0 rt = (Inr (), rt')"
    by (rule demo_completes)
  obtain bs where bs: "output_pending (client_at rt' 0) = output_pending (client_at rt 0) @ bs"
    using complete_task_output [OF ok _ act out cl [symmetric]] by auto
  have "\<exists>cp payload L'. iouringd_wait_completion 3 True (demo_library bs) = (Inr cp, L')
    \<and> cp_task cp = tk_task_id (task_at rt 0) \<and> cp_task_kind cp = tk_task_kind (task_at rt 0)
    \<and> (tk_task_kind (task_at rt 0) \<noteq> IOURINGD_TASK_KIND_OPENAT \<longrightarrow> cp_res cp = 0)
    \<and> lb_payloads L' = lb_payloads (demo_library bs) @ payload_entry 3 (cp, payload)
    \<and> (is_read_kind (tk_task_kind (task_at rt 0)) \<and> 0 <s (0 :: i32) \<longrightarrow>
         payload = received_bytes demo_sys (tk_task_id (task_at rt 0)) (nat (sint (0 :: i32))))
    \<and> receives 3 L' []"
    by (rule completion_reaches_caller [OF ok _ refl act cl [symmetric] _ out _ _ _ _ _ _ bs _ demo_receives])
      (simp_all add: fd t is_read_kind_def demo_library_def)
  then obtain cp L' where "iouringd_wait_completion 3 True (demo_library bs) = (Inr cp, L')" "cp_task cp = 1" "cp_res cp = 0"
    using t by auto
  with out bs show ?thesis by blast
qed

end
